(* ===== verification/Rust_Prelude.thy ===== *)
theory Rust_Prelude
  imports Main "HOL-Library.Word" "HOL-Library.State_Monad" "HOL-Library.Monad_Syntax"
begin

text \<open>
  What every theory of the development shares: the Rust integer types at their width,
  the keyed-table operations the database model is made of, the weakest-precondition
  calculus over \<open>HOL-Library.State_Monad\<close> that the handlers are reasoned about with,
  and the collections of facts that automation uses.
\<close>

named_theorems wp_simps \<open>equations that push \<open>wp\<close> through the handlers' control flow\<close>
named_theorems db_simps \<open>equations of the database model's statements\<close>

section \<open>Machine integers\<close>

type_synonym u16 = "16 word"
type_synonym u32 = "32 word"
type_synonym i32 = "32 word"
type_synonym u64 = "64 word"
type_synonym i64 = "64 word"

text \<open>
  Signed values are words read with \<open>sint\<close>; \<open>+\<close> and \<open>-\<close> wrap, as the release profile
  does. \<open>as u64\<close> of an \<open>i32\<close> sign-extends.
\<close>

definition i32_as_u64 :: "i32 \<Rightarrow> nat" where
  "i32_as_u64 n = unat (scast n :: u64)"

definition i32_max :: "i32 \<Rightarrow> i32 \<Rightarrow> i32" where
  "i32_max a b = (if sint a \<le> sint b then b else a)"

lemma uint_scast_i32: "uint (scast (n :: i32) :: u64) = sint n mod 2 ^ 64"
  unfolding scast_eq uint_word_of_int by simp

lemma i32_as_u64_nonneg:
  assumes "0 \<le> sint n"
  shows "i32_as_u64 n = nat (sint n)"
proof -
  have "sint n < 2 ^ 31" using sint_lt[of n] by simp
  then have "sint n < 2 ^ 64" by simp
  with assms have "uint (scast n :: u64) = sint n"
    unfolding uint_scast_i32 by simp
  then have "nat (uint (scast n :: u64)) = nat (sint n)" by simp
  then show ?thesis by (simp add: i32_as_u64_def)
qed

lemma i32_as_u64_negative:
  assumes "sint n < 0"
  shows "2 ^ 63 \<le> i32_as_u64 n"
proof -
  have r: "- (2 ^ 31) \<le> sint n" using sint_ge[of n] by simp
  have "uint (scast n :: u64) = (sint n + 2 ^ 64) mod 2 ^ 64"
    unfolding uint_scast_i32 by (rule mod_add_self2[symmetric])
  also have "\<dots> = sint n + 2 ^ 64"
  proof (rule mod_pos_pos_trivial)
    show "0 \<le> sint n + 2 ^ 64" using r by simp
    show "sint n + 2 ^ 64 < 2 ^ 64" using assms by simp
  qed
  finally have u: "uint (scast n :: u64) = sint n + 2 ^ 64" .
  have "(2 ^ 63 :: int) \<le> uint (scast n :: u64)" unfolding u using r by simp
  then have "int (2 ^ 63) \<le> int (unat (scast n :: u64))" by simp
  then show ?thesis unfolding i32_as_u64_def by (simp only: of_nat_le_iff)
qed

lemma i32_max_ge: "sint a \<le> sint (i32_max a b)" "sint b \<le> sint (i32_max a b)"
  by (auto simp: i32_max_def)

section \<open>Tables keyed by an identifier\<close>

text \<open>
  A table is the list of its rows in the order the database returns them. The key of a
  row is read by the function \<open>k\<close>.
\<close>

definition row_get :: "('r \<Rightarrow> 'k) \<Rightarrow> 'k \<Rightarrow> 'r list \<Rightarrow> 'r option" where
  "row_get k i t = find (\<lambda>r. k r = i) t"

definition row_upd :: "('r \<Rightarrow> 'k) \<Rightarrow> 'k \<Rightarrow> ('r \<Rightarrow> 'r) \<Rightarrow> 'r list \<Rightarrow> 'r list" where
  "row_upd k i f t = map (\<lambda>r. if k r = i then f r else r) t"

definition row_del :: "('r \<Rightarrow> 'k) \<Rightarrow> 'k \<Rightarrow> 'r list \<Rightarrow> 'r list" where
  "row_del k i t = filter (\<lambda>r. k r \<noteq> i) t"

lemma row_get_SomeD: "row_get k i t = Some r \<Longrightarrow> r \<in> set t \<and> k r = i"
  by (auto simp: row_get_def find_Some_iff)

lemma row_get_None_iff: "row_get k i t = None \<longleftrightarrow> i \<notin> k ` set t"
  by (auto simp: row_get_def find_None_iff)

lemma row_get_distinct:
  "distinct (map k t) \<Longrightarrow> r \<in> set t \<Longrightarrow> row_get k (k r) t = Some r"
  by (induction t) (auto simp: row_get_def)

lemma row_get_row_upd:
  "(\<And>r. k (f r) = k r) \<Longrightarrow>
   row_get k j (row_upd k i f t) = (if j = i then map_option f (row_get k j t) else row_get k j t)"
  by (induction t) (auto simp: row_get_def row_upd_def)

lemma row_get_row_del:
  "row_get k j (row_del k i t) = (if j = i then None else row_get k j t)"
  by (induction t) (auto simp: row_get_def row_del_def)

lemma row_get_append:
  "row_get k j (t @ u) = (case row_get k j t of None \<Rightarrow> row_get k j u | Some r \<Rightarrow> Some r)"
  by (induction t) (auto simp: row_get_def)

lemma set_row_del: "set (row_del k i t) = {r \<in> set t. k r \<noteq> i}"
  by (auto simp: row_del_def)

lemma set_row_upd: "set (row_upd k i f t) = (\<lambda>r. if k r = i then f r else r) ` set t"
  by (simp add: row_upd_def)

lemma keys_row_upd:
  "(\<And>r. k (f r) = k r) \<Longrightarrow> map k (row_upd k i f t) = map k t"
  by (induction t) (auto simp: row_upd_def)

lemma keys_row_del: "map k (row_del k i t) = filter (\<lambda>j. j \<noteq> i) (map k t)"
  by (induction t) (auto simp: row_del_def)

lemma distinct_row_del: "distinct (map k t) \<Longrightarrow> distinct (map k (row_del k i t))"
  by (simp add: keys_row_del)

lemma row_del_absent: "i \<notin> k ` set t \<Longrightarrow> row_del k i t = t"
  by (auto simp: row_del_def filter_id_conv)

lemma row_del_append: "row_del k i (t @ u) = row_del k i t @ row_del k i u"
  by (simp add: row_del_def)

lemma row_upd_id: "row_upd k i (\<lambda>r. r) t = t"
  by (simp add: row_upd_def)

section \<open>Weakest preconditions over the state monad\<close>

definition wp :: "('s, 'a) state \<Rightarrow> ('a \<Rightarrow> 's \<Rightarrow> bool) \<Rightarrow> 's \<Rightarrow> bool" where
  "wp m Q s = (case run_state m s of (x, s') \<Rightarrow> Q x s')"

lemma wp_return [wp_simps, simp]: "wp (State_Monad.return x) Q s = Q x s"
  by (simp add: wp_def State_Monad.return_def)

lemma wp_bind [wp_simps, simp]:
  "wp (State_Monad.bind m f) Q s = wp m (\<lambda>x. wp (f x) Q) s"
  by (cases "run_state m s") (simp add: wp_def State_Monad.bind_def)

lemma wp_State [wp_simps]: "wp (State f) Q s = (case f s of (x, s') \<Rightarrow> Q x s')"
  by (simp add: wp_def)

lemma wp_if [wp_simps, simp]:
  "wp (if b then m else n) Q s = (if b then wp m Q s else wp n Q s)"
  by simp

lemma wp_option [wp_simps, simp]:
  "wp (case x of None \<Rightarrow> m | Some y \<Rightarrow> n y) Q s =
   (case x of None \<Rightarrow> wp m Q s | Some y \<Rightarrow> wp (n y) Q s)"
  by (cases x) simp_all

lemma wp_sum [wp_simps, simp]:
  "wp (case x of Inl y \<Rightarrow> m y | Inr z \<Rightarrow> n z) Q s =
   (case x of Inl y \<Rightarrow> wp (m y) Q s | Inr z \<Rightarrow> wp (n z) Q s)"
  by (cases x) simp_all

lemma wp_prod [wp_simps, simp]:
  "wp (case x of (y, z) \<Rightarrow> m y z) Q s = (case x of (y, z) \<Rightarrow> wp (m y z) Q s)"
  by (cases x) simp_all

lemma wp_list [wp_simps, simp]:
  "wp (case xs of [] \<Rightarrow> m | y # ys \<Rightarrow> n y ys) Q s =
   (case xs of [] \<Rightarrow> wp m Q s | y # ys \<Rightarrow> wp (n y ys) Q s)"
  by (cases xs) simp_all

lemma wp_let [wp_simps, simp]: "wp (Let x f) Q s = (let y = x in wp (f y) Q s)"
  by simp

lemma wp_mono: "wp m P s \<Longrightarrow> (\<And>x s'. P x s' \<Longrightarrow> Q x s') \<Longrightarrow> wp m Q s"
  by (auto simp: wp_def split: prod.splits)

lemma wp_runD: "wp m Q s \<Longrightarrow> run_state m s = (x, s') \<Longrightarrow> Q x s'"
  by (simp add: wp_def)

lemma wp_runI: "(\<And>x s'. run_state m s = (x, s') \<Longrightarrow> Q x s') \<Longrightarrow> wp m Q s"
  by (auto simp: wp_def split: prod.splits)

lemma wp_conj: "wp m (\<lambda>x s. P x s \<and> Q x s) s \<longleftrightarrow> wp m P s \<and> wp m Q s"
  by (auto simp: wp_def split: prod.splits)

lemma wp_both:
  "wp m P s \<Longrightarrow> wp m Q s \<Longrightarrow> (\<And>x s'. P x s' \<Longrightarrow> Q x s' \<Longrightarrow> R x s') \<Longrightarrow> wp m R s"
  by (auto simp: wp_def split: prod.splits)

text \<open>A program that keeps a predicate of the state, whatever it returns.\<close>

definition keeps :: "('s \<Rightarrow> bool) \<Rightarrow> ('s, 'a) state \<Rightarrow> bool" where
  "keeps P m \<longleftrightarrow> (\<forall>s. P s \<longrightarrow> wp m (\<lambda>_. P) s)"

lemma keepsD: "keeps P m \<Longrightarrow> P s \<Longrightarrow> wp m (\<lambda>_. P) s"
  by (simp add: keeps_def)

lemma keeps_runD: "keeps P m \<Longrightarrow> P s \<Longrightarrow> run_state m s = (x, s') \<Longrightarrow> P s'"
  by (auto simp: keeps_def dest: wp_runD)

lemma keeps_return [intro!]: "keeps P (State_Monad.return x)"
  by (simp add: keeps_def)

lemma keeps_bind [intro!]:
  "keeps P m \<Longrightarrow> (\<And>x. keeps P (f x)) \<Longrightarrow> keeps P (State_Monad.bind m f)"
  by (auto simp: keeps_def elim!: wp_mono)

lemma keeps_if [intro!]:
  "(b \<Longrightarrow> keeps P m) \<Longrightarrow> (\<not> b \<Longrightarrow> keeps P n) \<Longrightarrow> keeps P (if b then m else n)"
  by simp

lemma keeps_option [intro!]:
  "(x = None \<Longrightarrow> keeps P m) \<Longrightarrow> (\<And>y. x = Some y \<Longrightarrow> keeps P (n y)) \<Longrightarrow>
   keeps P (case x of None \<Rightarrow> m | Some y \<Rightarrow> n y)"
  by (cases x) simp_all

lemma keeps_sum [intro!]:
  "(\<And>y. x = Inl y \<Longrightarrow> keeps P (m y)) \<Longrightarrow> (\<And>z. x = Inr z \<Longrightarrow> keeps P (n z)) \<Longrightarrow>
   keeps P (case x of Inl y \<Rightarrow> m y | Inr z \<Rightarrow> n z)"
  by (cases x) simp_all

lemma keeps_prod [intro!]:
  "(\<And>y z. x = (y, z) \<Longrightarrow> keeps P (m y z)) \<Longrightarrow> keeps P (case x of (y, z) \<Rightarrow> m y z)"
  by (cases x) simp_all

lemma keeps_list [intro!]:
  "(xs = [] \<Longrightarrow> keeps P m) \<Longrightarrow> (\<And>y ys. xs = y # ys \<Longrightarrow> keeps P (n y ys)) \<Longrightarrow>
   keeps P (case xs of [] \<Rightarrow> m | y # ys \<Rightarrow> n y ys)"
  by (cases xs) simp_all

lemma keeps_let [intro!]: "(\<And>y. y = x \<Longrightarrow> keeps P (f y)) \<Longrightarrow> keeps P (Let x f)"
  by simp

end
