(* ===== verification/Rust_Str.thy ===== *)
theory Rust_Str
  imports Rust_Prelude
begin

text \<open>
  The part of Rust's \<open>str\<close> the program uses. A \<open>str\<close> is the list of its UTF-8 bytes, so
  \<open>len()\<close> is the length of the list; trimming removes the encodings of the Unicode
  characters with the property White\_Space.
\<close>

section \<open>Prefixes and trimming\<close>

fun strip_prefix :: "string \<Rightarrow> string \<Rightarrow> string option" where
  "strip_prefix [] s = Some s"
| "strip_prefix (p # ps) [] = None"
| "strip_prefix (p # ps) (c # s) = (if p = c then strip_prefix ps s else None)"

definition strip_suffix :: "string \<Rightarrow> string \<Rightarrow> string option" where
  "strip_suffix p s = map_option rev (strip_prefix (rev p) (rev s))"

definition ws_seqs :: "string list" where
  "ws_seqs =
    [[CHR 0x09], [CHR 0x0A], [CHR 0x0B], [CHR 0x0C], [CHR 0x0D], [CHR 0x20],
     [CHR 0xC2, CHR 0x85], [CHR 0xC2, CHR 0xA0], [CHR 0xE1, CHR 0x9A, CHR 0x80],
     [CHR 0xE2, CHR 0x80, CHR 0x80], [CHR 0xE2, CHR 0x80, CHR 0x81],
     [CHR 0xE2, CHR 0x80, CHR 0x82], [CHR 0xE2, CHR 0x80, CHR 0x83],
     [CHR 0xE2, CHR 0x80, CHR 0x84], [CHR 0xE2, CHR 0x80, CHR 0x85],
     [CHR 0xE2, CHR 0x80, CHR 0x86], [CHR 0xE2, CHR 0x80, CHR 0x87],
     [CHR 0xE2, CHR 0x80, CHR 0x88], [CHR 0xE2, CHR 0x80, CHR 0x89],
     [CHR 0xE2, CHR 0x80, CHR 0x8A], [CHR 0xE2, CHR 0x80, CHR 0xA8],
     [CHR 0xE2, CHR 0x80, CHR 0xA9], [CHR 0xE2, CHR 0x80, CHR 0xAF],
     [CHR 0xE2, CHR 0x81, CHR 0x9F], [CHR 0xE3, CHR 0x80, CHR 0x80]]"

fun strip_any :: "string list \<Rightarrow> string \<Rightarrow> string option" where
  "strip_any [] s = None"
| "strip_any (w # ws) s = (case strip_prefix w s of Some r \<Rightarrow> Some r | None \<Rightarrow> strip_any ws s)"

lemma strip_prefix_Some_iff: "strip_prefix p s = Some r \<longleftrightarrow> s = p @ r"
  by (induction p s rule: strip_prefix.induct) auto

lemma strip_any_SomeD: "strip_any ws s = Some r \<Longrightarrow> \<exists>w \<in> set ws. s = w @ r"
  by (induction ws) (auto simp: strip_prefix_Some_iff split: option.splits)

function trim_seqs :: "string list \<Rightarrow> string \<Rightarrow> string" where
  "trim_seqs ws s =
    (case strip_any (filter (\<lambda>w. w \<noteq> []) ws) s of None \<Rightarrow> s | Some r \<Rightarrow> trim_seqs ws r)"
  by pat_completeness auto
termination
  by (relation "measure (\<lambda>(ws, s). length s)") (auto dest!: strip_any_SomeD)

declare trim_seqs.simps [simp del]

definition trim_start :: "string \<Rightarrow> string" where
  "trim_start s = trim_seqs ws_seqs s"

definition trim_end :: "string \<Rightarrow> string" where
  "trim_end s = rev (trim_seqs (map rev ws_seqs) (rev s))"

definition str_trim :: "string \<Rightarrow> string" where
  "str_trim s = trim_end (trim_start s)"

definition starts_with_ws :: "string \<Rightarrow> bool" where
  "starts_with_ws s = (strip_any ws_seqs s \<noteq> None)"

text \<open>A byte that neither begins nor ends the encoding of a white-space character.\<close>

definition solid :: "char \<Rightarrow> bool" where
  "solid c = (c \<notin> hd ` set ws_seqs \<and> c \<notin> last ` set ws_seqs)"

lemma strip_any_solid:
  "(\<And>w. w \<in> set ws \<Longrightarrow> w \<noteq> []) \<Longrightarrow> s \<noteq> [] \<Longrightarrow> hd s \<notin> hd ` set ws \<Longrightarrow> strip_any ws s = None"
proof (induction ws)
  case (Cons w ws)
  from Cons.prems obtain a u where "w = a # u" by (cases w) auto
  moreover from Cons.prems obtain b v where "s = b # v" by (cases s) auto
  ultimately show ?case using Cons by auto
qed simp

lemma trim_seqs_solid:
  assumes "\<And>w. w \<in> set ws \<Longrightarrow> w \<noteq> []" "s = [] \<or> hd s \<notin> hd ` set ws"
  shows "trim_seqs ws s = s"
proof -
  have "strip_any (filter (\<lambda>w. w \<noteq> []) ws) s = None"
  proof (cases "s = []")
    case True
    have "strip_any vs [] = None" if "\<forall>w \<in> set vs. w \<noteq> []" for vs
      using that
    proof (induction vs)
      case (Cons v vs)
      then show ?case by (cases v) auto
    qed simp
    with True show ?thesis by auto
  next
    case False
    then show ?thesis using assms by (intro strip_any_solid) auto
  qed
  then show ?thesis by (simp add: trim_seqs.simps)
qed

lemma ws_seqs_nonempty: "w \<in> set ws_seqs \<Longrightarrow> w \<noteq> []"
  by (auto simp: ws_seqs_def)

lemma str_trim_solid:
  assumes "\<forall>c \<in> set s. solid c"
  shows "str_trim s = s"
proof -
  have 1: "trim_start s = s"
    unfolding trim_start_def
  proof (rule trim_seqs_solid)
    show "s = [] \<or> hd s \<notin> hd ` set ws_seqs"
      using assms hd_in_set[of s] unfolding solid_def by blast
  qed (rule ws_seqs_nonempty)
  have last: "hd ` set (map rev ws_seqs) = last ` set ws_seqs"
  proof -
    have "hd ` set (map rev ws_seqs) = (\<lambda>w. hd (rev w)) ` set ws_seqs"
      by (simp add: image_image)
    then show ?thesis by (simp add: hd_rev)
  qed
  have "trim_seqs (map rev ws_seqs) (rev s) = rev s"
  proof (rule trim_seqs_solid)
    show "w \<noteq> []" if "w \<in> set (map rev ws_seqs)" for w
      using that ws_seqs_nonempty by auto
    show "rev s = [] \<or> hd (rev s) \<notin> hd ` set (map rev ws_seqs)"
    proof (cases "s = []")
      case False
      then have "last s \<in> set s" by simp
      with assms have "solid (last s)" by blast
      then show ?thesis unfolding last solid_def by (simp add: hd_rev)
    qed simp
  qed
  then show ?thesis by (simp add: str_trim_def trim_end_def 1)
qed

section \<open>Splitting at a byte\<close>

fun split_char :: "char \<Rightarrow> string \<Rightarrow> string list" where
  "split_char c [] = [[]]"
| "split_char c (x # xs) =
    (if x = c then [] # split_char c xs
     else (x # hd (split_char c xs)) # tl (split_char c xs))"

fun join_char :: "char \<Rightarrow> string list \<Rightarrow> string" where
  "join_char c [] = []"
| "join_char c [w] = w"
| "join_char c (w # ws) = w @ c # join_char c ws"

lemma split_char_nonempty [simp]: "split_char c s \<noteq> []"
  by (cases s) auto

lemma join_split: "join_char c (split_char c s) = s"
proof (induction s)
  case (Cons x xs)
  obtain w ws where w: "split_char c xs = w # ws"
    by (cases "split_char c xs") auto
  with Cons show ?case by (cases ws) auto
qed simp

lemma split_char_no_sep: "w \<in> set (split_char c s) \<Longrightarrow> c \<notin> set w"
proof (induction s arbitrary: w)
  case (Cons x xs)
  obtain v vs where "split_char c xs = v # vs"
    by (cases "split_char c xs") auto
  with Cons show ?case by (auto split: if_splits)
qed simp

lemma set_split_char: "w \<in> set (split_char c s) \<Longrightarrow> set w \<subseteq> set s"
proof (induction s arbitrary: w)
  case (Cons x xs)
  obtain v vs where "split_char c xs = v # vs"
    by (cases "split_char c xs") auto
  with Cons show ?case by (fastforce split: if_splits)
qed simp

lemma in_split_char: "x \<in> set s \<Longrightarrow> x \<noteq> c \<Longrightarrow> \<exists>w \<in> set (split_char c s). x \<in> set w"
proof (induction s)
  case (Cons y ys)
  obtain v vs where "split_char c ys = v # vs"
    by (cases "split_char c ys") auto
  with Cons show ?case by auto
qed simp

lemma split_char_last: "last (split_char c (s @ [c])) = []"
proof (induction s)
  case (Cons x xs)
  obtain v vs where v: "split_char c (xs @ [c]) = v # vs"
    by (cases "split_char c (xs @ [c])") auto
  have "vs \<noteq> []"
  proof (cases xs)
    case (Cons y ys)
    then show ?thesis
    proof -
      have "c \<in> set (xs @ [c])" by simp
      moreover have "vs = [] \<Longrightarrow> xs @ [c] = v"
        using join_split[of c "xs @ [c]"] v by simp
      ultimately show ?thesis using split_char_no_sep[of v c "xs @ [c]"] v by auto
    qed
  qed (use v in auto)
  with Cons v show ?case by auto
qed simp

section \<open>Decimal numbers\<close>

definition is_digit :: "char \<Rightarrow> bool" where
  "is_digit c = (48 \<le> (of_char c :: nat) \<and> (of_char c :: nat) \<le> 57)"

fun parse_acc :: "nat \<Rightarrow> string \<Rightarrow> nat option" where
  "parse_acc n [] = Some n"
| "parse_acc n (c # cs) =
    (if is_digit c then parse_acc (10 * n + (of_char c - 48)) cs else None)"

definition parse_digits :: "string \<Rightarrow> nat option" where
  "parse_digits s = (if s = [] then None else parse_acc 0 s)"

text \<open>
  \<open>str::parse\<close> of an unsigned type: an optional \<open>+\<close>, then at least one digit, and the value
  at most \<open>m\<close>. Of \<open>i64\<close>: an optional sign.
\<close>

definition parse_unsigned :: "nat \<Rightarrow> string \<Rightarrow> nat option" where
  "parse_unsigned m s =
    (case parse_digits (case s of c # cs \<Rightarrow> if c = CHR ''+'' then cs else s | [] \<Rightarrow> s) of
       None \<Rightarrow> None
     | Some n \<Rightarrow> if n \<le> m then Some n else None)"

definition parse_u16 :: "string \<Rightarrow> u16 option" where
  "parse_u16 s = map_option of_nat (parse_unsigned 65535 s)"

definition parse_i64 :: "string \<Rightarrow> int option" where
  "parse_i64 s =
    (case s of
       c # cs \<Rightarrow>
         if c = CHR ''-'' then
           (case parse_digits cs of
              None \<Rightarrow> None
            | Some n \<Rightarrow> if n \<le> 2 ^ 63 then Some (- int n) else None)
         else map_option int (parse_unsigned (2 ^ 63 - 1) s)
     | [] \<Rightarrow> None)"

definition digit_char :: "nat \<Rightarrow> char" where
  "digit_char d = char_of (48 + d)"

fun nat_str :: "nat \<Rightarrow> string" where
  "nat_str n = (if n < 10 then [digit_char n] else nat_str (n div 10) @ [digit_char (n mod 10)])"

declare nat_str.simps [simp del]

definition int_str :: "int \<Rightarrow> string" where
  "int_str i = (if i < 0 then CHR ''-'' # nat_str (nat (- i)) else nat_str (nat i))"

definition u16_str :: "u16 \<Rightarrow> string" where
  "u16_str p = nat_str (unat p)"

lemma of_char_digit: "d < 10 \<Longrightarrow> of_char (digit_char d) = 48 + d"
  by (simp add: digit_char_def of_char_of)

lemma is_digit_digit_char [simp]: "d < 10 \<Longrightarrow> is_digit (digit_char d)"
  by (simp add: is_digit_def of_char_digit)

lemma parse_acc_append:
  "parse_acc n (s @ t) = (case parse_acc n s of None \<Rightarrow> None | Some m \<Rightarrow> parse_acc m t)"
  by (induction s arbitrary: n) auto

lemma nat_str_nonempty [simp]: "nat_str n \<noteq> []"
  by (subst nat_str.simps) simp

lemma parse_acc_nat_str: "parse_acc 0 (nat_str n) = Some n"
proof (induction n rule: nat_str.induct)
  case (1 n)
  show ?case
  proof (cases "n < 10")
    case True
    then show ?thesis by (subst nat_str.simps) (simp add: of_char_digit)
  next
    case False
    then have "parse_acc 0 (nat_str (n div 10)) = Some (n div 10)" using 1 by simp
    with False show ?thesis
      by (subst nat_str.simps) (simp add: parse_acc_append of_char_digit)
  qed
qed

lemma nat_str_digits: "c \<in> set (nat_str n) \<Longrightarrow> is_digit c"
proof (induction n rule: nat_str.induct)
  case (1 n)
  then show ?case
    by (cases "n < 10") (auto simp: nat_str.simps[of n])
qed

lemma parse_digits_nat_str: "parse_digits (nat_str n) = Some n"
  by (simp add: parse_digits_def parse_acc_nat_str)

lemma parse_unsigned_nat_str: "n \<le> m \<Longrightarrow> parse_unsigned m (nat_str n) = Some n"
proof -
  assume "n \<le> m"
  moreover obtain c cs where c: "nat_str n = c # cs" by (cases "nat_str n") auto
  then have "is_digit c" using nat_str_digits[of c n] by simp
  then have "c \<noteq> CHR ''+''" by (auto simp: is_digit_def)
  ultimately show ?thesis
    using c parse_digits_nat_str[of n] by (simp add: parse_unsigned_def)
qed

text \<open>Printing an identifier and reading it back gives the identifier.\<close>

lemma parse_i64_int_str:
  assumes "- (2 ^ 63) \<le> i" "i < 2 ^ 63"
  shows "parse_i64 (int_str i) = Some i"
proof (cases "i < 0")
  case True
  have "nat (- i) \<le> nat (2 ^ 63)" using assms by (intro nat_mono) simp
  with True show ?thesis
    by (simp add: parse_i64_def int_str_def parse_digits_nat_str nat_power_eq)
next
  case False
  have "nat i \<le> 2 ^ 63 - 1" using False assms by (simp add: nat_le_iff of_nat_diff)
  moreover obtain c cs where c: "nat_str (nat i) = c # cs" by (cases "nat_str (nat i)") auto
  then have "is_digit c" using nat_str_digits[of c "nat i"] by simp
  then have "c \<noteq> CHR ''-''" by (auto simp: is_digit_def)
  ultimately show ?thesis
    using False c parse_unsigned_nat_str[of "nat i" "2 ^ 63 - 1"]
    by (simp add: parse_i64_def int_str_def)
qed

lemma int_str_inj:
  assumes "- (2 ^ 63) \<le> i" "i < 2 ^ 63" "- (2 ^ 63) \<le> j" "j < 2 ^ 63" "int_str i = int_str j"
  shows "i = j"
  using parse_i64_int_str[OF assms(1,2)] parse_i64_int_str[OF assms(3,4)]
  unfolding assms(5) by (rule option.inject[THEN iffD1, OF trans[OF sym]])

lemma parse_i64_range:
  assumes "parse_i64 s = Some i"
  shows "- (2 ^ 63) \<le> i \<and> i < 2 ^ 63"
proof (cases s)
  case (Cons c cs)
  show ?thesis
  proof (cases "c = CHR ''-''")
    case True
    with assms Cons obtain n where n: "n \<le> 2 ^ 63" "i = - int n"
      by (auto simp: parse_i64_def split: option.splits if_splits)
    have "int n \<le> int (2 ^ 63)" using n(1) by (simp only: of_nat_le_iff)
    with n(2) show ?thesis by simp
  next
    case False
    with assms Cons obtain n where n: "n \<le> 2 ^ 63 - 1" "i = int n"
      by (auto simp: parse_i64_def parse_unsigned_def split: option.splits if_splits)
    then show ?thesis by simp
  qed
qed (use assms in \<open>simp add: parse_i64_def\<close>)

lemma parse_u16_u16_str: "parse_u16 (u16_str p) = Some p"
proof -
  have "unat p < 2 ^ 16" using unsigned_less[of p] by simp
  then have "unat p \<le> 65535" by simp
  then show ?thesis by (simp add: parse_u16_def u16_str_def parse_unsigned_nat_str)
qed

section \<open>ASCII classes\<close>

definition is_upper :: "char \<Rightarrow> bool" where
  "is_upper c = (65 \<le> (of_char c :: nat) \<and> (of_char c :: nat) \<le> 90)"

definition is_lower :: "char \<Rightarrow> bool" where
  "is_lower c = (97 \<le> (of_char c :: nat) \<and> (of_char c :: nat) \<le> 122)"

definition is_alnum :: "char \<Rightarrow> bool" where
  "is_alnum c = (is_digit c \<or> is_upper c \<or> is_lower c)"

definition lower_char :: "char \<Rightarrow> char" where
  "lower_char c = (if is_upper c then char_of ((of_char c :: nat) + 32) else c)"

definition to_lower :: "string \<Rightarrow> string" where
  "to_lower s = map lower_char s"

lemma lower_char_not_upper [simp]: "\<not> is_upper (lower_char c)"
  by (auto simp: lower_char_def is_upper_def of_char_of)

lemma to_lower_id: "\<forall>c \<in> set s. \<not> is_upper c \<Longrightarrow> to_lower s = s"
  by (simp add: to_lower_def lower_char_def map_idI)

lemma to_lower_no_upper: "c \<in> set (to_lower s) \<Longrightarrow> \<not> is_upper c"
  by (auto simp: to_lower_def)

lemma split_char_append: "c \<notin> set s \<Longrightarrow> split_char c (s @ c # t) = s # split_char c t"
  by (induction s) auto

end
