(* ===== verification/Domain.thy ===== *)
theory Domain
  imports Rust_Str
begin

text \<open>
  \<open>common/src/domain.rs\<close>: the normal form of DNS names and wildcard patterns, the lookup of a
  host in the shared HTTP/TLS routing table, and the rule by which two proxies on one port
  conflict. The first part is the text syntax of \<open>std::net::IpAddr\<close>, which
  \<open>normalize_domain\<close> excludes.
\<close>

section \<open>Textual IP addresses\<close>

fun read_run :: "(char \<Rightarrow> bool) \<Rightarrow> string \<Rightarrow> string \<times> string" where
  "read_run p [] = ([], [])"
| "read_run p (c # cs) = (if p c then (case read_run p cs of (a, b) \<Rightarrow> (c # a, b)) else ([], c # cs))"

definition read_octet :: "string \<Rightarrow> string option" where
  "read_octet s =
    (case read_run is_digit s of (ds, rest) \<Rightarrow>
       if ds = [] \<or> length ds > 3 \<or> (length ds > 1 \<and> hd ds = CHR ''0'') then None
       else (case parse_digits ds of
               Some n \<Rightarrow> if n \<le> 255 then Some rest else None
             | None \<Rightarrow> None))"

definition read_char :: "char \<Rightarrow> string \<Rightarrow> string option" where
  "read_char c s = (case s of x # xs \<Rightarrow> if x = c then Some xs else None | [] \<Rightarrow> None)"

definition read_ipv4 :: "string \<Rightarrow> string option" where
  "read_ipv4 s =
    do { a \<leftarrow> read_octet s; a \<leftarrow> read_char CHR ''.'' a;
         b \<leftarrow> read_octet a; b \<leftarrow> read_char CHR ''.'' b;
         c \<leftarrow> read_octet b; c \<leftarrow> read_char CHR ''.'' c;
         read_octet c }"

definition is_hex :: "char \<Rightarrow> bool" where
  "is_hex c = (is_digit c \<or> (65 \<le> (of_char c :: nat) \<and> (of_char c :: nat) \<le> 70)
               \<or> (97 \<le> (of_char c :: nat) \<and> (of_char c :: nat) \<le> 102))"

definition read_hextet :: "string \<Rightarrow> string option" where
  "read_hextet s =
    (case read_run is_hex s of (ds, rest) \<Rightarrow>
       if ds = [] \<or> length ds > 4 then None else Some rest)"

text \<open>At most \<open>n\<close> groups; the groups read, whether the last two were an IPv4 address, the rest.\<close>

fun read_groups :: "nat \<Rightarrow> bool \<Rightarrow> string \<Rightarrow> nat \<times> bool \<times> string" where
  "read_groups 0 first s = (0, False, s)"
| "read_groups (Suc n) first s =
    (let after = (if first then Some s else read_char CHR '':'' s) in
     case (if n = 0 then None else Option.bind after read_ipv4) of
       Some rest \<Rightarrow> (2, True, rest)
     | None \<Rightarrow>
         (case Option.bind after read_hextet of
            Some rest \<Rightarrow> (case read_groups n False rest of (k, b, r) \<Rightarrow> (Suc k, b, r))
          | None \<Rightarrow> (0, False, s)))"

definition is_ipv6 :: "string \<Rightarrow> bool" where
  "is_ipv6 s =
    (case read_groups 8 True s of (h, v4, rest) \<Rightarrow>
       if h = 8 then rest = []
       else if v4 then False
       else (case Option.bind (read_char CHR '':'' rest) (read_char CHR '':'') of
               None \<Rightarrow> False
             | Some t \<Rightarrow> (case read_groups (8 - (h + 1)) True t of (_, _, r) \<Rightarrow> r = [])))"

definition is_ip_addr :: "string \<Rightarrow> bool" where
  "is_ip_addr s = (read_ipv4 s = Some [] \<or> is_ipv6 s)"

section \<open>Normal forms\<close>

datatype domain_error =
  InvalidDomain | WildcardSpace | WildcardTooLong | DomainOnPort | UnknownKind

definition bad_label :: "string \<Rightarrow> bool" where
  "bad_label l =
    (l = [] \<or> length l > 63 \<or> hd l = CHR ''-'' \<or> last l = CHR ''-''
     \<or> \<not> list_all (\<lambda>c. is_alnum c \<or> c = CHR ''-'') l)"

definition normalize_domain :: "string \<Rightarrow> domain_error + string" where
  "normalize_domain value =
    (let t = str_trim value;
         v = to_lower (case strip_suffix ''.'' t of Some x \<Rightarrow> x | None \<Rightarrow> t)
     in if v = [] \<or> length v > 253 \<or> is_ip_addr v
           \<or> list_ex bad_label (split_char CHR ''.'' v)
        then Inl InvalidDomain else Inr v)"

definition normalize_pattern :: "string \<Rightarrow> domain_error + string" where
  "normalize_pattern value =
    (case strip_prefix ''*.'' (str_trim value) of
       Some suffix \<Rightarrow>
         if starts_with_ws suffix then Inl WildcardSpace
         else (case normalize_domain suffix of
                 Inl e \<Rightarrow> Inl e
               | Inr s \<Rightarrow> if length s + 2 > 253 then Inl WildcardTooLong else Inr (''*.'' @ s))
     | None \<Rightarrow> normalize_domain value)"

definition validate_route :: "string \<Rightarrow> string \<Rightarrow> domain_error + string" where
  "validate_route kind domain =
    (if kind = ''http'' \<or> kind = ''https'' then normalize_pattern domain
     else if (kind = ''tcp'' \<or> kind = ''udp'') \<and> domain = [] then Inr []
     else if kind = ''tcp'' \<or> kind = ''udp'' then Inl DomainOnPort
     else Inl UnknownKind)"

definition routes_conflict :: "string \<Rightarrow> string \<Rightarrow> string \<Rightarrow> string \<Rightarrow> bool" where
  "routes_conflict kind domain other_kind other_domain =
    (\<not> (kind = ''http'' \<or> kind = ''https'') \<or> kind \<noteq> other_kind \<or> domain = other_domain)"

section \<open>Route lookup\<close>

text \<open>The suffixes of a host that begin at a dot, from the left (\<open>match_indices\<close>).\<close>

fun dot_suffixes :: "string \<Rightarrow> string list" where
  "dot_suffixes [] = []"
| "dot_suffixes (c # cs) = (if c = CHR ''.'' then [c # cs] else []) @ dot_suffixes cs"

fun first_route :: "(string \<rightharpoonup> 'a) \<Rightarrow> string list \<Rightarrow> 'a option" where
  "first_route routes [] = None"
| "first_route routes (s # ss) =
    (case routes (''*'' @ s) of Some r \<Rightarrow> Some r | None \<Rightarrow> first_route routes ss)"

definition find_route :: "(string \<rightharpoonup> 'a) \<Rightarrow> string \<Rightarrow> 'a option" where
  "find_route routes domain =
    (case routes domain of Some r \<Rightarrow> Some r | None \<Rightarrow> first_route routes (dot_suffixes domain))"

section \<open>What a normal form is\<close>

text \<open>
  The specification, without reference to trimming or to the parser's order of checks: a name of
  at most 253 bytes made of lower-case LDH labels that is not an IPv4 literal.
\<close>

definition valid_domain :: "string \<Rightarrow> bool" where
  "valid_domain d =
    (length d \<le> 253 \<and> read_ipv4 d \<noteq> Some [] \<and>
     (\<forall>l \<in> set (split_char CHR ''.'' d).
        1 \<le> length l \<and> length l \<le> 63 \<and> hd l \<noteq> CHR ''-'' \<and> last l \<noteq> CHR ''-'' \<and>
        (\<forall>c \<in> set l. is_digit c \<or> is_lower c \<or> c = CHR ''-'')))"

definition valid_pattern :: "string \<Rightarrow> bool" where
  "valid_pattern p =
    (valid_domain p \<or> (\<exists>d. p = ''*.'' @ d \<and> valid_domain d \<and> length p \<le> 253))"

text \<open>Lower-case LDH bytes and dots are neither white space nor changed by lower-casing.\<close>

definition ldh :: "char \<Rightarrow> bool" where
  "ldh c = (is_digit c \<or> is_lower c \<or> c = CHR ''-'' \<or> c = CHR ''.'')"

lemma ldh_range: "ldh c \<Longrightarrow> 45 \<le> (of_char c :: nat) \<and> (of_char c :: nat) \<le> 122"
  by (auto simp: ldh_def is_digit_def is_lower_def)

lemma solid_range: "45 \<le> (of_char c :: nat) \<Longrightarrow> (of_char c :: nat) \<le> 122 \<Longrightarrow> solid c"
  unfolding solid_def ws_seqs_def by auto

lemma ldh_solid: "ldh c \<Longrightarrow> solid c"
  using ldh_range solid_range by blast

lemma ldh_not_upper: "ldh c \<Longrightarrow> \<not> is_upper c"
  by (auto simp: ldh_def is_digit_def is_lower_def is_upper_def)

lemma split_char_ldh:
  assumes "\<forall>l \<in> set (split_char CHR ''.'' d). \<forall>c \<in> set l. is_digit c \<or> is_lower c \<or> c = CHR ''-''"
  shows "\<forall>c \<in> set d. ldh c"
  using assms in_split_char[of _ d "CHR ''.''"] unfolding ldh_def by blast

lemma valid_domain_ldh: "valid_domain d \<Longrightarrow> \<forall>c \<in> set d. ldh c"
  by (rule split_char_ldh) (simp add: valid_domain_def)

lemma valid_domain_nonempty: "valid_domain d \<Longrightarrow> d \<noteq> []"
  by (auto simp: valid_domain_def)

text \<open>Every IPv6 text contains a colon, which no label allows.\<close>

lemma read_run_eq: "read_run p s = (a, b) \<Longrightarrow> s = a @ b"
  by (induction s arbitrary: a b) (auto split: if_splits prod.splits)

lemma read_run_all: "read_run p s = (a, b) \<Longrightarrow> (\<forall>c \<in> set a. p c) \<and> (b = [] \<or> \<not> p (hd b))"
  by (induction s arbitrary: a b) (auto split: if_splits prod.splits)

lemma read_hextet_rest: "read_hextet s = Some r \<Longrightarrow> length r < length s"
  by (auto simp: read_hextet_def split: prod.splits if_splits dest!: read_run_eq)

lemma read_groups_no_colon:
  "CHR '':'' \<notin> set s \<Longrightarrow> read_groups n False s = (0, False, s)"
  by (cases n) (auto simp: read_char_def split: list.splits)

lemma read_groups_first_no_colon:
  assumes "CHR '':'' \<notin> set s" "read_groups (Suc (Suc (Suc n))) True s = (k, b, r)"
  shows "(k \<le> 2 \<and> (b \<or> k \<le> 1)) \<and> CHR '':'' \<notin> set r"
proof -
  have oct: "CHR '':'' \<notin> set r" if "read_octet s = Some r" "CHR '':'' \<notin> set s" for s r
    using that by (auto simp: read_octet_def split: prod.splits if_splits option.splits dest!: read_run_eq)
  have chr: "CHR '':'' \<notin> set r" if "read_char c s = Some r" "CHR '':'' \<notin> set s" for c s r
    using that by (auto simp: read_char_def split: list.splits if_splits)
  have ip4: "CHR '':'' \<notin> set r" if "read_ipv4 s = Some r" "CHR '':'' \<notin> set s" for s r
    using that by (auto simp: read_ipv4_def bind_eq_Some_conv dest!: oct chr)
  have hex: "CHR '':'' \<notin> set r" if "read_hextet s = Some r" "CHR '':'' \<notin> set s" for s r
    using that by (auto simp: read_hextet_def split: prod.splits if_splits dest!: read_run_eq)
  let ?m = "Suc (Suc n)"
  consider rest where "read_ipv4 s = Some rest" "read_groups (Suc ?m) True s = (2, True, rest)"
    | rest where "read_hextet s = Some rest" "read_groups (Suc ?m) True s = (1, False, rest)"
    | "read_groups (Suc ?m) True s = (0, False, s)"
    using assms(1) hex
    unfolding read_groups.simps(2)[of ?m True]
    by (cases "read_ipv4 s"; cases "read_hextet s")
       (auto simp: read_groups_no_colon simp del: read_groups.simps)
  then show ?thesis
    using assms ip4 hex by cases (auto simp del: read_groups.simps)
qed

lemma is_ipv6_colon: "is_ipv6 s \<Longrightarrow> CHR '':'' \<in> set s"
proof (rule ccontr)
  assume v6: "is_ipv6 s" and c: "CHR '':'' \<notin> set s"
  obtain k b r where g: "read_groups 8 True s = (k, b, r)" by (metis prod_cases3)
  have 8: "(8::nat) = Suc (Suc (Suc 5))" by simp
  from read_groups_first_no_colon[of s 5 k b r] c g have "k \<le> 2" "CHR '':'' \<notin> set r"
    unfolding 8 by auto
  moreover from this have "read_char CHR '':'' r = None"
    by (auto simp: read_char_def split: list.splits)
  ultimately show False using v6 g by (auto simp: is_ipv6_def split: if_splits)
qed

lemma valid_domain_no_colon: "valid_domain d \<Longrightarrow> CHR '':'' \<notin> set d"
  using valid_domain_ldh by (fastforce simp: ldh_def is_digit_def is_lower_def)

lemma bad_label_iff:
  assumes "\<forall>c \<in> set l. \<not> is_upper c"
  shows "bad_label l \<longleftrightarrow>
    \<not> (1 \<le> length l \<and> length l \<le> 63 \<and> hd l \<noteq> CHR ''-'' \<and> last l \<noteq> CHR ''-'' \<and>
        (\<forall>c \<in> set l. is_digit c \<or> is_lower c \<or> c = CHR ''-''))"
  using assms by (auto simp: bad_label_def is_alnum_def list_all_iff Suc_le_eq)

lemma normalize_domain_valid: "normalize_domain v = Inr d \<Longrightarrow> valid_domain d"
proof -
  assume n: "normalize_domain v = Inr d"
  then obtain t where t: "d = to_lower t" and len: "length d \<le> 253" and ip: "\<not> is_ip_addr d"
    and lab: "\<not> list_ex bad_label (split_char CHR ''.'' d)"
    by (auto simp: normalize_domain_def Let_def split: if_splits)
  have "\<forall>l \<in> set (split_char CHR ''.'' d). \<forall>c \<in> set l. \<not> is_upper c"
    using to_lower_no_upper set_split_char unfolding t by blast
  moreover from lab have "\<forall>l \<in> set (split_char CHR ''.'' d). \<not> bad_label l"
    by (simp add: list_ex_iff)
  ultimately have "\<forall>l \<in> set (split_char CHR ''.'' d).
        1 \<le> length l \<and> length l \<le> 63 \<and> hd l \<noteq> CHR ''-'' \<and> last l \<noteq> CHR ''-'' \<and>
        (\<forall>c \<in> set l. is_digit c \<or> is_lower c \<or> c = CHR ''-'')"
    using bad_label_iff by simp
  with len ip show ?thesis by (simp add: valid_domain_def is_ip_addr_def)
qed

lemma strip_suffix_dot: "strip_suffix ''.'' s = Some x \<longleftrightarrow> s = x @ ''.''"
proof -
  have "strip_suffix ''.'' s = Some x \<longleftrightarrow> rev s = CHR ''.'' # rev x"
    using rev_swap[of _ x] by (auto simp: strip_suffix_def strip_prefix_Some_iff)
  also have "\<dots> \<longleftrightarrow> rev s = rev (x @ ''.'')" by simp
  also have "\<dots> \<longleftrightarrow> s = x @ ''.''" by (rule rev_is_rev_conv)
  finally show ?thesis .
qed

lemma normalize_domain_fixed: "valid_domain d \<Longrightarrow> normalize_domain d = Inr d"
proof -
  assume v: "valid_domain d"
  have ldh: "\<forall>c \<in> set d. ldh c" using v by (rule valid_domain_ldh)
  then have trim: "str_trim d = d" using ldh_solid by (intro str_trim_solid) blast
  have low: "to_lower d = d" using ldh ldh_not_upper by (intro to_lower_id) blast
  have "strip_suffix ''.'' d = None"
  proof (rule ccontr)
    assume "strip_suffix ''.'' d \<noteq> None"
    then obtain x where "d = x @ ''.''" using strip_suffix_dot by blast
    then have "[] \<in> set (split_char CHR ''.'' d)"
      using split_char_last[of "CHR ''.''" x] by (metis last_in_set split_char_nonempty)
    with v show False by (auto simp: valid_domain_def)
  qed
  moreover have "\<not> is_ip_addr d"
    using v valid_domain_no_colon is_ipv6_colon by (auto simp: is_ip_addr_def valid_domain_def)
  moreover have "\<not> bad_label l" if "l \<in> set (split_char CHR ''.'' d)" for l
  proof -
    have "\<forall>c \<in> set l. \<not> is_upper c"
      using that set_split_char ldh ldh_not_upper by blast
    then show ?thesis using v that bad_label_iff by (auto simp: valid_domain_def)
  qed
  ultimately show ?thesis
    using v valid_domain_nonempty[OF v]
    by (simp add: normalize_domain_def trim low list_ex_iff valid_domain_def Let_def)
qed

text \<open>C26: the names \<open>normalize_domain\<close> returns are exactly the valid domains, and it leaves a
  valid domain as it is: normalising twice is normalising once.\<close>

theorem normalize_domain_spec:
  "(valid_domain d \<longleftrightarrow> (\<exists>v. normalize_domain v = Inr d)) \<and>
   (valid_domain d \<longleftrightarrow> normalize_domain d = Inr d)"
  using normalize_domain_valid normalize_domain_fixed by blast

lemma normalize_pattern_star:
  assumes "valid_domain d" "length d + 2 \<le> 253"
  shows "normalize_pattern (''*.'' @ d) = Inr (''*.'' @ d)"
proof -
  have ldh: "\<forall>c \<in> set d. ldh c" using assms(1) by (rule valid_domain_ldh)
  have "solid CHR ''*''" by (simp add: solid_def ws_seqs_def)
  moreover have "solid CHR ''.''" by (rule ldh_solid) (simp add: ldh_def)
  ultimately have trim: "str_trim (''*.'' @ d) = ''*.'' @ d"
    using ldh ldh_solid by (intro str_trim_solid) auto
  have "d \<noteq> []" using assms(1) by (rule valid_domain_nonempty)
  then have "\<not> starts_with_ws d"
    unfolding starts_with_ws_def
    using strip_any_solid[of ws_seqs d] ws_seqs_nonempty ldh ldh_solid hd_in_set[of d]
    by (auto simp: solid_def)
  moreover have "strip_prefix ''*.'' (''*.'' @ d) = Some d"
    by (simp only: strip_prefix_Some_iff)
  ultimately show ?thesis
    using assms(2) unfolding normalize_pattern_def trim
    by (simp add: normalize_domain_fixed[OF assms(1)])
qed

lemma normalize_pattern_plain: "valid_domain d \<Longrightarrow> normalize_pattern d = Inr d"
proof -
  assume v: "valid_domain d"
  have ldh: "\<forall>c \<in> set d. ldh c" using v by (rule valid_domain_ldh)
  then have trim: "str_trim d = d" using ldh_solid by (intro str_trim_solid) blast
  have "strip_prefix ''*.'' d = None"
  proof (rule ccontr)
    assume "strip_prefix ''*.'' d \<noteq> None"
    then have "CHR ''*'' \<in> set d" using strip_prefix_Some_iff by force
    with ldh show False by (auto simp: ldh_def is_digit_def is_lower_def)
  qed
  then show ?thesis by (simp add: normalize_pattern_def trim normalize_domain_fixed[OF v])
qed

lemma normalize_pattern_valid: "normalize_pattern v = Inr p \<Longrightarrow> valid_pattern p"
  unfolding normalize_pattern_def valid_pattern_def
  by (auto split: option.splits if_splits sum.splits dest!: normalize_domain_valid)

lemma normalize_pattern_fixed: "valid_pattern p \<Longrightarrow> normalize_pattern p = Inr p"
  unfolding valid_pattern_def
  using normalize_pattern_plain normalize_pattern_star by fastforce

text \<open>what \<open>validate_route\<close> stores is stable: validating a stored route again for the same
  proxy type returns it unchanged, HTTP(S) routes are valid patterns and TCP/UDP routes are
  empty.\<close>

theorem validate_route_stable:
  assumes "validate_route kind domain = Inr d"
  shows "validate_route kind d = Inr d \<and>
         (if kind = ''http'' \<or> kind = ''https'' then valid_pattern d
          else (kind = ''tcp'' \<or> kind = ''udp'') \<and> d = [])"
  using assms normalize_pattern_valid normalize_pattern_fixed
  by (auto simp: validate_route_def split: if_splits)

theorem validate_route_stable_witness:
  "validate_route ''https'' '' *.Yunnet.TOP. '' = Inr ''*.yunnet.top'' \<and>
   validate_route ''https'' ''*.yunnet.top'' = Inr ''*.yunnet.top''"
proof -
  have h: "validate_route ''https'' '' *.Yunnet.TOP. '' = Inr ''*.yunnet.top''"
    by code_simp
  from validate_route_stable[OF h] h show ?thesis by blast
qed

section \<open>Lookup is longest match\<close>

text \<open>A wildcard key \<open>*.s\<close> matches the hosts that end in \<open>.s\<close>.\<close>

definition wild_match :: "string \<Rightarrow> string \<Rightarrow> bool" where
  "wild_match k d = (\<exists>p s. k = ''*'' @ s \<and> d = p @ s \<and> s \<noteq> [] \<and> hd s = CHR ''.'')"

lemma dot_suffixes_iff:
  "s \<in> set (dot_suffixes d) \<longleftrightarrow> (\<exists>p. d = p @ s \<and> s \<noteq> [] \<and> hd s = CHR ''.'')"
proof (induction d)
  case (Cons c cs)
  have "(\<exists>p. c # cs = p @ s \<and> Q) \<longleftrightarrow> (s = c # cs \<and> Q) \<or> (\<exists>p. cs = p @ s \<and> Q)" for Q
    by (metis append_Cons append_Nil list.exhaust list.inject)
  from this[of "s \<noteq> [] \<and> hd s = CHR ''.''"] Cons show ?case by auto
qed auto

lemma wild_match_iff: "wild_match k d \<longleftrightarrow> (\<exists>s \<in> set (dot_suffixes d). k = ''*'' @ s)"
  by (auto simp: wild_match_def dot_suffixes_iff)

lemma ex_wild_match:
  "(\<exists>k. wild_match k d \<and> P k) \<longleftrightarrow> (\<exists>s \<in> set (dot_suffixes d). P (''*'' @ s))"
  by (auto simp: wild_match_iff)

lemma all_wild_match:
  "(\<forall>k. wild_match k d \<and> P k \<longrightarrow> Q k) \<longleftrightarrow>
   (\<forall>s \<in> set (dot_suffixes d). P (''*'' @ s) \<longrightarrow> Q (''*'' @ s))"
  by (auto simp: wild_match_iff)

lemma dot_suffixes_sorted: "sorted_wrt (\<lambda>a b. length b < length a) (dot_suffixes d)"
proof (induction d)
  case (Cons c cs)
  have "length s \<le> length cs" if "s \<in> set (dot_suffixes cs)" for s
    using that by (auto simp: dot_suffixes_iff)
  then have "\<forall>s \<in> set (dot_suffixes cs). length s < length (c # cs)" by fastforce
  with Cons show ?case by simp
qed simp

lemma first_route_Some:
  "sorted_wrt (\<lambda>a b. length b < length a) ss \<Longrightarrow>
   first_route routes ss = Some r \<longleftrightarrow>
     (\<exists>s \<in> set ss. routes (''*'' @ s) = Some r \<and>
        (\<forall>t \<in> set ss. ''*'' @ t \<in> dom routes \<longrightarrow> length t \<le> length s))"
proof (induction ss)
  case (Cons s ss)
  show ?case
  proof (cases "routes (''*'' @ s)")
    case None
    with Cons show ?thesis by (auto simp: dom_def)
  next
    case (Some q)
    with Cons.prems show ?thesis
      by (auto simp: dom_def)
  qed
qed simp

lemma first_route_None: "first_route routes ss = None \<longleftrightarrow> (\<forall>s \<in> set ss. routes (''*'' @ s) = None)"
  by (induction ss) (auto split: option.splits)

text \<open>C27: the lookup returns the route of the exact name when there is one, and otherwise the
  route of the longest wildcard key that matches; it fails only when nothing matches. The result
  is a function of the table, so it does not depend on the order of insertion.\<close>

theorem find_route_longest_match:
  "find_route routes d = Some r \<longleftrightarrow>
     routes d = Some r \<or>
     (routes d = None \<and>
      (\<exists>k. wild_match k d \<and> routes k = Some r \<and>
           (\<forall>k'. wild_match k' d \<and> k' \<in> dom routes \<longrightarrow> length k' \<le> length k)))"
proof (cases "routes d")
  case None
  then have "find_route routes d = Some r \<longleftrightarrow>
    (\<exists>s \<in> set (dot_suffixes d). routes (''*'' @ s) = Some r \<and>
        (\<forall>t \<in> set (dot_suffixes d). ''*'' @ t \<in> dom routes \<longrightarrow> length t \<le> length s))"
    by (simp add: find_route_def first_route_Some[OF dot_suffixes_sorted])
  also have "\<dots> \<longleftrightarrow>
    (\<exists>k. wild_match k d \<and> routes k = Some r \<and>
         (\<forall>k'. wild_match k' d \<and> k' \<in> dom routes \<longrightarrow> length k' \<le> length k))"
    unfolding ex_wild_match all_wild_match by simp
  finally show ?thesis using None by simp
qed (simp add: find_route_def)

theorem find_route_longest_match_witness:
  "find_route [''*.yunnet.top'' \<mapsto> (1::nat), ''*.home.yunnet.top'' \<mapsto> 3] ''a.b.home.yunnet.top'' = Some 3 \<and>
   (\<exists>k. wild_match k ''a.b.home.yunnet.top'' \<and>
      [''*.yunnet.top'' \<mapsto> (1::nat), ''*.home.yunnet.top'' \<mapsto> 3] k = Some 3)"
proof -
  let ?r = "[''*.yunnet.top'' \<mapsto> (1::nat), ''*.home.yunnet.top'' \<mapsto> 3]"
  have "find_route ?r ''a.b.home.yunnet.top'' = Some 3"
    by code_simp
  moreover have "?r ''a.b.home.yunnet.top'' = None" by simp
  ultimately show ?thesis
    using find_route_longest_match[of ?r "''a.b.home.yunnet.top''" 3] by (simp only: option.distinct) blast
qed

text \<open>a wildcard never captures its own apex and never crosses a label boundary: with only
  \<open>*.s\<close> in the table, the hosts that are routed are the name \<open>*.s\<close> itself (which is not a host
  name) and the hosts of the form \<open>p.s\<close>.\<close>

theorem wildcard_boundary:
  "find_route [''*.'' @ s \<mapsto> r] d \<noteq> None \<longleftrightarrow> d = ''*.'' @ s \<or> (\<exists>p. d = p @ ''.'' @ s)"
proof -
  have "first_route [''*.'' @ s \<mapsto> r] (dot_suffixes d) \<noteq> None \<longleftrightarrow>
        (\<exists>t \<in> set (dot_suffixes d). t = ''.'' @ s)"
    by (auto simp: first_route_None split: if_splits)
  also have "\<dots> \<longleftrightarrow> (\<exists>p. d = p @ ''.'' @ s)"
    by (auto simp: dot_suffixes_iff)
  finally show ?thesis by (auto simp: find_route_def split: if_splits)
qed

text \<open>two routes can share a port exactly when both are HTTP or both are HTTPS and their
  domains differ; the relation does not depend on which proxy came first.\<close>

theorem routes_conflict_spec:
  "(routes_conflict k d k' d' \<longleftrightarrow> routes_conflict k' d' k d) \<and>
   (\<not> routes_conflict k d k' d' \<longleftrightarrow> k = k' \<and> k \<in> {''http'', ''https''} \<and> d \<noteq> d')"
  by (auto simp: routes_conflict_def)

end
