(* ===== verification/Pending.thy ===== *)
theory Pending
  imports Rust_Prelude "HOL-Library.AList"
begin

text \<open>
  \<open>common/src/grpc/pending\_requests.rs\<close>: the table that pairs the responses on a
  bidirectional stream with the requests that wait for them. A request is an entry of the table
  and one oneshot channel; the entry holds the sending half, the caller the receiving half.
  Instants are milliseconds of the monotonic clock. A table is changed under its mutex only, so
  one operation is one step; the interleaving of the callers, the reader of the stream and the
  cleanup task is the order of the steps.
\<close>

section \<open>State and operations\<close>

datatype 'a chan =
    Waiting            \<comment> \<open>both halves alive, nothing sent\<close>
  | Delivered 'a       \<comment> \<open>the response is in the channel\<close>
  | SenderDropped      \<comment> \<open>the entry was discarded without a response\<close>
  | ReceiverDropped    \<comment> \<open>the caller gave up waiting\<close>

record entry =
  sender :: nat
  created_at :: int

record 'a pending =
  pd_map :: "(string \<times> entry) list"
  pd_chan :: "nat \<Rightarrow> 'a chan"
  pd_next :: nat

definition stale_request_timeout :: int where
  "stale_request_timeout = 60000"

definition cleanup_interval :: int where
  "cleanup_interval = 30000"

definition pd_get :: "'a pending \<Rightarrow> string \<Rightarrow> entry option" where
  "pd_get p rid = map_of (pd_map p) rid"

definition pending_new :: "'a pending" where
  "pending_new = \<lparr>pd_map = [], pd_chan = (\<lambda>_. Waiting), pd_next = 0\<rparr>"

text \<open>Dropping the sender of an entry: a receiver that still waits learns of it.\<close>

definition drop_sender :: "'a chan \<Rightarrow> 'a chan" where
  "drop_sender c = (case c of Waiting \<Rightarrow> SenderDropped | _ \<Rightarrow> c)"

text \<open>\<open>insert\<close> replaces an entry with the same key, whose sender is then dropped.\<close>

definition pending_register :: "string \<Rightarrow> int \<Rightarrow> 'a pending \<Rightarrow> nat \<times> 'a pending" where
  "pending_register rid now p =
    (let c = pd_next p;
         ch = (case pd_get p rid of
                 None \<Rightarrow> pd_chan p
               | Some e \<Rightarrow> (pd_chan p)(sender e := drop_sender (pd_chan p (sender e))))
     in (c, \<lparr>pd_map = AList.update rid \<lparr>sender = c, created_at = now\<rparr> (pd_map p),
             pd_chan = ch(c := Waiting), pd_next = Suc c\<rparr>))"

definition pending_complete :: "string \<Rightarrow> 'a \<Rightarrow> 'a pending \<Rightarrow> bool \<times> 'a pending" where
  "pending_complete rid response p =
    (case pd_get p rid of
       None \<Rightarrow> (False, p)
     | Some e \<Rightarrow>
         let q = p\<lparr>pd_map := AList.delete rid (pd_map p)\<rparr> in
         (case pd_chan p (sender e) of
            Waiting \<Rightarrow> (True, q\<lparr>pd_chan := (pd_chan p)(sender e := Delivered response)\<rparr>)
          | _ \<Rightarrow> (False, q)))"

definition stale :: "int \<Rightarrow> entry \<Rightarrow> bool" where
  "stale now e = (\<not> now - created_at e < stale_request_timeout)"

text \<open>One pass of the cleanup task. Its channels are those whose entry it discards.\<close>

definition pending_cleanup :: "int \<Rightarrow> 'a pending \<Rightarrow> 'a pending" where
  "pending_cleanup now p =
    (let old = filter (\<lambda>(rid, e). stale now e) (pd_map p) in
     p\<lparr>pd_map := filter (\<lambda>(rid, e). \<not> stale now e) (pd_map p),
       pd_chan := (\<lambda>c. if c \<in> set (map (sender \<circ> snd) old)
                       then drop_sender (pd_chan p c) else pd_chan p c)\<rparr>)"

datatype wait_error = Timeout | ChannelClosed

text \<open>
  Polling \<open>timeout(deadline, rx)\<close> at an instant: the receiver is polled before the deadline, so
  a response that is there wins. \<open>None\<close> is "still waiting". An expired wait drops the receiver.
\<close>

definition pending_wait ::
  "nat \<Rightarrow> int \<Rightarrow> int \<Rightarrow> 'a pending \<Rightarrow> (wait_error + 'a) option \<times> 'a pending" where
  "pending_wait c deadline now p =
    (case pd_chan p c of
       Delivered x \<Rightarrow> (Some (Inr x), p)
     | SenderDropped \<Rightarrow> (Some (Inl ChannelClosed), p)
     | ReceiverDropped \<Rightarrow> (None, p)
     | Waiting \<Rightarrow>
         if deadline \<le> now
         then (Some (Inl Timeout), p\<lparr>pd_chan := (pd_chan p)(c := ReceiverDropped)\<rparr>)
         else (None, p))"

section \<open>The invariant\<close>

text \<open>
  Channels are allocated in order; an entry's channel is allocated, belongs to that entry only,
  and has had nothing sent.
\<close>

definition pending_inv :: "'a pending \<Rightarrow> bool" where
  "pending_inv p =
    (distinct (map fst (pd_map p)) \<and>
     (\<forall>rid e. pd_get p rid = Some e \<longrightarrow>
        sender e < pd_next p \<and> pd_chan p (sender e) \<in> {Waiting, ReceiverDropped}) \<and>
     (\<forall>r r' e e'. pd_get p r = Some e \<and> pd_get p r' = Some e' \<and> sender e = sender e' \<longrightarrow> r = r'))"

lemma map_of_filter_snd:
  "distinct (map fst l) \<Longrightarrow>
   map_of (filter (\<lambda>(k, e). Q e) l) k = (case map_of l k of Some e \<Rightarrow> if Q e then Some e else None | None \<Rightarrow> None)"
  by (induction l) (auto simp: map_of_eq_None_iff split: option.splits)

lemma pending_inv_distinct: "pending_inv p \<Longrightarrow> distinct (map fst (pd_map p))"
  by (simp add: pending_inv_def)

lemma pd_get_register:
  "pd_get (snd (pending_register rid now p)) r =
    (if r = rid then Some \<lparr>sender = pd_next p, created_at = now\<rparr> else pd_get p r)"
  by (simp add: pending_register_def Let_def pd_get_def update_conv')

lemma pd_get_complete:
  "pd_get (snd (pending_complete rid x p)) r = (if r = rid then None else pd_get p r)"
  by (auto simp: pending_complete_def Let_def pd_get_def delete_conv' split: option.splits chan.splits)

lemma pd_get_cleanup:
  "distinct (map fst (pd_map p)) \<Longrightarrow>
   pd_get (pending_cleanup now p) r =
    (case pd_get p r of Some e \<Rightarrow> if stale now e then None else Some e | None \<Rightarrow> None)"
  by (simp add: pending_cleanup_def Let_def pd_get_def map_of_filter_snd split: option.splits)

lemma pd_chan_cleanup:
  "distinct (map fst (pd_map p)) \<Longrightarrow>
   pd_chan (pending_cleanup now p) c =
    (if \<exists>rid e. pd_get p rid = Some e \<and> stale now e \<and> sender e = c
     then drop_sender (pd_chan p c) else pd_chan p c)"
  by (force simp: pending_cleanup_def Let_def pd_get_def image_iff)

lemma pd_get_wait [simp]: "pd_get (snd (pending_wait c d now p)) r = pd_get p r"
  by (simp add: pending_wait_def pd_get_def split: chan.splits)

lemma pending_invD:
  assumes "pending_inv p" "pd_get p rid = Some e"
  shows "sender e < pd_next p" "pd_chan p (sender e) = Waiting \<or> pd_chan p (sender e) = ReceiverDropped"
  using assms unfolding pending_inv_def by blast+

lemma pending_inv_inj:
  "pending_inv p \<Longrightarrow> pd_get p r = Some e \<Longrightarrow> pd_get p r' = Some e' \<Longrightarrow> sender e = sender e' \<Longrightarrow> r = r'"
  unfolding pending_inv_def by blast

lemma pending_inv_new: "pending_inv pending_new"
  by (simp add: pending_inv_def pending_new_def pd_get_def)

lemma pending_inv_register:
  assumes inv: "pending_inv p"
  shows "pending_inv (snd (pending_register rid now p))"
proof -
  let ?q = "snd (pending_register rid now p)"
  have d: "distinct (map fst (pd_map ?q))"
    using pending_inv_distinct[OF inv] by (simp add: pending_register_def Let_def distinct_update)
  have next_q: "pd_next ?q = Suc (pd_next p)" by (simp add: pending_register_def Let_def)
  have chan: "pd_chan ?q (sender e) = pd_chan p (sender e)"
    if "pd_get p r = Some e" "r \<noteq> rid" for r e
  proof -
    have "sender e \<noteq> pd_next p" using pending_invD(1)[OF inv that(1)] by simp
    moreover have "sender e \<noteq> sender e'" if "pd_get p rid = Some e'" for e'
      using pending_inv_inj[OF inv \<open>pd_get p r = Some e\<close> that] \<open>r \<noteq> rid\<close> by blast
    ultimately show ?thesis by (simp add: pending_register_def Let_def split: option.splits)
  qed
  have new: "pd_chan ?q (pd_next p) = Waiting" by (simp add: pending_register_def Let_def)
  have "sender e < pd_next ?q \<and> pd_chan ?q (sender e) \<in> {Waiting, ReceiverDropped}"
    if "pd_get ?q r = Some e" for r e
    using that new chan[of r e] pending_invD[OF inv, of r e]
    by (cases "r = rid") (auto simp: pd_get_register next_q)
  moreover have "r = r'"
    if "pd_get ?q r = Some e" "pd_get ?q r' = Some e'" "sender e = sender e'" for r r' e e'
  proof -
    have fresh: "pd_get p k = Some f \<Longrightarrow> sender f \<noteq> pd_next p" for k f
      using pending_invD(1)[OF inv, of k f] by simp
    show ?thesis
      using that fresh[of r e] fresh[of r' e'] pending_inv_inj[OF inv, of r e r' e']
      by (auto simp: pd_get_register split: if_splits)
  qed
  ultimately show ?thesis using d unfolding pending_inv_def by blast
qed

lemma pending_inv_complete:
  assumes inv: "pending_inv p"
  shows "pending_inv (snd (pending_complete rid x p))"
proof -
  let ?q = "snd (pending_complete rid x p)"
  have d: "distinct (map fst (pd_map ?q))"
    using pending_inv_distinct[OF inv]
    by (simp add: pending_complete_def Let_def distinct_delete split: option.splits chan.splits)
  have next_q: "pd_next ?q = pd_next p"
    by (simp add: pending_complete_def Let_def split: option.splits chan.splits)
  have chan: "pd_chan ?q (sender e) = pd_chan p (sender e)"
    if "pd_get p r = Some e" "r \<noteq> rid" for r e
  proof -
    have "sender e \<noteq> sender e'" if "pd_get p rid = Some e'" for e'
      using pending_inv_inj[OF inv \<open>pd_get p r = Some e\<close> that] \<open>r \<noteq> rid\<close> by blast
    then show ?thesis by (simp add: pending_complete_def Let_def split: option.splits chan.splits)
  qed
  have "sender e < pd_next ?q \<and> pd_chan ?q (sender e) \<in> {Waiting, ReceiverDropped}"
    if "pd_get ?q r = Some e" for r e
    using that chan[of r e] pending_invD[OF inv, of r e]
    by (cases "r = rid") (auto simp: pd_get_complete next_q)
  moreover have "r = r'"
    if "pd_get ?q r = Some e" "pd_get ?q r' = Some e'" "sender e = sender e'" for r r' e e'
    using that pending_inv_inj[OF inv] by (auto simp: pd_get_complete split: if_splits)
  ultimately show ?thesis using d unfolding pending_inv_def by blast
qed

lemma pending_inv_cleanup:
  assumes inv: "pending_inv p"
  shows "pending_inv (pending_cleanup now p)"
proof -
  let ?q = "pending_cleanup now p"
  note dp = pending_inv_distinct[OF inv]
  have d: "distinct (map fst (pd_map ?q))"
    using dp by (auto simp: pending_cleanup_def Let_def distinct_map inj_on_def)
  have got: "pd_get p r = Some e \<and> \<not> stale now e" if "pd_get ?q r = Some e" for r e
    using that by (simp add: pd_get_cleanup[OF dp] split: option.splits if_splits)
  have chan: "pd_chan ?q (sender e) = pd_chan p (sender e)" if "pd_get ?q r = Some e" for r e
  proof -
    have "\<not> (\<exists>r' e'. pd_get p r' = Some e' \<and> stale now e' \<and> sender e' = sender e)"
      using got[OF that] pending_inv_inj[OF inv] by (metis option.inject)
    then show ?thesis by (simp only: pd_chan_cleanup[OF dp] if_False)
  qed
  have next_q: "pd_next ?q = pd_next p" by (simp add: pending_cleanup_def Let_def)
  have "sender e < pd_next ?q \<and> pd_chan ?q (sender e) \<in> {Waiting, ReceiverDropped}"
    if "pd_get ?q r = Some e" for r e
    using chan[OF that] got[OF that] pending_invD[OF inv, of r e] by (auto simp: next_q)
  moreover have "r = r'"
    if "pd_get ?q r = Some e" "pd_get ?q r' = Some e'" "sender e = sender e'" for r r' e e'
    using got[OF that(1)] got[OF that(2)] that(3) pending_inv_inj[OF inv] by blast
  ultimately show ?thesis using d unfolding pending_inv_def by blast
qed

lemma pending_inv_wait:
  "pending_inv p \<Longrightarrow> pending_inv (snd (pending_wait c d now p))"
  unfolding pending_inv_def pd_get_wait
  by (auto simp: pending_wait_def split: chan.splits)

section \<open>Runs\<close>

text \<open>The steps of the environment and of the table, in the order the mutex gives them.\<close>

inductive pending_step :: "'a pending \<Rightarrow> 'a pending \<Rightarrow> bool" where
  register: "pending_step p (snd (pending_register rid now p))"
| complete: "pending_step p (snd (pending_complete rid x p))"
| cleanup: "pending_step p (pending_cleanup now p)"
| poll: "pending_step p (snd (pending_wait c d now p))"

inductive pending_reach :: "'a pending \<Rightarrow> bool" where
  start: "pending_reach pending_new"
| step: "pending_reach p \<Longrightarrow> pending_step p q \<Longrightarrow> pending_reach q"

lemma pending_step_inv: "pending_step p q \<Longrightarrow> pending_inv p \<Longrightarrow> pending_inv q"
  by (induction rule: pending_step.induct)
     (auto intro: pending_inv_register pending_inv_complete pending_inv_cleanup pending_inv_wait)

lemma pending_reach_inv: "pending_reach p \<Longrightarrow> pending_inv p"
  by (induction rule: pending_reach.induct) (auto intro: pending_inv_new pending_step_inv)

section \<open>What a caller gets\<close>

lemma register_chan:
  assumes "pending_register rid now p = (c, q)"
  shows "c = pd_next p \<and> pd_get q rid = Some \<lparr>sender = c, created_at = now\<rparr> \<and> pd_chan q c = Waiting"
  using assms pd_get_register[of rid now p rid] by (auto simp: pending_register_def Let_def)

text \<open>in every reachable table, completing a request that still waits succeeds, delivers exactly
  that response to exactly its caller, disturbs no other channel, and removes the entry, so a second
  response with the same identifier is refused.\<close>

theorem complete_delivers_once:
  assumes "pending_reach p" "pd_get p rid = Some e" "pd_chan p (sender e) = Waiting"
  shows "\<exists>q. pending_complete rid x p = (True, q) \<and>
             fst (pending_wait (sender e) deadline now q) = Some (Inr x) \<and>
             (\<forall>c. c \<noteq> sender e \<longrightarrow> pd_chan q c = pd_chan p c) \<and>
             (\<forall>y. pending_complete rid y q = (False, q))"
  using assms pd_get_complete[of rid x p rid]
  by (auto simp: pending_complete_def pending_wait_def Let_def)

lemma delivered_stable_complete:
  assumes "pending_inv p" "pd_chan p c = Delivered x"
  shows "pd_chan (snd (pending_complete rid y p)) c = Delivered x"
proof (cases "pd_get p rid")
  case (Some e)
  then have "sender e \<noteq> c" using pending_invD(2)[OF assms(1) Some] assms(2) by auto
  with Some assms(2) show ?thesis by (simp add: pending_complete_def Let_def split: chan.splits)
qed (use assms in \<open>simp add: pending_complete_def\<close>)

text \<open>a delivered response is never lost or replaced: whatever else happens on the stream, the
  caller's next poll returns it.\<close>

theorem delivered_response_stable:
  assumes "pending_reach p" "c < pd_next p" "pd_chan p c = Delivered x" "pending_step p q"
  shows "c < pd_next q \<and> pd_chan q c = Delivered x \<and>
         fst (pending_wait c deadline now q) = Some (Inr x)"
proof -
  have inv: "pending_inv p" using assms(1) by (rule pending_reach_inv)
  have "c < pd_next q \<and> pd_chan q c = Delivered x"
    using assms(4)
  proof cases
    case (register rid now)
    have "drop_sender (pd_chan p (sender e)) = Delivered x"
      if "pd_get p rid = Some e" "sender e = c" for e
      using assms(3) that by (simp add: drop_sender_def)
    with assms(2,3) register show ?thesis
      by (auto simp: pending_register_def Let_def split: option.splits)
  next
    case (complete rid y)
    have "pd_next (snd (pending_complete rid y p)) = pd_next p"
      by (simp add: pending_complete_def Let_def split: option.splits chan.splits)
    with complete assms(2) delivered_stable_complete[OF inv assms(3)] show ?thesis by simp
  next
    case (cleanup now)
    with assms(2,3) show ?thesis by (auto simp: pending_cleanup_def Let_def drop_sender_def)
  next
    case (poll d dl now)
    with assms(2,3) show ?thesis
      by (cases "d = c") (auto simp: pending_wait_def split: chan.splits)
  qed
  then show ?thesis by (simp add: pending_wait_def)
qed

text \<open>
  The callers wait 10 seconds, except for a software update, which waits 120 seconds. The table
  does not know the caller's deadline: an entry is discarded at 60 seconds.
\<close>

text \<open>a caller whose deadline is 120 seconds away loses its request to the first cleanup
  pass that comes 60 seconds or more after the registration: its wait ends with "channel closed"
  although its deadline has not passed, and a response that arrives then is refused.\<close>

theorem long_wait_evicted:
  assumes "pending_reach p" "pd_get p rid = Some e" "pd_chan p (sender e) = Waiting"
    and "created_at e + 60000 \<le> now" "now < created_at e + 120000"
  shows "fst (pending_wait (sender e) (created_at e + 120000) now (pending_cleanup now p)) =
           Some (Inl ChannelClosed) \<and>
         (\<forall>x. fst (pending_complete rid x (pending_cleanup now p)) = False)"
proof -
  note dp = pending_inv_distinct[OF pending_reach_inv[OF assms(1)]]
  have "stale now e" using assms(4) by (simp add: stale_def stale_request_timeout_def)
  with assms(2,3) have "pd_chan (pending_cleanup now p) (sender e) = SenderDropped"
    and "pd_get (pending_cleanup now p) rid = None"
    by (auto simp: pd_chan_cleanup[OF dp] pd_get_cleanup[OF dp] drop_sender_def)
  then show ?thesis by (simp add: pending_wait_def pending_complete_def)
qed

text \<open>the 10-second callers are not affected: as long as the deadline is at most 60 seconds
  after the registration, no cleanup pass before the deadline touches the request.\<close>

theorem short_wait_kept:
  assumes "pending_reach p" "pd_get p rid = Some e"
    and "deadline \<le> created_at e + 60000" "now < deadline"
  shows "pd_get (pending_cleanup now p) rid = Some e \<and>
         pd_chan (pending_cleanup now p) (sender e) = pd_chan p (sender e)"
proof -
  have inv: "pending_inv p" using assms(1) by (rule pending_reach_inv)
  have young: "\<not> stale now e" using assms(3,4) by (simp add: stale_def stale_request_timeout_def)
  have "\<not> (\<exists>r e'. pd_get p r = Some e' \<and> stale now e' \<and> sender e' = sender e)"
    using pending_inv_inj[OF inv _ assms(2)] assms(2) young by (metis option.inject)
  then have "pd_chan (pending_cleanup now p) (sender e) = pd_chan p (sender e)"
    by (simp only: pd_chan_cleanup[OF pending_inv_distinct[OF inv]] if_False)
  with young assms(2) show ?thesis
    by (simp add: pd_get_cleanup pending_inv_distinct[OF inv])
qed

section \<open>A run\<close>

definition one_request :: "nat pending" where
  "one_request = snd (pending_register ''a'' 0 pending_new)"

lemma one_request_reach: "pending_reach one_request"
  unfolding one_request_def by (rule pending_reach.step[OF pending_reach.start]) (rule pending_step.register)

lemma one_request_entry:
  "pd_get one_request ''a'' = Some \<lparr>sender = 0, created_at = 0\<rparr>" "pd_chan one_request 0 = Waiting"
  "pd_next one_request = 1"
  by (simp_all add: one_request_def pending_register_def pending_new_def pd_get_def Let_def)

theorem complete_delivers_once_witness:
  "\<exists>q. pending_complete ''a'' 7 one_request = (True, q) \<and>
       fst (pending_wait 0 10000 500 q) = Some (Inr 7)"
  using complete_delivers_once[OF one_request_reach one_request_entry(1), of 7 10000 500]
    one_request_entry(2) by auto

theorem delivered_response_stable_witness:
  "fst (pending_wait 0 10000 99999 (pending_cleanup 99999 (snd (pending_complete ''a'' 7 one_request))))
     = Some (Inr (7::nat))"
proof -
  let ?p = "snd (pending_complete ''a'' 7 one_request)"
  have "pending_reach ?p"
    by (rule pending_reach.step[OF one_request_reach]) (rule pending_step.complete)
  moreover have "pd_chan ?p 0 = Delivered 7" "0 < pd_next ?p"
    using one_request_entry by (simp_all add: pending_complete_def Let_def)
  ultimately show ?thesis
    using delivered_response_stable[of ?p 0 7 "pending_cleanup 99999 ?p" 10000 99999]
      pending_step.cleanup by blast
qed

theorem long_wait_evicted_witness:
  "fst (pending_wait 0 120000 60000 (pending_cleanup 60000 one_request)) = Some (Inl ChannelClosed)"
  using long_wait_evicted[OF one_request_reach one_request_entry(1), of 60000] one_request_entry(2)
  by simp

theorem short_wait_kept_witness:
  "pd_get (pending_cleanup 9999 one_request) ''a'' = Some \<lparr>sender = 0, created_at = 0\<rparr>"
  using short_wait_kept[OF one_request_reach one_request_entry(1), of 10000 9999] by simp

end
