(* ===== verification/Ports.thy ===== *)
theory Ports
  imports Rust_Str
begin

text \<open>
  Port ranges (\<open>controller/src/port_limiter.rs\<close>, the pure part) and upstream origins
  (\<open>common/src/upstream.rs\<close>). The URL parser is reqwest's: it is the argument \<open>url_parse\<close> of
  \<open>parse_upstream\<close>, and a parsed URL is the record of what its accessors return.
\<close>

section \<open>Port ranges\<close>

record port_range =
  pr_start :: u16
  pr_end :: u16

datatype port_error =
    InvalidRangeFormat string
  | InvalidStartPort string
  | InvalidEndPort string
  | StartAboveEnd u16 u16
  | InvalidPort string
  | EmptyRanges

definition range_contains :: "port_range \<Rightarrow> u16 \<Rightarrow> bool" where
  "range_contains r port = (pr_start r \<le> port \<and> port \<le> pr_end r)"

definition parse_range_part :: "string \<Rightarrow> port_error + port_range" where
  "parse_range_part part =
    (if CHR ''-'' \<in> set part then
       (case split_char CHR ''-'' part of
          [a, b] \<Rightarrow>
            (case parse_u16 (str_trim a) of
               None \<Rightarrow> Inl (InvalidStartPort a)
             | Some start \<Rightarrow>
                 (case parse_u16 (str_trim b) of
                    None \<Rightarrow> Inl (InvalidEndPort b)
                  | Some endp \<Rightarrow>
                      if endp < start then Inl (StartAboveEnd start endp)
                      else Inr \<lparr>pr_start = start, pr_end = endp\<rparr>))
        | _ \<Rightarrow> Inl (InvalidRangeFormat part))
     else
       (case parse_u16 part of
          None \<Rightarrow> Inl (InvalidPort part)
        | Some port \<Rightarrow> Inr \<lparr>pr_start = port, pr_end = port\<rparr>))"

text \<open>The loop over the comma-separated parts; empty parts are skipped.\<close>

fun parse_parts :: "string list \<Rightarrow> port_range list \<Rightarrow> port_error + port_range list" where
  "parse_parts [] ranges = Inr ranges"
| "parse_parts (p # ps) ranges =
    (let part = str_trim p in
     if part = [] then parse_parts ps ranges
     else (case parse_range_part part of
             Inl e \<Rightarrow> Inl e
           | Inr r \<Rightarrow> parse_parts ps (ranges @ [r])))"

definition parse_port_ranges :: "string \<Rightarrow> port_error + port_range list" where
  "parse_port_ranges s =
    (case parse_parts (split_char CHR '','' s) [] of
       Inl e \<Rightarrow> Inl e
     | Inr ranges \<Rightarrow> if ranges = [] then Inl EmptyRanges else Inr ranges)"

definition is_port_in_ranges :: "u16 \<Rightarrow> port_range list \<Rightarrow> bool" where
  "is_port_in_ranges port ranges = list_ex (\<lambda>r. range_contains r port) ranges"

definition range_ok :: "port_range \<Rightarrow> bool" where
  "range_ok r = (pr_start r \<le> pr_end r)"

lemma parse_range_part_ok: "parse_range_part part = Inr r \<Longrightarrow> range_ok r"
  by (auto simp: parse_range_part_def range_ok_def split: if_splits list.splits option.splits)

lemma parse_parts_ok:
  "parse_parts ps acc = Inr rs \<Longrightarrow> list_all range_ok acc \<Longrightarrow> list_all range_ok rs"
  by (induction ps acc rule: parse_parts.induct)
     (auto simp: Let_def split: if_splits sum.splits dest: parse_range_part_ok)

text \<open>a parsed configuration is never empty and every range of it contains its own bounds,
  so it admits at least one port.\<close>

theorem parse_port_ranges_ok:
  assumes "parse_port_ranges s = Inr rs"
  shows "rs \<noteq> [] \<and> list_all range_ok rs \<and> is_port_in_ranges (pr_start (hd rs)) rs"
proof -
  from assms have r: "rs \<noteq> []" "parse_parts (split_char CHR '','' s) [] = Inr rs"
    by (auto simp: parse_port_ranges_def split: sum.splits if_splits)
  from r(2) have "list_all range_ok rs" by (rule parse_parts_ok) simp
  with r(1) show ?thesis
    by (cases rs) (auto simp: is_port_in_ranges_def range_contains_def range_ok_def)
qed

section \<open>Printing them back\<close>

definition range_str :: "port_range \<Rightarrow> string" where
  "range_str r = u16_str (pr_start r) @ CHR ''-'' # u16_str (pr_end r)"

definition ranges_str :: "port_range list \<Rightarrow> string" where
  "ranges_str rs = join_char CHR '','' (map range_str rs)"

lemma split_char_absent: "c \<notin> set s \<Longrightarrow> split_char c s = [s]"
  by (induction s) auto

lemma split_join:
  "ws \<noteq> [] \<Longrightarrow> (\<And>w. w \<in> set ws \<Longrightarrow> c \<notin> set w) \<Longrightarrow> split_char c (join_char c ws) = ws"
proof (induction c ws rule: join_char.induct)
  case (3 c w v vs)
  then show ?case by (simp add: split_char_append)
qed (simp_all add: split_char_absent)

lemma digit_codes:
  fixes n :: nat
  assumes "48 \<le> n" "n \<le> 57"
  shows "n = 48 \<or> n = 49 \<or> n = 50 \<or> n = 51 \<or> n = 52 \<or> n = 53 \<or> n = 54 \<or> n = 55 \<or>
    n = 56 \<or> n = 57"
  using assms by presburger

lemma digit_char_code:
  fixes n :: nat
  assumes "48 \<le> n" "n \<le> 57"
  shows "char_of n \<in> set ''0123456789''"
  using digit_codes[OF assms] by (elim disjE) (simp_all add: char_of_def bit_0)

lemma digit_cases:
  assumes "is_digit c"
  shows "c \<in> set ''0123456789''"
proof -
  have "char_of (of_char c :: nat) \<in> set ''0123456789''"
    by (rule digit_char_code) (use assms in \<open>simp_all add: is_digit_def\<close>)
  then show ?thesis by (simp only: char_of_char)
qed

lemma solid_digits: "\<forall>c \<in> set ''-0123456789''. solid c" by code_simp

lemma u16_str_chars: "c \<in> set (u16_str p) \<Longrightarrow> c \<in> set ''0123456789''"
  unfolding u16_str_def by (rule digit_cases) (rule nat_str_digits)

lemma u16_str_solid: "\<forall>c \<in> set (u16_str p). solid c"
  using u16_str_chars solid_digits by fastforce

lemma u16_str_no_sep: "CHR ''-'' \<notin> set (u16_str p)" "CHR '','' \<notin> set (u16_str p)"
  using u16_str_chars by fastforce+

lemma range_str_solid: "\<forall>c \<in> set (range_str r). solid c"
  using u16_str_solid solid_digits by (auto simp: range_str_def)

lemma parse_range_part_str: "range_ok r \<Longrightarrow> parse_range_part (range_str r) = Inr r"
  by (cases r)
     (simp add: parse_range_part_def range_str_def split_char_append split_char_absent
        u16_str_no_sep str_trim_solid u16_str_solid parse_u16_u16_str range_ok_def not_less)

lemma parse_parts_str:
  "list_all range_ok rs \<Longrightarrow> parse_parts (map range_str rs) acc = Inr (acc @ rs)"
proof (induction rs arbitrary: acc)
  case (Cons r rs)
  have "range_str r \<noteq> []" by (simp add: range_str_def)
  with Cons show ?case by (simp add: str_trim_solid[OF range_str_solid] parse_range_part_str Let_def)
qed simp

lemma parse_ranges_str:
  assumes "rs \<noteq> []" "list_all range_ok rs"
  shows "parse_port_ranges (ranges_str rs) = Inr rs"
proof -
  have "split_char CHR '','' (ranges_str rs) = map range_str rs"
    unfolding ranges_str_def
    by (rule split_join) (use assms(1) in \<open>auto simp: range_str_def u16_str_no_sep\<close>)
  then show ?thesis
    using parse_parts_str[OF assms(2), of "[]"] assms(1) by (simp add: parse_port_ranges_def)
qed

lemma parse_port_ranges_ok_witness:
  "is_port_in_ranges 8080 [\<lparr>pr_start = 8080, pr_end = 8090\<rparr>, \<lparr>pr_start = 20000, pr_end = 30000\<rparr>]"
proof -
  have p: "parse_port_ranges (ranges_str
      [\<lparr>pr_start = 8080, pr_end = 8090\<rparr>, \<lparr>pr_start = 20000, pr_end = 30000\<rparr>]) =
     Inr [\<lparr>pr_start = 8080, pr_end = 8090\<rparr>, \<lparr>pr_start = 20000, pr_end = 30000\<rparr>]"
    by (rule parse_ranges_str) (simp_all add: range_ok_def)
  show ?thesis using parse_port_ranges_ok[OF p] by simp
qed

text \<open>a list of well-formed ranges printed in the configuration syntax parses back to itself.\<close>

theorem parse_port_ranges_roundtrip:
  assumes "rs \<noteq> []" "list_all range_ok rs"
  shows "parse_port_ranges (ranges_str rs) = Inr rs"
  by (rule parse_ranges_str) (fact assms)+

lemma parse_port_ranges_roundtrip_witness:
  "parse_port_ranges (ranges_str [\<lparr>pr_start = 20000, pr_end = 30000\<rparr>]) =
     Inr [\<lparr>pr_start = 20000, pr_end = 30000\<rparr>]"
  by (rule parse_port_ranges_roundtrip) (simp_all add: range_ok_def)

section \<open>Upstream origins\<close>

record url =
  url_scheme :: string
  url_username :: string
  url_password :: "string option"
  url_host_str :: "string option"
  url_port_or_default :: "u16 option"
  url_path :: string
  url_query :: "string option"
  url_fragment :: "string option"
  url_as_str :: string

datatype upstream_error =
    OnlyHttpKinds
  | UrlSyntax
  | SchemeNotHttp
  | HttpsNeedsHttps
  | NoHostOrPort
  | HasCredentials
  | NotOriginOnly

definition parse_upstream ::
  "(string \<Rightarrow> url option) \<Rightarrow> string \<Rightarrow> string \<Rightarrow> upstream_error + url" where
  "parse_upstream url_parse kind v =
    (if \<not> (kind = ''http'' \<or> kind = ''https'') then Inl OnlyHttpKinds
     else case url_parse (str_trim v) of
       None \<Rightarrow> Inl UrlSyntax
     | Some u \<Rightarrow>
         if \<not> (url_scheme u = ''http'' \<or> url_scheme u = ''https'') then Inl SchemeNotHttp
         else if \<not> (kind \<noteq> ''https'' \<or> url_scheme u = ''https'') then Inl HttpsNeedsHttps
         else if \<not> (url_host_str u \<noteq> None \<and>
                    (case url_port_or_default u of Some port \<Rightarrow> 0 < port | None \<Rightarrow> False))
              then Inl NoHostOrPort
         else if \<not> (url_username u = [] \<and> url_password u = None) then Inl HasCredentials
         else if \<not> (url_path u = ''/'' \<and> url_query u = None \<and> url_fragment u = None)
              then Inl NotOriginOnly
         else Inr u)"

text \<open>What an accepted origin is, independently of the order of the checks.\<close>

definition clean_origin :: "string \<Rightarrow> url \<Rightarrow> bool" where
  "clean_origin kind u =
    (url_scheme u \<in> {''http'', ''https''} \<and> (kind = ''https'' \<longrightarrow> url_scheme u = ''https'') \<and>
     url_host_str u \<noteq> None \<and> (\<exists>p > 0. url_port_or_default u = Some p) \<and>
     url_username u = [] \<and> url_password u = None \<and>
     url_path u = ''/'' \<and> url_query u = None \<and> url_fragment u = None)"

text \<open>An upstream is accepted exactly when the kind is HTTP or HTTPS and the trimmed text
  parses to a bare origin, credentials, path, query and fragment excluded; an HTTPS proxy never
  passes traffic to a plain-text upstream. The parsed URL is returned unchanged.\<close>

lemma parse_upstream_iff:
  "parse_upstream url_parse kind v = Inr u \<longleftrightarrow>
     kind \<in> {''http'', ''https''} \<and> url_parse (str_trim v) = Some u \<and> clean_origin kind u"
  by (auto simp: parse_upstream_def clean_origin_def split: option.splits)

end
