(* ===== verification/Rust_Float.thy ===== *)
theory Rust_Float
  imports Complex_Main Rust_Prelude "HOL-Library.Log_Nat"
begin

text \<open>
  Rust's \<open>f64\<close>: IEEE binary64 with round-to-nearest-even. A finite value is the rational it
  denotes, so zero has one sign; nothing the program computes distinguishes the two. Every
  operation rounds its exact result, overflow gives an infinity, and a comparison with NaN is
  false. The lemmas say where arithmetic is exact: on multiples of a power of two with at most
  53 significant bits, in particular on whole numbers up to \<open>2^53\<close> and under scaling by a
  power of two.
\<close>

datatype f64 = Fin rat | PInf | NInf | NaN

definition round_even :: "rat \<Rightarrow> int" where
  "round_even x =
    (let f = \<lfloor>x\<rfloor>; d = x - of_int f
     in if d < 1 / 2 then f else if 1 / 2 < d then f + 1 else if even f then f else f + 1)"

text \<open>The exponent of the leading bit of a positive rational.\<close>

definition flog2 :: "rat \<Rightarrow> int" where
  "flog2 x =
    (case quotient_of x of (p, q) \<Rightarrow>
       let l = bitlen p - bitlen q in if 2 powi l \<le> x then l else l - 1)"

definition f_exp :: "rat \<Rightarrow> int" where
  "f_exp x = max (- 1074) (flog2 \<bar>x\<bar> - 52)"

definition f_round :: "rat \<Rightarrow> f64" where
  "f_round x =
    (if x = 0 then Fin 0
     else let e = f_exp x; y = of_int (round_even (x / 2 powi e)) * 2 powi e
          in if 2 ^ 1024 \<le> y then PInf else if y \<le> - (2 ^ 1024) then NInf else Fin y)"

fun f_neg :: "f64 \<Rightarrow> f64" where
  "f_neg (Fin x) = Fin (- x)"
| "f_neg PInf = NInf"
| "f_neg NInf = PInf"
| "f_neg NaN = NaN"

fun f_add :: "f64 \<Rightarrow> f64 \<Rightarrow> f64" where
  "f_add (Fin x) (Fin y) = f_round (x + y)"
| "f_add NaN _ = NaN"
| "f_add _ NaN = NaN"
| "f_add PInf NInf = NaN"
| "f_add NInf PInf = NaN"
| "f_add PInf _ = PInf"
| "f_add _ PInf = PInf"
| "f_add NInf _ = NInf"
| "f_add _ NInf = NInf"

definition f_sub :: "f64 \<Rightarrow> f64 \<Rightarrow> f64" where
  "f_sub x y = f_add x (f_neg y)"

text \<open>Multiplication and division by a positive constant, the only ones the modelled code has.\<close>

fun f_mul_pos :: "f64 \<Rightarrow> rat \<Rightarrow> f64" where
  "f_mul_pos (Fin x) c = f_round (x * c)"
| "f_mul_pos y c = y"

fun f_div_pos :: "f64 \<Rightarrow> rat \<Rightarrow> f64" where
  "f_div_pos (Fin x) c = f_round (x / c)"
| "f_div_pos y c = y"

fun f_lt :: "f64 \<Rightarrow> f64 \<Rightarrow> bool" where
  "f_lt NaN _ = False"
| "f_lt _ NaN = False"
| "f_lt (Fin x) (Fin y) = (x < y)"
| "f_lt NInf y = (y \<noteq> NInf)"
| "f_lt x PInf = (x \<noteq> PInf)"
| "f_lt _ _ = False"

definition f_max :: "f64 \<Rightarrow> f64 \<Rightarrow> f64" where
  "f_max x y = (if x = NaN then y else if y = NaN then x else if f_lt x y then y else x)"

definition f_zero :: f64 where
  "f_zero = Fin 0"

definition f_of_i64 :: "i64 \<Rightarrow> f64" where
  "f_of_i64 n = f_round (of_int (sint n))"

text \<open>\<open>as i64\<close>: truncate towards zero, saturate, NaN to zero.\<close>

definition rat_trunc :: "rat \<Rightarrow> int" where
  "rat_trunc x = (if 0 \<le> x then \<lfloor>x\<rfloor> else \<lceil>x\<rceil>)"

definition i64_clamp :: "int \<Rightarrow> int" where
  "i64_clamp n = max (- (2 ^ 63)) (min (2 ^ 63 - 1) n)"

fun f_to_i64 :: "f64 \<Rightarrow> i64" where
  "f_to_i64 (Fin x) = of_int (i64_clamp (rat_trunc x))"
| "f_to_i64 PInf = of_int (2 ^ 63 - 1)"
| "f_to_i64 NInf = of_int (- (2 ^ 63))"
| "f_to_i64 NaN = 0"

section \<open>Exactness\<close>

lemma flog2_bounds:
  assumes "0 < x"
  shows "2 powi (flog2 x) \<le> x" "x < 2 powi (flog2 x + 1)"
proof -
  obtain p q where pq: "quotient_of x = (p, q)" by (cases "quotient_of x")
  have q: "0 < q" using quotient_of_denom_pos[OF pq] .
  have x: "x = of_int p / of_int q" using quotient_of_div[OF pq] .
  have p: "0 < p" using assms q by (simp add: x zero_less_divide_iff)
  have bl: "1 \<le> bitlen n" if "0 < n" for n :: int
    using that bitlen_nonneg[of n] bitlen_eq_zero_iff[of n] by linarith
  have up: "(of_int n :: rat) < 2 powi (bitlen n)" if "0 < n" for n :: int
  proof -
    have "(of_int n :: rat) < of_int (2 ^ nat (bitlen n))"
      using bitlen_bounds[OF that] by (simp only: of_int_less_iff)
    then show ?thesis using bl[OF that] by (simp add: power_int_def)
  qed
  have lo: "2 powi (bitlen n - 1) \<le> (of_int n :: rat)" if "0 < n" for n :: int
  proof -
    have "(of_int (2 ^ nat (bitlen n - 1)) :: rat) \<le> of_int n"
      using bitlen_bounds[OF that] by (simp only: of_int_le_iff)
    then show ?thesis using bl[OF that] by (simp add: power_int_def)
  qed
  let ?l = "bitlen p - bitlen q"
  have "x < 2 powi (bitlen p) / 2 powi (bitlen q - 1)"
    unfolding x using up[OF p] lo[OF q] p q by (intro frac_less) auto
  then have A: "x < 2 powi (?l + 1)" by (simp flip: power_int_diff add: algebra_simps)
  have "2 powi (bitlen p - 1) / 2 powi (bitlen q) \<le> x"
    unfolding x using lo[OF p] up[OF q] p q by (intro frac_le) auto
  then have B: "2 powi (?l - 1) \<le> x" by (simp flip: power_int_diff add: algebra_simps)
  show "2 powi (flog2 x) \<le> x" "x < 2 powi (flog2 x + 1)"
    using A B by (auto simp: flog2_def pq Let_def)
qed

lemma round_even_of_int [simp]: "round_even (of_int n) = n"
  by (simp add: round_even_def)

text \<open>The representable numbers, by significand and exponent.\<close>

definition dyadic :: "rat \<Rightarrow> bool" where
  "dyadic x = (\<exists>m e. x = of_int m * 2 powi e \<and> \<bar>m\<bar> \<le> 2 ^ 53 \<and> - 1074 \<le> e)"

lemma powi_le_iff: "(2::rat) powi a \<le> 2 powi b \<longleftrightarrow> a \<le> b"
  using power_int_strict_increasing[of b a "2::rat"] power_int_increasing[of a b "2::rat"]
  by (cases "a \<le> b") auto

lemma powi_less_iff: "(2::rat) powi a < 2 powi b \<longleftrightarrow> a < b"
  using powi_le_iff[of b a] by (simp add: not_le[symmetric])

lemma powi_split: "e \<le> e' \<Longrightarrow> (2::rat) powi e' = of_int (2 ^ nat (e' - e)) * 2 powi e"
proof -
  assume "e \<le> e'"
  then have "(2::rat) powi e' = 2 powi (int (nat (e' - e)) + e)" by simp
  also have "\<dots> = 2 powi (int (nat (e' - e))) * 2 powi e"
    by (rule power_int_add) simp
  also have "\<dots> = of_int (2 ^ nat (e' - e)) * 2 powi e"
    by (simp only: power_int_of_nat of_int_power of_int_numeral)
  finally show ?thesis .
qed

lemma dyadic_multiple:
  assumes "dyadic x" "x \<noteq> 0"
  shows "\<exists>k. x = of_int k * 2 powi (f_exp x)"
proof -
  obtain m e where x: "x = of_int m * 2 powi e" and m: "\<bar>m\<bar> \<le> 2 ^ 53" and e: "- 1074 \<le> e"
    using assms(1) by (auto simp: dyadic_def)
  have m0: "m \<noteq> 0" using assms(2) x by auto
  have absx: "\<bar>x\<bar> = of_int \<bar>m\<bar> * 2 powi e" by (simp add: x abs_mult)
  have pos: "0 < \<bar>x\<bar>" using assms(2) by simp
  show ?thesis
  proof (cases "\<bar>m\<bar> = 2 ^ 53")
    case True
    then have ax: "\<bar>x\<bar> = 2 powi (e + 53)"
      unfolding absx by (simp add: power_int_add)
    have "(2::rat) powi (flog2 \<bar>x\<bar>) \<le> 2 powi (e + 53)" "(2::rat) powi (e + 53) < 2 powi (flog2 \<bar>x\<bar> + 1)"
      using flog2_bounds[OF pos] unfolding ax by auto
    then have "flog2 \<bar>x\<bar> \<le> e + 53" by (simp only: powi_le_iff)
    then have le: "f_exp x \<le> e + 1" using e by (simp add: f_exp_def)
    have "x = of_int (sgn m * 2 ^ 52) * 2 powi (e + 1)"
    proof -
      have "m = sgn m * 2 ^ 53" using True by (metis mult_sgn_abs)
      then have "(of_int m :: rat) = of_int (sgn m) * 2 ^ 53"
        by (metis of_int_mult of_int_numeral of_int_power)
      moreover have "(2::rat) powi (e + 1) = 2 * 2 powi e" by (simp add: power_int_add)
      ultimately show ?thesis unfolding x by simp
    qed
    also have "\<dots> = of_int (sgn m * 2 ^ 52 * 2 ^ nat (e + 1 - f_exp x)) * 2 powi (f_exp x)"
      using powi_split[OF le] by simp
    finally show ?thesis by blast
  next
    case False
    with m have "\<bar>m\<bar> < 2 ^ 53" by simp
    then have "(of_int \<bar>m\<bar> :: rat) < of_int (2 ^ 53)" by (simp only: of_int_less_iff)
    then have "\<bar>x\<bar> < 2 ^ 53 * 2 powi e" unfolding absx by simp
    then have "\<bar>x\<bar> < 2 powi (e + 53)" by (simp add: power_int_add mult.commute)
    then have "(2::rat) powi (flog2 \<bar>x\<bar>) < 2 powi (e + 53)"
      using flog2_bounds(1)[OF pos] by linarith
    then have "flog2 \<bar>x\<bar> < e + 53" by (simp only: powi_less_iff)
    then have le: "f_exp x \<le> e" using e by (simp add: f_exp_def)
    have "x = of_int (m * 2 ^ nat (e - f_exp x)) * 2 powi (f_exp x)"
      unfolding x using powi_split[OF le] by (simp add: x)
    then show ?thesis by blast
  qed
qed

lemma f_round_dyadic:
  assumes "dyadic x" "\<bar>x\<bar> < 2 ^ 1024"
  shows "f_round x = Fin x"
proof (cases "x = 0")
  case False
  obtain k where k: "x = of_int k * 2 powi (f_exp x)" using dyadic_multiple[OF assms(1) False] ..
  have "x / 2 powi (f_exp x) = of_int k" by (subst k) simp
  then have "of_int (round_even (x / 2 powi (f_exp x))) * 2 powi (f_exp x) = x"
    using k by simp
  then show ?thesis using assms(2) False by (auto simp: f_round_def Let_def)
qed (simp add: f_round_def)

lemma f_round_of_int:
  assumes "\<bar>n\<bar> \<le> 2 ^ 53"
  shows "f_round (of_int n) = Fin (of_int n)"
proof (rule f_round_dyadic)
  show "dyadic (of_int n)"
    unfolding dyadic_def by (rule exI[of _ n], rule exI[of _ 0]) (use assms in simp)
  have "(of_int \<bar>n\<bar> :: rat) \<le> of_int (2 ^ 53)" using assms by (simp only: of_int_le_iff)
  also have "\<dots> < 2 ^ 1024" by simp
  finally show "\<bar>of_int n :: rat\<bar> < 2 ^ 1024" by simp
qed

lemma f_add_int:
  "\<bar>a + b\<bar> \<le> 2 ^ 53 \<Longrightarrow> f_add (Fin (of_int a)) (Fin (of_int b)) = Fin (of_int (a + b))"
  using f_round_of_int[of "a + b"] by simp

lemma f_sub_int:
  "\<bar>a - b\<bar> \<le> 2 ^ 53 \<Longrightarrow> f_sub (Fin (of_int a)) (Fin (of_int b)) = Fin (of_int (a - b))"
  using f_round_of_int[of "a - b"] by (simp add: f_sub_def)

lemma f_max_zero_nonneg: "f_max x f_zero = Fin q \<Longrightarrow> 0 \<le> q"
  by (cases x) (auto simp: f_max_def f_zero_def split: if_splits)

lemma f_max_zero_not_nan: "f_max x f_zero \<noteq> NaN"
  by (cases x) (auto simp: f_max_def f_zero_def)

section \<open>Rounding stays between representable numbers\<close>

lemma flog2_mono:
  assumes "0 < x" "x \<le> y"
  shows "flog2 x \<le> flog2 y"
proof -
  have "2 powi flog2 x \<le> x" "y < 2 powi (flog2 y + 1)"
    using flog2_bounds assms by auto
  then have "(2::rat) powi flog2 x < 2 powi (flog2 y + 1)" using assms(2) by linarith
  then show ?thesis by (simp add: powi_less_iff)
qed

lemma round_even_le: "x \<le> of_int k \<Longrightarrow> round_even x \<le> k"
  by (auto simp: round_even_def Let_def floor_le_iff less_floor_iff le_floor_iff)

lemma round_even_ge: "of_int k \<le> x \<Longrightarrow> k \<le> round_even x"
  by (auto simp: round_even_def Let_def le_floor_iff) linarith+

lemma f_round_le:
  assumes "0 < x" "x \<le> q" "dyadic q" "q < 2 ^ 1024"
  shows "\<exists>y. f_round x = Fin y \<and> 0 \<le> y \<and> y \<le> q"
proof -
  let ?e = "f_exp x"
  let ?p = "(2::rat) powi ?e"
  have q: "0 < q" using assms by linarith
  have le: "?e \<le> f_exp q" using flog2_mono[OF assms(1,2)] assms(1) q by (auto simp: f_exp_def)
  obtain m where m: "q = of_int m * ?p"
  proof -
    obtain k where "q = of_int k * 2 powi (f_exp q)" using dyadic_multiple[OF assms(3)] q by blast
    also have "\<dots> = of_int (k * 2 ^ nat (f_exp q - ?e)) * ?p" by (simp only: powi_split[OF le] of_int_mult mult.assoc)
    finally show ?thesis by (rule that)
  qed
  have p: "0 < ?p" by simp
  have "x / ?p \<le> of_int m"
    using assms(2) p unfolding m by (simp only: divide_le_eq if_True)
  from round_even_le[OF this] have "of_int (round_even (x / ?p)) * ?p \<le> q"
    unfolding m using p by (simp only: mult_le_cancel_right_pos of_int_le_iff)
  moreover have "0 \<le> round_even (x / ?p)"
    using assms(1) p by (intro round_even_ge) simp
  then have "0 \<le> of_int (round_even (x / ?p)) * ?p" using p by simp
  ultimately show ?thesis
    using assms(1,4) by (auto simp: f_round_def Let_def)
qed

lemma f_round_ge:
  assumes "q \<le> x" "0 < q" "dyadic q" "f_round x = Fin y"
  shows "q \<le> y"
proof -
  let ?e = "f_exp x"
  let ?p = "(2::rat) powi ?e"
  have x: "0 < x" using assms by linarith
  have y: "y = of_int (round_even (x / ?p)) * ?p"
    using assms(4) x by (auto simp: f_round_def Let_def split: if_splits)
  have p: "0 < ?p" by simp
  have mono: "f_exp q \<le> ?e" using flog2_mono[OF assms(2,1)] x assms(2) by (auto simp: f_exp_def)
  show ?thesis
  proof (cases "f_exp q = ?e")
    case True
    obtain k where k: "q = of_int k * ?p" using dyadic_multiple[OF assms(3)] assms(2) True by auto
    have "of_int k \<le> x / ?p" using assms(1) p unfolding k by (simp add: le_divide_eq)
    from round_even_ge[OF this] show ?thesis
      unfolding y k using p by (simp only: mult_le_cancel_right_pos of_int_le_iff)
  next
    case False
    then have e: "?e = flog2 x - 52" "flog2 q < flog2 x"
      using mono x assms(2) by (auto simp: f_exp_def split: if_splits)
    have "(2::rat) ^ 52 * ?p = 2 powi (flog2 x)"
      by (simp add: e(1) power_int_diff)
    moreover have "2 powi (flog2 x) \<le> x" using flog2_bounds(1)[OF x] .
    ultimately have "of_int (2 ^ 52) \<le> x / ?p" using p by (simp add: le_divide_eq)
    from round_even_ge[OF this] have "2 ^ 52 * ?p \<le> y"
      unfolding y using p by (metis mult_le_cancel_right_pos of_int_le_iff of_int_numeral of_int_power)
    moreover have "q < 2 powi (flog2 q + 1)" using flog2_bounds(2)[OF assms(2)] .
    moreover have "(2::rat) powi (flog2 q + 1) \<le> 2 powi (flog2 x)" using e(2) by (simp add: powi_le_iff)
    ultimately show ?thesis using \<open>2 ^ 52 * ?p = 2 powi (flog2 x)\<close> by linarith
  qed
qed

end
