(* ===== verification/Entities.thy ===== *)
theory Entities
  imports Rust_Float Rust_Str
begin

text \<open>
  The rows of the controller's database (\<open>controller/src/entity/*.rs\<close>), one record per
  \<open>Model\<close> with the source's fields in the source's order. Row identifiers are only compared,
  never computed with, so they are plain integers; ports, counters and limits have their width.
\<close>

section \<open>Dates\<close>

text \<open>
  A \<open>chrono::NaiveDateTime\<close> is given by the value chrono compares (\<open>dt_ticks\<close>) together with
  what its accessors return: the number of its \<open>date()\<close>, \<open>year()\<close> and \<open>month()\<close>. The calendar
  itself is chrono's and is not modelled.
\<close>

datatype naive_dt = DT (dt_ticks: int) (dt_day: int) (dt_year: int) (dt_month: int)

definition dt_key :: "naive_dt \<Rightarrow> int \<times> int \<times> int \<times> int" where
  "dt_key t = (dt_ticks t, dt_day t, dt_year t, dt_month t)"

lemma dt_key_inj: "dt_key a = dt_key b \<Longrightarrow> a = b"
  by (cases a; cases b) (simp add: dt_key_def)

instantiation naive_dt :: linorder
begin

definition less_eq_naive_dt :: "naive_dt \<Rightarrow> naive_dt \<Rightarrow> bool" where
  "less_eq_naive_dt a b =
    (dt_ticks a < dt_ticks b \<or> dt_ticks a = dt_ticks b \<and>
      (dt_day a < dt_day b \<or> dt_day a = dt_day b \<and>
        (dt_year a < dt_year b \<or> dt_year a = dt_year b \<and> dt_month a \<le> dt_month b)))"

definition less_naive_dt :: "naive_dt \<Rightarrow> naive_dt \<Rightarrow> bool" where
  "less_naive_dt a b = (a \<le> b \<and> \<not> b \<le> a)"

instance
proof
  fix a b c :: naive_dt
  show "a < b \<longleftrightarrow> a \<le> b \<and> \<not> b \<le> a" by (simp add: less_naive_dt_def)
  show "a \<le> a" by (simp add: less_eq_naive_dt_def)
  show "a \<le> b \<Longrightarrow> b \<le> c \<Longrightarrow> a \<le> c" by (auto simp: less_eq_naive_dt_def)
  show "a \<le> b \<Longrightarrow> b \<le> a \<Longrightarrow> a = b"
    by (rule dt_key_inj) (auto simp: less_eq_naive_dt_def dt_key_def)
  show "a \<le> b \<or> b \<le> a" by (auto simp: less_eq_naive_dt_def)
qed

end

section \<open>Rows\<close>

record user_row =
  u_id :: int
  u_username :: string
  u_password_hash :: string
  u_is_admin :: bool
  u_sent :: i64
  u_received :: i64
  u_reset_cycle :: string
  u_last_reset :: "naive_dt option"
  u_exceeded :: bool
  u_quota_gb :: "f64 option"
  u_max_port :: "i32 option"
  u_port_range :: "string option"
  u_max_node :: "i32 option"
  u_max_client :: "i32 option"
  u_created_at :: naive_dt
  u_updated_at :: naive_dt

record client_row =
  c_id :: int
  c_name :: string
  c_token :: string
  c_is_online :: bool
  c_public_ip :: "string option"
  c_region :: "string option"
  c_sent :: i64
  c_received :: i64
  c_reset_cycle :: string
  c_last_reset :: "naive_dt option"
  c_exceeded :: bool
  c_quota_gb :: "f64 option"
  c_user_id :: "int option"
  c_version :: "string option"
  c_last_online :: "naive_dt option"
  c_created_at :: naive_dt
  c_updated_at :: naive_dt

record node_row =
  n_id :: int
  n_name :: string
  n_url :: string
  n_secret :: string
  n_is_online :: bool
  n_region :: "string option"
  n_public_ip :: "string option"
  n_description :: "string option"
  n_tunnel_addr :: string
  n_tunnel_port :: i32
  n_tunnel_protocol :: string
  n_kcp_config :: "string option"
  n_node_type :: string
  n_max_proxy :: "i32 option"
  n_port_range :: "string option"
  n_quota_gb :: "f64 option"
  n_reset_cycle :: string
  n_sent :: i64
  n_received :: i64
  n_last_reset :: "naive_dt option"
  n_exceeded :: bool
  n_speed_limit :: "i64 option"
  n_version :: "string option"
  n_last_online :: "naive_dt option"
  n_created_at :: naive_dt
  n_updated_at :: naive_dt

record proxy_row =
  p_id :: int
  p_client_id :: "string option"
  p_user_id :: "int option"
  p_upstream :: string
  p_name :: string
  p_type :: string
  p_domain :: string
  p_local_ip :: string
  p_local_port :: u16
  p_remote_port :: u16
  p_enabled :: bool
  p_node_id :: "int option"
  p_group_id :: "string option"
  p_sent :: i64
  p_received :: i64
  p_created_at :: naive_dt
  p_updated_at :: naive_dt

record subscription_row =
  s_id :: int
  s_name :: string
  s_duration_type :: string
  s_duration_value :: i32
  s_quota_gb :: f64
  s_max_port :: "i32 option"
  s_max_node :: "i32 option"
  s_max_client :: "i32 option"
  s_price :: "f64 option"
  s_description :: "string option"
  s_is_active :: bool
  s_created_at :: naive_dt
  s_updated_at :: naive_dt

record user_sub_row =
  us_id :: int
  us_user_id :: int
  us_subscription_id :: int
  us_start :: naive_dt
  us_end :: naive_dt
  us_quota_gb :: f64
  us_used_gb :: f64
  us_is_active :: bool
  us_max_port :: "i32 option"
  us_max_node :: "i32 option"
  us_max_client :: "i32 option"
  us_merged :: bool
  us_created_at :: naive_dt
  us_updated_at :: naive_dt

record traffic_row =
  t_id :: int
  t_proxy_id :: int
  t_client_id :: "int option"
  t_sent :: i64
  t_received :: i64
  t_date :: string
  t_created_at :: naive_dt
  t_updated_at :: naive_dt

record cert_row =
  k_id :: int
  k_node_id :: int
  k_cert :: string
  k_key :: string
  k_fingerprint :: string
  k_created_at :: naive_dt
  k_expires_at :: naive_dt

record user_node_row =
  un_id :: int
  un_user_id :: int
  un_node_id :: int
  un_created_at :: naive_dt

record user_client_row =
  uc_id :: int
  uc_user_id :: int
  uc_client_id :: int
  uc_created_at :: naive_dt

record config_row =
  g_id :: int
  g_key :: string
  g_value :: string
  g_description :: string
  g_value_type :: string
  g_created_at :: naive_dt
  g_updated_at :: naive_dt

text \<open>The authenticated caller of a handler (\<open>middleware/auth.rs\<close>).\<close>

record auth_user =
  a_id :: int
  a_username :: string
  a_is_admin :: bool

text \<open>What a node is told about a proxy (\<open>common/src/protocol/control.rs\<close>, \<open>Model::config\<close>).\<close>

record proxy_config =
  pc_proxy_id :: int
  pc_client_id :: string
  pc_name :: string
  pc_type :: string
  pc_domain :: string
  pc_upstream :: string
  pc_user_id :: "int option"
  pc_local_ip :: string
  pc_local_port :: u16
  pc_remote_port :: u16
  pc_enabled :: bool

definition or_default :: "string option \<Rightarrow> string" where
  "or_default x = (case x of Some s \<Rightarrow> s | None \<Rightarrow> [])"

definition proxy_config_of :: "proxy_row \<Rightarrow> proxy_config" where
  "proxy_config_of p =
    \<lparr>pc_proxy_id = p_id p, pc_client_id = or_default (p_client_id p), pc_name = p_name p,
     pc_type = p_type p, pc_domain = p_domain p, pc_upstream = p_upstream p,
     pc_user_id = p_user_id p, pc_local_ip = p_local_ip p, pc_local_port = p_local_port p,
     pc_remote_port = p_remote_port p, pc_enabled = p_enabled p\<rparr>"

text \<open>The gRPC message carries ports as \<open>u32\<close>; the conversions truncate and widen.\<close>

record grpc_proxy_config =
  gc_proxy_id :: int
  gc_client_id :: string
  gc_name :: string
  gc_type :: string
  gc_domain :: string
  gc_upstream :: string
  gc_user_id :: "int option"
  gc_local_ip :: string
  gc_local_port :: u32
  gc_remote_port :: u32
  gc_enabled :: bool

definition config_from_grpc :: "grpc_proxy_config \<Rightarrow> proxy_config" where
  "config_from_grpc p =
    \<lparr>pc_proxy_id = gc_proxy_id p, pc_client_id = gc_client_id p, pc_name = gc_name p,
     pc_type = gc_type p, pc_domain = gc_domain p, pc_upstream = gc_upstream p,
     pc_user_id = gc_user_id p, pc_local_ip = gc_local_ip p,
     pc_local_port = ucast (gc_local_port p), pc_remote_port = ucast (gc_remote_port p),
     pc_enabled = gc_enabled p\<rparr>"

definition config_to_grpc :: "proxy_config \<Rightarrow> grpc_proxy_config" where
  "config_to_grpc p =
    \<lparr>gc_proxy_id = pc_proxy_id p, gc_client_id = pc_client_id p, gc_name = pc_name p,
     gc_type = pc_type p, gc_domain = pc_domain p, gc_upstream = pc_upstream p,
     gc_user_id = pc_user_id p, gc_local_ip = pc_local_ip p,
     gc_local_port = ucast (pc_local_port p), gc_remote_port = ucast (pc_remote_port p),
     gc_enabled = pc_enabled p\<rparr>"

lemma ucast_u16_u32: "(ucast (ucast (p :: u16) :: u32) :: u16) = p"
  by (simp add: unsigned_ucast_eq take_bit_word_eq_self)

text \<open>sending a configuration over gRPC and reading it back loses nothing.\<close>

theorem config_grpc_roundtrip: "config_from_grpc (config_to_grpc c) = c"
  by (cases c) (simp add: config_from_grpc_def config_to_grpc_def ucast_u16_u32)

end
