(* ===== verification/World.thy ===== *)
theory World
  imports Entities Domain Pending
begin

text \<open>
  What the controller's code runs against: the database, the clock, the gRPC sessions of nodes
  and clients, and the environment that answers commands. All of it is the state of the
  \<open>State_Monad\<close> the handlers are written in.

  SQL and sea-orm are not code of the repository. They appear here by their documented behaviour:
  a statement reads or changes whole rows of one table; \<open>find_by_id\<close>, \<open>filter(..).one()\<close>,
  \<open>.all()\<close> and \<open>.count()\<close> read; \<open>update\<close> writes the fields that were \<open>Set\<close> and fails with
  \<open>RecordNotUpdated\<close> when the row is gone; \<open>insert\<close> assigns the next identifier; any statement
  may fail, in which case it changes nothing. The list \<open>w_faults\<close> says which of the coming
  statements fail. The schema of the migrations is part of the program: unique indexes, foreign keys,
  the check on direct proxies and the two route triggers refuse a row with \<open>ConstraintFailed\<close>, and
  foreign keys with \<open>ON DELETE CASCADE\<close> take the dependent rows along.
\<close>

section \<open>Database\<close>

record db =
  db_users :: "user_row list"
  db_clients :: "client_row list"
  db_nodes :: "node_row list"
  db_proxies :: "proxy_row list"
  db_user_nodes :: "user_node_row list"
  db_subscriptions :: "subscription_row list"
  db_user_subs :: "user_sub_row list"
  db_traffic :: "traffic_row list"
  db_certs :: "cert_row list"
  db_user_clients :: "user_client_row list"
  db_configs :: "config_row list"
  sq_users :: int
  sq_nodes :: int
  sq_user_nodes :: int
  sq_subscriptions :: int
  sq_clients :: int
  sq_proxies :: int
  sq_user_subs :: int
  sq_traffic :: int
  sq_certs :: int

datatype db_err = DbFault | RecordNotUpdated | ConstraintFailed

section \<open>Sessions and messages\<close>

record log_entry =
  le_timestamp :: string
  le_level :: string
  le_message :: string

record connected_client =
  cc_client_id :: string
  cc_remote :: string
  cc_protocol :: string

record cert_msg =
  cm_cert :: string
  cm_key :: string
  cm_fingerprint :: string
  cm_expires :: int

text \<open>What the controller answers to messages of a node. The texts of errors are short codes;
  \<open>NodeStreamError\<close> is an \<open>Err(Status)\<close> on the stream.\<close>

datatype node_reply =
    RegisterResponse int string string "i64 option" u32 "cert_msg option"
  | NodeHeartbeat int
  | ValidateTokenResponse string int string bool "string option"
  | ClientOnlineResponse string bool
  | TrafficLimitResponse string bool "string option"
  | GetClientProxiesResponse string "grpc_proxy_config list"
  | TrafficReportResponse bool
  | NodeStreamError string

text \<open>\<open>ControllerToAgentMessage.payload\<close>: the commands, and the answers under \<open>NodeReply\<close>.\<close>

datatype node_payload =
    StartProxy string string int "grpc_proxy_config option"
  | StopProxy string string int
  | GetStatus string
  | GetClientLogs string string nat
  | GetNodeLogs string nat
  | UpdateProtocol string string
  | UpdateSpeedLimit string i64
  | SoftwareUpdate string
  | UpdateCertificate string "cert_msg option"
  | Restart string
  | SyncDirectProxies "grpc_proxy_config list"
  | NodeReply node_reply

datatype agent_result =
    CommandAck bool "string option"
  | ServerStatusResult "connected_client list" nat
  | ClientLogsResult "log_entry list"
  | NodeLogsResult "log_entry list"
  | SoftwareUpdateResult bool "string option" "string option"
  | UpdateCertificateResult bool "string option"

text \<open>The proxy list pushed to a client (\<open>ProxyListUpdate\<close>).\<close>

record proxy_info =
  pi_proxy_id :: int
  pi_name :: string
  pi_type :: string
  pi_local_ip :: string
  pi_local_port :: i32
  pi_remote_port :: i32
  pi_enabled :: bool

record kcp_config =
  kc_nodelay :: bool
  kc_interval :: u32
  kc_resend :: u32
  kc_nc :: bool

record server_group =
  sg_node_id :: int
  sg_addr :: string
  sg_port :: u32
  sg_protocol :: string
  sg_kcp :: "kcp_config option"
  sg_proxies :: "proxy_info list"
  sg_fingerprints :: "string list"

record proxy_list_update =
  pl_client_id :: int
  pl_client_name :: string
  pl_groups :: "server_group list"

datatype client_reply =
    ClientAuthResponse bool "string option" int string
  | ErrorNotification string
  | ClientHeartbeat int
  | ClientStreamError string

datatype client_payload =
    ProxyUpdate proxy_list_update
  | GetLogs string nat
  | ClientSoftwareUpdate string
  | ClientRestart string
  | ClientReply client_reply

datatype client_result =
    ClientLogs "log_entry list"
  | ClientUpdateResult bool "string option" "string option"

text \<open>A cached setting (\<open>ConfigValue\<close>).\<close>

datatype config_value =
    VNumber i64
  | VFloat f64
  | VString string
  | VBoolean bool

text \<open>A registered stream: the channel towards the peer and the requests that wait for it.\<close>

record 'r session =
  ss_chan :: nat
  ss_pending :: "'r pending"

text \<open>
  \<open>w_node_answers\<close> and \<open>w_client_answers\<close> hold what the peers will do with the coming commands:
  \<open>None\<close>, no answer before the deadline; \<open>Some r\<close>, a response whose \<open>result\<close> is \<open>r\<close>. \<open>w_tasks\<close>
  are the notifications handed to \<open>tokio::spawn\<close>, which run on their own; \<open>w_config\<close> is the cache
  of the settings.
\<close>

record world =
  w_db :: db
  w_faults :: "bool list"
  w_now :: naive_dt
  w_mono :: int
  w_uuids :: "string list"
  w_nodes :: "(int \<times> agent_result option session) list"
  w_clients :: "(int \<times> client_result option session) list"
  w_closed :: "nat list"
  w_node_answers :: "agent_result option option list"
  w_client_answers :: "client_result option option list"
  w_node_log :: "(nat \<times> node_payload) list"
  w_client_log :: "(nat \<times> client_payload) list"
  w_tasks :: "string list"
  w_config :: "(string \<times> config_value) list"

type_synonym 'a io = "(world, 'a) state"

section \<open>Statements\<close>

definition next_fault :: "world \<Rightarrow> bool" where
  "next_fault w = (case w_faults w of [] \<Rightarrow> False | b # _ \<Rightarrow> b)"

definition pop_fault :: "world \<Rightarrow> world" where
  "pop_fault w = w\<lparr>w_faults := tl (w_faults w)\<rparr>"

definition stmt :: "(db \<Rightarrow> (db_err + 'a) \<times> db) \<Rightarrow> (db_err + 'a) io" where
  "stmt f = State (\<lambda>w. if next_fault w then (Inl DbFault, pop_fault w)
                       else (case f (w_db w) of (r, d) \<Rightarrow> (r, (pop_fault w)\<lparr>w_db := d\<rparr>)))"

definition query :: "(db \<Rightarrow> 'a) \<Rightarrow> (db_err + 'a) io" where
  "query f = stmt (\<lambda>d. (Inr (f d), d))"

definition asks :: "(world \<Rightarrow> 'a) \<Rightarrow> 'a io" where
  "asks f = State (\<lambda>w. (f w, w))"

definition modify :: "(world \<Rightarrow> world) \<Rightarrow> unit io" where
  "modify f = State (\<lambda>w. ((), f w))"

definition utc_now :: "naive_dt io" where
  "utc_now = asks w_now"

definition new_uuid :: "string io" where
  "new_uuid = State (\<lambda>w. case w_uuids w of [] \<Rightarrow> ([], w) | u # us \<Rightarrow> (u, w\<lparr>w_uuids := us\<rparr>))"

record 'r table =
  rows :: "db \<Rightarrow> 'r list"
  set_rows :: "'r list \<Rightarrow> db \<Rightarrow> db"
  row_key :: "'r \<Rightarrow> int"
  ins_ok :: "db \<Rightarrow> 'r \<Rightarrow> bool"
  upd_ok :: "db \<Rightarrow> 'r \<Rightarrow> bool"
  drop_rows :: "('r \<Rightarrow> bool) \<Rightarrow> db \<Rightarrow> db"

definition find_by_id :: "'r table \<Rightarrow> int \<Rightarrow> (db_err + 'r option) io" where
  "find_by_id T i = query (\<lambda>d. row_get (row_key T) i (rows T d))"

definition find_all :: "'r table \<Rightarrow> ('r \<Rightarrow> bool) \<Rightarrow> (db_err + 'r list) io" where
  "find_all T P = query (\<lambda>d. filter P (rows T d))"

definition find_one :: "'r table \<Rightarrow> ('r \<Rightarrow> bool) \<Rightarrow> (db_err + 'r option) io" where
  "find_one T P = query (\<lambda>d. find P (rows T d))"

definition count_rows :: "'r table \<Rightarrow> ('r \<Rightarrow> bool) \<Rightarrow> (db_err + nat) io" where
  "count_rows T P = query (\<lambda>d. length (filter P (rows T d)))"

definition update_row :: "'r table \<Rightarrow> int \<Rightarrow> ('r \<Rightarrow> 'r) \<Rightarrow> (db_err + 'r) io" where
  "update_row T i f = stmt (\<lambda>d.
     case row_get (row_key T) i (rows T d) of
       None \<Rightarrow> (Inl RecordNotUpdated, d)
     | Some r \<Rightarrow> (Inr (f r), set_rows T (row_upd (row_key T) i f (rows T d)) d))"

text \<open>An update of columns that a constraint of the table looks at.\<close>

definition update_checked :: "'r table \<Rightarrow> int \<Rightarrow> ('r \<Rightarrow> 'r) \<Rightarrow> (db_err + 'r) io" where
  "update_checked T i f = stmt (\<lambda>d.
     case row_get (row_key T) i (rows T d) of
       None \<Rightarrow> (Inl RecordNotUpdated, d)
     | Some r \<Rightarrow>
         if upd_ok T d (f r) then (Inr (f r), set_rows T (row_upd (row_key T) i f (rows T d)) d)
         else (Inl ConstraintFailed, d))"

definition delete_by_id :: "'r table \<Rightarrow> int \<Rightarrow> (db_err + unit) io" where
  "delete_by_id T i = stmt (\<lambda>d. (Inr (), drop_rows T (\<lambda>r. row_key T r = i) d))"

definition delete_many :: "'r table \<Rightarrow> ('r \<Rightarrow> bool) \<Rightarrow> (db_err + unit) io" where
  "delete_many T P = stmt (\<lambda>d. (Inr (), drop_rows T P d))"

definition insert_row ::
  "'r table \<Rightarrow> (db \<Rightarrow> int) \<Rightarrow> (int \<Rightarrow> db \<Rightarrow> db) \<Rightarrow> (int \<Rightarrow> 'r) \<Rightarrow> (db_err + 'r) io" where
  "insert_row T seq set_seq mk = stmt (\<lambda>d.
     if ins_ok T d (mk (seq d))
     then (Inr (mk (seq d)), set_seq (seq d + 1) (set_rows T (rows T d @ [mk (seq d)]) d))
     else (Inl ConstraintFailed, d))"

section \<open>Constraints of the schema\<close>

definition has_row :: "('r \<Rightarrow> int) \<Rightarrow> int \<Rightarrow> 'r list \<Rightarrow> bool" where
  "has_row k i t = list_ex (\<lambda>r. k r = i) t"

text \<open>The unique columns: no other row has the same value.\<close>

definition unique_in :: "('r \<Rightarrow> int) \<Rightarrow> ('r \<Rightarrow> 'v) \<Rightarrow> 'r list \<Rightarrow> 'r \<Rightarrow> bool" where
  "unique_in k f t r = (\<not> list_ex (\<lambda>q. k q \<noteq> k r \<and> f q = f r) t)"

definition no_conflict :: "db \<Rightarrow> int option \<Rightarrow> u16 \<Rightarrow> string \<Rightarrow> string \<Rightarrow> int \<Rightarrow> bool" where
  "no_conflict d node port kind domain exclude =
    list_all (\<lambda>q. \<not> (p_remote_port q = port \<and> p_enabled q \<and> p_id q \<noteq> exclude \<and> p_node_id q = node \<and>
                    routes_conflict kind domain (p_type q) (p_domain q))) (db_proxies d)"

text \<open>The triggers \<open>proxy_route_insert\<close> and \<open>proxy_route_update\<close>.\<close>

definition route_free :: "db \<Rightarrow> proxy_row \<Rightarrow> bool" where
  "route_free d p =
    (p_enabled p \<longrightarrow>
      no_conflict d (p_node_id p) (p_remote_port p) (p_type p) (p_domain p) (p_id p))"

text \<open>The \<open>CHECK\<close> of the table \<open>proxy\<close>.\<close>

definition proxy_shape :: "proxy_row \<Rightarrow> bool" where
  "proxy_shape p =
    (p_upstream p = [] \<and> p_client_id p \<noteq> None \<or>
     p_upstream p \<noteq> [] \<and> p_client_id p = None \<and> p_user_id p \<noteq> None \<and> p_node_id p \<noteq> None \<and>
     (p_type p = ''http'' \<or> p_type p = ''https'') \<and> p_group_id p = None)"

text \<open>Its foreign keys; the key of a client is compared as a number.\<close>

definition proxy_refs :: "db \<Rightarrow> proxy_row \<Rightarrow> bool" where
  "proxy_refs d p =
    ((case p_client_id p of None \<Rightarrow> True
      | Some s \<Rightarrow> (case parse_i64 s of None \<Rightarrow> False | Some i \<Rightarrow> has_row c_id i (db_clients d))) \<and>
     (case p_user_id p of None \<Rightarrow> True | Some u \<Rightarrow> has_row u_id u (db_users d)))"

definition cert_refs :: "db \<Rightarrow> cert_row \<Rightarrow> bool" where
  "cert_refs d k =
    (has_row n_id (k_node_id k) (db_nodes d) \<and> unique_in k_id k_node_id (db_certs d) k)"

definition user_node_refs :: "db \<Rightarrow> user_node_row \<Rightarrow> bool" where
  "user_node_refs d r =
    (has_row u_id (un_user_id r) (db_users d) \<and> has_row n_id (un_node_id r) (db_nodes d) \<and>
     unique_in un_id (\<lambda>x. (un_user_id x, un_node_id x)) (db_user_nodes d) r)"

definition user_sub_refs :: "db \<Rightarrow> user_sub_row \<Rightarrow> bool" where
  "user_sub_refs d r =
    (has_row u_id (us_user_id r) (db_users d) \<and>
     has_row s_id (us_subscription_id r) (db_subscriptions d))"

definition traffic_refs :: "db \<Rightarrow> traffic_row \<Rightarrow> bool" where
  "traffic_refs d t =
    (has_row p_id (t_proxy_id t) (db_proxies d) \<and>
     (case t_client_id t of None \<Rightarrow> True | Some c \<Rightarrow> has_row c_id c (db_clients d)) \<and>
     unique_in t_id (\<lambda>x. (t_proxy_id x, t_date x)) (db_traffic d) t)"

text \<open>What goes with deleted rows.\<close>

definition drop_proxies :: "(proxy_row \<Rightarrow> bool) \<Rightarrow> db \<Rightarrow> db" where
  "drop_proxies P d =
    d\<lparr>db_proxies := filter (\<lambda>p. \<not> P p) (db_proxies d),
      db_traffic := filter (\<lambda>t. \<not> list_ex (\<lambda>p. P p \<and> p_id p = t_proxy_id t) (db_proxies d)) (db_traffic d)\<rparr>"

definition drop_clients :: "(client_row \<Rightarrow> bool) \<Rightarrow> db \<Rightarrow> db" where
  "drop_clients P d =
    (let gone = (\<lambda>i. list_ex (\<lambda>c. P c \<and> c_id c = i) (db_clients d));
         of_client = (\<lambda>s. case s of None \<Rightarrow> False
           | Some x \<Rightarrow> (case parse_i64 x of None \<Rightarrow> False | Some i \<Rightarrow> gone i));
         e = drop_proxies (\<lambda>p. of_client (p_client_id p)) d
     in e\<lparr>db_clients := filter (\<lambda>c. \<not> P c) (db_clients d),
          db_traffic := filter (\<lambda>t. \<not> (case t_client_id t of None \<Rightarrow> False | Some i \<Rightarrow> gone i)) (db_traffic e),
          db_user_clients := filter (\<lambda>r. \<not> gone (uc_client_id r)) (db_user_clients d)\<rparr>)"

definition drop_users :: "(user_row \<Rightarrow> bool) \<Rightarrow> db \<Rightarrow> db" where
  "drop_users P d =
    (let gone = (\<lambda>i. list_ex (\<lambda>u. P u \<and> u_id u = i) (db_users d));
         e = drop_proxies (\<lambda>p. case p_user_id p of None \<Rightarrow> False | Some i \<Rightarrow> gone i) d
     in e\<lparr>db_users := filter (\<lambda>u. \<not> P u) (db_users d),
          db_user_nodes := filter (\<lambda>r. \<not> gone (un_user_id r)) (db_user_nodes d),
          db_user_clients := filter (\<lambda>r. \<not> gone (uc_user_id r)) (db_user_clients d),
          db_user_subs := filter (\<lambda>r. \<not> gone (us_user_id r)) (db_user_subs d)\<rparr>)"

definition drop_nodes :: "(node_row \<Rightarrow> bool) \<Rightarrow> db \<Rightarrow> db" where
  "drop_nodes P d =
    (let gone = (\<lambda>i. list_ex (\<lambda>n. P n \<and> n_id n = i) (db_nodes d))
     in d\<lparr>db_nodes := filter (\<lambda>n. \<not> P n) (db_nodes d),
          db_user_nodes := filter (\<lambda>r. \<not> gone (un_node_id r)) (db_user_nodes d),
          db_certs := filter (\<lambda>k. \<not> gone (k_node_id k)) (db_certs d)\<rparr>)"

definition drop_subscriptions :: "(subscription_row \<Rightarrow> bool) \<Rightarrow> db \<Rightarrow> db" where
  "drop_subscriptions P d =
    d\<lparr>db_subscriptions := filter (\<lambda>s. \<not> P s) (db_subscriptions d),
      db_user_subs := filter (\<lambda>r. \<not> list_ex (\<lambda>s. P s \<and> s_id s = us_subscription_id r) (db_subscriptions d))
        (db_user_subs d)\<rparr>"

section \<open>Tables\<close>

definition users_t :: "user_row table" where
  "users_t = \<lparr>rows = db_users, set_rows = (\<lambda>x d. d\<lparr>db_users := x\<rparr>), row_key = u_id,
    ins_ok = (\<lambda>d. unique_in u_id u_username (db_users d)),
    upd_ok = (\<lambda>d. unique_in u_id u_username (db_users d)), drop_rows = drop_users\<rparr>"

definition clients_t :: "client_row table" where
  "clients_t = \<lparr>rows = db_clients, set_rows = (\<lambda>x d. d\<lparr>db_clients := x\<rparr>), row_key = c_id,
    ins_ok = (\<lambda>d. unique_in c_id c_token (db_clients d)),
    upd_ok = (\<lambda>d. unique_in c_id c_token (db_clients d)), drop_rows = drop_clients\<rparr>"

definition nodes_t :: "node_row table" where
  "nodes_t = \<lparr>rows = db_nodes, set_rows = (\<lambda>x d. d\<lparr>db_nodes := x\<rparr>), row_key = n_id,
    ins_ok = (\<lambda>_ _. True), upd_ok = (\<lambda>_ _. True), drop_rows = drop_nodes\<rparr>"

definition proxies_t :: "proxy_row table" where
  "proxies_t = \<lparr>rows = db_proxies, set_rows = (\<lambda>x d. d\<lparr>db_proxies := x\<rparr>), row_key = p_id,
    ins_ok = (\<lambda>d p. proxy_shape p \<and> proxy_refs d p \<and> route_free d p),
    upd_ok = (\<lambda>d p. proxy_shape p \<and> route_free d p), drop_rows = drop_proxies\<rparr>"

definition user_nodes_t :: "user_node_row table" where
  "user_nodes_t = \<lparr>rows = db_user_nodes, set_rows = (\<lambda>x d. d\<lparr>db_user_nodes := x\<rparr>), row_key = un_id,
    ins_ok = user_node_refs, upd_ok = user_node_refs,
    drop_rows = (\<lambda>P d. d\<lparr>db_user_nodes := filter (\<lambda>r. \<not> P r) (db_user_nodes d)\<rparr>)\<rparr>"

definition subscriptions_t :: "subscription_row table" where
  "subscriptions_t =
    \<lparr>rows = db_subscriptions, set_rows = (\<lambda>x d. d\<lparr>db_subscriptions := x\<rparr>), row_key = s_id,
     ins_ok = (\<lambda>_ _. True), upd_ok = (\<lambda>_ _. True), drop_rows = drop_subscriptions\<rparr>"

definition user_subs_t :: "user_sub_row table" where
  "user_subs_t = \<lparr>rows = db_user_subs, set_rows = (\<lambda>x d. d\<lparr>db_user_subs := x\<rparr>), row_key = us_id,
    ins_ok = user_sub_refs, upd_ok = user_sub_refs,
    drop_rows = (\<lambda>P d. d\<lparr>db_user_subs := filter (\<lambda>r. \<not> P r) (db_user_subs d)\<rparr>)\<rparr>"

definition traffic_t :: "traffic_row table" where
  "traffic_t = \<lparr>rows = db_traffic, set_rows = (\<lambda>x d. d\<lparr>db_traffic := x\<rparr>), row_key = t_id,
    ins_ok = traffic_refs, upd_ok = traffic_refs,
    drop_rows = (\<lambda>P d. d\<lparr>db_traffic := filter (\<lambda>r. \<not> P r) (db_traffic d)\<rparr>)\<rparr>"

definition certs_t :: "cert_row table" where
  "certs_t = \<lparr>rows = db_certs, set_rows = (\<lambda>x d. d\<lparr>db_certs := x\<rparr>), row_key = k_id,
    ins_ok = cert_refs, upd_ok = cert_refs,
    drop_rows = (\<lambda>P d. d\<lparr>db_certs := filter (\<lambda>r. \<not> P r) (db_certs d)\<rparr>)\<rparr>"

definition user_clients_t :: "user_client_row table" where
  "user_clients_t =
    \<lparr>rows = db_user_clients, set_rows = (\<lambda>x d. d\<lparr>db_user_clients := x\<rparr>), row_key = uc_id,
     ins_ok = (\<lambda>_ _. True), upd_ok = (\<lambda>_ _. True),
     drop_rows = (\<lambda>P d. d\<lparr>db_user_clients := filter (\<lambda>r. \<not> P r) (db_user_clients d)\<rparr>)\<rparr>"

definition configs_t :: "config_row table" where
  "configs_t = \<lparr>rows = db_configs, set_rows = (\<lambda>x d. d\<lparr>db_configs := x\<rparr>), row_key = g_id,
    ins_ok = (\<lambda>d. unique_in g_id g_key (db_configs d)),
    upd_ok = (\<lambda>d. unique_in g_id g_key (db_configs d)),
    drop_rows = (\<lambda>P d. d\<lparr>db_configs := filter (\<lambda>r. \<not> P r) (db_configs d)\<rparr>)\<rparr>"

lemmas table_defs =
  users_t_def clients_t_def nodes_t_def proxies_t_def user_nodes_t_def subscriptions_t_def
  user_subs_t_def traffic_t_def certs_t_def user_clients_t_def configs_t_def

lemma table_sel [simp]:
  "rows users_t = db_users" "row_key users_t = u_id" "set_rows users_t x d = d\<lparr>db_users := x\<rparr>"
  "rows clients_t = db_clients" "row_key clients_t = c_id"
  "set_rows clients_t y d = d\<lparr>db_clients := y\<rparr>"
  "rows nodes_t = db_nodes" "row_key nodes_t = n_id" "set_rows nodes_t z d = d\<lparr>db_nodes := z\<rparr>"
  "rows proxies_t = db_proxies" "row_key proxies_t = p_id"
  "set_rows proxies_t v d = d\<lparr>db_proxies := v\<rparr>"
  "rows user_nodes_t = db_user_nodes" "row_key user_nodes_t = un_id"
  "rows subscriptions_t = db_subscriptions" "row_key subscriptions_t = s_id"
  "rows user_subs_t = db_user_subs" "row_key user_subs_t = us_id"
  "set_rows user_subs_t us d = d\<lparr>db_user_subs := us\<rparr>"
  "rows traffic_t = db_traffic" "row_key traffic_t = t_id"
  "set_rows traffic_t tr d = d\<lparr>db_traffic := tr\<rparr>"
  "rows certs_t = db_certs" "row_key certs_t = k_id"
  "set_rows certs_t cs d = d\<lparr>db_certs := cs\<rparr>"
  "rows user_clients_t = db_user_clients" "row_key user_clients_t = uc_id"
  "rows configs_t = db_configs" "row_key configs_t = g_id"
  "set_rows configs_t cf d = d\<lparr>db_configs := cf\<rparr>"
  "set_rows user_nodes_t un d = d\<lparr>db_user_nodes := un\<rparr>"
  "set_rows subscriptions_t sb d = d\<lparr>db_subscriptions := sb\<rparr>"
  by (simp_all add: table_defs)

lemma table_laws [simp]:
  "ins_ok users_t d u = unique_in u_id u_username (db_users d) u"
  "upd_ok users_t d u = unique_in u_id u_username (db_users d) u"
  "ins_ok clients_t d c = unique_in c_id c_token (db_clients d) c"
  "ins_ok nodes_t d n" "ins_ok subscriptions_t d s"
  "ins_ok proxies_t d p \<longleftrightarrow> proxy_shape p \<and> proxy_refs d p \<and> route_free d p"
  "upd_ok proxies_t d p \<longleftrightarrow> proxy_shape p \<and> route_free d p"
  "ins_ok user_nodes_t d r = user_node_refs d r" "ins_ok user_subs_t d us = user_sub_refs d us"
  "ins_ok traffic_t d t = traffic_refs d t" "ins_ok certs_t d k = cert_refs d k"
  "drop_rows users_t = drop_users" "drop_rows clients_t = drop_clients"
  "drop_rows nodes_t = drop_nodes" "drop_rows proxies_t = drop_proxies"
  "drop_rows subscriptions_t = drop_subscriptions"
  "drop_rows user_nodes_t PN d = d\<lparr>db_user_nodes := filter (\<lambda>r. \<not> PN r) (db_user_nodes d)\<rparr>"
  "drop_rows user_subs_t PS d = d\<lparr>db_user_subs := filter (\<lambda>r. \<not> PS r) (db_user_subs d)\<rparr>"
  "drop_rows certs_t PK d = d\<lparr>db_certs := filter (\<lambda>r. \<not> PK r) (db_certs d)\<rparr>"
  by (simp_all add: table_defs)

lemma drop_proxies_sel [simp]:
  "db_proxies (drop_proxies P d) = filter (\<lambda>p. \<not> P p) (db_proxies d)"
  "sq_proxies (drop_proxies P d) = sq_proxies d" "db_clients (drop_proxies P d) = db_clients d"
  "db_users (drop_proxies P d) = db_users d" "db_nodes (drop_proxies P d) = db_nodes d"
  "db_user_nodes (drop_proxies P d) = db_user_nodes d"
  by (simp_all add: drop_proxies_def)

lemma has_row_iff: "has_row k i t \<longleftrightarrow> row_get k i t \<noteq> None"
  by (auto simp: has_row_def row_get_None_iff list_ex_iff image_iff)

section \<open>Their weakest preconditions\<close>

lemma pop_fault_sel [simp]:
  "w_db (pop_fault w) = w_db w" "w_now (pop_fault w) = w_now w" "w_mono (pop_fault w) = w_mono w"
  "w_uuids (pop_fault w) = w_uuids w" "w_nodes (pop_fault w) = w_nodes w"
  "w_clients (pop_fault w) = w_clients w" "w_closed (pop_fault w) = w_closed w"
  "w_node_answers (pop_fault w) = w_node_answers w"
  "w_client_answers (pop_fault w) = w_client_answers w"
  "w_node_log (pop_fault w) = w_node_log w" "w_client_log (pop_fault w) = w_client_log w"
  "w_tasks (pop_fault w) = w_tasks w" "w_config (pop_fault w) = w_config w"
  "w_faults (pop_fault w) = tl (w_faults w)"
  by (simp_all add: pop_fault_def)

lemma pop_fault_same_db: "(pop_fault w)\<lparr>w_db := w_db w\<rparr> = pop_fault w"
  by (cases w) (simp add: pop_fault_def)

lemma no_faults [simp]: "w_faults w = [] \<Longrightarrow> \<not> next_fault w"
  by (simp add: next_fault_def)

lemma wp_stmt [wp_simps]:
  "wp (stmt f) Q w =
    (if next_fault w then Q (Inl DbFault) (pop_fault w)
     else (case f (w_db w) of (r, d) \<Rightarrow> Q r ((pop_fault w)\<lparr>w_db := d\<rparr>)))"
  by (simp add: stmt_def wp_State split: prod.splits)

lemma wp_query [wp_simps]:
  "wp (query f) Q w =
    (if next_fault w then Q (Inl DbFault) (pop_fault w) else Q (Inr (f (w_db w))) (pop_fault w))"
  by (simp add: query_def wp_stmt pop_fault_same_db)

lemma wp_asks [wp_simps, simp]: "wp (asks f) Q w = Q (f w) w"
  by (simp add: asks_def wp_State)

lemma wp_modify [wp_simps, simp]: "wp (modify f) Q w = Q () (f w)"
  by (simp add: modify_def wp_State)

lemma wp_utc_now [wp_simps, simp]: "wp utc_now Q w = Q (w_now w) w"
  by (simp add: utc_now_def)

lemma wp_new_uuid [wp_simps]:
  "wp new_uuid Q w =
    (case w_uuids w of [] \<Rightarrow> Q [] w | u # us \<Rightarrow> Q u (w\<lparr>w_uuids := us\<rparr>))"
  by (simp add: new_uuid_def wp_State split: list.splits)

lemma wp_find_by_id [wp_simps]:
  "wp (find_by_id T i) Q w =
    (if next_fault w then Q (Inl DbFault) (pop_fault w)
     else Q (Inr (row_get (row_key T) i (rows T (w_db w)))) (pop_fault w))"
  by (simp add: find_by_id_def wp_query)

lemma wp_find_all [wp_simps]:
  "wp (find_all T P) Q w =
    (if next_fault w then Q (Inl DbFault) (pop_fault w)
     else Q (Inr (filter P (rows T (w_db w)))) (pop_fault w))"
  by (simp add: find_all_def wp_query)

lemma wp_find_one [wp_simps]:
  "wp (find_one T P) Q w =
    (if next_fault w then Q (Inl DbFault) (pop_fault w)
     else Q (Inr (find P (rows T (w_db w)))) (pop_fault w))"
  by (simp add: find_one_def wp_query)

lemma wp_count_rows [wp_simps]:
  "wp (count_rows T P) Q w =
    (if next_fault w then Q (Inl DbFault) (pop_fault w)
     else Q (Inr (length (filter P (rows T (w_db w))))) (pop_fault w))"
  by (simp add: count_rows_def wp_query)

lemma wp_update_row [wp_simps]:
  "wp (update_row T i f) Q w =
    (if next_fault w then Q (Inl DbFault) (pop_fault w)
     else (case row_get (row_key T) i (rows T (w_db w)) of
             None \<Rightarrow> Q (Inl RecordNotUpdated) (pop_fault w)
           | Some r \<Rightarrow> Q (Inr (f r))
               ((pop_fault w)\<lparr>w_db := set_rows T (row_upd (row_key T) i f (rows T (w_db w))) (w_db w)\<rparr>)))"
  by (simp add: update_row_def wp_stmt pop_fault_same_db split: option.splits)

lemma wp_update_checked [wp_simps]:
  "wp (update_checked T i f) Q w =
    (if next_fault w then Q (Inl DbFault) (pop_fault w)
     else (case row_get (row_key T) i (rows T (w_db w)) of
             None \<Rightarrow> Q (Inl RecordNotUpdated) (pop_fault w)
           | Some r \<Rightarrow>
               if upd_ok T (w_db w) (f r) then Q (Inr (f r))
                 ((pop_fault w)\<lparr>w_db := set_rows T (row_upd (row_key T) i f (rows T (w_db w))) (w_db w)\<rparr>)
               else Q (Inl ConstraintFailed) (pop_fault w)))"
  by (simp add: update_checked_def wp_stmt pop_fault_same_db split: option.splits)

lemma wp_delete_by_id [wp_simps]:
  "wp (delete_by_id T i) Q w =
    (if next_fault w then Q (Inl DbFault) (pop_fault w)
     else Q (Inr ()) ((pop_fault w)\<lparr>w_db := drop_rows T (\<lambda>r. row_key T r = i) (w_db w)\<rparr>))"
  by (simp add: delete_by_id_def wp_stmt)

lemma wp_delete_many [wp_simps]:
  "wp (delete_many T P) Q w =
    (if next_fault w then Q (Inl DbFault) (pop_fault w)
     else Q (Inr ()) ((pop_fault w)\<lparr>w_db := drop_rows T P (w_db w)\<rparr>))"
  by (simp add: delete_many_def wp_stmt)

lemma wp_insert_row [wp_simps]:
  "wp (insert_row T seq set_seq mk) Q w =
    (if next_fault w then Q (Inl DbFault) (pop_fault w)
     else if ins_ok T (w_db w) (mk (seq (w_db w))) then Q (Inr (mk (seq (w_db w))))
       ((pop_fault w)\<lparr>w_db := set_seq (seq (w_db w) + 1)
          (set_rows T (rows T (w_db w) @ [mk (seq (w_db w))]) (w_db w))\<rparr>)
     else Q (Inl ConstraintFailed) (pop_fault w))"
  by (simp add: insert_row_def wp_stmt pop_fault_same_db)

text \<open>Reading statements keep every predicate of the database.\<close>

definition on_db :: "(db \<Rightarrow> bool) \<Rightarrow> world \<Rightarrow> bool" where
  "on_db P w = P (w_db w)"

lemma keeps_query [intro!]: "keeps (on_db P) (query f)"
  by (simp add: keeps_def wp_query on_db_def)

lemma keeps_find_by_id [intro!]: "keeps (on_db P) (find_by_id T i)"
  by (simp add: keeps_def wp_find_by_id on_db_def)

lemma keeps_find_all [intro!]: "keeps (on_db P) (find_all T p)"
  by (simp add: keeps_def wp_find_all on_db_def)

lemma keeps_find_one [intro!]: "keeps (on_db P) (find_one T p)"
  by (simp add: keeps_def wp_find_one on_db_def)

lemma keeps_count_rows [intro!]: "keeps (on_db P) (count_rows T p)"
  by (simp add: keeps_def wp_count_rows on_db_def)

lemma keeps_asks [intro!]: "keeps P (asks f)"
  by (simp add: keeps_def)

lemma keeps_utc_now [intro!]: "keeps P utc_now"
  by (simp add: keeps_def)

lemma keeps_new_uuid [intro!]: "keeps (on_db P) new_uuid"
  by (simp add: keeps_def wp_new_uuid on_db_def split: list.splits)

lemma keeps_modify_db [intro!]: "(\<And>w. w_db (f w) = w_db w) \<Longrightarrow> keeps (on_db P) (modify f)"
  by (simp add: keeps_def on_db_def)

text \<open>A program that leaves the database as it is, with its result described.\<close>

lemma keeps_same_db:
  "keeps (on_db (\<lambda>d. d = d0)) m \<Longrightarrow> w_db w = d0 \<Longrightarrow> run_state m w = (x, w') \<Longrightarrow> w_db w' = d0"
  using keeps_runD[of "on_db (\<lambda>d. d = d0)" m w x w'] by (simp add: on_db_def)

text \<open>An empty database, and a world over a database with nobody connected.\<close>

definition empty_db :: db where
  "empty_db =
    \<lparr>db_users = [], db_clients = [], db_nodes = [], db_proxies = [], db_user_nodes = [],
     db_subscriptions = [], db_user_subs = [], db_traffic = [], db_certs = [],
     db_user_clients = [], db_configs = [], sq_users = 1, sq_nodes = 1, sq_user_nodes = 1, sq_subscriptions = 1,
     sq_clients = 1, sq_proxies = 1, sq_user_subs = 1, sq_traffic = 1, sq_certs = 1\<rparr>"

definition idle_world :: "db \<Rightarrow> world" where
  "idle_world d =
    \<lparr>w_db = d, w_faults = [], w_now = DT 100 1 2024 1, w_mono = 0, w_uuids = [], w_nodes = [],
     w_clients = [], w_closed = [], w_node_answers = [], w_client_answers = [], w_node_log = [],
     w_client_log = [], w_tasks = [], w_config = []\<rparr>"

lemma idle_world_sel [simp]:
  "w_db (idle_world d) = d" "w_faults (idle_world d) = []" "w_now (idle_world d) = DT 100 1 2024 1"
  "w_nodes (idle_world d) = []" "w_clients (idle_world d) = []" "w_tasks (idle_world d) = []"
  "w_uuids (idle_world d) = []" "w_closed (idle_world d) = []" "w_node_log (idle_world d) = []"
  "w_client_log (idle_world d) = []" "w_node_answers (idle_world d) = []"
  "w_config (idle_world d) = []"
  by (simp_all add: idle_world_def)

lemma empty_db_sel [simp]:
  "db_users empty_db = []" "db_clients empty_db = []" "db_nodes empty_db = []"
  "db_proxies empty_db = []" "db_user_nodes empty_db = []" "db_subscriptions empty_db = []"
  "db_user_subs empty_db = []" "db_traffic empty_db = []" "db_certs empty_db = []"
  "db_user_clients empty_db = []" "db_configs empty_db = []"
  "sq_users empty_db = 1" "sq_nodes empty_db = 1" "sq_user_nodes empty_db = 1"
  "sq_subscriptions empty_db = 1" "sq_clients empty_db = 1" "sq_proxies empty_db = 1" "sq_user_subs empty_db = 1"
  "sq_traffic empty_db = 1" "sq_certs empty_db = 1"
  by (simp_all add: empty_db_def)

end
