(* ===== verification/Http.thy ===== *)
theory Http
  imports World Domain Ports
begin

text \<open>
  Responses of the REST handlers and the ownership checks they share
  (\<open>controller/src/api/handlers/mod.rs\<close>). The texts of the messages are not modelled: each message
  is a constructor named after what it says, with the values the code formats into it.
\<close>

section \<open>Messages and errors\<close>

datatype msg =
    M_success
  | M_text string
  | M_not_authenticated
  | M_db_query_failed any_err
  | M_error any_err
  | M_client_not_found
  | M_related_client_not_found
  | M_no_access_client
  | M_no_access_proxy
  | M_invalid_client_id string
  | M_group_not_found
  | M_user_not_found
  | M_user_missing int
  | M_port_config port_error
  | M_port_not_allowed u16 string
  | M_port_count nat i32
  | M_node_not_found
  | M_node_exceeded
  | M_node_port_config port_error
  | M_node_port_not_allowed u16 string
  | M_node_count nat i32
  | M_admin_required
  | M_route domain_error
  | M_route_conflict u16 string
  | M_direct_needs_node
  | M_upstream upstream_error
  | M_client_or_upstream_needed
  | M_no_dedicated_node
  | M_port_zero
  | M_start_failed any_err
  | M_group_no_domains
  | M_no_conversion
  | M_user_range
  | M_proxy_not_found
  | M_batch_kinds
  | M_no_ports
  | M_port_lengths nat nat
  | M_port_taken u16 string
  | M_start_port_failed u16 any_err
  | M_create_failed any_err
  | M_not_connected int
  | M_send_failed int
  | M_peer_failed "string option"
  | M_unexpected_response
  | M_no_node_for_proxy
  | M_proxy_missing int
  | M_proxy_client_mismatch
  | M_client_no_node string
  | M_unsupported
  | M_subscription_not_found
  | M_subscription_inactive
  | M_invalid_date
  | M_user_sub_not_found
  | M_client_limit nat i32
  | M_quota_used f64 f64
  | M_quota_short f64 f64 f64 f64 f64
  | M_negative_quota
  | M_op_failed string any_err
  | M_other_users_subs
and any_err =
    E_db db_err
  | E_msg msg
  | E_wait wait_error

datatype status =
    OK
  | BAD_REQUEST
  | UNAUTHORIZED
  | FORBIDDEN
  | NOT_FOUND
  | CONFLICT
  | INTERNAL_SERVER_ERROR

record 'a api_response =
  ar_success :: bool
  ar_data :: "'a option"
  ar_message :: msg

definition api_success :: "'a \<Rightarrow> 'a api_response" where
  "api_success d = \<lparr>ar_success = True, ar_data = Some d, ar_message = M_success\<rparr>"

definition api_error :: "msg \<Rightarrow> 'a api_response" where
  "api_error m = \<lparr>ar_success = False, ar_data = None, ar_message = m\<rparr>"

type_synonym 'a resp = "status \<times> 'a api_response"

abbreviation reject :: "status \<Rightarrow> msg \<Rightarrow> 'a resp" where
  "reject st m \<equiv> (st, api_error m)"

abbreviation accept :: "'a \<Rightarrow> 'a resp" where
  "accept d \<equiv> (OK, api_success d)"

lemma api_sel [simp]:
  "ar_success (api_success d)" "ar_data (api_success d) = Some d" "\<not> ar_success (api_error m)"
  "ar_data (api_error m) = None" "ar_message (api_error m) = m"
  by (simp_all add: api_success_def api_error_def)

lemma accept_not_reject [simp]: "(OK, api_success d) \<noteq> (st, api_error m)" "(st, api_error m) \<noteq> (OK, api_success d)"
  by (auto simp: api_success_def api_error_def)

lemma api_eq [simp]: "api_success d = api_success e \<longleftrightarrow> d = e" "api_success d \<noteq> api_error m"
  "api_error m \<noteq> api_success d"
  by (auto simp: api_success_def api_error_def)

section \<open>Ownership\<close>

definition verify_client_ownership ::
  "auth_user \<Rightarrow> int \<Rightarrow> (status \<times> msg + client_row) io" where
  "verify_client_ownership auth client_id = do {
     r \<leftarrow> find_by_id clients_t client_id;
     case r of
       Inl e \<Rightarrow> State_Monad.return (Inl (INTERNAL_SERVER_ERROR, M_db_query_failed (E_db e)))
     | Inr None \<Rightarrow> State_Monad.return (Inl (NOT_FOUND, M_client_not_found))
     | Inr (Some client) \<Rightarrow>
         if \<not> a_is_admin auth \<and> c_user_id client \<noteq> Some (a_id auth)
         then State_Monad.return (Inl (FORBIDDEN, M_no_access_client))
         else State_Monad.return (Inr client)
   }"

definition verify_proxy_ownership ::
  "auth_user \<Rightarrow> proxy_row \<Rightarrow> (status \<times> msg + unit) io" where
  "verify_proxy_ownership auth proxy =
    (if a_is_admin auth then State_Monad.return (Inr ())
     else if p_client_id proxy = None then
       State_Monad.return
         (if p_user_id proxy = Some (a_id auth) then Inr () else Inl (FORBIDDEN, M_no_access_proxy))
     else case parse_i64 (or_default (p_client_id proxy)) of
       None \<Rightarrow> State_Monad.return
         (Inl (INTERNAL_SERVER_ERROR, M_invalid_client_id (or_default (p_client_id proxy))))
     | Some client_id \<Rightarrow> do {
         r \<leftarrow> find_by_id clients_t client_id;
         case r of
           Inl e \<Rightarrow> State_Monad.return (Inl (INTERNAL_SERVER_ERROR, M_db_query_failed (E_db e)))
         | Inr None \<Rightarrow> State_Monad.return (Inl (NOT_FOUND, M_related_client_not_found))
         | Inr (Some client) \<Rightarrow>
             if c_user_id client \<noteq> Some (a_id auth)
             then State_Monad.return (Inl (FORBIDDEN, M_no_access_proxy))
             else State_Monad.return (Inr ())
       })"

definition verify_proxy_group_ownership ::
  "auth_user \<Rightarrow> string \<Rightarrow> (status \<times> msg + proxy_row list) io" where
  "verify_proxy_group_ownership auth group_id = do {
     r \<leftarrow> find_all proxies_t (\<lambda>p. p_group_id p = Some group_id);
     case r of
       Inl e \<Rightarrow> State_Monad.return (Inl (INTERNAL_SERVER_ERROR, M_db_query_failed (E_db e)))
     | Inr [] \<Rightarrow> State_Monad.return (Inl (NOT_FOUND, M_group_not_found))
     | Inr (p # ps) \<Rightarrow>
         if \<not> a_is_admin auth then do {
           v \<leftarrow> verify_proxy_ownership auth p;
           case v of
             Inl e \<Rightarrow> State_Monad.return (Inl e)
           | Inr _ \<Rightarrow> State_Monad.return (Inr (p # ps))
         }
         else State_Monad.return (Inr (p # ps))
   }"

text \<open>Who owns a proxy, read off the database.\<close>

definition owns_proxy :: "db \<Rightarrow> auth_user \<Rightarrow> proxy_row \<Rightarrow> bool" where
  "owns_proxy d auth p =
    (a_is_admin auth \<or>
     (case p_client_id p of
        None \<Rightarrow> p_user_id p = Some (a_id auth)
      | Some s \<Rightarrow>
          (case parse_i64 s of
             None \<Rightarrow> False
           | Some i \<Rightarrow>
               (case row_get c_id i (db_clients d) of
                  None \<Rightarrow> False
                | Some c \<Rightarrow> c_user_id c = Some (a_id auth)))))"

lemma keeps_verify_proxy_ownership [intro!]: "keeps (on_db P) (verify_proxy_ownership auth p)"
  unfolding verify_proxy_ownership_def by auto

lemma keeps_verify_client_ownership [intro!]: "keeps (on_db P) (verify_client_ownership auth i)"
  unfolding verify_client_ownership_def by auto

lemma keeps_verify_group_ownership [intro!]: "keeps (on_db P) (verify_proxy_group_ownership auth g)"
  unfolding verify_proxy_group_ownership_def by auto

lemma or_default_sel [simp]: "or_default (Some s) = s" "or_default None = []"
  by (simp_all add: or_default_def)

lemma wp_verify_proxy_ownership_ok:
  "wp (verify_proxy_ownership auth p) (\<lambda>r _. r = Inr () \<longrightarrow> owns_proxy (w_db w) auth p) w"
  by (auto simp: verify_proxy_ownership_def owns_proxy_def wp_find_by_id split: option.splits)

text \<open>without database faults, the proxy check passes exactly for administrators and owners, a
  direct proxy being owned by its user and any other by the user of its client; it changes nothing.\<close>

theorem verify_proxy_ownership_spec:
  assumes "w_faults w = []"
  shows "wp (verify_proxy_ownership auth p)
           (\<lambda>r w'. (r = Inr () \<longleftrightarrow> owns_proxy (w_db w) auth p) \<and> w_db w' = w_db w) w"
  using assms
  by (auto simp: verify_proxy_ownership_def owns_proxy_def wp_find_by_id split: option.splits)

lemma verify_proxy_ownership_spec_witness:
  "\<exists>auth p. wp (verify_proxy_ownership auth p) (\<lambda>r w'. r = Inr ()) (idle_world empty_db)"
proof (intro exI)
  let ?a = "\<lparr>a_id = 7, a_username = ''bob'', a_is_admin = False\<rparr>"
  let ?p = "\<lparr>p_id = 1, p_client_id = None, p_user_id = Some 7, p_upstream = [], p_name = [],
     p_type = ''http'', p_domain = [], p_local_ip = [], p_local_port = 0, p_remote_port = 80,
     p_enabled = True, p_node_id = None, p_group_id = None, p_sent = 0, p_received = 0,
     p_created_at = DT 0 0 0 0, p_updated_at = DT 0 0 0 0\<rparr>"
  have o: "owns_proxy (w_db (idle_world empty_db)) ?a ?p" by (simp add: owns_proxy_def)
  show "wp (verify_proxy_ownership ?a ?p) (\<lambda>r w'. r = Inr ()) (idle_world empty_db)"
    by (rule wp_mono, rule verify_proxy_ownership_spec) (use o in auto)
qed

end
