(* ===== verification/Quota.thy ===== *)
theory Quota
  imports Http
begin

text \<open>
  Subscription quotas (\<open>controller/src/subscription_quota.rs\<close>). A quota is added to the fields of
  the user when a subscription starts and taken off again when it ends. The limits are \<open>i32\<close>
  values: \<open>None\<close> is "no limit", additions wrap as they do in a release build.
\<close>

section \<open>Quotas\<close>

record sub_quota =
  sq_traffic_gb :: f64
  sq_max_port :: "i32 option"
  sq_max_node :: "i32 option"
  sq_max_client :: "i32 option"

definition unwrap_or0 :: "i32 option \<Rightarrow> i32" where
  "unwrap_or0 x = (case x of Some n \<Rightarrow> n | None \<Rightarrow> 0)"

definition unwrap_f0 :: "f64 option \<Rightarrow> f64" where
  "unwrap_f0 x = (case x of Some g \<Rightarrow> g | None \<Rightarrow> f_zero)"

text \<open>One step of the sums shown to the user.\<close>

definition add_limit :: "i32 option \<Rightarrow> i32 option \<Rightarrow> i32 option" where
  "add_limit acc limit =
    (case limit of Some n \<Rightarrow> Some (unwrap_or0 acc + n) | None \<Rightarrow> acc)"

definition add_sub_quota ::
  "sub_quota \<Rightarrow> user_sub_row \<times> subscription_row option \<Rightarrow> sub_quota" where
  "add_sub_quota q x =
    (case x of (user_sub, subscription_opt) \<Rightarrow>
       let q1 = q\<lparr>sq_traffic_gb := f_add (sq_traffic_gb q) (us_quota_gb user_sub)\<rparr> in
       case subscription_opt of
         None \<Rightarrow> q1
       | Some s \<Rightarrow>
           q1\<lparr>sq_max_port := add_limit (sq_max_port q1) (s_max_port s),
              sq_max_node := add_limit (sq_max_node q1) (s_max_node s),
              sq_max_client := add_limit (sq_max_client q1) (s_max_client s)\<rparr>)"

definition get_user_subscription_quota :: "int \<Rightarrow> (db_err + sub_quota) io" where
  "get_user_subscription_quota user_id = do {
     r \<leftarrow> query (\<lambda>d. map (\<lambda>us. (us, row_get s_id (us_subscription_id us) (db_subscriptions d)))
            (filter (\<lambda>us. us_user_id us = user_id \<and> us_is_active us) (db_user_subs d)));
     case r of
       Inl e \<Rightarrow> State_Monad.return (Inl e)
     | Inr subs \<Rightarrow> State_Monad.return (Inr (foldl add_sub_quota
         \<lparr>sq_traffic_gb = f_zero, sq_max_port = None, sq_max_node = None, sq_max_client = None\<rparr> subs))
   }"

definition get_user_final_quota ::
  "int \<Rightarrow> f64 option \<Rightarrow> i32 option \<Rightarrow> i32 option \<Rightarrow> i32 option \<Rightarrow>
   (any_err + f64 option \<times> i32 option \<times> i32 option \<times> i32 option) io" where
  "get_user_final_quota user_id quota_gb max_port max_node max_client =
    State_Monad.return (Inr (quota_gb, max_port, max_node, max_client))"

lemma wp_get_user_final_quota [simp]:
  "wp (get_user_final_quota i a b c d) Q w = Q (Inr (a, b, c, d)) w"
  by (simp add: get_user_final_quota_def)

section \<open>Merging and rolling back\<close>

definition merge_limit :: "i32 option \<Rightarrow> i32 option \<Rightarrow> i32 option" where
  "merge_limit current limit =
    (case limit of Some n \<Rightarrow> Some (unwrap_or0 current + n) | None \<Rightarrow> current)"

definition rollback_limit :: "i32 option \<Rightarrow> i32 option \<Rightarrow> i32 option" where
  "rollback_limit current limit =
    (case limit of Some n \<Rightarrow> Some (i32_max (unwrap_or0 current - n) 0) | None \<Rightarrow> current)"

text \<open>
  What \<open>active.update\<close> writes: the fields that were \<open>Set\<close> get values computed from the row
  \<open>user\<close> that was read, the others keep what is in the database.
\<close>

definition set_limit :: "i32 option \<Rightarrow> i32 option \<Rightarrow> i32 option \<Rightarrow> i32 option" where
  "set_limit limit v old = (case limit of Some _ \<Rightarrow> v | None \<Rightarrow> old)"

definition merge_fields :: "user_row \<Rightarrow> sub_quota \<Rightarrow> naive_dt \<Rightarrow> user_row \<Rightarrow> user_row" where
  "merge_fields user q now u =
    u\<lparr>u_quota_gb := Some (f_add (unwrap_f0 (u_quota_gb user)) (sq_traffic_gb q)),
      u_max_port := set_limit (sq_max_port q) (merge_limit (u_max_port user) (sq_max_port q)) (u_max_port u),
      u_max_node := set_limit (sq_max_node q) (merge_limit (u_max_node user) (sq_max_node q)) (u_max_node u),
      u_max_client :=
        set_limit (sq_max_client q) (merge_limit (u_max_client user) (sq_max_client q)) (u_max_client u),
      u_updated_at := now\<rparr>"

definition rollback_fields :: "user_row \<Rightarrow> sub_quota \<Rightarrow> naive_dt \<Rightarrow> user_row \<Rightarrow> user_row" where
  "rollback_fields user q now u =
    u\<lparr>u_quota_gb := Some (f_max (f_sub (unwrap_f0 (u_quota_gb user)) (sq_traffic_gb q)) f_zero),
      u_max_port :=
        set_limit (sq_max_port q) (rollback_limit (u_max_port user) (sq_max_port q)) (u_max_port u),
      u_max_node :=
        set_limit (sq_max_node q) (rollback_limit (u_max_node user) (sq_max_node q)) (u_max_node u),
      u_max_client :=
        set_limit (sq_max_client q) (rollback_limit (u_max_client user) (sq_max_client q)) (u_max_client u),
      u_updated_at := now\<rparr>"

definition merge_subscription_quota_to_user :: "int \<Rightarrow> sub_quota \<Rightarrow> (any_err + unit) io" where
  "merge_subscription_quota_to_user user_id q = do {
     r \<leftarrow> find_by_id users_t user_id;
     case r of
       Inl e \<Rightarrow> State_Monad.return (Inl (E_db e))
     | Inr None \<Rightarrow> State_Monad.return (Inl (E_msg (M_user_missing user_id)))
     | Inr (Some user) \<Rightarrow> do {
         now \<leftarrow> utc_now;
         v \<leftarrow> update_row users_t (u_id user) (merge_fields user q now);
         case v of
           Inl e \<Rightarrow> State_Monad.return (Inl (E_db e))
         | Inr _ \<Rightarrow> State_Monad.return (Inr ())
       }
   }"

definition rollback_subscription_quota_from_user :: "int \<Rightarrow> sub_quota \<Rightarrow> (any_err + unit) io" where
  "rollback_subscription_quota_from_user user_id q = do {
     r \<leftarrow> find_by_id users_t user_id;
     case r of
       Inl e \<Rightarrow> State_Monad.return (Inl (E_db e))
     | Inr None \<Rightarrow> State_Monad.return (Inl (E_msg (M_user_missing user_id)))
     | Inr (Some user) \<Rightarrow> do {
         now \<leftarrow> utc_now;
         v \<leftarrow> update_row users_t (u_id user) (rollback_fields user q now);
         case v of
           Inl e \<Rightarrow> State_Monad.return (Inl (E_db e))
         | Inr _ \<Rightarrow> State_Monad.return (Inr ())
       }
   }"

section \<open>Expiry\<close>

definition snapshot_quota :: "user_sub_row \<Rightarrow> sub_quota" where
  "snapshot_quota s =
    \<lparr>sq_traffic_gb = us_quota_gb s, sq_max_port = us_max_port s, sq_max_node = us_max_node s,
     sq_max_client = us_max_client s\<rparr>"

definition deactivate :: "naive_dt \<Rightarrow> user_sub_row \<Rightarrow> user_sub_row" where
  "deactivate now s = s\<lparr>us_is_active := False, us_updated_at := now\<rparr>"

text \<open>The rollback of one subscription, when its quota was merged; a failure skips it.\<close>

definition expire_rollback :: "user_sub_row \<Rightarrow> bool io" where
  "expire_rollback sub =
    (if us_merged sub then do {
       v \<leftarrow> rollback_subscription_quota_from_user (us_user_id sub) (snapshot_quota sub);
       case v of Inl _ \<Rightarrow> State_Monad.return False | Inr _ \<Rightarrow> State_Monad.return True
     } else State_Monad.return True)"

fun expire_loop ::
  "naive_dt \<Rightarrow> user_sub_row list \<Rightarrow> (int \<times> int) list \<Rightarrow> (int \<times> int) list io" where
  "expire_loop now [] expired = State_Monad.return expired"
| "expire_loop now (sub # subs) expired = do {
     ok \<leftarrow> expire_rollback sub;
     if \<not> ok then expire_loop now subs expired
     else do {
       v \<leftarrow> update_row user_subs_t (us_id sub) (deactivate now);
       case v of
         Inl _ \<Rightarrow> expire_loop now subs expired
       | Inr _ \<Rightarrow> expire_loop now subs (expired @ [(us_id sub, us_user_id sub)])
     }
   }"

definition expire_subscriptions :: "(db_err + (int \<times> int) list) io" where
  "expire_subscriptions = do {
     now \<leftarrow> utc_now;
     r \<leftarrow> find_all user_subs_t (\<lambda>s. us_is_active s \<and> us_end s < now);
     case r of
       Inl e \<Rightarrow> State_Monad.return (Inl e)
     | Inr subs \<Rightarrow> do {
         expired \<leftarrow> expire_loop now subs [];
         State_Monad.return (Inr expired)
       }
   }"

section \<open>Lemmas\<close>

lemma i32_max_nonneg: "0 \<le> sint a \<Longrightarrow> i32_max a 0 = a"
  using signed_word_eqI[of a 0] by (auto simp: i32_max_def)

lemma rollback_limit_nonneg:
  "rollback_limit c (Some n) = Some m \<Longrightarrow> 0 \<le> sint m"
  by (auto simp: rollback_limit_def i32_max_def split: if_splits)

lemma rollback_merge_limit:
  assumes "c = Some k" "0 \<le> sint k"
  shows "rollback_limit (merge_limit c l) l = c"
  using assms by (cases l) (simp_all add: rollback_limit_def merge_limit_def unwrap_or0_def i32_max_nonneg)

lemma set_limit_rollback [simp]:
  "set_limit l (rollback_limit c l) c = rollback_limit c l"
  "set_limit l (merge_limit c l) c = merge_limit c l"
  by (auto simp: set_limit_def rollback_limit_def merge_limit_def split: option.splits)

lemma set_limit_merged [simp]: "set_limit l x (merge_limit x l) = x"
  by (cases l) (simp_all add: set_limit_def merge_limit_def)

text \<open>rolling a quota back right after merging it restores the user's traffic quota and limits,
  provided the user had every limit set and the traffic quotas are whole numbers a float holds.\<close>

theorem merge_rollback_restores:
  assumes "u_quota_gb u = Some (Fin (of_int a))" "sq_traffic_gb q = Fin (of_int b)"
    and "0 \<le> a" "0 \<le> b" "a + b \<le> 2 ^ 53"
    and "u_max_port u = Some p" "0 \<le> sint p" "u_max_node u = Some n" "0 \<le> sint n"
    and "u_max_client u = Some c" "0 \<le> sint c"
    and "m = merge_fields u q t u"
  shows "rollback_fields m q t m = u\<lparr>u_updated_at := t\<rparr>"
proof -
  have s: "f_sub (Fin (of_int (a + b))) (Fin (of_int b)) = Fin (of_int a)"
    using f_sub_int[of "a + b" b] assms(3-5) by simp
  have a: "f_add (Fin (of_int a)) (Fin (of_int b)) = Fin (of_int (a + b))"
    using f_add_int[of a b] assms(3-5) by simp
  have x: "f_max (Fin (of_int a)) f_zero = Fin (of_int a)"
    using assms(3) by (simp add: f_max_def f_zero_def)
  note r = rollback_merge_limit
  show ?thesis
    unfolding assms(12) merge_fields_def rollback_fields_def
    by (rule user_row.equality)
       (simp_all del: f_add.simps of_int_add add: assms(1,2,6,8,10) unwrap_f0_def a s x
          r[OF refl assms(7)] r[OF refl assms(9)] r[OF refl assms(11)])
qed

definition sample_user :: user_row where
  "sample_user =
    \<lparr>u_id = 7, u_username = ''bob'', u_password_hash = [], u_is_admin = False, u_sent = 0,
     u_received = 0, u_reset_cycle = ''none'', u_last_reset = None, u_exceeded = False,
     u_quota_gb = Some (Fin (of_int 10)), u_max_port = Some 3, u_port_range = None,
     u_max_node = Some 1, u_max_client = Some 2, u_created_at = DT 0 0 2024 1,
     u_updated_at = DT 0 0 2024 1\<rparr>"

definition sample_quota :: sub_quota where
  "sample_quota =
    \<lparr>sq_traffic_gb = Fin (of_int 50), sq_max_port = Some 5, sq_max_node = None, sq_max_client = Some 1\<rparr>"

lemma merge_rollback_restores_witness:
  "\<exists>m. m = merge_fields sample_user sample_quota (DT 9 0 2024 1) sample_user \<and>
       rollback_fields m sample_quota (DT 9 0 2024 1) m = sample_user\<lparr>u_updated_at := DT 9 0 2024 1\<rparr>"
proof (intro exI conjI, rule refl)
  show "rollback_fields (merge_fields sample_user sample_quota (DT 9 0 2024 1) sample_user) sample_quota
      (DT 9 0 2024 1) (merge_fields sample_user sample_quota (DT 9 0 2024 1) sample_user) =
    sample_user\<lparr>u_updated_at := DT 9 0 2024 1\<rparr>"
    by (rule merge_rollback_restores[OF _ _ _ _ _ _ _ _ _ _ _ refl, of _ 10 _ 50 3 1 2])
       (simp_all add: sample_user_def sample_quota_def)
qed

text \<open>for a user without a limit (\<open>None\<close>, unlimited) a subscription that grants \<open>n\<close> more imposes
  the limit \<open>n\<close>, and its end leaves the user with the limit 0 instead of unlimited.\<close>

theorem merge_limits_the_unlimited:
  assumes "u_max_port u = None" "sq_max_port q = Some n" "m = merge_fields u q t u"
  shows "u_max_port m = Some n \<and> u_max_port (rollback_fields m q t m) = Some 0"
  using assms
  by (simp add: merge_fields_def rollback_fields_def merge_limit_def rollback_limit_def
      set_limit_def unwrap_or0_def i32_max_def)

lemma merge_limits_the_unlimited_witness:
  "u_max_port (rollback_fields
     (merge_fields (sample_user\<lparr>u_max_port := None\<rparr>) sample_quota (DT 9 0 2024 1)
       (sample_user\<lparr>u_max_port := None\<rparr>)) sample_quota (DT 9 0 2024 1)
     (merge_fields (sample_user\<lparr>u_max_port := None\<rparr>) sample_quota (DT 9 0 2024 1)
       (sample_user\<lparr>u_max_port := None\<rparr>))) = Some 0"
  using merge_limits_the_unlimited[OF _ _ refl, of "sample_user\<lparr>u_max_port := None\<rparr>" sample_quota 5 "DT 9 0 2024 1"]
  by (simp add: sample_quota_def)

section \<open>What expiry does\<close>

lemma keys_users_upd [simp]:
  "map u_id (row_upd u_id i (rollback_fields u q t) us) = map u_id us"
  by (rule keys_row_upd) (simp add: rollback_fields_def)

definition user_exists :: "db \<Rightarrow> int \<Rightarrow> bool" where
  "user_exists d i = (i \<in> set (map u_id (db_users d)))"

lemma user_exists_get: "user_exists d i \<longleftrightarrow> (\<exists>u. row_get u_id i (db_users d) = Some u)"
  using row_get_None_iff[of u_id i "db_users d"] by (auto simp: user_exists_def)

lemma wp_expire_rollback:
  assumes "w_faults w = []" "us_merged sub \<longrightarrow> user_exists (w_db w) (us_user_id sub)"
  shows "wp (expire_rollback sub)
    (\<lambda>ok w'. ok \<and> w_faults w' = [] \<and> db_user_subs (w_db w') = db_user_subs (w_db w) \<and>
       map u_id (db_users (w_db w')) = map u_id (db_users (w_db w))) w"
proof (cases "us_merged sub")
  case True
  then obtain u where "row_get u_id (us_user_id sub) (db_users (w_db w)) = Some u"
    using assms(2) user_exists_get by blast
  moreover from this have "u_id u = us_user_id sub" by (auto dest: row_get_SomeD)
  ultimately show ?thesis
    using assms(1) True
    by (simp add: expire_rollback_def rollback_subscription_quota_from_user_def wp_find_by_id
        wp_update_row)
qed (use assms in \<open>simp add: expire_rollback_def\<close>)

lemma deactivate_id [simp]: "us_id (deactivate now s) = us_id s"
  by (simp add: deactivate_def)

lemma wp_expire_loop:
  assumes "w_faults w = []"
    and "\<And>s. s \<in> set subs \<Longrightarrow> us_merged s \<longrightarrow> user_exists (w_db w) (us_user_id s)"
    and "us_id ` set subs \<subseteq> us_id ` set (db_user_subs (w_db w))" "distinct (map us_id subs)"
  shows "wp (expire_loop now subs acc)
    (\<lambda>r w'. r = acc @ map (\<lambda>s. (us_id s, us_user_id s)) subs \<and>
       db_user_subs (w_db w') =
         map (\<lambda>s. if us_id s \<in> us_id ` set subs then deactivate now s else s) (db_user_subs (w_db w))) w"
  using assms
proof (induction subs arbitrary: acc w)
  case (Cons s subs)
  let ?t = "db_user_subs (w_db w)"
  have R: "wp (expire_rollback s)
    (\<lambda>ok w'. ok \<and> w_faults w' = [] \<and> db_user_subs (w_db w') = ?t \<and>
       map u_id (db_users (w_db w')) = map u_id (db_users (w_db w))) w"
    by (rule wp_expire_rollback) (use Cons.prems in auto)
  obtain r where r: "row_get us_id (us_id s) ?t = Some r"
    using Cons.prems(3) row_get_None_iff[of us_id "us_id s" ?t] by (cases "row_get us_id (us_id s) ?t") auto
  have step: "wp (expire_loop now subs (acc @ [(us_id s, us_user_id s)]))
      (\<lambda>x w'. x = acc @ map (\<lambda>s. (us_id s, us_user_id s)) (s # subs) \<and>
       db_user_subs (w_db w') =
         map (\<lambda>x. if us_id x \<in> us_id ` set (s # subs) then deactivate now x else x) ?t)
      ((pop_fault w1)\<lparr>w_db := (w_db w1)\<lparr>db_user_subs := row_upd us_id (us_id s) (deactivate now) ?t\<rparr>\<rparr>)"
    if w1: "w_faults w1 = []" "map u_id (db_users (w_db w1)) = map u_id (db_users (w_db w))" for w1
  proof (rule wp_mono, rule Cons.IH)
    let ?w2 = "(pop_fault w1)\<lparr>w_db := (w_db w1)\<lparr>db_user_subs := row_upd us_id (us_id s) (deactivate now) ?t\<rparr>\<rparr>"
    show "w_faults ?w2 = []" using w1 by simp
    show "us_merged x \<longrightarrow> user_exists (w_db ?w2) (us_user_id x)" if "x \<in> set subs" for x
      using Cons.prems(2)[of x] that w1(2) by (simp add: user_exists_def)
    have "set (map us_id (row_upd us_id (us_id s) (deactivate now) ?t)) = set (map us_id ?t)"
      by (subst keys_row_upd) simp_all
    then show "us_id ` set subs \<subseteq> us_id ` set (db_user_subs (w_db ?w2))"
      using Cons.prems(3) by simp
    show "distinct (map us_id subs)" using Cons.prems(4) by simp
    fix x w' assume post: "x = (acc @ [(us_id s, us_user_id s)]) @ map (\<lambda>s. (us_id s, us_user_id s)) subs \<and>
       db_user_subs (w_db w') = map (\<lambda>s. if us_id s \<in> us_id ` set subs then deactivate now s else s)
         (db_user_subs (w_db ?w2))"
    have "us_id s \<notin> us_id ` set subs" using Cons.prems(4) by auto
    then show "x = acc @ map (\<lambda>s. (us_id s, us_user_id s)) (s # subs) \<and>
       db_user_subs (w_db w') =
         map (\<lambda>x. if us_id x \<in> us_id ` set (s # subs) then deactivate now x else x) ?t"
      using post by (auto simp: row_upd_def)
  qed
  show ?case
    apply (simp only: expire_loop.simps wp_bind)
    apply (rule wp_mono[OF R])
    using Cons.prems(1) step r by (auto simp: wp_update_row)
qed (simp add: map_idI)

text \<open>with no database fault, and as long as the user of every expired subscription whose quota
  was merged exists, expiry deactivates exactly the active subscriptions past their end date, returns
  them in order, and leaves every other subscription as it was.\<close>

theorem expire_subscriptions_exact:
  assumes "w_faults w = []" "distinct (map us_id (db_user_subs (w_db w)))"
    and "expired = filter (\<lambda>s. us_is_active s \<and> us_end s < w_now w) (db_user_subs (w_db w))"
    and "list_all (\<lambda>s. us_merged s \<longrightarrow> user_exists (w_db w) (us_user_id s)) expired"
  shows "wp expire_subscriptions
    (\<lambda>r w'. r = Inr (map (\<lambda>s. (us_id s, us_user_id s)) expired) \<and>
       db_user_subs (w_db w') =
         map (\<lambda>s. if us_is_active s \<and> us_end s < w_now w then deactivate (w_now w) s else s)
           (db_user_subs (w_db w))) w"
proof -
  let ?t = "db_user_subs (w_db w)"
  have mem: "us_id s \<in> us_id ` set expired \<longleftrightarrow> us_is_active s \<and> us_end s < w_now w" if "s \<in> set ?t" for s
    using that assms(2) by (auto simp: assms(3) distinct_map inj_on_def)
  have L: "wp (expire_loop (w_now w) expired [])
    (\<lambda>r w'. r = [] @ map (\<lambda>s. (us_id s, us_user_id s)) expired \<and>
       db_user_subs (w_db w') = map (\<lambda>s. if us_id s \<in> us_id ` set expired then deactivate (w_now w) s else s)
         (db_user_subs (w_db (pop_fault w)))) (pop_fault w)"
    by (rule wp_expire_loop)
       (use assms in \<open>auto simp: list_all_iff distinct_map inj_on_def\<close>)
  have "map (\<lambda>s. if us_id s \<in> us_id ` set expired then deactivate (w_now w) s else s) ?t =
      map (\<lambda>s. if us_is_active s \<and> us_end s < w_now w then deactivate (w_now w) s else s) ?t"
    by (rule map_cong[OF refl]) (simp add: mem)
  with L show ?thesis
    unfolding expire_subscriptions_def
    using assms(1) by (auto simp: wp_find_all simp flip: assms(3) elim!: wp_mono)
qed

definition sample_sub :: user_sub_row where
  "sample_sub =
    \<lparr>us_id = 1, us_user_id = 7, us_subscription_id = 1, us_start = DT 0 0 2024 1,
     us_end = DT 50 0 2024 1, us_quota_gb = Fin 50, us_used_gb = f_zero, us_is_active = True,
     us_max_port = None, us_max_node = None, us_max_client = None, us_merged = True,
     us_created_at = DT 0 0 2024 1, us_updated_at = DT 0 0 2024 1\<rparr>"

lemma expire_subscriptions_exact_witness:
  "\<exists>w. fst (run_state expire_subscriptions w) = Inr [(1, 7)]"
proof
  let ?late = "sample_sub\<lparr>us_id := 2, us_end := DT 200 2 2024 1\<rparr>"
  let ?w = "idle_world (empty_db\<lparr>db_users := [sample_user], db_user_subs := [sample_sub, ?late]\<rparr>)"
  show "fst (run_state expire_subscriptions ?w) = Inr [(1, 7)]"
    using expire_subscriptions_exact[of ?w, OF _ _ refl]
    by (simp add: sample_sub_def sample_user_def user_exists_def less_naive_dt_def
        less_eq_naive_dt_def wp_def split: prod.splits)
qed

end
