(* ===== verification/ProxyLimits.thy ===== *)
theory ProxyLimits
  imports Quota
begin

text \<open>
  The limits a new or moved proxy has to respect: those of its user
  (\<open>controller/src/port_limiter.rs\<close>) and those of its node (\<open>controller/src/node_limiter.rs\<close>).
  A limit is an \<open>i32\<close> and is compared as \<open>max_count as u64\<close>.
\<close>

section \<open>Users\<close>

definition no_reason :: msg where
  "no_reason = M_text []"

text \<open>
  \<open>ClientId.is_in(client_ids)\<close> compares a text column with integers; SQLite gives the integers
  the column's text affinity first, so they are compared in decimal.
\<close>

definition counts_for :: "int list \<Rightarrow> int \<Rightarrow> proxy_row \<Rightarrow> bool" where
  "counts_for client_ids user_id p =
    (case p_client_id p of
       Some s \<Rightarrow> s \<in> set (map int_str client_ids)
     | None \<Rightarrow> p_user_id p = Some user_id)"

definition get_user_port_count :: "int \<Rightarrow> (any_err + nat) io" where
  "get_user_port_count user_id = do {
     r \<leftarrow> find_all clients_t (\<lambda>c. c_user_id c = Some user_id);
     case r of
       Inl e \<Rightarrow> State_Monad.return (Inl (E_db e))
     | Inr user_clients \<Rightarrow> do {
         n \<leftarrow> count_rows proxies_t (counts_for (map c_id user_clients) user_id);
         case n of
           Inl e \<Rightarrow> State_Monad.return (Inl (E_db e))
         | Inr count \<Rightarrow> State_Monad.return (Inr count)
       }
   }"

definition user_range_check :: "string option \<Rightarrow> u16 \<Rightarrow> msg option" where
  "user_range_check allowed port =
    (case allowed of
       None \<Rightarrow> None
     | Some s \<Rightarrow>
         (case parse_port_ranges s of
            Inl e \<Rightarrow> Some (M_port_config e)
          | Inr ranges \<Rightarrow>
              if \<not> is_port_in_ranges port ranges then Some (M_port_not_allowed port s) else None))"

definition validate_user_port_limit :: "int \<Rightarrow> u16 \<Rightarrow> (any_err + bool \<times> msg) io" where
  "validate_user_port_limit user_id remote_port = do {
     r \<leftarrow> find_by_id users_t user_id;
     case r of
       Inl e \<Rightarrow> State_Monad.return (Inl (E_db e))
     | Inr None \<Rightarrow> State_Monad.return (Inr (False, M_user_not_found))
     | Inr (Some user) \<Rightarrow>
         (case user_range_check (u_port_range user) remote_port of
            Some m \<Rightarrow> State_Monad.return (Inr (False, m))
          | None \<Rightarrow> do {
              q \<leftarrow> get_user_final_quota user_id (u_quota_gb user) (u_max_port user)
                     (u_max_node user) (u_max_client user);
              case q of
                Inl e \<Rightarrow> State_Monad.return (Inl e)
              | Inr (_, None, _) \<Rightarrow> State_Monad.return (Inr (True, no_reason))
              | Inr (_, Some max_count, _) \<Rightarrow> do {
                  n \<leftarrow> get_user_port_count user_id;
                  case n of
                    Inl e \<Rightarrow> State_Monad.return (Inl e)
                  | Inr proxy_count \<Rightarrow>
                      State_Monad.return
                        (if i32_as_u64 max_count \<le> proxy_count
                         then Inr (False, M_port_count proxy_count max_count)
                         else Inr (True, no_reason))
                }
            })
   }"

record port_limit_info =
  pl_max_port :: "i32 option"
  pl_range :: "string option"
  pl_current :: nat

definition get_user_port_limit_info :: "int \<Rightarrow> (any_err + port_limit_info) io" where
  "get_user_port_limit_info user_id = do {
     r \<leftarrow> find_by_id users_t user_id;
     case r of
       Inl e \<Rightarrow> State_Monad.return (Inl (E_db e))
     | Inr None \<Rightarrow> State_Monad.return (Inl (E_msg M_user_not_found))
     | Inr (Some user) \<Rightarrow> do {
         n \<leftarrow> get_user_port_count user_id;
         case n of
           Inl e \<Rightarrow> State_Monad.return (Inl e)
         | Inr current \<Rightarrow> State_Monad.return
             (Inr \<lparr>pl_max_port = u_max_port user, pl_range = u_port_range user, pl_current = current\<rparr>)
       }
   }"

section \<open>Nodes\<close>

definition node_range_check :: "string option \<Rightarrow> u16 \<Rightarrow> msg option" where
  "node_range_check allowed port =
    (case allowed of
       None \<Rightarrow> None
     | Some s \<Rightarrow>
         if s = [] then None
         else (case parse_port_ranges s of
            Inl e \<Rightarrow> Some (M_node_port_config e)
          | Inr ranges \<Rightarrow>
              if \<not> is_port_in_ranges port ranges then Some (M_node_port_not_allowed port s)
              else None))"

definition validate_node_proxy_limit_excluding ::
  "int \<Rightarrow> u16 \<Rightarrow> int \<Rightarrow> (any_err + bool \<times> msg) io" where
  "validate_node_proxy_limit_excluding node_id remote_port exclude = do {
     r \<leftarrow> find_by_id nodes_t node_id;
     case r of
       Inl e \<Rightarrow> State_Monad.return (Inl (E_db e))
     | Inr None \<Rightarrow> State_Monad.return (Inr (False, M_node_not_found))
     | Inr (Some node) \<Rightarrow>
         if n_exceeded node then State_Monad.return (Inr (False, M_node_exceeded))
         else (case node_range_check (n_port_range node) remote_port of
            Some m \<Rightarrow> State_Monad.return (Inr (False, m))
          | None \<Rightarrow>
              (case n_max_proxy node of
                 None \<Rightarrow> State_Monad.return (Inr (True, no_reason))
               | Some max_count \<Rightarrow> do {
                   n \<leftarrow> count_rows proxies_t
                     (\<lambda>p. p_node_id p = Some node_id \<and> p_enabled p \<and> p_id p \<noteq> exclude);
                   case n of
                     Inl e \<Rightarrow> State_Monad.return (Inl (E_db e))
                   | Inr proxy_count \<Rightarrow>
                       State_Monad.return
                         (if i32_as_u64 max_count \<le> proxy_count
                          then Inr (False, M_node_count proxy_count max_count)
                          else Inr (True, no_reason))
                 }))
   }"

definition validate_node_proxy_limit :: "int \<Rightarrow> u16 \<Rightarrow> (any_err + bool \<times> msg) io" where
  "validate_node_proxy_limit node_id remote_port =
    validate_node_proxy_limit_excluding node_id remote_port 0"

section \<open>What the limits mean\<close>

definition range_admits :: "string \<Rightarrow> u16 \<Rightarrow> bool" where
  "range_admits s port =
    (case parse_port_ranges s of Inl _ \<Rightarrow> False | Inr rs \<Rightarrow> is_port_in_ranges port rs)"

definition user_ports :: "db \<Rightarrow> int \<Rightarrow> nat" where
  "user_ports d user_id =
    length (filter (counts_for (map c_id (filter (\<lambda>c. c_user_id c = Some user_id) (db_clients d))) user_id)
      (db_proxies d))"

definition node_load :: "db \<Rightarrow> int \<Rightarrow> int \<Rightarrow> nat" where
  "node_load d node_id exclude =
    length (filter (\<lambda>p. p_node_id p = Some node_id \<and> p_enabled p \<and> p_id p \<noteq> exclude) (db_proxies d))"

definition user_port_ok :: "db \<Rightarrow> int \<Rightarrow> u16 \<Rightarrow> bool" where
  "user_port_ok d user_id port =
    (\<exists>u. row_get u_id user_id (db_users d) = Some u \<and>
       (case u_port_range u of None \<Rightarrow> True | Some s \<Rightarrow> range_admits s port) \<and>
       (case u_max_port u of None \<Rightarrow> True | Some m \<Rightarrow> user_ports d user_id < i32_as_u64 m))"

definition node_port_ok :: "db \<Rightarrow> int \<Rightarrow> u16 \<Rightarrow> int \<Rightarrow> bool" where
  "node_port_ok d node_id port exclude =
    (\<exists>n. row_get n_id node_id (db_nodes d) = Some n \<and> \<not> n_exceeded n \<and>
       (case n_port_range n of None \<Rightarrow> True | Some s \<Rightarrow> s = [] \<or> range_admits s port) \<and>
       (case n_max_proxy n of None \<Rightarrow> True | Some m \<Rightarrow> node_load d node_id exclude < i32_as_u64 m))"

lemma user_range_check_None:
  "user_range_check a port = None \<longleftrightarrow> (case a of None \<Rightarrow> True | Some s \<Rightarrow> range_admits s port)"
  by (auto simp: user_range_check_def range_admits_def split: option.splits sum.splits)

lemma node_range_check_None:
  "node_range_check a port = None \<longleftrightarrow> (case a of None \<Rightarrow> True | Some s \<Rightarrow> s = [] \<or> range_admits s port)"
  by (auto simp: node_range_check_def range_admits_def split: option.splits sum.splits)

lemma keeps_user_port_count [intro!]: "keeps (on_db P) (get_user_port_count i)"
  unfolding get_user_port_count_def by auto

lemma keeps_final_quota [intro!]: "keeps P (get_user_final_quota i a b c d)"
  by (simp add: keeps_def)

lemma keeps_user_limit [intro!]: "keeps (on_db P) (validate_user_port_limit i p)"
  unfolding validate_user_port_limit_def by auto

lemma keeps_port_info [intro!]: "keeps (on_db P) (get_user_port_limit_info i)"
  unfolding get_user_port_limit_info_def by auto

lemma keeps_node_limit_excluding [intro!]: "keeps (on_db P) (validate_node_proxy_limit_excluding i p e)"
  unfolding validate_node_proxy_limit_excluding_def by auto

lemma keeps_node_limit [intro!]: "keeps (on_db P) (validate_node_proxy_limit i p)"
  unfolding validate_node_proxy_limit_def by auto

lemma wp_user_port_count:
  "wp (get_user_port_count i) (\<lambda>r w'. w_db w' = w_db w \<and> (\<forall>n. r = Inr n \<longrightarrow> n = user_ports (w_db w) i)) w"
  by (simp add: get_user_port_count_def wp_find_all wp_count_rows user_ports_def)

lemma wp_user_limit:
  "wp (validate_user_port_limit i port)
     (\<lambda>r w'. w_db w' = w_db w \<and> (\<forall>ok m. r = Inr (ok, m) \<longrightarrow> ok = user_port_ok (w_db w) i port)) w"
proof (cases "row_get u_id i (db_users (w_db w))")
  case None
  then show ?thesis by (simp add: validate_user_port_limit_def wp_find_by_id user_port_ok_def)
next
  case (Some u)
  show ?thesis
  proof (cases "user_range_check (u_port_range u) port")
    case None
    then have "case u_port_range u of None \<Rightarrow> True | Some s \<Rightarrow> range_admits s port"
      by (simp only: user_range_check_None)
    then show ?thesis
      using Some None wp_user_port_count[of i "pop_fault w"]
      by (auto simp: validate_user_port_limit_def wp_find_by_id user_port_ok_def not_le
          split: option.splits sum.splits elim!: wp_mono)
  next
    case (Some m)
    then have "\<not> (case u_port_range u of None \<Rightarrow> True | Some s \<Rightarrow> range_admits s port)"
      using user_range_check_None[of "u_port_range u" port] by simp
    with \<open>row_get u_id i (db_users (w_db w)) = Some u\<close> Some show ?thesis
      by (simp add: validate_user_port_limit_def wp_find_by_id user_port_ok_def)
  qed
qed

lemma wp_node_limit:
  "wp (validate_node_proxy_limit_excluding i port ex)
     (\<lambda>r w'. w_db w' = w_db w \<and> (\<forall>ok m. r = Inr (ok, m) \<longrightarrow> ok = node_port_ok (w_db w) i port ex)) w"
proof (cases "row_get n_id i (db_nodes (w_db w))")
  case None
  then show ?thesis by (simp add: validate_node_proxy_limit_excluding_def wp_find_by_id node_port_ok_def)
next
  case (Some n)
  show ?thesis
  proof (cases "node_range_check (n_port_range n) port")
    case None
    then have "case n_port_range n of None \<Rightarrow> True | Some s \<Rightarrow> s = [] \<or> range_admits s port"
      by (simp only: node_range_check_None)
    then show ?thesis
      using Some None
      by (auto simp: validate_node_proxy_limit_excluding_def wp_find_by_id wp_count_rows
          node_port_ok_def node_load_def not_le split: option.splits)
  next
    case (Some m)
    then have "\<not> (case n_port_range n of None \<Rightarrow> True | Some s \<Rightarrow> s = [] \<or> range_admits s port)"
      using node_range_check_None[of "n_port_range n" port] by simp
    with \<open>row_get n_id i (db_nodes (w_db w)) = Some n\<close> Some show ?thesis
      by (simp add: validate_node_proxy_limit_excluding_def wp_find_by_id node_port_ok_def)
  qed
qed

text \<open>In a run without faults both checks always answer and leave the world as it is.\<close>

lemma pop_fault_idle [simp]: "w_faults w = [] \<Longrightarrow> pop_fault w = w"
  by (cases w) (simp add: pop_fault_def)

lemma user_limit_exact:
  assumes "w_faults w = []"
  shows "wp (validate_user_port_limit i port)
    (\<lambda>r w'. (\<exists>m. r = Inr (user_port_ok (w_db w) i port, m)) \<and> w' = w) w"
proof -
  have "wp (validate_user_port_limit i port) (\<lambda>r w'. (\<exists>ok m. r = Inr (ok, m)) \<and> w' = w) w"
    using assms
    by (auto simp: validate_user_port_limit_def get_user_port_count_def wp_find_by_id wp_find_all
        wp_count_rows split: option.splits)
  with wp_user_limit[of i port w] show ?thesis
    by (simp add: wp_def split: prod.splits) blast
qed

lemma node_limit_exact:
  assumes "w_faults w = []"
  shows "wp (validate_node_proxy_limit_excluding i port ex)
    (\<lambda>r w'. (\<exists>m. r = Inr (node_port_ok (w_db w) i port ex, m)) \<and> w' = w) w"
proof -
  have "wp (validate_node_proxy_limit_excluding i port ex) (\<lambda>r w'. (\<exists>ok m. r = Inr (ok, m)) \<and> w' = w) w"
    using assms
    by (auto simp: validate_node_proxy_limit_excluding_def wp_find_by_id wp_count_rows
        split: option.splits)
  with wp_node_limit[of i port ex w] show ?thesis
    by (simp add: wp_def split: prod.splits) blast
qed

text \<open>the user check answers whether the port is in the user's ranges and the user has fewer proxies
  than the limit, counting those of all the user's clients and the user's direct ones; without
  database faults it always answers, and it changes nothing.\<close>

theorem validate_user_port_limit_spec:
  assumes "w_faults w = []"
  shows "wp (validate_user_port_limit i port)
    (\<lambda>r w'. (\<exists>m. r = Inr (user_port_ok (w_db w) i port, m)) \<and> w_db w' = w_db w) w"
  by (rule wp_mono[OF user_limit_exact[OF assms]]) auto

definition limits_db :: db where
  "limits_db = empty_db\<lparr>db_users := [sample_user\<lparr>u_max_port := Some 0\<rparr>]\<rparr>"

lemma validate_user_port_limit_spec_witness:
  "\<exists>m. fst (run_state (validate_user_port_limit 7 8080) (idle_world limits_db)) = Inr (False, m)"
proof -
  have "\<not> user_port_ok limits_db 7 8080"
    by (simp add: user_port_ok_def limits_db_def sample_user_def row_get_def i32_as_u64_def)
  then show ?thesis
    using validate_user_port_limit_spec[of "idle_world limits_db" 7 8080]
    by (simp add: wp_def split: prod.splits)
qed

text \<open>the node check answers whether the node exists, is within its traffic quota, admits the
  port and carries fewer enabled proxies than its limit, the excluded one left out.\<close>

theorem validate_node_proxy_limit_spec:
  assumes "w_faults w = []"
  shows "wp (validate_node_proxy_limit_excluding i port ex)
    (\<lambda>r w'. (\<exists>m. r = Inr (node_port_ok (w_db w) i port ex, m)) \<and> w_db w' = w_db w) w"
  by (rule wp_mono[OF node_limit_exact[OF assms]]) auto

lemma validate_node_proxy_limit_spec_witness:
  "\<exists>m. fst (run_state (validate_node_proxy_limit_excluding 3 8080 0) (idle_world limits_db)) =
     Inr (False, m)"
proof -
  have "\<not> node_port_ok limits_db 3 8080 0"
    by (simp add: node_port_ok_def limits_db_def row_get_def)
  then show ?thesis
    using validate_node_proxy_limit_spec[of "idle_world limits_db" 3 8080 0]
    by (simp add: wp_def split: prod.splits)
qed

text \<open>a negative limit is no limit. \<open>as u64\<close> sign-extends it, so a user with a limit below zero
  passes the count check whatever the number of proxies (below \<open>2 ^ 63\<close>).\<close>

theorem negative_limit_never_reached:
  assumes "row_get u_id i (db_users d) = Some u" "u_max_port u = Some m" "sint m < 0"
    and "u_port_range u = None" "user_ports d i < 2 ^ 63"
  shows "user_port_ok d i port"
  using assms i32_as_u64_negative[OF assms(3)] by (simp add: user_port_ok_def)

lemma negative_limit_never_reached_witness:
  "user_port_ok (empty_db\<lparr>db_users := [sample_user\<lparr>u_max_port := Some (- 1)\<rparr>]\<rparr>) 7 8080"
  by (rule negative_limit_never_reached[of 7 _ "sample_user\<lparr>u_max_port := Some (- 1)\<rparr>" "- 1"])
     (simp_all add: sample_user_def row_get_def user_ports_def)

end
