(* ===== verification/Control.thy ===== *)
theory Control
  imports ProxyLimits
begin

text \<open>
  How handlers are composed: early returns as a result type, and the interface through which they
  reach the nodes (the trait \<open>ProxyControl\<close> of \<open>common/src/protocol/control.rs\<close>).
\<close>

section \<open>Early returns\<close>

text \<open>
  A handler ends early with a status and a message, or goes on. \<open>match e { Ok(x) => x,
  Err(..) => return .. }\<close> and the operator \<open>?\<close> are \<open>and_then\<close>; a failing stage skips the rest.
\<close>

type_synonym failure = "status \<times> msg"
type_synonym 'a handler = "(failure + 'a) io"

definition and_then :: "('e + 'a) io \<Rightarrow> ('a \<Rightarrow> ('e + 'b) io) \<Rightarrow> ('e + 'b) io" where
  "and_then m f = do {
     r \<leftarrow> m;
     case r of Inl e \<Rightarrow> State_Monad.return (Inl e) | Inr x \<Rightarrow> f x
   }"

definition finish :: "'a \<Rightarrow> ('e + 'a) io" where
  "finish x = State_Monad.return (Inr x)"

definition fail :: "'e \<Rightarrow> ('e + 'a) io" where
  "fail e = State_Monad.return (Inl e)"

definition or_fail :: "('d \<Rightarrow> 'e) \<Rightarrow> ('d + 'a) io \<Rightarrow> ('e + 'a) io" where
  "or_fail g m = do {
     r \<leftarrow> m;
     case r of Inl e \<Rightarrow> State_Monad.return (Inl (g e)) | Inr x \<Rightarrow> State_Monad.return (Inr x)
   }"

definition check :: "bool \<Rightarrow> 'e \<Rightarrow> ('e + unit) io" where
  "check b e = State_Monad.return (if b then Inr () else Inl e)"

definition some_or :: "'e \<Rightarrow> 'a option \<Rightarrow> ('e + 'a) io" where
  "some_or e x = State_Monad.return (case x of Some y \<Rightarrow> Inr y | None \<Rightarrow> Inl e)"

definition lift_sum :: "'e + 'a \<Rightarrow> ('e + 'a) io" where
  "lift_sum x = State_Monad.return x"

text \<open>Running a step for its effect, errors logged and dropped (\<open>let _ = ..\<close>, \<open>warn!\<close>).\<close>

definition ignoring :: "('e + 'a) io \<Rightarrow> ('f + unit) io" where
  "ignoring m = do { _ \<leftarrow> m; State_Monad.return (Inr ()) }"

definition to_response :: "failure + 'a \<Rightarrow> 'a resp" where
  "to_response r = (case r of Inl (st, m) \<Rightarrow> reject st m | Inr d \<Rightarrow> accept d)"

definition internal :: "any_err \<Rightarrow> failure" where
  "internal e = (INTERNAL_SERVER_ERROR, M_error e)"

definition internal_db :: "db_err \<Rightarrow> failure" where
  "internal_db e = internal (E_db e)"

lemma wp_and_then [simp]:
  "wp (and_then m f) Q w = wp m (\<lambda>r w'. case r of Inl e \<Rightarrow> Q (Inl e) w' | Inr x \<Rightarrow> wp (f x) Q w') w"
  unfolding and_then_def wp_bind by (rule arg_cong[where f = "\<lambda>q. wp m q w"]) (auto simp: fun_eq_iff split: sum.splits)

lemma wp_or_fail [simp]:
  "wp (or_fail g m) Q w = wp m (\<lambda>r w'. case r of Inl e \<Rightarrow> Q (Inl (g e)) w' | Inr x \<Rightarrow> Q (Inr x) w') w"
  unfolding or_fail_def wp_bind by (rule arg_cong[where f = "\<lambda>q. wp m q w"]) (auto simp: fun_eq_iff split: sum.splits)

lemma wp_finish [simp]: "wp (finish x) Q w = Q (Inr x) w"
  by (simp add: finish_def)

lemma wp_fail [simp]: "wp (fail e) Q w = Q (Inl e) w"
  by (simp add: fail_def)

lemma wp_check [simp]: "wp (check b e) Q w = (if b then Q (Inr ()) w else Q (Inl e) w)"
  by (simp add: check_def)

lemma wp_some_or [simp]:
  "wp (some_or e x) Q w = (case x of Some y \<Rightarrow> Q (Inr y) w | None \<Rightarrow> Q (Inl e) w)"
  by (cases x) (simp_all add: some_or_def)

lemma wp_lift_sum [simp]: "wp (lift_sum x) Q w = Q x w"
  by (simp add: lift_sum_def)

lemma wp_return_fun: "wp (State_Monad.return x) Q = Q x"
  by (rule ext) simp

lemma wp_ignoring [simp]: "wp (ignoring m) Q w = wp m (\<lambda>_. Q (Inr ())) w"
  by (simp add: ignoring_def wp_return_fun)

lemma keeps_and_then [intro!]: "keeps P m \<Longrightarrow> (\<And>x. keeps P (f x)) \<Longrightarrow> keeps P (and_then m f)"
  unfolding and_then_def by auto

lemma keeps_or_fail [intro!]: "keeps P m \<Longrightarrow> keeps P (or_fail g m)"
  unfolding or_fail_def by auto

lemma keeps_ignoring [intro!]: "keeps P m \<Longrightarrow> keeps P (ignoring m)"
  unfolding ignoring_def by auto

lemma keeps_plain [intro!]:
  "keeps P (finish x)" "keeps P (fail e)" "keeps P (check b e')" "keeps P (some_or e' v)" "keeps P (lift_sum s)"
  by (simp_all add: keeps_def split: option.splits)

text \<open>A stage that does not touch the database, whatever else it does.\<close>

definition same_db :: "'a io \<Rightarrow> bool" where
  "same_db m = (\<forall>P. keeps (on_db P) m)"

lemma same_dbI: "(\<And>P. keeps (on_db P) m) \<Longrightarrow> same_db m"
  by (simp add: same_db_def)

lemma same_dbD: "same_db m \<Longrightarrow> keeps (on_db P) m"
  by (simp add: same_db_def)

lemma same_db_wp:
  assumes "same_db m"
  shows "wp m (\<lambda>_ w'. w_db w' = w_db w) w"
proof -
  have "keeps (on_db (\<lambda>d. d = w_db w)) m" by (rule same_dbD[OF assms])
  from keepsD[OF this, of w] have "wp m (\<lambda>_. on_db (\<lambda>d. d = w_db w)) w" by (simp add: on_db_def)
  then show ?thesis by (rule wp_mono) (simp add: on_db_def)
qed

lemma wp_same_db:
  assumes "same_db m" "\<And>r w'. w_db w' = w_db w \<Longrightarrow> Q r w'"
  shows "wp m Q w"
  by (rule wp_mono[OF same_db_wp[OF assms(1)]]) (rule assms(2))

section \<open>Notifications\<close>

text \<open>\<open>tokio::spawn(async move { csm.notify_proxy_change(&id).await })\<close>.\<close>

definition spawn_notify :: "string \<Rightarrow> ('e + unit) io" where
  "spawn_notify client_id = do {
     modify (\<lambda>w. w\<lparr>w_tasks := w_tasks w @ [client_id]\<rparr>);
     State_Monad.return (Inr ())
   }"

lemma wp_spawn_notify [simp]:
  "wp (spawn_notify c) Q w = Q (Inr ()) (w\<lparr>w_tasks := w_tasks w @ [c]\<rparr>)"
  by (simp add: spawn_notify_def)

lemma keeps_spawn_notify [intro!]: "keeps (on_db P) (spawn_notify c)"
  unfolding spawn_notify_def by auto

section \<open>Runs without faults\<close>

text \<open>No statement of the run is going to fail.\<close>

definition healthy :: "world \<Rightarrow> bool" where
  "healthy w = (w_faults w = [])"

lemma healthy_stmt [intro!]: "keeps healthy (stmt f)"
  by (simp add: keeps_def wp_stmt healthy_def split: prod.splits)

lemma healthy_db [intro!]:
  "keeps healthy (query g)" "keeps healthy (find_by_id T i)" "keeps healthy (find_all T p)"
  "keeps healthy (find_one T p)" "keeps healthy (count_rows T p)" "keeps healthy (update_row T i h)"
  "keeps healthy (update_checked T i h)" "keeps healthy (delete_by_id T i)" "keeps healthy (delete_many T p)"
  "keeps healthy (insert_row T sq ss mk)"
  unfolding query_def find_by_id_def find_all_def find_one_def count_rows_def update_row_def update_checked_def
    delete_by_id_def delete_many_def insert_row_def
  by (rule healthy_stmt)+

lemma healthy_modify [intro!]: "(\<And>w. w_faults (f w) = w_faults w) \<Longrightarrow> keeps healthy (modify f)"
  by (simp add: keeps_def healthy_def)

lemma healthy_spawn [intro!]: "keeps healthy (spawn_notify c)"
  by (simp add: keeps_def healthy_def)

text \<open>A stage with a known outcome, followed by the rest.\<close>

lemma wp_stage:
  assumes "wp m (\<lambda>r w'. w_db w' = w_db w \<and> R r) w"
    and "\<And>e w'. w_db w' = w_db w \<Longrightarrow> R (Inl e) \<Longrightarrow> Q (Inl e) w'"
    and "\<And>x w'. w_db w' = w_db w \<Longrightarrow> R (Inr x) \<Longrightarrow> wp (f x) Q w'"
  shows "wp (and_then m f) Q w"
  unfolding wp_and_then
  by (rule wp_mono[OF assms(1)]) (auto split: sum.splits intro: assms(2,3))

section \<open>The interface to the nodes\<close>

text \<open>The two operations the handlers call on \<open>app_state.proxy_control\<close>.\<close>

record proxy_control =
  pcl_start :: "string \<Rightarrow> int \<Rightarrow> (any_err + unit) io"
  pcl_stop :: "string \<Rightarrow> int \<Rightarrow> (any_err + unit) io"

text \<open>
  What the handlers rely on: starting and stopping a listener may succeed or fail, consume
  statements and messages, but writes nothing to the database.
\<close>

locale proxy_controller =
  fixes ctl :: proxy_control
  assumes start_same_db: "same_db (pcl_start ctl c i)"
    and stop_same_db: "same_db (pcl_stop ctl c i)"
    and start_healthy [intro!]: "keeps healthy (pcl_start ctl c i)"
    and stop_healthy [intro!]: "keeps healthy (pcl_stop ctl c i)"
begin

lemma keeps_start [intro!]: "keeps (on_db P) (pcl_start ctl c i)"
  by (rule same_dbD) (rule start_same_db)

lemma keeps_stop [intro!]: "keeps (on_db P) (pcl_stop ctl c i)"
  by (rule same_dbD) (rule stop_same_db)

lemma wp_start:
  "(\<And>r w'. w_db w' = w_db w \<Longrightarrow> Q r w') \<Longrightarrow> wp (pcl_start ctl c i) Q w"
  by (rule wp_same_db[OF start_same_db])

lemma wp_stop:
  "(\<And>r w'. w_db w' = w_db w \<Longrightarrow> Q r w') \<Longrightarrow> wp (pcl_stop ctl c i) Q w"
  by (rule wp_same_db[OF stop_same_db])

text \<open>Starting and stopping in a run without faults.\<close>

lemma wp_start_healthy:
  assumes "healthy w" "\<And>r w'. w_db w' = w_db w \<Longrightarrow> healthy w' \<Longrightarrow> Q r w'"
  shows "wp (pcl_start ctl c i) Q w"
  using wp_mono[of "pcl_start ctl c i" "\<lambda>_ w'. w_db w' = w_db w \<and> healthy w'" w Q]
    same_db_wp[OF start_same_db, of c i w] keepsD[OF start_healthy assms(1), of c i] assms(2)
  by (simp add: wp_conj)

lemma wp_stop_healthy:
  assumes "healthy w" "\<And>r w'. w_db w' = w_db w \<Longrightarrow> healthy w' \<Longrightarrow> Q r w'"
  shows "wp (pcl_stop ctl c i) Q w"
  using wp_mono[of "pcl_stop ctl c i" "\<lambda>_ w'. w_db w' = w_db w \<and> healthy w'" w Q]
    same_db_wp[OF stop_same_db, of c i w] keepsD[OF stop_healthy assms(1), of c i] assms(2)
  by (simp add: wp_conj)

end

end
