(* ===== verification/Sessions.thy ===== *)
theory Sessions
  imports Control
begin

text \<open>
  The contract the two stream managers share: at most one live session per peer, the newest one,
  and an online flag in the database that follows it. A stream's task registers its channel when the
  peer connects and unregisters the same channel when the stream ends, however late that is.
\<close>

datatype session_event = Connect int nat | Disconnect int nat

fun run_events ::
  "(int \<Rightarrow> nat \<Rightarrow> (any_err + unit) io) \<Rightarrow> (int \<Rightarrow> nat \<Rightarrow> (any_err + unit) io) \<Rightarrow>
   session_event list \<Rightarrow> unit io" where
  "run_events reg unreg [] = State_Monad.return ()"
| "run_events reg unreg (Connect i c # es) = do { _ \<leftarrow> reg i c; run_events reg unreg es }"
| "run_events reg unreg (Disconnect i c # es) = do { _ \<leftarrow> unreg i c; run_events reg unreg es }"

text \<open>The session a peer should have after a run: its last connection, unless that one has ended.\<close>

fun last_session :: "session_event list \<Rightarrow> (int \<Rightarrow> nat option) \<Rightarrow> int \<Rightarrow> nat option" where
  "last_session [] m = m"
| "last_session (Connect i c # es) m = last_session es (m(i := Some c))"
| "last_session (Disconnect i c # es) m =
    last_session es (if m i = Some c then m(i := None) else m)"

locale session_registry =
  fixes chan_of :: "world \<Rightarrow> int \<Rightarrow> nat option"
    and online :: "db \<Rightarrow> int \<Rightarrow> bool option"
    and reg unreg :: "int \<Rightarrow> nat \<Rightarrow> (any_err + unit) io"
  assumes register_law:
    "healthy w \<Longrightarrow> wp (reg i c) (\<lambda>r w'. healthy w' \<and> chan_of w' = (chan_of w)(i := Some c) \<and>
       online (w_db w') = (online (w_db w))(i := map_option (\<lambda>_. True) (online (w_db w) i))) w"
    and unregister_law:
    "healthy w \<Longrightarrow> chan_of w i = Some c \<Longrightarrow>
       wp (unreg i c) (\<lambda>r w'. healthy w' \<and> chan_of w' = (chan_of w)(i := None) \<and>
         online (w_db w') = (online (w_db w))(i := map_option (\<lambda>_. False) (online (w_db w) i))) w"
    and foreign_law:
    "chan_of w i \<noteq> Some c \<Longrightarrow> wp (unreg i c) (\<lambda>r w'. r = Inr () \<and> w' = w) w"
begin

definition agrees :: "world \<Rightarrow> bool" where
  "agrees w = (\<forall>i b. online (w_db w) i = Some b \<longrightarrow> b = (chan_of w i \<noteq> None))"

lemma agreesI:
  "agrees w \<Longrightarrow> chan_of w' = (chan_of w)(i := x) \<Longrightarrow>
   online (w_db w') = (online (w_db w))(i := map_option (\<lambda>_. x \<noteq> None) (online (w_db w) i)) \<Longrightarrow> agrees w'"
  by (auto simp: agrees_def)

lemma run_events_agree:
  assumes "healthy w" "agrees w"
  shows "wp (run_events reg unreg es)
    (\<lambda>_ w'. healthy w' \<and> agrees w' \<and> chan_of w' = last_session es (chan_of w)) w"
  using assms
proof (induction es arbitrary: w)
  case (Cons e es)
  show ?case
  proof (cases e)
    case (Connect i c)
    show ?thesis
      unfolding Connect run_events.simps wp_bind
      apply (rule wp_mono[OF register_law[OF Cons.prems(1)]])
      using Cons.IH agreesI[OF Cons.prems(2), of _ i "Some c"] by fastforce
  next
    case (Disconnect i c)
    show ?thesis
    proof (cases "chan_of w i = Some c")
      case True
      show ?thesis
        unfolding Disconnect run_events.simps wp_bind
        apply (rule wp_mono[OF unregister_law[OF Cons.prems(1) True]])
        using Cons.IH agreesI[OF Cons.prems(2), of _ i None] True by fastforce
    next
      case False
      show ?thesis
        unfolding Disconnect run_events.simps wp_bind
        apply (rule wp_mono[OF foreign_law[OF False]])
        using Cons.IH[OF Cons.prems] False by simp
    qed
  qed
qed simp

end

end
