(* ===== verification/NodeManager.thy ===== *)
theory NodeManager
  imports Sessions
begin

text \<open>
  The manager of the nodes' gRPC streams (\<open>controller/src/node_manager.rs\<close>): registration of
  sessions and the online flag, sending a command and waiting for its answer through the table of
  pending requests, and the implementation of \<open>ProxyControl\<close> on top of it.

  A command is answered by the environment: \<open>w_node_answers\<close> says for each command in turn whether
  the node answers in time, and with which result. A node echoes the request identifier it finds in
  the command (\<open>node/src/server/grpc_client.rs\<close>). Methods that hold the map's lock run as one step.
\<close>

section \<open>Sessions\<close>

definition node_session :: "world \<Rightarrow> int \<Rightarrow> agent_result option session option" where
  "node_session w i = map_of (w_nodes w) i"

definition node_live :: "world \<Rightarrow> int \<Rightarrow> bool" where
  "node_live w i =
    (case node_session w i of Some s \<Rightarrow> ss_chan s \<notin> set (w_closed w) | None \<Rightarrow> False)"

definition set_node_online :: "bool \<Rightarrow> naive_dt \<Rightarrow> node_row \<Rightarrow> node_row" where
  "set_node_online online now n =
    n\<lparr>n_is_online := online, n_updated_at := now,
      n_last_online := (if online then Some now else n_last_online n)\<rparr>"

definition nm_persist_online_status :: "int \<Rightarrow> bool \<Rightarrow> (any_err + unit) io" where
  "nm_persist_online_status node_id online = do {
     now \<leftarrow> utc_now;
     and_then (or_fail E_db (update_row nodes_t node_id (set_node_online online now))) (\<lambda>_. finish ())
   }"

definition register_node_stream :: "int \<Rightarrow> nat \<Rightarrow> (any_err + unit) io" where
  "register_node_stream node_id tx = do {
     modify (\<lambda>w. w\<lparr>w_nodes :=
       AList.update node_id \<lparr>ss_chan = tx, ss_pending = pending_new\<rparr> (w_nodes w)\<rparr>);
     nm_persist_online_status node_id True
   }"

definition unregister_node_stream :: "int \<Rightarrow> nat \<Rightarrow> (any_err + unit) io" where
  "unregister_node_stream node_id tx = do {
     s \<leftarrow> asks (\<lambda>w. node_session w node_id);
     if \<not> (case s of Some stream \<Rightarrow> ss_chan stream = tx | None \<Rightarrow> False)
     then State_Monad.return (Inr ())
     else do {
       modify (\<lambda>w. w\<lparr>w_nodes := AList.delete node_id (w_nodes w)\<rparr>);
       nm_persist_online_status node_id False
     }
   }"

definition nm_apply_online_status :: "node_row list \<Rightarrow> node_row list io" where
  "nm_apply_online_status nodes = asks (\<lambda>w. map (\<lambda>n. n\<lparr>n_is_online := node_live w (n_id n)\<rparr>) nodes)"

fun nm_sync_loop :: "node_row list \<Rightarrow> (any_err + unit) io" where
  "nm_sync_loop [] = State_Monad.return (Inr ())"
| "nm_sync_loop (node # nodes) = do {
     online \<leftarrow> asks (\<lambda>w. node_live w (n_id node));
     and_then (nm_persist_online_status (n_id node) online) (\<lambda>_. nm_sync_loop nodes)
   }"

definition nm_sync_online_status :: "(any_err + unit) io" where
  "nm_sync_online_status = and_then (or_fail E_db (find_all nodes_t (\<lambda>_. True))) nm_sync_loop"

definition nm_load_nodes :: "(any_err + unit) io" where
  "nm_load_nodes = and_then (or_fail E_db (find_all nodes_t (\<lambda>_. True))) (\<lambda>_. finish ())"

definition get_loaded_node_ids :: "int list io" where
  "get_loaded_node_ids = asks (\<lambda>w. map fst (filter (\<lambda>(i, s). ss_chan s \<notin> set (w_closed w)) (w_nodes w)))"

section \<open>Commands\<close>

fun replace_request_id :: "node_payload \<Rightarrow> string \<Rightarrow> node_payload" where
  "replace_request_id (StartProxy _ c i cfg) rid = StartProxy rid c i cfg"
| "replace_request_id (StopProxy _ c i) rid = StopProxy rid c i"
| "replace_request_id (GetStatus _) rid = GetStatus rid"
| "replace_request_id (GetClientLogs _ c n) rid = GetClientLogs rid c n"
| "replace_request_id (GetNodeLogs _ n) rid = GetNodeLogs rid n"
| "replace_request_id (UpdateProtocol _ p) rid = UpdateProtocol rid p"
| "replace_request_id (UpdateSpeedLimit _ l) rid = UpdateSpeedLimit rid l"
| "replace_request_id (SoftwareUpdate _) rid = SoftwareUpdate rid"
| "replace_request_id (Restart _) rid = Restart rid"
| "replace_request_id other rid = other"

text \<open>The identifier a node echoes in its answer to a command.\<close>

fun payload_request_id :: "node_payload \<Rightarrow> string" where
  "payload_request_id (StartProxy rid _ _ _) = rid"
| "payload_request_id (StopProxy rid _ _) = rid"
| "payload_request_id (GetStatus rid) = rid"
| "payload_request_id (GetClientLogs rid _ _) = rid"
| "payload_request_id (GetNodeLogs rid _) = rid"
| "payload_request_id (UpdateProtocol rid _) = rid"
| "payload_request_id (UpdateSpeedLimit rid _) = rid"
| "payload_request_id (SoftwareUpdate rid) = rid"
| "payload_request_id (UpdateCertificate rid _) = rid"
| "payload_request_id (Restart rid) = rid"
| "payload_request_id _ = []"

definition set_node_pending :: "int \<Rightarrow> agent_result option pending \<Rightarrow> world \<Rightarrow> world" where
  "set_node_pending i p w =
    w\<lparr>w_nodes := map (\<lambda>(j, s). if j = i then (j, s\<lparr>ss_pending := p\<rparr>) else (j, s)) (w_nodes w)\<rparr>"

definition nm_complete_pending_request :: "int \<Rightarrow> string \<Rightarrow> agent_result option \<Rightarrow> unit io" where
  "nm_complete_pending_request node_id request_id result = do {
     s \<leftarrow> asks (\<lambda>w. node_session w node_id);
     case s of
       None \<Rightarrow> State_Monad.return ()
     | Some stream \<Rightarrow>
         modify (set_node_pending node_id (snd (pending_complete request_id result (ss_pending stream))))
   }"

text \<open>Registering the request under a fresh identifier.\<close>

definition nm_register_request :: "int \<Rightarrow> (any_err + string \<times> nat \<times> nat) io" where
  "nm_register_request node_id = do {
     s \<leftarrow> asks (\<lambda>w. node_session w node_id);
     case s of
       None \<Rightarrow> State_Monad.return (Inl (E_msg (M_not_connected node_id)))
     | Some stream \<Rightarrow> do {
         request_id \<leftarrow> new_uuid;
         now \<leftarrow> asks w_mono;
         modify (set_node_pending node_id (snd (pending_register request_id now (ss_pending stream))));
         State_Monad.return
           (Inr (request_id, fst (pending_register request_id now (ss_pending stream)), ss_chan stream))
       }
   }"

definition nm_send :: "int \<Rightarrow> nat \<Rightarrow> node_payload \<Rightarrow> (any_err + unit) io" where
  "nm_send node_id tx payload = do {
     closed \<leftarrow> asks w_closed;
     if tx \<in> set closed then State_Monad.return (Inl (E_msg (M_send_failed node_id)))
     else do {
       modify (\<lambda>w. w\<lparr>w_node_log := w_node_log w @ [(tx, payload)]\<rparr>);
       State_Monad.return (Inr ())
     }
   }"

text \<open>The node's turn: it answers with the identifier it was given, or not before the deadline.\<close>

definition node_turn :: "int \<Rightarrow> string \<Rightarrow> int \<Rightarrow> unit io" where
  "node_turn node_id echoed timeout = do {
     answers \<leftarrow> asks w_node_answers;
     modify (\<lambda>w. w\<lparr>w_node_answers := tl answers\<rparr>);
     case (case answers of [] \<Rightarrow> None | a # _ \<Rightarrow> a) of
       Some result \<Rightarrow> nm_complete_pending_request node_id echoed result
     | None \<Rightarrow> State_Monad.return ()
   }"

definition nm_wait :: "int \<Rightarrow> nat \<Rightarrow> int \<Rightarrow> (any_err + agent_result option) io" where
  "nm_wait node_id rx timeout = do {
     s \<leftarrow> asks (\<lambda>w. node_session w node_id);
     now \<leftarrow> asks w_mono;
     case s of
       None \<Rightarrow> State_Monad.return (Inl (E_wait ChannelClosed))
     | Some stream \<Rightarrow>
         (case pending_wait rx (now + timeout) now (ss_pending stream) of
            (Some (Inr result), p) \<Rightarrow> State_Monad.return (Inr result)
          | (Some (Inl e), p) \<Rightarrow> State_Monad.return (Inl (E_wait e))
          | (None, _) \<Rightarrow> do {
              modify (\<lambda>w. w\<lparr>w_mono := now + timeout\<rparr>);
              modify (set_node_pending node_id
                (snd (pending_wait rx (now + timeout) (now + timeout) (ss_pending stream))));
              State_Monad.return (Inl (E_wait Timeout))
            })
   }"

definition nm_command :: "int \<Rightarrow> int \<Rightarrow> node_payload \<Rightarrow> (any_err + agent_result option) io" where
  "nm_command timeout node_id payload =
    and_then (nm_register_request node_id) (\<lambda>(request_id, rx, tx).
    let final_payload = replace_request_id payload request_id in
    and_then (nm_send node_id tx final_payload) (\<lambda>_. do {
      node_turn node_id (payload_request_id final_payload) timeout;
      nm_wait node_id rx timeout
    }))"

definition send_command_and_wait :: "int \<Rightarrow> node_payload \<Rightarrow> (any_err + agent_result option) io" where
  "send_command_and_wait node_id payload = nm_command 10000 node_id payload"

text \<open>What the commands that expect a \<open>CommandAck\<close> make of the answer.\<close>

definition expect_ack :: "agent_result option \<Rightarrow> (any_err + unit) io" where
  "expect_ack result =
    (case result of
       Some (CommandAck success err) \<Rightarrow>
         if success then finish () else fail (E_msg (M_peer_failed err))
     | _ \<Rightarrow> fail (E_msg M_unexpected_response))"

definition get_node_logs :: "int \<Rightarrow> nat \<Rightarrow> (any_err + log_entry list) io" where
  "get_node_logs node_id n =
    and_then (send_command_and_wait node_id (GetNodeLogs [] n)) (\<lambda>result.
    case result of
      Some (NodeLogsResult logs) \<Rightarrow> finish logs
    | _ \<Rightarrow> fail (E_msg M_unexpected_response))"

definition send_update_protocol :: "int \<Rightarrow> string \<Rightarrow> (any_err + unit) io" where
  "send_update_protocol node_id protocol =
    and_then (send_command_and_wait node_id (UpdateProtocol [] protocol)) expect_ack"

definition send_update_speed_limit :: "int \<Rightarrow> i64 \<Rightarrow> (any_err + unit) io" where
  "send_update_speed_limit node_id speed_limit =
    and_then (send_command_and_wait node_id (UpdateSpeedLimit [] speed_limit)) expect_ack"

text \<open>The update gets 120 seconds of its own.\<close>

definition nm_send_software_update ::
  "int \<Rightarrow> (any_err + bool \<times> string option \<times> string option) io" where
  "nm_send_software_update node_id =
    and_then (nm_command 120000 node_id (SoftwareUpdate [])) (\<lambda>result.
    case result of
      Some (SoftwareUpdateResult ok err ver) \<Rightarrow> finish (ok, err, ver)
    | Some (CommandAck success err) \<Rightarrow>
        if \<not> success then fail (E_msg (M_peer_failed err)) else fail (E_msg M_unexpected_response)
    | _ \<Rightarrow> fail (E_msg M_unexpected_response))"

definition nm_send_restart :: "int \<Rightarrow> (any_err + unit) io" where
  "nm_send_restart node_id =
    and_then (send_command_and_wait node_id (Restart [])) expect_ack"

definition push_certificate_update :: "int \<Rightarrow> cert_msg \<Rightarrow> (any_err + unit) io" where
  "push_certificate_update node_id certificate =
    and_then (send_command_and_wait node_id (UpdateCertificate [] (Some certificate))) (\<lambda>result.
    case result of
      Some (UpdateCertificateResult success err) \<Rightarrow>
        if success then finish () else fail (E_msg (M_peer_failed err))
    | _ \<Rightarrow> fail (E_msg M_unexpected_response))"

section \<open>ProxyControl\<close>

definition resolve_node_for_client :: "string \<Rightarrow> (any_err + int option) io" where
  "resolve_node_for_client client_id =
    and_then (or_fail E_db (find_one proxies_t (\<lambda>p. p_client_id p = Some client_id \<and> p_enabled p))) (\<lambda>p.
    finish (case p of Some proxy \<Rightarrow> p_node_id proxy | None \<Rightarrow> None))"

definition proxy_on_node :: "string \<Rightarrow> int \<Rightarrow> (any_err + proxy_row) io" where
  "proxy_on_node client_id proxy_id =
    and_then (or_fail E_db (find_by_id proxies_t proxy_id)) (\<lambda>r.
    and_then (some_or (E_msg (M_proxy_missing proxy_id)) r) (\<lambda>proxy.
    and_then (check (or_default (p_client_id proxy) = client_id) (E_msg M_proxy_client_mismatch)) (\<lambda>_.
    and_then (check (p_node_id proxy \<noteq> None) (E_msg M_no_node_for_proxy)) (\<lambda>_.
    finish proxy))))"

definition nm_start_proxy :: "string \<Rightarrow> int \<Rightarrow> (any_err + unit) io" where
  "nm_start_proxy client_id proxy_id =
    and_then (proxy_on_node client_id proxy_id) (\<lambda>proxy.
    and_then (some_or (E_msg M_no_node_for_proxy) (p_node_id proxy)) (\<lambda>node_id.
    and_then (send_command_and_wait node_id (StartProxy [] client_id proxy_id
      (if p_client_id proxy = None then Some (config_to_grpc (proxy_config_of proxy)) else None)))
      expect_ack))"

definition nm_stop_proxy :: "string \<Rightarrow> int \<Rightarrow> (any_err + unit) io" where
  "nm_stop_proxy client_id proxy_id =
    and_then (proxy_on_node client_id proxy_id) (\<lambda>proxy.
    and_then (some_or (E_msg M_no_node_for_proxy) (p_node_id proxy)) (\<lambda>node_id.
    and_then (send_command_and_wait node_id (StopProxy [] client_id proxy_id)) expect_ack))"

definition send_direct_snapshot :: "int \<Rightarrow> (any_err + unit) io" where
  "send_direct_snapshot node_id =
    and_then (or_fail E_db (find_all proxies_t
      (\<lambda>p. p_node_id p = Some node_id \<and> p_client_id p = None \<and> p_enabled p))) (\<lambda>proxies. do {
      s \<leftarrow> asks (\<lambda>w. node_session w node_id);
      case s of
        None \<Rightarrow> State_Monad.return (Inl (E_msg (M_not_connected node_id)))
      | Some stream \<Rightarrow> nm_send node_id (ss_chan stream)
          (SyncDirectProxies (map (\<lambda>p. config_to_grpc (proxy_config_of p)) proxies))
    })"

text \<open>Asking every connected node; nodes that fail are skipped.\<close>

fun collect_status :: "int list \<Rightarrow> connected_client list \<Rightarrow> nat \<Rightarrow> (connected_client list \<times> nat) io" where
  "collect_status [] clients n = State_Monad.return (clients, n)"
| "collect_status (i # is) clients n = do {
     r \<leftarrow> send_command_and_wait i (GetStatus []);
     case r of
       Inr (Some (ServerStatusResult cs k)) \<Rightarrow> collect_status is (clients @ cs) (n + k)
     | _ \<Rightarrow> collect_status is clients n
   }"

definition nm_get_connected_clients :: "(any_err + connected_client list) io" where
  "nm_get_connected_clients = do {
     node_ids \<leftarrow> get_loaded_node_ids;
     r \<leftarrow> collect_status node_ids [] 0;
     finish (fst r)
   }"

definition nm_get_server_status :: "(any_err + connected_client list \<times> nat) io" where
  "nm_get_server_status = do {
     node_ids \<leftarrow> get_loaded_node_ids;
     r \<leftarrow> collect_status node_ids [] 0;
     finish r
   }"

definition nm_fetch_client_logs :: "string \<Rightarrow> u16 \<Rightarrow> (any_err + log_entry list) io" where
  "nm_fetch_client_logs client_id n =
    and_then (resolve_node_for_client client_id) (\<lambda>r.
    and_then (some_or (E_msg (M_client_no_node client_id)) r) (\<lambda>node_id.
    and_then (send_command_and_wait node_id (GetClientLogs [] client_id (unat n))) (\<lambda>result.
    case result of
      Some (ClientLogsResult logs) \<Rightarrow> finish logs
    | Some (CommandAck success err) \<Rightarrow>
        if \<not> success then fail (E_msg (M_peer_failed err)) else fail (E_msg M_unexpected_response)
    | _ \<Rightarrow> fail (E_msg M_unexpected_response))))"

definition nm_update_certificate :: "string \<Rightarrow> string \<Rightarrow> (any_err + unit) io" where
  "nm_update_certificate cert_pem key_pem = fail (E_msg M_unsupported)"

definition node_control :: proxy_control where
  "node_control = \<lparr>pcl_start = nm_start_proxy, pcl_stop = nm_stop_proxy\<rparr>"

section \<open>Commands leave the database alone\<close>

lemma set_node_pending_sel [simp]:
  "w_db (set_node_pending i p w) = w_db w" "w_faults (set_node_pending i p w) = w_faults w"
  "w_mono (set_node_pending i p w) = w_mono w" "w_closed (set_node_pending i p w) = w_closed w"
  "w_node_answers (set_node_pending i p w) = w_node_answers w"
  by (simp_all add: set_node_pending_def)

lemma keeps_asks_any [intro!]: "keeps P (asks f)"
  by (simp add: keeps_def)

lemma healthy_uuid [intro!]: "keeps healthy new_uuid"
  by (simp add: keeps_def wp_new_uuid healthy_def split: list.splits)

lemmas command_parts =
  nm_register_request_def nm_send_def node_turn_def nm_wait_def nm_complete_pending_request_def

lemma keeps_command:
  "keeps (on_db P) (nm_command t i payload)" "keeps healthy (nm_command t i payload)"
  unfolding nm_command_def command_parts Let_def by auto

lemma keeps_control:
  "keeps (on_db P) (nm_start_proxy c i)" "keeps healthy (nm_start_proxy c i)"
  "keeps (on_db P) (nm_stop_proxy c i)" "keeps healthy (nm_stop_proxy c i)"
  unfolding nm_start_proxy_def nm_stop_proxy_def proxy_on_node_def send_command_and_wait_def
    expect_ack_def
  by (auto intro!: keeps_command split: option.splits agent_result.splits)

text \<open>The node manager is a \<open>ProxyControl\<close> as the handlers expect it.\<close>

interpretation nm: proxy_controller node_control
  by unfold_locales (auto simp: node_control_def same_db_def intro!: keeps_control)

section \<open>Sessions and the online flag\<close>

definition node_chan :: "world \<Rightarrow> int \<Rightarrow> nat option" where
  "node_chan w i = map_option ss_chan (node_session w i)"

definition node_flag :: "db \<Rightarrow> int \<Rightarrow> bool option" where
  "node_flag d i = map_option n_is_online (row_get n_id i (db_nodes d))"

lemma set_node_online_sel [simp]:
  "n_id (set_node_online b t n) = n_id n" "n_is_online (set_node_online b t n) = b"
  by (simp_all add: set_node_online_def)

lemma node_flag_upd:
  assumes "db_nodes d' = row_upd n_id i f (db_nodes d)" "\<And>n. n_id (f n) = n_id n"
    and "\<And>n. n_is_online (f n) = b"
  shows "node_flag d' = (node_flag d)(i := map_option (\<lambda>_. b) (node_flag d i))"
  by (rule ext) (simp add: node_flag_def assms row_get_row_upd option.map_comp o_def)

lemma node_flag_missing: "row_get n_id i (db_nodes d) = None \<Longrightarrow> node_flag d i = None"
  by (simp add: node_flag_def)

lemma wp_persist_healthy:
  assumes "healthy w"
  shows "wp (nm_persist_online_status i b) (\<lambda>r w'. healthy w' \<and> w_nodes w' = w_nodes w \<and>
    w_closed w' = w_closed w \<and> (node_flag (w_db w) i \<noteq> None \<longrightarrow> r = Inr ()) \<and>
    map n_id (db_nodes (w_db w')) = map n_id (db_nodes (w_db w)) \<and>
    node_flag (w_db w') = (node_flag (w_db w))(i := map_option (\<lambda>_. b) (node_flag (w_db w) i))) w"
proof (cases "row_get n_id i (db_nodes (w_db w))")
  case None
  then show ?thesis using assms
    by (simp add: nm_persist_online_status_def wp_update_row healthy_def node_flag_missing[OF None] fun_upd_idem)
next
  case (Some n)
  with assms show ?thesis
    by (simp add: nm_persist_online_status_def wp_update_row healthy_def keys_row_upd
        node_flag_upd[where f = "set_node_online b (w_now w)"])
qed

lemma node_chan_upd:
  "w_nodes w' = AList.update i s (w_nodes w) \<Longrightarrow> node_chan w' = (node_chan w)(i := Some (ss_chan s))"
  "w_nodes w' = AList.delete i (w_nodes w) \<Longrightarrow> node_chan w' = (node_chan w)(i := None)"
  by (auto simp: fun_eq_iff node_chan_def node_session_def update_conv' delete_conv')

interpretation node_sessions: session_registry node_chan node_flag register_node_stream unregister_node_stream
proof
  fix w :: world and i :: int and c :: nat
  assume h: "healthy w"
  let ?w = "w\<lparr>w_nodes := AList.update i \<lparr>ss_chan = c, ss_pending = pending_new\<rparr> (w_nodes w)\<rparr>"
  have "healthy ?w" using h by (simp add: healthy_def)
  from wp_persist_healthy[OF this, of i True]
  show "wp (register_node_stream i c) (\<lambda>r w'. healthy w' \<and> node_chan w' = (node_chan w)(i := Some c) \<and>
       node_flag (w_db w') = (node_flag (w_db w))(i := map_option (\<lambda>_. True) (node_flag (w_db w) i))) w"
    unfolding register_node_stream_def wp_bind wp_modify
    by (rule wp_mono) (simp add: node_chan_upd(1)[where w = w])
next
  fix w :: world and i :: int and c :: nat
  assume h: "healthy w" and c: "node_chan w i = Some c"
  let ?w = "w\<lparr>w_nodes := AList.delete i (w_nodes w)\<rparr>"
  have "healthy ?w" using h by (simp add: healthy_def)
  then have "wp (nm_persist_online_status i False) (\<lambda>r w'. healthy w' \<and> node_chan w' = (node_chan w)(i := None) \<and>
       node_flag (w_db w') = (node_flag (w_db w))(i := map_option (\<lambda>_. False) (node_flag (w_db w) i))) ?w"
    using wp_mono[OF wp_persist_healthy[of ?w i False]] node_chan_upd(2)[of _ i w] by simp
  moreover obtain s where "node_session w i = Some s" "ss_chan s = c"
    using c by (auto simp: node_chan_def)
  ultimately show "wp (unregister_node_stream i c) (\<lambda>r w'. healthy w' \<and> node_chan w' = (node_chan w)(i := None) \<and>
       node_flag (w_db w') = (node_flag (w_db w))(i := map_option (\<lambda>_. False) (node_flag (w_db w) i))) w"
    unfolding unregister_node_stream_def by simp
next
  fix w :: world and i :: int and c :: nat
  assume "node_chan w i \<noteq> Some c"
  then show "wp (unregister_node_stream i c) (\<lambda>r w'. r = Inr () \<and> w' = w) w"
    by (auto simp: unregister_node_stream_def node_chan_def split: option.splits)
qed

text \<open>C30: whatever the order in which nodes connect and old streams are cleaned up, in a run without
  database faults each node has exactly the session of its last connection (none when that one has
  ended), and its online flag says whether it has one: a late cleanup never takes a node offline that
  has reconnected.\<close>

theorem node_online_follows_sessions:
  assumes "healthy w" "\<And>i b. node_flag (w_db w) i = Some b \<Longrightarrow> b = (node_chan w i \<noteq> None)"
  shows "wp (run_events register_node_stream unregister_node_stream es)
    (\<lambda>_ w'. node_chan w' = last_session es (node_chan w) \<and>
       (\<forall>i b. node_flag (w_db w') i = Some b \<longrightarrow> b = (last_session es (node_chan w) i \<noteq> None))) w"
proof -
  have "node_sessions.agrees w" using assms(2) by (simp add: node_sessions.agrees_def)
  from node_sessions.run_events_agree[OF assms(1) this]
  show ?thesis unfolding node_sessions.agrees_def by (rule wp_mono) metis
qed

definition sample_node :: node_row where
  "sample_node =
    \<lparr>n_id = 1, n_name = ''n1'', n_url = [], n_secret = ''s'', n_is_online = False, n_region = None,
     n_public_ip = None, n_description = None, n_tunnel_addr = ''10.0.0.1'', n_tunnel_port = 7000,
     n_tunnel_protocol = ''quic'', n_kcp_config = None, n_node_type = ''shared'', n_max_proxy = None,
     n_port_range = None, n_quota_gb = None, n_reset_cycle = ''none'', n_sent = 0, n_received = 0,
     n_last_reset = None, n_exceeded = False, n_speed_limit = None, n_version = None,
     n_last_online = None, n_created_at = DT 0 0 2024 1, n_updated_at = DT 0 0 2024 1\<rparr>"

lemma node_online_follows_sessions_witness:
  "\<exists>w es. wp (run_events register_node_stream unregister_node_stream es)
     (\<lambda>_ w'. node_chan w' 1 = Some 6 \<and> node_flag (w_db w') 1 \<noteq> Some False) w"
proof (intro exI)
  let ?w = "idle_world (empty_db\<lparr>db_nodes := [sample_node]\<rparr>)"
  have h: "healthy ?w" by (simp add: healthy_def)
  have a: "b = (node_chan ?w i \<noteq> None)" if "node_flag (w_db ?w) i = Some b" for i b
    using that
    by (auto simp: node_flag_def node_chan_def node_session_def row_get_def sample_node_def split: if_splits)
  show "wp (run_events register_node_stream unregister_node_stream [Connect 1 5, Connect 1 6, Disconnect 1 5])
     (\<lambda>_ w'. node_chan w' 1 = Some 6 \<and> node_flag (w_db w') 1 \<noteq> Some False) ?w"
    by (rule wp_mono, rule node_online_follows_sessions[OF h], erule a)
       (elim conjE, drule spec[of _ 1], drule spec[of _ False], simp)
qed

section \<open>Commands and their answers\<close>

lemma node_session_set:
  "node_session (set_node_pending i p w) j =
    (if j = i then map_option (\<lambda>s. s\<lparr>ss_pending := p\<rparr>) (node_session w j) else node_session w j)"
proof -
  have "map_of (map (\<lambda>(j, s). if j = i then (j, s\<lparr>ss_pending := p\<rparr>) else (j, s)) ns) j =
    (if j = i then map_option (\<lambda>s. s\<lparr>ss_pending := p\<rparr>) (map_of ns j) else map_of ns j)"
    for ns :: "(int \<times> agent_result option session) list"
    by (induction ns) auto
  from this[of "w_nodes w"] show ?thesis
    by (cases "j = i") (simp_all add: node_session_def set_node_pending_def)
qed

lemma node_session_other [simp]:
  "node_session (w\<lparr>w_node_log := l\<rparr>) i = node_session w i"
  "node_session (w\<lparr>w_node_answers := a\<rparr>) i = node_session w i"
  "node_session (w\<lparr>w_uuids := u\<rparr>) i = node_session w i"
  by (simp_all add: node_session_def)

lemma set_pending_log [simp]: "w_node_log (set_node_pending i p w) = w_node_log w"
  by (simp add: set_node_pending_def)

text \<open>The table of pending requests right after a registration.\<close>

lemma registered_chan:
  "pd_chan (snd (pending_register rid now p)) (fst (pending_register rid now p)) = Waiting"
  "pd_get (snd (pending_register rid now p)) rid =
     Some \<lparr>sender = fst (pending_register rid now p), created_at = now\<rparr>"
  using register_chan[of rid now p] by (cases "pending_register rid now p"; simp)+

lemma complete_registered:
  "pd_chan (snd (pending_complete rid x (snd (pending_register rid now p))))
     (fst (pending_register rid now p)) = Delivered x"
  using registered_chan[of rid now p] by (simp add: pending_complete_def Let_def)

text \<open>a command to a live session whose payload carries the fresh identifier is sent over that
  session's stream, and the node's answer is what the caller gets, whatever requests are pending.\<close>

theorem command_gets_its_answer:
  assumes "node_session w i = Some s" "ss_chan s \<notin> set (w_closed w)"
    and "w_uuids w = rid # us" "w_node_answers w = Some result # answers"
    and "payload_request_id (replace_request_id payload rid) = rid"
  shows "wp (nm_command timeout i payload)
    (\<lambda>r w'. r = Inr result \<and> w_db w' = w_db w \<and>
       w_node_log w' = w_node_log w @ [(ss_chan s, replace_request_id payload rid)]) w"
  using assms complete_registered[where rid = rid and now = "w_mono w" and p = "ss_pending s" and x = result]
  by (simp add: nm_command_def command_parts wp_new_uuid node_session_set pending_wait_def Let_def)

definition connected_world :: world where
  "connected_world = (idle_world (empty_db\<lparr>db_nodes := [sample_node]\<rparr>))
    \<lparr>w_nodes := [(1, \<lparr>ss_chan = 5, ss_pending = pending_new\<rparr>)], w_uuids := [''u1'', ''u2''],
     w_node_answers := [Some (Some (CommandAck True None))]\<rparr>"

lemma command_gets_its_answer_witness:
  "wp (nm_command 10000 1 (Restart []))
     (\<lambda>r w'. r = Inr (Some (CommandAck True None)) \<and> w_node_log w' = [(5, Restart ''u1'')]) connected_world"
proof (rule wp_mono)
  let ?s = "\<lparr>ss_chan = 5, ss_pending = pending_new\<rparr> :: agent_result option session"
  show "wp (nm_command 10000 1 (Restart []))
     (\<lambda>r w'. r = Inr (Some (CommandAck True None)) \<and> w_db w' = w_db connected_world \<and>
       w_node_log w' = w_node_log connected_world @ [(ss_chan ?s, replace_request_id (Restart []) ''u1'')])
     connected_world"
    by (rule command_gets_its_answer[where us = "[''u2'']" and answers = "[]"])
       (simp_all add: connected_world_def node_session_def idle_world_def)
qed (simp add: connected_world_def)

text \<open>pushing a certificate never succeeds. \<open>replace_request_id\<close> leaves the identifier of
  \<open>UpdateCertificate\<close> empty, so the node's answer matches no pending request and the caller runs into
  the timeout, whatever the node answers.\<close>

theorem push_certificate_never_acknowledged:
  assumes "\<forall>u \<in> set (w_uuids w). u \<noteq> []" "w_uuids w \<noteq> []"
    and "\<And>s. node_session w i = Some s \<Longrightarrow> pd_get (ss_pending s) [] = None"
  shows "wp (push_certificate_update i certificate)
    (\<lambda>r w'. r \<noteq> Inr () \<and>
       (\<forall>s. node_session w i = Some s \<and> ss_chan s \<notin> set (w_closed w) \<longrightarrow> r = Inl (E_wait Timeout))) w"
proof -
  obtain rid us where u: "w_uuids w = rid # us" "rid \<noteq> []" using assms(1,2) by (cases "w_uuids w") auto
  show ?thesis
  proof (cases "node_session w i")
    case None
    then show ?thesis
      by (simp add: push_certificate_update_def send_command_and_wait_def nm_command_def command_parts)
  next
    case (Some s)
    let ?q = "snd (pending_register rid (w_mono w) (ss_pending s))"
    have "pd_get ?q [] = None" using assms(3)[OF Some] u(2) by (simp add: pd_get_register)
    then have "snd (pending_complete [] x ?q) = ?q" for x by (simp add: pending_complete_def)
    then show ?thesis
      using Some u registered_chan(1)[where rid = rid and now = "w_mono w" and p = "ss_pending s"]
      by (simp add: push_certificate_update_def send_command_and_wait_def nm_command_def command_parts
          wp_new_uuid node_session_set pending_wait_def Let_def split: option.splits list.splits)
  qed
qed

lemma push_certificate_never_acknowledged_witness:
  "wp (push_certificate_update 1 \<lparr>cm_cert = ''c'', cm_key = ''k'', cm_fingerprint = ''f'', cm_expires = 0\<rparr>)
     (\<lambda>r w'. r = Inl (E_wait Timeout)) connected_world"
proof (rule wp_mono, rule push_certificate_never_acknowledged)
  show "pd_get (ss_pending s) [] = None" if "node_session connected_world 1 = Some s" for s
    using that by (auto simp: connected_world_def node_session_def pending_new_def pd_get_def)
qed (auto simp: connected_world_def node_session_def idle_world_def)

text \<open>Every other command of the API carries the identifier.\<close>

lemma replace_request_id_spec:
  "payload_request_id (replace_request_id payload rid) =
    (case payload of UpdateCertificate old _ \<Rightarrow> old | SyncDirectProxies _ \<Rightarrow> [] | NodeReply _ \<Rightarrow> []
     | _ \<Rightarrow> rid)"
  by (cases payload) simp_all

section \<open>The periodic sync\<close>

lemma node_live_cong: "w_nodes w' = w_nodes w \<Longrightarrow> w_closed w' = w_closed w \<Longrightarrow> node_live w' = node_live w"
  by (auto simp: fun_eq_iff node_live_def node_session_def split: option.splits)

lemma wp_sync_loop:
  assumes "healthy w" "n_id ` set ns \<subseteq> n_id ` set (db_nodes (w_db w))"
  shows "wp (nm_sync_loop ns) (\<lambda>r w'. r = Inr () \<and>
    map n_id (db_nodes (w_db w')) = map n_id (db_nodes (w_db w)) \<and>
    (\<forall>i. node_flag (w_db w') i =
      (if i \<in> n_id ` set ns then Some (node_live w i) else node_flag (w_db w) i))) w"
  using assms
proof (induction ns arbitrary: w)
  case (Cons n ns)
  have flag: "node_flag (w_db w) (n_id n) \<noteq> None"
    using Cons.prems(2) row_get_None_iff[of n_id "n_id n" "db_nodes (w_db w)"]
    by (auto simp: node_flag_def)
  show ?case
    unfolding nm_sync_loop.simps wp_bind wp_asks wp_and_then
    apply (rule wp_mono[OF wp_persist_healthy[OF Cons.prems(1)]])
    subgoal premises p for r w1
    proof -
      have ids: "set (map n_id (db_nodes (w_db w1))) = set (map n_id (db_nodes (w_db w)))" using p by simp
      have "r = Inr ()" "node_live w1 = node_live w" using p flag by (auto intro: node_live_cong)
      moreover have "wp (nm_sync_loop ns) (\<lambda>r w'. r = Inr () \<and>
          map n_id (db_nodes (w_db w')) = map n_id (db_nodes (w_db w1)) \<and>
          (\<forall>i. node_flag (w_db w') i =
            (if i \<in> n_id ` set ns then Some (node_live w1 i) else node_flag (w_db w1) i))) w1"
        by (rule Cons.IH) (use p Cons.prems ids in \<open>simp_all flip: set_map\<close>)
      ultimately show ?thesis using p flag by (auto elim!: wp_mono)
    qed
    done
qed simp

text \<open>in a run without database faults the periodic sync succeeds and leaves every node's online
  flag equal to whether its session is registered and its channel open.\<close>

theorem sync_matches_live_sessions:
  assumes "healthy w"
  shows "wp nm_sync_online_status
    (\<lambda>r w'. r = Inr () \<and> (\<forall>i b. node_flag (w_db w') i = Some b \<longrightarrow> b = node_live w i)) w"
proof -
  have f: "\<not> next_fault w" "healthy (pop_fault w)" using assms by (auto simp: healthy_def)
  have known: "node_flag d i \<noteq> None \<Longrightarrow> i \<in> n_id ` set (db_nodes d)" for d i
    using row_get_None_iff[of n_id i "db_nodes d"] by (auto simp: node_flag_def)
  have live: "node_live (pop_fault w) = node_live w" by (rule node_live_cong) simp_all
  have "wp (nm_sync_loop (db_nodes (w_db w)))
      (\<lambda>r w'. r = Inr () \<and> (\<forall>i b. node_flag (w_db w') i = Some b \<longrightarrow> b = node_live w i)) (pop_fault w)"
    apply (rule wp_mono, rule wp_sync_loop[OF f(2)])
    using known[of "w_db w"] by (auto simp: live split: if_splits)
  then show ?thesis
    using f by (simp add: nm_sync_online_status_def wp_find_all)
qed

lemma sync_matches_live_sessions_witness:
  "wp nm_sync_online_status (\<lambda>r w'. r = Inr () \<and> node_flag (w_db w') 1 \<noteq> Some False) connected_world"
proof (rule wp_mono, rule sync_matches_live_sessions)
  have live: "node_live connected_world 1"
    by (simp add: connected_world_def node_live_def node_session_def idle_world_def)
  fix r w'
  assume "r = Inr () \<and> (\<forall>i b. node_flag (w_db w') i = Some b \<longrightarrow> b = node_live connected_world i)"
  then show "r = Inr () \<and> node_flag (w_db w') 1 \<noteq> Some False" using live by auto
qed (simp add: healthy_def connected_world_def)

end
