(* ===== verification/ProxyApi.thy ===== *)
theory ProxyApi
  imports NodeManager
begin

text \<open>
  The REST handlers of single proxies (\<open>controller/src/api/handlers/proxy.rs\<close>): listing, creating,
  updating and deleting. A handler takes the node interface \<open>ctl\<close> and, where it validates an
  upstream, the URL parser; it runs in the order of the source, split into named stages.
\<close>

section \<open>Requests\<close>

record create_req =
  cr_client_id :: "string option"
  cr_upstream :: string
  cr_name :: string
  cr_type :: string
  cr_domain :: string
  cr_local_ip :: string
  cr_local_port :: u16
  cr_remote_port :: u16
  cr_node_id :: "int option"

record update_req =
  ur_name :: "string option"
  ur_type :: "string option"
  ur_domain :: "string option"
  ur_upstream :: "string option"
  ur_local_ip :: "string option"
  ur_local_port :: "u16 option"
  ur_remote_port :: "u16 option"
  ur_enabled :: "bool option"

definition unwrap_or :: "'a \<Rightarrow> 'a option \<Rightarrow> 'a" where
  "unwrap_or d x = (case x of Some v \<Rightarrow> v | None \<Rightarrow> d)"

section \<open>Listing\<close>

definition authenticated :: "auth_user option \<Rightarrow> auth_user handler" where
  "authenticated auth_opt = some_or (UNAUTHORIZED, M_not_authenticated) auth_opt"

text \<open>The proxies of a user's clients, and the user's direct ones.\<close>

definition listed_for :: "string list \<Rightarrow> int \<Rightarrow> proxy_row \<Rightarrow> bool" where
  "listed_for client_ids user_id p =
    (case p_client_id p of
       Some s \<Rightarrow> s \<in> set client_ids
     | None \<Rightarrow> p_user_id p = Some user_id)"

definition list_proxies :: "auth_user option \<Rightarrow> proxy_row list handler" where
  "list_proxies auth_opt =
    and_then (authenticated auth_opt) (\<lambda>auth.
      if a_is_admin auth then or_fail internal_db (find_all proxies_t (\<lambda>_. True))
      else
        and_then (or_fail internal_db (find_all clients_t (\<lambda>c. c_user_id c = Some (a_id auth)))) (\<lambda>clients.
        or_fail internal_db
          (find_all proxies_t (listed_for (map (\<lambda>c. int_str (c_id c)) clients) (a_id auth)))))"

definition check_client_access :: "auth_user \<Rightarrow> int \<Rightarrow> unit handler" where
  "check_client_access auth client_id =
    (if a_is_admin auth then finish ()
     else
       and_then (or_fail internal_db (find_by_id clients_t client_id)) (\<lambda>c.
       and_then (some_or (NOT_FOUND, M_client_not_found) c) (\<lambda>client.
       check (c_user_id client = Some (a_id auth)) (FORBIDDEN, M_no_access_client))))"

definition list_proxies_by_client :: "int \<Rightarrow> auth_user option \<Rightarrow> proxy_row list handler" where
  "list_proxies_by_client client_id auth_opt =
    and_then (authenticated auth_opt) (\<lambda>auth.
    and_then (check_client_access auth client_id) (\<lambda>_.
    or_fail internal_db (find_all proxies_t (\<lambda>p. p_client_id p = Some (int_str client_id)))))"

section \<open>Route conflicts\<close>

fun first_conflict :: "string \<Rightarrow> string \<Rightarrow> u16 \<Rightarrow> proxy_row list \<Rightarrow> failure option" where
  "first_conflict kind domain port [] = None"
| "first_conflict kind domain port (other # others) =
    (if routes_conflict kind domain (p_type other) (p_domain other)
     then Some (CONFLICT, M_route_conflict port (p_name other))
     else first_conflict kind domain port others)"

definition check_route ::
  "int option \<Rightarrow> u16 \<Rightarrow> string \<Rightarrow> string \<Rightarrow> int \<Rightarrow> unit handler" where
  "check_route node_id port kind domain exclude =
    and_then (or_fail internal_db (find_all proxies_t
      (\<lambda>p. p_remote_port p = port \<and> p_enabled p \<and> p_id p \<noteq> exclude \<and> p_node_id p = node_id)))
    (\<lambda>existing. case first_conflict kind domain port existing of
       Some e \<Rightarrow> fail e
     | None \<Rightarrow> finish ())"

section \<open>Creating\<close>

definition create_upstream ::
  "(string \<Rightarrow> url option) \<Rightarrow> create_req \<Rightarrow> failure + string" where
  "create_upstream url_parse req =
    (if cr_upstream req \<noteq> [] then
       if (case cr_client_id req of Some i \<Rightarrow> i \<noteq> [] | None \<Rightarrow> False) \<or> cr_node_id req = None
       then Inl (BAD_REQUEST, M_direct_needs_node)
       else (case parse_upstream url_parse (cr_type req) (cr_upstream req) of
               Inr url \<Rightarrow> Inr (url_as_str url)
             | Inl e \<Rightarrow> Inl (BAD_REQUEST, M_upstream e))
     else Inr [])"

definition create_client :: "create_req \<Rightarrow> client_row option handler" where
  "create_client req =
    (if cr_upstream req \<noteq> [] then finish None
     else
       and_then (some_or (BAD_REQUEST, M_client_or_upstream_needed)
                  (parse_i64 (or_default (cr_client_id req)))) (\<lambda>client_id.
       and_then (or_fail internal_db (find_by_id clients_t client_id)) (\<lambda>c.
       and_then (some_or (NOT_FOUND, M_client_not_found) c) (\<lambda>client.
       finish (Some client)))))"

definition allowed_or :: "bool \<times> msg \<Rightarrow> unit handler" where
  "allowed_or r = (case r of (ok, reason) \<Rightarrow> check ok (FORBIDDEN, reason))"

definition create_user_check :: "auth_user \<Rightarrow> create_req \<Rightarrow> client_row option \<Rightarrow> unit handler" where
  "create_user_check auth req client =
    (if a_is_admin auth then finish ()
     else
       and_then (check (\<not> (case client of Some c \<Rightarrow> c_user_id c \<noteq> Some (a_id auth) | None \<Rightarrow> False))
                  (FORBIDDEN, M_no_access_client)) (\<lambda>_.
       and_then (or_fail internal (validate_user_port_limit (a_id auth) (cr_remote_port req)))
         allowed_or))"

text \<open>A dedicated node has to be assigned to the user; shared nodes are open to all.\<close>

definition check_user_node :: "auth_user \<Rightarrow> int \<Rightarrow> unit handler" where
  "check_user_node auth node_id =
    and_then (or_fail internal_db (find_one user_nodes_t
      (\<lambda>un. un_user_id un = a_id auth \<and> un_node_id un = node_id)))
    (\<lambda>user_node. check (user_node \<noteq> None) (FORBIDDEN, M_no_dedicated_node))"

definition check_node_access :: "auth_user \<Rightarrow> int option \<Rightarrow> unit handler" where
  "check_node_access auth node_opt =
    (case node_opt of
       None \<Rightarrow> finish ()
     | Some node_id \<Rightarrow>
         and_then (or_fail internal_db (find_by_id nodes_t node_id)) (\<lambda>n.
         and_then (some_or (NOT_FOUND, M_node_not_found) n) (\<lambda>node.
         if n_node_type node = ''dedicated'' \<and> \<not> a_is_admin auth then check_user_node auth node_id
         else finish ())))"

definition check_node_limit :: "int option \<Rightarrow> u16 \<Rightarrow> unit handler" where
  "check_node_limit node_opt port =
    (case node_opt of
       None \<Rightarrow> finish ()
     | Some node_id \<Rightarrow>
         and_then (or_fail internal (validate_node_proxy_limit node_id port)) allowed_or)"

definition validate_domain :: "string \<Rightarrow> string \<Rightarrow> string handler" where
  "validate_domain kind domain =
    (case validate_route kind domain of
       Inr d \<Rightarrow> finish d
     | Inl e \<Rightarrow> fail (BAD_REQUEST, M_route e))"

definition new_proxy_row ::
  "auth_user \<Rightarrow> create_req \<Rightarrow> string \<Rightarrow> string \<Rightarrow> naive_dt \<Rightarrow> int \<Rightarrow> proxy_row" where
  "new_proxy_row auth req upstream domain now i =
    (let direct = (cr_upstream req \<noteq> []) in
     \<lparr>p_id = i, p_client_id = (if direct then None else cr_client_id req),
      p_user_id = (if direct then Some (a_id auth) else None), p_upstream = upstream,
      p_name = cr_name req, p_type = cr_type req, p_domain = domain, p_local_ip = cr_local_ip req,
      p_local_port = cr_local_port req, p_remote_port = cr_remote_port req, p_enabled = True,
      p_node_id = cr_node_id req, p_group_id = None, p_sent = 0, p_received = 0,
      p_created_at = now, p_updated_at = now\<rparr>)"

definition insert_proxy :: "(int \<Rightarrow> proxy_row) \<Rightarrow> (db_err + proxy_row) io" where
  "insert_proxy mk = insert_row proxies_t sq_proxies (\<lambda>i d. d\<lparr>sq_proxies := i\<rparr>) mk"

text \<open>Insert, start the listener, and take the row back when it does not start.\<close>

definition create_insert ::
  "proxy_control \<Rightarrow> (int \<Rightarrow> proxy_row) \<Rightarrow> proxy_row handler" where
  "create_insert ctl mk =
    and_then (or_fail internal_db (insert_proxy mk)) (\<lambda>proxy. do {
      s \<leftarrow> pcl_start ctl (or_default (p_client_id proxy)) (p_id proxy);
      case s of
        Inl e \<Rightarrow> do {
          _ \<leftarrow> delete_by_id proxies_t (p_id proxy);
          State_Monad.return (Inl (CONFLICT, M_start_failed e))
        }
      | Inr _ \<Rightarrow> State_Monad.return (Inr proxy)
    })"

definition create_checks ::
  "(string \<Rightarrow> url option) \<Rightarrow> auth_user \<Rightarrow> create_req \<Rightarrow> (string \<times> string) handler" where
  "create_checks url_parse auth req =
    and_then (lift_sum (create_upstream url_parse req)) (\<lambda>upstream.
    and_then (create_client req) (\<lambda>client.
    and_then (create_user_check auth req client) (\<lambda>_.
    and_then (check_node_access auth (cr_node_id req)) (\<lambda>_.
    and_then (check_node_limit (cr_node_id req) (cr_remote_port req)) (\<lambda>_.
    and_then (validate_domain (cr_type req) (cr_domain req)) (\<lambda>domain.
    and_then (check (\<not> (cr_remote_port req = 0 \<or> cr_upstream req = [] \<and> cr_local_port req = 0))
               (BAD_REQUEST, M_port_zero)) (\<lambda>_.
    and_then (check_route (cr_node_id req) (cr_remote_port req) (cr_type req) domain 0) (\<lambda>_.
    finish (upstream, domain)))))))))"

definition create_proxy ::
  "proxy_control \<Rightarrow> (string \<Rightarrow> url option) \<Rightarrow> auth_user option \<Rightarrow> create_req \<Rightarrow> proxy_row handler" where
  "create_proxy ctl url_parse auth_opt req =
    and_then (authenticated auth_opt) (\<lambda>auth.
    and_then (create_checks url_parse auth req) (\<lambda>(upstream, domain). do {
      now \<leftarrow> utc_now;
      and_then (create_insert ctl (new_proxy_row auth req upstream domain now)) (\<lambda>proxy.
      and_then (case cr_client_id req of
                  Some client_id \<Rightarrow> spawn_notify client_id
                | None \<Rightarrow> finish ()) (\<lambda>_.
      finish proxy))
    }))"

section \<open>Updating\<close>

definition update_upstream ::
  "(string \<Rightarrow> url option) \<Rightarrow> proxy_row \<Rightarrow> string \<Rightarrow> string \<Rightarrow> failure + string" where
  "update_upstream url_parse proxy new_kind raw_upstream =
    (if p_client_id proxy = None then
       (case parse_upstream url_parse new_kind raw_upstream of
          Inr url \<Rightarrow> Inr (url_as_str url)
        | Inl e \<Rightarrow> Inl (BAD_REQUEST, M_upstream e))
     else if raw_upstream \<noteq> [] then Inl (BAD_REQUEST, M_no_conversion)
     else Inr [])"

definition update_ports_ok :: "update_req \<Rightarrow> proxy_row \<Rightarrow> u16 \<Rightarrow> bool" where
  "update_ports_ok req proxy new_port =
    (\<not> (new_port = 0 \<or>
        p_client_id proxy \<noteq> None \<and> unwrap_or (p_local_port proxy) (ur_local_port req) = 0))"

text \<open>The range of the user, asked for direct proxies whose port changes.\<close>

definition update_user_range :: "auth_user \<Rightarrow> proxy_row \<Rightarrow> u16 \<Rightarrow> unit handler" where
  "update_user_range auth proxy new_port =
    (if \<not> a_is_admin auth \<and> new_port \<noteq> p_remote_port proxy then
       and_then (or_fail internal (get_user_port_limit_info (a_id auth))) (\<lambda>info.
       case pl_range info of
         None \<Rightarrow> finish ()
       | Some rng \<Rightarrow>
           if rng = [] then finish ()
           else check (case parse_port_ranges rng of
                         Inr ranges \<Rightarrow> is_port_in_ranges new_port ranges
                       | Inl _ \<Rightarrow> False) (FORBIDDEN, M_user_range))
     else finish ())"

text \<open>A direct proxy that is switched on again has to fit on its node.\<close>

definition update_reenable :: "proxy_row \<Rightarrow> update_req \<Rightarrow> u16 \<Rightarrow> unit handler" where
  "update_reenable proxy req new_port =
    (if \<not> p_enabled proxy \<and> ur_enabled req = Some True then
       and_then (or_fail internal (validate_node_proxy_limit_excluding
         (unwrap_or 0 (p_node_id proxy)) new_port (p_id proxy))) allowed_or
     else finish ())"

definition update_direct_checks :: "auth_user \<Rightarrow> proxy_row \<Rightarrow> update_req \<Rightarrow> u16 \<Rightarrow> unit handler" where
  "update_direct_checks auth proxy req new_port =
    (if p_client_id proxy = None then
       and_then (update_user_range auth proxy new_port) (\<lambda>_. update_reenable proxy req new_port)
     else finish ())"

definition update_route_check ::
  "proxy_row \<Rightarrow> update_req \<Rightarrow> u16 \<Rightarrow> string \<Rightarrow> string \<Rightarrow> unit handler" where
  "update_route_check proxy req new_port new_kind domain =
    (if unwrap_or (p_enabled proxy) (ur_enabled req)
     then check_route (p_node_id proxy) new_port new_kind domain (p_id proxy)
     else finish ())"

definition changed_to :: "'a option \<Rightarrow> 'a \<Rightarrow> bool" where
  "changed_to new old = (case new of Some v \<Rightarrow> v \<noteq> old | None \<Rightarrow> False)"

definition update_node_check :: "proxy_row \<Rightarrow> update_req \<Rightarrow> unit handler" where
  "update_node_check proxy req =
    (case ur_remote_port req of
       None \<Rightarrow> finish ()
     | Some remote_port \<Rightarrow>
         if remote_port \<noteq> p_remote_port proxy then
           (case p_node_id proxy of
              None \<Rightarrow> finish ()
            | Some node_id \<Rightarrow>
                and_then (or_fail internal
                  (validate_node_proxy_limit_excluding node_id remote_port (p_id proxy))) allowed_or)
         else finish ())"

text \<open>The fields the \<open>ActiveModel\<close> sets.\<close>

definition update_fields ::
  "update_req \<Rightarrow> string \<Rightarrow> string \<Rightarrow> naive_dt \<Rightarrow> proxy_row \<Rightarrow> proxy_row" where
  "update_fields req upstream domain now p =
    p\<lparr>p_upstream := upstream, p_domain := domain,
      p_name := unwrap_or (p_name p) (ur_name req),
      p_type := unwrap_or (p_type p) (ur_type req),
      p_local_ip := unwrap_or (p_local_ip p) (ur_local_ip req),
      p_local_port := unwrap_or (p_local_port p) (ur_local_port req),
      p_remote_port := unwrap_or (p_remote_port p) (ur_remote_port req),
      p_enabled := unwrap_or (p_enabled p) (ur_enabled req),
      p_updated_at := now\<rparr>"

definition config_changed :: "proxy_row \<Rightarrow> update_req \<Rightarrow> string \<Rightarrow> string \<Rightarrow> bool" where
  "config_changed proxy req upstream domain =
    (domain \<noteq> p_domain proxy \<or> upstream \<noteq> p_upstream proxy \<or>
     changed_to (ur_type req) (p_type proxy) \<or> changed_to (ur_local_ip req) (p_local_ip proxy) \<or>
     changed_to (ur_local_port req) (p_local_port proxy) \<or>
     changed_to (ur_remote_port req) (p_remote_port proxy))"

definition enabled_changed :: "proxy_row \<Rightarrow> update_req \<Rightarrow> bool" where
  "enabled_changed proxy req = changed_to (ur_enabled req) (p_enabled proxy)"

text \<open>The columns restored when the new listener does not start; traffic counters stay.\<close>

definition revert_fields :: "proxy_row \<Rightarrow> naive_dt \<Rightarrow> proxy_row \<Rightarrow> proxy_row" where
  "revert_fields original now p =
    p\<lparr>p_name := p_name original, p_type := p_type original, p_domain := p_domain original,
      p_upstream := p_upstream original, p_local_ip := p_local_ip original,
      p_local_port := p_local_port original, p_remote_port := p_remote_port original,
      p_enabled := p_enabled original, p_updated_at := now\<rparr>"

definition update_revert :: "proxy_control \<Rightarrow> string \<Rightarrow> proxy_row \<Rightarrow> unit io" where
  "update_revert ctl client_id original = do {
     now \<leftarrow> utc_now;
     r \<leftarrow> update_checked proxies_t (p_id original) (revert_fields original now);
     case r of
       Inl _ \<Rightarrow> State_Monad.return ()
     | Inr _ \<Rightarrow>
         if p_enabled original then do {
           _ \<leftarrow> pcl_start ctl client_id (p_id original);
           State_Monad.return ()
         } else State_Monad.return ()
   }"

text \<open>Restart the listener around the change; a new one that fails to start undoes the update.\<close>

definition update_restart ::
  "proxy_control \<Rightarrow> string \<Rightarrow> proxy_row \<Rightarrow> bool \<Rightarrow> proxy_row \<Rightarrow> unit handler" where
  "update_restart ctl client_id original need_restart updated =
    (if \<not> need_restart then finish ()
     else
       and_then (ignoring (pcl_stop ctl client_id (p_id updated))) (\<lambda>_.
       if p_enabled updated then do {
         s \<leftarrow> pcl_start ctl client_id (p_id updated);
         case s of
           Inl e \<Rightarrow> do {
             update_revert ctl client_id original;
             State_Monad.return (Inl (CONFLICT, M_start_failed e))
           }
         | Inr _ \<Rightarrow> State_Monad.return (Inr ())
       } else finish ()))"

definition update_apply ::
  "proxy_control \<Rightarrow> proxy_row \<Rightarrow> update_req \<Rightarrow> string \<Rightarrow> string \<Rightarrow> proxy_row handler" where
  "update_apply ctl proxy req upstream domain =
    (let client_id = or_default (p_client_id proxy);
         cfg = config_changed proxy req upstream domain;
         en = enabled_changed proxy req
     in do {
       now \<leftarrow> utc_now;
       and_then (or_fail internal_db
         (update_checked proxies_t (p_id proxy) (update_fields req upstream domain now))) (\<lambda>updated.
       and_then (update_restart ctl client_id proxy (en \<or> cfg \<and> p_enabled updated) updated) (\<lambda>_.
       and_then (if en \<or> cfg then spawn_notify client_id else finish ()) (\<lambda>_.
       finish updated)))
     })"

definition update_checks ::
  "(string \<Rightarrow> url option) \<Rightarrow> auth_user \<Rightarrow> proxy_row \<Rightarrow> update_req \<Rightarrow> (string \<times> string) handler" where
  "update_checks url_parse auth proxy req =
    (let new_kind = unwrap_or (p_type proxy) (ur_type req);
         new_port = unwrap_or (p_remote_port proxy) (ur_remote_port req)
     in
       and_then (verify_proxy_ownership auth proxy) (\<lambda>_.
       and_then (validate_domain new_kind (unwrap_or (p_domain proxy) (ur_domain req))) (\<lambda>domain.
       and_then (check (\<not> (p_group_id proxy \<noteq> None \<and> (new_kind = ''http'' \<or> new_kind = ''https'')))
                  (BAD_REQUEST, M_group_no_domains)) (\<lambda>_.
       and_then (lift_sum (update_upstream url_parse proxy new_kind
                  (unwrap_or (p_upstream proxy) (ur_upstream req)))) (\<lambda>upstream.
       and_then (check (update_ports_ok req proxy new_port) (BAD_REQUEST, M_port_zero)) (\<lambda>_.
       and_then (update_direct_checks auth proxy req new_port) (\<lambda>_.
       and_then (update_route_check proxy req new_port new_kind domain) (\<lambda>_.
       and_then (update_node_check proxy req) (\<lambda>_.
       finish (upstream, domain))))))))))"

definition update_proxy ::
  "proxy_control \<Rightarrow> (string \<Rightarrow> url option) \<Rightarrow> int \<Rightarrow> auth_user option \<Rightarrow> update_req \<Rightarrow>
   proxy_row handler" where
  "update_proxy ctl url_parse i auth_opt req =
    and_then (authenticated auth_opt) (\<lambda>auth.
    and_then (or_fail internal_db (find_by_id proxies_t i)) (\<lambda>r.
    and_then (some_or (NOT_FOUND, M_proxy_not_found) r) (\<lambda>proxy.
    and_then (update_checks url_parse auth proxy req) (\<lambda>(upstream, domain).
    update_apply ctl proxy req upstream domain))))"

section \<open>Deleting\<close>

definition delete_proxy :: "proxy_control \<Rightarrow> int \<Rightarrow> auth_user option \<Rightarrow> unit handler" where
  "delete_proxy ctl i auth_opt =
    and_then (authenticated auth_opt) (\<lambda>auth.
    and_then (or_fail internal_db (find_by_id proxies_t i)) (\<lambda>r.
    and_then (some_or (NOT_FOUND, M_proxy_not_found) r) (\<lambda>proxy.
    and_then (verify_proxy_ownership auth proxy) (\<lambda>_.
    and_then (ignoring (pcl_stop ctl (or_default (p_client_id proxy)) i)) (\<lambda>_.
    and_then (or_fail internal_db (delete_by_id proxies_t i)) (\<lambda>_.
    spawn_notify (or_default (p_client_id proxy))))))))"

end
