(* ===== verification/ProxyRules.thy ===== *)
theory ProxyRules
  imports ProxyApi
begin

text \<open>
  What the proxy handlers establish and keep: the facts each check leaves behind, the invariant of
  the proxy table (no two enabled proxies of a node claim the same route), and, inside the interface
  \<open>proxy_controller\<close>, the effect of whole handlers on the database.
\<close>

section \<open>The invariant of the proxy table\<close>

type_synonym route_key = "int \<times> bool \<times> int option \<times> u16 \<times> string \<times> string"

definition route_key_of :: "proxy_row \<Rightarrow> route_key" where
  "route_key_of p = (p_id p, p_enabled p, p_node_id p, p_remote_port p, p_type p, p_domain p)"

definition key_clash :: "route_key \<Rightarrow> route_key \<Rightarrow> bool" where
  "key_clash a b =
    (case (a, b) of ((i, e, n, port, k, d), (i', e', n', port', k', d')) \<Rightarrow>
       i \<noteq> i' \<and> e \<and> e' \<and> n = n' \<and> port = port' \<and> routes_conflict k d k' d')"

definition keys_ok :: "route_key list \<Rightarrow> bool" where
  "keys_ok ks = list_all (\<lambda>a. list_all (\<lambda>b. \<not> key_clash a b) ks) ks"

definition routes_ok :: "proxy_row list \<Rightarrow> bool" where
  "routes_ok ps = keys_ok (map route_key_of ps)"

definition ids_ok :: "db \<Rightarrow> bool" where
  "ids_ok d =
    (distinct (map p_id (db_proxies d)) \<and>
     list_all (\<lambda>p. 0 < p_id p \<and> p_id p < sq_proxies d) (db_proxies d) \<and> 0 < sq_proxies d \<and>
     list_all (\<lambda>t. t_proxy_id t < sq_proxies d) (db_traffic d))"

definition proxies_inv :: "db \<Rightarrow> bool" where
  "proxies_inv d =
    (ids_ok d \<and> routes_ok (db_proxies d) \<and> list_all proxy_shape (db_proxies d))"

lemma routes_conflict_sym: "routes_conflict k d k' d' = routes_conflict k' d' k d"
  by (auto simp: routes_conflict_def)

lemma routes_ok_iff:
  "routes_ok ps \<longleftrightarrow>
    (\<forall>p \<in> set ps. \<forall>q \<in> set ps. p_id p \<noteq> p_id q \<and> p_enabled p \<and> p_enabled q \<and>
       p_node_id p = p_node_id q \<and> p_remote_port p = p_remote_port q \<longrightarrow>
       \<not> routes_conflict (p_type p) (p_domain p) (p_type q) (p_domain q))"
  by (auto simp: routes_ok_def keys_ok_def key_clash_def route_key_of_def list_all_iff)

lemma routes_ok_cong: "map route_key_of ps = map route_key_of qs \<Longrightarrow> routes_ok ps = routes_ok qs"
  by (simp add: routes_ok_def)

lemma routes_ok_subset: "routes_ok ps \<Longrightarrow> set qs \<subseteq> set ps \<Longrightarrow> routes_ok qs"
  unfolding routes_ok_iff by blast

lemma routes_ok_append:
  assumes "routes_ok (db_proxies d)"
    and "p_enabled p \<Longrightarrow> no_conflict d (p_node_id p) (p_remote_port p) (p_type p) (p_domain p) 0"
    and "\<And>q. q \<in> set (db_proxies d) \<Longrightarrow> p_id q \<noteq> 0"
  shows "routes_ok (db_proxies d @ [p])"
  using assms routes_conflict_sym unfolding routes_ok_iff no_conflict_def list_all_iff
  by (auto 0 4)

lemma routes_ok_upd:
  assumes "routes_ok (db_proxies d)" "row_get p_id i (db_proxies d) = Some p"
    and "distinct (map p_id (db_proxies d))" "p_id (f p) = i"
    and "p_enabled (f p) \<Longrightarrow>
      no_conflict d (p_node_id (f p)) (p_remote_port (f p)) (p_type (f p)) (p_domain (f p)) i"
  shows "routes_ok (row_upd p_id i f (db_proxies d))"
proof -
  have only: "r = p" if "r \<in> set (db_proxies d)" "p_id r = i" for r
    using row_get_distinct[OF assms(3) that(1)] that(2) assms(2) by simp
  have old: "\<not> routes_conflict (p_type q) (p_domain q) (p_type r) (p_domain r)"
    if "q \<in> set (db_proxies d)" "r \<in> set (db_proxies d)" "p_id q \<noteq> p_id r" "p_enabled q" "p_enabled r"
      "p_node_id q = p_node_id r" "p_remote_port q = p_remote_port r" for q r
    using assms(1) that unfolding routes_ok_iff by blast
  have new: "\<not> routes_conflict (p_type (f p)) (p_domain (f p)) (p_type q) (p_domain q)"
    if "p_enabled (f p)" "q \<in> set (db_proxies d)" "p_id q \<noteq> i" "p_enabled q"
      "p_node_id q = p_node_id (f p)" "p_remote_port q = p_remote_port (f p)" for q
    using assms(5)[OF that(1)] that(2-) unfolding no_conflict_def list_all_iff by blast
  show ?thesis
    unfolding routes_ok_iff set_row_upd
  proof (intro ballI impI)
    fix a b
    assume "a \<in> (\<lambda>r. if p_id r = i then f r else r) ` set (db_proxies d)"
      and "b \<in> (\<lambda>r. if p_id r = i then f r else r) ` set (db_proxies d)"
      and c: "p_id a \<noteq> p_id b \<and> p_enabled a \<and> p_enabled b \<and> p_node_id a = p_node_id b \<and>
         p_remote_port a = p_remote_port b"
    moreover have "\<exists>q \<in> set (db_proxies d). x = (if p_id q = i then f p else q)"
      if "x \<in> (\<lambda>r. if p_id r = i then f r else r) ` set (db_proxies d)" for x
      using that only by fastforce
    ultimately obtain q r where q: "q \<in> set (db_proxies d)" "a = (if p_id q = i then f p else q)"
      and r: "r \<in> set (db_proxies d)" "b = (if p_id r = i then f p else r)"
      by blast
    show "\<not> routes_conflict (p_type a) (p_domain a) (p_type b) (p_domain b)"
    proof (cases "p_id q = i"; cases "p_id r = i")
      assume "p_id q = i" "p_id r \<noteq> i"
      then show ?thesis using c q r new[of r] by simp
    next
      assume "p_id q \<noteq> i" "p_id r = i"
      then show ?thesis using c q r new[of q] by (simp add: routes_conflict_sym[of "p_type q"])
    qed (use c q r old assms(4) in auto)
  qed
qed

lemma ids_ok_upd:
  "ids_ok d \<Longrightarrow> (\<And>p. p_id (f p) = p_id p) \<Longrightarrow>
   ids_ok (d\<lparr>db_proxies := row_upd p_id i f (db_proxies d)\<rparr>)"
  by (auto simp: ids_ok_def keys_row_upd list_all_iff set_row_upd)

lemma distinct_map_filtered: "distinct (map f xs) \<Longrightarrow> distinct (map f (filter P xs))"
  by (auto simp: distinct_map intro: inj_on_subset)

lemma ids_ok_drop: "ids_ok d \<Longrightarrow> ids_ok (drop_proxies P d)"
  by (auto simp: ids_ok_def drop_proxies_def distinct_map_filtered list_all_iff)

lemma proxies_inv_drop: "proxies_inv d \<Longrightarrow> proxies_inv (drop_proxies P d)"
  by (auto simp: proxies_inv_def ids_ok_drop list_all_iff intro: routes_ok_subset)

lemma routes_ok_insert:
  assumes "proxies_inv d" "p_id p = sq_proxies d" "route_free d p"
  shows "routes_ok (db_proxies d @ [p])"
proof (rule routes_ok_append)
  have fresh: "\<forall>q \<in> set (db_proxies d). p_id q \<noteq> 0 \<and> p_id q \<noteq> p_id p"
    using assms(1,2) by (auto simp: proxies_inv_def ids_ok_def list_all_iff)
  then show "p_id q \<noteq> 0" if "q \<in> set (db_proxies d)" for q using that by blast
  show "no_conflict d (p_node_id p) (p_remote_port p) (p_type p) (p_domain p) 0" if "p_enabled p"
    using assms(3) that fresh by (auto simp: route_free_def no_conflict_def list_all_iff)
qed (use assms in \<open>simp add: proxies_inv_def\<close>)

lemma proxies_inv_insert:
  assumes "proxies_inv d" "p_id p = sq_proxies d" "ins_ok proxies_t d p"
  shows "proxies_inv (d\<lparr>db_proxies := db_proxies d @ [p], sq_proxies := sq_proxies d + 1\<rparr>)"
  using assms routes_ok_insert[OF assms(1,2)]
  by (auto simp: proxies_inv_def ids_ok_def list_all_iff)

text \<open>The route check of the handlers is the condition of the triggers.\<close>

lemma route_free_iff:
  "p_enabled p \<Longrightarrow> p_id p = i \<Longrightarrow> p_node_id p = nd \<Longrightarrow> p_remote_port p = port \<Longrightarrow> p_type p = kind \<Longrightarrow>
   p_domain p = dn \<Longrightarrow> route_free d p \<longleftrightarrow> no_conflict d nd port kind dn i"
  by (simp add: route_free_def)

section \<open>What each check establishes\<close>

definition node_access :: "db \<Rightarrow> auth_user \<Rightarrow> int \<Rightarrow> bool" where
  "node_access d auth n =
    (\<exists>row. row_get n_id n (db_nodes d) = Some row \<and>
       (n_node_type row = ''dedicated'' \<and> \<not> a_is_admin auth \<longrightarrow>
          (\<exists>un \<in> set (db_user_nodes d). un_user_id un = a_id auth \<and> un_node_id un = n)))"

definition client_access :: "db \<Rightarrow> auth_user \<Rightarrow> string \<Rightarrow> bool" where
  "client_access d auth s =
    (\<exists>i c. parse_i64 s = Some i \<and> row_get c_id i (db_clients d) = Some c \<and>
       (a_is_admin auth \<or> c_user_id c = Some (a_id auth)))"

lemma first_conflict_None:
  "first_conflict kind domain port qs = None \<longleftrightarrow>
    list_all (\<lambda>q. \<not> routes_conflict kind domain (p_type q) (p_domain q)) qs"
  by (induction qs) auto

lemma wp_authenticated:
  "wp (authenticated a) (\<lambda>r w'. w_db w' = w_db w \<and> (\<forall>auth. r = Inr auth \<longrightarrow> a = Some auth)) w"
  by (simp add: authenticated_def split: option.splits)

lemma wp_check_route:
  "wp (check_route node port kind domain ex)
     (\<lambda>r w'. w_db w' = w_db w \<and> (r = Inr () \<longrightarrow> no_conflict (w_db w) node port kind domain ex)) w"
  by (auto simp: check_route_def wp_find_all first_conflict_None no_conflict_def list_all_iff
      split: option.splits)

lemma wp_allowed_or:
  "wp (allowed_or r) (\<lambda>x w'. w_db w' = w_db w \<and> (x = Inr () \<longrightarrow> fst r)) w"
  by (simp add: allowed_or_def split: prod.splits)

lemma wp_limit_checked:
  assumes "wp m (\<lambda>r w'. w_db w' = w_db w \<and> (\<forall>ok msg. r = Inr (ok, msg) \<longrightarrow> ok = b)) w"
  shows "wp (and_then (or_fail internal m) allowed_or)
    (\<lambda>x w'. w_db w' = w_db w \<and> (x = Inr () \<longrightarrow> b)) w"
  unfolding wp_and_then wp_or_fail
  by (rule wp_mono[OF assms]) (auto simp: allowed_or_def split: sum.splits)

lemma wp_create_client:
  "wp (create_client req)
    (\<lambda>r w'. w_db w' = w_db w \<and>
       (\<forall>c. r = Inr c \<longrightarrow>
          (if cr_upstream req \<noteq> [] then c = None
           else \<exists>i row. parse_i64 (or_default (cr_client_id req)) = Some i \<and>
                  row_get c_id i (db_clients (w_db w)) = Some row \<and> c = Some row))) w"
  by (auto simp: create_client_def wp_find_by_id split: option.splits)

lemma wp_create_user_check:
  "wp (create_user_check auth req client)
    (\<lambda>r w'. w_db w' = w_db w \<and>
       (r = Inr () \<longrightarrow> a_is_admin auth \<or>
          (\<forall>c. client = Some c \<longrightarrow> c_user_id c = Some (a_id auth)) \<and>
          user_port_ok (w_db w) (a_id auth) (cr_remote_port req))) w"
proof (cases "a_is_admin auth")
  case False
  have L: "wp (and_then (or_fail internal (validate_user_port_limit (a_id auth) (cr_remote_port req))) allowed_or)
    (\<lambda>x w'. w_db w' = w_db v \<and> (x = Inr () \<longrightarrow> user_port_ok (w_db v) (a_id auth) (cr_remote_port req))) v"
    for v by (rule wp_limit_checked) (rule wp_user_limit)
  show ?thesis
    unfolding create_user_check_def if_not_P[OF False]
    apply (rule wp_stage[where R = "\<lambda>r. r = Inr () \<longrightarrow> (\<forall>c. client = Some c \<longrightarrow> c_user_id c = Some (a_id auth))"])
    subgoal by (simp split: option.splits)
    subgoal by simp
    subgoal for x w' by (rule wp_mono[OF L]) auto
    done
qed (simp add: create_user_check_def)

lemma find_SomeD: "find P xs = Some y \<Longrightarrow> y \<in> set xs \<and> P y"
  by (auto simp: find_Some_iff)

lemma wp_check_node_access:
  "wp (check_node_access auth node)
    (\<lambda>r w'. w_db w' = w_db w \<and>
       (r = Inr () \<longrightarrow> (\<forall>n. node = Some n \<longrightarrow> node_access (w_db w) auth n))) w"
  by (auto simp: check_node_access_def check_user_node_def wp_find_by_id wp_find_one node_access_def
      split: option.splits dest: find_SomeD)

lemma wp_check_node_limit:
  "wp (check_node_limit node port)
    (\<lambda>r w'. w_db w' = w_db w \<and>
       (r = Inr () \<longrightarrow> (\<forall>n. node = Some n \<longrightarrow> node_port_ok (w_db w) n port 0))) w"
proof (cases node)
  case (Some n)
  have "wp (and_then (or_fail internal (validate_node_proxy_limit n port)) allowed_or)
    (\<lambda>x w'. w_db w' = w_db w \<and> (x = Inr () \<longrightarrow> node_port_ok (w_db w) n port 0)) w"
    by (rule wp_limit_checked) (simp only: validate_node_proxy_limit_def wp_node_limit)
  with Some show ?thesis by (simp add: check_node_limit_def)
qed (simp add: check_node_limit_def)

lemma wp_validate_domain:
  "wp (validate_domain kind domain)
    (\<lambda>r w'. w_db w' = w_db w \<and> (\<forall>d. r = Inr d \<longrightarrow> validate_route kind domain = Inr d)) w"
  by (simp add: validate_domain_def split: sum.splits)

text \<open>Checks consume statements; they never make one fail.\<close>

lemma healthy_limits [intro!]:
  "keeps healthy (validate_user_port_limit i port)"
  "keeps healthy (validate_node_proxy_limit_excluding n port e)"
  "keeps healthy (validate_node_proxy_limit n port)"
  "keeps healthy (get_user_port_limit_info i)"
  unfolding validate_user_port_limit_def get_user_port_count_def validate_node_proxy_limit_def
    validate_node_proxy_limit_excluding_def get_user_port_limit_info_def get_user_final_quota_def
  by auto

lemma healthy_checks [intro!]:
  "keeps healthy (authenticated a)" "keeps healthy (check_route nd port kind dn e)"
  "keeps healthy (allowed_or x)" "keeps healthy (create_client req)"
  "keeps healthy (create_user_check auth req c)" "keeps healthy (check_node_access auth nd)"
  "keeps healthy (check_node_limit nd port)" "keeps healthy (validate_domain kind dn)"
  "keeps healthy (verify_proxy_ownership auth p)"
  unfolding authenticated_def check_route_def allowed_or_def create_client_def create_user_check_def
    check_node_access_def check_user_node_def check_node_limit_def validate_domain_def
    verify_proxy_ownership_def
  by auto

lemma healthy_create_checks [intro!]: "keeps healthy (create_checks url_parse auth req)"
  unfolding create_checks_def by auto

lemma wp_stage_healthy:
  assumes "wp m (\<lambda>r w'. w_db w' = w_db w \<and> R r) w" "keeps healthy m"
    and "\<And>e w'. w_db w' = w_db w \<Longrightarrow> R (Inl e) \<Longrightarrow> Q (Inl e) w'"
    and "\<And>x w'. w_db w' = w_db w \<Longrightarrow> R (Inr x) \<Longrightarrow> healthy w \<longrightarrow> healthy w' \<Longrightarrow> wp (f x) Q w'"
  shows "wp (and_then m f) Q w"
proof -
  have "wp m (\<lambda>r w'. (w_db w' = w_db w \<and> R r) \<and> (healthy w \<longrightarrow> healthy w')) w"
    using assms(1) keepsD[OF assms(2), of w] by (cases "healthy w") (simp_all add: wp_conj)
  then show ?thesis
    unfolding wp_and_then
    by (rule wp_mono) (auto split: sum.splits intro: assms(3,4))
qed

section \<open>Creating\<close>

text \<open>Everything an accepted request has passed.\<close>

definition create_ok ::
  "(string \<Rightarrow> url option) \<Rightarrow> auth_user \<Rightarrow> create_req \<Rightarrow> db \<Rightarrow> string \<Rightarrow> string \<Rightarrow> bool" where
  "create_ok url_parse auth req d upstream domain =
    (create_upstream url_parse req = Inr upstream \<and>
     (cr_upstream req = [] \<longrightarrow> client_access d auth (or_default (cr_client_id req))) \<and>
     (a_is_admin auth \<or> user_port_ok d (a_id auth) (cr_remote_port req)) \<and>
     (\<forall>n. cr_node_id req = Some n \<longrightarrow>
        node_access d auth n \<and> node_port_ok d n (cr_remote_port req) 0) \<and>
     validate_route (cr_type req) (cr_domain req) = Inr domain \<and>
     cr_remote_port req \<noteq> 0 \<and> (cr_upstream req = [] \<longrightarrow> cr_local_port req \<noteq> 0) \<and>
     no_conflict d (cr_node_id req) (cr_remote_port req) (cr_type req) domain 0)"

lemma wp_create_checks:
  "wp (create_checks url_parse auth req)
    (\<lambda>r w'. w_db w' = w_db w \<and>
       (\<forall>u dn. r = Inr (u, dn) \<longrightarrow> create_ok url_parse auth req (w_db w) u dn)) w"
  unfolding create_checks_def
  apply (rule wp_stage[where R = "\<lambda>r. r = create_upstream url_parse req"], simp, simp)
  apply (rule wp_stage, rule wp_create_client, simp)
  apply (rule wp_stage, rule wp_create_user_check, simp)
  apply (rule wp_stage, rule wp_check_node_access, simp)
  apply (rule wp_stage, rule wp_check_node_limit, simp)
  apply (rule wp_stage, rule wp_validate_domain, simp)
  apply (rule wp_stage[where R = "\<lambda>r. r = Inr () \<longrightarrow>
    \<not> (cr_remote_port req = 0 \<or> cr_upstream req = [] \<and> cr_local_port req = 0)"], simp, simp)
  apply (rule wp_stage, rule wp_check_route, simp)
  apply (simp add: create_ok_def client_access_def split: if_splits)
  apply auto
  done

definition with_proxy :: "db \<Rightarrow> proxy_row \<Rightarrow> db" where
  "with_proxy d p = d\<lparr>db_proxies := db_proxies d @ [p], sq_proxies := sq_proxies d + 1\<rparr>"

lemma wp_insert_proxy:
  "wp (insert_proxy mk) Q w =
    (if next_fault w then Q (Inl DbFault) (pop_fault w)
     else if ins_ok proxies_t (w_db w) (mk (sq_proxies (w_db w))) then Q (Inr (mk (sq_proxies (w_db w))))
       ((pop_fault w)\<lparr>w_db := with_proxy (w_db w) (mk (sq_proxies (w_db w)))\<rparr>)
     else Q (Inl ConstraintFailed) (pop_fault w))"
  by (simp add: insert_proxy_def wp_insert_row with_proxy_def del: table_laws)

definition without_proxy :: "int \<Rightarrow> db \<Rightarrow> db" where
  "without_proxy i d = drop_proxies (\<lambda>p. p_id p = i) d"

lemma without_proxy_sel [simp]:
  "db_proxies (without_proxy i d) = row_del p_id i (db_proxies d)"
  "sq_proxies (without_proxy i d) = sq_proxies d" "db_clients (without_proxy i d) = db_clients d"
  "db_users (without_proxy i d) = db_users d" "db_nodes (without_proxy i d) = db_nodes d"
  by (simp_all add: without_proxy_def row_del_def)

lemma wp_delete_proxy:
  "wp (delete_by_id proxies_t i) Q w =
    (if next_fault w then Q (Inl DbFault) (pop_fault w)
     else Q (Inr ()) ((pop_fault w)\<lparr>w_db := without_proxy i (w_db w)\<rparr>))"
  by (simp add: wp_delete_by_id without_proxy_def)

lemma proxies_inv_without: "proxies_inv d \<Longrightarrow> proxies_inv (without_proxy i d)"
  unfolding without_proxy_def by (rule proxies_inv_drop)

lemma ids_ok_without: "ids_ok d \<Longrightarrow> ids_ok (without_proxy i d)"
  unfolding without_proxy_def by (rule ids_ok_drop)

lemma proxies_inv_with:
  "proxies_inv d \<Longrightarrow> p_id p = sq_proxies d \<Longrightarrow> ins_ok proxies_t d p \<Longrightarrow> proxies_inv (with_proxy d p)"
  unfolding with_proxy_def by (rule proxies_inv_insert)

text \<open>Taking back the row just inserted restores the database, but for the sequence.\<close>

lemma without_with:
  assumes "ids_ok d" "p_id p = sq_proxies d"
  shows "without_proxy (sq_proxies d) (with_proxy d p) = d\<lparr>sq_proxies := sq_proxies d + 1\<rparr>"
proof -
  have "filter (\<lambda>q. p_id q \<noteq> sq_proxies d) (db_proxies d) = db_proxies d"
    using assms(1) by (auto simp: ids_ok_def list_all_iff filter_id_conv)
  moreover have "filter (\<lambda>t. \<not> list_ex (\<lambda>q. p_id q = sq_proxies d \<and> p_id q = t_proxy_id t) (db_proxies d @ [p]))
      (db_traffic d) = db_traffic d"
    using assms(1) by (auto simp: ids_ok_def list_all_iff filter_id_conv list_ex_iff)
  ultimately show ?thesis
    using assms(2) by (simp add: without_proxy_def drop_proxies_def with_proxy_def)
qed

text \<open>Equality of databases up to the next proxy identifier.\<close>

definition same_but_sequence :: "db \<Rightarrow> db \<Rightarrow> bool" where
  "same_but_sequence d d' = (d\<lparr>sq_proxies := 0\<rparr> = d'\<lparr>sq_proxies := 0\<rparr>)"

lemma same_but_sequence [simp]:
  "same_but_sequence d d" "same_but_sequence d (d\<lparr>sq_proxies := n\<rparr>)"
  by (simp_all add: same_but_sequence_def)

lemma new_proxy_row_sel [simp]:
  "p_id (new_proxy_row auth req u dn now i) = i"
  "p_enabled (new_proxy_row auth req u dn now i)"
  "p_node_id (new_proxy_row auth req u dn now i) = cr_node_id req"
  "p_remote_port (new_proxy_row auth req u dn now i) = cr_remote_port req"
  "p_type (new_proxy_row auth req u dn now i) = cr_type req"
  "p_domain (new_proxy_row auth req u dn now i) = dn"
  by (simp_all add: new_proxy_row_def Let_def)

context proxy_controller
begin

lemma create_insert_inv:
  assumes "proxies_inv (w_db w)" "p_id (mk (sq_proxies (w_db w))) = sq_proxies (w_db w)"
  shows "wp (create_insert ctl mk) (\<lambda>_ w'. proxies_inv (w_db w')) w"
  using assms proxies_inv_with[OF assms]
  by (auto simp: create_insert_def wp_insert_proxy wp_delete_proxy proxies_inv_without
      intro!: wp_start split: sum.splits simp del: table_laws)

lemma create_insert_ok:
  "wp (create_insert ctl mk)
    (\<lambda>r w'. \<forall>p. r = Inr p \<longrightarrow> p = mk (sq_proxies (w_db w)) \<and> w_db w' = with_proxy (w_db w) p) w"
  by (auto simp: create_insert_def wp_insert_proxy wp_delete_proxy intro!: wp_start split: sum.splits
      simp del: table_laws)

lemma create_insert_failed:
  assumes "healthy w" "ids_ok (w_db w)" "p_id (mk (sq_proxies (w_db w))) = sq_proxies (w_db w)"
  shows "wp (create_insert ctl mk)
    (\<lambda>r w'. \<forall>e. r = Inl e \<longrightarrow> same_but_sequence (w_db w) (w_db w')) w"
proof -
  have "w_faults w = []" "healthy (pop_fault w)" using assms(1) by (auto simp: healthy_def)
  then show ?thesis
    using assms(2,3) without_with[OF assms(2,3)]
    by (auto simp: create_insert_def wp_insert_proxy wp_delete_proxy healthy_def
        intro!: wp_start_healthy split: sum.splits simp del: table_laws)
qed

text \<open>What every run of the handler amounts to, by outcome.\<close>

lemma wp_create_proxy:
  assumes "\<And>auth u dn v. auth_opt = Some auth \<Longrightarrow> w_db v = w_db w \<Longrightarrow>
      healthy w \<longrightarrow> healthy v \<Longrightarrow>
      create_ok url_parse auth req (w_db w) u dn \<Longrightarrow>
      wp (create_insert ctl (new_proxy_row auth req u dn (w_now v)))
        (\<lambda>r w'. (\<forall>p. r = Inr p \<longrightarrow> Q (Inr p) (w_db w')) \<and> (\<forall>e. r = Inl e \<longrightarrow> Q (Inl e) (w_db w'))) v"
    and "\<And>e. Q (Inl e) (w_db w)"
  shows "wp (create_proxy ctl url_parse auth_opt req) (\<lambda>r w'. Q r (w_db w')) w"
  unfolding create_proxy_def
  apply (rule wp_stage_healthy, rule wp_authenticated, rule healthy_checks, simp add: assms(2))
  apply (rule wp_stage_healthy, rule wp_create_checks, rule healthy_create_checks, simp add: assms(2))
  subgoal premises p for auth w1 x w2
  proof (cases x)
    case (Pair u dn)
    have "wp (create_insert ctl (new_proxy_row auth req u dn (w_now w2)))
        (\<lambda>r w'. (\<forall>p. r = Inr p \<longrightarrow> Q (Inr p) (w_db w')) \<and> (\<forall>e. r = Inl e \<longrightarrow> Q (Inl e) (w_db w'))) w2"
      by (rule assms(1)) (use p Pair in auto)
    then show ?thesis
      unfolding Pair by (auto elim!: wp_mono split: sum.splits option.splits)
  qed
  done

lemma create_proxy_keeps_inv:
  assumes "proxies_inv (w_db w)"
  shows "wp (create_proxy ctl url_parse auth_opt req) (\<lambda>_ w'. proxies_inv (w_db w')) w"
  apply (rule wp_create_proxy)
  subgoal premises p for auth u dn v
    by (rule wp_mono[OF create_insert_inv]) (use assms p in \<open>auto simp: create_ok_def\<close>)
  by (rule assms)

lemma create_proxy_effect:
  "wp (create_proxy ctl url_parse auth_opt req)
    (\<lambda>r w'. \<forall>p. r = Inr p \<longrightarrow>
       (\<exists>auth u dn now. auth_opt = Some auth \<and> create_ok url_parse auth req (w_db w) u dn \<and>
          p = new_proxy_row auth req u dn now (sq_proxies (w_db w)) \<and>
          w_db w' = with_proxy (w_db w) p)) w"
  apply (rule wp_create_proxy[where Q = "\<lambda>r d'. \<forall>p. r = Inr p \<longrightarrow>
       (\<exists>auth u dn now. auth_opt = Some auth \<and> create_ok url_parse auth req (w_db w) u dn \<and>
          p = new_proxy_row auth req u dn now (sq_proxies (w_db w)) \<and>
          d' = with_proxy (w_db w) p)"])
  subgoal premises p for auth u dn v
    by (rule wp_mono[OF create_insert_ok]) (use p in auto)
  by simp

lemma create_proxy_failed:
  assumes "healthy w" "ids_ok (w_db w)"
  shows "wp (create_proxy ctl url_parse auth_opt req)
    (\<lambda>r w'. \<forall>e. r = Inl e \<longrightarrow> same_but_sequence (w_db w) (w_db w')) w"
  apply (rule wp_create_proxy[where Q = "\<lambda>r d'. \<forall>e. r = Inl e \<longrightarrow> same_but_sequence (w_db w) d'"])
  subgoal premises p for auth u dn v
    by (rule wp_mono[OF create_insert_failed]) (use assms p in auto)
  by simp

end

section \<open>Updating\<close>

definition new_port_of :: "proxy_row \<Rightarrow> update_req \<Rightarrow> u16" where
  "new_port_of proxy req = unwrap_or (p_remote_port proxy) (ur_remote_port req)"

definition new_kind_of :: "proxy_row \<Rightarrow> update_req \<Rightarrow> string" where
  "new_kind_of proxy req = unwrap_or (p_type proxy) (ur_type req)"

definition update_ok ::
  "(string \<Rightarrow> url option) \<Rightarrow> auth_user \<Rightarrow> proxy_row \<Rightarrow> update_req \<Rightarrow> db \<Rightarrow> string \<Rightarrow> string \<Rightarrow> bool" where
  "update_ok url_parse auth proxy req d upstream domain =
    (owns_proxy d auth proxy \<and>
     validate_route (new_kind_of proxy req) (unwrap_or (p_domain proxy) (ur_domain req)) = Inr domain \<and>
     \<not> (p_group_id proxy \<noteq> None \<and> new_kind_of proxy req \<in> {''http'', ''https''}) \<and>
     update_upstream url_parse proxy (new_kind_of proxy req)
       (unwrap_or (p_upstream proxy) (ur_upstream req)) = Inr upstream \<and>
     update_ports_ok req proxy (new_port_of proxy req) \<and>
     (p_client_id proxy = None \<and> \<not> p_enabled proxy \<and> ur_enabled req = Some True \<longrightarrow>
        node_port_ok d (unwrap_or 0 (p_node_id proxy)) (new_port_of proxy req) (p_id proxy)) \<and>
     (unwrap_or (p_enabled proxy) (ur_enabled req) \<longrightarrow>
        no_conflict d (p_node_id proxy) (new_port_of proxy req) (new_kind_of proxy req) domain (p_id proxy)) \<and>
     (new_port_of proxy req \<noteq> p_remote_port proxy \<longrightarrow>
        (\<forall>n. p_node_id proxy = Some n \<longrightarrow> node_port_ok d n (new_port_of proxy req) (p_id proxy))))"

lemma keeps_user_range [intro!]: "keeps (on_db P) (update_user_range auth proxy port)"
  unfolding update_user_range_def by auto

lemma wp_update_reenable:
  "wp (update_reenable proxy req port)
    (\<lambda>r w'. w_db w' = w_db w \<and> (r = Inr () \<longrightarrow> \<not> p_enabled proxy \<and> ur_enabled req = Some True \<longrightarrow>
       node_port_ok (w_db w) (unwrap_or 0 (p_node_id proxy)) port (p_id proxy))) w"
proof (cases "\<not> p_enabled proxy \<and> ur_enabled req = Some True")
  case True
  show ?thesis
    unfolding update_reenable_def if_P[OF True]
    by (rule wp_mono[OF wp_limit_checked[OF wp_node_limit]]) auto
next
  case False
  then show ?thesis unfolding update_reenable_def if_not_P[OF False] by auto
qed

lemma wp_update_direct_checks:
  "wp (update_direct_checks auth proxy req port)
    (\<lambda>r w'. w_db w' = w_db w \<and>
       (r = Inr () \<longrightarrow> p_client_id proxy = None \<and> \<not> p_enabled proxy \<and> ur_enabled req = Some True \<longrightarrow>
       node_port_ok (w_db w) (unwrap_or 0 (p_node_id proxy)) port (p_id proxy))) w"
proof (cases "p_client_id proxy = None")
  case True
  have s: "wp (update_user_range auth proxy port) (\<lambda>r w'. w_db w' = w_db w \<and> True) w"
    using same_db_wp[of "update_user_range auth proxy port" w] keeps_user_range
    by (auto simp: same_db_def)
  show ?thesis
    unfolding update_direct_checks_def if_P[OF True]
    by (rule wp_stage[OF s]) (auto intro: wp_mono[OF wp_update_reenable])
next
  case False
  then show ?thesis unfolding update_direct_checks_def if_not_P[OF False] by auto
qed

lemma wp_update_route_check:
  "wp (update_route_check proxy req port kind dn)
    (\<lambda>r w'. w_db w' = w_db w \<and>
       (r = Inr () \<longrightarrow> unwrap_or (p_enabled proxy) (ur_enabled req) \<longrightarrow>
         no_conflict (w_db w) (p_node_id proxy) port kind dn (p_id proxy))) w"
  using wp_check_route[of "p_node_id proxy" port kind dn "p_id proxy" w]
  by (auto simp: update_route_check_def elim!: wp_mono)

lemma wp_update_node_check:
  "wp (update_node_check proxy req)
    (\<lambda>r w'. w_db w' = w_db w \<and>
       (r = Inr () \<longrightarrow> new_port_of proxy req \<noteq> p_remote_port proxy \<longrightarrow>
         (\<forall>n. p_node_id proxy = Some n \<longrightarrow> node_port_ok (w_db w) n (new_port_of proxy req) (p_id proxy)))) w"
proof (cases "\<exists>port n. ur_remote_port req = Some port \<and> port \<noteq> p_remote_port proxy \<and> p_node_id proxy = Some n")
  case True
  then obtain port n where e: "ur_remote_port req = Some port" "port \<noteq> p_remote_port proxy"
    "p_node_id proxy = Some n" by blast
  have "update_node_check proxy req =
    and_then (or_fail internal (validate_node_proxy_limit_excluding n port (p_id proxy))) allowed_or"
    using e by (simp add: update_node_check_def)
  then show ?thesis
    using wp_limit_checked[OF wp_node_limit, of n port "p_id proxy" w] e
    by (simp only: new_port_of_def unwrap_or_def) (auto elim!: wp_mono)
qed (auto simp: update_node_check_def new_port_of_def unwrap_or_def split: option.splits)

lemma wp_update_checks:
  "wp (update_checks url_parse auth proxy req)
    (\<lambda>r w'. w_db w' = w_db w \<and>
       (\<forall>u dn. r = Inr (u, dn) \<longrightarrow> update_ok url_parse auth proxy req (w_db w) u dn)) w"
proof -
  have own: "wp (verify_proxy_ownership auth proxy)
      (\<lambda>r w'. w_db w' = w_db v \<and> (r = Inr () \<longrightarrow> owns_proxy (w_db v) auth proxy)) v" for v
    using same_db_wp[of "verify_proxy_ownership auth proxy" v] wp_verify_proxy_ownership_ok[of auth proxy v]
    by (auto simp: same_db_def wp_conj)
  show ?thesis
    unfolding update_checks_def Let_def new_kind_of_def[symmetric] new_port_of_def[symmetric]
    apply (rule wp_stage, rule own, simp)
    apply (rule wp_stage, rule wp_validate_domain, simp)
    apply (rule wp_stage[where R = "\<lambda>r. r = Inr () \<longrightarrow>
      \<not> (p_group_id proxy \<noteq> None \<and> (new_kind_of proxy req = ''http'' \<or> new_kind_of proxy req = ''https''))"],
      simp, simp)
    apply (rule wp_stage[where R = "\<lambda>r. r = update_upstream url_parse proxy (new_kind_of proxy req)
                  (unwrap_or (p_upstream proxy) (ur_upstream req))"], simp, simp)
    apply (rule wp_stage[where R = "\<lambda>r. r = Inr () \<longrightarrow> update_ports_ok req proxy (new_port_of proxy req)"],
      simp, simp)
    apply (rule wp_stage, rule wp_update_direct_checks, simp)
    apply (rule wp_stage, rule wp_update_route_check, simp)
    apply (rule wp_stage, rule wp_update_node_check, simp)
    apply (simp add: update_ok_def)
    done
qed

lemma healthy_update_checks [intro!]: "keeps healthy (update_checks url_parse auth proxy req)"
  unfolding update_checks_def update_direct_checks_def update_user_range_def update_reenable_def
    update_route_check_def update_node_check_def Let_def
  by auto

definition upd_proxy :: "int \<Rightarrow> (proxy_row \<Rightarrow> proxy_row) \<Rightarrow> db \<Rightarrow> db" where
  "upd_proxy i f d = d\<lparr>db_proxies := row_upd p_id i f (db_proxies d)\<rparr>"

lemma wp_update_proxy_row:
  "wp (update_row proxies_t i f) Q w =
    (if next_fault w then Q (Inl DbFault) (pop_fault w)
     else (case row_get p_id i (db_proxies (w_db w)) of
             None \<Rightarrow> Q (Inl RecordNotUpdated) (pop_fault w)
           | Some r \<Rightarrow> Q (Inr (f r)) ((pop_fault w)\<lparr>w_db := upd_proxy i f (w_db w)\<rparr>)))"
  by (simp add: wp_update_row upd_proxy_def split: option.splits)

lemma wp_update_proxy_checked:
  "wp (update_checked proxies_t i f) Q w =
    (if next_fault w then Q (Inl DbFault) (pop_fault w)
     else (case row_get p_id i (db_proxies (w_db w)) of
             None \<Rightarrow> Q (Inl RecordNotUpdated) (pop_fault w)
           | Some r \<Rightarrow>
               if upd_ok proxies_t (w_db w) (f r) then
                 Q (Inr (f r)) ((pop_fault w)\<lparr>w_db := upd_proxy i f (w_db w)\<rparr>)
               else Q (Inl ConstraintFailed) (pop_fault w)))"
  by (simp add: wp_update_checked upd_proxy_def del: table_laws split: option.splits)

lemma fields_id [simp]:
  "p_id (update_fields req u dn now p) = p_id p" "p_id (revert_fields p' now p) = p_id p"
  by (simp_all add: update_fields_def revert_fields_def)

lemma upd_proxy_sel [simp]:
  "db_proxies (upd_proxy i f d) = row_upd p_id i f (db_proxies d)"
  "sq_proxies (upd_proxy i f d) = sq_proxies d"
  by (simp_all add: upd_proxy_def)

lemma row_upd_twice:
  "(\<And>r. k (f r) = k r) \<Longrightarrow> row_upd k i g (row_upd k i f t) = row_upd k i (\<lambda>r. g (f r)) t"
  by (induction t) (auto simp: row_upd_def)

lemma map_row_upd_same:
  assumes "distinct (map k t)" "row_get k i t = Some p" "h (f p) = h p"
  shows "map h (row_upd k i f t) = map h t"
proof -
  have "h (if k r = i then f r else r) = h r" if "r \<in> set t" for r
    using row_get_distinct[OF assms(1) that] assms(2,3) by auto
  then show ?thesis by (simp add: row_upd_def)
qed

text \<open>A row up to its \<open>updated_at\<close>.\<close>

definition undated :: "proxy_row \<Rightarrow> proxy_row" where
  "undated p = p\<lparr>p_updated_at := DT 0 0 0 0\<rparr>"

lemma revert_update_undated:
  "undated (revert_fields p now (update_fields req u dn now' p)) = undated p"
  by (simp add: undated_def revert_fields_def update_fields_def)

lemma revert_update_key:
  "route_key_of (revert_fields p now (update_fields req u dn now' p)) = route_key_of p"
  by (simp add: route_key_of_def revert_fields_def update_fields_def)

lemma shape_upd:
  assumes "list_all proxy_shape t" "distinct (map p_id t)" "row_get p_id i t = Some p" "proxy_shape (f p)"
  shows "list_all proxy_shape (row_upd p_id i f t)"
  using assms row_get_distinct[OF assms(2)] by (fastforce simp: list_all_iff set_row_upd)

text \<open>An update the schema accepts keeps the invariant.\<close>

lemma proxies_inv_upd:
  assumes "proxies_inv d" "row_get p_id i (db_proxies d) = Some p" "upd_ok proxies_t d (f p)"
    and id: "\<And>q. p_id (f q) = p_id q"
  shows "proxies_inv (upd_proxy i f d)"
proof -
  have inv: "ids_ok d" "distinct (map p_id (db_proxies d))" "list_all proxy_shape (db_proxies d)"
    "routes_ok (db_proxies d)"
    using assms(1) by (simp_all add: proxies_inv_def ids_ok_def)
  have i: "p_id p = i" using row_get_SomeD[OF assms(2)] by simp
  have "routes_ok (row_upd p_id i f (db_proxies d))"
    by (rule routes_ok_upd[OF inv(4) assms(2) inv(2)])
       (use assms(3) id i in \<open>auto simp: route_free_def\<close>)
  moreover have "list_all proxy_shape (row_upd p_id i f (db_proxies d))"
    by (rule shape_upd[OF inv(3,2) assms(2)]) (use assms(3) in simp)
  ultimately show ?thesis
    using ids_ok_upd[OF inv(1) id] by (simp add: proxies_inv_def upd_proxy_def)
qed

text \<open>Putting a row back the way it was is always accepted.\<close>

lemma route_free_restored:
  assumes "proxies_inv d" "row_get p_id i (db_proxies d) = Some p" "route_key_of q = route_key_of p"
    and "\<And>r. p_id (f r) = p_id r"
  shows "route_free (upd_proxy i f d) q"
proof -
  have i: "p \<in> set (db_proxies d)" "p_id p = i" using row_get_SomeD[OF assms(2)] by auto
  have "\<not> (p_remote_port r = p_remote_port p \<and> p_enabled r \<and> p_id r \<noteq> i \<and> p_node_id r = p_node_id p \<and>
      routes_conflict (p_type p) (p_domain p) (p_type r) (p_domain r))"
    if "p_enabled p" "r \<in> set (db_proxies d)" for r
    using assms(1) i that unfolding proxies_inv_def routes_ok_iff by metis
  then show ?thesis
    using assms(3,4) i
    by (auto simp: route_free_def no_conflict_def list_all_iff set_row_upd route_key_of_def)
qed

lemma reverted_rows:
  assumes "ids_ok d" "row_get p_id (p_id proxy) (db_proxies d) = Some proxy"
    and d': "d' = upd_proxy (p_id proxy) (revert_fields proxy now)
               (upd_proxy (p_id proxy) (update_fields req u dn now') d)"
  shows "map route_key_of (db_proxies d') = map route_key_of (db_proxies d)"
    "map undated (db_proxies d') = map undated (db_proxies d)" "ids_ok d'"
proof -
  have "distinct (map p_id (db_proxies d))" using assms(1) by (simp add: ids_ok_def)
  note m = map_row_upd_same[OF this assms(2)]
  show "map route_key_of (db_proxies d') = map route_key_of (db_proxies d)"
    unfolding d' upd_proxy_sel by (subst row_upd_twice) (simp_all add: m revert_update_key)
  show "map undated (db_proxies d') = map undated (db_proxies d)"
    unfolding d' upd_proxy_sel by (subst row_upd_twice) (simp_all add: m revert_update_undated)
  show "ids_ok d'"
    unfolding d' upd_proxy_def
    using ids_ok_upd[OF ids_ok_upd[OF assms(1), of "update_fields req u dn now'"],
        of "revert_fields proxy now"] by simp
qed

lemma undated_shape: "proxy_shape (undated p) = proxy_shape p"
  by (simp add: proxy_shape_def undated_def)

lemma proxies_inv_reverted:
  assumes "proxies_inv d" "row_get p_id (p_id proxy) (db_proxies d) = Some proxy"
    and d': "d' = upd_proxy (p_id proxy) (revert_fields proxy now)
               (upd_proxy (p_id proxy) (update_fields req u dn now') d)"
  shows "proxies_inv d'"
proof -
  have ids: "ids_ok d" using assms(1) by (simp add: proxies_inv_def)
  note rows = reverted_rows[OF ids assms(2,3)]
  have "list_all proxy_shape (map undated (db_proxies d'))"
    unfolding rows(2) using assms(1) by (simp add: proxies_inv_def list_all_iff undated_shape)
  then show ?thesis
    using assms(1) rows(3) routes_ok_cong[OF rows(1)]
    by (simp add: proxies_inv_def list_all_iff undated_shape)
qed

text \<open>A successful update: who asked, what was checked, what was written and returned.\<close>

definition update_result ::
  "(string \<Rightarrow> url option) \<Rightarrow> int \<Rightarrow> auth_user option \<Rightarrow> update_req \<Rightarrow> db \<Rightarrow> proxy_row \<Rightarrow> db \<Rightarrow> bool" where
  "update_result url_parse i auth_opt req d p d' =
    (\<exists>auth proxy u dn now. auth_opt = Some auth \<and> row_get p_id i (db_proxies d) = Some proxy \<and>
       update_ok url_parse auth proxy req d u dn \<and> p = update_fields req u dn now proxy \<and>
       d' = upd_proxy i (update_fields req u dn now) d)"

lemma update_resultI:
  "auth_opt = Some auth \<Longrightarrow> row_get p_id i (db_proxies d) = Some proxy \<Longrightarrow>
   update_ok url_parse auth proxy req d u dn \<Longrightarrow> p = update_fields req u dn now proxy \<Longrightarrow>
   d' = upd_proxy i (update_fields req u dn now) d \<Longrightarrow> update_result url_parse i auth_opt req d p d'"
  unfolding update_result_def by blast

definition reverted :: "proxy_row \<Rightarrow> db \<Rightarrow> db \<Rightarrow> bool" where
  "reverted original d d' =
    (\<exists>now. d' = upd_proxy (p_id original) (revert_fields original now) d)"

lemma revertedI [simp]:
  "reverted original d (upd_proxy (p_id original) (revert_fields original now) d)"
  by (auto simp: reverted_def)

context proxy_controller
begin

lemma wp_update_restart:
  "wp (update_restart ctl c original nr updated)
    (\<lambda>r w'. (\<forall>x. r = Inr x \<longrightarrow> w_db w' = w_db w) \<and>
       (\<forall>e. r = Inl e \<longrightarrow> w_db w' = w_db w \<or> reverted original (w_db w) (w_db w'))) w"
  by (auto simp: update_restart_def update_revert_def wp_update_proxy_checked
      split: sum.splits option.splits intro!: wp_start wp_stop simp del: table_laws)

lemma wp_update_restart_healthy:
  assumes "healthy w" "row_get p_id (p_id original) (db_proxies (w_db w)) = Some p"
    and "\<And>now. upd_ok proxies_t (w_db w) (revert_fields original now p)"
  shows "wp (update_restart ctl c original nr updated)
    (\<lambda>r w'. \<forall>e. r = Inl e \<longrightarrow> reverted original (w_db w) (w_db w')) w"
  using assms
  by (auto simp: update_restart_def update_revert_def wp_update_proxy_checked
      split: sum.splits option.splits intro!: wp_start_healthy wp_stop_healthy simp del: table_laws)
     (auto simp: healthy_def next_fault_def)

lemma wp_update_apply:
  assumes "row_get p_id (p_id proxy) (db_proxies (w_db w)) = Some proxy"
  shows "wp (update_apply ctl proxy req u dn)
    (\<lambda>r w'. (\<forall>p. r = Inr p \<longrightarrow> (\<exists>now. upd_ok proxies_t (w_db w) p \<and> p = update_fields req u dn now proxy \<and>
          w_db w' = upd_proxy (p_id proxy) (update_fields req u dn now) (w_db w))) \<and>
       (\<forall>e. r = Inl e \<longrightarrow> w_db w' = w_db w \<or>
          (\<exists>now. upd_ok proxies_t (w_db w) (update_fields req u dn now proxy) \<and>
             w_db w' = upd_proxy (p_id proxy) (update_fields req u dn now) (w_db w)) \<or>
          (\<exists>now. reverted proxy (upd_proxy (p_id proxy) (update_fields req u dn now) (w_db w)) (w_db w')))) w"
  using assms
  by (auto simp: update_apply_def Let_def wp_update_proxy_checked split: sum.splits
      intro!: wp_mono[OF wp_update_restart] simp del: table_laws)

lemma wp_update_apply_healthy:
  assumes "healthy w" "row_get p_id (p_id proxy) (db_proxies (w_db w)) = Some proxy" "proxies_inv (w_db w)"
  shows "wp (update_apply ctl proxy req u dn)
    (\<lambda>r w'. \<forall>e. r = Inl e \<longrightarrow> w_db w' = w_db w \<or>
      (\<exists>now. reverted proxy (upd_proxy (p_id proxy) (update_fields req u dn now) (w_db w)) (w_db w'))) w"
proof -
  have f: "\<not> next_fault w" "healthy (pop_fault w)" using assms(1) by (auto simp: healthy_def)
  let ?d = "\<lambda>now. upd_proxy (p_id proxy) (update_fields req u dn now) (w_db w)"
  let ?w = "\<lambda>now. (pop_fault w)\<lparr>w_db := ?d now\<rparr>"
  let ?r = "\<lambda>now now'. revert_fields proxy now' (update_fields req u dn now proxy)"
  have r: "row_get p_id (p_id proxy) (db_proxies (w_db (?w now))) = Some (update_fields req u dn now proxy)" for now
    using assms(2) by (simp add: row_get_row_upd)
  have "proxy_shape proxy"
    using assms(3) row_get_SomeD[OF assms(2)] by (auto simp: proxies_inv_def list_all_iff)
  then have "proxy_shape (?r now now')" for now now'
    by (auto simp: proxy_shape_def revert_fields_def update_fields_def)
  moreover have "route_free (?d now) (?r now now')" for now now'
    by (rule route_free_restored[OF assms(3,2)]) (simp_all add: revert_update_key)
  ultimately have ok: "upd_ok proxies_t (w_db (?w now)) (?r now now')" for now now'
    by simp
  have h: "healthy (?w now)" for now using f by (simp add: healthy_def)
  show ?thesis
    using f assms(2)
    by (auto simp: update_apply_def Let_def wp_update_proxy_checked split: sum.splits
        intro!: wp_mono[OF wp_update_restart_healthy[OF h r ok]] simp del: table_laws)
qed

lemma wp_update_proxy_handler:
  assumes "\<And>auth proxy u dn v. auth_opt = Some auth \<Longrightarrow> w_db v = w_db w \<Longrightarrow>
      healthy w \<longrightarrow> healthy v \<Longrightarrow> row_get p_id i (db_proxies (w_db w)) = Some proxy \<Longrightarrow> p_id proxy = i \<Longrightarrow>
      update_ok url_parse auth proxy req (w_db w) u dn \<Longrightarrow>
      wp (update_apply ctl proxy req u dn) (\<lambda>r w'. Q r (w_db w')) v"
    and "\<And>e. Q (Inl e) (w_db w)"
  shows "wp (update_proxy ctl url_parse i auth_opt req) (\<lambda>r w'. Q r (w_db w')) w"
  unfolding update_proxy_def
  apply (rule wp_stage_healthy, rule wp_authenticated, rule healthy_checks, simp add: assms(2))
  apply (rule wp_stage_healthy[where R = "\<lambda>r. \<forall>x. r = Inr x \<longrightarrow> x = row_get p_id i (db_proxies (w_db w))"])
     apply (simp add: wp_find_by_id)
    apply (rule keeps_or_fail, rule healthy_db)
   apply (simp add: assms(2))
  apply (rule wp_stage_healthy[where R = "\<lambda>r. \<forall>x. r = Inr x \<longrightarrow> row_get p_id i (db_proxies (w_db w)) = Some x"])
     apply (simp split: option.splits)
    apply (rule keeps_plain)
   apply (simp add: assms(2))
  apply (rule wp_stage_healthy, rule wp_update_checks, rule healthy_update_checks, simp add: assms(2))
  subgoal premises p for auth w1 r w2 proxy w3 x w4
    using p by (cases x) (auto intro: assms(1) dest: row_get_SomeD)
  done

lemma update_proxy_keeps_inv:
  assumes "proxies_inv (w_db w)"
  shows "wp (update_proxy ctl url_parse i auth_opt req) (\<lambda>_ w'. proxies_inv (w_db w')) w"
proof (rule wp_update_proxy_handler)
  fix auth proxy u dn and v :: world
  assume p: "w_db v = w_db w" "row_get p_id i (db_proxies (w_db w)) = Some proxy" "p_id proxy = i"
  then have g: "row_get p_id (p_id proxy) (db_proxies (w_db v)) = Some proxy" by simp
  have inv: "proxies_inv (w_db v)" "ids_ok (w_db v)" using assms p(1) by (simp_all add: proxies_inv_def)
  have up: "proxies_inv (upd_proxy (p_id proxy) (update_fields req u dn now) (w_db v))"
    if "upd_ok proxies_t (w_db v) (update_fields req u dn now proxy)" for now
    by (rule proxies_inv_upd[where f = "update_fields req u dn now", OF inv(1) g that]) simp
  have rev: "proxies_inv d'"
    if "reverted proxy (upd_proxy (p_id proxy) (update_fields req u dn now) (w_db v)) d'" for d' now
  proof -
    from that obtain now' where d': "d' = upd_proxy (p_id proxy) (revert_fields proxy now')
        (upd_proxy (p_id proxy) (update_fields req u dn now) (w_db v))"
      unfolding reverted_def ..
    show ?thesis by (rule proxies_inv_reverted[OF inv(1) g d'])
  qed
  show "wp (update_apply ctl proxy req u dn) (\<lambda>_ w'. proxies_inv (w_db w')) v"
    apply (rule wp_mono[OF wp_update_apply[OF g]])
    subgoal for x s'
      using up rev inv(1) by (cases x) (auto simp del: table_laws)
    done
qed (use assms in simp)

lemma update_proxy_effect:
  "wp (update_proxy ctl url_parse i auth_opt req)
    (\<lambda>r w'. \<forall>p. r = Inr p \<longrightarrow> update_result url_parse i auth_opt req (w_db w) p (w_db w')) w"
proof (rule wp_update_proxy_handler)
  fix auth proxy u dn and v :: world
  assume p: "auth_opt = Some auth" "w_db v = w_db w" "row_get p_id i (db_proxies (w_db w)) = Some proxy"
    "p_id proxy = i" "update_ok url_parse auth proxy req (w_db w) u dn"
  show "wp (update_apply ctl proxy req u dn)
      (\<lambda>r w'. \<forall>p. r = Inr p \<longrightarrow> update_result url_parse i auth_opt req (w_db w) p (w_db w')) v"
    by (rule wp_mono, rule wp_update_apply) (use p in \<open>auto intro: update_resultI\<close>)
qed simp

lemma update_proxy_failed:
  assumes "healthy w" "proxies_inv (w_db w)"
  shows "wp (update_proxy ctl url_parse i auth_opt req)
    (\<lambda>r w'. \<forall>e. r = Inl e \<longrightarrow>
       map undated (db_proxies (w_db w')) = map undated (db_proxies (w_db w))) w"
proof (rule wp_update_proxy_handler[where Q = "\<lambda>r d'. \<forall>e. r = Inl e \<longrightarrow>
       map undated (db_proxies d') = map undated (db_proxies (w_db w))"])
  fix auth proxy u dn and v :: world
  assume p: "w_db v = w_db w" "healthy w \<longrightarrow> healthy v"
    "row_get p_id i (db_proxies (w_db w)) = Some proxy" "p_id proxy = i"
  then have g: "row_get p_id (p_id proxy) (db_proxies (w_db w)) = Some proxy" by simp
  have rev: "map undated (db_proxies d') = map undated (db_proxies (w_db w))"
    if "reverted proxy (upd_proxy (p_id proxy) (update_fields req u dn now) (w_db w)) d'" for d' now
    using that reverted_rows(2)[OF _ g] assms(2) unfolding reverted_def proxies_inv_def by (elim exE) simp
  show "wp (update_apply ctl proxy req u dn) (\<lambda>r w'. \<forall>e. r = Inl e \<longrightarrow>
       map undated (db_proxies (w_db w')) = map undated (db_proxies (w_db w))) v"
    by (rule wp_mono, rule wp_update_apply_healthy) (use p assms rev in \<open>auto\<close>)
qed simp

section \<open>Deleting\<close>

lemma delete_proxy_effect:
  "wp (delete_proxy ctl i auth_opt)
    (\<lambda>r w'. (r = Inr () \<longrightarrow>
         (\<exists>auth p. auth_opt = Some auth \<and> row_get p_id i (db_proxies (w_db w)) = Some p \<and>
            owns_proxy (w_db w) auth p \<and>
            w_db w' = without_proxy i (w_db w))) \<and>
       (\<forall>e. r = Inl e \<longrightarrow> w_db w' = w_db w)) w"
proof -
  have own: "wp (verify_proxy_ownership auth p)
      (\<lambda>r w'. w_db w' = w_db v \<and> (r = Inr () \<longrightarrow> owns_proxy (w_db v) auth p)) v" for auth p v
    using same_db_wp[of "verify_proxy_ownership auth p" v] wp_verify_proxy_ownership_ok[of auth p v]
    by (auto simp: same_db_def wp_conj)
  show ?thesis
    unfolding delete_proxy_def
    apply (rule wp_stage, rule wp_authenticated, simp)
    apply (rule wp_stage[where R = "\<lambda>r. \<forall>x. r = Inr x \<longrightarrow> x = row_get p_id i (db_proxies (w_db w))"])
      apply (simp add: wp_find_by_id)
     apply simp
    apply (rule wp_stage[where R = "\<lambda>r. \<forall>x. r = Inr x \<longrightarrow> row_get p_id i (db_proxies (w_db w)) = Some x"])
      apply (simp split: option.splits)
     apply simp
    apply (rule wp_stage, rule own, simp)
    apply (auto simp: wp_delete_proxy intro!: wp_stop)
    done
qed

end

end
