(* ===== verification/ProxyGroups.thy ===== *)
theory ProxyGroups
  imports ProxyRules
begin

text \<open>
  Batch creation and the operations on proxy groups (\<open>controller/src/api/handlers/proxy.rs\<close>, the
  second half). The proxies of one batch share a group identifier; a group operation walks over
  the proxies it read at the start.
\<close>

section \<open>Requests\<close>

record batch_req =
  br_client_id :: string
  br_name :: string
  br_type :: string
  br_local_ip :: string
  br_local_ports :: "u16 list"
  br_remote_ports :: "u16 list"
  br_node_id :: "int option"

record group_req =
  gr_name :: "string option"
  gr_type :: "string option"
  gr_local_ip :: "string option"
  gr_local_port :: "u16 option"

record add_ports_req =
  ap_local_ports :: "u16 list"
  ap_remote_ports :: "u16 list"

section \<open>Checks over all ports\<close>

definition check_port_lists :: "u16 list \<Rightarrow> u16 list \<Rightarrow> unit handler" where
  "check_port_lists local_ports remote_ports =
    and_then (check (remote_ports \<noteq> []) (BAD_REQUEST, M_no_ports)) (\<lambda>_.
    check (\<not> (length local_ports \<noteq> 1 \<and> length local_ports \<noteq> length remote_ports))
      (BAD_REQUEST, M_port_lengths (length local_ports) (length remote_ports)))"

definition batch_client :: "string \<Rightarrow> client_row handler" where
  "batch_client client_id =
    and_then (some_or (BAD_REQUEST, M_invalid_client_id client_id) (parse_i64 client_id)) (\<lambda>i.
    and_then (or_fail internal_db (find_by_id clients_t i)) (\<lambda>c.
    some_or (NOT_FOUND, M_client_not_found) c))"

fun check_user_ports :: "int \<Rightarrow> u16 list \<Rightarrow> unit handler" where
  "check_user_ports user_id [] = finish ()"
| "check_user_ports user_id (port # ports) =
    and_then (and_then (or_fail internal (validate_user_port_limit user_id port)) allowed_or) (\<lambda>_.
    check_user_ports user_id ports)"

definition batch_user_limits :: "auth_user \<Rightarrow> client_row \<Rightarrow> u16 list \<Rightarrow> unit handler" where
  "batch_user_limits auth client ports =
    (if a_is_admin auth then finish ()
     else case c_user_id client of
       None \<Rightarrow> finish ()
     | Some user_id \<Rightarrow> check_user_ports user_id ports)"

text \<open>The node check of a batch; the client's owner is looked at for dedicated nodes only.\<close>

definition batch_node_access :: "auth_user \<Rightarrow> client_row \<Rightarrow> int option \<Rightarrow> unit handler" where
  "batch_node_access auth client node_opt =
    (case node_opt of
       None \<Rightarrow> finish ()
     | Some node_id \<Rightarrow>
         and_then (or_fail internal_db (find_by_id nodes_t node_id)) (\<lambda>n.
         and_then (some_or (NOT_FOUND, M_node_not_found) n) (\<lambda>node.
         if n_node_type node = ''dedicated'' \<and> \<not> a_is_admin auth then
           and_then (check (c_user_id client = Some (a_id auth)) (FORBIDDEN, M_no_access_client)) (\<lambda>_.
           check_user_node auth node_id)
         else finish ())))"

definition check_port_free :: "int option \<Rightarrow> u16 \<Rightarrow> unit handler" where
  "check_port_free node_opt port =
    and_then (or_fail internal_db (find_one proxies_t
      (\<lambda>p. p_remote_port p = port \<and> p_enabled p \<and> p_node_id p = node_opt))) (\<lambda>r.
    case r of
      Some existing \<Rightarrow> fail (CONFLICT, M_port_taken port (p_name existing))
    | None \<Rightarrow> finish ())"

fun check_ports :: "int option \<Rightarrow> u16 list \<Rightarrow> unit handler" where
  "check_ports node_opt [] = finish ()"
| "check_ports node_opt (port # ports) =
    and_then (check_node_limit node_opt port) (\<lambda>_.
    and_then (check_port_free node_opt port) (\<lambda>_.
    check_ports node_opt ports))"

section \<open>Creating them\<close>

definition local_port_at :: "u16 list \<Rightarrow> nat \<Rightarrow> u16" where
  "local_port_at local_ports i =
    (if length local_ports = 1 then local_ports ! 0 else local_ports ! i)"

definition member_row ::
  "string \<Rightarrow> string \<Rightarrow> string \<Rightarrow> string \<Rightarrow> u16 \<Rightarrow> u16 \<Rightarrow> int option \<Rightarrow> string option \<Rightarrow> naive_dt \<Rightarrow>
   int \<Rightarrow> proxy_row" where
  "member_row client_id name kind local_ip local_port remote_port node_id group_id now i =
    \<lparr>p_id = i, p_client_id = Some client_id, p_user_id = None, p_upstream = [], p_name = name,
     p_type = kind, p_domain = [], p_local_ip = local_ip, p_local_port = local_port,
     p_remote_port = remote_port, p_enabled = True, p_node_id = node_id, p_group_id = group_id,
     p_sent = 0, p_received = 0, p_created_at = now, p_updated_at = now\<rparr>"

fun rollback_created :: "proxy_control \<Rightarrow> string \<Rightarrow> proxy_row list \<Rightarrow> unit io" where
  "rollback_created ctl client_id [] = State_Monad.return ()"
| "rollback_created ctl client_id (p # ps) = do {
     _ \<leftarrow> pcl_stop ctl client_id (p_id p);
     _ \<leftarrow> delete_by_id proxies_t (p_id p);
     rollback_created ctl client_id ps
   }"

text \<open>The loop: insert, start, and undo everything at the first failure.\<close>

fun create_members ::
  "proxy_control \<Rightarrow> string \<Rightarrow> (nat \<Rightarrow> u16 \<Rightarrow> int \<Rightarrow> proxy_row) \<Rightarrow> nat \<Rightarrow> u16 list \<Rightarrow> proxy_row list \<Rightarrow>
   proxy_row list handler" where
  "create_members ctl client_id mk i [] created = finish created"
| "create_members ctl client_id mk i (port # ports) created = do {
     r \<leftarrow> insert_proxy (mk i port);
     case r of
       Inl e \<Rightarrow> do {
         rollback_created ctl client_id created;
         State_Monad.return (Inl (INTERNAL_SERVER_ERROR, M_create_failed (E_db e)))
       }
     | Inr proxy \<Rightarrow> do {
         s \<leftarrow> pcl_start ctl client_id (p_id proxy);
         case s of
           Inl e \<Rightarrow> do {
             rollback_created ctl client_id created;
             _ \<leftarrow> delete_by_id proxies_t (p_id proxy);
             State_Monad.return (Inl (CONFLICT, M_start_port_failed port e))
           }
         | Inr _ \<Rightarrow> create_members ctl client_id mk (Suc i) ports (created @ [proxy])
       }
   }"

definition port_name :: "string \<Rightarrow> u16 \<Rightarrow> string" where
  "port_name name port = name @ ''-'' @ u16_str port"

definition batch_member :: "batch_req \<Rightarrow> string option \<Rightarrow> naive_dt \<Rightarrow> nat \<Rightarrow> u16 \<Rightarrow> int \<Rightarrow> proxy_row" where
  "batch_member req group_id now i port =
    member_row (br_client_id req)
      (if length (br_remote_ports req) = 1 then br_name req else port_name (br_name req) port)
      (br_type req) (br_local_ip req) (local_port_at (br_local_ports req) i) port (br_node_id req)
      group_id now"

definition batch_checks :: "auth_user \<Rightarrow> batch_req \<Rightarrow> unit handler" where
  "batch_checks auth req =
    and_then (check (br_type req = ''tcp'' \<or> br_type req = ''udp'') (BAD_REQUEST, M_batch_kinds)) (\<lambda>_.
    and_then (check_port_lists (br_local_ports req) (br_remote_ports req)) (\<lambda>_.
    and_then (batch_client (br_client_id req)) (\<lambda>client.
    and_then (batch_user_limits auth client (br_remote_ports req)) (\<lambda>_.
    and_then (batch_node_access auth client (br_node_id req)) (\<lambda>_.
    check_ports (br_node_id req) (br_remote_ports req))))))"

definition batch_group_id :: "batch_req \<Rightarrow> string option handler" where
  "batch_group_id req =
    (if 1 < length (br_remote_ports req) then do {
       u \<leftarrow> new_uuid;
       State_Monad.return (Inr (Some u))
     } else finish None)"

definition batch_create_proxies ::
  "proxy_control \<Rightarrow> auth_user option \<Rightarrow> batch_req \<Rightarrow> proxy_row list handler" where
  "batch_create_proxies ctl auth_opt req =
    and_then (authenticated auth_opt) (\<lambda>auth.
    and_then (batch_checks auth req) (\<lambda>_.
    and_then (batch_group_id req) (\<lambda>group_id. do {
      now \<leftarrow> utc_now;
      and_then (create_members ctl (br_client_id req) (batch_member req group_id now) 0
                 (br_remote_ports req) []) (\<lambda>created.
      and_then (spawn_notify (br_client_id req)) (\<lambda>_.
      finish created))
    })))"

section \<open>Group operations\<close>

definition group_client :: "proxy_row list \<Rightarrow> string" where
  "group_client proxies = or_default (p_client_id (hd proxies))"

definition toggle_fields :: "bool \<Rightarrow> naive_dt \<Rightarrow> proxy_row \<Rightarrow> proxy_row" where
  "toggle_fields enabled now p = p\<lparr>p_enabled := enabled, p_updated_at := now\<rparr>"

fun toggle_loop ::
  "proxy_control \<Rightarrow> string \<Rightarrow> bool \<Rightarrow> naive_dt \<Rightarrow> proxy_row list \<Rightarrow> unit io" where
  "toggle_loop ctl client_id enabled now [] = State_Monad.return ()"
| "toggle_loop ctl client_id enabled now (proxy # proxies) =
    (if p_enabled proxy = enabled then toggle_loop ctl client_id enabled now proxies
     else do {
       r \<leftarrow> update_checked proxies_t (p_id proxy) (toggle_fields enabled now);
       case r of
         Inl _ \<Rightarrow> toggle_loop ctl client_id enabled now proxies
       | Inr _ \<Rightarrow> do {
           _ \<leftarrow> (if enabled then pcl_start ctl client_id (p_id proxy)
                 else pcl_stop ctl client_id (p_id proxy));
           toggle_loop ctl client_id enabled now proxies
         }
     })"

definition toggle_proxy_group ::
  "proxy_control \<Rightarrow> string \<Rightarrow> auth_user option \<Rightarrow> bool \<Rightarrow> unit handler" where
  "toggle_proxy_group ctl group_id auth_opt enabled =
    and_then (authenticated auth_opt) (\<lambda>auth.
    and_then (verify_proxy_group_ownership auth group_id) (\<lambda>proxies. do {
      now \<leftarrow> utc_now;
      toggle_loop ctl (group_client proxies) enabled now proxies;
      spawn_notify (group_client proxies)
    }))"

definition delete_proxy_group :: "proxy_control \<Rightarrow> string \<Rightarrow> auth_user option \<Rightarrow> unit handler" where
  "delete_proxy_group ctl group_id auth_opt =
    and_then (authenticated auth_opt) (\<lambda>auth.
    and_then (verify_proxy_group_ownership auth group_id) (\<lambda>proxies. do {
      rollback_created ctl (group_client proxies) proxies;
      spawn_notify (group_client proxies)
    }))"

definition group_fields ::
  "group_req \<Rightarrow> bool \<Rightarrow> naive_dt \<Rightarrow> proxy_row \<Rightarrow> proxy_row \<Rightarrow> proxy_row" where
  "group_fields req many now proxy p =
    p\<lparr>p_name := (case gr_name req of
                   Some name \<Rightarrow> if many then port_name name (p_remote_port proxy) else name
                 | None \<Rightarrow> p_name p),
      p_type := unwrap_or (p_type p) (gr_type req),
      p_local_ip := unwrap_or (p_local_ip p) (gr_local_ip req),
      p_local_port := unwrap_or (p_local_port p) (gr_local_port req),
      p_updated_at := now\<rparr>"

definition group_changes :: "group_req \<Rightarrow> bool" where
  "group_changes req =
    (gr_name req \<noteq> None \<or> gr_type req \<noteq> None \<or> gr_local_ip req \<noteq> None \<or> gr_local_port req \<noteq> None)"

definition group_config_changed :: "group_req \<Rightarrow> proxy_row \<Rightarrow> bool" where
  "group_config_changed req proxy =
    (changed_to (gr_type req) (p_type proxy) \<or> changed_to (gr_local_ip req) (p_local_ip proxy) \<or>
     changed_to (gr_local_port req) (p_local_port proxy))"

fun group_update_loop :: "group_req \<Rightarrow> bool \<Rightarrow> naive_dt \<Rightarrow> proxy_row list \<Rightarrow> unit io" where
  "group_update_loop req many now [] = State_Monad.return ()"
| "group_update_loop req many now (proxy # proxies) =
    (if group_changes req then do {
       _ \<leftarrow> (if gr_type req = None then update_row proxies_t (p_id proxy) (group_fields req many now proxy)
             else update_checked proxies_t (p_id proxy) (group_fields req many now proxy));
       group_update_loop req many now proxies
     } else group_update_loop req many now proxies)"

fun restart_loop :: "proxy_control \<Rightarrow> string \<Rightarrow> proxy_row list \<Rightarrow> unit io" where
  "restart_loop ctl client_id [] = State_Monad.return ()"
| "restart_loop ctl client_id (proxy # proxies) =
    (if p_enabled proxy then do {
       _ \<leftarrow> pcl_stop ctl client_id (p_id proxy);
       _ \<leftarrow> pcl_start ctl client_id (p_id proxy);
       restart_loop ctl client_id proxies
     } else restart_loop ctl client_id proxies)"

definition update_proxy_group ::
  "proxy_control \<Rightarrow> string \<Rightarrow> auth_user option \<Rightarrow> group_req \<Rightarrow> unit handler" where
  "update_proxy_group ctl group_id auth_opt req =
    and_then (authenticated auth_opt) (\<lambda>auth.
    and_then (check (case gr_type req of Some kind \<Rightarrow> kind = ''tcp'' \<or> kind = ''udp'' | None \<Rightarrow> True)
               (BAD_REQUEST, M_batch_kinds)) (\<lambda>_.
    and_then (verify_proxy_group_ownership auth group_id) (\<lambda>proxies. do {
      now \<leftarrow> utc_now;
      group_update_loop req (1 < length proxies) now proxies;
      if list_ex (group_config_changed req) proxies then do {
        restart_loop ctl (group_client proxies) proxies;
        spawn_notify (group_client proxies)
      } else finish ()
    })))"

section \<open>Adding ports to a group\<close>

text \<open>The name without a \<open>-port\<close> suffix (\<open>rfind('-')\<close>).\<close>

definition base_name :: "string \<Rightarrow> string" where
  "base_name n =
    (if CHR ''-'' \<in> set n then
       (let suffix = rev (takeWhile (\<lambda>c. c \<noteq> CHR ''-'') (rev n));
            pre = rev (tl (dropWhile (\<lambda>c. c \<noteq> CHR ''-'') (rev n)))
        in if list_all is_digit suffix then pre else n)
     else n)"

definition added_member ::
  "proxy_row \<Rightarrow> string \<Rightarrow> u16 list \<Rightarrow> naive_dt \<Rightarrow> nat \<Rightarrow> u16 \<Rightarrow> int \<Rightarrow> proxy_row" where
  "added_member template group_id local_ports now i port =
    member_row (or_default (p_client_id template)) (port_name (base_name (p_name template)) port)
      (p_type template) (p_local_ip template) (local_port_at local_ports i) port (p_node_id template)
      (Some group_id) now"

definition add_ports_checks :: "auth_user \<Rightarrow> string \<Rightarrow> add_ports_req \<Rightarrow> proxy_row handler" where
  "add_ports_checks auth group_id req =
    and_then (check_port_lists (ap_local_ports req) (ap_remote_ports req)) (\<lambda>_.
    and_then (verify_proxy_group_ownership auth group_id) (\<lambda>existing.
    and_then (batch_client (group_client existing)) (\<lambda>client.
    and_then (batch_user_limits auth client (ap_remote_ports req)) (\<lambda>_.
    and_then (check_ports (p_node_id (hd existing)) (ap_remote_ports req)) (\<lambda>_.
    finish (hd existing))))))"

definition add_ports_to_proxy_group ::
  "proxy_control \<Rightarrow> string \<Rightarrow> auth_user option \<Rightarrow> add_ports_req \<Rightarrow> proxy_row list handler" where
  "add_ports_to_proxy_group ctl group_id auth_opt req =
    and_then (authenticated auth_opt) (\<lambda>auth.
    and_then (add_ports_checks auth group_id req) (\<lambda>template. do {
      now \<leftarrow> utc_now;
      and_then (create_members ctl (or_default (p_client_id template))
                 (added_member template group_id (ap_local_ports req) now) 0 (ap_remote_ports req) [])
        (\<lambda>created.
      and_then (spawn_notify (or_default (p_client_id template))) (\<lambda>_.
      finish created))
    }))"

end
