(* ===== verification/GroupRules.thy ===== *)
theory GroupRules
  imports ProxyGroups
begin

text \<open>
  What the batch and group handlers establish and keep: the ports a batch claims are free, a failed
  batch leaves no row behind, deleting a group removes its members. The bodies of the loops are
  treated inside the interface \<open>proxy_controller\<close>.
\<close>

section \<open>Checks\<close>

definition ports_free :: "db \<Rightarrow> int option \<Rightarrow> u16 list \<Rightarrow> bool" where
  "ports_free d node ports =
    list_all (\<lambda>p. p_enabled p \<and> p_node_id p = node \<longrightarrow> p_remote_port p \<notin> set ports) (db_proxies d)"

lemma healthy_batch_checks [intro!]:
  "keeps healthy (check_port_lists l r)" "keeps healthy (batch_client c)"
  "keeps healthy (batch_node_access auth cl nd)" "keeps healthy (check_port_free nd port)"
  unfolding check_port_lists_def batch_client_def batch_node_access_def check_user_node_def
    check_port_free_def
  by auto

lemma healthy_check_user_ports [intro!]: "keeps healthy (check_user_ports u ports)"
  by (induction ports) auto

lemma healthy_check_ports [intro!]: "keeps healthy (check_ports nd ports)"
  by (induction ports) auto

lemma healthy_batch_limits [intro!]: "keeps healthy (batch_user_limits auth cl ports)"
  unfolding batch_user_limits_def by auto

lemma same_db_checks:
  "same_db (check_port_lists l r)" "same_db (batch_client c)"
  "same_db (batch_node_access auth cl nd)"
  unfolding same_db_def check_port_lists_def batch_client_def batch_node_access_def
    check_user_node_def
  by auto

lemma same_db_user_ports: "same_db (batch_user_limits auth cl ports)"
proof -
  have "keeps (on_db P) (check_user_ports u ports)" for P u
    by (induction ports) (auto simp: allowed_or_def)
  then show ?thesis unfolding same_db_def batch_user_limits_def by auto
qed

lemma wp_same: "same_db m \<Longrightarrow> wp m (\<lambda>r w'. w_db w' = w_db w \<and> True) w"
  using same_db_wp[of m w] by simp

lemma find_free:
  "find (\<lambda>p. p_remote_port p = port \<and> p_enabled p \<and> p_node_id p = nd) (db_proxies d) = None \<Longrightarrow>
   ports_free d nd [port]"
  unfolding find_None_iff ports_free_def list_all_iff by auto

lemma wp_check_port_free:
  "wp (check_port_free nd port) (\<lambda>r w'. w_db w' = w_db w \<and> (r = Inr () \<longrightarrow> ports_free (w_db w) nd [port])) w"
  using find_free[of port nd "w_db w"]
  by (simp add: check_port_free_def wp_find_one split: option.splits)

lemma ports_free_Cons:
  "ports_free d nd (port # ports) \<longleftrightarrow> ports_free d nd [port] \<and> ports_free d nd ports"
  by (auto simp: ports_free_def list_all_iff)

lemma wp_check_ports:
  "wp (check_ports nd ports)
    (\<lambda>r w'. w_db w' = w_db w \<and> (r = Inr () \<longrightarrow> ports_free (w_db w) nd ports \<and>
       (\<forall>n port. nd = Some n \<and> port \<in> set ports \<longrightarrow> node_port_ok (w_db w) n port 0))) w"
proof (induction ports arbitrary: w)
  case Nil
  then show ?case by (simp add: ports_free_def list_all_iff)
next
  case (Cons port ports)
  show ?case
    unfolding check_ports.simps
    apply (rule wp_stage, rule wp_check_node_limit, simp)
    apply (rule wp_stage, rule wp_check_port_free, simp)
    apply (rule wp_mono, rule Cons.IH)
    by (auto simp: ports_free_Cons[of _ _ port ports])
qed

section \<open>Inserting and deleting members\<close>

lemma with_proxy_sel [simp]:
  "db_proxies (with_proxy d p) = db_proxies d @ [p]" "sq_proxies (with_proxy d p) = sq_proxies d + 1"
  "db_traffic (with_proxy d p) = db_traffic d" "db_clients (with_proxy d p) = db_clients d"
  "db_users (with_proxy d p) = db_users d" "db_nodes (with_proxy d p) = db_nodes d"
  by (simp_all add: with_proxy_def)

lemma drop_drop: "drop_proxies P (drop_proxies Q d) = drop_proxies (\<lambda>p. Q p \<or> P p) d"
proof -
  have "filter (\<lambda>t. \<not> list_ex (\<lambda>p. P p \<and> p_id p = t_proxy_id t) (filter (\<lambda>p. \<not> Q p) (db_proxies d)))
      (filter (\<lambda>t. \<not> list_ex (\<lambda>p. Q p \<and> p_id p = t_proxy_id t) (db_proxies d)) (db_traffic d)) =
    filter (\<lambda>t. \<not> list_ex (\<lambda>p. (Q p \<or> P p) \<and> p_id p = t_proxy_id t) (db_proxies d)) (db_traffic d)"
    unfolding filter_filter by (rule filter_cong[OF refl]) (auto simp: list_ex_iff)
  then show ?thesis by (simp add: drop_proxies_def conj_comms)
qed

text \<open>Dropping exactly the rows that were added since leads back.\<close>

lemma drop_added:
  assumes "ids_ok d0" "list_all (\<lambda>p. sq_proxies d0 \<le> p_id p) new"
    and "\<And>q. q \<in> set new \<Longrightarrow> P q" "\<And>q. q \<in> set (db_proxies d0) \<Longrightarrow> \<not> P q"
  shows "drop_proxies P (d0\<lparr>db_proxies := db_proxies d0 @ new, sq_proxies := n\<rparr>) = d0\<lparr>sq_proxies := n\<rparr>"
proof -
  have "filter (\<lambda>p. \<not> P p) (db_proxies d0 @ new) = db_proxies d0"
    using assms(3,4) by (simp add: filter_id_conv filter_empty_conv)
  moreover have "filter (\<lambda>t. \<not> list_ex (\<lambda>p. P p \<and> p_id p = t_proxy_id t) (db_proxies d0 @ new)) (db_traffic d0)
      = db_traffic d0"
    using assms by (fastforce simp: filter_id_conv list_ex_iff list_all_iff ids_ok_def)
  ultimately show ?thesis by (simp add: drop_proxies_def)
qed

lemma ids_ok_with: "ids_ok d \<Longrightarrow> p_id p = sq_proxies d \<Longrightarrow> ids_ok (with_proxy d p)"
  by (auto simp: ids_ok_def list_all_iff)

definition member_of :: "int option \<Rightarrow> string \<Rightarrow> proxy_row \<Rightarrow> bool" where
  "member_of nd k p = (p_enabled p \<and> p_node_id p = nd \<and> p_type p = k \<and> p_upstream p = [] \<and> p_user_id p = None)"

definition mk_ok :: "(nat \<Rightarrow> u16 \<Rightarrow> int \<Rightarrow> proxy_row) \<Rightarrow> int option \<Rightarrow> string \<Rightarrow> string \<Rightarrow> bool" where
  "mk_ok mk nd k c = (\<forall>i port n. p_id (mk i port n) = n \<and> p_remote_port (mk i port n) = port \<and>
     p_client_id (mk i port n) = Some c \<and> member_of nd k (mk i port n))"

lemma mk_ok_member [simp]:
  "mk_ok (batch_member req g now) (br_node_id req) (br_type req) (br_client_id req)"
  "mk_ok (added_member template gid lps now) (p_node_id template) (p_type template)
     (or_default (p_client_id template))"
  by (simp_all add: mk_ok_def member_of_def batch_member_def added_member_def member_row_def)

text \<open>What toggling does to the database, one member after the other: a row the schema refuses is skipped.\<close>

definition toggle_step :: "bool \<Rightarrow> naive_dt \<Rightarrow> proxy_row \<Rightarrow> db \<Rightarrow> db" where
  "toggle_step en now p d =
    (case row_get p_id (p_id p) (db_proxies d) of
       None \<Rightarrow> d
     | Some r \<Rightarrow>
         if p_enabled p \<noteq> en \<and> upd_ok proxies_t d (toggle_fields en now r)
         then upd_proxy (p_id p) (toggle_fields en now) d else d)"

text \<open>A row that keeps its shape and route is accepted again.\<close>

lemma row_kept:
  assumes "proxies_inv d" "row_get p_id i (db_proxies d) = Some p"
    and "route_key_of q = route_key_of p" "proxy_shape q = proxy_shape p"
  shows "upd_ok proxies_t d q"
proof -
  have "proxy_shape p"
    using assms(1) row_get_SomeD[OF assms(2)] by (auto simp: proxies_inv_def list_all_iff)
  moreover have "upd_proxy i (\<lambda>r. r) d = d" by (simp add: upd_proxy_def row_upd_id)
  ultimately show ?thesis
    using route_free_restored[OF assms(1,2,3), of "\<lambda>r. r"] assms(4) by simp
qed

context proxy_controller
begin

lemma rollback_keeps_inv: "proxies_inv (w_db w) \<Longrightarrow>
    wp (rollback_created ctl c ps) (\<lambda>_ w'. proxies_inv (w_db w')) w"
proof (induction ps arbitrary: w)
  case (Cons p ps)
  show ?case
    unfolding rollback_created.simps wp_bind
    by (rule wp_stop) (use Cons in \<open>simp add: wp_delete_proxy proxies_inv_without\<close>)
qed simp

lemma rollback_effect:
  assumes "healthy w"
  shows "wp (rollback_created ctl c ps) (\<lambda>_ w'. healthy w' \<and>
    w_db w' = drop_proxies (\<lambda>p. p_id p \<in> p_id ` set ps) (w_db w)) w"
  using assms
proof (induction ps arbitrary: w)
  case Nil
  then show ?case by (simp add: drop_proxies_def list_ex_iff)
next
  case (Cons p ps)
  show ?case
    unfolding rollback_created.simps wp_bind
  proof (rule wp_stop_healthy[OF Cons.prems])
    fix r w1 assume w1: "w_db w1 = w_db w" "healthy w1"
    let ?w2 = "(pop_fault w1)\<lparr>w_db := without_proxy (p_id p) (w_db w)\<rparr>"
    have h: "healthy ?w2" "\<not> next_fault w1" using w1 by (auto simp: healthy_def)
    have eq: "drop_proxies (\<lambda>q. p_id q \<in> p_id ` set ps) (without_proxy (p_id p) (w_db w)) =
        drop_proxies (\<lambda>q. p_id q \<in> p_id ` set (p # ps)) (w_db w)"
      unfolding without_proxy_def drop_drop by simp
    show "wp (delete_by_id proxies_t (p_id p)) (\<lambda>x. wp (rollback_created ctl c ps) (\<lambda>_ w'. healthy w' \<and>
        w_db w' = drop_proxies (\<lambda>q. p_id q \<in> p_id ` set (p # ps)) (w_db w))) w1"
      using h w1 wp_mono[OF Cons.IH[OF h(1)]] eq by (simp add: wp_delete_proxy)
  qed
qed

text \<open>The step of the loop after the row is in, which starts the listener.\<close>

definition start_member ::
  "string \<Rightarrow> (nat \<Rightarrow> u16 \<Rightarrow> int \<Rightarrow> proxy_row) \<Rightarrow> nat \<Rightarrow> u16 \<Rightarrow> u16 list \<Rightarrow> proxy_row list \<Rightarrow>
   proxy_row \<Rightarrow> proxy_row list handler" where
  "start_member c mk i port ports created p = do {
     s \<leftarrow> pcl_start ctl c (p_id p);
     case s of
       Inl e \<Rightarrow> do {
         rollback_created ctl c created;
         _ \<leftarrow> delete_by_id proxies_t (p_id p);
         State_Monad.return (Inl (CONFLICT, M_start_port_failed port e))
       }
     | Inr _ \<Rightarrow> create_members ctl c mk (Suc i) ports (created @ [p])
   }"

lemma wp_create_step:
  "wp (create_members ctl c mk i (port # ports) created) Q w =
    (let p = mk i port (sq_proxies (w_db w));
         failed = (\<lambda>e. wp (rollback_created ctl c created)
           (\<lambda>_. Q (Inl (INTERNAL_SERVER_ERROR, M_create_failed (E_db e)))) (pop_fault w))
     in if next_fault w then failed DbFault
        else if ins_ok proxies_t (w_db w) p
        then wp (start_member c mk i port ports created p) Q ((pop_fault w)\<lparr>w_db := with_proxy (w_db w) p\<rparr>)
        else failed ConstraintFailed)"
  by (simp add: wp_insert_proxy start_member_def Let_def wp_return_fun del: table_laws)

lemma create_members_inv:
  assumes "proxies_inv (w_db w)" "mk_ok mk nd k cid"
  shows "wp (create_members ctl c mk i ports created) (\<lambda>_ w'. proxies_inv (w_db w')) w"
  using assms(1)
proof (induction ports arbitrary: w i created)
  case (Cons port ports)
  let ?p = "mk i port (sq_proxies (w_db w))"
  let ?w1 = "(pop_fault w)\<lparr>w_db := with_proxy (w_db w) ?p\<rparr>"
  have id: "p_id ?p = sq_proxies (w_db w)" using assms(2) by (simp add: mk_ok_def)
  have start: "wp (start_member c mk i port ports created ?p) (\<lambda>_ w'. proxies_inv (w_db w')) ?w1"
    if "ins_ok proxies_t (w_db w) ?p"
    unfolding start_member_def wp_bind
  proof (rule wp_start)
    fix s and w2 :: world assume "w_db w2 = w_db ?w1"
    then have inv: "proxies_inv (w_db w2)" using proxies_inv_with[OF Cons.prems id that] by simp
    show "wp (case s of
        Inl e \<Rightarrow> do {
            rollback_created ctl c created;
            _ \<leftarrow> delete_by_id proxies_t (p_id ?p);
            State_Monad.return (Inl (CONFLICT, M_start_port_failed port e))
          }
        | Inr _ \<Rightarrow> create_members ctl c mk (Suc i) ports (created @ [?p])) (\<lambda>_ w'. proxies_inv (w_db w')) w2"
      using Cons.IH[OF inv, of "Suc i" "created @ [?p]"] rollback_keeps_inv[OF inv, of c created]
      by (auto simp: wp_delete_proxy proxies_inv_without elim!: wp_mono split: sum.splits)
  qed
  show ?case
    unfolding wp_create_step Let_def
    using start rollback_keeps_inv[of "pop_fault w" c created] Cons.prems by auto
qed simp

text \<open>In a run without faults: all of the batch, or nothing.\<close>

lemma create_members_all_or_nothing:
  assumes "healthy w" "ids_ok (w_db w)" "ids_ok d0" "mk_ok mk nd k cid" "sq_proxies d0 \<le> sq_proxies (w_db w)"
    and "list_all (\<lambda>p. sq_proxies d0 \<le> p_id p) created"
    and "w_db w = d0\<lparr>db_proxies := db_proxies d0 @ created, sq_proxies := sq_proxies (w_db w)\<rparr>"
    and "list_all (member_of nd k) created"
  shows "wp (create_members ctl c mk i ports created)
    (\<lambda>r w'. (\<forall>e. r = Inl e \<longrightarrow> same_but_sequence d0 (w_db w')) \<and>
       (\<forall>ps. r = Inr ps \<longrightarrow> same_but_sequence (d0\<lparr>db_proxies := db_proxies d0 @ ps\<rparr>) (w_db w') \<and>
          map p_remote_port ps = map p_remote_port created @ ports \<and> list_all (member_of nd k) ps)) w"
  using assms(1,2,5-)
proof (induction ports arbitrary: w i created)
  case Nil
  have "same_but_sequence (d0\<lparr>db_proxies := db_proxies d0 @ created\<rparr>) (w_db w)"
    by (subst Nil.prems(5)) (simp add: same_but_sequence_def)
  then show ?case using Nil.prems(6) by simp
next
  case (Cons port ports)
  let ?p = "mk i port (sq_proxies (w_db w))"
  let ?w1 = "(pop_fault w)\<lparr>w_db := with_proxy (w_db w) ?p\<rparr>"
  let ?Q = "\<lambda>r w'. (\<forall>e. r = Inl e \<longrightarrow> same_but_sequence d0 (w_db w')) \<and>
       (\<forall>ps. r = Inr ps \<longrightarrow> same_but_sequence (d0\<lparr>db_proxies := db_proxies d0 @ ps\<rparr>) (w_db w') \<and>
          map p_remote_port ps = map p_remote_port created @ port # ports \<and> list_all (member_of nd k) ps)"
  have m: "p_id ?p = sq_proxies (w_db w)" "p_remote_port ?p = port" "member_of nd k ?p"
    using assms(4) by (simp_all add: mk_ok_def)
  have f: "\<not> next_fault w" "healthy ?w1" "healthy (pop_fault w)" using Cons.prems(1) by (auto simp: healthy_def)
  have old: "p_id q < sq_proxies d0" if "q \<in> set (db_proxies d0)" for q
    using assms(3) that by (auto simp: ids_ok_def list_all_iff)
  have undo: "drop_proxies P (d0\<lparr>db_proxies := db_proxies d0 @ new, sq_proxies := n\<rparr>) = d0\<lparr>sq_proxies := n\<rparr>"
    if "list_all (\<lambda>p. sq_proxies d0 \<le> p_id p) new" "\<And>q. P q \<longleftrightarrow> p_id q \<in> p_id ` set new" for P new n
    by (rule drop_added[OF assms(3) that(1)]) (use that(1,2) old in \<open>fastforce simp: list_all_iff\<close>)+
  have refused: "wp (rollback_created ctl c created) (\<lambda>_. ?Q (Inl e)) (pop_fault w)" for e
  proof (rule wp_mono[OF rollback_effect[OF f(3)]])
    fix x w' assume "healthy w' \<and> w_db w' = drop_proxies (\<lambda>p. p_id p \<in> p_id ` set created) (w_db (pop_fault w))"
    moreover have "drop_proxies (\<lambda>p. p_id p \<in> p_id ` set created) (w_db w) = d0\<lparr>sq_proxies := sq_proxies (w_db w)\<rparr>"
      by (subst Cons.prems(5)) (rule undo[OF Cons.prems(4)], simp)
    ultimately show "?Q (Inl e) w'" by simp
  qed
  have d1: "with_proxy (w_db w) ?p =
      d0\<lparr>db_proxies := db_proxies d0 @ (created @ [?p]), sq_proxies := sq_proxies (w_db w) + 1\<rparr>"
    using arg_cong[OF Cons.prems(5), of "\<lambda>d. with_proxy d ?p"] by (simp add: with_proxy_def)
  have new: "list_all (\<lambda>p. sq_proxies d0 \<le> p_id p) (created @ [?p])"
    using Cons.prems(3,4) m by simp
  have "wp (start_member c mk i port ports created ?p) ?Q ?w1"
    unfolding start_member_def wp_bind
  proof (rule wp_start_healthy[OF f(2)])
    fix s and w2 :: world assume w2: "w_db w2 = w_db ?w1" "healthy w2"
    then have d2: "w_db w2 = with_proxy (w_db w) ?p" by simp
    have more: "wp (create_members ctl c mk (Suc i) ports (created @ [?p])) ?Q w2"
    proof (rule wp_mono, rule Cons.IH[OF w2(2)])
      show "ids_ok (w_db w2)" unfolding d2 by (rule ids_ok_with[OF Cons.prems(2) m(1)])
      show "sq_proxies d0 \<le> sq_proxies (w_db w2)" using Cons.prems(3) d2 by simp
      show "w_db w2 = d0\<lparr>db_proxies := db_proxies d0 @ created @ [?p], sq_proxies := sq_proxies (w_db w2)\<rparr>"
        unfolding d2 with_proxy_sel(2) by (rule d1)
    qed (use new m Cons.prems(6) in auto)
    have restored: "wp (rollback_created ctl c created) (\<lambda>_ w'. healthy w' \<and>
        without_proxy (p_id ?p) (w_db w') = d0\<lparr>sq_proxies := sq_proxies (w_db w) + 1\<rparr>) w2"
    proof (rule wp_mono[OF rollback_effect[OF w2(2)]])
      fix x w'
      assume h: "healthy w' \<and> w_db w' = drop_proxies (\<lambda>p. p_id p \<in> p_id ` set created) (w_db w2)"
      have "drop_proxies (\<lambda>p. p_id p \<in> p_id ` set created \<or> p_id p = p_id ?p) (w_db w2) =
          d0\<lparr>sq_proxies := sq_proxies (w_db w) + 1\<rparr>"
        unfolding d2 d1 by (rule undo[OF new]) auto
      then show "healthy w' \<and> without_proxy (p_id ?p) (w_db w') = d0\<lparr>sq_proxies := sq_proxies (w_db w) + 1\<rparr>"
        using h by (simp add: without_proxy_def drop_drop)
    qed
    show "wp (case s of
        Inl e \<Rightarrow> do {
            rollback_created ctl c created;
            _ \<leftarrow> delete_by_id proxies_t (p_id ?p);
            State_Monad.return (Inl (CONFLICT, M_start_port_failed port e))
          }
        | Inr _ \<Rightarrow> create_members ctl c mk (Suc i) ports (created @ [?p])) ?Q w2"
      using more restored by (auto simp: wp_delete_proxy healthy_def elim!: wp_mono split: sum.splits)
  qed
  with f(1) refused show ?case unfolding wp_create_step Let_def by (auto simp del: table_laws)
qed

text \<open>Toggling, updating and restarting the members of a group.\<close>

lemma wp_toggle_cons:
  "p_enabled p \<noteq> en \<Longrightarrow> wp (toggle_loop ctl c en now (p # ps)) Q w =
    (let rest = wp (toggle_loop ctl c en now ps) Q
     in if next_fault w then rest (pop_fault w)
        else (case row_get p_id (p_id p) (db_proxies (w_db w)) of
                None \<Rightarrow> rest (pop_fault w)
              | Some r \<Rightarrow>
                  if upd_ok proxies_t (w_db w) (toggle_fields en now r) then
                    wp (if en then pcl_start ctl c (p_id p) else pcl_stop ctl c (p_id p)) (\<lambda>_. rest)
                      ((pop_fault w)\<lparr>w_db := upd_proxy (p_id p) (toggle_fields en now) (w_db w)\<rparr>)
                  else rest (pop_fault w)))"
  by (simp add: wp_update_proxy_checked Let_def del: table_laws split: option.splits)

lemma toggle_loop_effect:
  assumes "healthy w"
  shows "wp (toggle_loop ctl c en now ps)
    (\<lambda>_ w'. healthy w' \<and> w_db w' = fold (toggle_step en now) ps (w_db w)) w"
  using assms
proof (induction ps arbitrary: w)
  case (Cons p ps)
  let ?Q = "\<lambda>_ w'. healthy w' \<and> w_db w' = fold (toggle_step en now) (p # ps) (w_db w)"
  have f: "\<not> next_fault w" "healthy (pop_fault w)" using Cons.prems by (auto simp: healthy_def)
  have rest: "wp (toggle_loop ctl c en now ps) ?Q v"
    if "healthy v" "w_db v = toggle_step en now p (w_db w)" for v
    using Cons.IH[OF that(1)] that(2) by simp
  show ?case
  proof (cases "p_enabled p = en")
    case True
    then have "toggle_step en now p (w_db w) = w_db w"
      by (simp add: toggle_step_def split: option.splits)
    then show ?thesis using rest[OF Cons.prems] True by simp
  next
    case False
    have go: "wp (if en then pcl_start ctl c (p_id p) else pcl_stop ctl c (p_id p))
        (\<lambda>_. wp (toggle_loop ctl c en now ps) ?Q)
        ((pop_fault w)\<lparr>w_db := upd_proxy (p_id p) (toggle_fields en now) (w_db w)\<rparr>)"
      if "row_get p_id (p_id p) (db_proxies (w_db w)) = Some r"
        "upd_ok proxies_t (w_db w) (toggle_fields en now r)" for r
    proof -
      let ?w1 = "(pop_fault w)\<lparr>w_db := upd_proxy (p_id p) (toggle_fields en now) (w_db w)\<rparr>"
      have h: "healthy ?w1" using f by (simp add: healthy_def)
      have d: "w_db ?w1 = toggle_step en now p (w_db w)"
        using that False by (simp add: toggle_step_def del: table_laws)
      have "wp (pcl_start ctl c (p_id p)) (\<lambda>_. wp (toggle_loop ctl c en now ps) ?Q) ?w1"
        by (rule wp_start_healthy[OF h]) (rule rest, use d in simp_all)
      moreover have "wp (pcl_stop ctl c (p_id p)) (\<lambda>_. wp (toggle_loop ctl c en now ps) ?Q) ?w1"
        by (rule wp_stop_healthy[OF h]) (rule rest, use d in simp_all)
      ultimately show ?thesis by (cases en) (simp_all only: if_True if_False)
    qed
    have skip: "wp (toggle_loop ctl c en now ps) ?Q (pop_fault w)"
      if "toggle_step en now p (w_db w) = w_db w"
      by (rule rest[OF f(2)]) (simp add: that)
    show ?thesis
      unfolding wp_toggle_cons[OF False] Let_def if_not_P[OF f(1)]
      using go skip False
      by (cases "row_get p_id (p_id p) (db_proxies (w_db w))")
         (auto simp: toggle_step_def simp del: table_laws wp_if)
  qed
qed simp

lemma toggle_loop_inv: "proxies_inv (w_db w) \<Longrightarrow>
    wp (toggle_loop ctl c en now ps) (\<lambda>_ w'. proxies_inv (w_db w')) w"
proof (induction ps arbitrary: w)
  case (Cons p ps)
  have up: "proxies_inv (upd_proxy (p_id p) (toggle_fields en now) (w_db w))"
    if "row_get p_id (p_id p) (db_proxies (w_db w)) = Some r"
      "upd_ok proxies_t (w_db w) (toggle_fields en now r)" for r
    by (rule proxies_inv_upd[where f = "toggle_fields en now", OF Cons.prems that]) (simp add: toggle_fields_def)
  have go: "wp (if en then pcl_start ctl c (p_id p) else pcl_stop ctl c (p_id p))
      (\<lambda>_. wp (toggle_loop ctl c en now ps) (\<lambda>_ w'. proxies_inv (w_db w'))) v" if "proxies_inv (w_db v)" for v
  proof -
    have "wp (toggle_loop ctl c en now ps) (\<lambda>_ w'. proxies_inv (w_db w')) u" if "w_db u = w_db v" for u
      by (rule Cons.IH) (simp add: that \<open>proxies_inv (w_db v)\<close>)
    then show ?thesis by (simp only: split: if_split) (blast intro: wp_start wp_stop)
  qed
  show ?case
  proof (cases "p_enabled p = en")
    case True
    then show ?thesis using Cons by simp
  next
    case False
    have rest: "wp (toggle_loop ctl c en now ps) (\<lambda>_ w'. proxies_inv (w_db w')) (pop_fault w)"
      by (rule Cons.IH) (simp add: Cons.prems)
    show ?thesis
      unfolding wp_toggle_cons[OF False] Let_def
      using go rest up by (auto simp del: table_laws wp_if split: option.splits)
  qed
qed simp

lemma group_fields_id [simp]: "p_id (group_fields req many now proxy p) = p_id p"
  by (simp add: group_fields_def)

lemma group_loop_inv: "proxies_inv (w_db w) \<Longrightarrow>
    wp (group_update_loop req many now ps) (\<lambda>_ w'. proxies_inv (w_db w')) w"
proof (induction ps arbitrary: w)
  case (Cons p ps)
  have up: "proxies_inv (upd_proxy (p_id p) (group_fields req many now p) (w_db w))"
    if "row_get p_id (p_id p) (db_proxies (w_db w)) = Some r"
      "gr_type req = None \<or> upd_ok proxies_t (w_db w) (group_fields req many now p r)" for r
  proof -
    have "upd_ok proxies_t (w_db w) (group_fields req many now p r)" if "gr_type req = None"
      using row_kept[OF Cons.prems \<open>row_get p_id (p_id p) _ = Some r\<close>, of "group_fields req many now p r"] that
      by (simp add: group_fields_def proxy_shape_def route_key_of_def unwrap_or_def)
    then show ?thesis
      by (intro proxies_inv_upd[where f = "group_fields req many now p", OF Cons.prems that(1)])
         (use that(2) in auto)
  qed
  show ?case
    using Cons.prems up
    by (auto simp: wp_update_proxy_checked wp_update_proxy_row simp del: table_laws split: option.splits
        intro!: Cons.IH)
qed simp

lemma restart_loop_inv: "proxies_inv (w_db w) \<Longrightarrow>
    wp (restart_loop ctl c ps) (\<lambda>_ w'. proxies_inv (w_db w')) w"
proof (induction ps arbitrary: w)
  case (Cons p ps)
  then show ?case by (auto intro!: wp_start wp_stop)
qed simp

end

end
