(* ===== verification/ProxyProps.thy ===== *)
theory ProxyProps
  imports GroupRules
begin

text \<open>
  The properties of the proxy handlers, run with the node manager as the \<open>ProxyControl\<close> the
  controller installs (\<open>AppState.proxy_control\<close>). They come from the interpretation \<open>nm\<close>.
\<close>

section \<open>A small installation\<close>

text \<open>One user with a limit of one proxy, his client, a shared node that is connected.\<close>

definition owner_client :: client_row where
  "owner_client =
    \<lparr>c_id = 3, c_name = ''home'', c_token = ''t'', c_is_online = True, c_public_ip = None,
     c_region = None, c_sent = 0, c_received = 0, c_reset_cycle = ''none'', c_last_reset = None,
     c_exceeded = False, c_quota_gb = None, c_user_id = Some 7, c_version = None,
     c_last_online = None, c_created_at = DT 0 0 2024 1, c_updated_at = DT 0 0 2024 1\<rparr>"

definition shop_db :: db where
  "shop_db = empty_db\<lparr>db_users := [sample_user\<lparr>u_max_port := Some 1\<rparr>],
     db_clients := [owner_client], db_nodes := [sample_node]\<rparr>"

definition shop_world :: world where
  "shop_world = (idle_world shop_db)
    \<lparr>w_nodes := [(1, \<lparr>ss_chan = 5, ss_pending = pending_new\<rparr>)],
     w_clients := [(3, \<lparr>ss_chan = 6, ss_pending = pending_new\<rparr>)],
     w_uuids := [''u1'', ''u2'', ''u3'', ''u4''],
     w_node_answers := replicate 4 (Some (Some (CommandAck True None)))\<rparr>"

definition stranger :: auth_user where
  "stranger = \<lparr>a_id = 8, a_username = ''eve'', a_is_admin = False\<rparr>"

lemma shop_db_sel [simp]: "w_db shop_world = shop_db" "ids_ok shop_db" "db_proxies shop_db = []"
  by (simp_all add: shop_world_def shop_db_def ids_ok_def)

lemma shop_healthy [simp]: "healthy shop_world" "proxies_inv shop_db"
  by (simp_all add: healthy_def shop_world_def proxies_inv_def routes_ok_iff)

definition shop_request :: create_req where
  "shop_request =
    \<lparr>cr_client_id = Some (int_str 3), cr_upstream = [], cr_name = ''ssh'', cr_type = ''tcp'',
     cr_domain = [], cr_local_ip = ''127.0.0.1'', cr_local_port = 22, cr_remote_port = 8022,
     cr_node_id = Some 1\<rparr>"

definition no_change :: update_req where
  "no_change =
    \<lparr>ur_name = None, ur_type = None, ur_domain = None, ur_upstream = None, ur_local_ip = None,
     ur_local_port = None, ur_remote_port = None, ur_enabled = None\<rparr>"

section \<open>A node that acknowledges\<close>

text \<open>The node \<open>n\<close> is connected and will acknowledge the next \<open>k\<close> commands; no statement fails.\<close>

definition obliging :: "int \<Rightarrow> nat \<Rightarrow> world \<Rightarrow> bool" where
  "obliging n k w =
    (w_faults w = [] \<and>
     (case node_session w n of Some s \<Rightarrow> ss_chan s \<notin> set (w_closed w) | None \<Rightarrow> False) \<and>
     k \<le> length (w_uuids w) \<and>
     take k (w_node_answers w) = replicate k (Some (Some (CommandAck True None))))"

lemma take_replicate_Suc: "take (Suc k) xs = replicate (Suc k) x \<longleftrightarrow> (\<exists>ys. xs = x # ys \<and> take k ys = replicate k x)"
  by (cases xs) auto

lemma take_fewer: "take (Suc k) xs = replicate (Suc k) x \<Longrightarrow> take k xs = replicate k x"
  by (induction k arbitrary: xs) (case_tac xs; auto)+

lemma obliging_less:
  "obliging n (Suc k) w \<Longrightarrow> obliging n k w"
  "obliging n (Suc k) w \<Longrightarrow> w_uuids w = rid # us \<Longrightarrow> obliging n k (w\<lparr>w_uuids := us\<rparr>)"
  using take_fewer[of k "w_node_answers w"]
  by (auto simp: obliging_def node_session_def simp del: replicate.simps split: option.splits)

text \<open>One command to a connected node, and its answer.\<close>

lemma control_answered:
  assumes "node_session w n = Some s" "ss_chan s \<notin> set (w_closed w)" "w_faults w = []" "w_uuids w = rid # us"
    and "w_node_answers w = Some (Some (CommandAck ok err)) # as"
    and "row_get p_id i (db_proxies (w_db w)) = Some p" "or_default (p_client_id p) = c" "p_node_id p = Some n"
    and "m = pcl_start node_control \<or> m = pcl_stop node_control"
  shows "wp (m c i) (\<lambda>r w'. r = (if ok then Inr () else Inl (E_msg (M_peer_failed err))) \<and> w_db w' = w_db w \<and>
    w_faults w' = [] \<and> w_closed w' = w_closed w \<and> w_uuids w' = us \<and> w_node_answers w' = as \<and>
    (\<exists>s'. node_session w' n = Some s' \<and> ss_chan s' = ss_chan s)) w"
  using assms(9,1-8)
    complete_registered[where rid = rid and now = "w_mono w" and p = "ss_pending s"
      and x = "Some (CommandAck ok err)"]
  by (auto simp: node_control_def nm_start_proxy_def nm_stop_proxy_def proxy_on_node_def wp_find_by_id
      send_command_and_wait_def nm_command_def command_parts wp_new_uuid node_session_set
      pending_wait_def Let_def expect_ack_def) (simp_all add: set_node_pending_def)

lemma start_obliging:
  assumes "obliging n (Suc k) w" "row_get p_id i (db_proxies (w_db w)) = Some p"
    and "or_default (p_client_id p) = c" "p_node_id p = Some n"
  shows "wp (pcl_start node_control c i) (\<lambda>r w'. r = Inr () \<and> w_db w' = w_db w \<and> obliging n k w') w"
proof -
  obtain s where s: "node_session w n = Some s" "ss_chan s \<notin> set (w_closed w)" "w_faults w = []"
    using assms(1) by (auto simp: obliging_def split: option.splits)
  obtain rid us where u: "w_uuids w = rid # us" "k \<le> length us"
    using assms(1) by (cases "w_uuids w") (auto simp: obliging_def)
  obtain as where a: "w_node_answers w = Some (Some (CommandAck True None)) # as"
    "take k as = replicate k (Some (Some (CommandAck True None)))"
    using assms(1) unfolding obliging_def take_replicate_Suc by blast
  show ?thesis
    by (rule wp_mono[OF control_answered[OF s u(1) a(1) assms(2-4)]]) (use s(2) u(2) a(2) in \<open>auto simp: obliging_def\<close>)
qed

lemma shop_obliging: "k \<le> 4 \<Longrightarrow> obliging 1 k shop_world"
  by (simp add: obliging_def shop_world_def node_session_def idle_world_def min_def
      flip: replicate_Suc)

section \<open>Example runs\<close>

definition root_user :: auth_user where
  "root_user = \<lparr>a_id = 1, a_username = ''admin'', a_is_admin = True\<rparr>"

definition shop_proxy :: proxy_row where
  "shop_proxy = new_proxy_row root_user shop_request [] [] (DT 0 0 2024 1) 1"

definition running_world :: world where
  "running_world = shop_world\<lparr>w_db := with_proxy shop_db shop_proxy\<rparr>"

lemma shop_ids: "parse_i64 (int_str 3) = Some 3"
  by (rule parse_i64_int_str) simp_all

lemma shop_rows:
  "row_get c_id 3 (db_clients shop_db) = Some owner_client"
  "row_get n_id 1 (db_nodes shop_db) = Some sample_node"
  by (simp_all add: shop_db_def row_get_def owner_client_def sample_node_def)

lemma shop_idle [simp]: "w_faults shop_world = []" "w_faults running_world = []"
  by (simp_all add: shop_world_def running_world_def)

lemma shop_create_passes:
  "wp (create_checks (\<lambda>_. None) root_user shop_request) (\<lambda>r w'. r = Inr ([], []) \<and> w' = shop_world) shop_world"
  by (simp add: create_checks_def shop_request_def create_upstream_def create_client_def shop_ids wp_find_by_id
      shop_rows create_user_check_def root_user_def check_node_access_def sample_node_def check_node_limit_def
      validate_node_proxy_limit_def validate_node_proxy_limit_excluding_def node_range_check_def allowed_or_def
      validate_domain_def validate_route_def check_route_def wp_find_all first_conflict_None)

text \<open>The same installation with the administrator's own account.\<close>

definition known_world :: world where
  "known_world = shop_world\<lparr>w_db := shop_db\<lparr>db_users := [sample_user\<lparr>u_id := 1\<rparr>]\<rparr>\<rparr>"

lemma known_sel: "ids_ok (w_db known_world)" "sq_proxies (w_db known_world) = 1"
  by (simp_all add: known_world_def shop_db_def ids_ok_def)

lemma known_create_passes:
  "wp (create_checks (\<lambda>_. None) root_user shop_request) (\<lambda>r w'. r = Inr ([], []) \<and> w' = known_world) known_world"
  using shop_rows
  by (simp add: create_checks_def shop_request_def create_upstream_def create_client_def shop_ids wp_find_by_id
      create_user_check_def root_user_def check_node_access_def sample_node_def check_node_limit_def
      validate_node_proxy_limit_def validate_node_proxy_limit_excluding_def node_range_check_def allowed_or_def
      validate_domain_def validate_route_def check_route_def wp_find_all first_conflict_None known_world_def)

lemma shop_admitted: "ins_ok proxies_t shop_db (new_proxy_row root_user shop_request [] [] now i)"
  by (simp add: proxy_shape_def proxy_refs_def route_free_def no_conflict_def new_proxy_row_def
      shop_request_def shop_ids has_row_iff shop_rows)

lemma shop_create:
  "wp (create_proxy node_control (\<lambda>_. None) (Some root_user) shop_request) (\<lambda>r w'. \<exists>p. r = Inr p) shop_world"
proof -
  let ?p = "new_proxy_row root_user shop_request [] [] (w_now shop_world) (sq_proxies shop_db)"
  let ?w = "shop_world\<lparr>w_db := with_proxy shop_db ?p\<rparr>"
  have o: "obliging 1 1 ?w"
    using shop_obliging[of 1] by (auto simp: obliging_def node_session_def split: option.splits)
  have s: "wp (pcl_start node_control (int_str 3) (sq_proxies shop_db)) (\<lambda>r w'. r = Inr ()) ?w"
    by (rule wp_mono, rule start_obliging[where n = 1 and k = 0 and p = ?p])
       (use o in \<open>auto simp: with_proxy_def row_get_def new_proxy_row_def shop_request_def\<close>)
  show ?thesis
    unfolding create_proxy_def authenticated_def wp_and_then wp_some_or option.case sum.case
    apply (rule wp_mono[OF shop_create_passes])
    apply (clarsimp simp: create_insert_def wp_insert_proxy shop_admitted[simplified])
    apply (rule wp_mono)
     apply (use s in \<open>simp add: new_proxy_row_def shop_request_def\<close>)
    by (simp add: shop_request_def)
qed

lemma shop_proxy_sel [simp]:
  "p_id shop_proxy = 1" "p_client_id shop_proxy = Some (int_str 3)" "p_type shop_proxy = ''tcp''"
  "p_domain shop_proxy = []" "p_group_id shop_proxy = None" "p_local_port shop_proxy = 22"
  "p_remote_port shop_proxy = 8022" "p_upstream shop_proxy = []" "p_enabled shop_proxy"
  "db_proxies (w_db running_world) = [shop_proxy]"
  by (simp_all add: shop_proxy_def new_proxy_row_def shop_request_def running_world_def with_proxy_def)

lemma shop_update:
  "wp (update_proxy node_control (\<lambda>_. None) 1 (Some root_user) (no_change\<lparr>ur_name := Some ''web''\<rparr>))
     (\<lambda>r w'. \<exists>p. r = Inr p \<and> p_name p = ''web'') running_world"
  by (simp add: update_proxy_def authenticated_def wp_find_by_id row_get_def update_checks_def Let_def
      verify_proxy_ownership_def root_user_def validate_domain_def validate_route_def no_change_def
      unwrap_or_def update_upstream_def update_ports_ok_def update_direct_checks_def update_route_check_def
      check_route_def wp_find_all update_node_check_def update_apply_def wp_update_checked update_restart_def
      config_changed_def enabled_changed_def changed_to_def update_fields_def proxy_shape_def route_free_def
      no_conflict_def)

text \<open>A node that stops the listener, but does not start the changed one.\<close>

definition refusing_world :: world where
  "refusing_world = running_world\<lparr>w_node_answers := [Some (Some (CommandAck True None)),
     Some (Some (CommandAck False None)), Some (Some (CommandAck True None))]\<rparr>"

lemma shop_revert:
  assumes "db_proxies (w_db w) = [p]" "p_id p = 1" "p_client_id p = Some (int_str 3)" "p_node_id p = Some 1"
    and "proxy_shape (revert_fields shop_proxy (w_now w) p)"
    and "w_faults w = []" "w_uuids w = [rid, rid']" "w_closed w = []"
    and "w_node_answers w = [Some (Some (CommandAck True None))]" "node_session w 1 = Some s"
  shows "wp (update_revert node_control (int_str 3) shop_proxy) (\<lambda>_ w'. w_uuids w' = [rid']) w"
proof -
  let ?p = "revert_fields shop_proxy (w_now w) p"
  let ?w = "w\<lparr>w_db := (w_db w)\<lparr>db_proxies := [?p]\<rparr>\<rparr>"
  have "route_free (w_db w) ?p" using assms(1,2) by (simp add: route_free_def no_conflict_def revert_fields_def)
  moreover have "wp (pcl_start node_control (int_str 3) 1) (\<lambda>_ w'. w_uuids w' = [rid']) ?w"
    by (rule wp_mono, rule control_answered[where n = 1 and p = ?p])
       (use assms in \<open>auto simp: node_session_def row_get_def revert_fields_def or_default_def\<close>)
  ultimately show ?thesis
    using assms(1,2,5,6) by (simp add: update_revert_def wp_update_checked row_get_def row_upd_def wp_return_fun)
qed

lemma shop_restart_refused:
  assumes p: "db_proxies (w_db w) = [p]" "p_id p = 1" "p_client_id p = Some (int_str 3)" "p_node_id p = Some 1"
    "p_enabled p" "\<And>t. proxy_shape (revert_fields shop_proxy t p)"
    and w: "w_faults w = []" "w_uuids w = [a, b, c, d]" "w_closed w = []" "node_session w 1 = Some s"
      "w_node_answers w = [Some (Some (CommandAck True None)), Some (Some (CommandAck False None)),
         Some (Some (CommandAck True None))]"
  shows "wp (update_restart node_control (int_str 3) shop_proxy True p)
    (\<lambda>r w'. r = Inl (CONFLICT, M_start_failed (E_msg (M_peer_failed None))) \<and> w_uuids w' = [d]) w"
proof -
  let ?c = "int_str 3"
  have start: "wp (pcl_start node_control ?c 1) (\<lambda>r w'. r = Inl (E_msg (M_peer_failed None)) \<and>
      wp (update_revert node_control ?c shop_proxy) (\<lambda>_ v. w_uuids v = [d]) w') w1"
    if "w_db w1 = w_db w" "w_faults w1 = []" "w_closed w1 = []" "w_uuids w1 = [b, c, d]"
      "w_node_answers w1 = [Some (Some (CommandAck False None)), Some (Some (CommandAck True None))]"
      "node_session w1 1 = Some s" for w1 s
    by (rule wp_mono, rule control_answered[where n = 1 and p = p])
       (use that p in \<open>auto simp: row_get_def or_default_def intro!: shop_revert\<close>)
  have "wp (pcl_stop node_control ?c 1) (\<lambda>_. wp (pcl_start node_control ?c 1) (\<lambda>r w'.
      r = Inl (E_msg (M_peer_failed None)) \<and>
      wp (update_revert node_control ?c shop_proxy) (\<lambda>_ v. w_uuids v = [d]) w')) w"
    by (rule wp_mono, rule control_answered[where n = 1 and p = p])
       (use w p in \<open>auto simp: row_get_def or_default_def intro!: start\<close>)
  then show ?thesis
    using p(2,5) by (auto simp: update_restart_def elim!: wp_mono)
qed

lemma shop_update_refused:
  "wp (update_proxy node_control (\<lambda>_. None) 1 (Some root_user) (no_change\<lparr>ur_local_port := Some 23\<rparr>))
     (\<lambda>r w'. r = Inl (CONFLICT, M_start_failed (E_msg (M_peer_failed None))) \<and> w_uuids w' = [''u4'']) refusing_world"
  apply (simp add: update_proxy_def authenticated_def wp_find_by_id row_get_def update_checks_def Let_def refusing_world_def
      verify_proxy_ownership_def root_user_def validate_domain_def validate_route_def no_change_def
      unwrap_or_def update_upstream_def update_ports_ok_def update_direct_checks_def update_route_check_def
      check_route_def wp_find_all update_node_check_def update_apply_def wp_update_checked
      config_changed_def enabled_changed_def changed_to_def update_fields_def proxy_shape_def route_free_def
      no_conflict_def)
  apply (rule wp_mono, rule shop_restart_refused)
  by (auto simp: running_world_def shop_world_def node_session_def idle_world_def row_upd_def update_fields_def
      unwrap_or_def shop_proxy_def new_proxy_row_def shop_request_def proxy_shape_def revert_fields_def)

lemma shop_delete:
  "wp (delete_proxy node_control 1 (Some root_user)) (\<lambda>r w'. r = Inr ()) running_world"
proof -
  have "healthy running_world" by (simp add: healthy_def)
  then show ?thesis
    by (simp add: delete_proxy_def authenticated_def wp_find_by_id row_get_def verify_proxy_ownership_def
        root_user_def wp_delete_by_id) (rule nm.wp_stop_healthy, auto simp: healthy_def)
qed

lemma shop_refused:
  "wp (create_proxy node_control (\<lambda>_. None) (Some stranger) shop_request)
    (\<lambda>r w'. r = Inl (FORBIDDEN, M_no_access_client)) shop_world"
  by (simp add: create_proxy_def authenticated_def create_checks_def shop_request_def create_upstream_def
      create_client_def shop_ids wp_find_by_id shop_rows create_user_check_def stranger_def owner_client_def)

section \<open>Single proxies\<close>

text \<open>the schema of the database and the checks of the handler agree. A request that passes the
  checks yields a row every constraint of the table \<open>proxy\<close> accepts (the check on direct proxies, the
  foreign keys, the route trigger), provided the account of the caller still exists and the URL crate
  prints URLs as non-empty texts; so a checked request never runs into a refused insert.\<close>

theorem checked_create_is_admitted:
  assumes "ids_ok (w_db w)" "has_row u_id (a_id auth) (db_users (w_db w))"
    and "\<And>v u. url_parse v = Some u \<Longrightarrow> url_as_str u \<noteq> []"
  shows "wp (create_checks url_parse auth req)
    (\<lambda>r w'. \<forall>u dn now. r = Inr (u, dn) \<longrightarrow>
       ins_ok proxies_t (w_db w') (new_proxy_row auth req u dn now (sq_proxies (w_db w')))) w"
proof (rule wp_mono[OF wp_create_checks], intro allI impI)
  fix r w' u dn now
  assume "w_db w' = w_db w \<and> (\<forall>u dn. r = Inr (u, dn) \<longrightarrow> create_ok url_parse auth req (w_db w) u dn)"
    and "r = Inr (u, dn)"
  then have d: "w_db w' = w_db w" and ok: "create_ok url_parse auth req (w_db w) u dn" by auto
  let ?p = "new_proxy_row auth req u dn now (sq_proxies (w_db w))"
  have "no_conflict (w_db w) (cr_node_id req) (cr_remote_port req) (cr_type req) dn 0"
    using ok by (simp add: create_ok_def)
  then have "route_free (w_db w) ?p"
    using assms(1) by (fastforce simp: route_free_def no_conflict_def list_all_iff ids_ok_def)
  moreover have "proxy_shape ?p \<and> proxy_refs (w_db w) ?p"
  proof (cases "cr_upstream req = []")
    case True
    then obtain i where "parse_i64 (or_default (cr_client_id req)) = Some i"
      "has_row c_id i (db_clients (w_db w))" "u = []"
      using ok by (auto simp: create_ok_def client_access_def has_row_iff create_upstream_def)
    moreover have "parse_i64 [] = None" by (simp add: parse_i64_def)
    ultimately show ?thesis
      using True by (cases "cr_client_id req")
        (auto simp: proxy_shape_def proxy_refs_def new_proxy_row_def or_default_def)
  next
    case False
    then obtain url where "parse_upstream url_parse (cr_type req) (cr_upstream req) = Inr url"
      "u = url_as_str url" "cr_node_id req \<noteq> None"
      using ok by (auto simp: create_ok_def create_upstream_def split: if_splits sum.splits)
    then show ?thesis
      using False assms(2,3)
      by (auto simp: proxy_shape_def proxy_refs_def new_proxy_row_def parse_upstream_iff)
  qed
  ultimately show "ins_ok proxies_t (w_db w') (new_proxy_row auth req u dn now (sq_proxies (w_db w')))"
    by (simp add: d)
qed

lemma checked_create_is_admitted_witness:
  "wp (create_checks (\<lambda>_. None) root_user shop_request)
    (\<lambda>r w'. r = Inr ([], []) \<and> ins_ok proxies_t (w_db w') (new_proxy_row root_user shop_request [] [] (DT 0 0 0 0) 1))
    known_world"
proof (rule wp_both[OF known_create_passes checked_create_is_admitted])
  show "has_row u_id (a_id root_user) (db_users (w_db known_world))"
    by (simp add: has_row_def known_world_def root_user_def sample_user_def)
qed (use known_sel in auto)

text \<open>C2: a proxy is created only for an authenticated user whose request has passed every check:
  the client exists and belongs to the user (or the user is an administrator), the user's port range
  and count admit it, the node exists, is assigned to the user when dedicated and has room, the domain
  is valid for the type, no port is 0 and no enabled proxy of the node claims the same route. The new
  row is appended with exactly the requested fields, and nothing else in the database changes.\<close>

theorem create_proxy_checked:
  "wp (create_proxy node_control url_parse auth_opt req)
    (\<lambda>r w'. \<forall>p. r = Inr p \<longrightarrow>
       (\<exists>auth u dn now. auth_opt = Some auth \<and> create_ok url_parse auth req (w_db w) u dn \<and>
          p = new_proxy_row auth req u dn now (sq_proxies (w_db w)) \<and>
          w_db w' = with_proxy (w_db w) p)) w"
  by (rule nm.create_proxy_effect)

lemma create_proxy_checked_witness:
  "wp (create_proxy node_control (\<lambda>_. None) (Some root_user) shop_request)
    (\<lambda>r w'. \<exists>p u dn. r = Inr p \<and> create_ok (\<lambda>_. None) root_user shop_request shop_db u dn \<and>
       db_proxies (w_db w') = [p]) shop_world"
  by (rule wp_both[OF shop_create create_proxy_checked]) (fastforce simp: with_proxy_def)

text \<open>C1: creating, updating and deleting a proxy keeps the invariant of the proxy table: identifiers
  are unique and below the sequence, every row is either a direct or a tunnelled proxy, and no two
  enabled proxies of a node claim conflicting routes on a port. It is kept on every path, database
  faults and refused listeners included.\<close>

theorem proxy_handlers_keep_routes_disjoint:
  assumes "proxies_inv (w_db w)"
  shows "wp (create_proxy node_control url_parse auth_opt creq) (\<lambda>_ w'. proxies_inv (w_db w')) w \<and>
    wp (update_proxy node_control url_parse i auth_opt ureq) (\<lambda>_ w'. proxies_inv (w_db w')) w \<and>
    wp (delete_proxy node_control i auth_opt) (\<lambda>_ w'. proxies_inv (w_db w')) w"
proof (intro conjI)
  show "wp (create_proxy node_control url_parse auth_opt creq) (\<lambda>_ w'. proxies_inv (w_db w')) w"
    by (rule nm.create_proxy_keeps_inv[OF assms])
  show "wp (update_proxy node_control url_parse i auth_opt ureq) (\<lambda>_ w'. proxies_inv (w_db w')) w"
    by (rule nm.update_proxy_keeps_inv[OF assms])
  show "wp (delete_proxy node_control i auth_opt) (\<lambda>_ w'. proxies_inv (w_db w')) w"
    by (rule wp_mono[OF nm.delete_proxy_effect]) (metis assms old.sum.exhaust old.unit.exhaust proxies_inv_without)
qed

lemma proxy_handlers_keep_routes_disjoint_witness:
  "wp (create_proxy node_control (\<lambda>_. None) (Some stranger) shop_request)
     (\<lambda>_ w'. proxies_inv (w_db w')) shop_world"
  using proxy_handlers_keep_routes_disjoint[of shop_world] by simp

text \<open>C19: when the listener of a new proxy does not start, or any check fails, creation leaves the
  whole database as it was, except that an identifier is used up: the inserted row is taken back.\<close>

theorem failed_create_changes_nothing:
  assumes "healthy w" "ids_ok (w_db w)"
  shows "wp (create_proxy node_control url_parse auth_opt req)
    (\<lambda>r w'. \<forall>e. r = Inl e \<longrightarrow> same_but_sequence (w_db w) (w_db w')) w"
  by (rule nm.create_proxy_failed[OF assms])

lemma failed_create_changes_nothing_witness:
  "wp (create_proxy node_control (\<lambda>_. None) (Some stranger) shop_request)
    (\<lambda>r w'. r = Inl (FORBIDDEN, M_no_access_client) \<and> same_but_sequence shop_db (w_db w')) shop_world"
  by (rule wp_both[OF shop_refused failed_create_changes_nothing]) auto

text \<open>an update succeeds only for an owner of the proxy and after its checks; it changes that row
  only, never its client, user, node, group or traffic counters, and returns what it wrote.\<close>

theorem update_proxy_checked:
  "wp (update_proxy node_control url_parse i auth_opt req)
    (\<lambda>r w'. \<forall>p. r = Inr p \<longrightarrow>
       update_result url_parse i auth_opt req (w_db w) p (w_db w')) w"
  by (rule nm.update_proxy_effect)

lemma update_proxy_checked_witness:
  "wp (update_proxy node_control (\<lambda>_. None) 1 (Some root_user) (no_change\<lparr>ur_name := Some ''web''\<rparr>))
    (\<lambda>r w'. \<exists>p. r = Inr p \<and> p_name p = ''web'' \<and> update_result (\<lambda>_. None) 1 (Some root_user)
       (no_change\<lparr>ur_name := Some ''web''\<rparr>) (w_db running_world) p (w_db w')) running_world"
  by (rule wp_both[OF shop_update update_proxy_checked]) auto



text \<open>only an owner deletes a proxy; exactly that row goes, with its traffic history, and a refused
  or failed deletion changes nothing.\<close>

theorem delete_proxy_by_owner:
  "wp (delete_proxy node_control i auth_opt)
    (\<lambda>r w'. (r = Inr () \<longrightarrow>
         (\<exists>auth p. auth_opt = Some auth \<and> row_get p_id i (db_proxies (w_db w)) = Some p \<and>
            owns_proxy (w_db w) auth p \<and>
            w_db w' = without_proxy i (w_db w))) \<and>
       (\<forall>e. r = Inl e \<longrightarrow> w_db w' = w_db w)) w"
  by (rule nm.delete_proxy_effect)

lemma delete_proxy_by_owner_witness:
  "wp (delete_proxy node_control 1 (Some root_user)) (\<lambda>r w'. r = Inr () \<and> db_proxies (w_db w') = [])
     running_world"
  by (rule wp_both[OF shop_delete delete_proxy_by_owner]) (auto simp: row_del_def)

section \<open>Lists\<close>

text \<open>Client identifiers as the program writes them: distinct, in range and in decimal.\<close>

definition canonical_ids :: "db \<Rightarrow> bool" where
  "canonical_ids d =
    (distinct (map c_id (db_clients d)) \<and>
     list_all (\<lambda>c. - (2 ^ 63) \<le> c_id c \<and> c_id c < 2 ^ 63) (db_clients d) \<and>
     list_all (\<lambda>p. case p_client_id p of None \<Rightarrow> True
                  | Some s \<Rightarrow> (case parse_i64 s of Some i \<Rightarrow> s = int_str i | None \<Rightarrow> True)) (db_proxies d))"

lemma listed_iff_owned:
  assumes "canonical_ids d" "p \<in> set (db_proxies d)" "\<not> a_is_admin auth"
  shows "listed_for (map (\<lambda>c. int_str (c_id c))
      (filter (\<lambda>c. c_user_id c = Some (a_id auth)) (db_clients d))) (a_id auth) p = owns_proxy d auth p"
proof (cases "p_client_id p")
  case None
  then show ?thesis using assms(3) by (simp add: listed_for_def owns_proxy_def)
next
  case (Some s)
  have rng: "- (2 ^ 63) \<le> c_id c" "c_id c < 2 ^ 63" if "c \<in> set (db_clients d)" for c
    using assms(1) that by (auto simp: canonical_ids_def list_all_iff)
  have uniq: "row_get c_id (c_id c) (db_clients d) = Some c" if "c \<in> set (db_clients d)" for c
    using assms(1) that by (auto simp: canonical_ids_def intro: row_get_distinct)
  have canon: "s = int_str i" if "parse_i64 s = Some i" for i
    using assms(1,2) Some that by (auto simp: canonical_ids_def list_all_iff)
  have parse: "parse_i64 (int_str (c_id c)) = Some (c_id c)" if "c \<in> set (db_clients d)" for c
    by (rule parse_i64_int_str) (use rng[OF that] in auto)
  show ?thesis
  proof
    assume "listed_for (map (\<lambda>c. int_str (c_id c))
      (filter (\<lambda>c. c_user_id c = Some (a_id auth)) (db_clients d))) (a_id auth) p"
    then obtain c where c: "c \<in> set (db_clients d)" "c_user_id c = Some (a_id auth)" "s = int_str (c_id c)"
      using Some by (auto simp: listed_for_def)
    then show "owns_proxy d auth p" using Some parse uniq by (simp add: owns_proxy_def)
  next
    assume "owns_proxy d auth p"
    then obtain i c where "parse_i64 s = Some i" "row_get c_id i (db_clients d) = Some c"
      "c_user_id c = Some (a_id auth)"
      using Some assms(3) by (auto simp: owns_proxy_def split: option.splits)
    then show "listed_for (map (\<lambda>c. int_str (c_id c))
      (filter (\<lambda>c. c_user_id c = Some (a_id auth)) (db_clients d))) (a_id auth) p"
      using Some canon row_get_SomeD[of c_id i "db_clients d" c] by (auto simp: listed_for_def)
  qed
qed

text \<open>a user who is not an administrator is shown exactly the proxies he owns, when client
  identifiers in the database are in canonical decimal form.\<close>

theorem list_proxies_exact:
  assumes "healthy w" "canonical_ids (w_db w)" "\<not> a_is_admin auth"
  shows "wp (list_proxies (Some auth))
    (\<lambda>r w'. r = Inr (filter (owns_proxy (w_db w) auth) (db_proxies (w_db w))) \<and> w_db w' = w_db w) w"
proof -
  have "filter (listed_for (map (\<lambda>c. int_str (c_id c))
      (filter (\<lambda>c. c_user_id c = Some (a_id auth)) (db_clients (w_db w)))) (a_id auth)) (db_proxies (w_db w)) =
    filter (owns_proxy (w_db w) auth) (db_proxies (w_db w))"
    by (rule filter_cong[OF refl]) (rule listed_iff_owned[OF assms(2) _ assms(3)])
  then show ?thesis
    using assms(1,3) by (simp add: list_proxies_def authenticated_def wp_find_all healthy_def)
qed

lemma list_proxies_exact_witness:
  "wp (list_proxies (Some stranger)) (\<lambda>r w'. r = Inr []) shop_world"
  by (rule wp_mono, rule list_proxies_exact)
     (auto simp: canonical_ids_def shop_db_def owner_client_def stranger_def)

end
