(* ===== verification/GroupProps.thy ===== *)
theory GroupProps
  imports ProxyProps
begin

text \<open>
  The properties of batches and groups. Positive ones run with the node manager and, where they say
  that something succeeds, with a node that acknowledges its commands. The others show where the
  handlers let through what the handlers of single proxies refuse.
\<close>

section \<open>Batches\<close>

lemma wp_batch_checks:
  "wp (batch_checks auth req)
    (\<lambda>r w'. w_db w' = w_db w \<and> (r = Inr () \<longrightarrow> br_type req \<in> {''tcp'', ''udp''})) w"
  unfolding batch_checks_def
  apply (rule wp_stage[where R = "\<lambda>r. r = Inr () \<longrightarrow> br_type req \<in> {''tcp'', ''udp''}"], simp, simp)
  apply (rule wp_stage, rule wp_same[OF same_db_checks(1)], simp)
  apply (rule wp_stage, rule wp_same[OF same_db_checks(2)], simp)
  apply (rule wp_stage, rule wp_same[OF same_db_user_ports], simp)
  apply (rule wp_stage, rule wp_same[OF same_db_checks(3)], simp)
  by (rule wp_mono[OF wp_check_ports]) auto

lemma healthy_batch [intro!]: "keeps healthy (batch_checks auth req)"
  unfolding batch_checks_def by auto

lemma wp_batch_group_id: "wp (batch_group_id req) (\<lambda>r w'. w_db w' = w_db w \<and> True) w"
  by (simp add: batch_group_id_def wp_new_uuid split: list.splits)

lemma healthy_group_id: "keeps healthy (batch_group_id req)"
  unfolding batch_group_id_def by auto

lemma wp_batch:
  assumes "\<And>auth g v. auth_opt = Some auth \<Longrightarrow> w_db v = w_db w \<Longrightarrow> healthy w \<longrightarrow> healthy v \<Longrightarrow>
      br_type req \<in> {''tcp'', ''udp''} \<Longrightarrow>
      wp (create_members ctl (br_client_id req) (batch_member req g (w_now v)) 0 (br_remote_ports req) [])
        (\<lambda>r w'. Q r (w_db w')) v"
    and "\<And>e. Q (Inl e) (w_db w)"
  shows "wp (batch_create_proxies ctl auth_opt req) (\<lambda>r w'. Q r (w_db w')) w"
  unfolding batch_create_proxies_def
  apply (rule wp_stage_healthy, rule wp_authenticated, rule healthy_checks, simp add: assms(2))
  apply (rule wp_stage_healthy, rule wp_batch_checks, rule healthy_batch, simp add: assms(2))
  apply (rule wp_stage_healthy, rule wp_batch_group_id, rule healthy_group_id, simp add: assms(2))
  unfolding wp_bind wp_utc_now wp_and_then
  subgoal premises p for auth w1 x w2 g w3
    by (rule wp_mono[OF assms(1)]) (use p in \<open>auto split: sum.splits\<close>)
  done

text \<open>Members of one transport on one node have distinct ports when the table is sound.\<close>

lemma members_distinct:
  assumes "proxies_inv d'" "same_but_sequence (d\<lparr>db_proxies := t @ ps\<rparr>) d'"
    and "list_all (member_of nd k) ps" "k \<in> {''tcp'', ''udp''}"
  shows "distinct (map p_remote_port ps)"
proof (rule ccontr)
  have t: "db_proxies d' = t @ ps"
    using arg_cong[OF assms(2)[unfolded same_but_sequence_def], of db_proxies] by simp
  assume "\<not> distinct (map p_remote_port ps)"
  then obtain i j where ij: "i < length ps" "j < length ps" "i \<noteq> j" "p_remote_port (ps ! i) = p_remote_port (ps ! j)"
    unfolding distinct_conv_nth by auto
  have "distinct (map p_id ps)" using assms(1) t by (simp add: proxies_inv_def ids_ok_def)
  then have "p_id (ps ! i) \<noteq> p_id (ps ! j)" using ij by (simp add: distinct_conv_nth)
  moreover have in_t: "ps ! i \<in> set (t @ ps)" "ps ! j \<in> set (t @ ps)" using ij by simp_all
  moreover have m: "member_of nd k (ps ! i)" "member_of nd k (ps ! j)"
    using assms(3) ij by (simp_all add: list_all_length)
  ultimately have "\<not> routes_conflict (p_type (ps ! i)) (p_domain (ps ! i)) (p_type (ps ! j)) (p_domain (ps ! j))"
    using assms(1) ij(4) unfolding proxies_inv_def routes_ok_iff t member_of_def by metis
  then show False using m assms(4) by (auto simp: routes_conflict_def member_of_def)
qed

text \<open>C21: a batch is all or nothing. With no database fault, either every requested port has a row, in
  order, appended to the table, the ports being distinct, or the database is as it was (identifiers
  apart), however far the loop had come when a listener failed or a row was refused.\<close>

theorem batch_all_or_nothing:
  assumes "healthy w" "proxies_inv (w_db w)"
  shows "wp (batch_create_proxies node_control auth_opt req)
    (\<lambda>r w'. (\<forall>e. r = Inl e \<longrightarrow> same_but_sequence (w_db w) (w_db w')) \<and>
       (\<forall>ps. r = Inr ps \<longrightarrow>
          same_but_sequence ((w_db w)\<lparr>db_proxies := db_proxies (w_db w) @ ps\<rparr>) (w_db w') \<and>
          map p_remote_port ps = br_remote_ports req \<and> distinct (br_remote_ports req))) w"
proof (rule wp_batch)
  fix auth g and v :: world
  assume v: "w_db v = w_db w" "healthy w \<longrightarrow> healthy v" "br_type req \<in> {''tcp'', ''udp''}"
  let ?cm = "create_members node_control (br_client_id req) (batch_member req g (w_now v)) 0 (br_remote_ports req) []"
  have ids: "ids_ok (w_db w)" using assms(2) by (simp add: proxies_inv_def)
  have "wp ?cm (\<lambda>r w'. proxies_inv (w_db w')) v"
    by (rule nm.create_members_inv[OF _ mk_ok_member(1)]) (use v assms in simp)
  moreover have "wp ?cm (\<lambda>r w'. (\<forall>e. r = Inl e \<longrightarrow> same_but_sequence (w_db w) (w_db w')) \<and>
       (\<forall>ps. r = Inr ps \<longrightarrow> same_but_sequence ((w_db w)\<lparr>db_proxies := db_proxies (w_db w) @ ps\<rparr>) (w_db w') \<and>
          map p_remote_port ps = map p_remote_port [] @ br_remote_ports req \<and>
          list_all (member_of (br_node_id req) (br_type req)) ps)) v"
    using nm.create_members_all_or_nothing[of v "w_db w" "batch_member req g (w_now v)" "br_node_id req" "br_type req" "br_client_id req" "[]"]
    using v assms ids by simp
  ultimately show "wp ?cm (\<lambda>r w'. (\<forall>e. r = Inl e \<longrightarrow> same_but_sequence (w_db w) (w_db w')) \<and>
       (\<forall>ps. r = Inr ps \<longrightarrow>
          same_but_sequence ((w_db w)\<lparr>db_proxies := db_proxies (w_db w) @ ps\<rparr>) (w_db w') \<and>
          map p_remote_port ps = br_remote_ports req \<and> distinct (br_remote_ports req))) v"
  proof (rule wp_both)
    fix r and w' :: world
    assume inv: "proxies_inv (w_db w')"
      and h: "(\<forall>e. r = Inl e \<longrightarrow> same_but_sequence (w_db w) (w_db w')) \<and>
       (\<forall>ps. r = Inr ps \<longrightarrow> same_but_sequence ((w_db w)\<lparr>db_proxies := db_proxies (w_db w) @ ps\<rparr>) (w_db w') \<and>
          map p_remote_port ps = map p_remote_port [] @ br_remote_ports req \<and>
          list_all (member_of (br_node_id req) (br_type req)) ps)"
    show "(\<forall>e. r = Inl e \<longrightarrow> same_but_sequence (w_db w) (w_db w')) \<and>
       (\<forall>ps. r = Inr ps \<longrightarrow>
          same_but_sequence ((w_db w)\<lparr>db_proxies := db_proxies (w_db w) @ ps\<rparr>) (w_db w') \<and>
          map p_remote_port ps = br_remote_ports req \<and> distinct (br_remote_ports req))"
    proof (cases r)
      case (Inr ps)
      then have "distinct (map p_remote_port ps)"
        using h members_distinct[OF inv, where d = "w_db w" and t = "db_proxies (w_db w)" and ps = ps
          and nd = "br_node_id req" and k = "br_type req"] v(3)
        by simp
      then show ?thesis using h Inr by simp
    qed (use h in simp)
  qed
qed simp

definition shop_batch :: "u16 list \<Rightarrow> batch_req" where
  "shop_batch ports =
    \<lparr>br_client_id = int_str 3, br_name = ''ssh'', br_type = ''tcp'', br_local_ip = ''127.0.0.1'',
     br_local_ports = [22], br_remote_ports = ports, br_node_id = Some 1\<rparr>"

lemma batch_all_or_nothing_witness:
  "wp (batch_create_proxies node_control (Some stranger) (shop_batch [8022, 8022]))
    (\<lambda>r w'. (\<exists>e. r = Inl e) \<and> same_but_sequence shop_db (w_db w')) shop_world"
proof (rule wp_mono, rule batch_all_or_nothing)
  show "(\<exists>e. r = Inl e) \<and> same_but_sequence shop_db (w_db w')"
    if "(\<forall>e. r = Inl e \<longrightarrow> same_but_sequence (w_db shop_world) (w_db w')) \<and>
       (\<forall>ps. r = Inr ps \<longrightarrow>
          same_but_sequence ((w_db shop_world)\<lparr>db_proxies := db_proxies (w_db shop_world) @ ps\<rparr>) (w_db w') \<and>
          map p_remote_port ps = br_remote_ports (shop_batch [8022, 8022]) \<and>
          distinct (br_remote_ports (shop_batch [8022, 8022])))" for r w'
    using that by (cases r) (auto simp: shop_batch_def)
qed simp_all

section \<open>Batches on a node that acknowledges\<close>

lemma member_admitted:
  assumes "mk_ok mk (Some n) k c" "k \<in> {''tcp'', ''udp''}" "ports_free d (Some n) [port]"
    and "parse_i64 c = Some j" "has_row c_id j (db_clients d)"
  shows "ins_ok proxies_t d (mk i port q)"
  using assms
  by (auto simp: mk_ok_def member_of_def proxy_shape_def proxy_refs_def route_free_def no_conflict_def
      ports_free_def list_all_iff)

lemma members_created:
  assumes "obliging n (length ports) w" "ids_ok (w_db w)" "mk_ok mk (Some n) k c" "k \<in> {''tcp'', ''udp''}"
    and "ports_free (w_db w) (Some n) ports" "distinct ports"
    and "parse_i64 c = Some j" "has_row c_id j (db_clients (w_db w))"
  shows "wp (create_members node_control c mk i ports created)
    (\<lambda>r w'. \<exists>new. r = Inr (created @ new) \<and> map p_remote_port new = ports \<and>
       list_all (\<lambda>p. p_client_id p = Some c \<and> p_node_id p = Some n \<and> p_enabled p \<and> p_type p = k) new \<and>
       db_proxies (w_db w') = db_proxies (w_db w) @ new \<and> ids_ok (w_db w') \<and>
       db_clients (w_db w') = db_clients (w_db w)) w"
  using assms(1,2,5,6,8)
proof (induction ports arbitrary: w i created)
  case (Cons port ports)
  let ?p = "mk i port (sq_proxies (w_db w))"
  let ?w1 = "(pop_fault w)\<lparr>w_db := with_proxy (w_db w) ?p\<rparr>"
  have m: "p_id ?p = sq_proxies (w_db w)" "p_remote_port ?p = port" "p_node_id ?p = Some n"
    "or_default (p_client_id ?p) = c" "p_client_id ?p = Some c" "p_enabled ?p" "p_type ?p = k"
    using assms(3) by (simp_all add: mk_ok_def member_of_def or_default_def)
  have free: "ports_free (w_db w) (Some n) [port]" "ports_free (w_db w) (Some n) ports"
    using Cons.prems(3) by (simp_all add: ports_free_Cons[of _ _ port ports])
  note adm = member_admitted[OF assms(3,4) free(1) assms(7) Cons.prems(5), of i "sq_proxies (w_db w)"]
  have f: "w_faults w = []" using Cons.prems(1) by (simp add: obliging_def)
  have o1: "obliging n (Suc (length ports)) ?w1"
    using Cons.prems(1) f by (auto simp: obliging_def node_session_def split: option.splits)
  have ids: "ids_ok (with_proxy (w_db w) ?p)" by (rule ids_ok_with[OF Cons.prems(2) m(1)])
  then have "distinct (map p_id (db_proxies (with_proxy (w_db w) ?p)))" by (simp add: ids_ok_def)
  from row_get_distinct[OF this, of ?p]
  have g: "row_get p_id (p_id ?p) (db_proxies (w_db ?w1)) = Some ?p" by simp
  have free': "ports_free (with_proxy (w_db w) ?p) (Some n) ports"
    using free(2) Cons.prems(4) m by (auto simp: ports_free_def list_all_iff)
  show ?case
    using f adm
    apply (simp add: wp_insert_proxy no_faults del: table_laws)
    apply (rule wp_mono)
     apply (rule start_obliging[where n = n and k = "length ports"])
        apply (use o1 f g m in \<open>simp_all\<close>)
    apply (elim conjE)
    apply (rule wp_mono, rule Cons.IH)
    using ids m free' Cons.prems(4,5) by auto
qed simp

text \<open>What the checks of a batch on a shared node amount to.\<close>

definition batch_admitted :: "db \<Rightarrow> batch_req \<Rightarrow> int \<Rightarrow> client_row \<Rightarrow> bool" where
  "batch_admitted d req n client =
    ((br_type req = ''tcp'' \<or> br_type req = ''udp'') \<and> br_remote_ports req \<noteq> [] \<and>
     distinct (br_remote_ports req) \<and>
     (length (br_local_ports req) = 1 \<or> length (br_local_ports req) = length (br_remote_ports req)) \<and>
     (\<exists>i. parse_i64 (br_client_id req) = Some i \<and> row_get c_id i (db_clients d) = Some client) \<and>
     br_node_id req = Some n \<and>
     (\<exists>row. row_get n_id n (db_nodes d) = Some row \<and> n_node_type row \<noteq> ''dedicated'') \<and>
     list_all (\<lambda>port. (\<forall>u. c_user_id client = Some u \<longrightarrow> user_port_ok d u port) \<and> node_port_ok d n port 0)
       (br_remote_ports req) \<and>
     ports_free d (Some n) (br_remote_ports req))"

text \<open>A stage that passes and leaves the world alone.\<close>

lemma wp_pass:
  assumes "wp m (\<lambda>r w'. r = Inr x \<and> w' = w) w" "wp (f x) Q w"
  shows "wp (and_then m f) Q w"
  unfolding wp_and_then by (rule wp_mono[OF assms(1)]) (use assms(2) in auto)

lemma user_ports_pass:
  assumes "w_faults w = []" "list_all (user_port_ok (w_db w) u) ports"
  shows "wp (check_user_ports u ports) (\<lambda>r w'. r = Inr () \<and> w' = w) w"
  using assms(2)
proof (induction ports)
  case (Cons port ports)
  have p: "wp (and_then (or_fail internal (validate_user_port_limit u port)) allowed_or)
    (\<lambda>r w'. r = Inr () \<and> w' = w) w"
    unfolding wp_and_then wp_or_fail
    by (rule wp_mono[OF user_limit_exact[OF assms(1)]]) (use Cons.prems in \<open>auto simp: allowed_or_def\<close>)
  show ?case
    unfolding check_user_ports.simps by (rule wp_pass[OF p]) (use Cons in auto)
qed simp

lemma port_free_pass:
  assumes "w_faults w = []" "ports_free (w_db w) nd [port]"
  shows "wp (check_port_free nd port) (\<lambda>r w'. r = Inr () \<and> w' = w) w"
proof -
  have "find (\<lambda>p. p_remote_port p = port \<and> p_enabled p \<and> p_node_id p = nd) (db_proxies (w_db w)) = None"
    using assms(2) unfolding find_None_iff ports_free_def list_all_iff by auto
  then show ?thesis using assms(1) by (simp add: check_port_free_def wp_find_one)
qed

lemma ports_pass:
  assumes "w_faults w = []" "list_all (\<lambda>port. node_port_ok (w_db w) n port 0) ports"
    and "ports_free (w_db w) (Some n) ports"
  shows "wp (check_ports (Some n) ports) (\<lambda>r w'. r = Inr () \<and> w' = w) w"
  using assms(2,3)
proof (induction ports)
  case (Cons port ports)
  have f: "ports_free (w_db w) (Some n) [port]" "ports_free (w_db w) (Some n) ports"
    using Cons.prems(2) by (simp_all add: ports_free_Cons[of _ _ port ports])
  have p: "wp (check_node_limit (Some n) port) (\<lambda>r w'. r = Inr () \<and> w' = w) w"
    unfolding check_node_limit_def option.case validate_node_proxy_limit_def wp_and_then wp_or_fail
    by (rule wp_mono[OF node_limit_exact[OF assms(1)]]) (use Cons.prems in \<open>auto simp: allowed_or_def\<close>)
  show ?case
    unfolding check_ports.simps
    by (rule wp_pass[OF p], rule wp_pass[OF port_free_pass[OF assms(1) f(1)]]) (use Cons f in auto)
qed simp

lemma batch_checks_pass:
  assumes "w_faults w = []" "batch_admitted (w_db w) req n client"
  shows "wp (batch_checks auth req) (\<lambda>r w'. r = Inr () \<and> w' = w) w"
proof -
  obtain i row where i: "parse_i64 (br_client_id req) = Some i"
    "row_get c_id i (db_clients (w_db w)) = Some client"
    "row_get n_id n (db_nodes (w_db w)) = Some row" "n_node_type row \<noteq> ''dedicated''"
    using assms(2) by (auto simp: batch_admitted_def)
  have limits: "wp (batch_user_limits auth client (br_remote_ports req)) (\<lambda>r w'. r = Inr () \<and> w' = w) w"
    using assms user_ports_pass[OF assms(1)]
    by (auto simp: batch_user_limits_def batch_admitted_def list_all_iff split: option.splits)
  have ports: "wp (check_ports (Some n) (br_remote_ports req)) (\<lambda>r w'. r = Inr () \<and> w' = w) w"
    by (rule ports_pass) (use assms in \<open>auto simp: batch_admitted_def list_all_iff\<close>)
  have node: "wp (batch_node_access auth client (Some n)) (\<lambda>r w'. r = Inr () \<and> w' = w) w"
    using assms(1) i by (simp add: batch_node_access_def wp_find_by_id)
  have adm: "br_type req = ''tcp'' \<or> br_type req = ''udp''" "br_remote_ports req \<noteq> []"
    "length (br_local_ports req) = 1 \<or> length (br_local_ports req) = length (br_remote_ports req)"
    "br_node_id req = Some n"
    using assms(2) by (auto simp: batch_admitted_def)
  have head: "wp (check_port_lists (br_local_ports req) (br_remote_ports req)) (\<lambda>r w'. r = Inr () \<and> w' = w) w"
    "wp (batch_client (br_client_id req)) (\<lambda>r w'. r = Inr client \<and> w' = w) w"
    using adm i assms(1) by (auto simp: check_port_lists_def batch_client_def wp_find_by_id)
  show ?thesis
    unfolding batch_checks_def adm(4)
    by (rule wp_pass, use adm(1) in simp, rule wp_pass[OF head(1)], rule wp_pass[OF head(2)],
        rule wp_pass[OF limits], rule wp_pass[OF node], rule ports)
qed

text \<open>An admitted batch with an obliging node goes through.\<close>

lemma batch_runs:
  assumes "obliging n (Suc (length (br_remote_ports req))) w" "ids_ok (w_db w)"
    and "batch_admitted (w_db w) req n client"
  shows "wp (batch_create_proxies node_control (Some auth) req)
    (\<lambda>r w'. \<exists>ps. r = Inr ps \<and> map p_remote_port ps = br_remote_ports req \<and>
       list_all (\<lambda>p. p_client_id p = Some (br_client_id req) \<and> p_node_id p = Some n \<and> p_enabled p \<and>
         p_type p = br_type req) ps \<and>
       db_proxies (w_db w') = db_proxies (w_db w) @ ps \<and> ids_ok (w_db w') \<and>
       db_clients (w_db w') = db_clients (w_db w)) w"
proof -
  let ?Q = "\<lambda>r w'. \<exists>ps. r = Inr ps \<and> map p_remote_port ps = br_remote_ports req \<and>
       list_all (\<lambda>p. p_client_id p = Some (br_client_id req) \<and> p_node_id p = Some n \<and> p_enabled p \<and>
         p_type p = br_type req) ps \<and>
       db_proxies (w_db w') = db_proxies (w_db w) @ ps \<and> ids_ok (w_db w') \<and>
       db_clients (w_db w') = db_clients (w_db w)"
  have f: "w_faults w = []" using assms(1) by (simp add: obliging_def)
  have nd: "br_node_id req = Some n" using assms(3) by (simp add: batch_admitted_def)
  obtain i where i: "parse_i64 (br_client_id req) = Some i" "row_get c_id i (db_clients (w_db w)) = Some client"
    using assms(3) by (auto simp: batch_admitted_def)
  have run: "wp (and_then (create_members node_control (br_client_id req) (batch_member req g (w_now v)) 0
      (br_remote_ports req) []) (\<lambda>created. and_then (spawn_notify (br_client_id req)) (\<lambda>_. finish created))) ?Q v"
    if v: "w_db v = w_db w" "obliging n (length (br_remote_ports req)) v" for v g
    unfolding wp_and_then
  proof (rule wp_mono, rule members_created[where n = n and c = "br_client_id req" and k = "br_type req"])
    show "mk_ok (batch_member req g (w_now v)) (Some n) (br_type req) (br_client_id req)"
      using mk_ok_member(1)[of req g "w_now v"] nd by simp
    show "parse_i64 (br_client_id req) = Some i" "has_row c_id i (db_clients (w_db v))"
      using i v by (simp_all add: has_row_iff)
  qed (use v assms(2,3) in \<open>auto simp: batch_admitted_def\<close>)
  obtain rid us where u: "w_uuids w = rid # us"
    using assms(1) by (cases "w_uuids w") (auto simp: obliging_def)
  have less: "obliging n (length (br_remote_ports req)) w"
    "obliging n (length (br_remote_ports req)) (w\<lparr>w_uuids := us\<rparr>)"
    using obliging_less[OF assms(1)] u by auto
  show ?thesis
    unfolding batch_create_proxies_def authenticated_def
    apply (rule wp_pass[where x = auth], simp)
    apply (rule wp_pass[OF batch_checks_pass[OF f assms(3)]])
    apply (subst wp_and_then)
    using run[OF _ less(1), of None] run[OF _ less(2), of "Some rid"] u
    by (simp add: batch_group_id_def wp_new_uuid del: wp_and_then)
qed

section \<open>What batches let through\<close>

text \<open>on a shared node a batch never asks who owns the client. A user who is not an administrator
  creates proxies on another user's client, which \<open>create_proxy\<close> refuses, and does not even own them.\<close>

theorem batch_ignores_client_owner:
  assumes "obliging n (Suc (length (br_remote_ports req))) w" "ids_ok (w_db w)"
    and "batch_admitted (w_db w) req n client"
    and "\<not> a_is_admin auth" "c_user_id client \<noteq> Some (a_id auth)"
  shows "wp (batch_create_proxies node_control (Some auth) req)
    (\<lambda>r w'. \<exists>ps. r = Inr ps \<and> map p_remote_port ps = br_remote_ports req \<and>
       db_proxies (w_db w') = db_proxies (w_db w) @ ps \<and>
       list_all (\<lambda>p. p_enabled p \<and> \<not> owns_proxy (w_db w') auth p) ps) w"
proof (rule wp_mono, rule batch_runs[OF assms(1-3)])
  obtain i where i: "parse_i64 (br_client_id req) = Some i" "row_get c_id i (db_clients (w_db w)) = Some client"
    using assms(3) by (auto simp: batch_admitted_def)
  fix r w'
  assume "\<exists>ps. r = Inr ps \<and> map p_remote_port ps = br_remote_ports req \<and>
       list_all (\<lambda>p. p_client_id p = Some (br_client_id req) \<and> p_node_id p = Some n \<and> p_enabled p \<and>
         p_type p = br_type req) ps \<and>
       db_proxies (w_db w') = db_proxies (w_db w) @ ps \<and> ids_ok (w_db w') \<and>
       db_clients (w_db w') = db_clients (w_db w)"
  then show "\<exists>ps. r = Inr ps \<and> map p_remote_port ps = br_remote_ports req \<and>
       db_proxies (w_db w') = db_proxies (w_db w) @ ps \<and>
       list_all (\<lambda>p. p_enabled p \<and> \<not> owns_proxy (w_db w') auth p) ps"
    using i assms(4,5) by (auto simp: owns_proxy_def list_all_iff)
qed

lemma shop_admits:
  assumes "ports \<noteq> []" "distinct ports"
  shows "batch_admitted shop_db (shop_batch ports) 1 owner_client"
proof -
  have "parse_i64 (int_str 3) = Some 3" by (rule parse_i64_int_str) simp_all
  moreover have "user_port_ok shop_db 7 port" for port
    by (simp add: user_port_ok_def shop_db_def row_get_def sample_user_def user_ports_def i32_as_u64_def)
  moreover have "node_port_ok shop_db 1 port 0" for port
    by (simp add: node_port_ok_def shop_db_def row_get_def sample_node_def)
  ultimately show ?thesis
    using assms
    by (simp add: batch_admitted_def shop_batch_def shop_db_def row_get_def owner_client_def
        sample_node_def list_all_iff ports_free_def)
qed

lemma batch_ignores_client_owner_witness:
  "wp (batch_create_proxies node_control (Some stranger) (shop_batch [8022]))
    (\<lambda>r w'. \<exists>p. r = Inr [p] \<and> p_remote_port p = 8022 \<and> \<not> owns_proxy (w_db w') stranger p) shop_world"
proof (rule wp_mono, rule batch_ignores_client_owner)
  show "obliging 1 (Suc (length (br_remote_ports (shop_batch [8022])))) shop_world"
    by (rule shop_obliging) (simp add: shop_batch_def)
  show "batch_admitted (w_db shop_world) (shop_batch [8022]) 1 owner_client"
    using shop_admits[of "[8022]"] by simp
qed (auto simp: stranger_def owner_client_def shop_batch_def)

text \<open>the port count of a batch is checked before anything is created, port by port against the
  same database. A user below his limit goes over it by asking for several ports at once.\<close>

theorem batch_exceeds_port_count:
  assumes "obliging n (Suc (length (br_remote_ports req))) w" "ids_ok (w_db w)"
    and "batch_admitted (w_db w) req n client"
    and "c_user_id client = Some u" "br_client_id req = int_str (c_id client)"
    and "row_get u_id u (db_users (w_db w)) = Some user" "u_max_port user = Some m"
    and "i32_as_u64 m < user_ports (w_db w) u + length (br_remote_ports req)"
  shows "wp (batch_create_proxies node_control (Some auth) req)
    (\<lambda>r w'. (\<exists>ps. r = Inr ps) \<and> i32_as_u64 m < user_ports (w_db w') u) w"
proof (rule wp_mono, rule batch_runs[OF assms(1-3)])
  have c: "client \<in> set (db_clients (w_db w))"
    using assms(3) by (auto simp: batch_admitted_def dest: row_get_SomeD)
  fix r w'
  assume "\<exists>ps. r = Inr ps \<and> map p_remote_port ps = br_remote_ports req \<and>
       list_all (\<lambda>p. p_client_id p = Some (br_client_id req) \<and> p_node_id p = Some n \<and> p_enabled p \<and>
         p_type p = br_type req) ps \<and>
       db_proxies (w_db w') = db_proxies (w_db w) @ ps \<and> ids_ok (w_db w') \<and>
       db_clients (w_db w') = db_clients (w_db w)"
  then obtain ps where ps: "r = Inr ps" "length ps = length (br_remote_ports req)"
    "\<forall>p \<in> set ps. p_client_id p = Some (br_client_id req)"
    "db_proxies (w_db w') = db_proxies (w_db w) @ ps" "db_clients (w_db w') = db_clients (w_db w)"
    by (auto simp: list_all_iff) (metis length_map)
  have "counts_for (map c_id (filter (\<lambda>c. c_user_id c = Some u) (db_clients (w_db w)))) u p"
    if "p \<in> set ps" for p
    using ps(3) that c assms(4,5) by (auto simp: counts_for_def)
  then have "filter (counts_for (map c_id (filter (\<lambda>c. c_user_id c = Some u) (db_clients (w_db w)))) u) ps = ps"
    by (simp add: filter_id_conv)
  then have "user_ports (w_db w') u = user_ports (w_db w) u + length ps"
    by (simp add: user_ports_def ps(4,5))
  then show "(\<exists>ps. r = Inr ps) \<and> i32_as_u64 m < user_ports (w_db w') u"
    using ps(1,2) assms(8) by simp
qed

lemma batch_exceeds_port_count_witness:
  "wp (batch_create_proxies node_control (Some stranger) (shop_batch [8022, 8023]))
    (\<lambda>r w'. (\<exists>ps. r = Inr ps) \<and> 1 < user_ports (w_db w') 7) shop_world"
proof -
  have m: "i32_as_u64 1 = 1" by (simp add: i32_as_u64_nonneg)
  show ?thesis
    unfolding m[symmetric]
  proof (rule batch_exceeds_port_count[where client = owner_client and user = "sample_user\<lparr>u_max_port := Some 1\<rparr>"])
    show "obliging 1 (Suc (length (br_remote_ports (shop_batch [8022, 8023])))) shop_world"
      by (rule shop_obliging) (simp add: shop_batch_def)
    show "batch_admitted (w_db shop_world) (shop_batch [8022, 8023]) 1 owner_client"
      using shop_admits[of "[8022, 8023]"] by simp
    show "row_get u_id 7 (db_users (w_db shop_world)) = Some (sample_user\<lparr>u_max_port := Some 1\<rparr>)"
      by (simp add: shop_db_def row_get_def sample_user_def)
  qed (simp_all add: owner_client_def shop_batch_def m)
qed

section \<open>Toggling and deleting groups\<close>

text \<open>The table with some rows switched.\<close>

definition toggled :: "int set \<Rightarrow> bool \<Rightarrow> naive_dt \<Rightarrow> proxy_row list \<Rightarrow> proxy_row list" where
  "toggled M en now t = map (\<lambda>r. if p_id r \<in> M then toggle_fields en now r else r) t"

lemma toggle_fields_sel [simp]:
  "p_id (toggle_fields en now p) = p_id p" "p_enabled (toggle_fields en now p) = en"
  "p_node_id (toggle_fields en now p) = p_node_id p" "p_remote_port (toggle_fields en now p) = p_remote_port p"
  "p_type (toggle_fields en now p) = p_type p" "p_domain (toggle_fields en now p) = p_domain p"
  "p_group_id (toggle_fields en now p) = p_group_id p"
  "proxy_shape (toggle_fields en now p) = proxy_shape p"
  "toggle_fields en now (toggle_fields en now p) = toggle_fields en now p"
  by (simp_all add: toggle_fields_def proxy_shape_def)

lemma row_get_toggled:
  "row_get p_id i (toggled M en now t) =
    map_option (\<lambda>r. if p_id r \<in> M then toggle_fields en now r else r) (row_get p_id i t)"
  by (induction t) (auto simp: toggled_def row_get_def)

lemma row_upd_toggled:
  "row_upd p_id i (toggle_fields en now) (toggled M en now t) = toggled (insert i M) en now t"
  by (induction t) (auto simp: toggled_def row_upd_def)

lemma toggled_absent: "row_get p_id i t = None \<Longrightarrow> toggled (insert i M) en now t = toggled M en now t"
  using row_get_None_iff[of p_id i t] by (auto simp: toggled_def image_iff)

text \<open>A switch on the way to a sound table is accepted.\<close>

lemma toggle_accepted:
  assumes "routes_ok (toggled M en now t)" "S \<subseteq> M" "p_id r \<in> M" "r \<in> set t" "proxy_shape r"
  shows "upd_ok proxies_t (d\<lparr>db_proxies := toggled S en now t\<rparr>) (toggle_fields en now r)"
proof -
  have "\<not> routes_conflict (p_type r) (p_domain r) (p_type q) (p_domain q)"
    if en: en and q: "q \<in> set (toggled S en now t)" "p_enabled q" "p_id q \<noteq> p_id r"
      "p_node_id q = p_node_id r" "p_remote_port q = p_remote_port r" for q
  proof -
    obtain q0 where q0: "q0 \<in> set t" "q = (if p_id q0 \<in> S then toggle_fields en now q0 else q0)"
      using q(1) by (auto simp: toggled_def)
    let ?q = "if p_id q0 \<in> M then toggle_fields en now q0 else q0" and ?r = "toggle_fields en now r"
    have "?q \<in> set (toggled M en now t)" "?r \<in> set (toggled M en now t)"
      using q0(1) assms(3,4) by (force simp: toggled_def)+
    moreover have "p_enabled ?q" "p_enabled ?r" "p_id ?r \<noteq> p_id ?q" "p_node_id ?r = p_node_id ?q"
      "p_remote_port ?r = p_remote_port ?q" "p_type ?q = p_type q" "p_domain ?q = p_domain q"
      using en q q0(2) assms(2) by (auto split: if_splits)
    ultimately have "\<not> routes_conflict (p_type ?r) (p_domain ?r) (p_type ?q) (p_domain ?q)"
      using assms(1) unfolding routes_ok_iff by blast
    then show ?thesis using q0(2) by (simp split: if_splits)
  qed
  then show ?thesis
    using assms(5) by (auto simp: route_free_def no_conflict_def list_all_iff)
qed

lemma toggle_fold:
  assumes "proxies_inv d" "routes_ok (toggled M en now (db_proxies d))"
  shows "S \<union> p_id ` {p \<in> set ps. p_enabled p \<noteq> en} \<subseteq> M \<Longrightarrow>
    fold (toggle_step en now) ps (d\<lparr>db_proxies := toggled S en now (db_proxies d)\<rparr>) =
    d\<lparr>db_proxies := toggled (S \<union> p_id ` {p \<in> set ps. p_enabled p \<noteq> en}) en now (db_proxies d)\<rparr>"
proof (induction ps arbitrary: S)
  case (Cons p ps)
  let ?t = "db_proxies d"
  let ?d = "d\<lparr>db_proxies := toggled S en now ?t\<rparr>"
  show ?case
  proof (cases "p_enabled p = en")
    case True
    then have "{q \<in> set (p # ps). p_enabled q \<noteq> en} = {q \<in> set ps. p_enabled q \<noteq> en}" by auto
    moreover have "toggle_step en now p ?d = ?d" using True by (simp add: toggle_step_def split: option.splits)
    ultimately show ?thesis using Cons by simp
  next
    case False
    then have set: "{q \<in> set (p # ps). p_enabled q \<noteq> en} = insert p {q \<in> set ps. p_enabled q \<noteq> en}" by auto
    have "toggle_step en now p ?d = d\<lparr>db_proxies := toggled (insert (p_id p) S) en now ?t\<rparr>"
    proof (cases "row_get p_id (p_id p) ?t")
      case None
      then show ?thesis by (simp add: toggle_step_def row_get_toggled toggled_absent)
    next
      case (Some r)
      then have r: "r \<in> set ?t" "p_id r = p_id p" by (auto dest: row_get_SomeD)
      have "proxy_shape r" using assms(1) r(1) by (simp add: proxies_inv_def list_all_iff)
      moreover have "S \<subseteq> M" "p_id r \<in> M" using Cons.prems False r(2) by auto
      ultimately have "upd_ok proxies_t ?d (toggle_fields en now r)"
        by (intro toggle_accepted[OF assms(2) _ _ r(1)])
      then show ?thesis
        using Some False by (simp add: toggle_step_def row_get_toggled upd_proxy_def row_upd_toggled del: table_laws)
    qed
    then show ?thesis using Cons.IH[of "insert (p_id p) S"] Cons.prems False set by simp
  qed
qed simp

text \<open>The members a group operation works on, and what the ownership check returns for them.\<close>

lemma wp_group_members:
  assumes "w_faults w = []"
  shows "wp (verify_proxy_group_ownership auth g)
    (\<lambda>r w'. w' = w \<and> (\<forall>ps. r = Inr ps \<longrightarrow>
       ps = filter (\<lambda>p. p_group_id p = Some g) (db_proxies (w_db w)) \<and> ps \<noteq> [] \<and>
       owns_proxy (w_db w) auth (hd ps)) \<and>
       (a_is_admin auth \<and> filter (\<lambda>p. p_group_id p = Some g) (db_proxies (w_db w)) \<noteq> [] \<longrightarrow> \<not> isl r)) w"
proof -
  have adm: "a_is_admin auth \<Longrightarrow> owns_proxy (w_db w) auth p" for p by (simp add: owns_proxy_def)
  have own: "wp (verify_proxy_ownership auth p) (\<lambda>r w'. w' = w \<and> (r = Inr () \<longrightarrow> owns_proxy (w_db w) auth p)) w" for p
    using assms
    by (auto simp: verify_proxy_ownership_def owns_proxy_def wp_find_by_id split: option.splits)
  show ?thesis
    using assms
    by (auto simp: verify_proxy_group_ownership_def wp_find_all adm
        split: list.splits sum.splits intro!: wp_mono[OF own])
qed

lemma group_ids:
  assumes "distinct (map p_id ps)" "r \<in> set ps"
  shows "p_id r \<in> p_id ` {p \<in> set ps. P p} \<longleftrightarrow> P r"
  using assms by (auto simp: distinct_map inj_on_def)

definition group_members :: "string \<Rightarrow> db \<Rightarrow> proxy_row list" where
  "group_members g d = filter (\<lambda>p. p_group_id p = Some g) (db_proxies d)"

text \<open>The handler is the authorised fold of the schema-checked switches.\<close>

lemma toggle_effect:
  assumes "healthy w"
  shows "wp (toggle_proxy_group node_control g (Some auth) en)
    (\<lambda>r w'. (a_is_admin auth \<and> group_members g (w_db w) \<noteq> [] \<longrightarrow> r = Inr ()) \<and>
      (r = Inr () \<longrightarrow> owns_proxy (w_db w) auth (hd (group_members g (w_db w))) \<and>
         w_db w' = fold (toggle_step en (w_now w)) (group_members g (w_db w)) (w_db w)) \<and>
      (\<forall>e. r = Inl e \<longrightarrow> w_db w' = w_db w)) w"
proof -
  have f: "w_faults w = []" using assms(1) by (simp add: healthy_def)
  show ?thesis
    unfolding toggle_proxy_group_def authenticated_def
    apply (rule wp_pass[where x = auth], simp)
    unfolding wp_and_then
    apply (rule wp_mono[OF wp_group_members[OF f]])
    subgoal premises p for r w1
    proof (cases r)
      case (Inr ps)
      then have ps: "ps = group_members g (w_db w)" "w1 = w" "owns_proxy (w_db w) auth (hd ps)"
        using p by (auto simp: group_members_def)
      show ?thesis
        using ps unfolding Inr sum.case wp_bind wp_utc_now ps(1,2)
        by (intro wp_mono[OF nm.toggle_loop_effect[OF assms(1)]]) auto
    qed (use p in \<open>simp add: group_members_def\<close>)
    done
qed

text \<open>toggling a group, allowed only to the owner of its first proxy, leaves every member enabled
  or disabled as asked and every other proxy as it was, as long as the table asked for has no
  conflicting routes; listeners that fail to start or stop do not change that.\<close>

theorem toggle_sets_all_members:
  assumes "healthy w" "proxies_inv (w_db w)"
    and "routes_ok (map (\<lambda>r. if p_group_id r = Some g \<and> p_enabled r \<noteq> en
           then toggle_fields en (w_now w) r else r) (db_proxies (w_db w)))"
  shows "wp (toggle_proxy_group node_control g (Some auth) en)
    (\<lambda>r w'. (r = Inr () \<longrightarrow> owns_proxy (w_db w) auth (hd (group_members g (w_db w))) \<and>
       w_db w' = (w_db w)\<lparr>db_proxies := map (\<lambda>r. if p_group_id r = Some g \<and> p_enabled r \<noteq> en
          then toggle_fields en (w_now w) r else r) (db_proxies (w_db w))\<rparr>) \<and>
       (\<forall>e. r = Inl e \<longrightarrow> w_db w' = w_db w)) w"
proof -
  let ?t = "db_proxies (w_db w)" and ?ps = "group_members g (w_db w)"
  let ?M = "p_id ` {p \<in> set ?ps. p_enabled p \<noteq> en}"
  have dist: "distinct (map p_id ?t)" using assms(2) by (simp add: proxies_inv_def ids_ok_def)
  have "p_id r \<in> ?M \<longleftrightarrow> p_group_id r = Some g \<and> p_enabled r \<noteq> en" if "r \<in> set ?t" for r
    using group_ids[OF dist that, of "\<lambda>p. p_group_id p = Some g \<and> p_enabled p \<noteq> en"]
    by (simp add: group_members_def conj_assoc)
  then have eq: "toggled ?M en (w_now w) ?t = map (\<lambda>r. if p_group_id r = Some g \<and> p_enabled r \<noteq> en
      then toggle_fields en (w_now w) r else r) ?t"
    unfolding toggled_def by (intro map_cong[OF refl]) simp
  have "toggled {} en (w_now w) ?t = ?t" by (simp add: toggled_def)
  note fold_all = toggle_fold[OF assms(2), of ?M en "w_now w" "{}" ?ps, unfolded eq Un_empty_left this]
  show ?thesis
    by (rule wp_mono[OF toggle_effect[OF assms(1)]]) (use fold_all assms(3) in simp)
qed

definition member_proxy :: proxy_row where
  "member_proxy = member_row (int_str 3) ''ssh-8022'' ''tcp'' ''127.0.0.1'' 22 8022 (Some 1) (Some ''g'')
     (DT 0 0 2024 1) 1"

definition grouped_world :: world where
  "grouped_world = shop_world\<lparr>w_db := shop_db\<lparr>sq_proxies := 3, db_proxies :=
     [member_proxy\<lparr>p_enabled := False\<rparr>, member_proxy\<lparr>p_id := 2, p_group_id := None\<rparr>]\<rparr>\<rparr>"

lemma grouped_world_sel [simp]:
  "healthy grouped_world" "proxies_inv (w_db grouped_world)"
  "db_proxies (w_db grouped_world) =
     [member_proxy\<lparr>p_enabled := False\<rparr>, member_proxy\<lparr>p_id := 2, p_group_id := None\<rparr>]"
  by (simp_all add: grouped_world_def shop_world_def healthy_def member_proxy_def member_row_def idle_world_def
      proxies_inv_def ids_ok_def routes_ok_iff proxy_shape_def shop_db_def)

lemma toggle_sets_all_members_witness:
  "wp (toggle_proxy_group node_control ''g'' (Some root_user) False)
    (\<lambda>r w'. r = Inr () \<longrightarrow> map p_enabled (db_proxies (w_db w')) = [False, True]) grouped_world"
  by (rule wp_mono, rule toggle_sets_all_members)
     (auto simp: member_proxy_def member_row_def toggle_fields_def routes_ok_iff)

text \<open>enabling a group passes over the members whose route was given away meanwhile: the handler
  reports success, and the member is still disabled. The only trace is a line in the log.\<close>

theorem enabling_a_group_skips_conflicts:
  assumes "healthy w" "proxies_inv (w_db w)" "a_is_admin auth"
    and "p \<in> set (db_proxies (w_db w))" "p_group_id p = Some g" "\<not> p_enabled p"
    and "q \<in> set (db_proxies (w_db w))" "p_group_id q \<noteq> Some g" "p_enabled q"
    and "p_node_id p = p_node_id q" "p_remote_port p = p_remote_port q"
    and "routes_conflict (p_type p) (p_domain p) (p_type q) (p_domain q)"
  shows "wp (toggle_proxy_group node_control g (Some auth) True)
    (\<lambda>r w'. r = Inr () \<and> p \<in> set (db_proxies (w_db w'))) w"
proof (rule wp_mono[OF toggle_effect[OF assms(1)]])
  have dist: "distinct (map p_id (db_proxies (w_db w)))" using assms(2) by (simp add: proxies_inv_def ids_ok_def)
  have pq: "p_id p \<noteq> p_id q" using dist assms(4,5,7,8) by (auto simp: distinct_map inj_on_def)
  have kept: "p \<in> set (db_proxies (fold (toggle_step True now) ps d))"
    if "p \<in> set (db_proxies d)" "q \<in> set (db_proxies d)" "distinct (map p_id (db_proxies d))"
      "p_id q \<notin> p_id ` set ps" for ps d now
    using that
  proof (induction ps arbitrary: d)
    case (Cons s ps)
    let ?d = "toggle_step True now s d"
    have "p_id s = p_id p \<Longrightarrow> ?d = d"
    proof -
      assume s: "p_id s = p_id p"
      have "row_get p_id (p_id p) (db_proxies d) = Some p" using row_get_distinct[OF Cons.prems(3,1)] .
      moreover have "\<not> route_free d (toggle_fields True now p)"
        using Cons.prems(2) assms(9-12) pq by (auto simp: route_free_def no_conflict_def list_all_iff)
      ultimately show ?thesis using s by (simp add: toggle_step_def)
    qed
    then have "p \<in> set (db_proxies ?d) \<and> q \<in> set (db_proxies ?d) \<and> distinct (map p_id (db_proxies ?d))"
      using Cons.prems
      by (cases "p_id s = p_id p")
         (force simp: toggle_step_def set_row_upd keys_row_upd split: option.splits)+
    then show ?case using Cons.IH[of ?d] Cons.prems(4) by simp
  qed simp
  have "p_id q \<notin> p_id ` set (group_members g (w_db w))"
    using dist assms(7,8) by (auto simp: group_members_def distinct_map inj_on_def)
  note stays = kept[OF assms(4,7) dist this]
  have "group_members g (w_db w) \<noteq> []" using assms(4,5) by (auto simp: group_members_def filter_empty_conv)
  then show "r = Inr () \<and> p \<in> set (db_proxies (w_db w'))"
    if "(a_is_admin auth \<and> group_members g (w_db w) \<noteq> [] \<longrightarrow> r = Inr ()) \<and>
      (r = Inr () \<longrightarrow> owns_proxy (w_db w) auth (hd (group_members g (w_db w))) \<and>
         w_db w' = fold (toggle_step True (w_now w)) (group_members g (w_db w)) (w_db w)) \<and>
      (\<forall>e. r = Inl e \<longrightarrow> w_db w' = w_db w)" for r w'
    using that assms(3) stays by simp
qed

lemma enabling_a_group_skips_conflicts_witness:
  "wp (toggle_proxy_group node_control ''g'' (Some root_user) True)
    (\<lambda>r w'. r = Inr () \<and> member_proxy\<lparr>p_enabled := False\<rparr> \<in> set (db_proxies (w_db w'))) grouped_world"
  by (rule enabling_a_group_skips_conflicts[of _ _ _ _ "member_proxy\<lparr>p_id := 2, p_group_id := None\<rparr>"])
     (simp_all add: root_user_def member_proxy_def member_row_def routes_conflict_def)

lemma drop_cong:
  assumes "\<And>p. p \<in> set (db_proxies d) \<Longrightarrow> P p = Q p"
  shows "drop_proxies P d = drop_proxies Q d"
proof -
  have "filter (\<lambda>p. \<not> P p) (db_proxies d) = filter (\<lambda>p. \<not> Q p) (db_proxies d)"
    by (rule filter_cong) (simp_all add: assms)
  moreover have "list_ex (\<lambda>p. P p \<and> p_id p = i) (db_proxies d) = list_ex (\<lambda>p. Q p \<and> p_id p = i) (db_proxies d)" for i
    using assms by (auto simp: list_ex_iff)
  ultimately show ?thesis by (simp add: drop_proxies_def)
qed

text \<open>deleting a group removes exactly its members, with their traffic history, whether or not
  their listeners stop.\<close>

theorem delete_group_removes_members:
  assumes "healthy w" "ids_ok (w_db w)"
  shows "wp (delete_proxy_group node_control g (Some auth))
    (\<lambda>r w'. (r = Inr () \<longrightarrow> owns_proxy (w_db w) auth (hd (group_members g (w_db w))) \<and>
       w_db w' = drop_proxies (\<lambda>p. p_group_id p = Some g) (w_db w)) \<and>
       (\<forall>e. r = Inl e \<longrightarrow> w_db w' = w_db w)) w"
proof -
  let ?ps = "group_members g (w_db w)"
  have f: "w_faults w = []" using assms(1) by (simp add: healthy_def)
  have dist: "distinct (map p_id (db_proxies (w_db w)))" using assms(2) by (simp add: ids_ok_def)
  have eq: "drop_proxies (\<lambda>p. p_id p \<in> p_id ` set ?ps) (w_db w) = drop_proxies (\<lambda>p. p_group_id p = Some g) (w_db w)"
    by (rule drop_cong) (use group_ids[OF dist, of _ "\<lambda>p. p_group_id p = Some g"] in \<open>simp add: group_members_def\<close>)
  show ?thesis
    unfolding delete_proxy_group_def authenticated_def
    apply (rule wp_pass[where x = auth], simp)
    unfolding wp_and_then
    apply (rule wp_mono[OF wp_group_members[OF f]])
    subgoal premises p for r w1
    proof (cases r)
      case (Inr ps)
      then have ps: "ps = ?ps" "w1 = w" "owns_proxy (w_db w) auth (hd ps)"
        using p by (auto simp: group_members_def)
      show ?thesis
        using ps unfolding Inr sum.case wp_bind ps(1,2)
        by (intro wp_mono[OF nm.rollback_effect[OF assms(1)]]) (simp only: eq, auto)
    qed (use p in simp)
    done
qed

lemma delete_group_removes_members_witness:
  "wp (delete_proxy_group node_control ''g'' (Some root_user))
    (\<lambda>r w'. r = Inr () \<longrightarrow> map p_id (db_proxies (w_db w')) = [2]) grouped_world"
proof (rule wp_mono, rule delete_group_removes_members)
  show "ids_ok (w_db grouped_world)" using grouped_world_sel(2) by (simp add: proxies_inv_def)
qed (auto simp: member_proxy_def member_row_def)

section \<open>The invariant\<close>

lemma same_db_stage: "same_db m \<Longrightarrow> (\<And>e. Q (Inl e) (w_db w)) \<Longrightarrow>
    (\<And>x w'. w_db w' = w_db w \<Longrightarrow> wp (f x) (\<lambda>r w'. Q r (w_db w')) w') \<Longrightarrow>
    wp (and_then m f) (\<lambda>r w'. Q r (w_db w')) w"
  by (rule wp_stage[OF wp_same]) simp_all

text \<open>C5: the handlers on batches and groups keep the invariant of the proxy table too, on every path,
  whatever ports a batch names and whatever a group is switched to.\<close>

theorem group_handlers_keep_routes_disjoint:
  assumes "proxies_inv (w_db w)"
  shows "wp (batch_create_proxies node_control auth_opt breq) (\<lambda>_ w'. proxies_inv (w_db w')) w \<and>
    wp (toggle_proxy_group node_control g auth_opt en) (\<lambda>_ w'. proxies_inv (w_db w')) w \<and>
    wp (update_proxy_group node_control g auth_opt greq) (\<lambda>_ w'. proxies_inv (w_db w')) w \<and>
    wp (delete_proxy_group node_control g auth_opt) (\<lambda>_ w'. proxies_inv (w_db w')) w \<and>
    wp (add_ports_to_proxy_group node_control g auth_opt areq) (\<lambda>_ w'. proxies_inv (w_db w')) w"
proof (intro conjI)
  note inv = assms
  have own: "same_db (verify_proxy_group_ownership a x)" "same_db (authenticated o1)"
    "same_db (check b e)" for a x o1 b e
    unfolding same_db_def verify_proxy_group_ownership_def verify_proxy_ownership_def authenticated_def
    by auto
  have ports: "keeps (on_db P) (check_ports nd l)" for P nd l
    by (induction l) (auto simp: check_node_limit_def check_port_free_def allowed_or_def)
  have "same_db (add_ports_checks a x areq)" for a x
    using same_db_checks same_db_user_ports own(1) ports unfolding same_db_def add_ports_checks_def by auto
  note own = own this
  show "wp (batch_create_proxies node_control auth_opt breq) (\<lambda>_ w'. proxies_inv (w_db w')) w"
    by (rule wp_batch) (use assms in \<open>auto intro!: nm.create_members_inv[OF _ mk_ok_member(1)]\<close>)
  show "wp (toggle_proxy_group node_control g auth_opt en) (\<lambda>_ w'. proxies_inv (w_db w')) w"
    unfolding toggle_proxy_group_def
    by (intro same_db_stage own) (auto simp: assms intro!: wp_mono[OF nm.toggle_loop_inv])
  show "wp (update_proxy_group node_control g auth_opt greq) (\<lambda>_ w'. proxies_inv (w_db w')) w"
    unfolding update_proxy_group_def
    by (intro same_db_stage own)
       (auto simp: assms intro!: wp_mono[OF nm.group_loop_inv] wp_mono[OF nm.restart_loop_inv])
  show "wp (delete_proxy_group node_control g auth_opt) (\<lambda>_ w'. proxies_inv (w_db w')) w"
    unfolding delete_proxy_group_def
    by (intro same_db_stage own) (auto simp: assms intro!: wp_mono[OF nm.rollback_keeps_inv])
  show "wp (add_ports_to_proxy_group node_control g auth_opt areq) (\<lambda>_ w'. proxies_inv (w_db w')) w"
    unfolding add_ports_to_proxy_group_def
    by (intro same_db_stage own)
       (auto simp: assms split: sum.splits intro!: wp_mono[OF nm.create_members_inv[OF _ mk_ok_member(2)]])
qed

lemma group_handlers_keep_routes_disjoint_witness:
  "wp (delete_proxy_group node_control ''g'' (Some root_user)) (\<lambda>_ w'. proxies_inv (w_db w')) grouped_world"
  using group_handlers_keep_routes_disjoint[of grouped_world] grouped_world_sel(2) by simp

end
