(* ===== verification/TrafficLimits.thy ===== *)
theory TrafficLimits
  imports Control
begin

text \<open>
  Traffic quotas (\<open>controller/src/traffic_limiter.rs\<close>): the conversion between gigabytes and bytes,
  the cycle after which the counters of a user, a client or a node start again, and the checks of
  a quota against the counters. Counters are \<open>i64\<close>, quotas are \<open>f64\<close> gigabytes.
\<close>

section \<open>Units\<close>

definition gb_to_bytes :: "f64 \<Rightarrow> i64" where
  "gb_to_bytes gb = f_to_i64 (f_mul_pos (f_mul_pos (f_mul_pos gb 1024) 1024) 1024)"

definition bytes_to_gb :: "i64 \<Rightarrow> f64" where
  "bytes_to_gb bytes = f_div_pos (f_div_pos (f_div_pos (f_of_i64 bytes) 1024) 1024) 1024"

definition calculate_user_remaining_quota :: "user_row \<Rightarrow> f64 option" where
  "calculate_user_remaining_quota user =
    map_option (\<lambda>quota. f_max (f_sub quota (bytes_to_gb (u_sent user + u_received user))) f_zero)
      (u_quota_gb user)"

definition calculate_client_remaining_quota :: "client_row \<Rightarrow> f64 option" where
  "calculate_client_remaining_quota client =
    map_option (\<lambda>quota. f_max (f_sub quota (bytes_to_gb (c_sent client + c_received client))) f_zero)
      (c_quota_gb client)"

section \<open>Cycles\<close>

text \<open>The rule all three \<open>should_reset_*_traffic\<close> functions spell out.\<close>

definition cycle_over :: "naive_dt option \<Rightarrow> string \<Rightarrow> naive_dt \<Rightarrow> bool" where
  "cycle_over last_reset cycle now =
    (case last_reset of
       None \<Rightarrow> True
     | Some t \<Rightarrow>
         if cycle = ''daily'' then dt_day t < dt_day now
         else if cycle = ''monthly'' then
           dt_year t < dt_year now \<or> (dt_year now = dt_year t \<and> dt_month t < dt_month now)
         else False)"

definition should_reset_traffic :: "naive_dt \<Rightarrow> user_row \<Rightarrow> bool" where
  "should_reset_traffic now user = cycle_over (u_last_reset user) (u_reset_cycle user) now"

definition should_reset_client_traffic :: "naive_dt \<Rightarrow> client_row \<Rightarrow> bool" where
  "should_reset_client_traffic now client = cycle_over (c_last_reset client) (c_reset_cycle client) now"

definition should_reset_node_traffic :: "naive_dt \<Rightarrow> node_row \<Rightarrow> bool" where
  "should_reset_node_traffic now node = cycle_over (n_last_reset node) (n_reset_cycle node) now"

text \<open>A counter that has just been started again is not started again at the same time.\<close>

lemma cycle_over_now [simp]: "\<not> cycle_over (Some now) cycle now"
  by (simp add: cycle_over_def)

section \<open>Resets and checks\<close>

definition zero_user :: "naive_dt \<Rightarrow> user_row \<Rightarrow> user_row" where
  "zero_user now u =
    u\<lparr>u_sent := 0, u_received := 0, u_exceeded := False, u_last_reset := Some now, u_updated_at := now\<rparr>"

definition reset_user_traffic :: "int \<Rightarrow> (any_err + unit) io" where
  "reset_user_traffic user_id =
    and_then (or_fail E_db (find_by_id users_t user_id)) (\<lambda>r.
      case r of
        None \<Rightarrow> finish ()
      | Some user \<Rightarrow> do {
          now \<leftarrow> utc_now;
          and_then (or_fail E_db (update_row users_t (u_id user) (zero_user now))) (\<lambda>_. finish ())
        })"

definition zero_client :: "naive_dt \<Rightarrow> client_row \<Rightarrow> client_row" where
  "zero_client now c =
    c\<lparr>c_sent := 0, c_received := 0, c_exceeded := False, c_last_reset := Some now, c_updated_at := now\<rparr>"

definition reset_client_traffic :: "int \<Rightarrow> (any_err + unit) io" where
  "reset_client_traffic client_id =
    and_then (or_fail E_db (find_by_id clients_t client_id)) (\<lambda>r.
      case r of
        None \<Rightarrow> finish ()
      | Some client \<Rightarrow> do {
          now \<leftarrow> utc_now;
          and_then (or_fail E_db (update_row clients_t (c_id client) (zero_client now))) (\<lambda>_. finish ())
        })"

text \<open>\<open>total_used >= quota_bytes\<close>, on signed values.\<close>

definition quota_reached :: "f64 option \<Rightarrow> i64 \<Rightarrow> bool" where
  "quota_reached quota total_used =
    (case quota of
       None \<Rightarrow> False
     | Some quota_gb \<Rightarrow> sint (gb_to_bytes quota_gb) \<le> sint total_used)"

definition quota_verdict :: "f64 option \<Rightarrow> i64 \<Rightarrow> bool \<times> msg" where
  "quota_verdict quota total_used =
    (case quota of
       None \<Rightarrow> (False, no_reason)
     | Some quota_gb \<Rightarrow>
         if sint (gb_to_bytes quota_gb) \<le> sint total_used
         then (True, M_quota_used (bytes_to_gb total_used) quota_gb)
         else (False, no_reason))"

lemma fst_quota_verdict [simp]: "fst (quota_verdict q n) = quota_reached q n"
  by (simp add: quota_verdict_def quota_reached_def split: option.splits)

definition check_user_traffic_limit :: "int \<Rightarrow> (any_err + bool \<times> msg) io" where
  "check_user_traffic_limit user_id =
    and_then (or_fail E_db (find_by_id users_t user_id)) (\<lambda>r.
      case r of
        None \<Rightarrow> finish (False, no_reason)
      | Some user \<Rightarrow> do {
          now \<leftarrow> utc_now;
          if should_reset_traffic now user
          then and_then (reset_user_traffic user_id) (\<lambda>_. finish (False, no_reason))
          else and_then (get_user_final_quota user_id (u_quota_gb user) (u_max_port user)
                           (u_max_node user) (u_max_client user)) (\<lambda>(quota, _, _, _).
                 finish (quota_verdict quota (u_sent user + u_received user)))
        })"

definition check_client_traffic_limit :: "int \<Rightarrow> (any_err + bool \<times> msg) io" where
  "check_client_traffic_limit client_id =
    and_then (or_fail E_db (find_by_id clients_t client_id)) (\<lambda>r.
      case r of
        None \<Rightarrow> finish (False, no_reason)
      | Some client \<Rightarrow> do {
          now \<leftarrow> utc_now;
          if should_reset_client_traffic now client
          then and_then (reset_client_traffic client_id) (\<lambda>_. finish (False, no_reason))
          else finish (quota_verdict (c_quota_gb client) (c_sent client + c_received client))
        })"

text \<open>The quotas already promised to clients, summed in the order of the rows.\<close>

fun allocated_gb :: "client_row list \<Rightarrow> f64 \<Rightarrow> f64" where
  "allocated_gb [] acc = acc"
| "allocated_gb (c # cs) acc =
    (case c_quota_gb c of
       Some quota \<Rightarrow> allocated_gb cs (f_add acc quota)
     | None \<Rightarrow> allocated_gb cs acc)"

definition allocation_verdict :: "f64 \<Rightarrow> f64 \<Rightarrow> f64 \<Rightarrow> f64 \<Rightarrow> bool \<times> msg" where
  "allocation_verdict user_quota_gb user_used_gb total_allocated_gb additional_quota_gb =
    (if f_lt user_quota_gb (f_add (f_add user_used_gb total_allocated_gb) additional_quota_gb)
     then (False, M_quota_short
       (f_max (f_sub (f_sub user_quota_gb user_used_gb) total_allocated_gb) f_zero)
       additional_quota_gb user_quota_gb user_used_gb total_allocated_gb)
     else (True, no_reason))"

definition check_user_quota_allocation :: "int \<Rightarrow> f64 \<Rightarrow> (any_err + bool \<times> msg) io" where
  "check_user_quota_allocation user_id additional_quota_gb =
    and_then (or_fail E_db (find_by_id users_t user_id)) (\<lambda>r.
      case r of
        None \<Rightarrow> finish (False, M_user_not_found)
      | Some user \<Rightarrow>
          and_then (get_user_final_quota user_id (u_quota_gb user) (u_max_port user)
                      (u_max_node user) (u_max_client user)) (\<lambda>(quota, _, _, _).
            case quota of
              None \<Rightarrow> finish (True, no_reason)
            | Some user_quota_gb \<Rightarrow>
                and_then (or_fail E_db (find_all clients_t (\<lambda>c. c_user_id c = Some user_id)))
                  (\<lambda>user_clients.
                    finish (allocation_verdict user_quota_gb
                      (bytes_to_gb (u_sent user + u_received user))
                      (allocated_gb user_clients f_zero) additional_quota_gb))))"

section \<open>The conversions on whole gigabytes\<close>

lemma sint_of_int_i64: "- (2 ^ 63) \<le> k \<Longrightarrow> k < 2 ^ 63 \<Longrightarrow> sint (of_int k :: i64) = k"
  by (simp add: signed_of_int signed_take_bit_int_eq_self)

lemma gb_to_bytes_int:
  assumes "0 \<le> n" "n \<le> 2 ^ 23"
  shows "sint (gb_to_bytes (Fin (of_int n))) = n * 2 ^ 30"
proof -
  have r: "f_round (of_int (k * 1024)) = Fin (of_int (k * 1024))" if "0 \<le> k" "k \<le> 2 ^ 43" for k
    by (rule f_round_of_int) (use that in simp)
  have m: "f_mul_pos (Fin (of_int k)) 1024 = Fin (of_int (k * 1024))" if "0 \<le> k" "k \<le> 2 ^ 43" for k
    using r[OF that] by simp
  have *: "f_mul_pos (f_mul_pos (f_mul_pos (Fin (of_int n)) 1024) 1024) 1024
      = Fin (of_int (n * 1024 * 1024 * 1024))"
  proof -
    have 1: "f_mul_pos (Fin (of_int n)) 1024 = Fin (of_int (n * 1024))"
      by (rule m) (use assms in auto)
    have 2: "f_mul_pos (Fin (of_int (n * 1024))) 1024 = Fin (of_int (n * 1024 * 1024))"
      by (rule m) (use assms in auto)
    have 3: "f_mul_pos (Fin (of_int (n * 1024 * 1024))) 1024 = Fin (of_int (n * 1024 * 1024 * 1024))"
      by (rule m) (use assms in auto)
    show ?thesis by (simp only: 1 2 3)
  qed
  have b: "i64_clamp (n * 1073741824) = n * 1073741824" "n * 1073741824 < 2 ^ 63"
    using assms by (auto simp: i64_clamp_def)
  then have "sint (of_int (n * 1073741824) :: i64) = n * 1073741824"
    by (intro sint_of_int_i64) (use assms(1) in auto)
  moreover have "rat_trunc (of_int (n * 1024 * 1024 * 1024)) = n * 1073741824"
    using assms by (simp add: rat_trunc_def flip: of_int_mult)
  ultimately show ?thesis
    unfolding gb_to_bytes_def * f_to_i64.simps using b by simp
qed

text \<open>on whole gigabytes up to 8 PB the quota in bytes is exact, so the quota is reached exactly
  when the bytes used are at least that many.\<close>

theorem quota_reached_exact:
  assumes "0 \<le> n" "n \<le> 2 ^ 23"
  shows "quota_reached (Some (Fin (of_int n))) used \<longleftrightarrow> n * 2 ^ 30 \<le> sint used"
  using gb_to_bytes_int[OF assms] by (simp add: quota_reached_def)

lemma quota_reached_exact_witness:
  "quota_reached (Some (Fin (of_int 2))) 2147483648 \<and> \<not> quota_reached (Some (Fin (of_int 2))) 2147483647"
  using quota_reached_exact[of 2 2147483648] quota_reached_exact[of 2 2147483647] by simp

text \<open>checking a user's traffic first starts the counters again when their cycle is over (and then
  reports no excess); otherwise it reports an excess exactly when the user has a quota and has used
  it up, and changes nothing.\<close>

theorem check_user_traffic_limit_spec:
  assumes "healthy w" "row_get u_id i (db_users (w_db w)) = Some u"
  shows "wp (check_user_traffic_limit i)
    (\<lambda>r w'. (\<exists>why. r = Inr (\<not> should_reset_traffic (w_now w) u \<and>
                        quota_reached (u_quota_gb u) (u_sent u + u_received u), why)) \<and>
       w_db w' = (if should_reset_traffic (w_now w) u
         then (w_db w)\<lparr>db_users := row_upd u_id i (zero_user (w_now w)) (db_users (w_db w))\<rparr>
         else w_db w)) w"
proof -
  have [simp]: "u_id u = i" using assms(2) by (auto dest: row_get_SomeD)
  have v: "\<exists>why. quota_verdict q n = (quota_reached q n, why)" for q n
    by (cases "quota_verdict q n") (use fst_quota_verdict[of q n] in auto)
  show ?thesis
    using assms v
    by (simp add: check_user_traffic_limit_def reset_user_traffic_def healthy_def wp_find_by_id
        wp_update_row)
qed

lemma f_round_scaled:
  assumes "\<bar>m\<bar> \<le> 2 ^ 53" "k \<le> 1074"
  shows "f_round (of_int m / 2 ^ k) = Fin (of_int m / 2 ^ k)"
proof (rule f_round_dyadic)
  have "(2::rat) powi (- int k) = 1 / 2 ^ k" by (simp add: power_int_minus divide_inverse)
  then have "of_int m / 2 ^ k = of_int m * (2::rat) powi (- int k)" by simp
  moreover have "- 1074 \<le> - int k" using assms(2) by simp
  ultimately show "dyadic (of_int m / 2 ^ k)" using assms(1) unfolding dyadic_def by blast
  have "(of_int \<bar>m\<bar> :: rat) \<le> of_int (2 ^ 53)" using assms(1) by (simp only: of_int_le_iff)
  then have m: "\<bar>of_int m :: rat\<bar> \<le> 2 ^ 53" by simp
  have "\<bar>of_int m / 2 ^ k :: rat\<bar> = \<bar>of_int m\<bar> / 2 ^ k" by (simp add: abs_divide)
  also have "\<dots> \<le> \<bar>of_int m\<bar> / 1" by (rule divide_left_mono) simp_all
  also have "\<dots> \<le> 2 ^ 53" using m by simp
  also have "\<dots> < 2 ^ 1024" by simp
  finally show "\<bar>of_int m / 2 ^ k :: rat\<bar> < 2 ^ 1024" .
qed

lemmas f_round_gb = f_round_scaled[of _ 30, simplified]

definition gib :: "int \<Rightarrow> f64" where
  "gib m = Fin (of_int m / 2 ^ 30)"

lemma gib_whole: "Fin (of_int k) = gib (k * 2 ^ 30)"
  by (simp add: gib_def)

lemma f_add_gib: "\<bar>a + b\<bar> \<le> 2 ^ 53 \<Longrightarrow> f_add (gib a) (gib b) = gib (a + b)"
  using f_round_gb[of "a + b"] by (simp add: gib_def add_divide_distrib)

lemma f_lt_gib [simp]: "f_lt (gib a) (gib b) \<longleftrightarrow> a < b"
  by (simp add: gib_def divide_less_cancel)

lemma bytes_to_gb_gib:
  assumes "\<bar>sint n\<bar> \<le> 2 ^ 53"
  shows "bytes_to_gb n = gib (sint n)"
proof -
  have step: "f_div_pos (Fin (of_int (sint n) / 2 ^ k)) 1024 = Fin (of_int (sint n) / 2 ^ (k + 10))"
    if "k \<le> 20" for k :: nat
    using f_round_scaled[OF assms, of "k + 10"] that by (simp add: power_add)
  have 0: "f_of_i64 n = Fin (of_int (sint n) / 2 ^ 0)"
    using f_round_scaled[OF assms, of 0] by (simp add: f_of_i64_def)
  show ?thesis
    unfolding bytes_to_gb_def gib_def 0 using step[of 0] step[of 10] step[of 20]
    by (simp del: f_div_pos.simps)
qed

text \<open>The quota of a client, as a whole number of gigabytes.\<close>

definition whole_quota :: "client_row \<Rightarrow> int" where
  "whole_quota c = (case c_quota_gb c of Some (Fin x) \<Rightarrow> \<lfloor>x\<rfloor> | _ \<Rightarrow> 0)"

definition has_whole_quota :: "client_row \<Rightarrow> bool" where
  "has_whole_quota c =
    (case c_quota_gb c of
       None \<Rightarrow> True
     | Some g \<Rightarrow> g = Fin (of_int (whole_quota c)) \<and> 0 \<le> whole_quota c)"

lemma allocated_gb_whole:
  assumes "\<forall>c \<in> set cs. has_whole_quota c" "0 \<le> a" "a + sum_list (map whole_quota cs) * 2 ^ 30 \<le> 2 ^ 53"
  shows "allocated_gb cs (gib a) = gib (a + sum_list (map whole_quota cs) * 2 ^ 30)"
  using assms
proof (induction cs arbitrary: a)
  case (Cons c cs)
  have nonneg: "0 \<le> sum_list (map whole_quota cs)"
    by (rule sum_list_nonneg)
       (use Cons.prems(1) in \<open>auto simp: has_whole_quota_def whole_quota_def split: option.splits\<close>)
  show ?case
  proof (cases "c_quota_gb c")
    case None
    then show ?thesis using Cons by (simp add: whole_quota_def)
  next
    case (Some g)
    then have g: "g = gib (whole_quota c * 2 ^ 30)" "0 \<le> whole_quota c"
      using Cons.prems(1) gib_whole by (auto simp: has_whole_quota_def)
    have "f_add (gib a) g = gib (a + whole_quota c * 2 ^ 30)"
      unfolding g(1) by (rule f_add_gib) (use Cons.prems g(2) nonneg in simp)
    moreover have "allocated_gb cs (gib (a + whole_quota c * 2 ^ 30)) =
        gib (a + whole_quota c * 2 ^ 30 + sum_list (map whole_quota cs) * 2 ^ 30)"
      by (rule Cons.IH) (use Cons.prems g(2) in \<open>simp_all add: algebra_simps\<close>)
    ultimately show ?thesis using Some by (simp add: algebra_simps)
  qed
qed simp

text \<open>C22: with a quota and client quotas in whole gigabytes (at most 8 PB in all), a user may allocate
  more exactly when what they used, what their clients were promised and the new amount fit the
  quota; rounding never decides, and the check changes nothing.\<close>

theorem quota_allocation_exact:
  assumes "healthy w" "row_get u_id i (db_users (w_db w)) = Some u"
    and "u_quota_gb u = Some (Fin (of_int q))"
    and "cs = filter (\<lambda>c. c_user_id c = Some i) (db_clients (w_db w))"
    and "list_all has_whole_quota cs" "0 \<le> extra"
    and "used = sint (u_sent u + u_received u)" "0 \<le> used"
    and "used + (sum_list (map whole_quota cs) + extra) * 2 ^ 30 \<le> 2 ^ 53"
  shows "wp (check_user_quota_allocation i (Fin (of_int extra)))
    (\<lambda>r w'. (\<exists>why. r = Inr (used + (sum_list (map whole_quota cs) + extra) * 2 ^ 30 \<le> q * 2 ^ 30, why)) \<and>
       w_db w' = w_db w) w"
proof -
  let ?s = "sum_list (map whole_quota cs)"
  have s: "0 \<le> ?s"
    by (rule sum_list_nonneg)
       (use assms(5) in \<open>auto simp: list_all_iff has_whole_quota_def whole_quota_def split: option.splits\<close>)
  have a: "allocated_gb cs f_zero = gib (?s * 2 ^ 30)"
    using allocated_gb_whole[of cs 0] assms(5,6,8,9) s
    by (simp add: list_all_iff gib_def f_zero_def algebra_simps)
  have b: "bytes_to_gb (u_sent u + u_received u) = gib used"
    using bytes_to_gb_gib[of "u_sent u + u_received u"] assms(6-9) s by (simp add: algebra_simps)
  have c: "f_add (f_add (gib used) (gib (?s * 2 ^ 30))) (gib (extra * 2 ^ 30)) =
      gib (used + ?s * 2 ^ 30 + extra * 2 ^ 30)"
    using assms(6,8,9) s by (simp add: f_add_gib algebra_simps)
  have v: "\<exists>why. allocation_verdict (gib (q * 2 ^ 30)) (gib used) (gib (?s * 2 ^ 30)) (gib (extra * 2 ^ 30)) =
      (used + (?s + extra) * 2 ^ 30 \<le> q * 2 ^ 30, why)"
    unfolding allocation_verdict_def c f_lt_gib by (auto simp: algebra_simps)
  show ?thesis
    using assms(1-3) v
    by (simp add: check_user_quota_allocation_def healthy_def wp_find_by_id wp_find_all a b gib_whole
        flip: assms(4))
qed

definition quota_client :: client_row where
  "quota_client =
    \<lparr>c_id = 3, c_name = ''pi'', c_token = ''t'', c_is_online = False, c_public_ip = None,
     c_region = None, c_sent = 0, c_received = 0, c_reset_cycle = ''monthly'',
     c_last_reset = Some (DT 0 0 2024 1), c_exceeded = False, c_quota_gb = Some (Fin (of_int 4)),
     c_user_id = Some 7, c_version = None, c_last_online = None, c_created_at = DT 0 0 2024 1,
     c_updated_at = DT 0 0 2024 1\<rparr>"

definition metered_world :: world where
  "metered_world = idle_world (empty_db\<lparr>
     db_users := [sample_user\<lparr>u_sent := 1073741824, u_last_reset := Some (DT 0 0 2024 1)\<rparr>],
     db_clients := [quota_client]\<rparr>)"

lemma metered_healthy [simp]: "healthy metered_world"
  by (simp add: metered_world_def healthy_def)

text \<open>One gigabyte used and four promised, out of ten: five more fit, six do not.\<close>

lemma quota_allocation_exact_witness:
  "wp (check_user_quota_allocation 7 (Fin (of_int 5)))
     (\<lambda>r _. \<exists>why. r = Inr (True, why)) metered_world \<and>
   wp (check_user_quota_allocation 7 (Fin (of_int 6)))
     (\<lambda>r _. \<exists>why. r = Inr (False, why)) metered_world"
proof
  note x = quota_allocation_exact[OF metered_healthy _ _ refl _ _ refl,
      of 7 "sample_user\<lparr>u_sent := 1073741824, u_last_reset := Some (DT 0 0 2024 1)\<rparr>" 10]
  show "wp (check_user_quota_allocation 7 (Fin (of_int 5))) (\<lambda>r _. \<exists>why. r = Inr (True, why)) metered_world"
    by (rule wp_mono, rule x)
       (simp_all add: metered_world_def sample_user_def quota_client_def row_get_def
          has_whole_quota_def whole_quota_def)
  show "wp (check_user_quota_allocation 7 (Fin (of_int 6))) (\<lambda>r _. \<exists>why. r = Inr (False, why)) metered_world"
    by (rule wp_mono, rule x)
       (simp_all add: metered_world_def sample_user_def quota_client_def row_get_def
          has_whole_quota_def whole_quota_def)
qed

lemma check_user_traffic_limit_spec_witness:
  "wp (check_user_traffic_limit 7) (\<lambda>r _. \<exists>why. r = Inr (False, why)) metered_world"
  by (rule wp_mono, rule check_user_traffic_limit_spec[OF metered_healthy])
     (auto simp: metered_world_def sample_user_def row_get_def should_reset_traffic_def
        cycle_over_def quota_reached_def gb_to_bytes_int[of 10, simplified])

end
