(* ===== verification/Traffic.thy ===== *)
theory Traffic
  imports TrafficLimits
begin

text \<open>
  Counting traffic (\<open>controller/src/traffic.rs\<close>, \<open>TrafficManager\<close>): nodes report bytes per proxy,
  the manager adds them up in a buffer, and every five seconds (or when the buffer has more than a
  thousand keys) the buffer is written to the proxies, the daily statistics, the clients, the users
  and the nodes.

  The three \<open>HashMap\<close>s of the file are association lists with distinct keys. \<open>drain\<close> yields the
  entries in an unspecified order: the functions take whatever order the list has, and what is
  proved holds for every list. The format of a date is chrono's; \<open>date_of\<close> is a parameter.
\<close>

section \<open>Sums by key\<close>

text \<open>\<open>let e = map.entry(k).or_insert((0, 0)); e.0 += a; e.1 += b\<close>.\<close>

fun entry_add :: "'k \<Rightarrow> i64 \<Rightarrow> i64 \<Rightarrow> ('k \<times> i64 \<times> i64) list \<Rightarrow> ('k \<times> i64 \<times> i64) list" where
  "entry_add k a b [] = [(k, 0 + a, 0 + b)]"
| "entry_add k a b ((j, x, y) # t) =
    (if j = k then (j, x + a, y + b) # t else (j, x, y) # entry_add k a b t)"

lemma keys_entry_add: "fst ` set (entry_add k a b t) = insert k (fst ` set t)"
  by (induction k a b t rule: entry_add.induct) auto

lemma distinct_entry_add: "distinct (map fst t) \<Longrightarrow> distinct (map fst (entry_add k a b t))"
proof (induction k a b t rule: entry_add.induct)
  case (2 k a b j x y t)
  then show ?case using keys_entry_add[of k a b t] by auto
qed simp

text \<open>The sums over the keys a predicate selects.\<close>

definition sent_of :: "('k \<Rightarrow> bool) \<Rightarrow> ('k \<times> i64 \<times> i64) list \<Rightarrow> i64" where
  "sent_of P es = sum_list (map (\<lambda>(k, a, b). a) (filter (\<lambda>(k, a, b). P k) es))"

definition received_of :: "('k \<Rightarrow> bool) \<Rightarrow> ('k \<times> i64 \<times> i64) list \<Rightarrow> i64" where
  "received_of P es = sum_list (map (\<lambda>(k, a, b). b) (filter (\<lambda>(k, a, b). P k) es))"

lemma sums_simps [simp]:
  "sent_of P [] = 0" "sent_of P ((k, a, b) # es) = (if P k then a else 0) + sent_of P es"
  "received_of P [] = 0" "received_of P ((k, a, b) # es) = (if P k then b else 0) + received_of P es"
  by (simp_all add: sent_of_def received_of_def)

lemma sums_entry_add [simp]:
  "sent_of P (entry_add k a b t) = sent_of P t + (if P k then a else 0)"
  "received_of P (entry_add k a b t) = received_of P t + (if P k then b else 0)"
  by (induction k a b t rule: entry_add.induct) auto

section \<open>The rows a flush writes\<close>

definition charge_proxy :: "proxy_row \<Rightarrow> naive_dt \<Rightarrow> i64 \<Rightarrow> i64 \<Rightarrow> proxy_row \<Rightarrow> proxy_row" where
  "charge_proxy proxy now bytes_sent bytes_received p =
    p\<lparr>p_sent := p_sent proxy + bytes_sent, p_received := p_received proxy + bytes_received,
      p_updated_at := now\<rparr>"

definition charge_client :: "client_row \<Rightarrow> naive_dt \<Rightarrow> i64 \<Rightarrow> i64 \<Rightarrow> client_row \<Rightarrow> client_row" where
  "charge_client client now bytes_sent bytes_received c =
    (if should_reset_client_traffic now client
     then c\<lparr>c_sent := bytes_sent, c_received := bytes_received, c_exceeded := False,
            c_last_reset := Some now, c_updated_at := now\<rparr>
     else c\<lparr>c_sent := c_sent client + bytes_sent, c_received := c_received client + bytes_received,
            c_updated_at := now\<rparr>)"

definition flag_client :: "naive_dt \<Rightarrow> client_row \<Rightarrow> client_row" where
  "flag_client now c = c\<lparr>c_exceeded := True, c_updated_at := now\<rparr>"

definition charge_user :: "user_row \<Rightarrow> naive_dt \<Rightarrow> i64 \<Rightarrow> i64 \<Rightarrow> user_row \<Rightarrow> user_row" where
  "charge_user user now bytes_sent bytes_received u =
    (if should_reset_traffic now user
     then u\<lparr>u_sent := bytes_sent, u_received := bytes_received, u_exceeded := False,
            u_last_reset := Some now, u_updated_at := now\<rparr>
     else u\<lparr>u_sent := u_sent user + bytes_sent, u_received := u_received user + bytes_received,
            u_updated_at := now\<rparr>)"

definition flag_user :: "naive_dt \<Rightarrow> user_row \<Rightarrow> user_row" where
  "flag_user now u = u\<lparr>u_exceeded := True, u_updated_at := now\<rparr>"

definition charge_node :: "node_row \<Rightarrow> naive_dt \<Rightarrow> i64 \<Rightarrow> i64 \<Rightarrow> node_row \<Rightarrow> node_row" where
  "charge_node node now sent received n =
    (if should_reset_node_traffic now node
     then n\<lparr>n_sent := sent, n_received := received, n_exceeded := False,
            n_last_reset := Some now, n_updated_at := now\<rparr>
     else n\<lparr>n_sent := n_sent node + sent, n_received := n_received node + received,
            n_updated_at := now\<rparr>)"

definition flag_node :: "naive_dt \<Rightarrow> node_row \<Rightarrow> node_row" where
  "flag_node now n = n\<lparr>n_exceeded := True, n_updated_at := now\<rparr>"

text \<open>\<open>if needs_reset { bytes } else { old + bytes }\<close>.\<close>

definition new_count :: "bool \<Rightarrow> i64 \<Rightarrow> i64 \<Rightarrow> i64" where
  "new_count needs_reset old bytes = (if needs_reset then bytes else old + bytes)"

section \<open>Flushing\<close>

text \<open>The proxy of an entry, \<open>None\<close> when it is gone (or cannot be read): the entry is then skipped.\<close>

definition flush_proxy :: "naive_dt \<Rightarrow> int \<Rightarrow> i64 \<Rightarrow> i64 \<Rightarrow> proxy_row option io" where
  "flush_proxy now proxy_id bytes_sent bytes_received = do {
     r \<leftarrow> find_by_id proxies_t proxy_id;
     case r of
       Inl _ \<Rightarrow> State_Monad.return None
     | Inr None \<Rightarrow> State_Monad.return None
     | Inr (Some proxy) \<Rightarrow> do {
         _ \<leftarrow> update_row proxies_t (p_id proxy) (charge_proxy proxy now bytes_sent bytes_received);
         State_Monad.return (Some proxy)
       }
   }"

text \<open>\<open>insert .. on conflict (proxy_id, date) do update\<close>.\<close>

definition same_day :: "int \<Rightarrow> string \<Rightarrow> traffic_row \<Rightarrow> bool" where
  "same_day proxy_id today t = (t_proxy_id t = proxy_id \<and> t_date t = today)"

definition upsert_daily ::
  "string \<Rightarrow> naive_dt \<Rightarrow> int \<Rightarrow> int option \<Rightarrow> i64 \<Rightarrow> i64 \<Rightarrow> db \<Rightarrow> db" where
  "upsert_daily today now proxy_id client_id bytes_sent bytes_received d =
    (if list_ex (same_day proxy_id today) (db_traffic d)
     then d\<lparr>db_traffic := map (\<lambda>t. if same_day proxy_id today t
            then t\<lparr>t_sent := t_sent t + bytes_sent, t_received := t_received t + bytes_received,
                   t_updated_at := now\<rparr> else t) (db_traffic d)\<rparr>
     else d\<lparr>db_traffic := db_traffic d @
             [\<lparr>t_id = sq_traffic d, t_proxy_id = proxy_id, t_client_id = client_id,
               t_sent = bytes_sent, t_received = bytes_received, t_date = today,
               t_created_at = now, t_updated_at = now\<rparr>],
            sq_traffic := sq_traffic d + 1\<rparr>)"

definition flush_daily ::
  "string \<Rightarrow> naive_dt \<Rightarrow> int \<Rightarrow> int option \<Rightarrow> i64 \<Rightarrow> i64 \<Rightarrow> unit io" where
  "flush_daily today now proxy_id client_id bytes_sent bytes_received = do {
     _ \<leftarrow> stmt (\<lambda>d. (Inr (), upsert_daily today now proxy_id client_id bytes_sent bytes_received d));
     State_Monad.return ()
   }"

definition flush_client :: "naive_dt \<Rightarrow> int \<Rightarrow> client_row \<Rightarrow> i64 \<Rightarrow> i64 \<Rightarrow> unit io" where
  "flush_client now client_id client bytes_sent bytes_received =
    (let needs_reset = should_reset_client_traffic now client in do {
       r \<leftarrow> update_row clients_t (c_id client) (charge_client client now bytes_sent bytes_received);
       case r of
         Inl _ \<Rightarrow> State_Monad.return ()
       | Inr _ \<Rightarrow>
           if quota_reached (c_quota_gb client)
                (new_count needs_reset (c_sent client) bytes_sent +
                 new_count needs_reset (c_received client) bytes_received) \<and> \<not> c_exceeded client
           then do {
             v \<leftarrow> find_by_id clients_t client_id;
             case v of
               Inl _ \<Rightarrow> State_Monad.return ()
             | Inr None \<Rightarrow> State_Monad.return ()
             | Inr (Some c) \<Rightarrow> do {
                 _ \<leftarrow> update_row clients_t (c_id c) (flag_client now);
                 State_Monad.return ()
               }
           }
           else State_Monad.return ()
     })"

definition flush_user :: "naive_dt \<Rightarrow> int \<Rightarrow> i64 \<Rightarrow> i64 \<Rightarrow> unit io" where
  "flush_user now uid bytes_sent bytes_received = do {
     f \<leftarrow> find_by_id users_t uid;
     case f of
       Inl _ \<Rightarrow> State_Monad.return ()
     | Inr None \<Rightarrow> State_Monad.return ()
     | Inr (Some user) \<Rightarrow>
         let needs_reset = should_reset_traffic now user in do {
           r \<leftarrow> update_row users_t (u_id user) (charge_user user now bytes_sent bytes_received);
           case r of
             Inl _ \<Rightarrow> State_Monad.return ()
           | Inr _ \<Rightarrow>
               if quota_reached (u_quota_gb user)
                    (new_count needs_reset (u_sent user) bytes_sent +
                     new_count needs_reset (u_received user) bytes_received) \<and> \<not> u_exceeded user
               then do {
                 v \<leftarrow> find_by_id users_t uid;
                 case v of
                   Inl _ \<Rightarrow> State_Monad.return ()
                 | Inr None \<Rightarrow> State_Monad.return ()
                 | Inr (Some u) \<Rightarrow> do {
                     _ \<leftarrow> update_row users_t (u_id u) (flag_user now);
                     State_Monad.return ()
                   }
               }
               else State_Monad.return ()
         }
   }"

definition flush_node :: "naive_dt \<Rightarrow> int \<Rightarrow> i64 \<Rightarrow> i64 \<Rightarrow> unit io" where
  "flush_node now nid sent received = do {
     f \<leftarrow> find_by_id nodes_t nid;
     case f of
       Inl _ \<Rightarrow> State_Monad.return ()
     | Inr None \<Rightarrow> State_Monad.return ()
     | Inr (Some node) \<Rightarrow>
         let needs_reset = should_reset_node_traffic now node in do {
           r \<leftarrow> update_row nodes_t (n_id node) (charge_node node now sent received);
           case r of
             Inl _ \<Rightarrow> State_Monad.return ()
           | Inr _ \<Rightarrow>
               if quota_reached (n_quota_gb node)
                    (new_count needs_reset (n_sent node) sent +
                     new_count needs_reset (n_received node) received) \<and> \<not> n_exceeded node
               then do {
                 v \<leftarrow> find_by_id nodes_t nid;
                 case v of
                   Inl _ \<Rightarrow> State_Monad.return ()
                 | Inr None \<Rightarrow> State_Monad.return ()
                 | Inr (Some n) \<Rightarrow> do {
                     _ \<leftarrow> update_row nodes_t (n_id n) (flag_node now);
                     State_Monad.return ()
                   }
               }
               else State_Monad.return ()
         }
   }"

text \<open>The key of a buffered entry: proxy, client, reporting user.\<close>

type_synonym traffic_key = "int \<times> int \<times> int option"
type_synonym traffic_sums = "(traffic_key \<times> i64 \<times> i64) list"
type_synonym node_sums = "(int \<times> i64 \<times> i64) list"

definition node_add :: "proxy_row \<Rightarrow> i64 \<Rightarrow> i64 \<Rightarrow> node_sums \<Rightarrow> node_sums" where
  "node_add proxy a b node_traffic =
    (case p_node_id proxy of
       Some nid \<Rightarrow> entry_add nid a b node_traffic
     | None \<Rightarrow> node_traffic)"

text \<open>\<open>direct_user_id.or_else(|| client.user_id)\<close>.\<close>

definition owner_of :: "proxy_row \<Rightarrow> client_row option \<Rightarrow> int option" where
  "owner_of proxy client_opt =
    (case p_user_id proxy of
       Some uid \<Rightarrow> Some uid
     | None \<Rightarrow> (case client_opt of Some c \<Rightarrow> c_user_id c | None \<Rightarrow> None))"

definition ok_flatten :: "db_err + 'a option \<Rightarrow> 'a option" where
  "ok_flatten r = (case r of Inl _ \<Rightarrow> None | Inr x \<Rightarrow> x)"

definition flush_entry ::
  "string \<Rightarrow> naive_dt \<Rightarrow> traffic_key \<times> i64 \<times> i64 \<Rightarrow> node_sums \<Rightarrow> node_sums io" where
  "flush_entry today now e node_traffic =
    (case e of ((proxy_id, client_id, _), bytes_sent, bytes_received) \<Rightarrow>
       if bytes_sent = 0 \<and> bytes_received = 0 then State_Monad.return node_traffic
       else do {
         p \<leftarrow> flush_proxy now proxy_id bytes_sent bytes_received;
         case p of
           None \<Rightarrow> State_Monad.return node_traffic
         | Some proxy \<Rightarrow> do {
             r \<leftarrow> find_by_id clients_t client_id;
             let client_opt = ok_flatten r in do {
               _ \<leftarrow> flush_daily today now proxy_id (map_option c_id client_opt) bytes_sent bytes_received;
               _ \<leftarrow> (case client_opt of
                      Some client \<Rightarrow> flush_client now client_id client bytes_sent bytes_received
                    | None \<Rightarrow> State_Monad.return ());
               _ \<leftarrow> (case owner_of proxy client_opt of
                      Some uid \<Rightarrow> flush_user now uid bytes_sent bytes_received
                    | None \<Rightarrow> State_Monad.return ());
               State_Monad.return (node_add proxy bytes_sent bytes_received node_traffic)
             }
           }
       })"

fun flush_entries :: "string \<Rightarrow> naive_dt \<Rightarrow> traffic_sums \<Rightarrow> node_sums \<Rightarrow> node_sums io" where
  "flush_entries today now [] node_traffic = State_Monad.return node_traffic"
| "flush_entries today now (e # es) node_traffic = do {
     nt \<leftarrow> flush_entry today now e node_traffic;
     flush_entries today now es nt
   }"

fun flush_nodes :: "naive_dt \<Rightarrow> node_sums \<Rightarrow> unit io" where
  "flush_nodes now [] = State_Monad.return ()"
| "flush_nodes now ((nid, sent, received) # ns) = do {
     _ \<leftarrow> flush_node now nid sent received;
     flush_nodes now ns
   }"

definition flush_buffer :: "(naive_dt \<Rightarrow> string) \<Rightarrow> traffic_sums \<Rightarrow> unit io" where
  "flush_buffer date_of buffer = do {
     now \<leftarrow> utc_now;
     nt \<leftarrow> flush_entries (date_of now) now buffer [];
     flush_nodes now nt
   }"

section \<open>The manager\<close>

record traffic_event =
  ev_proxy_id :: int
  ev_client_id :: int
  ev_user_id :: "int option"
  ev_sent :: i64
  ev_received :: i64

text \<open>What a report puts into the channel.\<close>

definition record_traffic ::
  "int \<Rightarrow> int \<Rightarrow> int option \<Rightarrow> i64 \<Rightarrow> i64 \<Rightarrow> traffic_event option" where
  "record_traffic proxy_id client_id user_id bytes_sent bytes_received =
    (if bytes_sent = 0 \<and> bytes_received = 0 then None
     else Some \<lparr>ev_proxy_id = proxy_id, ev_client_id = client_id, ev_user_id = user_id,
                ev_sent = bytes_sent, ev_received = bytes_received\<rparr>)"

text \<open>One turn of \<open>select!\<close>: an event arrives or the timer ticks. The result is the new buffer.\<close>

datatype traffic_turn = Received traffic_event | Tick

definition buffer_event :: "traffic_event \<Rightarrow> traffic_sums \<Rightarrow> traffic_sums" where
  "buffer_event ev buffer =
    entry_add (ev_proxy_id ev, ev_client_id ev, ev_user_id ev) (ev_sent ev) (ev_received ev) buffer"

definition traffic_step :: "(naive_dt \<Rightarrow> string) \<Rightarrow> traffic_turn \<Rightarrow> traffic_sums \<Rightarrow> traffic_sums io" where
  "traffic_step date_of turn buffer =
    (case turn of
       Received ev \<Rightarrow>
         let b = buffer_event ev buffer in
         if length b > 1000 then do { _ \<leftarrow> flush_buffer date_of b; State_Monad.return [] }
         else State_Monad.return b
     | Tick \<Rightarrow>
         if buffer \<noteq> [] then do { _ \<leftarrow> flush_buffer date_of buffer; State_Monad.return [] }
         else State_Monad.return buffer)"

fun traffic_run :: "(naive_dt \<Rightarrow> string) \<Rightarrow> traffic_turn list \<Rightarrow> traffic_sums \<Rightarrow> traffic_sums io" where
  "traffic_run date_of [] buffer = State_Monad.return buffer"
| "traffic_run date_of (t # ts) buffer = do {
     b \<leftarrow> traffic_step date_of t buffer;
     traffic_run date_of ts b
   }"

end
