(* ===== verification/TrafficRules.thy ===== *)
theory TrafficRules
  imports Traffic
begin

text \<open>
  What a flush does to the database, as a function of the database: in a run without faults every
  stage of \<open>Traffic.flush_entry\<close> rewrites one row, and the rows of a table after the whole flush are
  the old rows billed, one after the other, with the entries that concern them.
\<close>

section \<open>Billing a row\<close>

definition bill_proxy :: "naive_dt \<Rightarrow> i64 \<Rightarrow> i64 \<Rightarrow> proxy_row \<Rightarrow> proxy_row" where
  "bill_proxy now a b p = charge_proxy p now a b p"

definition bill_client :: "naive_dt \<Rightarrow> i64 \<Rightarrow> i64 \<Rightarrow> client_row \<Rightarrow> client_row" where
  "bill_client now a b c =
    (let c' = charge_client c now a b c in
     if quota_reached (c_quota_gb c) (c_sent c' + c_received c') \<and> \<not> c_exceeded c
     then flag_client now c' else c')"

definition bill_user :: "naive_dt \<Rightarrow> i64 \<Rightarrow> i64 \<Rightarrow> user_row \<Rightarrow> user_row" where
  "bill_user now a b u =
    (let u' = charge_user u now a b u in
     if quota_reached (u_quota_gb u) (u_sent u' + u_received u') \<and> \<not> u_exceeded u
     then flag_user now u' else u')"

definition bill_node :: "naive_dt \<Rightarrow> i64 \<Rightarrow> i64 \<Rightarrow> node_row \<Rightarrow> node_row" where
  "bill_node now a b n =
    (let n' = charge_node n now a b n in
     if quota_reached (n_quota_gb n) (n_sent n' + n_received n') \<and> \<not> n_exceeded n
     then flag_node now n' else n')"

lemmas bill_defs =
  bill_proxy_def bill_client_def bill_user_def bill_node_def charge_proxy_def charge_client_def
  charge_user_def charge_node_def flag_client_def flag_user_def flag_node_def Let_def

lemma bill_keys [simp]:
  "p_id (charge_proxy p0 now a b p) = p_id p" "p_id (bill_proxy now a b p) = p_id p"
  "c_id (charge_client c0 now a b c) = c_id c" "c_id (bill_client now a b c) = c_id c"
  "u_id (charge_user u0 now a b u) = u_id u" "u_id (bill_user now a b u) = u_id u"
  "n_id (charge_node n0 now a b n) = n_id n" "n_id (bill_node now a b n) = n_id n"
  "c_id (flag_client now c) = c_id c" "u_id (flag_user now u) = u_id u" "n_id (flag_node now n) = n_id n"
  by (simp_all add: bill_defs)

lemma bill_links [simp]:
  "p_user_id (bill_proxy now a b p) = p_user_id p" "p_node_id (bill_proxy now a b p) = p_node_id p"
  "c_user_id (bill_client now a b c) = c_user_id c"
  by (simp_all add: bill_defs)

text \<open>A row that is read, changed and written back.\<close>

lemma row_upd_read:
  assumes "distinct (map k t)" "row_get k i t = Some r" "f r = g r"
  shows "row_upd k i f t = row_upd k i g t"
proof -
  have "x = r" if "x \<in> set t" "k x = i" for x
    using row_get_distinct[OF assms(1) that(1)] assms(2) that(2) by simp
  then show ?thesis using assms(3) by (auto simp: row_upd_def)
qed

lemma row_upd_again:
  "(\<And>r. k (f r) = k r) \<Longrightarrow> row_upd k i g (row_upd k i f t) = row_upd k i (\<lambda>r. g (f r)) t"
  by (simp add: row_upd_def comp_def)

section \<open>Metered rows\<close>

text \<open>
  Clients, users and nodes are metered alike. The client of this interface is the accounting of a
  flush; the providers are the three kinds of rows. What they promise: a charge replaces the
  counters or adds to them depending on whether the cycle is over, and a new cycle starts with the
  flag cleared.
\<close>

locale metered =
  fixes T :: "'r table" and sent :: "'r \<Rightarrow> i64" and received :: "'r \<Rightarrow> i64"
    and quota :: "'r \<Rightarrow> f64 option" and exceeded :: "'r \<Rightarrow> bool" and due :: "naive_dt \<Rightarrow> 'r \<Rightarrow> bool"
    and charge :: "'r \<Rightarrow> naive_dt \<Rightarrow> i64 \<Rightarrow> i64 \<Rightarrow> 'r \<Rightarrow> 'r" and flag :: "naive_dt \<Rightarrow> 'r \<Rightarrow> 'r"
    and bill :: "naive_dt \<Rightarrow> i64 \<Rightarrow> i64 \<Rightarrow> 'r \<Rightarrow> 'r"
  assumes table [simp]: "rows T (set_rows T x d) = x" "set_rows T y (set_rows T x d) = set_rows T y d"
    and keys [simp]: "row_key T (charge r0 now a b r) = row_key T r" "row_key T (flag now r) = row_key T r"
    and charge_counts [simp]:
      "sent (charge r now a b r) = new_count (due now r) (sent r) a"
      "received (charge r now a b r) = new_count (due now r) (received r) b"
    and charge_rest [simp]: "quota (charge r now a b r) = quota r" "\<not> due now (charge r now a b r)"
      "exceeded (charge r now a b r) \<longleftrightarrow> \<not> due now r \<and> exceeded r"
    and flag_rest [simp]: "sent (flag now r) = sent r" "received (flag now r) = received r"
      "quota (flag now r) = quota r" "due now (flag now r) = due now r" "exceeded (flag now r)"
    and bill_eq: "bill now a b r =
      (let r' = charge r now a b r in
       if quota_reached (quota r) (sent r' + received r') \<and> \<not> exceeded r then flag now r' else r')"
begin

text \<open>The stage the code runs, on one row.\<close>

lemma wp_meter:
  assumes "healthy w" "distinct (map (row_key T) (rows T (w_db w)))"
    and "row_get (row_key T) i (rows T (w_db w)) = Some r0"
  shows "wp (do {
       r \<leftarrow> update_row T (row_key T r0) (charge r0 now a b);
       case r of
         Inl _ \<Rightarrow> State_Monad.return ()
       | Inr _ \<Rightarrow>
           if quota_reached (quota r0)
                (new_count (due now r0) (sent r0) a + new_count (due now r0) (received r0) b) \<and> \<not> exceeded r0
           then do {
             v \<leftarrow> find_by_id T i;
             case v of
               Inl _ \<Rightarrow> State_Monad.return ()
             | Inr None \<Rightarrow> State_Monad.return ()
             | Inr (Some c) \<Rightarrow> do {
                 _ \<leftarrow> update_row T (row_key T c) (flag now);
                 State_Monad.return ()
               }
           }
           else State_Monad.return ()
     })
     (\<lambda>_ w'. w' = w\<lparr>w_db := set_rows T (row_upd (row_key T) i (bill now a b) (rows T (w_db w))) (w_db w)\<rparr>) w"
proof -
  let ?t = "rows T (w_db w)" and ?k = "row_key T" and ?f = "charge r0 now a b"
  let ?hit = "quota_reached (quota r0)
    (new_count (due now r0) (sent r0) a + new_count (due now r0) (received r0) b) \<and> \<not> exceeded r0"
  have i: "?k r0 = i" using assms(3) by (auto dest: row_get_SomeD)
  have one: "row_upd ?k i ?f ?t = row_upd ?k i (bill now a b) ?t" if "\<not> ?hit"
    by (rule row_upd_read[OF assms(2,3)]) (use that in \<open>simp add: bill_eq Let_def del: de_Morgan_conj\<close>)
  have two: "row_upd ?k i (flag now) (row_upd ?k i ?f ?t) = row_upd ?k i (bill now a b) ?t" if ?hit
    by (subst row_upd_again, simp, rule row_upd_read[OF assms(2,3)])
       (use that in \<open>simp add: bill_eq Let_def\<close>)
  show ?thesis
    using assms(1,3) i one two
    by (cases ?hit) (auto simp: healthy_def wp_update_row wp_find_by_id row_get_row_upd)
qed

lemma sent_bill: "sent (bill now a b r) = new_count (due now r) (sent r) a"
  and received_bill: "received (bill now a b r) = new_count (due now r) (received r) b"
  and due_bill [simp]: "\<not> due now (bill now a b r)"
  and quota_bill: "quota (bill now a b r) = quota r"
  and key_bill: "row_key T (bill now a b r) = row_key T r"
  by (simp_all add: bill_eq Let_def)

lemma exceeded_bill:
  "exceeded (bill now a b r) \<longleftrightarrow>
   (\<not> due now r \<and> exceeded r) \<or>
   (\<not> exceeded r \<and> quota_reached (quota r) (sent (bill now a b r) + received (bill now a b r)))"
  by (auto simp: bill_eq Let_def)

end

lemma table_rows [simp]:
  "db_clients (d\<lparr>db_clients := x\<rparr>) = x" "db_users (d\<lparr>db_users := y\<rparr>) = y"
  "db_nodes (d\<lparr>db_nodes := z\<rparr>) = z"
  by simp_all

interpretation mclient: metered clients_t c_sent c_received c_quota_gb c_exceeded
  should_reset_client_traffic charge_client flag_client bill_client
  by unfold_locales
     (auto simp: bill_defs new_count_def should_reset_client_traffic_def)

interpretation muser: metered users_t u_sent u_received u_quota_gb u_exceeded
  should_reset_traffic charge_user flag_user bill_user
  by unfold_locales
     (auto simp: bill_defs new_count_def should_reset_traffic_def)

interpretation mnode: metered nodes_t n_sent n_received n_quota_gb n_exceeded
  should_reset_node_traffic charge_node flag_node bill_node
  by unfold_locales
     (auto simp: bill_defs new_count_def should_reset_node_traffic_def)

section \<open>The stages\<close>

lemma row_upd_absent: "row_get k i t = None \<Longrightarrow> row_upd k i f t = t"
  by (induction t) (auto simp: row_upd_def row_get_def split: if_splits)

lemma wp_flush_client:
  assumes "healthy w" "distinct (map c_id (db_clients (w_db w)))"
    and "row_get c_id i (db_clients (w_db w)) = Some client"
  shows "wp (flush_client now i client a b)
    (\<lambda>_ w'. w' = w\<lparr>w_db := (w_db w)\<lparr>db_clients := row_upd c_id i (bill_client now a b) (db_clients (w_db w))\<rparr>\<rparr>) w"
  using mclient.wp_meter[of w i client now a b] assms
  by (simp only: flush_client_def Let_def table_sel)

lemma wp_flush_user:
  assumes "healthy w" "distinct (map u_id (db_users (w_db w)))"
  shows "wp (flush_user now i a b)
    (\<lambda>_ w'. w' = w\<lparr>w_db := (w_db w)\<lparr>db_users := row_upd u_id i (bill_user now a b) (db_users (w_db w))\<rparr>\<rparr>) w"
  using assms muser.wp_meter[of w i _ now a b, unfolded table_sel]
  by (cases "row_get u_id i (db_users (w_db w))")
     (simp_all add: flush_user_def healthy_def wp_find_by_id Let_def row_upd_absent split del: if_split)

lemma wp_flush_node:
  assumes "healthy w" "distinct (map n_id (db_nodes (w_db w)))"
  shows "wp (flush_node now i a b)
    (\<lambda>_ w'. w' = w\<lparr>w_db := (w_db w)\<lparr>db_nodes := row_upd n_id i (bill_node now a b) (db_nodes (w_db w))\<rparr>\<rparr>) w"
  using assms mnode.wp_meter[of w i _ now a b, unfolded table_sel]
  by (cases "row_get n_id i (db_nodes (w_db w))")
     (simp_all add: flush_node_def healthy_def wp_find_by_id Let_def row_upd_absent split del: if_split)

section \<open>One entry\<close>

text \<open>An entry counts when it has bytes and its proxy still exists.\<close>

definition entry_live :: "db \<Rightarrow> traffic_key \<times> i64 \<times> i64 \<Rightarrow> bool" where
  "entry_live d e =
    (case e of ((pid, _, _), a, b) \<Rightarrow>
       (a \<noteq> 0 \<or> b \<noteq> 0) \<and> row_get p_id pid (db_proxies d) \<noteq> None)"

definition entry_owner :: "db \<Rightarrow> traffic_key \<times> i64 \<times> i64 \<Rightarrow> int option" where
  "entry_owner d e =
    (case e of ((pid, cid, _), _, _) \<Rightarrow>
       (case row_get p_id pid (db_proxies d) of
          None \<Rightarrow> None
        | Some p \<Rightarrow> owner_of p (row_get c_id cid (db_clients d))))"

definition entry_node :: "db \<Rightarrow> traffic_key \<times> i64 \<times> i64 \<Rightarrow> int option" where
  "entry_node d e =
    (case e of ((pid, _, _), _, _) \<Rightarrow>
       (case row_get p_id pid (db_proxies d) of None \<Rightarrow> None | Some p \<Rightarrow> p_node_id p))"

definition entry_db :: "string \<Rightarrow> naive_dt \<Rightarrow> traffic_key \<times> i64 \<times> i64 \<Rightarrow> db \<Rightarrow> db" where
  "entry_db today now e d =
    (case e of ((pid, cid, _), a, b) \<Rightarrow>
       if \<not> entry_live d e then d
       else (upsert_daily today now pid (map_option c_id (row_get c_id cid (db_clients d))) a b d)
         \<lparr>db_proxies := row_upd p_id pid (bill_proxy now a b) (db_proxies d),
          db_clients := row_upd c_id cid (bill_client now a b) (db_clients d),
          db_users := (case entry_owner d e of
              None \<Rightarrow> db_users d
            | Some uid \<Rightarrow> row_upd u_id uid (bill_user now a b) (db_users d))\<rparr>)"

definition entry_sums :: "db \<Rightarrow> traffic_key \<times> i64 \<times> i64 \<Rightarrow> node_sums \<Rightarrow> node_sums" where
  "entry_sums d e nt =
    (case e of (_, a, b) \<Rightarrow>
       if entry_live d e then (case entry_node d e of None \<Rightarrow> nt | Some n \<Rightarrow> entry_add n a b nt) else nt)"

definition keyed :: "db \<Rightarrow> bool" where
  "keyed d =
    (distinct (map p_id (db_proxies d)) \<and> distinct (map c_id (db_clients d)) \<and>
     distinct (map u_id (db_users d)) \<and> distinct (map n_id (db_nodes d)))"

lemma upsert_daily_sel [simp]:
  "db_proxies (upsert_daily today now i c a b d) = db_proxies d"
  "db_clients (upsert_daily today now i c a b d) = db_clients d"
  "db_users (upsert_daily today now i c a b d) = db_users d"
  "db_nodes (upsert_daily today now i c a b d) = db_nodes d"
  "upsert_daily today now i c a b (d\<lparr>db_proxies := x\<rparr>) = (upsert_daily today now i c a b d)\<lparr>db_proxies := x\<rparr>"
  by (simp_all add: upsert_daily_def)

lemma wp_flush_proxy:
  assumes "healthy w" "distinct (map p_id (db_proxies (w_db w)))"
  shows "wp (flush_proxy now i a b)
    (\<lambda>r w'. r = row_get p_id i (db_proxies (w_db w)) \<and>
       w' = w\<lparr>w_db := (w_db w)\<lparr>db_proxies := row_upd p_id i (bill_proxy now a b) (db_proxies (w_db w))\<rparr>\<rparr>) w"
proof (cases "row_get p_id i (db_proxies (w_db w))")
  case None
  then show ?thesis
    using assms(1) by (simp add: flush_proxy_def healthy_def wp_find_by_id row_upd_absent)
next
  case (Some p)
  then have "p_id p = i" by (auto dest: row_get_SomeD)
  moreover have "row_upd p_id i (charge_proxy p now a b) (db_proxies (w_db w)) =
      row_upd p_id i (bill_proxy now a b) (db_proxies (w_db w))"
    by (rule row_upd_read[OF assms(2) Some]) (simp add: bill_proxy_def)
  ultimately show ?thesis
    using assms(1) Some by (simp add: flush_proxy_def healthy_def wp_find_by_id wp_update_row)
qed

lemma wp_flush_daily:
  "healthy w \<Longrightarrow> wp (flush_daily today now i c a b)
    (\<lambda>_ w'. w' = w\<lparr>w_db := upsert_daily today now i c a b (w_db w)\<rparr>) w"
  by (simp add: flush_daily_def healthy_def wp_stmt)

lemma healthy_set_db [simp]: "healthy (w\<lparr>w_db := d\<rparr>) = healthy w"
  by (simp add: healthy_def)

lemma wp_then:
  "wp m R s \<Longrightarrow> (\<And>x s'. R x s' \<Longrightarrow> wp (f x) Q s') \<Longrightarrow> wp (State_Monad.bind m f) Q s"
  unfolding wp_bind by (rule wp_mono)

lemma wp_flush_entry:
  assumes "healthy w" "keyed (w_db w)"
  shows "wp (flush_entry today now e nt)
    (\<lambda>nt' w'. nt' = entry_sums (w_db w) e nt \<and> w' = w\<lparr>w_db := entry_db today now e (w_db w)\<rparr>) w"
proof -
  obtain pid cid uid a b where e: "e = ((pid, cid, uid), a, b)" by (metis prod.exhaust)
  let ?d = "w_db w"
  note k = assms(2)[unfolded keyed_def]
  show ?thesis
  proof (cases "entry_live ?d e")
    case False
    then show ?thesis
      using assms k wp_flush_proxy[OF assms(1), of now pid a b]
      by (auto simp: flush_entry_def e entry_live_def entry_db_def entry_sums_def row_upd_absent
          elim!: wp_mono)
  next
    case True
    then obtain p where p: "row_get p_id pid (db_proxies ?d) = Some p" and ab: "a \<noteq> 0 \<or> b \<noteq> 0"
      by (auto simp: entry_live_def e)
    let ?c = "row_get c_id cid (db_clients ?d)"
    let ?px = "row_upd p_id pid (bill_proxy now a b) (db_proxies ?d)"
    let ?d1 = "upsert_daily today now pid (map_option c_id ?c) a b (?d\<lparr>db_proxies := ?px\<rparr>)"
    let ?d2 = "?d1\<lparr>db_clients := row_upd c_id cid (bill_client now a b) (db_clients ?d)\<rparr>"
    let ?d3 = "?d2\<lparr>db_users := (case owner_of p ?c of None \<Rightarrow> db_users ?d
        | Some u \<Rightarrow> row_upd u_id u (bill_user now a b) (db_users ?d))\<rparr>"
    have s1: "wp (flush_proxy now pid a b)
        (\<lambda>r w'. r = Some p \<and> w' = w\<lparr>w_db := ?d\<lparr>db_proxies := ?px\<rparr>\<rparr>) w"
      using wp_flush_proxy[OF assms(1), of now pid a b] k p by simp
    have s3: "wp (case ?c of Some client \<Rightarrow> flush_client now cid client a b | None \<Rightarrow> State_Monad.return ())
        (\<lambda>_ w'. w' = w\<lparr>w_db := ?d2\<rparr>) (w\<lparr>w_db := ?d1\<rparr>)"
    proof (cases ?c)
      case None
      then show ?thesis by (simp add: row_upd_absent)
    next
      case (Some c)
      show ?thesis
        using wp_flush_client[of "w\<lparr>w_db := ?d1\<rparr>" cid c now a b] assms(1) k Some by simp
    qed
    have s4: "wp (case owner_of p ?c of Some u \<Rightarrow> flush_user now u a b | None \<Rightarrow> State_Monad.return ())
        (\<lambda>_ w'. w' = w\<lparr>w_db := ?d3\<rparr>) (w\<lparr>w_db := ?d2\<rparr>)"
    proof (cases "owner_of p ?c")
      case None
      then show ?thesis by simp
    next
      case (Some u)
      show ?thesis
        using wp_flush_user[of "w\<lparr>w_db := ?d2\<rparr>" now u a b] assms(1) k Some by simp
    qed
    have d3: "?d3 = entry_db today now e ?d"
      using True p by (simp add: entry_db_def e entry_owner_def)
    have nt: "node_add p a b nt = entry_sums ?d e nt"
      using True p by (simp add: node_add_def entry_sums_def e entry_node_def)
    have h: "w_faults w = []" using assms(1) by (simp add: healthy_def)
    have ab': "(a = 0 \<and> b = 0) = False" using ab by simp
    have s2: "wp (flush_daily today now pid (map_option c_id ?c) a b)
        (\<lambda>_ w'. w' = w\<lparr>w_db := ?d1\<rparr>) (w\<lparr>w_db := ?d\<lparr>db_proxies := ?px\<rparr>\<rparr>)"
      using wp_flush_daily[of "w\<lparr>w_db := ?d\<lparr>db_proxies := ?px\<rparr>\<rparr>" today now pid "map_option c_id ?c" a b] assms(1)
      by simp
    have rest: "wp (do {
         _ \<leftarrow> flush_daily today now pid (map_option c_id ?c) a b;
         _ \<leftarrow> (case ?c of Some client \<Rightarrow> flush_client now cid client a b | None \<Rightarrow> State_Monad.return ());
         _ \<leftarrow> (case owner_of p ?c of Some u \<Rightarrow> flush_user now u a b | None \<Rightarrow> State_Monad.return ());
         State_Monad.return (node_add p a b nt)
       }) (\<lambda>nt' w'. nt' = entry_sums ?d e nt \<and> w' = w\<lparr>w_db := entry_db today now e ?d\<rparr>)
         (w\<lparr>w_db := ?d\<lparr>db_proxies := ?px\<rparr>\<rparr>)"
      by (rule wp_then[OF s2], hypsubst, rule wp_then[OF s3], hypsubst, rule wp_then[OF s4], hypsubst)
         (simp only: wp_return nt d3 simp_thms)
    have "wp (find_by_id clients_t cid) (\<lambda>r w'. r = Inr ?c \<and> w' = w\<lparr>w_db := ?d\<lparr>db_proxies := ?px\<rparr>\<rparr>)
        (w\<lparr>w_db := ?d\<lparr>db_proxies := ?px\<rparr>\<rparr>)"
      by (simp add: wp_find_by_id h)
    with rest show ?thesis
      unfolding flush_entry_def e prod.case
      by (simp only: ab' if_False)
         (rule wp_then[OF s1], clarsimp simp only: option.case, rule wp_then, assumption,
           clarsimp simp only: ok_flatten_def sum.case Let_def)
  qed
qed

section \<open>The whole buffer\<close>

lemma entry_db_rows:
  "row_get p_id i (db_proxies (entry_db today now e d)) =
     (if entry_live d e \<and> i = fst (fst e)
      then map_option (bill_proxy now (fst (snd e)) (snd (snd e))) (row_get p_id i (db_proxies d))
      else row_get p_id i (db_proxies d))"
  "row_get c_id j (db_clients (entry_db today now e d)) =
     (if entry_live d e \<and> j = fst (snd (fst e))
      then map_option (bill_client now (fst (snd e)) (snd (snd e))) (row_get c_id j (db_clients d))
      else row_get c_id j (db_clients d))"
  by (auto simp: entry_db_def row_get_row_upd split: prod.splits)

lemma owner_of_bill [simp]:
  "owner_of (bill_proxy now a b p) c = owner_of p c"
  "owner_of p (map_option (bill_client now a b) c) = owner_of p c"
  by (auto simp: owner_of_def split: option.splits)

lemma entry_db_same [simp]:
  "entry_live (entry_db today now e d) f = entry_live d f"
  "entry_owner (entry_db today now e d) f = entry_owner d f"
  "entry_node (entry_db today now e d) f = entry_node d f"
  "db_nodes (entry_db today now e d) = db_nodes d"
proof -
  show "entry_live (entry_db today now e d) f = entry_live d f"
    by (auto simp: entry_live_def entry_db_rows split: prod.splits)
  show "entry_owner (entry_db today now e d) f = entry_owner d f"
    by (auto simp: entry_owner_def entry_db_rows split: prod.splits option.splits if_splits)
  show "entry_node (entry_db today now e d) f = entry_node d f"
    by (auto simp: entry_node_def entry_db_rows split: prod.splits option.splits)
  show "db_nodes (entry_db today now e d) = db_nodes d"
    by (auto simp: entry_db_def split: prod.splits)
qed

lemma entry_sums_same [simp]: "entry_sums (entry_db today now e d) f nt = entry_sums d f nt"
  by (auto simp: entry_sums_def split: prod.splits option.splits)

lemma keyed_entry_db [simp]: "keyed d \<Longrightarrow> keyed (entry_db today now e d)"
  by (auto simp: keyed_def entry_db_def keys_row_upd split: prod.splits option.splits)

abbreviation entries_db :: "string \<Rightarrow> naive_dt \<Rightarrow> traffic_sums \<Rightarrow> db \<Rightarrow> db" where
  "entries_db today now es d \<equiv> foldl (\<lambda>d e. entry_db today now e d) d es"

abbreviation entries_sums :: "db \<Rightarrow> traffic_sums \<Rightarrow> node_sums \<Rightarrow> node_sums" where
  "entries_sums d es nt \<equiv> foldl (\<lambda>nt e. entry_sums d e nt) nt es"

lemma wp_flush_entries:
  "healthy w \<Longrightarrow> keyed (w_db w) \<Longrightarrow>
   wp (flush_entries today now es nt)
     (\<lambda>nt' w'. nt' = entries_sums (w_db w) es nt \<and> w' = w\<lparr>w_db := entries_db today now es (w_db w)\<rparr>) w"
proof (induction es arbitrary: w nt)
  case Nil
  then show ?case by simp
next
  case (Cons e es)
  show ?case
    unfolding flush_entries.simps
    by (rule wp_then[OF wp_flush_entry[OF Cons.prems]], rule wp_mono, rule Cons.IH)
       (use Cons.prems in auto)
qed

text \<open>Billing a row with a list of entries, in their order.\<close>

definition bill_all :: "(i64 \<Rightarrow> i64 \<Rightarrow> 'r \<Rightarrow> 'r) \<Rightarrow> ('k \<times> i64 \<times> i64) list \<Rightarrow> 'r \<Rightarrow> 'r" where
  "bill_all bill es r = foldl (\<lambda>r (_, a, b). bill a b r) r es"

lemma bill_all_simps [simp]:
  "bill_all bill [] r = r" "bill_all bill ((k, a, b) # es) r = bill_all bill es (bill a b r)"
  by (simp_all add: bill_all_def)

lemma bill_all_snoc: "bill_all bill (es @ [(k, a, b)]) r = bill a b (bill_all bill es r)"
  by (simp add: bill_all_def)

context metered
begin

lemma sent_bill_all:
  "sent (bill_all (bill now) es r) = (if es \<noteq> [] \<and> due now r then 0 else sent r) + sent_of (\<lambda>_. True) es"
  by (induction es arbitrary: r) (auto simp: sent_bill new_count_def)

lemma received_bill_all:
  "received (bill_all (bill now) es r) =
   (if es \<noteq> [] \<and> due now r then 0 else received r) + received_of (\<lambda>_. True) es"
  by (induction es arbitrary: r) (auto simp: received_bill new_count_def)

lemma quota_bill_all [simp]: "quota (bill_all (bill now) es r) = quota r"
  by (induction es arbitrary: r) (auto simp: quota_bill)

lemma due_bill_all: "es \<noteq> [] \<Longrightarrow> \<not> due now (bill_all (bill now) es r)"
proof (induction es arbitrary: r)
  case (Cons e es)
  then show ?case by (cases es; cases e) auto
qed simp

text \<open>Once the quota is used up the flag is set, except by the first charge of a cycle on a row whose
  flag was still set from the cycle before.\<close>

lemma flagged_bill_all:
  assumes "es \<noteq> []" "\<not> (due now r \<and> exceeded r \<and> length es = 1)"
    and "quota_reached (quota r) (sent (bill_all (bill now) es r) + received (bill_all (bill now) es r))"
  shows "exceeded (bill_all (bill now) es r)"
proof -
  obtain fs k a b where es: "es = fs @ [(k, a, b)]" using assms(1) by (cases es rule: rev_cases) auto
  let ?r = "bill_all (bill now) fs r"
  have "\<not> (due now ?r \<and> exceeded ?r)"
    using due_bill_all[of fs now r] assms(2) es by (cases "fs = []") auto
  moreover have "quota ?r = quota r" by simp
  ultimately show ?thesis
    using assms(3) unfolding es bill_all_snoc exceeded_bill by auto
qed

end

lemma bill_all_proxy_sent:
  "p_sent (bill_all (bill_proxy now) es p) = p_sent p + sent_of (\<lambda>_. True) es"
  "p_received (bill_all (bill_proxy now) es p) = p_received p + received_of (\<lambda>_. True) es"
  by (induction es arbitrary: p) (auto simp: bill_proxy_def charge_proxy_def)

text \<open>The entries that concern a row.\<close>

definition proxy_entries :: "db \<Rightarrow> traffic_sums \<Rightarrow> int \<Rightarrow> traffic_sums" where
  "proxy_entries d es i = filter (\<lambda>e. entry_live d e \<and> fst (fst e) = i) es"

definition client_entries :: "db \<Rightarrow> traffic_sums \<Rightarrow> int \<Rightarrow> traffic_sums" where
  "client_entries d es i = filter (\<lambda>e. entry_live d e \<and> fst (snd (fst e)) = i) es"

definition user_entries :: "db \<Rightarrow> traffic_sums \<Rightarrow> int \<Rightarrow> traffic_sums" where
  "user_entries d es i = filter (\<lambda>e. entry_live d e \<and> entry_owner d e = Some i) es"

definition node_entries :: "db \<Rightarrow> traffic_sums \<Rightarrow> int \<Rightarrow> traffic_sums" where
  "node_entries d es i = filter (\<lambda>e. entry_live d e \<and> entry_node d e = Some i) es"

lemma entries_same [simp]:
  "proxy_entries (entry_db today now e d) es i = proxy_entries d es i"
  "client_entries (entry_db today now e d) es i = client_entries d es i"
  "user_entries (entry_db today now e d) es i = user_entries d es i"
  by (simp_all add: proxy_entries_def client_entries_def user_entries_def)

lemma entries_db_rows:
  "db_proxies (entries_db today now es d) =
     map (\<lambda>p. bill_all (bill_proxy now) (proxy_entries d es (p_id p)) p) (db_proxies d)"
  "db_clients (entries_db today now es d) =
     map (\<lambda>c. bill_all (bill_client now) (client_entries d es (c_id c)) c) (db_clients d)"
  "db_users (entries_db today now es d) =
     map (\<lambda>u. bill_all (bill_user now) (user_entries d es (u_id u)) u) (db_users d)"
  "db_nodes (entries_db today now es d) = db_nodes d"
proof (induction es arbitrary: d)
  case Nil
  {
    case 1 show ?case by (simp add: proxy_entries_def)
  next
    case 2 show ?case by (simp add: client_entries_def)
  next
    case 3 show ?case by (simp add: user_entries_def)
  next
    case 4 show ?case by simp
  }
next
  case (Cons e es)
  obtain pid cid uid a b where e: "e = ((pid, cid, uid), a, b)" by (metis prod.exhaust)
  {
    case 1
    have "db_proxies (entry_db today now e d) =
      map (\<lambda>p. if entry_live d e \<and> p_id p = pid then bill_proxy now a b p else p) (db_proxies d)"
      by (auto simp: entry_db_def e row_upd_def)
    then show ?case using Cons(1)[of "entry_db today now e d"] by (auto simp: proxy_entries_def e)
  next
    case 2
    have "db_clients (entry_db today now e d) =
      map (\<lambda>c. if entry_live d e \<and> c_id c = cid then bill_client now a b c else c) (db_clients d)"
      by (auto simp: entry_db_def e row_upd_def)
    then show ?case using Cons(2)[of "entry_db today now e d"] by (auto simp: client_entries_def e)
  next
    case 3
    have "db_users (entry_db today now e d) =
      map (\<lambda>u. if entry_live d e \<and> entry_owner d e = Some (u_id u) then bill_user now a b u else u) (db_users d)"
      by (auto simp: entry_db_def e row_upd_def split: option.splits)
    then show ?case using Cons(3)[of "entry_db today now e d"] by (auto simp: user_entries_def e)
  next
    case 4
    then show ?case using Cons(4)[of "entry_db today now e d"] by simp
  }
qed

section \<open>Nodes\<close>

definition nodes_db :: "naive_dt \<Rightarrow> node_sums \<Rightarrow> db \<Rightarrow> db" where
  "nodes_db now ns d =
    d\<lparr>db_nodes := foldl (\<lambda>t (i, a, b). row_upd n_id i (bill_node now a b) t) (db_nodes d) ns\<rparr>"

lemma wp_flush_nodes:
  "healthy w \<Longrightarrow> distinct (map n_id (db_nodes (w_db w))) \<Longrightarrow>
   wp (flush_nodes now ns) (\<lambda>_ w'. w' = w\<lparr>w_db := nodes_db now ns (w_db w)\<rparr>) w"
proof (induction ns arbitrary: w)
  case Nil
  then show ?case by (simp add: nodes_db_def)
next
  case (Cons e ns)
  obtain i a b where e: "e = (i, a, b)" by (metis prod.exhaust)
  show ?case
    unfolding e flush_nodes.simps
    by (rule wp_then[OF wp_flush_node[OF Cons.prems]], rule wp_mono, rule Cons.IH)
       (use Cons.prems in \<open>auto simp: nodes_db_def keys_row_upd\<close>)
qed

lemma nodes_db_rows:
  assumes "distinct (map fst ns)"
  shows "db_nodes (nodes_db now ns d) =
    map (\<lambda>n. case map_of ns (n_id n) of None \<Rightarrow> n | Some (a, b) \<Rightarrow> bill_node now a b n) (db_nodes d)"
  using assms
proof (induction ns arbitrary: d)
  case (Cons e ns)
  obtain i a b where e: "e = (i, a, b)" by (metis prod.exhaust)
  let ?d = "d\<lparr>db_nodes := row_upd n_id i (bill_node now a b) (db_nodes d)\<rparr>"
  have none: "map_of ns i = None" using Cons.prems by (simp add: e map_of_eq_None_iff)
  have "db_nodes (nodes_db now (e # ns) d) = db_nodes (nodes_db now ns ?d)"
    by (simp add: nodes_db_def e)
  then show ?case
    using Cons.IH[of ?d] Cons.prems none by (auto simp: e row_upd_def)
qed (simp add: nodes_db_def)

lemma sums_absent: "k \<notin> fst ` set t \<Longrightarrow> sent_of ((=) k) t = 0 \<and> received_of ((=) k) t = 0"
  by (induction t) auto

lemma sums_of_map_of:
  assumes "distinct (map fst ns)" "map_of ns i = Some (a, b)"
  shows "sent_of ((=) i) ns = a" "received_of ((=) i) ns = b"
  using assms by (induction ns) (auto simp: sums_absent split: if_splits)

lemma entry_sums_keys:
  "fst ` set (entry_sums d e nt) = fst ` set nt \<union> {i. entry_live d e \<and> entry_node d e = Some i}"
  by (cases e; cases "entry_node d e"; cases "entry_live d e")
     (simp_all add: entry_sums_def keys_entry_add)

lemma entries_sums_keys:
  "fst ` set (entries_sums d es nt) = fst ` set nt \<union> {i. node_entries d es i \<noteq> []}"
  "distinct (map fst nt) \<Longrightarrow> distinct (map fst (entries_sums d es nt))"
proof -
  show "fst ` set (entries_sums d es nt) = fst ` set nt \<union> {i. node_entries d es i \<noteq> []}"
  proof (induction es arbitrary: nt)
    case (Cons e es)
    show ?case unfolding foldl_Cons Cons.IH entry_sums_keys by (auto simp: node_entries_def)
  qed (simp add: node_entries_def)
  show "distinct (map fst nt) \<Longrightarrow> distinct (map fst (entries_sums d es nt))"
    by (induction es arbitrary: nt)
       (auto simp: entry_sums_def distinct_entry_add split: prod.splits option.splits)
qed

lemma entries_sums_sums:
  "sent_of ((=) i) (entries_sums d es nt) = sent_of ((=) i) nt + sent_of (\<lambda>_. True) (node_entries d es i)"
  "received_of ((=) i) (entries_sums d es nt) =
     received_of ((=) i) nt + received_of (\<lambda>_. True) (node_entries d es i)"
  by (induction es arbitrary: nt)
     (auto simp: node_entries_def entry_sums_def split: prod.splits option.splits)

text \<open>The rows of the nodes after the flush.\<close>

lemma nodes_after:
  "db_nodes (nodes_db now (entries_sums d es []) d') =
   map (\<lambda>n. if node_entries d es (n_id n) = [] then n
            else bill_node now (sent_of (\<lambda>_. True) (node_entries d es (n_id n)))
                   (received_of (\<lambda>_. True) (node_entries d es (n_id n))) n) (db_nodes d')"
proof -
  let ?ns = "entries_sums d es []"
  have dist: "distinct (map fst ?ns)" by (rule entries_sums_keys(2)) simp
  have "(case map_of ?ns i of None \<Rightarrow> n | Some (a, b) \<Rightarrow> bill_node now a b n) =
      (if node_entries d es i = [] then n
       else bill_node now (sent_of (\<lambda>_. True) (node_entries d es i))
              (received_of (\<lambda>_. True) (node_entries d es i)) n)" for i n
  proof (cases "map_of ?ns i")
    case None
    then have "i \<notin> fst ` set ?ns" by (simp add: map_of_eq_None_iff)
    then have "node_entries d es i = []" using entries_sums_keys(1)[where d=d and es=es and nt="[]"] by auto
    then show ?thesis using None by simp
  next
    case (Some ab)
    obtain a b where ab: "ab = (a, b)" by force
    have "i \<in> fst ` set ?ns" using Some by (metis domI dom_map_of_conv_image_fst)
    then have "node_entries d es i \<noteq> []" using entries_sums_keys(1)[where d=d and es=es and nt="[]"] by auto
    moreover have "sent_of (\<lambda>_. True) (node_entries d es i) = a" "received_of (\<lambda>_. True) (node_entries d es i) = b"
      using sums_of_map_of[OF dist Some[unfolded ab]] entries_sums_sums[where i=i and d=d and es=es and nt="[]"]
      by simp_all
    ultimately show ?thesis using Some ab by simp
  qed
  then show ?thesis unfolding nodes_db_rows[OF dist] by simp
qed

lemma wp_flush_buffer:
  assumes "healthy w" "keyed (w_db w)"
  shows "wp (flush_buffer date_of es)
    (\<lambda>_ w'. w' = w\<lparr>w_db := nodes_db (w_now w) (entries_sums (w_db w) es [])
       (entries_db (date_of (w_now w)) (w_now w) es (w_db w))\<rparr>) w"
proof -
  let ?now = "w_now w" and ?d = "w_db w"
  let ?w = "w\<lparr>w_db := entries_db (date_of ?now) ?now es ?d\<rparr>"
  have k: "distinct (map n_id (db_nodes (w_db ?w)))"
    using assms(2) by (simp add: entries_db_rows keyed_def)
  have N: "wp (flush_nodes ?now nt) (\<lambda>_ w'. w' = ?w\<lparr>w_db := nodes_db ?now nt (w_db ?w)\<rparr>) ?w" for nt
    by (rule wp_flush_nodes[OF _ k]) (simp add: assms(1))
  show ?thesis
    unfolding flush_buffer_def
    by (rule wp_then[where R = "\<lambda>now w'. now = ?now \<and> w' = w"], simp, clarify,
        rule wp_then[OF wp_flush_entries[OF assms]], clarify, rule wp_mono[OF N]) simp_all
qed

lemma keyed_flushed:
  assumes "keyed d"
  shows "keyed (nodes_db now (entries_sums d es []) (entries_db today now es d))"
proof -
  have n: "map n_id (db_nodes (nodes_db now (entries_sums d es []) d')) = map n_id (db_nodes d')" for d'
    unfolding nodes_after by (simp add: comp_def)
  have b: "p_id (bill_all (bill_proxy now) xs p) = p_id p" "c_id (bill_all (bill_client now) xs c) = c_id c"
    "u_id (bill_all (bill_user now) xs u) = u_id u" for xs :: traffic_sums and p c u
    by (induction xs arbitrary: p c u) auto
  show ?thesis
    using assms unfolding keyed_def n by (simp add: nodes_db_def entries_db_rows comp_def b)
qed

end
