(* ===== verification/TrafficProps.thy ===== *)
theory TrafficProps
  imports TrafficRules
begin

text \<open>
  What the traffic accounting guarantees: no reported byte is lost between a report and the
  counters, and whoever has used up a quota is flagged.
\<close>

section \<open>Counters\<close>

text \<open>A counter after the entries \<open>es\<close>, which start it again when the cycle is over.\<close>

definition counted_sent :: "bool \<Rightarrow> i64 \<Rightarrow> traffic_sums \<Rightarrow> i64" where
  "counted_sent due old es = (if es \<noteq> [] \<and> due then 0 else old) + sent_of (\<lambda>_. True) es"

definition counted_received :: "bool \<Rightarrow> i64 \<Rightarrow> traffic_sums \<Rightarrow> i64" where
  "counted_received due old es = (if es \<noteq> [] \<and> due then 0 else old) + received_of (\<lambda>_. True) es"

definition of_proxy :: "int \<Rightarrow> traffic_key \<Rightarrow> bool" where
  "of_proxy i k = (fst k = i)"

lemma proxy_entries_sums:
  assumes "i \<in> p_id ` set (db_proxies d)"
  shows "sent_of (\<lambda>_. True) (proxy_entries d es i) = sent_of (of_proxy i) es"
    and "received_of (\<lambda>_. True) (proxy_entries d es i) = received_of (of_proxy i) es"
proof -
  have "row_get p_id i (db_proxies d) \<noteq> None" using assms by (simp add: row_get_None_iff)
  then show "sent_of (\<lambda>_. True) (proxy_entries d es i) = sent_of (of_proxy i) es"
    and "received_of (\<lambda>_. True) (proxy_entries d es i) = received_of (of_proxy i) es"
    by (induction es) (auto simp: proxy_entries_def entry_live_def of_proxy_def split: if_splits)
qed

lemma nodes_db_others [simp]:
  "db_proxies (nodes_db now ns d) = db_proxies d" "db_clients (nodes_db now ns d) = db_clients d"
  "db_users (nodes_db now ns d) = db_users d"
  by (simp_all add: nodes_db_def)

text \<open>C12: in a run without database faults, flushing a buffer (in any order of its entries) adds to the
  counters of every proxy exactly the bytes buffered for it, and to every client, user (the owner of
  the proxy) and node the bytes of their live entries, on top of the old counters or, when their
  cycle is over, of zero.\<close>

theorem flush_counts_every_byte:
  assumes "healthy w" "keyed (w_db w)" "d = w_db w" "now = w_now w"
  shows "wp (flush_buffer date_of es)
    (\<lambda>_ w'.
       map p_sent (db_proxies (w_db w')) =
         map (\<lambda>p. p_sent p + sent_of (of_proxy (p_id p)) es) (db_proxies d) \<and>
       map p_received (db_proxies (w_db w')) =
         map (\<lambda>p. p_received p + received_of (of_proxy (p_id p)) es) (db_proxies d) \<and>
       map c_sent (db_clients (w_db w')) =
         map (\<lambda>c. counted_sent (should_reset_client_traffic now c) (c_sent c)
                    (client_entries d es (c_id c))) (db_clients d) \<and>
       map c_received (db_clients (w_db w')) =
         map (\<lambda>c. counted_received (should_reset_client_traffic now c) (c_received c)
                    (client_entries d es (c_id c))) (db_clients d) \<and>
       map u_sent (db_users (w_db w')) =
         map (\<lambda>u. counted_sent (should_reset_traffic now u) (u_sent u)
                    (user_entries d es (u_id u))) (db_users d) \<and>
       map u_received (db_users (w_db w')) =
         map (\<lambda>u. counted_received (should_reset_traffic now u) (u_received u)
                    (user_entries d es (u_id u))) (db_users d) \<and>
       map n_sent (db_nodes (w_db w')) =
         map (\<lambda>n. counted_sent (should_reset_node_traffic now n) (n_sent n)
                    (node_entries d es (n_id n))) (db_nodes d) \<and>
       map n_received (db_nodes (w_db w')) =
         map (\<lambda>n. counted_received (should_reset_node_traffic now n) (n_received n)
                    (node_entries d es (n_id n))) (db_nodes d)) w"
proof -
  show ?thesis
    by (rule wp_mono[OF wp_flush_buffer[OF assms(1,2)]], hypsubst)
       (auto simp: entries_db_rows nodes_after comp_def bill_all_proxy_sent proxy_entries_sums
          mclient.sent_bill_all mclient.received_bill_all muser.sent_bill_all muser.received_bill_all
          mnode.sent_bill mnode.received_bill counted_sent_def counted_received_def new_count_def
          assms(3,4))
qed

section \<open>Flags\<close>

text \<open>The row billed while its flag was cleared by a new cycle.\<close>

definition stale_flag :: "bool \<Rightarrow> bool \<Rightarrow> traffic_sums \<Rightarrow> bool" where
  "stale_flag due exceeded es = (due \<and> exceeded \<and> length es = 1)"

text \<open>after a flush without faults, every user and every client that was billed and has used up
  its quota is flagged as exceeded; the only exception is a row that still carried the flag of the
  cycle before and was billed once.\<close>

theorem flush_flags_exhausted:
  assumes "healthy w" "keyed (w_db w)" "d = w_db w" "now = w_now w"
  shows "wp (flush_buffer date_of es)
    (\<lambda>_ w'.
       list_all2 (\<lambda>u u'. user_entries d es (u_id u) = [] \<or>
           stale_flag (should_reset_traffic now u) (u_exceeded u) (user_entries d es (u_id u)) \<or>
           (quota_reached (u_quota_gb u') (u_sent u' + u_received u') \<longrightarrow> u_exceeded u'))
         (db_users d) (db_users (w_db w')) \<and>
       list_all2 (\<lambda>c c'. client_entries d es (c_id c) = [] \<or>
           stale_flag (should_reset_client_traffic now c) (c_exceeded c) (client_entries d es (c_id c)) \<or>
           (quota_reached (c_quota_gb c') (c_sent c' + c_received c') \<longrightarrow> c_exceeded c'))
         (db_clients d) (db_clients (w_db w'))) w"
  by (rule wp_mono[OF wp_flush_buffer[OF assms(1,2)]], hypsubst)
     (auto simp: entries_db_rows assms(3,4) list.rel_map list_all2_same stale_flag_def
        intro: muser.flagged_bill_all mclient.flagged_bill_all)

text \<open>a user over quota whose cycle has just ended and who is billed once goes unflagged, however
  many bytes that bill has: the flag is cleared by the reset and not set again.\<close>

theorem new_cycle_goes_unflagged:
  assumes "healthy w" "keyed (w_db w)" "u \<in> set (db_users (w_db w))" "u_exceeded u"
    and "should_reset_traffic (w_now w) u" "user_entries (w_db w) es (u_id u) = [e]"
  shows "wp (flush_buffer date_of es)
    (\<lambda>_ w'. \<exists>u' \<in> set (db_users (w_db w')). u_id u' = u_id u \<and> \<not> u_exceeded u') w"
proof -
  obtain k a b where e: "e = (k, a, b)" by (metis prod.exhaust)
  have "\<not> u_exceeded (bill_user (w_now w) a b u)"
    unfolding muser.exceeded_bill using assms(4,5) by simp
  then show ?thesis
    by (intro wp_mono[OF wp_flush_buffer[OF assms(1,2)]], hypsubst)
       (rule bexI[of _ "bill_user (w_now w) a b u"],
        use assms(3,6) in \<open>auto simp: entries_db_rows e intro!: image_eqI[of _ _ u]\<close>)
qed

section \<open>From reports to counters\<close>

definition turn_sent :: "int \<Rightarrow> traffic_turn \<Rightarrow> i64" where
  "turn_sent i t =
    (case t of Received ev \<Rightarrow> (if ev_proxy_id ev = i then ev_sent ev else 0) | Tick \<Rightarrow> 0)"

definition turn_received :: "int \<Rightarrow> traffic_turn \<Rightarrow> i64" where
  "turn_received i t =
    (case t of Received ev \<Rightarrow> (if ev_proxy_id ev = i then ev_received ev else 0) | Tick \<Rightarrow> 0)"

text \<open>The bytes of a proxy that are counted or on their way.\<close>

definition accounted :: "db \<Rightarrow> traffic_sums \<Rightarrow> (int \<times> i64 \<times> i64) list" where
  "accounted d b =
    map (\<lambda>p. (p_id p, p_sent p + sent_of (of_proxy (p_id p)) b,
                p_received p + received_of (of_proxy (p_id p)) b)) (db_proxies d)"

lemma wp_flush_accounted:
  assumes "healthy w" "keyed (w_db w)"
  shows "wp (flush_buffer date_of b)
    (\<lambda>_ w'. healthy w' \<and> keyed (w_db w') \<and> accounted (w_db w') [] = accounted (w_db w) b) w"
proof -
  have i: "p_id (bill_all (bill_proxy now) xs p) = p_id p" for now and xs :: traffic_sums and p
    by (induction xs arbitrary: p) auto
  show ?thesis
    by (rule wp_mono[OF wp_flush_buffer[OF assms]], hypsubst)
       (simp add: assms keyed_flushed accounted_def entries_db_rows comp_def i bill_all_proxy_sent
          proxy_entries_sums)
qed

definition add_turn :: "traffic_turn \<Rightarrow> int \<times> i64 \<times> i64 \<Rightarrow> int \<times> i64 \<times> i64" where
  "add_turn t x = (case x of (i, s, r) \<Rightarrow> (i, s + turn_sent i t, r + turn_received i t))"

lemma accounted_event:
  "accounted d (buffer_event ev b) = map (add_turn (Received ev)) (accounted d b)"
  by (auto simp: accounted_def buffer_event_def add_turn_def turn_sent_def turn_received_def of_proxy_def)

lemma wp_traffic_step:
  assumes "healthy w" "keyed (w_db w)"
  shows "wp (traffic_step date_of t b)
    (\<lambda>b' w'. healthy w' \<and> keyed (w_db w') \<and>
       accounted (w_db w') b' = map (add_turn t) (accounted (w_db w) b)) w"
proof (cases t)
  case (Received ev)
  show ?thesis
    unfolding traffic_step_def Received traffic_turn.case Let_def
    by (simp add: assms accounted_event del: map_map)
       (auto simp: accounted_event simp del: map_map intro!: wp_mono[OF wp_flush_accounted[OF assms]])
next
  case Tick
  have t: "map (add_turn Tick) x = x" for x
    by (rule map_idI) (auto simp: add_turn_def turn_sent_def turn_received_def)
  show ?thesis
    by (auto simp: traffic_step_def Tick t assms intro!: wp_mono[OF wp_flush_accounted[OF assms]])
qed

lemma wp_traffic_run:
  "healthy w \<Longrightarrow> keyed (w_db w) \<Longrightarrow>
   wp (traffic_run date_of ts b)
     (\<lambda>b' w'. accounted (w_db w') b' = map (fold add_turn ts) (accounted (w_db w) b)) w"
proof (induction ts arbitrary: w b)
  case (Cons t ts)
  show ?case
    unfolding traffic_run.simps
    by (rule wp_then[OF wp_traffic_step[OF Cons.prems]], rule wp_mono, rule Cons.IH) auto
qed simp

lemma fold_add_turn:
  "fold add_turn ts (i, s, r) =
   (i, s + sum_list (map (turn_sent i) ts), r + sum_list (map (turn_received i) ts))"
  by (induction ts arbitrary: s r) (auto simp: add_turn_def algebra_simps)

text \<open>C13: whatever the order of reports and timer ticks, and however often the buffer is flushed in
  between, the counters of every proxy plus what is still in the buffer are the old counters plus
  all the bytes reported for it.\<close>

theorem no_reported_byte_is_lost:
  assumes "healthy w" "keyed (w_db w)"
  shows "wp (traffic_run date_of ts [])
    (\<lambda>b w'. map (\<lambda>p. (p_id p, p_sent p + sent_of (of_proxy (p_id p)) b,
                         p_received p + received_of (of_proxy (p_id p)) b)) (db_proxies (w_db w')) =
       map (\<lambda>p. (p_id p, p_sent p + sum_list (map (turn_sent (p_id p)) ts),
                  p_received p + sum_list (map (turn_received (p_id p)) ts))) (db_proxies (w_db w))) w"
  by (rule wp_mono[OF wp_traffic_run[OF assms]]) (simp add: accounted_def fold_add_turn comp_def)

section \<open>A run\<close>

definition counted_proxy :: proxy_row where
  "counted_proxy =
    \<lparr>p_id = 5, p_client_id = Some (int_str 3), p_user_id = None, p_upstream = [], p_name = ''web'',
     p_type = ''tcp'', p_domain = [], p_local_ip = ''127.0.0.1'', p_local_port = 80,
     p_remote_port = 8080, p_enabled = True, p_node_id = None, p_group_id = None, p_sent = 100,
     p_received = 200, p_created_at = DT 0 0 2024 1, p_updated_at = DT 0 0 2024 1\<rparr>"

definition counted_world :: world where
  "counted_world = idle_world (empty_db\<lparr>
     db_users := [sample_user\<lparr>u_reset_cycle := ''daily'', u_exceeded := True\<rparr>],
     db_clients := [quota_client], db_proxies := [counted_proxy]\<rparr>)"

lemma counted_ok [simp]: "healthy counted_world" "keyed (w_db counted_world)"
  by (simp_all add: counted_world_def healthy_def keyed_def)

lemma flush_counts_every_byte_witness:
  "wp (flush_buffer (\<lambda>_. ''2024-01-01'') [((5, 3, None), 10, 20), ((9, 3, None), 7, 7)])
     (\<lambda>_ w'. map p_sent (db_proxies (w_db w')) = [110]) counted_world"
  by (rule wp_mono, rule flush_counts_every_byte[OF counted_ok refl refl])
     (simp add: counted_world_def counted_proxy_def of_proxy_def)

lemma counted_clients:
  "db_clients (w_db counted_world) = [quota_client]" "c_id quota_client = 3" "\<not> c_exceeded quota_client"
  "client_entries (w_db counted_world) [((5, 3, None), 4294967296, 20)] 3 = [((5, 3, None), 4294967296, 20)]"
  by (simp_all add: counted_world_def counted_proxy_def quota_client_def client_entries_def
      entry_live_def row_get_def)

lemma flush_flags_exhausted_witness:
  "wp (flush_buffer (\<lambda>_. ''2024-01-01'') [((5, 3, None), 4294967296, 20)])
     (\<lambda>_ w'. list_all (\<lambda>c. quota_reached (c_quota_gb c) (c_sent c + c_received c) \<longrightarrow> c_exceeded c)
        (db_clients (w_db w'))) counted_world"
  by (rule wp_mono, rule flush_flags_exhausted[OF counted_ok refl refl])
     (auto simp: counted_clients list_all2_Cons1 stale_flag_def)

lemma new_cycle_goes_unflagged_witness:
  "wp (flush_buffer (\<lambda>_. ''2024-01-01'') [((5, 3, None), 4611686018427387904, 20)])
     (\<lambda>_ w'. \<exists>u' \<in> set (db_users (w_db w')). \<not> u_exceeded u') counted_world"
  by (rule wp_mono, rule new_cycle_goes_unflagged[OF counted_ok, of "hd (db_users (w_db counted_world))"])
     (auto simp: counted_world_def counted_proxy_def quota_client_def sample_user_def user_entries_def
        entry_live_def entry_owner_def owner_of_def row_get_def should_reset_traffic_def cycle_over_def)

lemma no_reported_byte_is_lost_witness:
  "\<exists>b w'. run_state (traffic_run (\<lambda>_. ''2024-01-01'')
       [Received \<lparr>ev_proxy_id = 5, ev_client_id = 3, ev_user_id = None, ev_sent = 10, ev_received = 20\<rparr>,
        Tick,
        Received \<lparr>ev_proxy_id = 5, ev_client_id = 3, ev_user_id = None, ev_sent = 1, ev_received = 2\<rparr>] [])
       counted_world = (b, w') \<and>
     map (\<lambda>p. p_sent p + sent_of (of_proxy (p_id p)) b) (db_proxies (w_db w')) = [111]"
  using no_reported_byte_is_lost[OF counted_ok, of "\<lambda>_. ''2024-01-01''"
       "[Received \<lparr>ev_proxy_id = 5, ev_client_id = 3, ev_user_id = None, ev_sent = 10, ev_received = 20\<rparr>,
        Tick,
        Received \<lparr>ev_proxy_id = 5, ev_client_id = 3, ev_user_id = None, ev_sent = 1, ev_received = 2\<rparr>]"]
  by (auto simp: wp_def counted_world_def counted_proxy_def turn_sent_def split: prod.splits)

end
