(* ===== verification/TrafficOverview.thy ===== *)
theory TrafficOverview
  imports TrafficProps "HOL-Library.List_Lexorder" "HOL-Library.Char_ord"
begin

text \<open>
  The traffic overview (\<open>get_traffic_overview\<close> of \<open>controller/src/traffic.rs\<close>) and the two handlers
  that serve it (\<open>controller/src/api/handlers/traffic.rs\<close>). \<open>date_before now days\<close> stands for chrono's
  \<open>(now - Duration::days(days)).format("%Y-%m-%d")\<close>; dates are compared as texts, as the database
  and the final sort do.
\<close>

section \<open>Data\<close>

record total_traffic =
  tt_sent :: i64
  tt_received :: i64
  tt_total :: i64

record user_traffic =
  ut_user_id :: int
  ut_username :: string
  ut_sent :: i64
  ut_received :: i64
  ut_total :: i64

record client_traffic =
  ct_client_id :: int
  ct_client_name :: string
  ct_sent :: i64
  ct_received :: i64
  ct_total :: i64

record proxy_traffic =
  pt_proxy_id :: int
  pt_proxy_name :: string
  pt_client_id :: int
  pt_client_name :: string
  pt_sent :: i64
  pt_received :: i64
  pt_total :: i64

record daily_traffic =
  dy_date :: string
  dy_sent :: i64
  dy_received :: i64
  dy_total :: i64

record traffic_overview =
  to_total :: total_traffic
  to_by_user :: "user_traffic list"
  to_by_client :: "client_traffic list"
  to_by_proxy :: "proxy_traffic list"
  to_daily :: "daily_traffic list"

definition user_traffic_of :: "user_row \<Rightarrow> user_traffic" where
  "user_traffic_of u =
    \<lparr>ut_user_id = u_id u, ut_username = u_username u, ut_sent = u_sent u, ut_received = u_received u,
     ut_total = u_sent u + u_received u\<rparr>"

definition client_traffic_of :: "client_row \<Rightarrow> client_traffic" where
  "client_traffic_of c =
    \<lparr>ct_client_id = c_id c, ct_client_name = c_name c, ct_sent = c_sent c, ct_received = c_received c,
     ct_total = c_sent c + c_received c\<rparr>"

definition proxy_traffic_of :: "proxy_row \<Rightarrow> int \<Rightarrow> string \<Rightarrow> proxy_traffic" where
  "proxy_traffic_of p proxy_client_id client_name =
    \<lparr>pt_proxy_id = p_id p, pt_proxy_name = p_name p, pt_client_id = proxy_client_id,
     pt_client_name = client_name, pt_sent = p_sent p, pt_received = p_received p,
     pt_total = p_sent p + p_received p\<rparr>"

text \<open>The UTF-8 bytes of the name shown for proxies without a client.\<close>

definition direct_name :: string where
  "direct_name = map char_of [229 :: nat, 133, 172, 231, 189, 145, 231, 155, 180, 232, 191, 158]"

section \<open>Collecting\<close>

definition has_client_access :: "int \<Rightarrow> int \<Rightarrow> (any_err + bool) io" where
  "has_client_access user_id client_id =
    and_then (or_fail E_db (find_by_id clients_t client_id)) (\<lambda>r.
      case r of
        None \<Rightarrow> finish False
      | Some client \<Rightarrow> finish (c_user_id client = Some user_id))"

definition viewer_is_admin :: "int option \<Rightarrow> (any_err + bool) io" where
  "viewer_is_admin user_id =
    (case user_id of
       None \<Rightarrow> finish False
     | Some uid \<Rightarrow>
         and_then (or_fail E_db (find_by_id users_t uid)) (\<lambda>r.
           case r of None \<Rightarrow> finish False | Some user \<Rightarrow> finish (u_is_admin user)))"

text \<open>The users shown, and what they contribute to the totals.\<close>

definition overview_users :: "bool \<Rightarrow> int option \<Rightarrow> (any_err + user_traffic list \<times> i64 \<times> i64) io" where
  "overview_users is_admin user_id =
    (if is_admin then
       and_then (or_fail E_db (find_all users_t (\<lambda>_. True))) (\<lambda>us. finish (map user_traffic_of us, 0, 0))
     else case user_id of
       None \<Rightarrow> finish ([], 0, 0)
     | Some uid \<Rightarrow>
         and_then (or_fail E_db (find_by_id users_t uid)) (\<lambda>r.
           case r of
             None \<Rightarrow> finish ([], 0, 0)
           | Some user \<Rightarrow> finish ([user_traffic_of user], 0 + u_sent user, 0 + u_received user)))"

definition client_shown :: "bool \<Rightarrow> int option \<Rightarrow> client_row \<Rightarrow> (any_err + bool) io" where
  "client_shown is_admin user_id client =
    (if is_admin then finish True
     else case user_id of
       None \<Rightarrow> finish True
     | Some uid \<Rightarrow> has_client_access uid (c_id client))"

fun overview_clients ::
  "bool \<Rightarrow> int option \<Rightarrow> client_row list \<Rightarrow> client_traffic list \<times> i64 \<times> i64 \<Rightarrow>
   (any_err + client_traffic list \<times> i64 \<times> i64) io" where
  "overview_clients is_admin user_id [] acc = finish acc"
| "overview_clients is_admin user_id (client # cs) (shown, sent, received) =
    and_then (client_shown is_admin user_id client) (\<lambda>ok.
      if \<not> ok then overview_clients is_admin user_id cs (shown, sent, received)
      else overview_clients is_admin user_id cs
        (shown @ [client_traffic_of client],
         (if is_admin then sent + c_sent client else sent),
         (if is_admin then received + c_received client else received)))"

definition proxy_client_id :: "proxy_row \<Rightarrow> int" where
  "proxy_client_id p =
    (case p_client_id p of
       None \<Rightarrow> 0
     | Some s \<Rightarrow> (case parse_i64 s of Some i \<Rightarrow> i | None \<Rightarrow> 0))"

definition proxy_shown :: "bool \<Rightarrow> int option \<Rightarrow> proxy_row \<Rightarrow> (any_err + bool) io" where
  "proxy_shown is_admin user_id p =
    (if is_admin then finish True
     else case user_id of
       None \<Rightarrow> finish True
     | Some uid \<Rightarrow>
         if p_client_id p = None then finish (p_user_id p = Some uid)
         else has_client_access uid (proxy_client_id p))"

definition proxy_client_name :: "proxy_row \<Rightarrow> (any_err + string) io" where
  "proxy_client_name p =
    (if p_client_id p = None then finish direct_name
     else and_then (or_fail E_db (find_by_id clients_t (proxy_client_id p))) (\<lambda>r.
       case r of Some client \<Rightarrow> finish (c_name client) | None \<Rightarrow> finish ''Unknown''))"

fun overview_proxies ::
  "bool \<Rightarrow> int option \<Rightarrow> proxy_row list \<Rightarrow> proxy_traffic list \<Rightarrow> (any_err + proxy_traffic list) io" where
  "overview_proxies is_admin user_id [] shown = finish shown"
| "overview_proxies is_admin user_id (p # ps) shown =
    and_then (proxy_shown is_admin user_id p) (\<lambda>ok.
      if \<not> ok then overview_proxies is_admin user_id ps shown
      else and_then (proxy_client_name p) (\<lambda>name.
        overview_proxies is_admin user_id ps (shown @ [proxy_traffic_of p (proxy_client_id p) name])))"

definition daily_shown :: "bool \<Rightarrow> int option \<Rightarrow> traffic_row \<Rightarrow> (any_err + bool) io" where
  "daily_shown is_admin user_id d =
    (if is_admin then finish True
     else case user_id of
       None \<Rightarrow> finish True
     | Some uid \<Rightarrow>
         (case t_client_id d of
            Some client_id \<Rightarrow> has_client_access uid client_id
          | None \<Rightarrow>
              and_then (or_fail E_db (find_by_id proxies_t (t_proxy_id d))) (\<lambda>r.
                finish (case r of Some p \<Rightarrow> p_user_id p = Some uid | None \<Rightarrow> False))))"

fun overview_daily ::
  "bool \<Rightarrow> int option \<Rightarrow> traffic_row list \<Rightarrow> (string \<times> i64 \<times> i64) list \<Rightarrow>
   (any_err + (string \<times> i64 \<times> i64) list) io" where
  "overview_daily is_admin user_id [] daily_map = finish daily_map"
| "overview_daily is_admin user_id (d # ds) daily_map =
    and_then (daily_shown is_admin user_id d) (\<lambda>ok.
      if \<not> ok then overview_daily is_admin user_id ds daily_map
      else overview_daily is_admin user_id ds (entry_add (t_date d) (t_sent d) (t_received d) daily_map))"

definition daily_of :: "string \<times> i64 \<times> i64 \<Rightarrow> daily_traffic" where
  "daily_of x =
    (case x of (date, sent, received) \<Rightarrow>
       \<lparr>dy_date = date, dy_sent = sent, dy_received = received, dy_total = sent + received\<rparr>)"

definition get_traffic_overview ::
  "(naive_dt \<Rightarrow> int \<Rightarrow> string) \<Rightarrow> int option \<Rightarrow> int \<Rightarrow> (any_err + traffic_overview) io" where
  "get_traffic_overview date_before user_id days =
    and_then (viewer_is_admin user_id) (\<lambda>is_admin.
    and_then (overview_users is_admin user_id) (\<lambda>(users, sent0, received0).
    and_then (or_fail E_db (find_all clients_t (\<lambda>_. True))) (\<lambda>all_clients.
    and_then (overview_clients is_admin user_id all_clients ([], sent0, received0))
      (\<lambda>(clients, total_sent, total_received).
    and_then (or_fail E_db (find_all proxies_t (\<lambda>_. True))) (\<lambda>all_proxies.
    and_then (overview_proxies is_admin user_id all_proxies []) (\<lambda>proxies. do {
      now \<leftarrow> utc_now;
      and_then (or_fail E_db (find_all traffic_t (\<lambda>t. date_before now days \<le> t_date t))) (\<lambda>all_daily.
      and_then (overview_daily is_admin user_id all_daily []) (\<lambda>daily_map.
        finish
          \<lparr>to_total = \<lparr>tt_sent = total_sent, tt_received = total_received,
                       tt_total = total_sent + total_received\<rparr>,
           to_by_user = users, to_by_client = clients, to_by_proxy = proxies,
           to_daily = sort_key dy_date (map daily_of daily_map)\<rparr>))
    }))))))"

section \<open>Handlers\<close>

definition get_traffic_overview_handler ::
  "(naive_dt \<Rightarrow> int \<Rightarrow> string) \<Rightarrow> auth_user option \<Rightarrow> int option \<Rightarrow> traffic_overview handler" where
  "get_traffic_overview_handler date_before auth_user days =
    and_then (some_or (UNAUTHORIZED, M_not_authenticated) auth_user) (\<lambda>auth.
      or_fail internal (get_traffic_overview date_before (Some (a_id auth))
        (case days of Some n \<Rightarrow> n | None \<Rightarrow> 30)))"

definition get_user_traffic_handler ::
  "(naive_dt \<Rightarrow> int \<Rightarrow> string) \<Rightarrow> auth_user option \<Rightarrow> int \<Rightarrow> int option \<Rightarrow> traffic_overview handler" where
  "get_user_traffic_handler date_before auth_user user_id days =
    and_then (some_or (UNAUTHORIZED, M_not_authenticated) auth_user) (\<lambda>auth.
    and_then (check (a_is_admin auth \<or> a_id auth = user_id) (FORBIDDEN, M_admin_required)) (\<lambda>_.
      or_fail internal (get_traffic_overview date_before (Some user_id)
        (case days of Some n \<Rightarrow> n | None \<Rightarrow> 30))))"

section \<open>What a viewer sees\<close>

definition owns_client :: "db \<Rightarrow> int \<Rightarrow> int \<Rightarrow> bool" where
  "owns_client d uid cid =
    (case row_get c_id cid (db_clients d) of None \<Rightarrow> False | Some c \<Rightarrow> c_user_id c = Some uid)"

definition sees_proxy :: "db \<Rightarrow> int \<Rightarrow> proxy_row \<Rightarrow> bool" where
  "sees_proxy d uid p =
    (if p_client_id p = None then p_user_id p = Some uid else owns_client d uid (proxy_client_id p))"

definition sees_day :: "db \<Rightarrow> int \<Rightarrow> traffic_row \<Rightarrow> bool" where
  "sees_day d uid t =
    (case t_client_id t of
       Some cid \<Rightarrow> owns_client d uid cid
     | None \<Rightarrow> (case row_get p_id (t_proxy_id t) (db_proxies d) of
                  None \<Rightarrow> False | Some p \<Rightarrow> p_user_id p = Some uid))"

definition client_name_of :: "db \<Rightarrow> proxy_row \<Rightarrow> string" where
  "client_name_of d p =
    (if p_client_id p = None then direct_name
     else case row_get c_id (proxy_client_id p) (db_clients d) of
       Some c \<Rightarrow> c_name c | None \<Rightarrow> ''Unknown'')"

lemma wp_has_client_access [simp]:
  "healthy w \<Longrightarrow> wp (has_client_access uid cid) Q w = Q (Inr (owns_client (w_db w) uid cid)) w"
  by (simp add: has_client_access_def healthy_def wp_find_by_id owns_client_def split: option.splits)

lemma wp_client_shown [simp]:
  "healthy w \<Longrightarrow> wp (client_shown adm (Some uid) c) Q w =
     Q (Inr (adm \<or> owns_client (w_db w) uid (c_id c))) w"
  by (simp add: client_shown_def)

lemma wp_proxy_shown [simp]:
  "healthy w \<Longrightarrow> wp (proxy_shown adm (Some uid) p) Q w = Q (Inr (adm \<or> sees_proxy (w_db w) uid p)) w"
  by (simp add: proxy_shown_def sees_proxy_def)

lemma wp_proxy_client_name [simp]:
  "healthy w \<Longrightarrow> wp (proxy_client_name p) Q w = Q (Inr (client_name_of (w_db w) p)) w"
  by (simp add: proxy_client_name_def healthy_def wp_find_by_id client_name_of_def split: option.splits)

lemma wp_daily_shown [simp]:
  "healthy w \<Longrightarrow> wp (daily_shown adm (Some uid) t) Q w = Q (Inr (adm \<or> sees_day (w_db w) uid t)) w"
  by (auto simp: daily_shown_def healthy_def wp_find_by_id sees_day_def split: option.splits)

lemma wp_overview_clients:
  "healthy w \<Longrightarrow> wp (overview_clients adm (Some uid) cs (shown, s, r)) Q w =
   (let vis = filter (\<lambda>c. adm \<or> owns_client (w_db w) uid (c_id c)) cs in
    Q (Inr (shown @ map client_traffic_of vis,
            s + (if adm then sum_list (map c_sent vis) else 0),
            r + (if adm then sum_list (map c_received vis) else 0))) w)"
  by (cases adm; induction cs arbitrary: shown s r) (simp_all add: algebra_simps)

lemma wp_overview_proxies:
  "healthy w \<Longrightarrow> wp (overview_proxies adm (Some uid) ps shown) Q w =
   Q (Inr (shown @ map (\<lambda>p. proxy_traffic_of p (proxy_client_id p) (client_name_of (w_db w) p))
      (filter (\<lambda>p. adm \<or> sees_proxy (w_db w) uid p) ps))) w"
  by (cases adm; induction ps arbitrary: shown) simp_all

definition day_sums :: "traffic_row list \<Rightarrow> (string \<times> i64 \<times> i64) list \<Rightarrow> (string \<times> i64 \<times> i64) list" where
  "day_sums ts m = foldl (\<lambda>m t. entry_add (t_date t) (t_sent t) (t_received t) m) m ts"

lemma wp_overview_daily:
  "healthy w \<Longrightarrow> wp (overview_daily adm (Some uid) ts m) Q w =
   Q (Inr (day_sums (filter (\<lambda>t. adm \<or> sees_day (w_db w) uid t) ts) m)) w"
  by (cases adm; induction ts arbitrary: m) (simp_all add: day_sums_def)

lemma distinct_day_sums: "distinct (map fst m) \<Longrightarrow> distinct (map fst (day_sums ts m))"
  unfolding day_sums_def by (induction ts arbitrary: m) (auto simp: distinct_entry_add)

lemma sent_day_sums: "sent_of P (day_sums ts m) = sent_of P m + sum_list (map t_sent (filter (\<lambda>t. P (t_date t)) ts))"
  unfolding day_sums_def by (induction ts arbitrary: m) (auto simp: algebra_simps)

lemma received_day_sums:
  "received_of P (day_sums ts m) = received_of P m + sum_list (map t_received (filter (\<lambda>t. P (t_date t)) ts))"
  unfolding day_sums_def by (induction ts arbitrary: m) (auto simp: algebra_simps)

text \<open>The days of the overview, from the rows that count.\<close>

definition days_ok :: "daily_traffic list \<Rightarrow> traffic_row list \<Rightarrow> bool" where
  "days_ok days ts =
    (sorted (map dy_date days) \<and> distinct (map dy_date days) \<and>
     list_all (\<lambda>x. dy_sent x = sum_list (map t_sent (filter (\<lambda>t. t_date t = dy_date x) ts)) \<and>
                   dy_received x = sum_list (map t_received (filter (\<lambda>t. t_date t = dy_date x) ts)) \<and>
                   dy_total x = dy_sent x + dy_received x) days)"

lemma dy_date_of [simp]: "dy_date (daily_of x) = fst x"
  by (simp add: daily_of_def split: prod.splits)

lemma days_ok_sums: "days_ok (sort_key dy_date (map daily_of (day_sums ts []))) ts"
proof -
  let ?m = "day_sums ts []"
  have dist: "distinct (map fst ?m)" by (rule distinct_day_sums) simp
  have "distinct (map dy_date (map daily_of ?m))" using dist by (simp add: comp_def)
  then have "distinct (map dy_date (sort_key dy_date (map daily_of ?m)))"
    by (metis distinct_map set_sort distinct_sort)
  moreover have "sent_of ((=) k) ?m = a \<and> received_of ((=) k) ?m = b" if "(k, a, b) \<in> set ?m" for k a b
    using sums_of_map_of[OF dist, of k a b] map_of_is_SomeI[OF dist that] by simp
  then have "\<forall>x \<in> set ?m. dy_sent (daily_of x) = sent_of ((=) (fst x)) ?m \<and>
      dy_received (daily_of x) = received_of ((=) (fst x)) ?m \<and>
      dy_total (daily_of x) = dy_sent (daily_of x) + dy_received (daily_of x)"
    by (auto simp: daily_of_def)
  ultimately show ?thesis
    by (auto simp: days_ok_def list_all_iff sent_day_sums received_day_sums eq_commute)
qed

text \<open>a user who is not an administrator gets exactly the traffic of their own clients, of the
  proxies they own and of the days of those, with the total of their own counters; the days are
  distinct and sorted, each with the sums of its rows. Nothing changes.\<close>

theorem overview_shows_own_traffic:
  assumes "healthy w" "d = w_db w" "row_get u_id uid (db_users d) = Some u" "\<not> u_is_admin u"
  shows "wp (get_traffic_overview date_before (Some uid) days)
    (\<lambda>r w'. w' = w \<and> (\<exists>v. r = Inr v \<and>
       to_by_user v = [user_traffic_of u] \<and>
       to_total v = \<lparr>tt_sent = u_sent u, tt_received = u_received u, tt_total = u_sent u + u_received u\<rparr> \<and>
       to_by_client v = map client_traffic_of (filter (\<lambda>c. owns_client d uid (c_id c)) (db_clients d)) \<and>
       to_by_proxy v = map (\<lambda>p. proxy_traffic_of p (proxy_client_id p) (client_name_of d p))
                         (filter (sees_proxy d uid) (db_proxies d)) \<and>
       days_ok (to_daily v) (filter (\<lambda>t. date_before (w_now w) days \<le> t_date t \<and> sees_day d uid t)
                               (db_traffic d)))) w"
proof -
  have h: "w_faults w = []" using assms(1) by (simp add: healthy_def)
  have f: "filter (\<lambda>t. P t \<and> R t) xs = filter R (filter P xs)" for P R and xs :: "traffic_row list"
    by (simp add: conj_commute)
  show ?thesis
    using assms(3,4)
    by (simp add: get_traffic_overview_def viewer_is_admin_def overview_users_def wp_find_by_id
        wp_find_all h assms(1,2) wp_overview_clients wp_overview_proxies wp_overview_daily f days_ok_sums
        del: filter_filter)
qed

lemma parse_three: "parse_i64 (int_str 3) = Some 3"
  by (rule parse_i64_int_str) simp_all

lemma counted_sees:
  "sees_proxy (w_db counted_world) 7 counted_proxy" "db_proxies (w_db counted_world) = [counted_proxy]"
  "owns_client (w_db counted_world) 7 3" "p_id counted_proxy = 5"
  by (simp_all add: counted_world_def counted_proxy_def quota_client_def row_get_def
      owns_client_def sees_proxy_def proxy_client_id_def parse_three)

lemma overview_shows_own_traffic_witness:
  "wp (get_traffic_overview (\<lambda>_ _. ''2023-12-02'') (Some 7) 30)
     (\<lambda>r _. \<exists>v. r = Inr v \<and> map ct_client_id (to_by_client v) = [3] \<and> map pt_proxy_id (to_by_proxy v) = [5])
     counted_world"
proof -
  let ?u = "sample_user\<lparr>u_reset_cycle := ''daily'', u_exceeded := True\<rparr>"
  have "row_get u_id 7 (db_users (w_db counted_world)) = Some ?u" "\<not> u_is_admin ?u"
    by (simp_all add: counted_world_def row_get_def sample_user_def)
  then show ?thesis
    by (rule wp_mono[OF overview_shows_own_traffic[OF counted_ok(1) refl]])
       (auto simp: counted_clients counted_sees client_traffic_of_def proxy_traffic_of_def)
qed

end
