(* ===== verification/Certificates.thy ===== *)
theory Certificates
  imports NodeManager
begin

text \<open>
  Node certificates (\<open>controller/src/certificate_manager.rs\<close>): one row per node, reused until thirty
  days before it expires, replaced in place otherwise. What the code gets from other crates is a
  parameter: the generator (\<open>rcgen\<close>, through \<open>cert_generator.rs\<close>), base64, and chrono's arithmetic
  on dates. \<open>crates_ok\<close> states the documented behaviour that is relied on.
\<close>

section \<open>Parameters\<close>

record cert_crates =
  cr_generate :: "int \<Rightarrow> string \<Rightarrow> any_err + string \<times> string \<times> string"
  cr_encode :: "string \<Rightarrow> string"
  cr_decode :: "string \<Rightarrow> string option"
  cr_add_days :: "naive_dt \<Rightarrow> int \<Rightarrow> naive_dt"
  cr_timestamp :: "naive_dt \<Rightarrow> int"

section \<open>Operations\<close>

record cert_data =
  cd_cert :: string
  cd_key :: string
  cd_fingerprint :: string
  cd_expires :: int

definition find_cert :: "int \<Rightarrow> (any_err + cert_row option) io" where
  "find_cert node_id = or_fail E_db (find_one certs_t (\<lambda>k. k_node_id k = node_id))"

definition cert_error :: any_err where
  "cert_error = E_msg (M_text ''invalid certificate'')"

text \<open>Decoding a stored certificate.\<close>

definition decode_cert :: "cert_crates \<Rightarrow> cert_row \<Rightarrow> (any_err + cert_data) io" where
  "decode_cert cr k =
    and_then (some_or cert_error (cr_decode cr (k_cert k))) (\<lambda>cert_pem.
    and_then (some_or cert_error (cr_decode cr (k_key k))) (\<lambda>key_pem.
    finish \<lparr>cd_cert = cert_pem, cd_key = key_pem, cd_fingerprint = k_fingerprint k,
            cd_expires = cr_timestamp cr (k_expires_at k)\<rparr>))"

definition set_cert ::
  "cert_crates \<Rightarrow> string \<times> string \<times> string \<Rightarrow> naive_dt \<Rightarrow> naive_dt \<Rightarrow> cert_row \<Rightarrow> cert_row" where
  "set_cert cr x now expires_at k =
    (case x of (cert_pem, key_pem, fingerprint) \<Rightarrow>
       k\<lparr>k_cert := cr_encode cr cert_pem, k_key := cr_encode cr key_pem, k_fingerprint := fingerprint,
         k_created_at := now, k_expires_at := expires_at\<rparr>)"

text \<open>Saving a new certificate: update the node's row or insert one.\<close>

definition save_cert :: "cert_crates \<Rightarrow> int \<Rightarrow> string \<times> string \<times> string \<Rightarrow> (any_err + cert_data) io" where
  "save_cert cr node_id x =
    (case x of (cert_pem, key_pem, fingerprint) \<Rightarrow> do {
       now \<leftarrow> utc_now;
       let expires_at = cr_add_days cr now 3650 in
       and_then (find_cert node_id) (\<lambda>result.
       and_then
         (case result of
            Some existing \<Rightarrow>
              and_then (or_fail E_db (update_row certs_t (k_id existing) (set_cert cr x now expires_at)))
                (\<lambda>_. finish ())
          | None \<Rightarrow>
              and_then (or_fail E_db (insert_row certs_t sq_certs (\<lambda>n d. d\<lparr>sq_certs := n\<rparr>) (\<lambda>i.
                \<lparr>k_id = i, k_node_id = node_id, k_cert = cr_encode cr cert_pem,
                 k_key = cr_encode cr key_pem, k_fingerprint = fingerprint, k_created_at = now,
                 k_expires_at = expires_at\<rparr>))) (\<lambda>_. finish ())) (\<lambda>_.
       finish \<lparr>cd_cert = cert_pem, cd_key = key_pem, cd_fingerprint = fingerprint,
               cd_expires = cr_timestamp cr expires_at\<rparr>))
     })"

definition new_cert :: "cert_crates \<Rightarrow> int \<Rightarrow> string \<Rightarrow> (any_err + cert_data) io" where
  "new_cert cr node_id node_name =
    and_then (lift_sum (cr_generate cr node_id node_name)) (save_cert cr node_id)"

definition get_or_generate_node_certificate :: "cert_crates \<Rightarrow> int \<Rightarrow> string \<Rightarrow> (any_err + cert_data) io" where
  "get_or_generate_node_certificate cr node_id node_name =
    and_then (find_cert node_id) (\<lambda>existing.
      case existing of
        None \<Rightarrow> new_cert cr node_id node_name
      | Some existing_cert \<Rightarrow> do {
          now \<leftarrow> utc_now;
          if now < cr_add_days cr (k_expires_at existing_cert) (- 30) then decode_cert cr existing_cert
          else new_cert cr node_id node_name
        })"

definition get_node_fingerprint :: "int \<Rightarrow> (any_err + string option) io" where
  "get_node_fingerprint node_id = and_then (find_cert node_id) (\<lambda>cert. finish (map_option k_fingerprint cert))"

definition delete_node_certificate :: "int \<Rightarrow> (any_err + unit) io" where
  "delete_node_certificate node_id =
    and_then (or_fail E_db (delete_many certs_t (\<lambda>k. k_node_id k = node_id))) (\<lambda>_. finish ())"

definition force_update_node_certificate :: "cert_crates \<Rightarrow> int \<Rightarrow> string \<Rightarrow> (any_err + cert_data) io" where
  "force_update_node_certificate cr node_id node_name =
    and_then (lift_sum (cr_generate cr node_id node_name)) (save_cert cr node_id)"

section \<open>One certificate per node\<close>

definition certs_inv :: "db \<Rightarrow> bool" where
  "certs_inv d =
    (distinct (map k_node_id (db_certs d)) \<and> distinct (map k_id (db_certs d)) \<and>
     list_all (\<lambda>k. k_id k < sq_certs d) (db_certs d))"

definition cert_of :: "db \<Rightarrow> int \<Rightarrow> cert_row option" where
  "cert_of d node_id = find (\<lambda>k. k_node_id k = node_id) (db_certs d)"

lemma cert_of_row: "cert_of d n = row_get k_node_id n (db_certs d)"
  by (simp add: cert_of_def row_get_def)

lemma set_cert_sel [simp]:
  "k_id (set_cert cr x now e k) = k_id k" "k_node_id (set_cert cr x now e k) = k_node_id k"
  by (simp_all add: set_cert_def split: prod.splits)

lemma k_id_upd_node:
  assumes "certs_inv d" "cert_of d n = Some k"
  shows "row_upd k_id (k_id k) f (db_certs d) = row_upd k_node_id n f (db_certs d)"
proof -
  have k: "k \<in> set (db_certs d)" "k_node_id k = n"
    using assms(2) by (auto simp: cert_of_row dest: row_get_SomeD)
  have "k_id x = k_id k \<longleftrightarrow> k_node_id x = n" if "x \<in> set (db_certs d)" for x
    using that k assms(1) by (auto simp: certs_inv_def distinct_map inj_on_def)
  then show ?thesis by (auto simp: row_upd_def)
qed

text \<open>What saving does to the table, in a run without faults.\<close>

lemma wp_save_cert:
  assumes "healthy w" "certs_inv (w_db w)" "x = (cert, key, fp)" "has_row n_id n (db_nodes (w_db w))"
  shows "wp (save_cert cr n x) (\<lambda>r w'.
      r = Inr \<lparr>cd_cert = cert, cd_key = key, cd_fingerprint = fp,
               cd_expires = cr_timestamp cr (cr_add_days cr (w_now w) 3650)\<rparr> \<and>
      healthy w' \<and> w_now w' = w_now w \<and> certs_inv (w_db w') \<and>
      db_nodes (w_db w') = db_nodes (w_db w) \<and> db_proxies (w_db w') = db_proxies (w_db w) \<and>
      (\<forall>m. m \<noteq> n \<longrightarrow> cert_of (w_db w') m = cert_of (w_db w) m) \<and>
      (\<exists>k. cert_of (w_db w') n = Some k \<and> k_cert k = cr_encode cr cert \<and> k_key k = cr_encode cr key \<and>
           k_fingerprint k = fp \<and> k_expires_at k = cr_add_days cr (w_now w) 3650)) w"
proof (cases "cert_of (w_db w) n")
  case None
  then have new: "n \<notin> k_node_id ` set (db_certs (w_db w))"
    by (simp add: cert_of_row row_get_None_iff)
  have find: "find (\<lambda>k. k_node_id k = n) (db_certs (w_db w)) = None" using None by (simp add: cert_of_def)
  have fresh: "sq_certs (w_db w) \<notin> k_id ` set (db_certs (w_db w))"
    using assms(2) by (auto simp: certs_inv_def list_all_iff)
  let ?k = "\<lparr>k_id = sq_certs (w_db w), k_node_id = n, k_cert = cr_encode cr cert, k_key = cr_encode cr key,
     k_fingerprint = fp, k_created_at = w_now w, k_expires_at = cr_add_days cr (w_now w) 3650\<rparr>"
  have inv: "certs_inv ((w_db w)\<lparr>db_certs := db_certs (w_db w) @ [?k], sq_certs := sq_certs (w_db w) + 1\<rparr>)"
    using assms(2) new fresh by (auto simp: certs_inv_def list_all_iff)
  have "cert_refs (w_db w) ?k"
    using assms(4) new by (auto simp: cert_refs_def unique_in_def list_ex_iff)
  then show ?thesis
    using assms(1) find inv None
    by (simp add: save_cert_def assms(3) find_cert_def healthy_def wp_find_one wp_insert_row Let_def
        cert_of_row row_get_append) (simp add: row_get_def split: option.splits)
next
  case (Some k)
  then have find: "find (\<lambda>k. k_node_id k = n) (db_certs (w_db w)) = Some k" by (simp add: cert_of_def)
  have mem: "row_get k_id (k_id k) (db_certs (w_db w)) = Some k"
    using assms(2) Some row_get_distinct[of k_id "db_certs (w_db w)" k]
    by (auto simp: certs_inv_def cert_of_row dest: row_get_SomeD)
  have inv: "certs_inv ((w_db w)\<lparr>db_certs := row_upd k_node_id n (set_cert cr x t e) (db_certs (w_db w))\<rparr>)" for t e
    using assms(2) by (auto simp: certs_inv_def keys_row_upd list_all_iff set_row_upd row_upd_def comp_def if_distrib cong: if_cong)
  show ?thesis
    using assms(1) find mem inv Some
    by (simp add: save_cert_def assms(3) find_cert_def healthy_def wp_find_one wp_update_row Let_def
        k_id_upd_node[OF assms(2) Some] cert_of_row row_get_row_upd set_cert_def)
qed

section \<open>Properties\<close>

text \<open>Documented behaviour of the crates: decoding undoes encoding, and a certificate issued for ten
  years is not within thirty days of its end.\<close>

definition crates_ok :: "cert_crates \<Rightarrow> bool" where
  "crates_ok cr =
    ((\<forall>s. cr_decode cr (cr_encode cr s) = Some s) \<and>
     (\<forall>t. t < cr_add_days cr (cr_add_days cr t 3650) (- 30)))"

text \<open>C31: rotating the certificate of a known node stores exactly one certificate for the node and touches no other
  node's; asking for the node's certificate afterwards returns the one just issued, without issuing
  another, and its fingerprint is what clients are told to trust.\<close>

theorem rotated_certificate_is_served:
  assumes "healthy w" "certs_inv (w_db w)" "crates_ok cr" "cr_generate cr n name = Inr (cert, key, fp)"
    and "has_row n_id n (db_nodes (w_db w))"
  shows "wp (force_update_node_certificate cr n name) (\<lambda>r w'.
      certs_inv (w_db w') \<and> (\<forall>m. m \<noteq> n \<longrightarrow> cert_of (w_db w') m = cert_of (w_db w) m) \<and>
      wp (get_or_generate_node_certificate cr n name) (\<lambda>r' w''. r' = r \<and> w'' = w') w' \<and>
      wp (get_node_fingerprint n) (\<lambda>r' w''. r' = Inr (Some fp) \<and> w'' = w') w') w"
proof -
  have served: "wp (get_or_generate_node_certificate cr n name) (\<lambda>r' w''. r' = Inr \<lparr>cd_cert = cert, cd_key = key,
        cd_fingerprint = fp, cd_expires = cr_timestamp cr (cr_add_days cr (w_now w) 3650)\<rparr> \<and> w'' = w') w' \<and>
      wp (get_node_fingerprint n) (\<lambda>r' w''. r' = Inr (Some fp) \<and> w'' = w') w'"
    if "healthy w'" "w_now w' = w_now w" "cert_of (w_db w') n = Some k" "k_cert k = cr_encode cr cert"
      "k_key k = cr_encode cr key" "k_fingerprint k = fp" "k_expires_at k = cr_add_days cr (w_now w) 3650"
    for w' k
    using that assms(3)
    by (simp add: get_or_generate_node_certificate_def get_node_fingerprint_def find_cert_def healthy_def
        wp_find_one decode_cert_def crates_ok_def cert_of_def)
  show ?thesis
    unfolding force_update_node_certificate_def assms(4) wp_and_then wp_lift_sum sum.case
    by (rule wp_mono[OF wp_save_cert[OF assms(1,2) refl assms(5)]]) (use served in blast)
qed

definition demo_crates :: cert_crates where
  "demo_crates =
    \<lparr>cr_generate = (\<lambda>_ name. Inr (''cert'' @ name, ''key'', ''fp'')), cr_encode = (\<lambda>s. s), cr_decode = Some,
     cr_add_days = (\<lambda>t n. DT (dt_ticks t + n) (dt_day t + n) (dt_year t) (dt_month t)),
     cr_timestamp = dt_ticks\<rparr>"

lemma rotated_certificate_is_served_witness:
  "wp (force_update_node_certificate demo_crates 1 ''n'') (\<lambda>r w'.
      wp (get_node_fingerprint 1) (\<lambda>r' w''. r' = Inr (Some ''fp'') \<and> w'' = w') w')
    (idle_world (empty_db\<lparr>db_nodes := [sample_node]\<rparr>))"
proof (rule wp_mono, rule rotated_certificate_is_served)
  show "crates_ok demo_crates"
    by (simp add: crates_ok_def demo_crates_def less_naive_dt_def less_eq_naive_dt_def)
  show "cr_generate demo_crates 1 ''n'' = Inr (''cert'' @ ''n'', ''key'', ''fp'')"
    by (simp add: demo_crates_def)
qed (auto simp: healthy_def certs_inv_def has_row_def sample_node_def)

end
