(* ===== verification/ClientStreams.thy ===== *)
theory ClientStreams
  imports Certificates ProxyProps
begin

text \<open>
  The manager of the clients' gRPC streams (\<open>controller/src/client_stream_manager.rs\<close>): sessions and
  the online flag, the proxy list pushed to a client when its proxies change, and commands. As for
  nodes, \<open>w_client_answers\<close> says what clients answer; a client echoes the request identifier. The
  KCP settings of a node are JSON text; \<open>kcp_of\<close> stands for serde's parser.
\<close>

section \<open>Sessions\<close>

definition client_session :: "world \<Rightarrow> int \<Rightarrow> client_result option session option" where
  "client_session w i = map_of (w_clients w) i"

definition client_live :: "world \<Rightarrow> int \<Rightarrow> bool" where
  "client_live w i =
    (case client_session w i of Some s \<Rightarrow> ss_chan s \<notin> set (w_closed w) | None \<Rightarrow> False)"

definition set_client_online :: "bool \<Rightarrow> naive_dt \<Rightarrow> client_row \<Rightarrow> client_row" where
  "set_client_online online now c =
    c\<lparr>c_is_online := online, c_updated_at := now,
      c_last_online := (if online then Some now else c_last_online c)\<rparr>"

definition csm_persist_online_status :: "int \<Rightarrow> bool \<Rightarrow> (any_err + unit) io" where
  "csm_persist_online_status client_id online = do {
     now \<leftarrow> utc_now;
     and_then (or_fail E_db (update_row clients_t client_id (set_client_online online now))) (\<lambda>_. finish ())
   }"

definition csm_register :: "int \<Rightarrow> nat \<Rightarrow> (any_err + unit) io" where
  "csm_register client_id tx = do {
     modify (\<lambda>w. w\<lparr>w_clients :=
       AList.update client_id \<lparr>ss_chan = tx, ss_pending = pending_new\<rparr> (w_clients w)\<rparr>);
     csm_persist_online_status client_id True
   }"

definition csm_unregister :: "int \<Rightarrow> nat \<Rightarrow> (any_err + unit) io" where
  "csm_unregister client_id tx = do {
     s \<leftarrow> asks (\<lambda>w. client_session w client_id);
     if \<not> (case s of Some stream \<Rightarrow> ss_chan stream = tx | None \<Rightarrow> False)
     then State_Monad.return (Inr ())
     else do {
       modify (\<lambda>w. w\<lparr>w_clients := AList.delete client_id (w_clients w)\<rparr>);
       csm_persist_online_status client_id False
     }
   }"

definition csm_apply_online_status :: "client_row list \<Rightarrow> client_row list io" where
  "csm_apply_online_status clients =
    asks (\<lambda>w. map (\<lambda>c. c\<lparr>c_is_online := client_live w (c_id c)\<rparr>) clients)"

fun csm_sync_loop :: "client_row list \<Rightarrow> (any_err + unit) io" where
  "csm_sync_loop [] = State_Monad.return (Inr ())"
| "csm_sync_loop (client # clients) = do {
     online \<leftarrow> asks (\<lambda>w. client_live w (c_id client));
     and_then (csm_persist_online_status (c_id client) online) (\<lambda>_. csm_sync_loop clients)
   }"

definition csm_sync_online_status :: "(any_err + unit) io" where
  "csm_sync_online_status = and_then (or_fail E_db (find_all clients_t (\<lambda>_. True))) csm_sync_loop"

definition check_all_clients :: "(int \<times> bool) list io" where
  "check_all_clients = do {
     r \<leftarrow> find_all clients_t (\<lambda>_. True);
     case r of
       Inl _ \<Rightarrow> State_Monad.return []
     | Inr all_clients \<Rightarrow> do {
         cs \<leftarrow> csm_apply_online_status all_clients;
         State_Monad.return (map (\<lambda>c. (c_id c, c_is_online c)) cs)
       }
   }"

section \<open>The proxy list of a client\<close>

definition proxy_info_of :: "proxy_row \<Rightarrow> proxy_info" where
  "proxy_info_of p =
    \<lparr>pi_proxy_id = p_id p, pi_name = p_name p, pi_type = p_type p, pi_local_ip = p_local_ip p,
     pi_local_port = ucast (p_local_port p), pi_remote_port = ucast (p_remote_port p),
     pi_enabled = p_enabled p\<rparr>"

text \<open>\<open>node_proxy_map.entry(nid).or_default().push(info)\<close>.\<close>

fun group_add :: "int \<Rightarrow> proxy_info \<Rightarrow> (int \<times> proxy_info list) list \<Rightarrow> (int \<times> proxy_info list) list" where
  "group_add nid i [] = [(nid, [i])]"
| "group_add nid i ((j, is) # m) =
    (if j = nid then (j, is @ [i]) # m else (j, is) # group_add nid i m)"

fun group_by_node :: "proxy_row list \<Rightarrow> (int \<times> proxy_info list) list \<Rightarrow> (int \<times> proxy_info list) list" where
  "group_by_node [] m = m"
| "group_by_node (p # ps) m =
    (case p_node_id p of
       None \<Rightarrow> group_by_node ps m
     | Some nid \<Rightarrow> group_by_node ps (group_add nid (proxy_info_of p) m))"

definition server_group_of ::
  "(string \<Rightarrow> kcp_config option) \<Rightarrow> node_row \<Rightarrow> proxy_info list \<Rightarrow> string list \<Rightarrow> server_group" where
  "server_group_of kcp_of n proxies fingerprints =
    \<lparr>sg_node_id = n_id n, sg_addr = n_tunnel_addr n, sg_port = n_tunnel_port n,
     sg_protocol = n_tunnel_protocol n,
     sg_kcp = (case n_kcp_config n of Some s \<Rightarrow> kcp_of s | None \<Rightarrow> None),
     sg_proxies = proxies, sg_fingerprints = fingerprints\<rparr>"

fun server_groups ::
  "(string \<Rightarrow> kcp_config option) \<Rightarrow> node_row list \<Rightarrow> (int \<times> proxy_info list) list \<Rightarrow> server_group list \<Rightarrow>
   server_group list io" where
  "server_groups kcp_of [] m acc = State_Monad.return acc"
| "server_groups kcp_of (n # nodes) m acc =
    (case map_of m (n_id n) of
       None \<Rightarrow> server_groups kcp_of nodes m acc
     | Some proxies \<Rightarrow> do {
         f \<leftarrow> get_node_fingerprint (n_id n);
         let fingerprints = (case f of Inr (Some fp) \<Rightarrow> [fp] | Inr None \<Rightarrow> [] | Inl _ \<Rightarrow> []) in
         server_groups kcp_of nodes (AList.delete (n_id n) m)
           (acc @ [server_group_of kcp_of n proxies fingerprints])
       })"

definition build_proxy_list_update ::
  "(string \<Rightarrow> kcp_config option) \<Rightarrow> int \<Rightarrow> (any_err + proxy_list_update) io" where
  "build_proxy_list_update kcp_of client_id =
    and_then (or_fail E_db (find_by_id clients_t client_id)) (\<lambda>r.
    and_then (some_or (E_msg M_client_not_found) r) (\<lambda>client_model.
    and_then (or_fail E_db (find_all proxies_t
      (\<lambda>p. p_client_id p = Some (int_str client_id) \<and> p_enabled p))) (\<lambda>proxies.
    let m = group_by_node proxies [] in
    and_then (if m = [] then finish []
              else or_fail E_db (find_all nodes_t (\<lambda>n. n_id n \<in> set (map fst m)))) (\<lambda>nodes. do {
      groups \<leftarrow> server_groups kcp_of nodes m [];
      finish \<lparr>pl_client_id = c_id client_model, pl_client_name = c_name client_model,
              pl_groups = groups\<rparr>
    }))))"

section \<open>Notifications\<close>

text \<open>Sending on a stream's channel, which fails when the stream is gone.\<close>

definition csm_send :: "int \<Rightarrow> nat \<Rightarrow> client_payload \<Rightarrow> (any_err + unit) io" where
  "csm_send client_id tx payload = do {
     closed \<leftarrow> asks w_closed;
     if tx \<in> set closed then State_Monad.return (Inl (E_msg (M_send_failed client_id)))
     else do {
       modify (\<lambda>w. w\<lparr>w_client_log := w_client_log w @ [(tx, payload)]\<rparr>);
       State_Monad.return (Inr ())
     }
   }"

definition notify_proxy_change :: "(string \<Rightarrow> kcp_config option) \<Rightarrow> string \<Rightarrow> unit io" where
  "notify_proxy_change kcp_of client_id_str =
    (case parse_i64 client_id_str of
       None \<Rightarrow> State_Monad.return ()
     | Some client_id \<Rightarrow> do {
         r \<leftarrow> build_proxy_list_update kcp_of client_id;
         case r of
           Inl _ \<Rightarrow> State_Monad.return ()
         | Inr u \<Rightarrow> do {
             s \<leftarrow> asks (\<lambda>w. client_session w client_id);
             case s of
               None \<Rightarrow> State_Monad.return ()
             | Some stream \<Rightarrow> do {
                 _ \<leftarrow> csm_send client_id (ss_chan stream) (ProxyUpdate u);
                 State_Monad.return ()
               }
           }
       })"

fun notify_all :: "(string \<Rightarrow> kcp_config option) \<Rightarrow> string list \<Rightarrow> unit io" where
  "notify_all kcp_of [] = State_Monad.return ()"
| "notify_all kcp_of (c # cs) = do { _ \<leftarrow> notify_proxy_change kcp_of c; notify_all kcp_of cs }"

text \<open>The identifiers are collected in a \<open>HashSet\<close>: each once, in some order.\<close>

definition notify_clients_for_node :: "(string \<Rightarrow> kcp_config option) \<Rightarrow> int \<Rightarrow> unit io" where
  "notify_clients_for_node kcp_of node_id = do {
     r \<leftarrow> find_all proxies_t (\<lambda>p. p_node_id p = Some node_id \<and> p_enabled p);
     case r of
       Inl _ \<Rightarrow> State_Monad.return ()
     | Inr proxies \<Rightarrow> notify_all kcp_of (remdups (List.map_filter p_client_id proxies))
   }"

section \<open>Commands\<close>

definition set_client_pending :: "int \<Rightarrow> client_result option pending \<Rightarrow> world \<Rightarrow> world" where
  "set_client_pending i p w =
    w\<lparr>w_clients := map (\<lambda>(j, s). if j = i then (j, s\<lparr>ss_pending := p\<rparr>) else (j, s)) (w_clients w)\<rparr>"

definition csm_complete_pending_request :: "int \<Rightarrow> string \<Rightarrow> client_result option \<Rightarrow> unit io" where
  "csm_complete_pending_request client_id request_id result = do {
     s \<leftarrow> asks (\<lambda>w. client_session w client_id);
     case s of
       None \<Rightarrow> State_Monad.return ()
     | Some stream \<Rightarrow>
         modify (set_client_pending client_id (snd (pending_complete request_id result (ss_pending stream))))
   }"

definition csm_register_request :: "int \<Rightarrow> (any_err + string \<times> nat \<times> nat) io" where
  "csm_register_request client_id = do {
     s \<leftarrow> asks (\<lambda>w. client_session w client_id);
     case s of
       None \<Rightarrow> State_Monad.return (Inl (E_msg (M_not_connected client_id)))
     | Some stream \<Rightarrow> do {
         request_id \<leftarrow> new_uuid;
         now \<leftarrow> asks w_mono;
         modify (set_client_pending client_id (snd (pending_register request_id now (ss_pending stream))));
         State_Monad.return
           (Inr (request_id, fst (pending_register request_id now (ss_pending stream)), ss_chan stream))
       }
   }"

text \<open>The client's turn: it answers the request it was sent, or not before the deadline.\<close>

definition client_turn :: "int \<Rightarrow> string \<Rightarrow> unit io" where
  "client_turn client_id echoed = do {
     answers \<leftarrow> asks w_client_answers;
     modify (\<lambda>w. w\<lparr>w_client_answers := tl answers\<rparr>);
     case (case answers of [] \<Rightarrow> None | a # _ \<Rightarrow> a) of
       Some result \<Rightarrow> csm_complete_pending_request client_id echoed result
     | None \<Rightarrow> State_Monad.return ()
   }"

definition csm_wait :: "int \<Rightarrow> nat \<Rightarrow> int \<Rightarrow> (any_err + client_result option) io" where
  "csm_wait client_id rx timeout = do {
     s \<leftarrow> asks (\<lambda>w. client_session w client_id);
     now \<leftarrow> asks w_mono;
     case s of
       None \<Rightarrow> State_Monad.return (Inl (E_wait ChannelClosed))
     | Some stream \<Rightarrow>
         (case pending_wait rx (now + timeout) now (ss_pending stream) of
            (Some (Inr result), p) \<Rightarrow> State_Monad.return (Inr result)
          | (Some (Inl e), p) \<Rightarrow> State_Monad.return (Inl (E_wait e))
          | (None, _) \<Rightarrow> do {
              modify (\<lambda>w. w\<lparr>w_mono := now + timeout\<rparr>);
              modify (set_client_pending client_id
                (snd (pending_wait rx (now + timeout) (now + timeout) (ss_pending stream))));
              State_Monad.return (Inl (E_wait Timeout))
            })
   }"

text \<open>The shape the three commands share: register, send under the fresh identifier, wait.\<close>

definition csm_command :: "int \<Rightarrow> int \<Rightarrow> (string \<Rightarrow> client_payload) \<Rightarrow> (any_err + client_result option) io" where
  "csm_command timeout client_id payload =
    and_then (csm_register_request client_id) (\<lambda>(request_id, rx, tx).
    and_then (csm_send client_id tx (payload request_id)) (\<lambda>_. do {
      _ \<leftarrow> client_turn client_id request_id;
      csm_wait client_id rx timeout
    }))"

definition csm_fetch_client_logs :: "int \<Rightarrow> u16 \<Rightarrow> (any_err + log_entry list) io" where
  "csm_fetch_client_logs client_id n =
    and_then (csm_command 10000 client_id (\<lambda>rid. GetLogs rid (unat n))) (\<lambda>result.
    case result of
      Some (ClientLogs logs) \<Rightarrow> finish logs
    | _ \<Rightarrow> fail (E_msg M_unexpected_response))"

definition csm_send_software_update ::
  "int \<Rightarrow> (any_err + bool \<times> string option \<times> string option) io" where
  "csm_send_software_update client_id =
    and_then (csm_command 120000 client_id ClientSoftwareUpdate) (\<lambda>result.
    case result of
      Some (ClientUpdateResult ok err ver) \<Rightarrow> finish (ok, err, ver)
    | _ \<Rightarrow> fail (E_msg M_unexpected_response))"

definition csm_send_restart :: "int \<Rightarrow> (any_err + unit) io" where
  "csm_send_restart client_id =
    and_then (csm_command 10000 client_id ClientRestart) (\<lambda>result.
    case result of
      Some (ClientUpdateResult ok err ver) \<Rightarrow>
        if ok then finish () else fail (E_msg (M_peer_failed err))
    | _ \<Rightarrow> fail (E_msg M_unexpected_response))"

section \<open>Sessions and the online flag\<close>

definition client_chan :: "world \<Rightarrow> int \<Rightarrow> nat option" where
  "client_chan w i = map_option ss_chan (client_session w i)"

definition client_flag :: "db \<Rightarrow> int \<Rightarrow> bool option" where
  "client_flag d i = map_option c_is_online (row_get c_id i (db_clients d))"

lemma set_client_online_sel [simp]:
  "c_id (set_client_online b t c) = c_id c" "c_is_online (set_client_online b t c) = b"
  by (simp_all add: set_client_online_def)

lemma client_flag_upd:
  assumes "db_clients d' = row_upd c_id i f (db_clients d)" "\<And>c. c_id (f c) = c_id c"
    and "\<And>c. c_is_online (f c) = b"
  shows "client_flag d' = (client_flag d)(i := map_option (\<lambda>_. b) (client_flag d i))"
  by (rule ext) (simp add: client_flag_def assms row_get_row_upd option.map_comp o_def)

lemma wp_persist_client:
  assumes "healthy w"
  shows "wp (csm_persist_online_status i b) (\<lambda>r w'. healthy w' \<and> w_clients w' = w_clients w \<and>
    client_flag (w_db w') = (client_flag (w_db w))(i := map_option (\<lambda>_. b) (client_flag (w_db w) i))) w"
proof (cases "row_get c_id i (db_clients (w_db w))")
  case None
  then have "client_flag (w_db w) i = None" by (simp add: client_flag_def)
  then show ?thesis using assms None
    by (simp add: csm_persist_online_status_def wp_update_row healthy_def fun_upd_idem)
next
  case (Some c)
  with assms show ?thesis
    by (simp add: csm_persist_online_status_def wp_update_row healthy_def
        client_flag_upd[where f = "set_client_online b (w_now w)"])
qed

lemma client_chan_upd:
  "w_clients w' = AList.update i s (w_clients w) \<Longrightarrow> client_chan w' = (client_chan w)(i := Some (ss_chan s))"
  "w_clients w' = AList.delete i (w_clients w) \<Longrightarrow> client_chan w' = (client_chan w)(i := None)"
  by (auto simp: fun_eq_iff client_chan_def client_session_def update_conv' delete_conv')

interpretation client_sessions: session_registry client_chan client_flag csm_register csm_unregister
proof
  fix w :: world and i :: int and c :: nat
  assume h: "healthy w"
  let ?w = "w\<lparr>w_clients := AList.update i \<lparr>ss_chan = c, ss_pending = pending_new\<rparr> (w_clients w)\<rparr>"
  have "healthy ?w" using h by (simp add: healthy_def)
  from wp_persist_client[OF this, of i True]
  show "wp (csm_register i c) (\<lambda>r w'. healthy w' \<and> client_chan w' = (client_chan w)(i := Some c) \<and>
       client_flag (w_db w') = (client_flag (w_db w))(i := map_option (\<lambda>_. True) (client_flag (w_db w) i))) w"
    unfolding csm_register_def wp_bind wp_modify
    by (rule wp_mono) (simp add: client_chan_upd(1)[where w = w])
next
  fix w :: world and i :: int and c :: nat
  assume h: "healthy w" and c: "client_chan w i = Some c"
  let ?w = "w\<lparr>w_clients := AList.delete i (w_clients w)\<rparr>"
  have "healthy ?w" using h by (simp add: healthy_def)
  then have "wp (csm_persist_online_status i False) (\<lambda>r w'. healthy w' \<and>
       client_chan w' = (client_chan w)(i := None) \<and>
       client_flag (w_db w') = (client_flag (w_db w))(i := map_option (\<lambda>_. False) (client_flag (w_db w) i))) ?w"
    using wp_mono[OF wp_persist_client[of ?w i False]] client_chan_upd(2)[of _ i w] by simp
  moreover obtain s where "client_session w i = Some s" "ss_chan s = c"
    using c by (auto simp: client_chan_def)
  ultimately show "wp (csm_unregister i c) (\<lambda>r w'. healthy w' \<and> client_chan w' = (client_chan w)(i := None) \<and>
       client_flag (w_db w') = (client_flag (w_db w))(i := map_option (\<lambda>_. False) (client_flag (w_db w) i))) w"
    unfolding csm_unregister_def by simp
next
  fix w :: world and i :: int and c :: nat
  assume "client_chan w i \<noteq> Some c"
  then show "wp (csm_unregister i c) (\<lambda>r w'. r = Inr () \<and> w' = w) w"
    by (auto simp: csm_unregister_def client_chan_def split: option.splits)
qed

text \<open>clients too: whatever the order in which clients connect and old streams are cleaned up, in a run
  without database faults a client has exactly the session of its last connection, none when that one
  has ended, and its online flag says whether it has one.\<close>

theorem client_online_follows_sessions:
  assumes "healthy w" "\<And>i b. client_flag (w_db w) i = Some b \<Longrightarrow> b = (client_chan w i \<noteq> None)"
  shows "wp (run_events csm_register csm_unregister es)
    (\<lambda>_ w'. client_chan w' = last_session es (client_chan w) \<and>
       (\<forall>i b. client_flag (w_db w') i = Some b \<longrightarrow> b = (last_session es (client_chan w) i \<noteq> None))) w"
proof -
  have "client_sessions.agrees w" using assms(2) by (simp add: client_sessions.agrees_def)
  from client_sessions.run_events_agree[OF assms(1) this]
  show ?thesis unfolding client_sessions.agrees_def by (rule wp_mono) metis
qed

lemma client_online_follows_sessions_witness:
  "wp (run_events csm_register csm_unregister [Connect 3 5, Connect 3 6, Disconnect 3 5])
     (\<lambda>_ w'. client_chan w' 3 = Some 6 \<and> client_flag (w_db w') 3 \<noteq> Some False) (idle_world empty_db)"
proof (rule wp_mono, rule client_online_follows_sessions)
  fix r w'
  assume "client_chan w' = last_session [Connect 3 5, Connect 3 6, Disconnect 3 5] (client_chan (idle_world empty_db)) \<and>
    (\<forall>i b. client_flag (w_db w') i = Some b \<longrightarrow>
       b = (last_session [Connect 3 5, Connect 3 6, Disconnect 3 5] (client_chan (idle_world empty_db)) i \<noteq> None))"
  then have "client_chan w' 3 = Some 6" and
    f: "\<forall>i b. client_flag (w_db w') i = Some b \<longrightarrow>
      b = (last_session [Connect 3 5, Connect 3 6, Disconnect 3 5] (client_chan (idle_world empty_db)) i \<noteq> None)"
    by auto
  moreover have "client_flag (w_db w') 3 = Some False \<Longrightarrow> False"
    using spec[OF spec[OF f, of 3], of False] by simp
  ultimately show "client_chan w' 3 = Some 6 \<and> client_flag (w_db w') 3 \<noteq> Some False" by auto
qed (auto simp: client_flag_def row_get_def healthy_def)

section \<open>What a client is told\<close>

definition client_proxies :: "db \<Rightarrow> int \<Rightarrow> proxy_row list" where
  "client_proxies d client_id =
    filter (\<lambda>p. p_client_id p = Some (int_str client_id) \<and> p_enabled p) (db_proxies d)"

text \<open>One group for every node that carries an enabled proxy of the client, with all of those and the
  fingerprint of the node's certificate.\<close>

definition client_groups :: "(string \<Rightarrow> kcp_config option) \<Rightarrow> db \<Rightarrow> int \<Rightarrow> server_group list" where
  "client_groups kcp_of d client_id =
    map (\<lambda>n. server_group_of kcp_of n
          (map proxy_info_of (filter (\<lambda>p. p_node_id p = Some (n_id n)) (client_proxies d client_id)))
          (case cert_of d (n_id n) of Some k \<Rightarrow> [k_fingerprint k] | None \<Rightarrow> []))
      (filter (\<lambda>n. \<exists>p \<in> set (client_proxies d client_id). p_node_id p = Some (n_id n)) (db_nodes d))"

lemma map_of_group_add:
  "map_of (group_add nid i m) j =
    (if j = nid then Some ((case map_of m nid of Some is \<Rightarrow> is | None \<Rightarrow> []) @ [i]) else map_of m j)"
  by (induction m) auto

lemma map_of_group_by_node:
  "map_of (group_by_node ps m) j =
    (let new = map proxy_info_of (filter (\<lambda>p. p_node_id p = Some j) ps) in
     case map_of m j of Some is \<Rightarrow> Some (is @ new) | None \<Rightarrow> if new = [] then None else Some new)"
  by (induction ps arbitrary: m) (auto simp: map_of_group_add Let_def split: option.splits)

lemma wp_fingerprint:
  "healthy w \<Longrightarrow> wp (get_node_fingerprint n)
    (\<lambda>r w'. r = Inr (map_option k_fingerprint (cert_of (w_db w) n)) \<and> w' = w) w"
  by (simp add: get_node_fingerprint_def find_cert_def healthy_def wp_find_one cert_of_def)

lemma wp_server_groups:
  assumes "healthy w" "distinct (map n_id nodes)"
  shows "wp (server_groups kcp_of nodes m acc) (\<lambda>r w'. w' = w \<and> r = acc @
    map (\<lambda>n. server_group_of kcp_of n (the (map_of m (n_id n)))
          (case cert_of (w_db w) (n_id n) of Some k \<Rightarrow> [k_fingerprint k] | None \<Rightarrow> []))
      (filter (\<lambda>n. map_of m (n_id n) \<noteq> None) nodes)) w"
  using assms(2)
proof (induction nodes arbitrary: m acc)
  case (Cons n nodes)
  have other: "map_of (AList.delete (n_id n) m) (n_id k) = map_of m (n_id k)" if "k \<in> set nodes" for k
    using that Cons.prems by (simp add: delete_conv') (metis image_eqI)
  have rest: "map (\<lambda>n. server_group_of kcp_of n (the (map_of (AList.delete (n_id n') m) (n_id n))) (fp n))
        (filter (\<lambda>k. map_of (AList.delete (n_id n') m) (n_id k) \<noteq> None) nodes) =
      map (\<lambda>n. server_group_of kcp_of n (the (map_of m (n_id n))) (fp n))
        (filter (\<lambda>k. map_of m (n_id k) \<noteq> None) nodes)" if "n' = n" for n' fp
    by (intro map_cong filter_cong) (use other that in auto)
  show ?case
  proof (cases "map_of m (n_id n)")
    case None
    then show ?thesis using Cons by simp
  next
    case (Some ps)
    show ?thesis
      using Cons.prems
      apply (simp add: Some)
      apply (rule wp_mono[OF wp_fingerprint[OF assms(1)]])
      apply (clarsimp simp: Let_def)
      apply (rule wp_mono, rule Cons.IH, simp)
      apply (use rest[OF refl] in \<open>simp add: Some split: option.splits\<close>)
      done
  qed
qed simp

lemma wp_build_update:
  assumes "healthy w" "distinct (map n_id (db_nodes (w_db w)))"
  shows "wp (build_proxy_list_update kcp_of i) (\<lambda>r w'. w' = w \<and>
    r = (case row_get c_id i (db_clients (w_db w)) of
           None \<Rightarrow> Inl (E_msg M_client_not_found)
         | Some c \<Rightarrow> Inr \<lparr>pl_client_id = c_id c, pl_client_name = c_name c,
                         pl_groups = client_groups kcp_of (w_db w) i\<rparr>)) w"
proof (cases "row_get c_id i (db_clients (w_db w))")
  case None
  then show ?thesis using assms(1) by (simp add: build_proxy_list_update_def wp_find_by_id healthy_def)
next
  case (Some c)
  let ?ps = "client_proxies (w_db w) i" and ?ns = "db_nodes (w_db w)"
  let ?m = "group_by_node ?ps []"
  let ?in = "filter (\<lambda>n. n_id n \<in> set (map fst ?m)) ?ns"
  have dom: "n \<in> fst ` set ?m \<longleftrightarrow> (\<exists>p \<in> set ?ps. p_node_id p = Some n)" for n
    using map_of_eq_None_iff[of ?m n] by (auto simp: map_of_group_by_node Let_def filter_empty_conv split: if_splits)
  have groups: "wp (server_groups kcp_of ?in ?m []) (\<lambda>r w'. w' = w \<and> r = client_groups kcp_of (w_db w) i) w"
    apply (rule wp_mono, rule wp_server_groups[OF assms(1)])
    subgoal using assms(2) by (simp add: distinct_map_filter)
    subgoal
      by (auto simp: client_groups_def dom map_of_group_by_node Let_def filter_empty_conv
          intro!: map_cong filter_cong)
    done
  have none: "client_groups kcp_of (w_db w) i = []" if "?m = []"
    using dom that by (auto simp: client_groups_def filter_empty_conv)
  show ?thesis
    using assms(1) Some
    apply (simp add: build_proxy_list_update_def wp_find_by_id wp_find_all healthy_def Let_def
        client_proxies_def[symmetric])
    apply (intro conjI impI)
    subgoal using none by simp
    subgoal by (rule wp_mono[OF groups[unfolded set_map]]) simp
    done
qed

lemma notify_effect:
  assumes "healthy w" "distinct (map n_id (db_nodes (w_db w)))"
    and "row_get c_id i (db_clients (w_db w)) = Some c" "- (2 ^ 63) \<le> i" "i < 2 ^ 63"
    and "client_session w i = Some s" "ss_chan s \<notin> set (w_closed w)"
  shows "wp (notify_proxy_change kcp_of (int_str i)) (\<lambda>_ w'. w' = w\<lparr>w_client_log := w_client_log w @
    [(ss_chan s, ProxyUpdate \<lparr>pl_client_id = i, pl_client_name = c_name c,
                              pl_groups = client_groups kcp_of (w_db w) i\<rparr>)]\<rparr>) w"
proof -
  have "c_id c = i" using row_get_SomeD[OF assms(3)] by simp
  then show ?thesis
    using assms(3,6,7) parse_i64_int_str[OF assms(4,5)]
    apply (simp add: notify_proxy_change_def)
    apply (rule wp_mono[OF wp_build_update[OF assms(1,2)]])
    apply (clarsimp simp: csm_send_def)
    done
qed

text \<open>when its proxies change, a connected client is sent exactly one update, over its newest session. The
  update lists every enabled proxy of the client that sits on an existing node once, under that node
  and with the fingerprint of that node's current certificate, and no proxy of anybody else.\<close>

theorem notify_sends_current_proxies:
  assumes "healthy w" "distinct (map n_id (db_nodes (w_db w)))"
    and "row_get c_id i (db_clients (w_db w)) = Some c" "- (2 ^ 63) \<le> i" "i < 2 ^ 63"
    and "client_session w i = Some s" "ss_chan s \<notin> set (w_closed w)"
  shows "wp (notify_proxy_change kcp_of (int_str i)) (\<lambda>_ w'. w' = w\<lparr>w_client_log := w_client_log w @
    [(ss_chan s, ProxyUpdate \<lparr>pl_client_id = i, pl_client_name = c_name c,
                              pl_groups = client_groups kcp_of (w_db w) i\<rparr>)]\<rparr>) w"
  by (rule notify_effect[OF assms])

definition streaming_world :: world where
  "streaming_world = running_world\<lparr>w_clients := [(3, \<lparr>ss_chan = 5, ss_pending = pending_new\<rparr>)],
     w_uuids := [''u1''], w_client_answers := [Some (Some (ClientLogs []))]\<rparr>"

lemma streaming_sel [simp]:
  "w_db streaming_world = with_proxy shop_db shop_proxy" "w_faults streaming_world = []"
  "client_session streaming_world 3 = Some \<lparr>ss_chan = 5, ss_pending = pending_new\<rparr>"
  "w_closed streaming_world = []" "w_client_log streaming_world = []"
  by (simp_all add: streaming_world_def running_world_def client_session_def shop_world_def)

lemma notify_sends_current_proxies_witness:
  "wp (notify_proxy_change (\<lambda>_. None) (int_str 3)) (\<lambda>_ w'. \<exists>u. w_client_log w' = [(5, ProxyUpdate u)] \<and>
     pl_client_name u = ''home'' \<and> map sg_proxies (pl_groups u) = [[proxy_info_of shop_proxy]]) streaming_world"
proof (rule wp_mono, rule notify_sends_current_proxies)
  show "row_get c_id 3 (db_clients (w_db streaming_world)) = Some owner_client"
    by (simp add: with_proxy_def shop_rows)
  fix w'
  assume "w' = streaming_world\<lparr>w_client_log := w_client_log streaming_world @
    [(ss_chan (\<lparr>ss_chan = 5, ss_pending = pending_new\<rparr> :: client_result option session),
      ProxyUpdate \<lparr>pl_client_id = 3, pl_client_name = c_name owner_client,
                   pl_groups = client_groups (\<lambda>_. None) (w_db streaming_world) 3\<rparr>)]\<rparr>"
  then show "\<exists>u. w_client_log w' = [(5, ProxyUpdate u)] \<and> pl_client_name u = ''home'' \<and>
     map sg_proxies (pl_groups u) = [[proxy_info_of shop_proxy]]"
    by (simp add: owner_client_def client_groups_def client_proxies_def with_proxy_def shop_db_def
        sample_node_def server_group_of_def shop_proxy_def new_proxy_row_def shop_request_def)
qed (simp_all add: healthy_def with_proxy_def shop_db_def)

section \<open>Commands and their answers\<close>

lemma client_session_set:
  "client_session (set_client_pending i p w) j =
    (if j = i then map_option (\<lambda>s. s\<lparr>ss_pending := p\<rparr>) (client_session w j) else client_session w j)"
proof -
  have "map_of (map (\<lambda>(j, s). if j = i then (j, s\<lparr>ss_pending := p\<rparr>) else (j, s)) cs) j =
    (if j = i then map_option (\<lambda>s. s\<lparr>ss_pending := p\<rparr>) (map_of cs j) else map_of cs j)"
    for cs :: "(int \<times> client_result option session) list"
    by (induction cs) auto
  from this[of "w_clients w"] show ?thesis
    by (cases "j = i") (simp_all add: client_session_def set_client_pending_def)
qed

lemma client_session_other [simp]:
  "client_session (w\<lparr>w_client_log := l\<rparr>) i = client_session w i"
  "client_session (w\<lparr>w_client_answers := a\<rparr>) i = client_session w i"
  "client_session (w\<lparr>w_uuids := u\<rparr>) i = client_session w i"
  by (simp_all add: client_session_def)

lemma set_client_pending_sel [simp]:
  "w_db (set_client_pending i p w) = w_db w" "w_mono (set_client_pending i p w) = w_mono w"
  "w_closed (set_client_pending i p w) = w_closed w" "w_client_log (set_client_pending i p w) = w_client_log w"
  "w_client_answers (set_client_pending i p w) = w_client_answers w"
  by (simp_all add: set_client_pending_def)

lemmas client_command_parts =
  csm_register_request_def csm_send_def client_turn_def csm_wait_def csm_complete_pending_request_def

text \<open>a command to a connected client goes over the client's session with a fresh identifier, and the
  client's answer to it is what the caller gets, whatever other requests are pending; a client that is
  not connected is reported at once and nothing is sent.\<close>

theorem client_command_gets_its_answer:
  assumes "w_uuids w = rid # us" "w_client_answers w = Some result # answers"
    and "\<And>s. client_session w i = Some s \<Longrightarrow> ss_chan s \<notin> set (w_closed w)"
  shows "wp (csm_command timeout i payload)
    (\<lambda>r w'. w_db w' = w_db w \<and>
       (case client_session w i of
          None \<Rightarrow> r = Inl (E_msg (M_not_connected i)) \<and> w_client_log w' = w_client_log w
        | Some s \<Rightarrow> r = Inr result \<and> w_client_log w' = w_client_log w @ [(ss_chan s, payload rid)])) w"
proof (cases "client_session w i")
  case None
  then show ?thesis by (simp add: csm_command_def client_command_parts)
next
  case (Some s)
  then show ?thesis
    using assms complete_registered[where rid = rid and now = "w_mono w" and p = "ss_pending s" and x = result]
    by (simp add: csm_command_def client_command_parts wp_new_uuid client_session_set pending_wait_def Let_def)
qed

lemma client_command_gets_its_answer_witness:
  "wp (csm_command 10000 3 (\<lambda>rid. GetLogs rid 7))
     (\<lambda>r w'. r = Inr (Some (ClientLogs [])) \<and> w_client_log w' = [(5, GetLogs ''u1'' 7)]) streaming_world"
proof (rule wp_mono, rule client_command_gets_its_answer)
  show "w_uuids streaming_world = [''u1'']" by (simp add: streaming_world_def)
  show "w_client_answers streaming_world = [Some (Some (ClientLogs []))]" by (simp add: streaming_world_def)
qed simp_all

end
