(* ===== verification/Notify.thy ===== *)
theory Notify
  imports ClientStreams
begin

text \<open>
  Proxy handlers, node manager and client streams together: a handler that succeeds hands a
  notification to \<open>tokio::spawn\<close>, and when that task runs, the client learns of the change.
\<close>

section \<open>Handlers leave client sessions alone\<close>

definition on_clients :: "((int \<times> client_result option session) list \<Rightarrow> nat list \<Rightarrow> bool) \<Rightarrow> world \<Rightarrow> bool" where
  "on_clients P w = P (w_clients w) (w_closed w)"

lemma on_clients_stmt [intro!]: "keeps (on_clients P) (stmt f)"
  by (simp add: keeps_def wp_stmt on_clients_def split: prod.splits)

lemma on_clients_db [intro!]:
  "keeps (on_clients P) (query g)" "keeps (on_clients P) (find_by_id T i)" "keeps (on_clients P) (find_all T p)"
  "keeps (on_clients P) (find_one T p)" "keeps (on_clients P) (count_rows T p)"
  "keeps (on_clients P) (update_row T i h)" "keeps (on_clients P) (update_checked T i h)" "keeps (on_clients P) (delete_by_id T i)"
  "keeps (on_clients P) (delete_many T p)" "keeps (on_clients P) (insert_row T sq ss mk)"
  unfolding query_def find_by_id_def find_all_def find_one_def count_rows_def update_row_def update_checked_def
    delete_by_id_def delete_many_def insert_row_def
  by (rule on_clients_stmt)+

lemma on_clients_modify [intro!]:
  "(\<And>w. w_clients (f w) = w_clients w) \<Longrightarrow> (\<And>w. w_closed (f w) = w_closed w) \<Longrightarrow>
   keeps (on_clients P) (modify f)"
  by (simp add: keeps_def on_clients_def)

lemma on_clients_uuid [intro!]: "keeps (on_clients P) new_uuid"
  by (simp add: keeps_def wp_new_uuid on_clients_def split: list.splits)

lemma set_node_pending_clients [simp]: "w_clients (set_node_pending i p w) = w_clients w"
  by (simp add: set_node_pending_def)

lemma on_clients_command: "keeps (on_clients P) (nm_command t i payload)"
  unfolding nm_command_def command_parts Let_def by auto

lemma on_clients_start [intro!]: "keeps (on_clients P) (pcl_start node_control c i)"
  unfolding node_control_def nm_start_proxy_def proxy_on_node_def send_command_and_wait_def
    expect_ack_def
  by (auto intro!: on_clients_command split: option.splits agent_result.splits)

lemma on_clients_limits [intro!]:
  "keeps (on_clients P) (validate_user_port_limit i port)"
  "keeps (on_clients P) (validate_node_proxy_limit n port)"
  unfolding validate_user_port_limit_def get_user_port_count_def validate_node_proxy_limit_def
    validate_node_proxy_limit_excluding_def get_user_final_quota_def
  by auto

lemma on_clients_create_checks [intro!]: "keeps (on_clients P) (create_checks url_parse auth req)"
  unfolding create_checks_def authenticated_def check_route_def allowed_or_def create_client_def
    create_user_check_def check_node_access_def check_user_node_def check_node_limit_def validate_domain_def
  by auto

lemma on_clients_create [intro!]: "keeps (on_clients P) (create_proxy node_control url_parse auth_opt req)"
  unfolding create_proxy_def create_insert_def authenticated_def spawn_notify_def insert_proxy_def
  by auto

lemma client_session_cong: "w_clients w' = w_clients w \<Longrightarrow> client_session w' = client_session w"
  by (simp add: fun_eq_iff client_session_def)

lemma create_keeps_clients:
  "wp (create_proxy node_control url_parse auth_opt req)
    (\<lambda>_ w'. w_clients w' = w_clients w \<and> w_closed w' = w_closed w) w"
proof -
  have "keeps (on_clients (\<lambda>cs cl. cs = w_clients w \<and> cl = w_closed w))
    (create_proxy node_control url_parse auth_opt req)" by (rule on_clients_create)
  from keepsD[OF this, of w] show ?thesis by (simp add: on_clients_def[abs_def])
qed

lemma healthy_create: "keeps healthy (create_proxy node_control url_parse auth_opt req)"
  unfolding create_proxy_def create_insert_def insert_proxy_def by auto

text \<open>What holds after every continuation and every early return.\<close>

lemma wp_any:
  assumes "\<And>x w'. wp (f x) Q w'" "\<And>e w'. Q (Inl e) w'"
  shows "wp (and_then m f) Q w"
  unfolding wp_and_then by (rule wp_runI) (use assms in \<open>auto split: sum.splits\<close>)

lemma create_spawns:
  assumes "cr_client_id req = Some s"
  shows "wp (create_proxy node_control url_parse auth_opt req)
    (\<lambda>r w'. \<forall>p. r = Inr p \<longrightarrow> w_tasks w' \<noteq> [] \<and> last (w_tasks w') = s) w"
  unfolding create_proxy_def
  apply (rule wp_any)
   apply (rule wp_any)
    apply (simp only: case_prod_beta wp_bind wp_utc_now)
    apply (rule wp_any)
     apply (simp_all add: assms)
  done

section \<open>A new proxy reaches its client\<close>

text \<open>creating a proxy for a connected client tells the client: the handler leaves a task for exactly that
  client as its last one, and the task, when it runs, sends the client one update, over its session,
  in which the new proxy stands under the node it was created on.\<close>

theorem created_proxy_reaches_client:
  assumes "healthy w" "distinct (map n_id (db_nodes (w_db w)))"
    and "cr_client_id req = Some (int_str i)" "- (2 ^ 63) \<le> i" "i < 2 ^ 63" "cr_upstream req = []"
    and "cr_node_id req = Some n" "client_session w i = Some s" "ss_chan s \<notin> set (w_closed w)"
  shows "wp (create_proxy node_control url_parse auth_opt req) (\<lambda>r w'. \<forall>p. r = Inr p \<longrightarrow>
    (w_tasks w' \<noteq> [] \<and> last (w_tasks w') = int_str i) \<and>
    wp (notify_proxy_change kcp_of (int_str i)) (\<lambda>_ w''. \<exists>u g.
      w_client_log w'' = w_client_log w' @ [(ss_chan s, ProxyUpdate u)] \<and>
      g \<in> set (pl_groups u) \<and> sg_node_id g = n \<and> proxy_info_of p \<in> set (sg_proxies g)) w') w"
proof -
  let ?m = "create_proxy node_control url_parse auth_opt req"
  have told: "wp (notify_proxy_change kcp_of (int_str i)) (\<lambda>_ w''. \<exists>u g.
      w_client_log w'' = w_client_log w' @ [(ss_chan s, ProxyUpdate u)] \<and>
      g \<in> set (pl_groups u) \<and> sg_node_id g = n \<and> proxy_info_of p \<in> set (sg_proxies g)) w'"
    if h: "healthy w'" "w_clients w' = w_clients w" "w_closed w' = w_closed w"
      "create_ok url_parse auth req (w_db w) u dn"
      "p = new_proxy_row auth req u dn now (sq_proxies (w_db w))"
      "w_db w' = with_proxy (w_db w) p" for w' p auth u dn now
  proof -
    obtain row where row: "row_get n_id n (db_nodes (w_db w)) = Some row"
      using h(4) assms(7) by (auto simp: create_ok_def node_access_def)
    obtain c where c: "row_get c_id i (db_clients (w_db w)) = Some c"
      using h(4) assms(3,6) parse_i64_int_str[OF assms(4,5)]
      by (auto simp: create_ok_def client_access_def)
    have p: "p_client_id p = Some (int_str i)" "p_enabled p" "p_node_id p = Some n"
      using assms(3,6,7) h(5) by (simp_all add: new_proxy_row_def)
    have mem: "row \<in> set (db_nodes (w_db w))" "n_id row = n" using row_get_SomeD[OF row] by auto
    have mine: "p \<in> set (client_proxies (w_db w') i)" using p h(6) by (simp add: client_proxies_def with_proxy_def)
    have db: "distinct (map n_id (db_nodes (w_db w')))" "row_get c_id i (db_clients (w_db w')) = Some c"
      "client_session w' i = Some s" "ss_chan s \<notin> set (w_closed w')"
      using h c assms(2,8,9) by (simp_all add: with_proxy_def client_session_def)
    have "\<exists>g. g \<in> set (client_groups kcp_of (w_db w') i) \<and> sg_node_id g = n \<and> proxy_info_of p \<in> set (sg_proxies g)"
      using mem mine p(3) h(6)
      by (auto simp: client_groups_def server_group_of_def with_proxy_def intro!: image_eqI[of _ _ row] bexI[of _ p])
    then obtain g where "g \<in> set (client_groups kcp_of (w_db w') i)" "sg_node_id g = n"
      "proxy_info_of p \<in> set (sg_proxies g)" by blast
    then show ?thesis
      by (intro wp_mono[OF notify_effect[OF h(1) db(1,2) assms(4,5) db(3,4)]]
            exI[of _ "\<lparr>pl_client_id = i, pl_client_name = c_name c, pl_groups = client_groups kcp_of (w_db w') i\<rparr>"]
            exI[of _ g]) simp
  qed
  have k: "wp ?m (\<lambda>_ w'. healthy w') w" by (rule keepsD[OF healthy_create assms(1)])
  have "wp ?m (\<lambda>_ w'. healthy w' \<and> w_clients w' = w_clients w \<and> w_closed w' = w_closed w) w"
    by (rule wp_both[OF k create_keeps_clients]) simp
  then have "wp ?m (\<lambda>r w'. (healthy w' \<and> w_clients w' = w_clients w \<and> w_closed w' = w_closed w) \<and>
      (\<forall>p. r = Inr p \<longrightarrow> w_tasks w' \<noteq> [] \<and> last (w_tasks w') = int_str i)) w"
    by (rule wp_both[OF _ create_spawns[OF assms(3)]]) simp
  then show ?thesis
    apply (rule wp_both[OF _ nm.create_proxy_effect])
    apply (elim conjE, intro allI impI conjI)
      apply simp
     apply simp
    apply (elim allE impE exE conjE, assumption+)
    by (rule told) assumption+
qed

lemma created_proxy_reaches_client_witness:
  "wp (create_proxy node_control (\<lambda>_. None) (Some root_user) shop_request) (\<lambda>r w'. \<exists>p. r = Inr p \<and>
    wp (notify_proxy_change (\<lambda>_. None) (int_str 3)) (\<lambda>_ w''. \<exists>u g.
      w_client_log w'' = w_client_log w' @ [(6, ProxyUpdate u)] \<and>
      g \<in> set (pl_groups u) \<and> sg_node_id g = 1 \<and> proxy_info_of p \<in> set (sg_proxies g)) w') shop_world"
proof (rule wp_both[OF shop_create])
  show "wp (create_proxy node_control (\<lambda>_. None) (Some root_user) shop_request) (\<lambda>r w'. \<forall>p. r = Inr p \<longrightarrow>
    (w_tasks w' \<noteq> [] \<and> last (w_tasks w') = int_str 3) \<and>
    wp (notify_proxy_change (\<lambda>_. None) (int_str 3)) (\<lambda>_ w''. \<exists>u g.
      w_client_log w'' = w_client_log w' @ [(ss_chan (\<lparr>ss_chan = 6, ss_pending = pending_new\<rparr> :: client_result option session), ProxyUpdate u)] \<and>
      g \<in> set (pl_groups u) \<and> sg_node_id g = 1 \<and> proxy_info_of p \<in> set (sg_proxies g)) w') shop_world"
    by (rule created_proxy_reaches_client)
       (simp_all add: shop_request_def shop_db_def client_session_def shop_world_def healthy_def idle_world_def)
qed auto

end
