(* ===== verification/SubscriptionApi.thy ===== *)
theory SubscriptionApi
  imports ProxyApi
begin

text \<open>
  The REST handlers of subscription plans (\<open>controller/src/api/handlers/subscription.rs\<close>) and of the
  plans users hold (\<open>api/handlers/user_subscription.rs\<close>). Dates are chrono's: parsing a date and
  adding days are parameters. A sum out of chrono's range panics, which ends the request without an
  answer; here that is the failure \<open>panicked\<close>. Successful creations answer \<open>201 CREATED\<close>.
\<close>

section \<open>Access\<close>

definition admin_only :: "auth_user option \<Rightarrow> auth_user handler" where
  "admin_only auth_opt =
    and_then (authenticated auth_opt) (\<lambda>auth.
    and_then (check (a_is_admin auth) (FORBIDDEN, M_admin_required)) (\<lambda>_. finish auth))"

definition failed_to :: "string \<Rightarrow> db_err \<Rightarrow> failure" where
  "failed_to what e = (INTERNAL_SERVER_ERROR, M_op_failed what (E_db e))"

definition panicked :: failure where
  "panicked = (INTERNAL_SERVER_ERROR, M_text ''panic'')"

section \<open>Plans\<close>

definition duration_types :: "string list" where
  "duration_types = [''daily'', ''weekly'', ''monthly'', ''yearly'']"

record create_sub_req =
  sr_name :: string
  sr_duration_type :: string
  sr_duration_value :: "i32 option"
  sr_quota_gb :: f64
  sr_max_port :: "i32 option"
  sr_max_node :: "i32 option"
  sr_max_client :: "i32 option"
  sr_price :: "f64 option"
  sr_description :: "string option"
  sr_is_active :: "bool option"

record update_sub_req =
  sp_name :: "string option"
  sp_duration_type :: "string option"
  sp_duration_value :: "i32 option"
  sp_quota_gb :: "f64 option"
  sp_max_port :: "i32 option"
  sp_max_node :: "i32 option"
  sp_max_client :: "i32 option"
  sp_price :: "f64 option"
  sp_description :: "string option"
  sp_is_active :: "bool option"

definition list_subscriptions :: "auth_user option \<Rightarrow> subscription_row list handler" where
  "list_subscriptions auth_opt =
    and_then (authenticated auth_opt) (\<lambda>_.
    or_fail (failed_to ''list'') (find_all subscriptions_t (\<lambda>_. True)))"

definition list_active_subscriptions :: "auth_user option \<Rightarrow> subscription_row list handler" where
  "list_active_subscriptions auth_opt =
    and_then (authenticated auth_opt) (\<lambda>_.
    or_fail (failed_to ''list'') (find_all subscriptions_t s_is_active))"

definition get_subscription :: "auth_user option \<Rightarrow> int \<Rightarrow> subscription_row handler" where
  "get_subscription auth_opt i =
    and_then (authenticated auth_opt) (\<lambda>_.
    and_then (or_fail (failed_to ''get'') (find_by_id subscriptions_t i)) (\<lambda>r.
    some_or (NOT_FOUND, M_subscription_not_found) r))"

definition new_plan :: "create_sub_req \<Rightarrow> naive_dt \<Rightarrow> int \<Rightarrow> subscription_row" where
  "new_plan req now i =
    \<lparr>s_id = i, s_name = sr_name req, s_duration_type = sr_duration_type req,
     s_duration_value = unwrap_or 1 (sr_duration_value req), s_quota_gb = sr_quota_gb req,
     s_max_port = sr_max_port req, s_max_node = sr_max_node req, s_max_client = sr_max_client req,
     s_price = sr_price req, s_description = sr_description req,
     s_is_active = unwrap_or True (sr_is_active req), s_created_at = now, s_updated_at = now\<rparr>"

definition create_subscription :: "auth_user option \<Rightarrow> create_sub_req \<Rightarrow> subscription_row handler" where
  "create_subscription auth_opt req =
    and_then (admin_only auth_opt) (\<lambda>_.
    and_then (check (sr_duration_type req \<in> set duration_types)
                (BAD_REQUEST, M_text ''duration type'')) (\<lambda>_. do {
      now \<leftarrow> utc_now;
      or_fail (failed_to ''create'')
        (insert_row subscriptions_t sq_subscriptions (\<lambda>n d. d\<lparr>sq_subscriptions := n\<rparr>) (new_plan req now))
    }))"

text \<open>A field that is absent stays; a limit that is present becomes \<open>Some\<close>.\<close>

definition some_else :: "'a option \<Rightarrow> 'a option \<Rightarrow> 'a option" where
  "some_else old new = (case new of Some v \<Rightarrow> Some v | None \<Rightarrow> old)"

definition set_plan :: "update_sub_req \<Rightarrow> naive_dt \<Rightarrow> subscription_row \<Rightarrow> subscription_row" where
  "set_plan req now s =
    s\<lparr>s_name := unwrap_or (s_name s) (sp_name req),
      s_duration_type := unwrap_or (s_duration_type s) (sp_duration_type req),
      s_duration_value := unwrap_or (s_duration_value s) (sp_duration_value req),
      s_quota_gb := unwrap_or (s_quota_gb s) (sp_quota_gb req),
      s_max_port := some_else (s_max_port s) (sp_max_port req),
      s_max_node := some_else (s_max_node s) (sp_max_node req),
      s_max_client := some_else (s_max_client s) (sp_max_client req),
      s_price := some_else (s_price s) (sp_price req),
      s_description := some_else (s_description s) (sp_description req),
      s_is_active := unwrap_or (s_is_active s) (sp_is_active req), s_updated_at := now\<rparr>"

definition update_subscription :: "auth_user option \<Rightarrow> int \<Rightarrow> update_sub_req \<Rightarrow> subscription_row handler" where
  "update_subscription auth_opt i req =
    and_then (admin_only auth_opt) (\<lambda>_.
    and_then (or_fail (failed_to ''get'') (find_by_id subscriptions_t i)) (\<lambda>r.
    and_then (some_or (NOT_FOUND, M_subscription_not_found) r) (\<lambda>s.
    and_then (check (case sp_duration_type req of Some k \<Rightarrow> k \<in> set duration_types | None \<Rightarrow> True)
                (BAD_REQUEST, M_text ''duration type'')) (\<lambda>_. do {
      now \<leftarrow> utc_now;
      or_fail (failed_to ''update'') (update_row subscriptions_t (s_id s) (set_plan req now))
    }))))"

definition delete_subscription :: "auth_user option \<Rightarrow> int \<Rightarrow> unit handler" where
  "delete_subscription auth_opt i =
    and_then (admin_only auth_opt) (\<lambda>_.
    or_fail (failed_to ''delete'') (delete_by_id subscriptions_t i))"

section \<open>The plans users hold: reading\<close>

record us_details =
  ud_id :: int
  ud_user_id :: int
  ud_subscription_id :: int
  ud_name :: string
  ud_start :: naive_dt
  ud_end :: naive_dt
  ud_quota_gb :: f64
  ud_used_gb :: f64
  ud_remaining_gb :: f64
  ud_is_active :: bool
  ud_is_expired :: bool
  ud_created_at :: naive_dt
  ud_updated_at :: naive_dt

definition details_of :: "naive_dt \<Rightarrow> user_sub_row \<Rightarrow> subscription_row \<Rightarrow> us_details" where
  "details_of now us s =
    \<lparr>ud_id = us_id us, ud_user_id = us_user_id us, ud_subscription_id = us_subscription_id us,
     ud_name = s_name s, ud_start = us_start us, ud_end = us_end us, ud_quota_gb = us_quota_gb us,
     ud_used_gb = us_used_gb us,
     ud_remaining_gb = f_max (f_sub (us_quota_gb us) (us_used_gb us)) f_zero,
     ud_is_active = us_is_active us, ud_is_expired = (us_end us < now),
     ud_created_at = us_created_at us, ud_updated_at = us_updated_at us\<rparr>"

text \<open>One subscription with its plan; without a plan, or when the plan cannot be read, it is left out.\<close>

definition with_plan :: "user_sub_row \<Rightarrow> us_details option io" where
  "with_plan us = do {
     r \<leftarrow> find_by_id subscriptions_t (us_subscription_id us);
     now \<leftarrow> utc_now;
     State_Monad.return (case r of Inr (Some s) \<Rightarrow> Some (details_of now us s) | _ \<Rightarrow> None)
   }"

fun details_loop :: "user_sub_row list \<Rightarrow> us_details list \<Rightarrow> us_details list io" where
  "details_loop [] acc = State_Monad.return acc"
| "details_loop (us # uss) acc = do {
     x \<leftarrow> with_plan us;
     details_loop uss (case x of Some d \<Rightarrow> acc @ [d] | None \<Rightarrow> acc)
   }"

definition list_user_subscriptions :: "auth_user option \<Rightarrow> us_details list handler" where
  "list_user_subscriptions auth_opt =
    and_then (admin_only auth_opt) (\<lambda>_.
    and_then (or_fail (failed_to ''list'') (find_all user_subs_t (\<lambda>_. True))) (\<lambda>uss. do {
      result \<leftarrow> details_loop uss [];
      finish result
    }))"

definition self_or_admin :: "auth_user option \<Rightarrow> int \<Rightarrow> msg \<Rightarrow> auth_user handler" where
  "self_or_admin auth_opt user_id m =
    and_then (authenticated auth_opt) (\<lambda>auth.
    and_then (check (\<not> (\<not> a_is_admin auth \<and> a_id auth \<noteq> user_id)) (FORBIDDEN, m)) (\<lambda>_.
    finish auth))"

definition get_user_subscriptions :: "auth_user option \<Rightarrow> int \<Rightarrow> us_details list handler" where
  "get_user_subscriptions auth_opt user_id =
    and_then (self_or_admin auth_opt user_id M_other_users_subs) (\<lambda>_.
    and_then (or_fail (failed_to ''list'') (find_all user_subs_t (\<lambda>us. us_user_id us = user_id))) (\<lambda>uss. do {
      result \<leftarrow> details_loop uss [];
      finish result
    }))"

definition get_user_active_subscription :: "auth_user option \<Rightarrow> int \<Rightarrow> us_details option handler" where
  "get_user_active_subscription auth_opt user_id =
    and_then (self_or_admin auth_opt user_id M_other_users_subs) (\<lambda>_. do {
      now \<leftarrow> utc_now;
      and_then (or_fail (failed_to ''get'') (find_one user_subs_t
        (\<lambda>us. us_user_id us = user_id \<and> us_is_active us \<and> now < us_end us))) (\<lambda>r.
      case r of
        None \<Rightarrow> finish None
      | Some us \<Rightarrow> do {
          x \<leftarrow> with_plan us;
          finish x
        })
    })"

section \<open>The plans users hold: granting, changing, taking away\<close>

record create_us_req =
  cus_user_id :: int
  cus_subscription_id :: int
  cus_start :: "string option"

record update_us_req =
  uus_is_active :: "bool option"
  uus_used_gb :: "f64 option"

record chrono_ops =
  ch_parse :: "string \<Rightarrow> naive_dt option"
  ch_add_days :: "naive_dt \<Rightarrow> int \<Rightarrow> naive_dt option"

definition plan_days :: "subscription_row \<Rightarrow> int" where
  "plan_days s =
    (if s_duration_type s = ''daily'' then sint (s_duration_value s)
     else if s_duration_type s = ''weekly'' then 7 * sint (s_duration_value s)
     else if s_duration_type s = ''monthly'' then 30 * sint (s_duration_value s)
     else if s_duration_type s = ''yearly'' then 365 * sint (s_duration_value s)
     else 30)"

definition start_date :: "chrono_ops \<Rightarrow> create_us_req \<Rightarrow> naive_dt \<Rightarrow> naive_dt" where
  "start_date ch req now =
    (case cus_start req of
       None \<Rightarrow> now
     | Some str \<Rightarrow> (case ch_parse ch str of Some dt \<Rightarrow> dt | None \<Rightarrow> now))"

definition new_user_sub ::
  "create_us_req \<Rightarrow> subscription_row \<Rightarrow> naive_dt \<Rightarrow> naive_dt \<Rightarrow> naive_dt \<Rightarrow> int \<Rightarrow> user_sub_row" where
  "new_user_sub req s start end_date now i =
    \<lparr>us_id = i, us_user_id = cus_user_id req, us_subscription_id = cus_subscription_id req,
     us_start = start, us_end = end_date, us_quota_gb = s_quota_gb s, us_used_gb = f_zero,
     us_is_active = True, us_max_port = s_max_port s, us_max_node = s_max_node s,
     us_max_client = s_max_client s, us_merged = True, us_created_at = now, us_updated_at = now\<rparr>"

definition plan_quota :: "subscription_row \<Rightarrow> sub_quota" where
  "plan_quota s =
    \<lparr>sq_traffic_gb = s_quota_gb s, sq_max_port = s_max_port s, sq_max_node = s_max_node s,
     sq_max_client = s_max_client s\<rparr>"

definition insert_user_sub :: "(int \<Rightarrow> user_sub_row) \<Rightarrow> (db_err + user_sub_row) io" where
  "insert_user_sub mk = insert_row user_subs_t sq_user_subs (\<lambda>n d. d\<lparr>sq_user_subs := n\<rparr>) mk"

definition create_user_subscription ::
  "chrono_ops \<Rightarrow> auth_user option \<Rightarrow> create_us_req \<Rightarrow> user_sub_row handler" where
  "create_user_subscription ch auth_opt req =
    and_then (admin_only auth_opt) (\<lambda>_. do {
      u \<leftarrow> find_by_id users_t (cus_user_id req);
      and_then (check (case u of Inr (Some _) \<Rightarrow> True | _ \<Rightarrow> False) (BAD_REQUEST, M_user_not_found)) (\<lambda>_.
      and_then (or_fail (failed_to ''get'') (find_by_id subscriptions_t (cus_subscription_id req))) (\<lambda>r.
      and_then (some_or (BAD_REQUEST, M_subscription_not_found) r) (\<lambda>s. do {
        now \<leftarrow> utc_now;
        let start = start_date ch req now in
        and_then (some_or panicked (ch_add_days ch start (plan_days s))) (\<lambda>end_date.
        and_then (or_fail (failed_to ''create'') (insert_user_sub (new_user_sub req s start end_date now)))
          (\<lambda>created.
        and_then (ignoring (merge_subscription_quota_to_user (cus_user_id req) (plan_quota s))) (\<lambda>_.
        finish created)))
      })))
    })"

text \<open>What switching a subscription on or off does to the user's quota.\<close>

definition switch_quota :: "user_sub_row \<Rightarrow> bool \<Rightarrow> unit handler" where
  "switch_quota us is_active =
    (if us_is_active us \<and> \<not> is_active \<and> us_merged us
     then ignoring (rollback_subscription_quota_from_user (us_user_id us) (snapshot_quota us))
     else if \<not> us_is_active us \<and> is_active
     then ignoring (merge_subscription_quota_to_user (us_user_id us) (snapshot_quota us))
     else finish ())"

definition set_user_sub :: "user_sub_row \<Rightarrow> update_us_req \<Rightarrow> naive_dt \<Rightarrow> user_sub_row \<Rightarrow> user_sub_row" where
  "set_user_sub us req now x =
    x\<lparr>us_is_active := unwrap_or (us_is_active x) (uus_is_active req),
      us_merged := (if \<not> us_is_active us \<and> uus_is_active req = Some True then True else us_merged x),
      us_used_gb := unwrap_or (us_used_gb x) (uus_used_gb req), us_updated_at := now\<rparr>"

definition update_user_subscription :: "auth_user option \<Rightarrow> int \<Rightarrow> update_us_req \<Rightarrow> user_sub_row handler" where
  "update_user_subscription auth_opt i req =
    and_then (admin_only auth_opt) (\<lambda>_.
    and_then (or_fail (failed_to ''get'') (find_by_id user_subs_t i)) (\<lambda>r.
    and_then (some_or (NOT_FOUND, M_user_sub_not_found) r) (\<lambda>us.
    and_then (case uus_is_active req of
                Some is_active \<Rightarrow> switch_quota us is_active
              | None \<Rightarrow> finish ()) (\<lambda>_. do {
      now \<leftarrow> utc_now;
      or_fail (failed_to ''update'') (update_row user_subs_t (us_id us) (set_user_sub us req now))
    }))))"

definition delete_user_subscription :: "auth_user option \<Rightarrow> int \<Rightarrow> unit handler" where
  "delete_user_subscription auth_opt i =
    and_then (admin_only auth_opt) (\<lambda>_.
    and_then (or_fail (failed_to ''get'') (find_by_id user_subs_t i)) (\<lambda>r.
    and_then (some_or (NOT_FOUND, M_user_sub_not_found) r) (\<lambda>us.
    and_then (if us_is_active us \<and> us_merged us
              then ignoring (rollback_subscription_quota_from_user (us_user_id us) (snapshot_quota us))
              else finish ()) (\<lambda>_.
    or_fail (failed_to ''delete'') (delete_by_id user_subs_t i)))))"

end
