(* ===== verification/SubscriptionProps.thy ===== *)
theory SubscriptionProps
  imports SubscriptionApi
begin

text \<open>
  The books of the traffic quota of a user: what an administrator set plus what the user's active
  subscriptions grant; granting, switching, deleting and expiring subscriptions, of this user and of others,
  keep it so. No quota counts as zero, as in the code. The user's amounts are whole gigabytes, where the
  floating-point arithmetic of the code is exact; nothing is asked of other users.
\<close>

section \<open>The books\<close>

definition whole_gb :: "f64 \<Rightarrow> int option" where
  "whole_gb g = (case g of Fin q \<Rightarrow> if q = of_int \<lfloor>q\<rfloor> then Some \<lfloor>q\<rfloor> else None | _ \<Rightarrow> None)"

definition sub_gb :: "user_sub_row \<Rightarrow> int" where
  "sub_gb s = (case whole_gb (us_quota_gb s) of Some k \<Rightarrow> k | None \<Rightarrow> 0)"

text \<open>What a subscription currently grants to the user \<open>i\<close>.\<close>

definition grant :: "int \<Rightarrow> user_sub_row \<Rightarrow> int" where
  "grant i s = (if us_user_id s = i \<and> us_is_active s \<and> us_merged s then sub_gb s else 0)"

definition granted :: "db \<Rightarrow> int \<Rightarrow> int" where
  "granted d i = sum_list (map (grant i) (db_user_subs d))"

definition quota_of :: "db \<Rightarrow> int \<Rightarrow> f64 option option" where
  "quota_of d i = map_option u_quota_gb (row_get u_id i (db_users d))"

definition subs_ok :: "db \<Rightarrow> bool" where
  "subs_ok d =
    (distinct (map us_id (db_user_subs d)) \<and> list_all (\<lambda>s. us_id s < sq_user_subs d) (db_user_subs d))"

definition whole_subs :: "int \<Rightarrow> db \<Rightarrow> bool" where
  "whole_subs me d =
    list_all (\<lambda>s. us_user_id s = me \<longrightarrow> (\<exists>k. us_quota_gb s = Fin (of_int k) \<and> 0 \<le> k)) (db_user_subs d)"

text \<open>All subscriptions of a user, whether they count at the moment or not.\<close>

definition held :: "db \<Rightarrow> int \<Rightarrow> int" where
  "held d i = sum_list (map (\<lambda>s. if us_user_id s = i then sub_gb s else 0) (db_user_subs d))"

text \<open>\<open>b\<close> is the quota the user has without subscriptions. The sums stay where a float is exact.\<close>

definition books_ok :: "int \<Rightarrow> int \<Rightarrow> db \<Rightarrow> bool" where
  "books_ok me b d =
    (subs_ok d \<and> whole_subs me d \<and> b + held d me \<le> 2 ^ 53 \<and>
     (\<forall>q. quota_of d me = Some q \<longrightarrow> 0 \<le> b \<and> unwrap_f0 q = Fin (of_int (b + granted d me))))"

lemma whole_gb_int [simp]: "whole_gb (Fin (of_int k)) = Some k"
  by (simp add: whole_gb_def)

lemma grant_nonneg: "whole_subs i d \<Longrightarrow> s \<in> set (db_user_subs d) \<Longrightarrow> 0 \<le> grant i s"
  by (auto simp: whole_subs_def list_all_iff grant_def sub_gb_def)

lemma granted_nonneg: "whole_subs i d \<Longrightarrow> 0 \<le> granted d i"
  unfolding granted_def by (rule sum_list_nonneg) (auto intro: grant_nonneg)

lemma granted_held: "whole_subs i d \<Longrightarrow> granted d i \<le> held d i"
  unfolding granted_def held_def
  by (rule sum_list_mono) (auto simp: grant_def whole_subs_def list_all_iff sub_gb_def)

lemma sum_list_upd:
  assumes "distinct (map k xs)" "row_get k i xs = Some x"
  shows "sum_list (map g (row_upd k i f xs)) = sum_list (map g xs) - g x + (g (f x) :: int)"
proof -
  have none: "row_upd k i f ys = ys" if "i \<notin> k ` set ys" for ys
    using that by (induction ys) (auto simp: row_upd_def)
  show ?thesis
    using assms
  proof (induction xs)
    case (Cons y ys)
    show ?case
    proof (cases "k y = i")
      case True
      then have "x = y" "i \<notin> k ` set ys" using Cons.prems by (auto simp: row_get_def)
      then show ?thesis using True none[of ys] by (simp add: row_upd_def)
    next
      case False
      then show ?thesis using Cons by (simp add: row_get_def row_upd_def)
    qed
  qed (simp add: row_get_def)
qed

lemma sum_list_del:
  assumes "distinct (map k xs)" "row_get k i xs = Some x"
  shows "sum_list (map g (row_del k i xs)) = sum_list (map g xs) - (g x :: int)"
  using assms
proof (induction xs)
  case (Cons y ys)
  show ?case
  proof (cases "k y = i")
    case True
    then have "x = y" "i \<notin> k ` set ys" using Cons.prems by (auto simp: row_get_def)
    then show ?thesis using True row_del_absent[of i k ys] by (simp add: row_del_def)
  next
    case False
    then show ?thesis using Cons by (simp add: row_get_def row_del_def)
  qed
qed (simp add: row_get_def)

lemma granted_le: "whole_subs i d \<Longrightarrow> row_get us_id j (db_user_subs d) = Some s \<Longrightarrow> grant i s \<le> granted d i"
  using row_get_SomeD[of us_id j "db_user_subs d" s] grant_nonneg[of i d]
  unfolding granted_def by (intro member_le_sum_list) auto

section \<open>Merging and rolling back on the books\<close>

definition users_with :: "db \<Rightarrow> int \<Rightarrow> (user_row \<Rightarrow> user_row) \<Rightarrow> db" where
  "users_with d i f = d\<lparr>db_users := (if row_get u_id i (db_users d) = None then db_users d
                                     else row_upd u_id i f (db_users d))\<rparr>"

lemma users_with_sel [simp]:
  "db_user_subs (users_with d i f) = db_user_subs d" "sq_user_subs (users_with d i f) = sq_user_subs d"
  "granted (users_with d i f) = granted d" "subs_ok (users_with d i f) = subs_ok d"
  "whole_subs me (users_with d i f) = whole_subs me d"
  by (simp_all add: users_with_def granted_def[abs_def] subs_ok_def whole_subs_def)

lemma users_with_none: "row_get u_id i (db_users d) = None \<Longrightarrow> users_with d i f = d"
  by (simp add: users_with_def)

lemma quota_users_with:
  assumes "\<And>u. u_id (f u) = u_id u"
  shows "quota_of (users_with d i f) j =
    (if j = i then map_option (\<lambda>u. u_quota_gb (f u)) (row_get u_id i (db_users d)) else quota_of d j)"
  by (simp add: quota_of_def users_with_def row_get_row_upd assms option.map_comp o_def)

lemma wp_merge:
  assumes "healthy w"
  shows "wp (merge_subscription_quota_to_user i q) (\<lambda>r w'. \<exists>u t. healthy w' \<and> w_now w' = w_now w \<and>
    w_db w' = users_with (w_db w) i (merge_fields u q t) \<and>
    (row_get u_id i (db_users (w_db w)) \<noteq> None \<longrightarrow> row_get u_id i (db_users (w_db w)) = Some u)) w"
proof (cases "row_get u_id i (db_users (w_db w))")
  case None
  then show ?thesis using assms
    by (simp add: merge_subscription_quota_to_user_def wp_find_by_id users_with_def healthy_def)
next
  case (Some u)
  then have "u_id u = i" by (auto dest: row_get_SomeD)
  then show ?thesis using assms Some
    by (auto simp add: merge_subscription_quota_to_user_def wp_find_by_id wp_update_row users_with_def healthy_def)
qed

lemma wp_rollback:
  assumes "healthy w"
  shows "wp (rollback_subscription_quota_from_user i q) (\<lambda>r w'. \<exists>u t. healthy w' \<and> w_now w' = w_now w \<and>
    (\<forall>e. r = Inl e \<longrightarrow> row_get u_id i (db_users (w_db w)) = None) \<and> w_db w' = users_with (w_db w) i (rollback_fields u q t) \<and>
    (row_get u_id i (db_users (w_db w)) \<noteq> None \<longrightarrow> row_get u_id i (db_users (w_db w)) = Some u)) w"
proof (cases "row_get u_id i (db_users (w_db w))")
  case None
  then show ?thesis using assms
    by (simp add: rollback_subscription_quota_from_user_def wp_find_by_id users_with_def healthy_def)
next
  case (Some u)
  then have "u_id u = i" by (auto dest: row_get_SomeD)
  then show ?thesis using assms Some
    by (auto simp add: rollback_subscription_quota_from_user_def wp_find_by_id wp_update_row users_with_def healthy_def)
qed

text \<open>The rows of subscriptions change together with the quota of their user \<open>i\<close>, which may be the user the
  books are about.\<close>

definition repaid :: "int \<Rightarrow> int \<Rightarrow> db \<Rightarrow> int \<Rightarrow> int \<Rightarrow> db \<Rightarrow> bool" where
  "repaid me b d i x d1 =
    (db_user_subs d1 = db_user_subs d \<and> sq_user_subs d1 = sq_user_subs d \<and>
     (\<forall>q. quota_of d1 me = Some q \<longrightarrow>
        (if i = me then 0 \<le> b \<and> unwrap_f0 q = Fin (of_int (b + granted d me + x)) else quota_of d me = Some q)))"

lemma repaid_none: "books_ok me b d \<Longrightarrow> repaid me b d i 0 d"
  by (auto simp: repaid_def books_ok_def)

lemma repaid_other:
  assumes "i \<noteq> me" "\<And>u. u_id (f u) = u_id u"
  shows "repaid me b d i x (users_with d i f)"
  using assms by (simp add: repaid_def quota_users_with)

lemma field_ids [simp]: "u_id (merge_fields v q t u) = u_id u" "u_id (rollback_fields v q t u) = u_id u"
  by (simp_all add: merge_fields_def rollback_fields_def)

lemma repaid_merge:
  assumes "books_ok me b d" "row_get u_id i (db_users d) \<noteq> None \<longrightarrow> row_get u_id i (db_users d) = Some u"
    and "i = me \<Longrightarrow> sq_traffic_gb q = Fin (of_int k) \<and> 0 \<le> k \<and> b + granted d me + k \<le> 2 ^ 53"
  shows "repaid me b d i k (users_with d i (merge_fields u q t))"
proof (cases "i = me \<and> row_get u_id i (db_users d) \<noteq> None")
  case True
  then have k: "i = me" "sq_traffic_gb q = Fin (of_int k)" "0 \<le> k" "b + granted d me + k \<le> 2 ^ 53"
    and u: "row_get u_id me (db_users d) = Some u" using assms(2,3) by auto
  have b: "unwrap_f0 (u_quota_gb u) = Fin (of_int (b + granted d me))" "0 \<le> b" "0 \<le> granted d me"
    using assms(1) u granted_nonneg[of me d] by (auto simp: books_ok_def quota_of_def)
  have "f_add (Fin (of_int (b + granted d me))) (Fin (of_int k)) = Fin (of_int (b + granted d me + k))"
    using f_add_int[of "b + granted d me" k] b k by simp
  then have "unwrap_f0 (u_quota_gb (merge_fields u q t u)) = Fin (of_int (b + granted d me + k))"
    using b(1) k(2) by (simp add: merge_fields_def unwrap_f0_def del: f_add.simps of_int_add)
  then show ?thesis using k(1) b(2) u by (simp add: repaid_def quota_users_with del: of_int_add)
next
  case False
  then show ?thesis using repaid_other[of i me "merge_fields u q t"] by (auto simp: repaid_def quota_users_with)
qed

lemma repaid_rollback:
  assumes "books_ok me b d" "row_get u_id i (db_users d) \<noteq> None \<longrightarrow> row_get u_id i (db_users d) = Some u"
    and "i = me \<Longrightarrow> sq_traffic_gb q = Fin (of_int k) \<and> 0 \<le> k \<and> k \<le> granted d me"
  shows "repaid me b d i (- k) (users_with d i (rollback_fields u q t))"
proof (cases "i = me \<and> row_get u_id i (db_users d) \<noteq> None")
  case True
  let ?b = "b + granted d me"
  have k: "i = me" "sq_traffic_gb q = Fin (of_int k)" "0 \<le> k" "k \<le> granted d me"
    and u: "row_get u_id me (db_users d) = Some u" using True assms(2,3) by auto
  have b: "unwrap_f0 (u_quota_gb u) = Fin (of_int ?b)" "0 \<le> b" "?b \<le> 2 ^ 53"
    using assms(1) u granted_held[of me d] by (auto simp: books_ok_def quota_of_def)
  have m: "f_max (f_sub (Fin (of_int ?b)) (Fin (of_int k))) f_zero = Fin (of_int (?b - k))"
    using f_sub_int[of ?b k] b k by (simp add: f_max_def f_zero_def)
  have "unwrap_f0 (u_quota_gb (rollback_fields u q t u)) = Fin (of_int (?b - k))"
    using b(1) k(2) by (simp add: rollback_fields_def unwrap_f0_def m del: of_int_add of_int_diff)
  then show ?thesis using k(1) b(2) u by (simp add: repaid_def quota_users_with del: of_int_add of_int_diff)
next
  case False
  then show ?thesis using repaid_other[of i me "rollback_fields u q t"] by (auto simp: repaid_def quota_users_with)
qed

lemma quota_of_subs [simp]:
  "quota_of (d\<lparr>db_user_subs := x\<rparr>) = quota_of d" "quota_of (d\<lparr>sq_user_subs := n\<rparr>) = quota_of d"
  by (simp_all add: quota_of_def[abs_def])

lemma books_step:
  assumes "books_ok me b d" "repaid me b d i x d1" "subs_ok d'" "whole_subs me d'" "quota_of d' = quota_of d1"
    and "granted d' me = granted d me + (if i = me then x else 0)"
    and "b + held d' me \<le> 2 ^ 53"
  shows "books_ok me b d'"
  using assms by (auto simp: books_ok_def repaid_def split: if_splits)

lemma repaid_subs:
  assumes "books_ok me b d" "repaid me b d i x d1"
  shows "subs_ok d" "whole_subs me d" "distinct (map us_id (db_user_subs d))" "db_user_subs d1 = db_user_subs d"
    "sq_user_subs d1 = sq_user_subs d" "b + held d me \<le> 2 ^ 53"
  using assms by (auto simp: books_ok_def subs_ok_def repaid_def)

lemma books_switched:
  assumes "books_ok me b d" "row_get us_id j (db_user_subs d) = Some s"
    and "repaid me b d (us_user_id s) (grant (us_user_id s) (f s) - grant (us_user_id s) s) d1"
    and "\<And>r. us_id (f r) = us_id r \<and> us_user_id (f r) = us_user_id r \<and> us_quota_gb (f r) = us_quota_gb r"
  shows "books_ok me b (d1\<lparr>db_user_subs := row_upd us_id j f (db_user_subs d1)\<rparr>)"
proof (rule books_step[OF assms(1,3)])
  let ?d = "d1\<lparr>db_user_subs := row_upd us_id j f (db_user_subs d1)\<rparr>"
  note s = repaid_subs[OF assms(1,3)]
  show "subs_ok ?d" "whole_subs me ?d"
    using s(1,2,4,5) assms(4) by (auto simp: subs_ok_def whole_subs_def keys_row_upd list_all_iff set_row_upd)
  show "granted ?d me = granted d me +
      (if us_user_id s = me then grant (us_user_id s) (f s) - grant (us_user_id s) s else 0)"
    using sum_list_upd[OF s(3) assms(2), of "grant me" f] assms(4)[of s]
    by (auto simp: granted_def s(4) grant_def)
  have "held ?d me = held d me"
    using sum_list_upd[OF s(3) assms(2), of "\<lambda>s. if us_user_id s = me then sub_gb s else 0" f] assms(4)[of s]
    by (auto simp: held_def s(4) sub_gb_def)
  then show "b + held ?d me \<le> 2 ^ 53" using s(6) by simp
qed simp

lemma books_deleted:
  assumes "books_ok me b d" "row_get us_id j (db_user_subs d) = Some s"
    and "repaid me b d (us_user_id s) (- grant (us_user_id s) s) d1"
  shows "books_ok me b (d1\<lparr>db_user_subs := row_del us_id j (db_user_subs d1)\<rparr>)"
proof (rule books_step[OF assms(1,3)])
  let ?d = "d1\<lparr>db_user_subs := row_del us_id j (db_user_subs d1)\<rparr>"
  note s = repaid_subs[OF assms(1,3)]
  show "subs_ok ?d" "whole_subs me ?d"
    using s(1,2,4,5) by (auto simp: subs_ok_def whole_subs_def distinct_row_del list_all_iff set_row_del)
  show "granted ?d me = granted d me + (if us_user_id s = me then - grant (us_user_id s) s else 0)"
    using sum_list_del[OF s(3) assms(2), of "grant me"] by (auto simp: granted_def s(4) grant_def)
  have "0 \<le> sub_gb s" if "us_user_id s = me"
    using row_get_SomeD[OF assms(2)] s(2) that by (auto simp: whole_subs_def list_all_iff sub_gb_def)
  then have "held ?d me \<le> held d me"
    using sum_list_del[OF s(3) assms(2), of "\<lambda>s. if us_user_id s = me then sub_gb s else 0"]
    by (auto simp: held_def s(4))
  then show "b + held ?d me \<le> 2 ^ 53" using s(6) by linarith
qed simp

lemma books_added:
  assumes "books_ok me b d" "us_id s = sq_user_subs d"
    and "us_user_id s = me \<Longrightarrow> us_quota_gb s = Fin (of_int k) \<and> 0 \<le> k \<and> b + held d me + k \<le> 2 ^ 53"
    and "repaid me b d (us_user_id s) (grant (us_user_id s) s) d1"
  shows "books_ok me b (d1\<lparr>db_user_subs := db_user_subs d1 @ [s], sq_user_subs := sq_user_subs d1 + 1\<rparr>)"
proof (rule books_step[OF assms(1,4)])
  let ?d = "d1\<lparr>db_user_subs := db_user_subs d1 @ [s], sq_user_subs := sq_user_subs d1 + 1\<rparr>"
  note s = repaid_subs[OF assms(1,4)]
  show "subs_ok ?d" "whole_subs me ?d"
    using s(1,2,4,5) assms(2,3) by (auto simp: subs_ok_def whole_subs_def list_all_iff)
  show "granted ?d me = granted d me + (if us_user_id s = me then grant (us_user_id s) s else 0)"
    by (auto simp: granted_def s(4) grant_def)
  show "b + held ?d me \<le> 2 ^ 53"
    using s(6) assms(3) by (auto simp: held_def s(4) sub_gb_def)
qed simp

section \<open>The handlers and the expiry\<close>

lemma sub_whole:
  assumes "books_ok me b d" "row_get us_id j (db_user_subs d) = Some s" "us_user_id s = me"
  shows "sq_traffic_gb (snapshot_quota s) = Fin (of_int (sub_gb s))" "0 \<le> sub_gb s" "grant me s \<le> granted d me"
  using assms granted_le[of me d j s] row_get_SomeD[OF assms(2)]
  by (auto simp: books_ok_def whole_subs_def list_all_iff sub_gb_def snapshot_quota_def)

text \<open>Switching a subscription on stays within what the user holds.\<close>

lemma switched_on_room:
  assumes "books_ok me b d" "row_get us_id j (db_user_subs d) = Some us" "us_user_id us = me" "\<not> us_is_active us"
  shows "b + granted d me + sub_gb us \<le> 2 ^ 53"
proof -
  let ?on = "\<lambda>s. s\<lparr>us_is_active := True, us_merged := True\<rparr>"
  have ok: "distinct (map us_id (db_user_subs d))" "whole_subs me d" "b + held d me \<le> 2 ^ 53"
    using assms(1) by (auto simp: books_ok_def subs_ok_def)
  have "granted d me - grant me us + grant me (?on us) =
      sum_list (map (grant me) (row_upd us_id j ?on (db_user_subs d)))"
    using sum_list_upd[OF ok(1) assms(2), of "grant me" ?on] by (simp add: granted_def)
  also have "\<dots> \<le> held d me"
    unfolding held_def row_upd_def map_map
    by (rule sum_list_mono) (use ok(2) in \<open>auto simp: grant_def sub_gb_def whole_subs_def list_all_iff\<close>)
  finally show ?thesis using assms(3,4) ok(3) by (simp add: grant_def sub_gb_def)
qed

lemma wp_switch_books:
  assumes "healthy w" "books_ok me b (w_db w)" "row_get us_id j (db_user_subs (w_db w)) = Some us"
    and "x = grant (us_user_id us) (us\<lparr>us_is_active := on, us_merged := us_merged us \<or> \<not> us_is_active us \<and> on\<rparr>)
             - grant (us_user_id us) us"
  shows "wp (switch_quota us on) (\<lambda>r w'. r = Inr () \<and> healthy w' \<and> repaid me b (w_db w) (us_user_id us) x (w_db w')) w"
proof -
  let ?i = "us_user_id us" and ?d = "w_db w"
  note q = sub_whole[OF assms(2,3)]
  consider "us_is_active us" "\<not> on" "us_merged us" | "\<not> us_is_active us" "on"
    | "us_is_active us \<longrightarrow> on \<or> \<not> us_merged us" "us_is_active us \<or> \<not> on" by blast
  then show ?thesis
  proof cases
    case 1
    then have x: "x = - sub_gb us" "?i = me \<Longrightarrow> sub_gb us \<le> granted ?d me"
      using assms(4) q(3) by (auto simp: grant_def)
    from 1 show ?thesis
      apply (simp add: switch_quota_def)
      apply (rule wp_mono[OF wp_rollback[OF assms(1)]])
      using repaid_rollback[OF assms(2), of ?i _ "snapshot_quota us" "sub_gb us"] q(1,2) x by auto
  next
    case 2
    then have x: "x = sub_gb us" using assms(4) by (auto simp: grant_def sub_gb_def)
    from 2 show ?thesis
      apply (simp add: switch_quota_def)
      apply (rule wp_mono[OF wp_merge[OF assms(1)]])
      using repaid_merge[OF assms(2), of ?i _ "snapshot_quota us" "sub_gb us"] q(1,2) x
        switched_on_room[OF assms(2,3) _ 2(1)] by auto
  next
    case 3
    then have "x = 0" using assms(4) by (auto simp: grant_def sub_gb_def)
    then show ?thesis
      using 3 assms(1) repaid_none[OF assms(2)] by (auto simp: switch_quota_def)
  qed
qed

lemma wp_admin_only:
  assumes "\<And>auth. a = Some auth \<Longrightarrow> a_is_admin auth \<Longrightarrow> wp (f auth) Q w" "\<And>e. Q (Inl e) w"
  shows "wp (and_then (admin_only a) f) Q w"
  using assms by (auto simp: admin_only_def authenticated_def split: option.splits)

lemma wp_read:
  assumes "healthy w" "wp (f (row_get (row_key T) i (rows T (w_db w)))) Q w"
  shows "wp (and_then (or_fail g (find_by_id T i)) f) Q w"
  using assms by (simp add: wp_find_by_id healthy_def)

lemma wp_given: "wp (f x) Q w \<Longrightarrow> wp (and_then (some_or e (Some x)) f) Q w"
  by simp

lemma wp_update_books:
  assumes "healthy w" "books_ok me b (w_db w)"
  shows "wp (update_user_subscription auth_opt j req) (\<lambda>_ w'. books_ok me b (w_db w')) w"
proof (cases "row_get us_id j (db_user_subs (w_db w))")
  case None
  then show ?thesis using assms
    by (auto simp: update_user_subscription_def admin_only_def authenticated_def wp_find_by_id healthy_def
        split: option.splits)
next
  case (Some us)
  let ?m = "case uus_is_active req of Some is_active \<Rightarrow> switch_quota us is_active | None \<Rightarrow> finish ()"
  let ?x = "grant (us_user_id us) (set_user_sub us req (w_now w) us) - grant (us_user_id us) us"
  have j: "us_id us = j" using row_get_SomeD[OF Some] by simp
  have g: "grant i (set_user_sub us req t us) = grant i (set_user_sub us req t' us)" for i t t'
    by (auto simp: grant_def set_user_sub_def sub_gb_def)
  have m: "wp ?m (\<lambda>r w'. r = Inr () \<and> healthy w' \<and> repaid me b (w_db w) (us_user_id us) ?x (w_db w')) w"
  proof (cases "uus_is_active req")
    case None
    then show ?thesis using assms(1) repaid_none[OF assms(2)]
      by (simp add: set_user_sub_def grant_def unwrap_or_def sub_gb_def)
  next
    case (Some on)
    then show ?thesis
      using wp_switch_books[OF assms \<open>row_get us_id j _ = Some us\<close> refl, of on]
      by (auto simp: set_user_sub_def grant_def unwrap_or_def sub_gb_def elim!: wp_mono split: if_splits)
  qed
  have rest: "books_ok me b ((w_db w')\<lparr>db_user_subs := row_upd us_id j (set_user_sub us req t) (db_user_subs (w_db w'))\<rparr>)"
    if "repaid me b (w_db w) (us_user_id us) ?x (w_db w')" for w' t
    by (rule books_switched[OF assms(2) Some]) (use that g[of _ t "w_now w"] in \<open>auto simp: set_user_sub_def\<close>)
  have same: "row_get us_id j (db_user_subs (w_db w')) = Some us"
    if "repaid me b (w_db w) (us_user_id us) ?x (w_db w')" for w'
    using that Some by (simp add: repaid_def)
  have step: "wp ?m (\<lambda>r w'. \<forall>u. r = Inr u \<longrightarrow>
     wp (or_fail (failed_to ''update'') (update_row user_subs_t j (set_user_sub us req (w_now w'))))
       (\<lambda>_ w''. books_ok me b (w_db w'')) w') w"
    by (rule wp_mono[OF m]) (auto simp: wp_update_row healthy_def same rest)
  have early: "wp ?m (\<lambda>r w'. \<forall>e. r \<noteq> Inl e) w" by (rule wp_mono[OF m]) auto
  have upd: "wp (and_then ?m (\<lambda>_. do { now \<leftarrow> utc_now;
      or_fail (failed_to ''update'') (update_row user_subs_t (us_id us) (set_user_sub us req now)) }))
     (\<lambda>_ w'. books_ok me b (w_db w')) w"
    unfolding wp_and_then wp_bind wp_utc_now j
    by (rule wp_both[OF step early]) (auto split: sum.splits)
  have "wp (and_then (some_or (NOT_FOUND, M_user_sub_not_found) (Some us)) (\<lambda>us. and_then (case uus_is_active req of
      Some is_active \<Rightarrow> switch_quota us is_active | None \<Rightarrow> finish ()) (\<lambda>_. do { now \<leftarrow> utc_now;
      or_fail (failed_to ''update'') (update_row user_subs_t (us_id us) (set_user_sub us req now)) })))
     (\<lambda>_ w'. books_ok me b (w_db w')) w"
    by (rule wp_given) (rule upd)
  then show ?thesis
    unfolding update_user_subscription_def
    by (intro wp_admin_only wp_read[OF assms(1)]) (simp_all only: table_sel Some assms(2))
qed

text \<open>Taking back what a subscription grants.\<close>

lemma wp_take_back:
  assumes "healthy w" "books_ok me b (w_db w)" "row_get us_id j (db_user_subs (w_db w)) = Some us"
    and "us_is_active us" "us_merged us"
  shows "wp (rollback_subscription_quota_from_user (us_user_id us) (snapshot_quota us))
    (\<lambda>r w'. healthy w' \<and> repaid me b (w_db w) (us_user_id us) (- grant (us_user_id us) us) (w_db w') \<and>
       (\<forall>e. r = Inl e \<longrightarrow> w_db w' = w_db w)) w"
proof -
  have g: "grant (us_user_id us) us = sub_gb us" using assms(4,5) by (simp add: grant_def)
  have le: "sq_traffic_gb (snapshot_quota us) = Fin (of_int (sub_gb us)) \<and> 0 \<le> sub_gb us \<and>
      sub_gb us \<le> granted (w_db w) me" if "us_user_id us = me"
    using sub_whole[OF assms(2,3) that] g that by simp
  show ?thesis
    apply (rule wp_mono[OF wp_rollback[OF assms(1)]])
    using repaid_rollback[OF assms(2) _ le, of "us_user_id us"] g by (auto simp: users_with_none)
qed

lemma wp_delete_books:
  assumes "healthy w" "books_ok me b (w_db w)"
  shows "wp (delete_user_subscription auth_opt j) (\<lambda>_ w'. books_ok me b (w_db w')) w"
proof (cases "row_get us_id j (db_user_subs (w_db w))")
  case None
  then show ?thesis
    unfolding delete_user_subscription_def
    by (intro wp_admin_only wp_read[OF assms(1)]) (simp_all add: assms(2))
next
  case (Some us)
  let ?m = "if us_is_active us \<and> us_merged us
    then ignoring (rollback_subscription_quota_from_user (us_user_id us) (snapshot_quota us)) else finish ()"
  have m: "wp ?m (\<lambda>r w'. r = Inr () \<and> healthy w' \<and>
      repaid me b (w_db w) (us_user_id us) (- grant (us_user_id us) us) (w_db w')) w"
  proof (cases "us_is_active us \<and> us_merged us")
    case True
    then show ?thesis using wp_take_back[OF assms Some] by (auto elim: wp_mono)
  next
    case False
    then have "grant (us_user_id us) us = 0" by (auto simp: grant_def)
    then show ?thesis using False assms(1) repaid_none[OF assms(2)] by auto
  qed
  have del: "wp (and_then ?m (\<lambda>_. or_fail (failed_to ''delete'') (delete_by_id user_subs_t j)))
     (\<lambda>_ w'. books_ok me b (w_db w')) w"
    unfolding wp_and_then
    by (rule wp_mono[OF m])
       (clarsimp simp: wp_delete_by_id healthy_def books_deleted[OF assms(2) Some] row_del_def[symmetric])
  have "wp (and_then (some_or (NOT_FOUND, M_user_sub_not_found) (Some us)) (\<lambda>us. and_then
      (if us_is_active us \<and> us_merged us
       then ignoring (rollback_subscription_quota_from_user (us_user_id us) (snapshot_quota us)) else finish ())
      (\<lambda>_. or_fail (failed_to ''delete'') (delete_by_id user_subs_t j)))) (\<lambda>_ w'. books_ok me b (w_db w')) w"
    by (rule wp_given) (rule del)
  then show ?thesis
    unfolding delete_user_subscription_def
    by (intro wp_admin_only wp_read[OF assms(1)]) (simp_all only: table_sel Some assms(2))
qed

text \<open>If it is for the user of the books, the plan grants a whole number of gigabytes that the user still has
  room for.\<close>

definition plan_fits :: "int \<Rightarrow> int \<Rightarrow> db \<Rightarrow> create_us_req \<Rightarrow> bool" where
  "plan_fits me b d req =
    (case row_get s_id (cus_subscription_id req) (db_subscriptions d) of
       None \<Rightarrow> True
     | Some s \<Rightarrow> cus_user_id req = me \<longrightarrow> (case whole_gb (s_quota_gb s) of
         None \<Rightarrow> False
       | Some k \<Rightarrow> 0 \<le> k \<and> b + held d me + k \<le> 2 ^ 53))"

lemma whole_gb_SomeD: "whole_gb g = Some k \<Longrightarrow> g = Fin (of_int k)"
  by (auto simp: whole_gb_def split: f64.splits if_splits)

lemma new_user_sub_sel [simp]:
  "us_id (new_user_sub req s st en t i) = i" "us_user_id (new_user_sub req s st en t i) = cus_user_id req"
  "us_quota_gb (new_user_sub req s st en t i) = s_quota_gb s"
  "us_subscription_id (new_user_sub req s st en t i) = cus_subscription_id req"
  "us_is_active (new_user_sub req s st en t i)" "us_merged (new_user_sub req s st en t i)"
  by (simp_all add: new_user_sub_def)

lemma wp_grant_books:
  fixes g :: "db_err \<Rightarrow> failure"
  assumes "healthy w" "books_ok me b (w_db w)"
    and "cus_user_id req = me \<Longrightarrow> \<exists>k. whole_gb (s_quota_gb s) = Some k \<and> 0 \<le> k \<and> b + held (w_db w) me + k \<le> 2 ^ 53"
  shows "wp (and_then (or_fail g (insert_user_sub (new_user_sub req s st en t))) (\<lambda>created.
      and_then (ignoring (merge_subscription_quota_to_user (cus_user_id req) (plan_quota s))) (\<lambda>_. finish created)))
    (\<lambda>_ w'. books_ok me b (w_db w')) w"
proof -
  let ?i = "cus_user_id req" and ?d = "w_db w"
  let ?new = "new_user_sub req s st en t (sq_user_subs ?d)"
  let ?k = "sub_gb ?new"
  let ?add = "\<lambda>d. d\<lparr>db_user_subs := db_user_subs ?d @ [?new], sq_user_subs := sq_user_subs ?d + 1\<rparr>"
  let ?w = "w\<lparr>w_db := ?add ?d\<rparr>"
  have k: "s_quota_gb s = Fin (of_int ?k) \<and> 0 \<le> ?k \<and> b + held ?d me + ?k \<le> 2 ^ 53" if "?i = me"
    using assms(3)[OF that] whole_gb_SomeD[of "s_quota_gb s"] by (auto simp: sub_gb_def)
  have g: "grant ?i ?new = ?k" by (simp add: grant_def)
  have added: "books_ok me b (?add (users_with ?d ?i (merge_fields u (plan_quota s) t')))"
    if "row_get u_id ?i (db_users ?d) \<noteq> None \<longrightarrow> row_get u_id ?i (db_users ?d) = Some u" for u t'
  proof -
    have "repaid me b ?d ?i ?k (users_with ?d ?i (merge_fields u (plan_quota s) t'))"
      by (rule repaid_merge[OF assms(2) that])
         (use k granted_held[of me ?d] assms(2) in \<open>auto simp: plan_quota_def books_ok_def\<close>)
    then show ?thesis
      using books_added[OF assms(2), of ?new ?k "users_with ?d ?i (merge_fields u (plan_quota s) t')"] k g by simp
  qed
  have post: "books_ok me b (users_with (?add ?d) ?i (merge_fields u (plan_quota s) t'))"
    if "row_get u_id ?i (db_users ?d) \<noteq> None \<longrightarrow> row_get u_id ?i (db_users ?d) = Some u" for u t'
  proof -
    have "users_with (?add ?d) ?i f = ?add (users_with ?d ?i f)" for f
      by (cases ?d) (simp add: users_with_def)
    then show ?thesis using that added by simp
  qed
  have h: "healthy ?w" using assms(1) by (simp add: healthy_def)
  have "wp (merge_subscription_quota_to_user ?i (plan_quota s)) (\<lambda>_ w'. books_ok me b (w_db w')) ?w"
    by (rule wp_mono[OF wp_merge[OF h]]) (use post in auto)
  then show ?thesis
    using assms(1,2) by (simp add: insert_user_sub_def wp_insert_row healthy_def)
qed

lemma wp_create_books:
  assumes "healthy w" "books_ok me b (w_db w)" "plan_fits me b (w_db w) req"
  shows "wp (create_user_subscription ch auth_opt req) (\<lambda>_ w'. books_ok me b (w_db w')) w"
proof (cases "row_get s_id (cus_subscription_id req) (db_subscriptions (w_db w))")
  case None
  then show ?thesis
    unfolding create_user_subscription_def
    by (intro wp_admin_only)
       (use assms(1,2) in \<open>simp_all add: wp_find_by_id healthy_def split: option.splits\<close>)
next
  case (Some s)
  have k: "\<exists>k. whole_gb (s_quota_gb s) = Some k \<and> 0 \<le> k \<and> b + held (w_db w) me + k \<le> 2 ^ 53"
    if "cus_user_id req = me"
    using assms(3) Some that by (auto simp: plan_fits_def split: option.splits)
  show ?thesis
    unfolding create_user_subscription_def
    by (intro wp_admin_only)
       (use assms(1,2) Some wp_grant_books[OF assms(1,2) k] in \<open>simp_all add: wp_find_by_id healthy_def Let_def split: option.splits\<close>)
qed

lemma wp_expire_rollback_books:
  assumes "healthy w" "books_ok me b (w_db w)" "row_get us_id j (db_user_subs (w_db w)) = Some us" "us_is_active us"
  shows "wp (expire_rollback us) (\<lambda>ok w'. healthy w' \<and>
    (if ok then repaid me b (w_db w) (us_user_id us) (- grant (us_user_id us) us) (w_db w')
     else w_db w' = w_db w)) w"
proof (cases "us_merged us")
  case True
  show ?thesis
    using True
    apply (simp add: expire_rollback_def)
    apply (rule wp_mono[OF wp_take_back[OF assms True]])
    by (auto split: sum.splits)
next
  case False
  then have "grant (us_user_id us) us = 0" by (simp add: grant_def)
  then show ?thesis using False assms(1) repaid_none[OF assms(2)] by (simp add: expire_rollback_def)
qed

lemma wp_expire_loop_books:
  assumes "healthy w" "books_ok me b (w_db w)" "distinct (map us_id subs)"
    and "\<And>s. s \<in> set subs \<Longrightarrow> us_is_active s \<and> row_get us_id (us_id s) (db_user_subs (w_db w)) = Some s"
  shows "wp (expire_loop now subs acc) (\<lambda>_ w'. books_ok me b (w_db w')) w"
  using assms
proof (induction subs arbitrary: w acc)
  case (Cons s subs)
  let ?d = "w_db w"
  have s: "us_is_active s" "row_get us_id (us_id s) (db_user_subs ?d) = Some s"
    using Cons.prems(4)[of s] by auto
  have off: "books_ok me b (d1\<lparr>db_user_subs := row_upd us_id (us_id s) (deactivate now) (db_user_subs d1)\<rparr>)"
    if "repaid me b ?d (us_user_id s) (- grant (us_user_id s) s) d1" for d1
    by (rule books_switched[OF Cons.prems(2) s(2)]) (use that in \<open>simp_all add: deactivate_def grant_def\<close>)
  have others: "us_is_active x \<and> row_get us_id (us_id x)
      (row_upd us_id (us_id s) (deactivate now) (db_user_subs ?d)) = Some x" if "x \<in> set subs" for x
    using Cons.prems(3) Cons.prems(4)[of x] that by (auto simp: row_get_row_upd image_iff)
  have rest: "wp (expire_loop now subs acc') (\<lambda>_ w'. books_ok me b (w_db w'))
      (w1\<lparr>w_db := (w_db w1)\<lparr>db_user_subs := row_upd us_id (us_id s) (deactivate now) (db_user_subs ?d)\<rparr>\<rparr>)"
    if "healthy w1" "repaid me b ?d (us_user_id s) (- grant (us_user_id s) s) (w_db w1)" for w1 acc'
    by (rule Cons.IH) (use that off[OF that(2)] others Cons.prems(3) in \<open>auto simp: healthy_def repaid_def\<close>)
  have skip: "wp (expire_loop now subs acc) (\<lambda>_ w'. books_ok me b (w_db w')) w1"
    if "healthy w1" "w_db w1 = ?d" for w1
    by (rule Cons.IH) (use that Cons.prems in auto)
  have known: "row_get us_id (us_id s) (db_user_subs d1) = Some s"
    "db_user_subs d1 = db_user_subs ?d"
    if "repaid me b ?d (us_user_id s) (- grant (us_user_id s) s) d1" for d1
    using that s(2) by (simp_all add: repaid_def)
  show ?case
    apply (simp only: expire_loop.simps wp_bind)
    apply (rule wp_mono[OF wp_expire_rollback_books[OF Cons.prems(1,2) s(2,1)]])
    subgoal for ok w1
      using skip[of w1] rest[of w1] known[of "w_db w1"]
      by (cases ok) (simp_all add: wp_update_row healthy_def)
    done
qed simp

lemma wp_expire_books:
  assumes "healthy w" "books_ok me b (w_db w)"
  shows "wp expire_subscriptions (\<lambda>_ w'. books_ok me b (w_db w')) w"
proof -
  let ?subs = "filter (\<lambda>s. us_is_active s \<and> us_end s < w_now w) (db_user_subs (w_db w))"
  have d: "distinct (map us_id (db_user_subs (w_db w)))" using assms(2) by (simp add: books_ok_def subs_ok_def)
  have "wp (expire_loop (w_now w) ?subs []) (\<lambda>_ w'. books_ok me b (w_db w')) w"
    by (rule wp_expire_loop_books[OF assms]) (use d in \<open>auto simp: distinct_map_filter row_get_distinct\<close>)
  then show ?thesis using assms(1) by (simp add: expire_subscriptions_def wp_find_all healthy_def wp_return_fun)
qed

section \<open>Properties\<close>

text \<open>C11: the books of a user's traffic quota: whatever an administrator grants, switches on or off, edits or
  deletes, for this user or another, and whatever expires, the user's quota (no quota counting as zero) stays
  what it would be without subscriptions plus the sum of the user's active subscriptions. Runs without database
  faults; the user's amounts are whole gigabytes. Deleting a plan is not among these operations, and
  \<open>deleted_plan_leaves_quota\<close> shows that it breaks the books, as a failed statement does
  (\<open>failed_merge_takes_quota_away\<close>).\<close>

theorem subscriptions_keep_books:
  assumes "healthy w" "books_ok me b (w_db w)" "plan_fits me b (w_db w) creq"
  shows "wp (create_user_subscription ch auth_opt creq) (\<lambda>_ w'. books_ok me b (w_db w')) w \<and>
    wp (update_user_subscription auth_opt j ureq) (\<lambda>_ w'. books_ok me b (w_db w')) w \<and>
    wp (delete_user_subscription auth_opt j) (\<lambda>_ w'. books_ok me b (w_db w')) w \<and>
    wp expire_subscriptions (\<lambda>_ w'. books_ok me b (w_db w')) w"
  using wp_create_books[OF assms] wp_update_books[OF assms(1,2)] wp_delete_books[OF assms(1,2)]
    wp_expire_books[OF assms(1,2)] by blast

definition sample_plan :: subscription_row where
  "sample_plan =
    \<lparr>s_id = 1, s_name = ''basic'', s_duration_type = ''monthly'', s_duration_value = 1, s_quota_gb = Fin (of_int 50),
     s_max_port = Some 5, s_max_node = None, s_max_client = None, s_price = None, s_description = None,
     s_is_active = True, s_created_at = DT 0 0 2024 1, s_updated_at = DT 0 0 2024 1\<rparr>"

definition plan_world :: world where
  "plan_world = idle_world (empty_db\<lparr>db_users := [sample_user], db_subscriptions := [sample_plan]\<rparr>)"

definition plain_chrono :: chrono_ops where
  "plain_chrono = \<lparr>ch_parse = (\<lambda>_. None),
     ch_add_days = (\<lambda>t n. Some (DT (dt_ticks t + n) (dt_day t + n) (dt_year t) (dt_month t)))\<rparr>"

definition the_admin :: auth_user where
  "the_admin = \<lparr>a_id = 1, a_username = ''admin'', a_is_admin = True\<rparr>"

definition plan_request :: create_us_req where
  "plan_request = \<lparr>cus_user_id = 7, cus_subscription_id = 1, cus_start = None\<rparr>"

lemma plan_world_sel [simp]: "w_faults plan_world = []" "w_now plan_world = DT 100 1 2024 1"
  "db_users (w_db plan_world) = [sample_user]" "db_subscriptions (w_db plan_world) = [sample_plan]"
  "db_user_subs (w_db plan_world) = []"
  by (simp_all add: plan_world_def)

lemma plan_granted:
  "wp (create_user_subscription plain_chrono (Some the_admin) plan_request)
     (\<lambda>r w'. map (grant 7) (db_user_subs (w_db w')) = [50] \<and> quota_of (w_db w') 7 \<noteq> None) plan_world"
proof -
  have g: "grant 7 (new_user_sub plan_request sample_plan a b c i) = 50" for a b c i
    using whole_gb_int[of 50] by (simp add: grant_def plan_request_def sub_gb_def sample_plan_def)
  have u: "u_id sample_user = 7" "s_id sample_plan = 1" "cus_user_id plan_request = 7"
    "cus_subscription_id plan_request = 1"
    by (simp_all add: sample_user_def sample_plan_def plan_request_def)
  show ?thesis
    by (simp add: create_user_subscription_def admin_only_def authenticated_def the_admin_def wp_find_by_id
        row_get_def u Let_def plain_chrono_def insert_user_sub_def wp_insert_row
        merge_subscription_quota_to_user_def wp_update_row g row_upd_def quota_of_def merge_fields_def
        user_sub_refs_def has_row_def)
qed

lemma subscriptions_keep_books_witness:
  "wp (create_user_subscription plain_chrono (Some the_admin) plan_request)
     (\<lambda>r w'. \<exists>q. quota_of (w_db w') 7 = Some q \<and> unwrap_f0 q = Fin 60 \<and> granted (w_db w') 7 = 50) plan_world"
proof (rule wp_both[OF plan_granted])
  have b: "books_ok 7 10 (w_db plan_world)"
    by (auto simp: books_ok_def subs_ok_def whole_subs_def held_def granted_def quota_of_def row_get_def
        sample_user_def unwrap_f0_def split: if_splits)
  have p: "plan_fits 7 10 (w_db plan_world) plan_request"
    using whole_gb_int[of 50]
    by (simp add: plan_fits_def row_get_def plan_request_def sample_plan_def held_def)
  show "wp (create_user_subscription plain_chrono (Some the_admin) plan_request)
     (\<lambda>_ w'. books_ok 7 10 (w_db w')) plan_world"
    using subscriptions_keep_books[OF _ b p] by (simp add: healthy_def)
  fix r w'
  assume a: "map (grant 7) (db_user_subs (w_db w')) = [50] \<and> quota_of (w_db w') 7 \<noteq> None" "books_ok 7 10 (w_db w')"
  then show "\<exists>q. quota_of (w_db w') 7 = Some q \<and> unwrap_f0 q = Fin 60 \<and> granted (w_db w') 7 = 50"
    by (auto simp: granted_def books_ok_def)
qed

text \<open>The books begin to hold with a new user, who has no quota and no subscription.\<close>

lemma new_user_books:
  assumes "subs_ok d" "row_get u_id i (db_users d) = Some u" "u_quota_gb u = None"
    and "\<And>us. us \<in> set (db_user_subs d) \<Longrightarrow> us_user_id us \<noteq> i"
  shows "books_ok i 0 d"
proof -
  have "map (\<lambda>s. if us_user_id s = i then sub_gb s else 0) (db_user_subs d) = map (\<lambda>_. 0) (db_user_subs d)"
    "map (grant i) (db_user_subs d) = map (\<lambda>_. 0) (db_user_subs d)"
    using assms(4) by (auto simp: grant_def)
  then have "held d i = 0" "granted d i = 0" by (simp_all only: held_def granted_def sum_list_0)
  moreover have "whole_subs i d" using assms(4) by (auto simp: whole_subs_def list_all_iff)
  ultimately show ?thesis using assms(1-3) by (simp add: books_ok_def quota_of_def unwrap_f0_def f_zero_def f_round_def)
qed

text \<open>a plan whose quota never reached the user is still booked as merged. When the statement that
  merges it fails, the error is only logged: the row says \<open>quota_merged\<close>, and deleting the subscription
  takes its quota off what the user had before.\<close>

theorem failed_merge_takes_quota_away:
  assumes "w_faults w = [False, False, False, True]"
    and "row_get u_id (cus_user_id req) (db_users (w_db w)) = Some u"
    and "u_quota_gb u = Some (Fin (of_int a))" "0 \<le> b" "b \<le> a" "a \<le> 2 ^ 53"
    and "row_get s_id (cus_subscription_id req) (db_subscriptions (w_db w)) = Some s"
    and "s_quota_gb s = Fin (of_int b)" "ch_add_days ch (start_date ch req (w_now w)) (plan_days s) = Some en"
    and "a_is_admin auth" "sq_user_subs (w_db w) \<notin> us_id ` set (db_user_subs (w_db w))"
  shows "wp (create_user_subscription ch (Some auth) req) (\<lambda>r w'. \<exists>us. r = Inr us \<and> us_merged us \<and>
    quota_of (w_db w') (cus_user_id req) = Some (Some (Fin (of_int a))) \<and>
    wp (delete_user_subscription (Some auth) (us_id us)) (\<lambda>r' w''. r' = Inr () \<and>
      quota_of (w_db w'') (cus_user_id req) = Some (Some (Fin (of_int (a - b))))) w') w"
proof -
  have id: "u_id u = cus_user_id req" using row_get_SomeD[OF assms(2)] by simp
  have s: "f_sub (Fin (of_int a)) (Fin (of_int b)) = Fin (of_int (a - b))"
    using f_sub_int[of a b] assms(4-6) by simp
  have m: "f_max (Fin (of_int (a - b))) f_zero = Fin (of_int (a - b))"
    using assms(5) by (simp add: f_max_def f_zero_def)
  have new: "find (\<lambda>r. us_id r = sq_user_subs (w_db w)) (db_user_subs (w_db w)) = None"
    using assms(11) by (force simp: find_None_iff)
  have refs: "user_sub_refs (w_db w) (new_user_sub req s st e t i)" for st e t i
    using assms(2,7) row_get_SomeD[OF assms(7)] by (simp add: user_sub_refs_def has_row_iff)
  show ?thesis
    using assms(1,2,7,9,10) id new assms(3,8) s m refs
    by (simp add: create_user_subscription_def delete_user_subscription_def admin_only_def authenticated_def
        wp_find_by_id next_fault_def Let_def insert_user_sub_def wp_insert_row merge_subscription_quota_to_user_def
        quota_of_def row_get_append row_get_def[of us_id] rollback_subscription_quota_from_user_def wp_update_row
        wp_delete_by_id row_get_row_upd rollback_fields_def snapshot_quota_def unwrap_f0_def
        del: of_int_diff)
qed

lemma failed_merge_takes_quota_away_witness:
  "\<exists>w. quota_of (w_db w) 7 = Some (Some (Fin 100)) \<and>
    wp (create_user_subscription plain_chrono (Some the_admin) plan_request) (\<lambda>r w'. \<exists>us. r = Inr us \<and>
      wp (delete_user_subscription (Some the_admin) (us_id us)) (\<lambda>r' w''. r' = Inr () \<and>
        quota_of (w_db w'') 7 = Some (Some (Fin 50))) w') w"
proof (intro exI conjI)
  let ?u = "sample_user\<lparr>u_quota_gb := Some (Fin (of_int 100))\<rparr>"
  let ?w = "plan_world\<lparr>w_faults := [False, False, False, True], w_db := (w_db plan_world)\<lparr>db_users := [?u]\<rparr>\<rparr>"
  have i: "cus_user_id plan_request = 7" "cus_subscription_id plan_request = 1" by (simp_all add: plan_request_def)
  show "quota_of (w_db ?w) 7 = Some (Some (Fin 100))" by (simp add: quota_of_def row_get_def sample_user_def)
  have "wp (create_user_subscription plain_chrono (Some the_admin) plan_request) (\<lambda>r w'. \<exists>us. r = Inr us \<and> us_merged us \<and>
    quota_of (w_db w') (cus_user_id plan_request) = Some (Some (Fin (of_int 100))) \<and>
    wp (delete_user_subscription (Some the_admin) (us_id us)) (\<lambda>r' w''. r' = Inr () \<and>
      quota_of (w_db w'') (cus_user_id plan_request) = Some (Some (Fin (of_int (100 - 50))))) w') ?w"
    by (rule failed_merge_takes_quota_away[where u = ?u and s = sample_plan])
       (simp_all add: i row_get_def sample_user_def sample_plan_def plain_chrono_def the_admin_def)
  then show "wp (create_user_subscription plain_chrono (Some the_admin) plan_request) (\<lambda>r w'. \<exists>us. r = Inr us \<and>
      wp (delete_user_subscription (Some the_admin) (us_id us)) (\<lambda>r' w''. r' = Inr () \<and>
        quota_of (w_db w'') 7 = Some (Some (Fin 50))) w') ?w"
    by (rule wp_mono) (auto simp: i)
qed

text \<open>deleting a plan leaves its quota behind. The foreign key takes the users' subscriptions of the plan
  along, but nothing rolls their merged quota back, so the books of every user who held the plan no
  longer balance; \<open>delete_user_subscription\<close> would have rolled it back.\<close>

theorem deleted_plan_leaves_quota:
  assumes "healthy w" "books_ok i b (w_db w)" "a_is_admin auth"
    and "us \<in> set (db_user_subs (w_db w))" "0 < grant i us" "quota_of (w_db w) i = Some q"
    and "has_row s_id (us_subscription_id us) (db_subscriptions (w_db w))"
  shows "wp (delete_subscription (Some auth) (us_subscription_id us)) (\<lambda>r w'. r = Inr () \<and>
    quota_of (w_db w') i = Some q \<and> granted (w_db w') i < granted (w_db w) i \<and> \<not> books_ok i b (w_db w')) w"
proof -
  let ?d = "w_db w" and ?k = "us_subscription_id us"
  let ?d' = "drop_subscriptions (\<lambda>s. s_id s = ?k) ?d"
  have ok: "whole_subs i ?d" using assms(2) by (simp add: books_ok_def)
  have sums: "sum_list (map g xs) = sum_list (map g (filter P xs)) + sum_list (map g (filter (\<lambda>x. \<not> P x) xs))"
    for g :: "user_sub_row \<Rightarrow> int" and P xs by (induction xs) auto
  have gone: "db_user_subs ?d' = filter (\<lambda>r. us_subscription_id r \<noteq> ?k) (db_user_subs ?d)"
    using assms(7) by (auto simp: drop_subscriptions_def has_row_def list_ex_iff intro!: filter_cong)
  have "0 < sum_list (map (grant i) (filter (\<lambda>r. us_subscription_id r = ?k) (db_user_subs ?d)))"
  proof -
    have "grant i us \<le> sum_list (map (grant i) (filter (\<lambda>r. us_subscription_id r = ?k) (db_user_subs ?d)))"
      by (rule member_le_sum_list) (use assms(4) grant_nonneg[OF ok] in auto)
    then show ?thesis using assms(5) by linarith
  qed
  then have less: "granted ?d' i < granted ?d i"
    unfolding granted_def gone using sums[of "grant i" "db_user_subs ?d" "\<lambda>r. us_subscription_id r = ?k"] by linarith
  have quota: "quota_of ?d' i = Some q"
    using assms(6) by (simp add: quota_of_def drop_subscriptions_def)
  have "unwrap_f0 q = Fin (of_int (b + granted ?d i))"
    using assms(2,6) by (simp add: books_ok_def)
  with quota less have "\<not> books_ok i b ?d'"
    unfolding books_ok_def by (metis add_left_cancel f64.inject(1) of_int_eq_iff order_less_irrefl)
  then show ?thesis
    using assms(1,3) quota less
    by (simp add: delete_subscription_def admin_only_def authenticated_def wp_delete_by_id healthy_def)
qed

definition held_sub :: user_sub_row where
  "held_sub = (new_user_sub plan_request sample_plan (DT 0 0 2024 1) (DT 0 0 2024 2) (DT 0 0 2024 1) 1)"

definition holder_world :: world where
  "holder_world = idle_world (empty_db\<lparr>db_users := [sample_user\<lparr>u_quota_gb := Some (Fin (of_int 60))\<rparr>],
     db_subscriptions := [sample_plan], db_user_subs := [held_sub], sq_user_subs := 2\<rparr>)"

lemma deleted_plan_leaves_quota_witness:
  "wp (delete_subscription (Some the_admin) 1) (\<lambda>r w'. r = Inr () \<and>
    quota_of (w_db w') 7 = Some (Some (Fin 60)) \<and> granted (w_db w') 7 < 50) holder_world"
proof -
  have sub: "sub_gb held_sub = 50" "us_user_id held_sub = 7" "us_id held_sub = 1" "us_subscription_id held_sub = 1"
    "us_quota_gb held_sub = Fin (of_int 50)" "us_is_active held_sub" "us_merged held_sub"
    using whole_gb_int[of 50] by (simp_all add: held_sub_def plan_request_def sub_gb_def sample_plan_def)
  have db: "db_user_subs (w_db holder_world) = [held_sub]" "sq_user_subs (w_db holder_world) = 2"
    "db_users (w_db holder_world) = [sample_user\<lparr>u_quota_gb := Some (Fin (of_int 60))\<rparr>]"
    "db_subscriptions (w_db holder_world) = [sample_plan]" "healthy holder_world"
    by (simp_all add: holder_world_def healthy_def)
  have g: "grant 7 held_sub = 50" "granted (w_db holder_world) 7 = 50"
    using sub db by (simp_all add: grant_def granted_def)
  have books: "books_ok 7 10 (w_db holder_world)"
    using sub db g
    by (auto simp: books_ok_def subs_ok_def whole_subs_def unwrap_f0_def held_def granted_def grant_def quota_of_def row_get_def sample_user_def
        split: if_splits intro: exI[of _ 50])
  show ?thesis
    using deleted_plan_leaves_quota[OF db(5) books, of the_admin held_sub "Some (Fin (of_int 60))"] sub db g
    by (simp add: the_admin_def quota_of_def row_get_def sample_user_def has_row_def sample_plan_def wp_conj)
qed

end
