(* ===== verification/Handlers.thy ===== *)
theory Handlers
  imports SubscriptionApi ClientStreams TrafficLimits
begin

text \<open>
  What the handlers on users, clients and nodes share beyond \<open>Control\<close>: results that are looked at
  instead of ending the handler, deletions that report how many rows they hit, and the \<open>f64\<close>
  operations that only these handlers use. A divisor of zero counts as positive zero.
\<close>

section \<open>Errors that do not end a handler\<close>

text \<open>\<open>if let Ok(..) = e\<close> and \<open>match e { Ok(..) => .., Err(_) => .. }\<close>: the outcome as a value.\<close>

definition attempt :: "('d + 'a) io \<Rightarrow> ('e + ('d + 'a)) io" where
  "attempt m = do { r \<leftarrow> m; State_Monad.return (Inr r) }"

definition ok_or :: "'a \<Rightarrow> 'd + 'a \<Rightarrow> 'a" where
  "ok_or d r = (case r of Inl _ \<Rightarrow> d | Inr x \<Rightarrow> x)"

text \<open>\<open>e.await.unwrap_or(d)\<close>.\<close>

definition or_else :: "'a \<Rightarrow> ('d + 'a) io \<Rightarrow> ('e + 'a) io" where
  "or_else d m = do { r \<leftarrow> m; State_Monad.return (Inr (ok_or d r)) }"

lemma ok_or_simps [simp]: "ok_or d (Inl e) = d" "ok_or d (Inr x) = x"
  by (simp_all add: ok_or_def)

lemma wp_attempt [simp]: "wp (attempt m) Q w = wp m (\<lambda>r. Q (Inr r)) w"
  by (simp add: attempt_def wp_return_fun)

lemma wp_or_else [simp]: "wp (or_else d m) Q w = wp m (\<lambda>r. Q (Inr (ok_or d r))) w"
  by (simp add: or_else_def wp_return_fun)

lemma keeps_attempt [intro!]: "keeps P m \<Longrightarrow> keeps P (attempt m)"
  unfolding attempt_def by auto

lemma keeps_or_else [intro!]: "keeps P m \<Longrightarrow> keeps P (or_else d m)"
  unfolding or_else_def by auto

section \<open>Deletions with a count\<close>

text \<open>\<open>delete_many().filter(..).exec(db)\<close> with \<open>rows_affected\<close>.\<close>

definition delete_counted :: "'r table \<Rightarrow> ('r \<Rightarrow> bool) \<Rightarrow> (db_err + nat) io" where
  "delete_counted T P = stmt (\<lambda>d. (Inr (length (filter P (rows T d))), drop_rows T P d))"

lemma wp_delete_counted [wp_simps]:
  "wp (delete_counted T P) Q w =
    (if next_fault w then Q (Inl DbFault) (pop_fault w)
     else Q (Inr (length (filter P (rows T (w_db w)))))
       ((pop_fault w)\<lparr>w_db := drop_rows T P (w_db w)\<rparr>))"
  by (simp add: delete_counted_def wp_stmt)

section \<open>Shares of a quota\<close>

fun f_mul :: "f64 \<Rightarrow> f64 \<Rightarrow> f64" where
  "f_mul NaN _ = NaN"
| "f_mul _ NaN = NaN"
| "f_mul (Fin x) (Fin y) = f_round (x * y)"
| "f_mul (Fin x) z = (if x = 0 then NaN else if (0 < x) = (z = PInf) then PInf else NInf)"
| "f_mul z (Fin x) = (if x = 0 then NaN else if (0 < x) = (z = PInf) then PInf else NInf)"
| "f_mul y z = (if y = z then PInf else NInf)"

fun f_div :: "f64 \<Rightarrow> f64 \<Rightarrow> f64" where
  "f_div NaN _ = NaN"
| "f_div _ NaN = NaN"
| "f_div (Fin x) (Fin y) =
    (if y = 0 then (if x = 0 then NaN else if 0 < x then PInf else NInf) else f_round (x / y))"
| "f_div (Fin x) _ = Fin 0"
| "f_div z (Fin y) = (if (0 \<le> y) = (z = PInf) then PInf else NInf)"
| "f_div _ _ = NaN"

definition f_min :: "f64 \<Rightarrow> f64 \<Rightarrow> f64" where
  "f_min x y = (if x = NaN then y else if y = NaN then x else if f_lt x y then x else y)"

text \<open>\<open>(part / whole * 100.0).min(100.0)\<close>, the percentage both quota views show.\<close>

definition f_percent :: "f64 \<Rightarrow> f64 \<Rightarrow> f64" where
  "f_percent part whole = f_min (f_mul (f_div part whole) (Fin 100)) (Fin 100)"

text \<open>A percentage is never above one hundred and never undefined.\<close>

lemma f_percent_le: "f_percent a b \<noteq> NaN \<and> \<not> f_lt (Fin 100) (f_percent a b)"
proof (cases "f_mul (f_div a b) (Fin 100)")
  case (Fin x)
  then show ?thesis by (auto simp: f_percent_def f_min_def)
qed (simp_all add: f_percent_def f_min_def)

end
