(* ===== verification/ClientApi.thy ===== *)
theory ClientApi
  imports Handlers
begin

text \<open>
  The REST handlers of clients (\<open>controller/src/api/handlers/client.rs\<close>, \<open>client_logs.rs\<close>), the
  configuration a client fetches with its token (\<open>client_config.rs\<close>), and what the controller answers
  when a node asks about a client (\<open>controller/src/local_auth_provider.rs\<close>).
\<close>

section \<open>Listing, creating, deleting\<close>

record create_client_req =
  cn_name :: string
  cn_token :: "string option"
  cn_region :: "string option"
  cn_reset_cycle :: "string option"
  cn_quota_gb :: "f64 option"

definition list_clients :: "auth_user option \<Rightarrow> client_row list handler" where
  "list_clients auth_opt =
    and_then (authenticated auth_opt) (\<lambda>auth.
    and_then (or_fail (failed_to ''list'')
        (find_all clients_t (\<lambda>c. a_is_admin auth \<or> c_user_id c = Some (a_id auth)))) (\<lambda>clients. do {
      cs \<leftarrow> csm_apply_online_status clients;
      finish cs
    }))"

text \<open>The limit on a user's clients; a failed lookup of the user skips it.\<close>

definition check_client_count :: "int \<Rightarrow> unit handler" where
  "check_client_count user_id =
    and_then (attempt (find_by_id users_t user_id)) (\<lambda>r.
      case ok_or None r of
        None \<Rightarrow> finish ()
      | Some user \<Rightarrow>
          and_then (or_else (u_quota_gb user, u_max_port user, u_max_node user, u_max_client user)
            (get_user_final_quota user_id (u_quota_gb user) (u_max_port user) (u_max_node user)
               (u_max_client user))) (\<lambda>(_, _, _, final_max).
            case final_max of
              None \<Rightarrow> finish ()
            | Some max_count \<Rightarrow>
                and_then (or_fail (failed_to ''count'')
                    (count_rows clients_t (\<lambda>c. c_user_id c = Some user_id))) (\<lambda>current.
                check (\<not> i32_as_u64 max_count \<le> current)
                  (BAD_REQUEST, M_client_limit current max_count))))"

definition new_client :: "create_client_req \<Rightarrow> int \<Rightarrow> string \<Rightarrow> naive_dt \<Rightarrow> int \<Rightarrow> client_row" where
  "new_client req user_id token now i =
    \<lparr>c_id = i, c_name = cn_name req, c_token = token, c_is_online = False, c_public_ip = None,
     c_region = cn_region req, c_sent = 0, c_received = 0,
     c_reset_cycle = unwrap_or ''none'' (cn_reset_cycle req), c_last_reset = None,
     c_exceeded = False, c_quota_gb = cn_quota_gb req, c_user_id = Some user_id, c_version = None,
     c_last_online = None, c_created_at = now, c_updated_at = now\<rparr>"

definition token_or_new :: "string option \<Rightarrow> string io" where
  "token_or_new t = (case t of Some s \<Rightarrow> State_Monad.return s | None \<Rightarrow> new_uuid)"

definition create_client_row :: "int \<Rightarrow> create_client_req \<Rightarrow> client_row handler" where
  "create_client_row user_id req = do {
     token \<leftarrow> token_or_new (cn_token req);
     now \<leftarrow> utc_now;
     or_fail (failed_to ''create'') (insert_row clients_t sq_clients (\<lambda>n d. d\<lparr>sq_clients := n\<rparr>)
       (new_client req user_id token now))
   }"

definition create_client_handler :: "auth_user option \<Rightarrow> create_client_req \<Rightarrow> client_row handler" where
  "create_client_handler auth_opt req =
    and_then (authenticated auth_opt) (\<lambda>auth.
    and_then (check_client_count (a_id auth)) (\<lambda>_.
    create_client_row (a_id auth) req))"

definition get_client :: "auth_user option \<Rightarrow> int \<Rightarrow> client_row handler" where
  "get_client auth_opt i =
    and_then (authenticated auth_opt) (\<lambda>auth. verify_client_ownership auth i)"

definition delete_client :: "auth_user option \<Rightarrow> int \<Rightarrow> unit handler" where
  "delete_client auth_opt i =
    and_then (authenticated auth_opt) (\<lambda>auth.
    and_then (verify_client_ownership auth i) (\<lambda>_.
    or_fail (failed_to ''delete'') (delete_by_id clients_t i)))"

section \<open>Changing\<close>

record update_client_req =
  cu_name :: "string option"
  cu_region :: "string option"
  cu_quota_gb :: "f64 option"
  cu_reset_cycle :: "string option"
  cu_exceeded :: "bool option"

definition set_client :: "update_client_req \<Rightarrow> naive_dt \<Rightarrow> client_row \<Rightarrow> client_row" where
  "set_client req now c =
    c\<lparr>c_name := unwrap_or (c_name c) (cu_name req),
      c_region := some_else (c_region c) (cu_region req),
      c_quota_gb := some_else (c_quota_gb c) (cu_quota_gb req),
      c_reset_cycle := unwrap_or (c_reset_cycle c) (cu_reset_cycle req),
      c_exceeded := unwrap_or (c_exceeded c) (cu_exceeded req), c_updated_at := now\<rparr>"

definition update_client :: "auth_user option \<Rightarrow> int \<Rightarrow> update_client_req \<Rightarrow> client_row handler" where
  "update_client auth_opt i req =
    and_then (admin_only auth_opt) (\<lambda>_.
    and_then (or_fail (failed_to ''find'') (find_by_id clients_t i)) (\<lambda>r.
    and_then (some_or (NOT_FOUND, M_client_not_found) r) (\<lambda>client. do {
      now \<leftarrow> utc_now;
      or_fail (failed_to ''update'') (update_row clients_t (c_id client) (set_client req now))
    })))"

text \<open>What a user who is not an administrator must pass to give a client a quota.\<close>

definition allocation_allowed :: "int \<Rightarrow> int \<Rightarrow> f64 \<Rightarrow> unit handler" where
  "allocation_allowed user_id client_id quota_diff =
    and_then (or_fail (failed_to ''check'') (find_one user_clients_t
        (\<lambda>r. uc_user_id r = user_id \<and> uc_client_id r = client_id))) (\<lambda>has_access.
    and_then (check (has_access \<noteq> None) (FORBIDDEN, M_no_access_client)) (\<lambda>_.
      if f_lt f_zero quota_diff
      then and_then (or_fail internal (check_user_quota_allocation user_id quota_diff)) (\<lambda>(ok, reason).
             check ok (BAD_REQUEST, reason))
      else finish ()))"

definition set_client_quota :: "f64 \<Rightarrow> naive_dt \<Rightarrow> client_row \<Rightarrow> client_row" where
  "set_client_quota quota now c = c\<lparr>c_quota_gb := Some quota, c_updated_at := now\<rparr>"

definition allocate_client_quota :: "auth_user option \<Rightarrow> int \<Rightarrow> f64 \<Rightarrow> f64 handler" where
  "allocate_client_quota auth_opt client_id quota_gb =
    and_then (authenticated auth_opt) (\<lambda>auth.
    and_then (check (\<not> f_lt quota_gb f_zero) (BAD_REQUEST, M_negative_quota)) (\<lambda>_.
    and_then (or_fail (failed_to ''find'') (find_by_id clients_t client_id)) (\<lambda>r.
    and_then (some_or (NOT_FOUND, M_client_not_found) r) (\<lambda>client.
    and_then (if a_is_admin auth then finish ()
              else allocation_allowed (a_id auth) client_id
                     (f_sub quota_gb (unwrap_or f_zero (c_quota_gb client)))) (\<lambda>_. do {
      now \<leftarrow> utc_now;
      and_then (or_fail (failed_to ''update'')
        (update_row clients_t (c_id client) (set_client_quota quota_gb now))) (\<lambda>_. finish quota_gb)
    })))))"

section \<open>Traffic and logs\<close>

record client_traffic_info =
  ci_client_id :: int
  ci_client_name :: string
  ci_sent :: i64
  ci_received :: i64
  ci_total :: i64
  ci_quota_gb :: "f64 option"
  ci_remaining_gb :: "f64 option"
  ci_percent :: "f64 option"
  ci_exceeded :: bool

definition client_traffic_info_of :: "client_row \<Rightarrow> client_traffic_info" where
  "client_traffic_info_of c =
    (let remaining = calculate_client_remaining_quota c
     in \<lparr>ci_client_id = c_id c, ci_client_name = c_name c, ci_sent = c_sent c,
         ci_received = c_received c, ci_total = c_sent c + c_received c, ci_quota_gb = c_quota_gb c,
         ci_remaining_gb = remaining,
         ci_percent = (case (c_quota_gb c, remaining) of
            (Some quota, Some rest) \<Rightarrow> Some (f_percent (f_sub quota rest) quota)
          | _ \<Rightarrow> None),
         ci_exceeded = c_exceeded c\<rparr>)"

definition get_client_traffic :: "auth_user option \<Rightarrow> int \<Rightarrow> client_traffic_info handler" where
  "get_client_traffic auth_opt client_id =
    and_then (authenticated auth_opt) (\<lambda>auth.
    and_then (verify_client_ownership auth client_id) (\<lambda>client.
    finish (client_traffic_info_of client)))"

definition get_client_logs :: "auth_user option \<Rightarrow> int \<Rightarrow> log_entry list handler" where
  "get_client_logs auth_opt client_id =
    and_then (authenticated auth_opt) (\<lambda>auth.
    and_then (verify_client_ownership auth client_id) (\<lambda>_.
    or_fail internal (csm_fetch_client_logs client_id 200)))"

section \<open>What a client may do\<close>

text \<open>\<open>POST /api/client/connect-config\<close>: a client reads where to connect, by its token.\<close>

datatype tunnel_protocol = Quic | Kcp | Tcp

definition protocol_of :: "string \<Rightarrow> tunnel_protocol" where
  "protocol_of s = (if s = ''kcp'' then Kcp else if s = ''tcp'' then Tcp else Quic)"

record connect_config =
  co_addr :: string
  co_port :: u16
  co_protocol :: tunnel_protocol
  co_kcp :: "kcp_config option"
  co_client_id :: int
  co_client_name :: string

fun first_node :: "proxy_row list \<Rightarrow> int option" where
  "first_node [] = None"
| "first_node (p # ps) = (case p_node_id p of Some n \<Rightarrow> Some n | None \<Rightarrow> first_node ps)"

definition get_client_connect_config ::
  "(string \<Rightarrow> kcp_config option) \<Rightarrow> string \<Rightarrow> connect_config handler" where
  "get_client_connect_config kcp_of token =
    and_then (or_fail internal_db (find_one clients_t (\<lambda>c. c_token c = token))) (\<lambda>r.
    and_then (some_or (UNAUTHORIZED, M_text ''invalid_token'') r) (\<lambda>client.
    and_then (check (\<not> c_exceeded client) (FORBIDDEN, M_text ''traffic_exceeded'')) (\<lambda>_.
    and_then (or_fail internal_db (find_all proxies_t
        (\<lambda>p. p_client_id p = Some (int_str (c_id client)) \<and> p_enabled p))) (\<lambda>proxies.
    and_then (some_or (BAD_REQUEST, M_text ''no_node_assigned'') (first_node proxies)) (\<lambda>node_id.
    and_then (or_fail internal_db (find_by_id nodes_t node_id)) (\<lambda>n.
    and_then (some_or (NOT_FOUND, M_node_not_found) n) (\<lambda>node.
    finish \<lparr>co_addr = n_tunnel_addr node, co_port = ucast (n_tunnel_port node),
            co_protocol = protocol_of (n_tunnel_protocol node),
            co_kcp = Option.bind (n_kcp_config node) kcp_of, co_client_id = c_id client,
            co_client_name = c_name client\<rparr>)))))))"

text \<open>The questions a node asks: may this token connect, has this client used up its traffic, which
  proxies does it have.\<close>

record validate_response =
  vr_client_id :: int
  vr_client_name :: string
  vr_allowed :: bool
  vr_reason :: "string option"

text \<open>Whether the user of a client is marked; a failed lookup of the user counts as no.\<close>

definition owner_exceeded :: "client_row \<Rightarrow> (any_err + bool) io" where
  "owner_exceeded client =
    (case c_user_id client of
       None \<Rightarrow> finish False
     | Some user_id \<Rightarrow>
         and_then (attempt (find_by_id users_t user_id)) (\<lambda>r.
           case ok_or None r of
             None \<Rightarrow> finish False
           | Some user \<Rightarrow> finish (u_exceeded user)))"

definition validate_token :: "string \<Rightarrow> (any_err + validate_response) io" where
  "validate_token token =
    and_then (or_fail E_db (find_one clients_t (\<lambda>c. c_token c = token))) (\<lambda>r.
      case r of
        None \<Rightarrow> finish \<lparr>vr_client_id = 0, vr_client_name = [], vr_allowed = False,
                        vr_reason = Some ''invalid_token''\<rparr>
      | Some client \<Rightarrow>
          and_then (owner_exceeded client) (\<lambda>exceeded.
            finish \<lparr>vr_client_id = c_id client, vr_client_name = c_name client,
              vr_allowed = \<not> exceeded,
              vr_reason = (if exceeded then Some ''traffic_exceeded'' else None)\<rparr>))"

definition check_traffic_limit :: "int \<Rightarrow> (any_err + bool) io" where
  "check_traffic_limit client_id =
    and_then (or_fail E_db (find_by_id clients_t client_id)) (\<lambda>r.
      case r of
        None \<Rightarrow> finish False
      | Some client \<Rightarrow> owner_exceeded client)"

definition get_client_proxies :: "int \<Rightarrow> (any_err + proxy_config list) io" where
  "get_client_proxies client_id =
    and_then (or_fail E_db (find_all proxies_t
        (\<lambda>p. p_client_id p = Some (int_str client_id) \<and> p_enabled p))) (\<lambda>proxies.
    finish (map proxy_config_of proxies))"

end
