(* ===== verification/Settings.thy ===== *)
theory Settings
  imports Handlers
begin

text \<open>
  The settings (\<open>controller/src/config_manager.rs\<close>): rows of text with the name of a type, parsed into
  a cache, and the handlers that change them (\<open>api/handlers/system_config.rs\<close>). \<open>serde_json\<close> and the
  printing of an \<open>f64\<close> (the shortest text that reads back as the number) are arguments.
\<close>

section \<open>The cache\<close>

text \<open>The readers of \<open>ConfigManager\<close> (\<open>config_manager.rs\<close>).\<close>

fun as_i64 :: "config_value \<Rightarrow> i64 option" where
  "as_i64 (VNumber n) = Some n"
| "as_i64 _ = None"

fun as_f64 :: "config_value \<Rightarrow> f64 option" where
  "as_f64 (VFloat f) = Some f"
| "as_f64 (VNumber n) = Some (f_of_i64 n)"
| "as_f64 _ = None"

fun as_string :: "config_value \<Rightarrow> string option" where
  "as_string (VString s) = Some s"
| "as_string _ = None"

fun as_bool :: "config_value \<Rightarrow> bool option" where
  "as_bool (VBoolean b) = Some b"
| "as_bool _ = None"

definition config_get :: "string \<Rightarrow> config_value option io" where
  "config_get key = asks (\<lambda>w. map_of (w_config w) key)"

definition get_number :: "string \<Rightarrow> i64 \<Rightarrow> i64 io" where
  "get_number key d = do { v \<leftarrow> config_get key; State_Monad.return (unwrap_or d (Option.bind v as_i64)) }"

definition get_float :: "string \<Rightarrow> f64 \<Rightarrow> f64 io" where
  "get_float key d = do { v \<leftarrow> config_get key; State_Monad.return (unwrap_or d (Option.bind v as_f64)) }"

definition get_string :: "string \<Rightarrow> string \<Rightarrow> string io" where
  "get_string key d = do { v \<leftarrow> config_get key; State_Monad.return (unwrap_or d (Option.bind v as_string)) }"

definition get_bool :: "string \<Rightarrow> bool \<Rightarrow> bool io" where
  "get_bool key d = do { v \<leftarrow> config_get key; State_Monad.return (unwrap_or d (Option.bind v as_bool)) }"

section \<open>Numbers in decimal\<close>

text \<open>\<open>str::parse::<f64>\<close>: an optional sign, then \<open>inf\<close>, \<open>infinity\<close> or \<open>nan\<close> in any case, or
  digits with an optional point and an optional exponent.\<close>

definition digits_num :: "string \<Rightarrow> nat" where
  "digits_num ds = unwrap_or 0 (parse_acc 0 ds)"

definition split_sign :: "string \<Rightarrow> bool \<times> string" where
  "split_sign s =
    (case s of
       c # cs \<Rightarrow> if c = CHR ''-'' then (True, cs) else if c = CHR ''+'' then (False, cs) else (False, s)
     | [] \<Rightarrow> (False, []))"

definition parse_exponent :: "string \<Rightarrow> int option" where
  "parse_exponent s =
    (case s of
       [] \<Rightarrow> Some 0
     | c # cs \<Rightarrow>
         if c = CHR ''e'' \<or> c = CHR ''E'' then
           (case split_sign cs of (neg, ds) \<Rightarrow>
              if ds \<noteq> [] \<and> list_all is_digit ds
              then Some (if neg then - int (digits_num ds) else int (digits_num ds)) else None)
         else None)"

definition parse_decimal :: "string \<Rightarrow> rat option" where
  "parse_decimal s =
    (let whole = takeWhile is_digit s; r1 = dropWhile is_digit s;
         point = (case r1 of c # _ \<Rightarrow> c = CHR ''.'' | [] \<Rightarrow> False);
         r2 = (if point then tl r1 else r1);
         frac = (if point then takeWhile is_digit r2 else []);
         r3 = (if point then dropWhile is_digit r2 else r2)
     in if whole @ frac = [] then None
        else map_option (\<lambda>e. of_nat (digits_num (whole @ frac)) * 10 powi (e - int (length frac)))
               (parse_exponent r3))"

definition parse_f64 :: "string \<Rightarrow> f64 option" where
  "parse_f64 s =
    (case split_sign s of (neg, r) \<Rightarrow>
       let sign = (\<lambda>x. if neg then f_neg x else x); l = map lower_char r
       in if l = ''inf'' \<or> l = ''infinity'' then Some (sign PInf)
          else if l = ''nan'' then Some NaN
          else map_option (\<lambda>x. sign (f_round x)) (parse_decimal r))"

section \<open>Loading\<close>

record 'j json_crate =
  jc_as_i64 :: "'j \<Rightarrow> i64 option"
  jc_as_f64 :: "'j \<Rightarrow> f64 option"
  jc_as_bool :: "'j \<Rightarrow> bool option"
  jc_as_str :: "'j \<Rightarrow> string option"
  jc_text :: "'j \<Rightarrow> string"
  jc_parse :: "string \<Rightarrow> 'j"
  jc_quote :: "string \<Rightarrow> string"
  jc_unquote :: "string \<Rightarrow> string option"
  jc_show_f64 :: "f64 \<Rightarrow> string"

definition parse_bool :: "string \<Rightarrow> bool option" where
  "parse_bool s = (if s = ''true'' then Some True else if s = ''false'' then Some False else None)"

definition parse_value :: "'j json_crate \<Rightarrow> string \<Rightarrow> string \<Rightarrow> config_value" where
  "parse_value jc s value_type =
    (if value_type = ''number'' then
       (case parse_i64 s of
          Some n \<Rightarrow> VNumber (of_int n)
        | None \<Rightarrow> (case parse_f64 s of Some f \<Rightarrow> VFloat f | None \<Rightarrow> VNumber 0))
     else if value_type = ''boolean'' then VBoolean (unwrap_or False (parse_bool s))
     else if value_type = ''string'' then VString (unwrap_or s (jc_unquote jc s))
     else VString s)"

fun load_rows ::
  "'j json_crate \<Rightarrow> config_row list \<Rightarrow> (string \<times> config_value) list \<Rightarrow> (string \<times> config_value) list" where
  "load_rows jc [] cache = cache"
| "load_rows jc (c # cs) cache =
    load_rows jc cs (AList.update (g_key c) (parse_value jc (g_value c) (g_value_type c)) cache)"

definition load_from_db :: "'j json_crate \<Rightarrow> (db_err + unit) io" where
  "load_from_db jc =
    and_then (find_all configs_t (\<lambda>_. True)) (\<lambda>configs. do {
      modify (\<lambda>w. w\<lparr>w_config := load_rows jc configs (w_config w)\<rparr>);
      finish ()
    })"

definition config_reload :: "'j json_crate \<Rightarrow> (db_err + unit) io" where
  "config_reload jc = load_from_db jc"

definition set_config :: "string \<Rightarrow> naive_dt \<Rightarrow> config_row \<Rightarrow> config_row" where
  "set_config v now c = c\<lparr>g_value := v, g_updated_at := now\<rparr>"

text \<open>\<open>ConfigManager::set\<close>: the cache first, then the row, if there is one.\<close>

fun value_text :: "'j json_crate \<Rightarrow> config_value \<Rightarrow> string" where
  "value_text jc (VNumber n) = int_str (sint n)"
| "value_text jc (VFloat f) = jc_show_f64 jc f"
| "value_text jc (VString s) = jc_quote jc s"
| "value_text jc (VBoolean b) = (if b then ''true'' else ''false'')"

definition config_set :: "'j json_crate \<Rightarrow> string \<Rightarrow> config_value \<Rightarrow> (db_err + unit) io" where
  "config_set jc key v = do {
     modify (\<lambda>w. w\<lparr>w_config := AList.update key v (w_config w)\<rparr>);
     and_then (find_one configs_t (\<lambda>c. g_key c = key)) (\<lambda>r.
       case r of
         None \<Rightarrow> finish ()
       | Some config \<Rightarrow> do {
           now \<leftarrow> utc_now;
           and_then (update_row configs_t (g_id config) (set_config (value_text jc v) now)) (\<lambda>_. finish ())
         })
   }"

section \<open>Handlers\<close>

text \<open>They answer \<open>200\<close> whatever happens, so a failure is its message.\<close>

record 'j config_item =
  it_id :: int
  it_key :: string
  it_value :: 'j
  it_description :: string
  it_value_type :: string

definition item_of :: "'j json_crate \<Rightarrow> config_row \<Rightarrow> 'j config_item" where
  "item_of jc c =
    \<lparr>it_id = g_id c, it_key = g_key c, it_value = jc_parse jc (g_value c),
     it_description = g_description c, it_value_type = g_value_type c\<rparr>"

definition config_admin :: "auth_user option \<Rightarrow> (msg + auth_user) io" where
  "config_admin auth_opt =
    and_then (some_or M_not_authenticated auth_opt) (\<lambda>auth.
    and_then (check (a_is_admin auth) M_admin_required) (\<lambda>_. finish auth))"

definition get_configs :: "'j json_crate \<Rightarrow> auth_user option \<Rightarrow> (msg + 'j config_item list) io" where
  "get_configs jc auth_opt =
    and_then (config_admin auth_opt) (\<lambda>_.
    and_then (or_fail (\<lambda>e. M_op_failed ''get'' (E_db e)) (find_all configs_t (\<lambda>_. True))) (\<lambda>configs.
    finish (map (item_of jc) configs)))"

text \<open>The text a new value is stored as, which its type may refuse.\<close>

definition config_text :: "'j json_crate \<Rightarrow> string \<Rightarrow> 'j \<Rightarrow> string option" where
  "config_text jc value_type v =
    (if value_type = ''number'' then
       (case jc_as_i64 jc v of
          Some n \<Rightarrow> Some (int_str (sint n))
        | None \<Rightarrow> map_option (jc_show_f64 jc) (jc_as_f64 jc v))
     else if value_type = ''boolean'' then
       map_option (\<lambda>b. if b then ''true'' else ''false'') (jc_as_bool jc v)
     else if value_type = ''string'' then map_option (jc_quote jc) (jc_as_str jc v)
     else Some (jc_text jc v))"

definition update_config ::
  "'j json_crate \<Rightarrow> auth_user option \<Rightarrow> string \<Rightarrow> 'j \<Rightarrow> (msg + 'j config_item) io" where
  "update_config jc auth_opt key v =
    and_then (config_admin auth_opt) (\<lambda>_.
    and_then (or_fail (\<lambda>e. M_op_failed ''find'' (E_db e)) (find_one configs_t (\<lambda>c. g_key c = key))) (\<lambda>r.
    and_then (some_or (M_text ''no such setting'') r) (\<lambda>config.
    and_then (some_or (M_text ''wrong type'') (config_text jc (g_value_type config) v)) (\<lambda>value_str. do {
      now \<leftarrow> utc_now;
      and_then (or_fail (\<lambda>e. M_op_failed ''update'' (E_db e))
        (update_row configs_t (g_id config) (set_config value_str now))) (\<lambda>updated.
      and_then (ignoring (config_reload jc)) (\<lambda>_. finish (item_of jc updated)))
    }))))"

text \<open>A batch skips what it cannot do and loads the cache once.\<close>

definition batch_item :: "'j json_crate \<Rightarrow> string \<times> 'j \<Rightarrow> 'j config_item option io" where
  "batch_item jc x = do {
     r \<leftarrow> and_then (find_one configs_t (\<lambda>c. g_key c = fst x)) (\<lambda>r.
       case r of
         None \<Rightarrow> finish None
       | Some config \<Rightarrow>
           (case config_text jc (g_value_type config) (snd x) of
              None \<Rightarrow> finish None
            | Some value_str \<Rightarrow> do {
                now \<leftarrow> utc_now;
                and_then (update_row configs_t (g_id config) (set_config value_str now)) (\<lambda>updated.
                finish (Some (item_of jc updated)))
              }));
     State_Monad.return (ok_or None r)
   }"

fun batch_items :: "'j json_crate \<Rightarrow> (string \<times> 'j) list \<Rightarrow> 'j config_item list io" where
  "batch_items jc [] = State_Monad.return []"
| "batch_items jc (x # xs) = do {
     i \<leftarrow> batch_item jc x;
     is \<leftarrow> batch_items jc xs;
     State_Monad.return (case i of Some y \<Rightarrow> y # is | None \<Rightarrow> is)
   }"

definition batch_update_configs ::
  "'j json_crate \<Rightarrow> auth_user option \<Rightarrow> (string \<times> 'j) list \<Rightarrow> (msg + 'j config_item list) io" where
  "batch_update_configs jc auth_opt configs =
    and_then (config_admin auth_opt) (\<lambda>_. do {
      items \<leftarrow> batch_items jc configs;
      and_then (ignoring (config_reload jc)) (\<lambda>_. finish items)
    })"

end
