(* ===== verification/UserApi.thy ===== *)
theory UserApi
  imports ClientApi Settings
begin

text \<open>
  The REST handlers of users (\<open>controller/src/api/handlers/user.rs\<close>). Hashing a password and
  generating one are crates' (\<open>bcrypt\<close>, \<open>rand\<close>) and arguments here; the defaults for new users come
  from the settings' cache.
\<close>

section \<open>Listing\<close>

record user_view =
  uv_id :: int
  uv_username :: string
  uv_is_admin :: bool
  uv_created_at :: naive_dt
  uv_updated_at :: naive_dt
  uv_node_count :: nat
  uv_sent :: i64
  uv_received :: i64
  uv_quota_gb :: "f64 option"
  uv_remaining_gb :: "f64 option"
  uv_reset_cycle :: string
  uv_last_reset :: "naive_dt option"
  uv_exceeded :: bool
  uv_max_port :: "i32 option"
  uv_port_range :: "string option"
  uv_port_count :: nat
  uv_max_node :: "i32 option"
  uv_max_client :: "i32 option"
  uv_client_count :: nat

definition final_quota ::
  "user_row \<Rightarrow> ('e + f64 option \<times> i32 option \<times> i32 option \<times> i32 option) io" where
  "final_quota user =
    or_else (u_quota_gb user, u_max_port user, u_max_node user, u_max_client user)
      (get_user_final_quota (u_id user) (u_quota_gb user) (u_max_port user) (u_max_node user)
         (u_max_client user))"

definition user_view_of :: "user_row \<Rightarrow> user_view handler" where
  "user_view_of user =
    and_then (or_else 0 (count_rows user_nodes_t (\<lambda>r. un_user_id r = u_id user))) (\<lambda>node_count.
    and_then (final_quota user) (\<lambda>(quota, max_port, max_node, max_client).
    and_then (or_else 0 (get_user_port_count (u_id user))) (\<lambda>port_count.
    and_then (or_else 0 (count_rows clients_t (\<lambda>c. c_user_id c = Some (u_id user)))) (\<lambda>client_count.
    finish
      \<lparr>uv_id = u_id user, uv_username = u_username user, uv_is_admin = u_is_admin user,
       uv_created_at = u_created_at user, uv_updated_at = u_updated_at user,
       uv_node_count = node_count, uv_sent = u_sent user, uv_received = u_received user,
       uv_quota_gb = quota,
       uv_remaining_gb = map_option
         (\<lambda>q. f_max (f_sub q (bytes_to_gb (u_sent user + u_received user))) f_zero) quota,
       uv_reset_cycle = u_reset_cycle user, uv_last_reset = u_last_reset user,
       uv_exceeded = u_exceeded user, uv_max_port = max_port, uv_port_range = u_port_range user,
       uv_port_count = port_count, uv_max_node = max_node, uv_max_client = max_client,
       uv_client_count = client_count\<rparr>))))"

fun user_views :: "user_row list \<Rightarrow> user_view list handler" where
  "user_views [] = finish []"
| "user_views (user # users) =
    and_then (user_view_of user) (\<lambda>v. and_then (user_views users) (\<lambda>vs. finish (v # vs)))"

definition list_users :: "auth_user option \<Rightarrow> user_view list handler" where
  "list_users auth_opt =
    and_then (admin_only auth_opt) (\<lambda>_.
    and_then (or_fail (failed_to ''list'') (find_all users_t (\<lambda>_. True))) user_views)"

section \<open>Creating\<close>

record create_user_req =
  nu_username :: string
  nu_password :: "string option"
  nu_is_admin :: "bool option"
  nu_quota_gb :: "f64 option"
  nu_reset_cycle :: "string option"
  nu_max_port :: "i32 option"
  nu_max_node :: "i32 option"
  nu_max_client :: "i32 option"

text \<open>What a crate does with passwords: hash one (which may fail), and make a random one.\<close>

record password_crate =
  pw_hash :: "string \<Rightarrow> string option"
  pw_verify :: "string \<Rightarrow> string \<Rightarrow> bool option"
  pw_random :: string

definition hash_failed :: failure where
  "hash_failed = (INTERNAL_SERVER_ERROR, M_text ''hash'')"

definition username_free :: "string \<Rightarrow> (user_row \<Rightarrow> bool) \<Rightarrow> unit handler" where
  "username_free name other =
    and_then (or_fail (failed_to ''check'') (find_one users_t (\<lambda>u. u_username u = name \<and> other u))) (\<lambda>r.
    check (r = None) (CONFLICT, M_text ''username exists''))"

text \<open>The four defaults, the last three cast from \<open>i64\<close> to \<open>i32\<close>.\<close>

definition default_limits :: "(f64 \<times> i32 \<times> i32 \<times> i32) io" where
  "default_limits = do {
     quota \<leftarrow> get_float ''default_traffic_quota_gb'' f_zero;
     max_port \<leftarrow> get_number ''default_max_port_count'' 0;
     max_node \<leftarrow> get_number ''default_max_node_count'' 0;
     max_client \<leftarrow> get_number ''default_max_client_count'' 0;
     State_Monad.return (quota, ucast max_port, ucast max_node, ucast max_client)
   }"

definition new_user ::
  "create_user_req \<Rightarrow> string \<Rightarrow> f64 \<times> i32 \<times> i32 \<times> i32 \<Rightarrow> naive_dt \<Rightarrow> int \<Rightarrow> user_row" where
  "new_user req hash l now i =
    (case l of (quota, max_port, max_node, max_client) \<Rightarrow>
      \<lparr>u_id = i, u_username = nu_username req, u_password_hash = hash,
       u_is_admin = unwrap_or False (nu_is_admin req), u_sent = 0, u_received = 0,
       u_reset_cycle = unwrap_or ''none'' (nu_reset_cycle req), u_last_reset = None,
       u_exceeded = False, u_quota_gb = Some (unwrap_or quota (nu_quota_gb req)),
       u_max_port = Some (unwrap_or max_port (nu_max_port req)), u_port_range = None,
       u_max_node = Some (unwrap_or max_node (nu_max_node req)),
       u_max_client = Some (unwrap_or max_client (nu_max_client req)),
       u_created_at = now, u_updated_at = now\<rparr>)"

definition insert_user :: "(int \<Rightarrow> user_row) \<Rightarrow> user_row handler" where
  "insert_user mk =
    or_fail (failed_to ''create'') (insert_row users_t sq_users (\<lambda>n d. d\<lparr>sq_users := n\<rparr>) mk)"

text \<open>The answer holds the row without its hash, and the password if it was generated.\<close>

definition create_user_row ::
  "password_crate \<Rightarrow> create_user_req \<Rightarrow> string \<Rightarrow> (user_row \<times> string option) handler" where
  "create_user_row pw req hash = do {
     now \<leftarrow> utc_now;
     limits \<leftarrow> default_limits;
     and_then (insert_user (new_user req hash limits now)) (\<lambda>user.
     finish (user\<lparr>u_password_hash := []\<rparr>,
             if nu_password req = None then Some (pw_random pw) else None))
   }"

definition create_user ::
  "password_crate \<Rightarrow> auth_user option \<Rightarrow> create_user_req \<Rightarrow> (user_row \<times> string option) handler" where
  "create_user pw auth_opt req =
    and_then (admin_only auth_opt) (\<lambda>_.
    and_then (username_free (nu_username req) (\<lambda>_. True)) (\<lambda>_.
    and_then (some_or hash_failed (pw_hash pw (unwrap_or (pw_random pw) (nu_password req)))) (\<lambda>hash.
    create_user_row pw req hash)))"

section \<open>Changing\<close>

record update_user_req =
  xu_username :: "string option"
  xu_password :: "string option"
  xu_is_admin :: "bool option"
  xu_quota_gb :: "f64 option"
  xu_reset_cycle :: "string option"
  xu_exceeded :: "bool option"
  xu_max_port :: "i32 option"
  xu_port_range :: "string option"
  xu_max_node :: "i32 option"
  xu_max_client :: "i32 option"

text \<open>\<open>None\<close>: leave the range; \<open>Some r\<close>: write \<open>r\<close>, where an empty text clears it.\<close>

definition new_port_range :: "string option \<Rightarrow> (port_error + string option option)" where
  "new_port_range text =
    (case text of
       None \<Rightarrow> Inr None
     | Some [] \<Rightarrow> Inr (Some None)
     | Some s \<Rightarrow> (case parse_port_ranges s of Inr _ \<Rightarrow> Inr (Some (Some s)) | Inl e \<Rightarrow> Inl e))"

definition set_user ::
  "update_user_req \<Rightarrow> string option \<Rightarrow> string option option \<Rightarrow> naive_dt \<Rightarrow> user_row \<Rightarrow> user_row" where
  "set_user req hash allowed now u =
    u\<lparr>u_username := unwrap_or (u_username u) (xu_username req),
      u_password_hash := unwrap_or (u_password_hash u) hash,
      u_is_admin := unwrap_or (u_is_admin u) (xu_is_admin req),
      u_quota_gb := some_else (u_quota_gb u) (xu_quota_gb req),
      u_reset_cycle := unwrap_or (u_reset_cycle u) (xu_reset_cycle req),
      u_exceeded := unwrap_or (u_exceeded u) (xu_exceeded req),
      u_max_port := some_else (u_max_port u) (xu_max_port req),
      u_port_range := unwrap_or (u_port_range u) allowed,
      u_max_node := some_else (u_max_node u) (xu_max_node req),
      u_max_client := some_else (u_max_client u) (xu_max_client req), u_updated_at := now\<rparr>"

definition hash_given :: "password_crate \<Rightarrow> string option \<Rightarrow> string option handler" where
  "hash_given pw password =
    (case password of
       None \<Rightarrow> finish None
     | Some p \<Rightarrow> and_then (some_or hash_failed (pw_hash pw p)) (\<lambda>h. finish (Some h)))"

definition update_user ::
  "password_crate \<Rightarrow> auth_user option \<Rightarrow> int \<Rightarrow> update_user_req \<Rightarrow> user_row handler" where
  "update_user pw auth_opt i req =
    and_then (admin_only auth_opt) (\<lambda>_.
    and_then (or_fail (failed_to ''find'') (find_by_id users_t i)) (\<lambda>r.
    and_then (some_or (NOT_FOUND, M_user_not_found) r) (\<lambda>user.
    and_then (case xu_username req of
                None \<Rightarrow> finish ()
              | Some name \<Rightarrow> username_free name (\<lambda>u. u_id u \<noteq> i)) (\<lambda>_.
    and_then (hash_given pw (xu_password req)) (\<lambda>hash.
    and_then (or_fail (\<lambda>e. (BAD_REQUEST, M_port_config e)) (lift_sum (new_port_range (xu_port_range req))))
      (\<lambda>allowed. do {
        now \<leftarrow> utc_now;
        and_then (or_fail (failed_to ''update'')
          (update_checked users_t (u_id user) (set_user req hash allowed now))) (\<lambda>updated.
        finish (updated\<lparr>u_password_hash := []\<rparr>))
      }))))))"

section \<open>Deleting\<close>

fun stop_direct :: "proxy_control \<Rightarrow> proxy_row list \<Rightarrow> unit handler" where
  "stop_direct ctl [] = finish ()"
| "stop_direct ctl (p # ps) =
    and_then (ignoring (pcl_stop ctl [] (p_id p))) (\<lambda>_. stop_direct ctl ps)"

definition delete_user :: "proxy_control \<Rightarrow> auth_user option \<Rightarrow> int \<Rightarrow> unit handler" where
  "delete_user ctl auth_opt i =
    and_then (admin_only auth_opt) (\<lambda>_.
    and_then (or_fail internal_db (find_all proxies_t
        (\<lambda>p. p_client_id p = None \<and> p_user_id p = Some i))) (\<lambda>direct_proxies.
    and_then (stop_direct ctl direct_proxies) (\<lambda>_.
    or_fail (failed_to ''delete'') (delete_by_id users_t i))))"

section \<open>Nodes of a user\<close>

definition get_user_nodes :: "auth_user option \<Rightarrow> int \<Rightarrow> node_row list handler" where
  "get_user_nodes auth_opt user_id =
    and_then (admin_only auth_opt) (\<lambda>_.
    and_then (or_fail (failed_to ''get'') (query (\<lambda>d. List.map_filter
        (\<lambda>r. row_get n_id (un_node_id r) (db_nodes d))
        (filter (\<lambda>r. un_user_id r = user_id) (db_user_nodes d))))) (\<lambda>nodes. do {
      ns \<leftarrow> nm_apply_online_status nodes;
      finish ns
    }))"

definition check_node_count :: "user_row \<Rightarrow> unit handler" where
  "check_node_count user =
    and_then (final_quota user) (\<lambda>(_, _, final_max, _).
      case final_max of
        None \<Rightarrow> finish ()
      | Some max_count \<Rightarrow>
          and_then (or_fail (failed_to ''count'')
              (count_rows user_nodes_t (\<lambda>r. un_user_id r = u_id user))) (\<lambda>current.
          check (\<not> i32_as_u64 max_count \<le> current) (BAD_REQUEST, M_text ''node limit'')))"

definition assign_node_to_user :: "auth_user option \<Rightarrow> int \<Rightarrow> int \<Rightarrow> unit handler" where
  "assign_node_to_user auth_opt user_id node_id =
    and_then (admin_only auth_opt) (\<lambda>_.
    and_then (or_fail (failed_to ''find'') (find_by_id users_t user_id)) (\<lambda>r.
    and_then (some_or (NOT_FOUND, M_user_not_found) r) (\<lambda>user.
    and_then (or_fail (failed_to ''find'') (find_by_id nodes_t node_id)) (\<lambda>n.
    and_then (some_or (NOT_FOUND, M_node_not_found) n) (\<lambda>node.
    and_then (check (n_node_type node \<noteq> ''shared'') (BAD_REQUEST, M_text ''shared node'')) (\<lambda>_.
    and_then (check_node_count user) (\<lambda>_.
    and_then (or_fail (failed_to ''check'') (find_one user_nodes_t
        (\<lambda>x. un_user_id x = user_id \<and> un_node_id x = node_id))) (\<lambda>already.
    and_then (check (already = None) (CONFLICT, M_text ''node already assigned'')) (\<lambda>_. do {
      now \<leftarrow> utc_now;
      and_then (or_fail (failed_to ''assign'')
        (insert_row user_nodes_t sq_user_nodes (\<lambda>k d. d\<lparr>sq_user_nodes := k\<rparr>)
          (\<lambda>i. \<lparr>un_id = i, un_user_id = user_id, un_node_id = node_id, un_created_at = now\<rparr>)))
        (\<lambda>_. finish ())
    })))))))))"

definition remove_node_from_user :: "auth_user option \<Rightarrow> int \<Rightarrow> int \<Rightarrow> unit handler" where
  "remove_node_from_user auth_opt user_id node_id =
    and_then (admin_only auth_opt) (\<lambda>_.
    and_then (or_fail (failed_to ''remove'') (delete_counted user_nodes_t
        (\<lambda>r. un_user_id r = user_id \<and> un_node_id r = node_id))) (\<lambda>rows_affected.
    check (0 < rows_affected) (NOT_FOUND, M_text ''assignment not found'')))"

section \<open>Quota of a user\<close>

text \<open>The quotas of the clients in the table \<open>user_client\<close>; a failed lookup counts nothing.\<close>

fun assigned_gb :: "user_client_row list \<Rightarrow> f64 \<Rightarrow> f64 handler" where
  "assigned_gb [] acc = finish acc"
| "assigned_gb (uc # ucs) acc =
    and_then (attempt (find_by_id clients_t (uc_client_id uc))) (\<lambda>r.
      case Option.bind (ok_or None r) c_quota_gb of
        None \<Rightarrow> assigned_gb ucs acc
      | Some quota \<Rightarrow> assigned_gb ucs (f_add acc quota))"

definition assigned_to_clients :: "int \<Rightarrow> f64 handler" where
  "assigned_to_clients user_id =
    and_then (or_fail (failed_to ''find'') (find_all user_clients_t (\<lambda>r. uc_user_id r = user_id)))
      (\<lambda>ucs. assigned_gb ucs f_zero)"

definition set_user_quota :: "f64 \<Rightarrow> naive_dt \<Rightarrow> user_row \<Rightarrow> user_row" where
  "set_user_quota quota now u = u\<lparr>u_quota_gb := Some quota, u_updated_at := now\<rparr>"

text \<open>What taking quota away must leave: what is used and what clients were given.\<close>

definition reduction_allowed :: "user_row \<Rightarrow> f64 \<Rightarrow> unit handler" where
  "reduction_allowed user new_quota =
    and_then (assigned_to_clients (u_id user)) (\<lambda>allocated.
      let used = bytes_to_gb (u_sent user + u_received user) in
      check (\<not> f_lt new_quota (f_add used allocated))
        (BAD_REQUEST, M_quota_short f_zero f_zero new_quota used allocated))"

definition adjust_user_quota :: "auth_user option \<Rightarrow> int \<Rightarrow> f64 \<Rightarrow> f64 handler" where
  "adjust_user_quota auth_opt user_id quota_change_gb =
    and_then (admin_only auth_opt) (\<lambda>_.
    and_then (or_fail (failed_to ''find'') (find_by_id users_t user_id)) (\<lambda>r.
    and_then (some_or (NOT_FOUND, M_user_not_found) r) (\<lambda>user.
      let new_quota = f_add (unwrap_or f_zero (u_quota_gb user)) quota_change_gb in
      and_then (check (\<not> f_lt new_quota f_zero) (BAD_REQUEST, M_negative_quota)) (\<lambda>_.
      and_then (if f_lt quota_change_gb f_zero then reduction_allowed user new_quota
                else finish ()) (\<lambda>_. do {
        now \<leftarrow> utc_now;
        and_then (or_fail (failed_to ''update'')
          (update_row users_t (u_id user) (set_user_quota new_quota now))) (\<lambda>_. finish new_quota)
      })))))"

record user_quota_info =
  qi_user_id :: int
  qi_username :: string
  qi_total_gb :: "f64 option"
  qi_used_gb :: f64
  qi_allocated_gb :: f64
  qi_available_gb :: f64
  qi_percent :: "f64 option"

definition user_quota_info_of :: "user_row \<Rightarrow> f64 option \<Rightarrow> f64 \<Rightarrow> user_quota_info" where
  "user_quota_info_of user quota_gb allocated =
    (let used = bytes_to_gb (u_sent user + u_received user)
     in \<lparr>qi_user_id = u_id user, qi_username = u_username user, qi_total_gb = quota_gb,
         qi_used_gb = used, qi_allocated_gb = allocated,
         qi_available_gb = (case quota_gb of
            Some quota \<Rightarrow> f_max (f_sub (f_sub quota used) allocated) f_zero
          | None \<Rightarrow> PInf),
         qi_percent = map_option (f_percent (f_add used allocated)) quota_gb\<rparr>)"

definition get_user_quota_info :: "auth_user option \<Rightarrow> int \<Rightarrow> user_quota_info handler" where
  "get_user_quota_info auth_opt user_id =
    and_then (authenticated auth_opt) (\<lambda>auth.
    and_then (check (a_is_admin auth \<or> a_id auth = user_id) (FORBIDDEN, M_text ''other user'')) (\<lambda>_.
    and_then (or_fail (failed_to ''find'') (find_by_id users_t user_id)) (\<lambda>r.
    and_then (some_or (NOT_FOUND, M_user_not_found) r) (\<lambda>user.
    and_then (assigned_to_clients user_id) (\<lambda>allocated.
    and_then (final_quota user) (\<lambda>(quota, _, _, _).
    finish (user_quota_info_of user quota allocated)))))))"

end
