(* ===== verification/NodeApi.thy ===== *)
theory NodeApi
  imports UserApi
begin

text \<open>
  The REST handlers of nodes (\<open>controller/src/api/handlers/node.rs\<close>) and the statistics of the
  dashboard (\<open>api/handlers/dashboard.rs\<close>). An update of a node writes its row first and then tells
  the node and its clients; what they answer never fails the request.
\<close>

section \<open>Requests\<close>

record create_node_req =
  nr_name :: string
  nr_url :: string
  nr_secret :: "string option"
  nr_region :: "string option"
  nr_description :: "string option"
  nr_tunnel_addr :: "string option"
  nr_tunnel_port :: "i32 option"
  nr_tunnel_protocol :: "string option"
  nr_kcp_config :: "string option"
  nr_node_type :: "string option"
  nr_max_proxy :: "i32 option"
  nr_port_range :: "string option"
  nr_quota_gb :: "f64 option"
  nr_reset_cycle :: "string option"
  nr_speed_limit :: "i64 option"

record update_node_req =
  nx_name :: "string option"
  nx_url :: "string option"
  nx_secret :: "string option"
  nx_region :: "string option"
  nx_description :: "string option"
  nx_tunnel_addr :: "string option"
  nx_tunnel_port :: "i32 option"
  nx_tunnel_protocol :: "string option"
  nx_kcp_config :: "string option"
  nx_node_type :: "string option"
  nx_max_proxy :: "i32 option option"
  nx_port_range :: "string option option"
  nx_quota_gb :: "f64 option option"
  nx_reset_cycle :: "string option"
  nx_speed_limit :: "i64 option option"

section \<open>Listing\<close>

text \<open>Users see shared nodes and their own; a failed lookup of their own leaves the shared ones.\<close>

definition list_nodes :: "auth_user option \<Rightarrow> node_row list handler" where
  "list_nodes auth_opt =
    and_then (authenticated auth_opt) (\<lambda>auth.
    and_then (or_fail (failed_to ''list'') (find_all nodes_t (\<lambda>_. True))) (\<lambda>all_nodes.
    and_then (if a_is_admin auth then finish all_nodes
              else and_then (or_else [] (find_all user_nodes_t (\<lambda>r. un_user_id r = a_id auth)))
                (\<lambda>own. finish (filter (\<lambda>n. n_node_type n = ''shared'' \<or> n_id n \<in> un_node_id ` set own)
                                all_nodes))) (\<lambda>nodes. do {
      ns \<leftarrow> nm_apply_online_status nodes;
      finish ns
    })))"

definition get_node :: "auth_user option \<Rightarrow> int \<Rightarrow> node_row handler" where
  "get_node auth_opt i =
    and_then (admin_only auth_opt) (\<lambda>_.
    and_then (or_fail (failed_to ''get'') (find_by_id nodes_t i)) (\<lambda>r.
    and_then (some_or (NOT_FOUND, M_node_not_found) r) (\<lambda>node. do {
      online \<leftarrow> asks (\<lambda>w. node_live w (n_id node));
      finish (node\<lparr>n_is_online := online\<rparr>)
    })))"

section \<open>Creating and changing\<close>

definition new_node :: "create_node_req \<Rightarrow> string \<Rightarrow> naive_dt \<Rightarrow> int \<Rightarrow> node_row" where
  "new_node req secret now i =
    \<lparr>n_id = i, n_name = nr_name req, n_url = nr_url req, n_secret = secret, n_is_online = False,
     n_region = nr_region req, n_public_ip = None, n_description = nr_description req,
     n_tunnel_addr = unwrap_or [] (nr_tunnel_addr req),
     n_tunnel_port = unwrap_or 7000 (nr_tunnel_port req),
     n_tunnel_protocol = unwrap_or ''quic'' (nr_tunnel_protocol req),
     n_kcp_config = nr_kcp_config req, n_node_type = unwrap_or ''shared'' (nr_node_type req),
     n_max_proxy = nr_max_proxy req, n_port_range = nr_port_range req,
     n_quota_gb = nr_quota_gb req, n_reset_cycle = unwrap_or ''none'' (nr_reset_cycle req),
     n_sent = 0, n_received = 0, n_last_reset = None, n_exceeded = False,
     n_speed_limit = nr_speed_limit req, n_version = None, n_last_online = None,
     n_created_at = now, n_updated_at = now\<rparr>"

definition create_node :: "auth_user option \<Rightarrow> create_node_req \<Rightarrow> node_row handler" where
  "create_node auth_opt req =
    and_then (admin_only auth_opt) (\<lambda>_. do {
      now \<leftarrow> utc_now;
      secret \<leftarrow> token_or_new (nr_secret req);
      or_fail (failed_to ''create'')
        (insert_row nodes_t sq_nodes (\<lambda>k d. d\<lparr>sq_nodes := k\<rparr>) (new_node req secret now))
    })"

definition set_node :: "update_node_req \<Rightarrow> naive_dt \<Rightarrow> node_row \<Rightarrow> node_row" where
  "set_node req now n =
    n\<lparr>n_name := unwrap_or (n_name n) (nx_name req),
      n_url := unwrap_or (n_url n) (nx_url req),
      n_secret := unwrap_or (n_secret n) (nx_secret req),
      n_region := some_else (n_region n) (nx_region req),
      n_description := some_else (n_description n) (nx_description req),
      n_tunnel_addr := unwrap_or (n_tunnel_addr n) (nx_tunnel_addr req),
      n_tunnel_port := unwrap_or (n_tunnel_port n) (nx_tunnel_port req),
      n_tunnel_protocol := unwrap_or (n_tunnel_protocol n) (nx_tunnel_protocol req),
      n_kcp_config := some_else (n_kcp_config n) (nx_kcp_config req),
      n_node_type := unwrap_or (n_node_type n) (nx_node_type req),
      n_max_proxy := unwrap_or (n_max_proxy n) (nx_max_proxy req),
      n_port_range := unwrap_or (n_port_range n) (nx_port_range req),
      n_quota_gb := unwrap_or (n_quota_gb n) (nx_quota_gb req),
      n_reset_cycle := unwrap_or (n_reset_cycle n) (nx_reset_cycle req),
      n_speed_limit := unwrap_or (n_speed_limit n) (nx_speed_limit req),
      n_updated_at := now\<rparr>"

text \<open>A command that is only sent when the node is connected, and whose outcome is only logged.\<close>

definition when_connected :: "int \<Rightarrow> (any_err + unit) io \<Rightarrow> unit handler" where
  "when_connected i m = do {
     connected_ids \<leftarrow> get_loaded_node_ids;
     if i \<in> set connected_ids then ignoring m else finish ()
   }"

definition push_protocol ::
  "(string \<Rightarrow> kcp_config option) \<Rightarrow> int \<Rightarrow> string \<Rightarrow> string option \<Rightarrow> unit handler" where
  "push_protocol kcp_of i old_protocol new_protocol_opt =
    (case new_protocol_opt of
       None \<Rightarrow> finish ()
     | Some new_protocol \<Rightarrow>
         if new_protocol = old_protocol then finish ()
         else and_then (when_connected i (send_update_protocol i new_protocol)) (\<lambda>_. do {
           _ \<leftarrow> notify_clients_for_node kcp_of i;
           finish ()
         }))"

definition push_speed_limit :: "int \<Rightarrow> i64 option \<Rightarrow> i64 option \<Rightarrow> unit handler" where
  "push_speed_limit i old_limit limit =
    (if limit = old_limit then finish ()
     else when_connected i (send_update_speed_limit i (unwrap_or 0 limit)))"

definition update_node ::
  "(string \<Rightarrow> kcp_config option) \<Rightarrow> auth_user option \<Rightarrow> int \<Rightarrow> update_node_req \<Rightarrow> node_row handler" where
  "update_node kcp_of auth_opt i req =
    and_then (admin_only auth_opt) (\<lambda>_.
    and_then (or_fail (failed_to ''find'') (find_by_id nodes_t i)) (\<lambda>r.
    and_then (some_or (NOT_FOUND, M_node_not_found) r) (\<lambda>node. do {
      now \<leftarrow> utc_now;
      and_then (or_fail (failed_to ''update'') (update_row nodes_t (n_id node) (set_node req now))) (\<lambda>updated.
      and_then (push_protocol kcp_of i (n_tunnel_protocol node) (nx_tunnel_protocol req)) (\<lambda>_.
      and_then (push_speed_limit i (n_speed_limit node) (n_speed_limit updated)) (\<lambda>_. do {
        online \<leftarrow> asks (\<lambda>w. node_live w (n_id updated));
        finish (updated\<lparr>n_is_online := online\<rparr>)
      })))
    })))"

section \<open>Deleting\<close>

text \<open>A count that fails is taken for zero (\<open>unwrap_or(0)\<close>).\<close>

definition delete_node :: "auth_user option \<Rightarrow> int \<Rightarrow> unit handler" where
  "delete_node auth_opt i =
    and_then (admin_only auth_opt) (\<lambda>_.
    and_then (or_else 0 (count_rows proxies_t (\<lambda>p. p_node_id p = Some i))) (\<lambda>proxy_count.
    and_then (check (\<not> 0 < proxy_count) (BAD_REQUEST, M_text ''proxies on node'')) (\<lambda>_.
    or_fail (failed_to ''delete'') (delete_by_id nodes_t i))))"

section \<open>Asking a node\<close>

definition node_connected :: "int \<Rightarrow> bool io" where
  "node_connected i = do { ids \<leftarrow> get_loaded_node_ids; State_Monad.return (i \<in> set ids) }"

definition test_node_connection :: "auth_user option \<Rightarrow> int \<Rightarrow> (bool \<times> string) handler" where
  "test_node_connection auth_opt i =
    and_then (admin_only auth_opt) (\<lambda>_.
    and_then (or_fail (failed_to ''find'') (find_by_id nodes_t i)) (\<lambda>r.
    and_then (some_or (NOT_FOUND, M_node_not_found) r) (\<lambda>node. do {
      online \<leftarrow> node_connected i;
      finish (online, n_name node)
    })))"

definition get_node_status :: "auth_user option \<Rightarrow> int \<Rightarrow> (connected_client list \<times> nat) handler" where
  "get_node_status auth_opt i =
    and_then (admin_only auth_opt) (\<lambda>_. do {
      online \<leftarrow> node_connected i;
      and_then (check online (NOT_FOUND, M_not_connected i)) (\<lambda>_.
      or_fail internal nm_get_server_status)
    })"

definition get_node_logs_handler ::
  "auth_user option \<Rightarrow> int \<Rightarrow> nat \<Rightarrow> (int \<times> string \<times> log_entry list) handler" where
  "get_node_logs_handler auth_opt i n =
    and_then (admin_only auth_opt) (\<lambda>_.
    and_then (or_fail (failed_to ''find'') (find_by_id nodes_t i)) (\<lambda>r.
    and_then (some_or (NOT_FOUND, M_node_not_found) r) (\<lambda>node. do {
      online \<leftarrow> node_connected i;
      and_then (check online (BAD_REQUEST, M_not_connected i)) (\<lambda>_.
      and_then (or_fail internal (get_node_logs i n)) (\<lambda>logs. finish (i, n_name node, logs)))
    })))"

section \<open>Dashboard\<close>

record dashboard_stats =
  ds_total_clients :: nat
  ds_total_proxies :: nat
  ds_online_clients :: nat
  ds_enabled_proxies :: nat
  ds_total_nodes :: nat
  ds_online_nodes :: nat
  ds_quota_gb :: "f64 option"
  ds_sent :: i64
  ds_received :: i64
  ds_total :: i64

definition get_user_clients :: "int \<Rightarrow> (db_err + client_row list) io" where
  "get_user_clients user_id = find_all clients_t (\<lambda>c. c_user_id c = Some user_id)"

definition get_user_proxies :: "int \<Rightarrow> (db_err + proxy_row list) io" where
  "get_user_proxies user_id =
    and_then (get_user_clients user_id) (\<lambda>clients.
    find_all proxies_t (listed_for (map (\<lambda>c. int_str (c_id c)) clients) user_id))"

definition visible_clients :: "bool \<Rightarrow> int \<Rightarrow> (db_err + client_row list) io" where
  "visible_clients is_admin user_id =
    (if is_admin then find_all clients_t (\<lambda>_. True) else get_user_clients user_id)"

definition visible_proxies :: "bool \<Rightarrow> int \<Rightarrow> (db_err + proxy_row list) io" where
  "visible_proxies is_admin user_id =
    (if is_admin then find_all proxies_t (\<lambda>_. True) else get_user_proxies user_id)"

text \<open>The response has no status of its own: errors are \<open>200\<close> with \<open>success: false\<close>. The view is
  that of the user shown, not of the caller. Failed lookups count as nothing.\<close>

definition get_user_dashboard_stats :: "int \<Rightarrow> auth_user option \<Rightarrow> (msg + dashboard_stats) io" where
  "get_user_dashboard_stats user_id auth_opt =
    and_then (some_or M_not_authenticated auth_opt) (\<lambda>auth.
    and_then (check (a_is_admin auth \<or> a_id auth = user_id) (M_text ''other user'')) (\<lambda>_.
    and_then (or_fail (\<lambda>e. M_error (E_db e)) (find_by_id users_t user_id)) (\<lambda>r.
    and_then (some_or M_user_not_found r) (\<lambda>user.
    and_then (or_else [] (visible_clients (u_is_admin user) user_id)) (\<lambda>clients. do {
      cs \<leftarrow> csm_apply_online_status clients;
      and_then (or_else [] (visible_proxies (u_is_admin user) user_id)) (\<lambda>proxies.
      and_then (or_else [] (visible_proxies (u_is_admin user) user_id)) (\<lambda>again.
      and_then (or_else [] (find_all nodes_t (\<lambda>_. True))) (\<lambda>nodes. do {
        ns \<leftarrow> nm_apply_online_status nodes;
        finish
          \<lparr>ds_total_clients = length cs, ds_total_proxies = length proxies,
           ds_online_clients = length (filter c_is_online cs),
           ds_enabled_proxies = length (filter p_enabled proxies),
           ds_total_nodes = length ns, ds_online_nodes = length (filter n_is_online ns),
           ds_quota_gb = u_quota_gb user, ds_sent = sum_list (map p_sent again),
           ds_received = sum_list (map p_received again),
           ds_total = sum_list (map p_sent again) + sum_list (map p_received again)\<rparr>
      })))
    })))))"

end
