(* ===== verification/AccountProps.thy ===== *)
theory AccountProps
  imports NodeApi
begin

text \<open>
  Properties of the handlers on clients, users and nodes: limits, what a deletion takes along, who
  may give quota away, and what a mark for used-up traffic does.
\<close>

section \<open>Clients\<close>

definition own_clients :: "db \<Rightarrow> int \<Rightarrow> nat" where
  "own_clients d user_id = length (filter (\<lambda>c. c_user_id c = Some user_id) (db_clients d))"

lemma wp_token_or_new:
  "(\<And>t us. Q t (w\<lparr>w_uuids := us\<rparr>)) \<Longrightarrow> wp (token_or_new s) Q w"
proof -
  assume q: "\<And>t us. Q t (w\<lparr>w_uuids := us\<rparr>)"
  from q[of _ "w_uuids w"] have "Q t w" for t by simp
  with q show ?thesis by (auto simp: token_or_new_def wp_new_uuid split: option.splits list.splits)
qed

lemma wp_create_client_row:
  assumes "healthy w"
    "\<And>e w'. w_db w' = w_db w \<Longrightarrow> Q (Inl e) w'"
    "\<And>c w'. c_user_id c = Some i \<Longrightarrow> c_name c = cn_name req \<Longrightarrow> (\<forall>t. cn_token req = Some t \<longrightarrow> c_token c = t) \<Longrightarrow>
       unique_in c_id c_token (db_clients (w_db w)) c \<Longrightarrow>
       w_db w' = (w_db w)\<lparr>db_clients := db_clients (w_db w) @ [c], sq_clients := sq_clients (w_db w) + 1\<rparr> \<Longrightarrow>
       Q (Inr c) w'"
  shows "wp (create_client_row i req) Q w"
proof (cases "cn_token req")
  case None
  then show ?thesis
    unfolding create_client_row_def wp_bind
    by (intro wp_token_or_new) (use assms in \<open>auto simp: wp_insert_row healthy_def next_fault_def new_client_def\<close>)
next
  case (Some t)
  then show ?thesis
    using assms by (auto simp: create_client_row_def token_or_new_def wp_insert_row healthy_def new_client_def)
qed

lemma wp_at_client_limit:
  assumes "healthy w" "row_get u_id (a_id auth) (db_users (w_db w)) = Some u" "u_max_client u = Some m"
    "i32_as_u64 m \<le> own_clients (w_db w) (a_id auth)"
  shows "wp (create_client_handler (Some auth) req) (\<lambda>r w'.
    r = Inl (BAD_REQUEST, M_client_limit (own_clients (w_db w) (a_id auth)) m) \<and> w_db w' = w_db w) w"
  using assms
  by (simp add: create_client_handler_def authenticated_def check_client_count_def wp_find_by_id
      wp_count_rows healthy_def own_clients_def)

text \<open>C28: a user with a limit on clients who has reached it creates none; otherwise a created client
  belongs to its creator, is added to the table as returned, and the number stays within the limit.\<close>

theorem create_client_within_limit:
  assumes "healthy w" "row_get u_id (a_id auth) (db_users (w_db w)) = Some u" "u_max_client u = Some m"
  shows "wp (create_client_handler (Some auth) req) (\<lambda>r w'.
    (i32_as_u64 m \<le> own_clients (w_db w) (a_id auth) \<longrightarrow>
       r = Inl (BAD_REQUEST, M_client_limit (own_clients (w_db w) (a_id auth)) m) \<and> w_db w' = w_db w) \<and>
    (\<forall>c. r = Inr c \<longrightarrow> c_user_id c = Some (a_id auth) \<and> own_clients (w_db w') (a_id auth) \<le> i32_as_u64 m \<and>
       db_clients (w_db w') = db_clients (w_db w) @ [c])) w"
proof (cases "i32_as_u64 m \<le> own_clients (w_db w) (a_id auth)")
  case True
  show ?thesis by (rule wp_mono[OF wp_at_client_limit[OF assms True]]) (use True in simp)
next
  case False
  have "wp (create_client_row (a_id auth) req) (\<lambda>r w'. \<forall>c. r = Inr c \<longrightarrow>
      c_user_id c = Some (a_id auth) \<and> own_clients (w_db w') (a_id auth) \<le> i32_as_u64 m \<and>
      db_clients (w_db w') = db_clients (w_db w) @ [c]) w"
    by (rule wp_create_client_row) (use assms(1) False in \<open>auto simp: own_clients_def\<close>)
  with False show ?thesis using assms
    by (simp add: create_client_handler_def authenticated_def check_client_count_def wp_find_by_id
        wp_count_rows healthy_def own_clients_def pop_fault_idle)
qed

definition sample_client :: client_row where
  "sample_client =
    \<lparr>c_id = 1, c_name = ''home'', c_token = ''t'', c_is_online = False, c_public_ip = None,
     c_region = None, c_sent = 0, c_received = 0, c_reset_cycle = ''none'', c_last_reset = None,
     c_exceeded = False, c_quota_gb = None, c_user_id = Some 7, c_version = None,
     c_last_online = None, c_created_at = DT 0 0 2024 1, c_updated_at = DT 0 0 2024 1\<rparr>"

definition bob :: auth_user where
  "bob = \<lparr>a_id = 7, a_username = ''bob'', a_is_admin = False\<rparr>"

definition home_world :: world where
  "home_world = idle_world (empty_db\<lparr>db_users := [sample_user\<lparr>u_max_client := Some 1\<rparr>],
     db_clients := [sample_client], sq_clients := 2\<rparr>)"

lemma home_sel [simp]:
  "healthy home_world" "w_faults home_world = []" "a_id bob = 7" "\<not> a_is_admin bob"
  "db_users (w_db home_world) = [sample_user\<lparr>u_max_client := Some 1\<rparr>]"
  "db_clients (w_db home_world) = [sample_client]" "db_user_clients (w_db home_world) = []"
  "db_proxies (w_db home_world) = []"
  "c_id sample_client = 1" "c_user_id sample_client = Some 7" "u_id sample_user = 7"
  "c_token sample_client = ''t''"
  by (simp_all add: home_world_def healthy_def bob_def sample_client_def sample_user_def)

lemma create_client_within_limit_witness:
  "wp (create_client_handler (Some bob) \<lparr>cn_name = ''c'', cn_token = None, cn_region = None,
        cn_reset_cycle = None, cn_quota_gb = None\<rparr>)
    (\<lambda>r w'. r = Inl (BAD_REQUEST, M_client_limit 1 1)) home_world"
  by (rule wp_mono, rule create_client_within_limit[of _ _ "sample_user\<lparr>u_max_client := Some 1\<rparr>" 1])
     (simp_all add: own_clients_def i32_as_u64_nonneg row_get_def)

text \<open>deleting a client takes its proxies and their traffic along and touches nothing else of the
  database, but no node is told: what listens for the client's proxies goes on listening. (Deleting
  a proxy stops its listener first.)\<close>

theorem deleted_client_keeps_listeners:
  assumes "healthy w" "row_get c_id i (db_clients (w_db w)) = Some c"
    "a_is_admin auth \<or> c_user_id c = Some (a_id auth)" "- (2 ^ 63) \<le> i" "i < 2 ^ 63"
  shows "wp (delete_client (Some auth) i) (\<lambda>r w'. r = Inr () \<and>
    w_db w' = drop_clients (\<lambda>c. c_id c = i) (w_db w) \<and>
    (\<forall>p\<in>set (db_proxies (w_db w')). p_client_id p \<noteq> Some (int_str i)) \<and>
    w_node_log w' = w_node_log w \<and> w_client_log w' = w_client_log w \<and> w_tasks w' = w_tasks w) w"
proof -
  have gone: "list_ex (\<lambda>c. c_id c = i) (db_clients (w_db w))"
    using assms(2) by (auto simp: list_ex_iff dest: row_get_SomeD)
  note number = parse_i64_int_str[OF assms(4,5)]
  have "p_client_id p \<noteq> Some (int_str i)"
    if "p \<in> set (db_proxies (drop_clients (\<lambda>c. c_id c = i) (w_db w)))" for p
    using that gone by (cases "p_client_id p = Some (int_str i)") (simp_all add: drop_clients_def Let_def number)
  then show ?thesis using assms
    by (auto simp: delete_client_def authenticated_def verify_client_ownership_def wp_find_by_id
        wp_delete_by_id healthy_def)
qed

lemma deleted_client_keeps_listeners_witness:
  "wp (delete_client (Some bob) 1) (\<lambda>r w'. r = Inr () \<and> w_node_log w' = []) home_world"
proof (rule wp_mono, rule deleted_client_keeps_listeners[of _ 1 sample_client])
  show "row_get c_id 1 (db_clients (w_db home_world)) = Some sample_client" by (simp add: row_get_def)
qed (use home_sel in \<open>auto simp: home_world_def\<close>)

section \<open>Giving quota away\<close>

text \<open>no row of \<open>user_client\<close> is ever written by the program; without one, a user who is not an
  administrator cannot give quota to any client, not even an own one, whatever fails or not.\<close>

theorem users_cannot_allocate:
  assumes "db_user_clients (w_db w) = []" "\<not> a_is_admin auth"
  shows "wp (allocate_client_quota (Some auth) i quota) (\<lambda>r w'. (\<exists>e. r = Inl e) \<and> w_db w' = w_db w) w"
  using assms
  by (simp add: allocate_client_quota_def authenticated_def wp_find_by_id allocation_allowed_def
      wp_find_one split: option.split)

lemma users_cannot_allocate_witness:
  "wp (allocate_client_quota (Some bob) 1 (Fin 5)) (\<lambda>r w'. \<exists>e. r = Inl e) home_world"
  by (rule wp_mono, rule users_cannot_allocate) simp_all

section \<open>A mark that nobody takes back\<close>

text \<open>a client marked for used-up traffic is refused its configuration also when its cycle is over,
  and so is a client whose user is marked refused by \<open>validate_token\<close>; nothing is reset on the way,
  although \<open>check_client_traffic_limit\<close> and \<open>check_user_traffic_limit\<close> would start the counters again
  and admit both. Only traffic resets the counters, and a refused client has none.\<close>

theorem over_cycle_stays_blocked:
  assumes "healthy w" "find (\<lambda>c. c_token c = t) (db_clients (w_db w)) = Some c"
    "row_get c_id (c_id c) (db_clients (w_db w)) = Some c" "c_exceeded c"
    "c_user_id c = Some i" "row_get u_id i (db_users (w_db w)) = Some u" "u_exceeded u"
    "should_reset_client_traffic (w_now w) c" "should_reset_traffic (w_now w) u"
  shows "wp (get_client_connect_config kcp_of t)
      (\<lambda>r w'. r = Inl (FORBIDDEN, M_text ''traffic_exceeded'') \<and> w_db w' = w_db w) w \<and>
    wp (validate_token t) (\<lambda>r w'. (\<exists>v. r = Inr v \<and> \<not> vr_allowed v) \<and> w_db w' = w_db w) w \<and>
    wp (check_client_traffic_limit (c_id c)) (\<lambda>r w'. r = Inr (False, no_reason) \<and>
      row_get c_id (c_id c) (db_clients (w_db w')) = Some (zero_client (w_now w) c)) w \<and>
    wp (check_user_traffic_limit i) (\<lambda>r w'. r = Inr (False, no_reason) \<and>
      row_get u_id i (db_users (w_db w')) = Some (zero_user (w_now w) u)) w"
proof (intro conjI)
  have [simp]: "u_id u = i" using assms(6) by (auto dest: row_get_SomeD)
  show "wp (get_client_connect_config kcp_of t)
      (\<lambda>r w'. r = Inl (FORBIDDEN, M_text ''traffic_exceeded'') \<and> w_db w' = w_db w) w"
    using assms by (simp add: get_client_connect_config_def wp_find_one healthy_def)
  show "wp (validate_token t) (\<lambda>r w'. (\<exists>v. r = Inr v \<and> \<not> vr_allowed v) \<and> w_db w' = w_db w) w"
    using assms by (simp add: validate_token_def owner_exceeded_def wp_find_one wp_find_by_id healthy_def)
  show "wp (check_client_traffic_limit (c_id c)) (\<lambda>r w'. r = Inr (False, no_reason) \<and>
      row_get c_id (c_id c) (db_clients (w_db w')) = Some (zero_client (w_now w) c)) w"
    using assms
    by (simp add: check_client_traffic_limit_def reset_client_traffic_def wp_find_by_id wp_update_row
        healthy_def row_get_row_upd zero_client_def)
  show "wp (check_user_traffic_limit i) (\<lambda>r w'. r = Inr (False, no_reason) \<and>
      row_get u_id i (db_users (w_db w')) = Some (zero_user (w_now w) u)) w"
    using assms
    by (simp add: check_user_traffic_limit_def reset_user_traffic_def wp_find_by_id wp_update_row
        healthy_def row_get_row_upd zero_user_def)
qed

definition blocked_client :: client_row where
  "blocked_client = sample_client\<lparr>c_exceeded := True\<rparr>"

definition blocked_user :: user_row where
  "blocked_user = sample_user\<lparr>u_exceeded := True\<rparr>"

definition blocked_world :: world where
  "blocked_world = idle_world (empty_db\<lparr>db_users := [blocked_user], db_clients := [blocked_client]\<rparr>)"

lemma blocked_sel [simp]:
  "healthy blocked_world" "db_clients (w_db blocked_world) = [blocked_client]"
  "db_users (w_db blocked_world) = [blocked_user]" "c_token blocked_client = ''t''"
  "c_exceeded blocked_client" "c_user_id blocked_client = Some 7" "u_exceeded blocked_user"
  "u_id blocked_user = 7" "c_last_reset blocked_client = None" "u_last_reset blocked_user = None"
  "c_id blocked_client = 1"
  by (simp_all add: blocked_world_def blocked_client_def blocked_user_def healthy_def sample_client_def
      sample_user_def)

lemma over_cycle_stays_blocked_witness:
  "wp (get_client_connect_config (\<lambda>_. None) ''t'')
     (\<lambda>r w'. r = Inl (FORBIDDEN, M_text ''traffic_exceeded'')) blocked_world"
  by (rule wp_mono, rule over_cycle_stays_blocked
        [where c = blocked_client and u = blocked_user and i = 7, THEN conjunct1])
     (simp_all add: row_get_def should_reset_client_traffic_def should_reset_traffic_def cycle_over_def)

section \<open>Users\<close>

lemma wp_stop_direct:
  assumes "healthy w" "\<And>w'. w_db w' = w_db w \<Longrightarrow> healthy w' \<Longrightarrow> Q (Inr ()) w'"
  shows "wp (stop_direct node_control ps) Q w"
  using assms
proof (induction ps arbitrary: w)
  case (Cons p ps)
  show ?case
    unfolding stop_direct.simps wp_and_then wp_ignoring sum.case
    by (rule nm.wp_stop_healthy[OF Cons.prems(1)], rule Cons.IH) (use Cons.prems in auto)
qed simp

text \<open>deleting a user leaves the user's clients in the table, still naming their user, and their
  tokens keep working: even when the user was marked for used-up traffic, \<open>validate_token\<close> admits
  them afterwards.\<close>

theorem deleted_users_clients_connect:
  assumes "healthy w" "a_is_admin auth" "find (\<lambda>c. c_token c = t) (db_clients (w_db w)) = Some c"
    "c_user_id c = Some i"
  shows "wp (delete_user node_control (Some auth) i) (\<lambda>r w'. r = Inr () \<and>
    w_db w' = drop_users (\<lambda>u. u_id u = i) (w_db w) \<and>
    wp (validate_token t) (\<lambda>v _. \<exists>x. v = Inr x \<and> vr_client_id x = c_id c \<and> vr_allowed x) w') w"
proof -
  have gone: "row_get u_id i (db_users (drop_users (\<lambda>u. u_id u = i) d)) = None" for d
    by (auto simp: row_get_None_iff drop_users_def Let_def)
  have clients: "db_clients (drop_users P d) = db_clients d" for P d
    by (simp add: drop_users_def Let_def)
  show ?thesis
    unfolding delete_user_def admin_only_def authenticated_def
    using assms
    by (auto simp: wp_find_all pop_fault_idle wp_delete_by_id gone clients healthy_def
        validate_token_def owner_exceeded_def wp_find_one wp_find_by_id intro!: wp_stop_direct)
qed

lemma deleted_users_clients_connect_witness:
  "wp (delete_user node_control (Some (bob\<lparr>a_is_admin := True\<rparr>)) 7)
     (\<lambda>r w'. wp (validate_token ''t'') (\<lambda>v _. \<exists>x. v = Inr x \<and> vr_allowed x) w') blocked_world"
  by (rule wp_mono, rule deleted_users_clients_connect[where t = "''t''" and c = blocked_client])
     (auto elim!: wp_mono)

text \<open>A setting that is absent or zero.\<close>

definition zero_setting :: "world \<Rightarrow> string \<Rightarrow> bool" where
  "zero_setting w key = (unwrap_or 0 (Option.bind (map_of (w_config w) key) as_i64) = 0)"

lemma wp_default_limits:
  assumes "\<And>q p n. Q (q, p, n, ucast (unwrap_or 0 (Option.bind (map_of (w_config w) ''default_max_client_count'') as_i64))) w"
  shows "wp default_limits Q w"
  using assms by (simp add: default_limits_def get_float_def get_number_def config_get_def)

text \<open>zero is the default limit on clients, and the dashboard explains it as no limit; but the limit of
  a new user is \<open>Some 0\<close>, so the first thing the user asks for is refused.\<close>

theorem new_user_is_locked_out:
  assumes "healthy w" "\<forall>u\<in>set (db_users (w_db w)). u_id u \<noteq> sq_users (w_db w)"
    "zero_setting w ''default_max_client_count''" "nu_max_client req = None"
  shows "wp (create_user pw (Some auth) req) (\<lambda>r w'. \<forall>u g. r = Inr (u, g) \<longrightarrow>
    u_max_client u = Some 0 \<and>
    wp (create_client_handler (Some \<lparr>a_id = u_id u, a_username = u_username u, a_is_admin = False\<rparr>) creq)
      (\<lambda>r _. r = Inl (BAD_REQUEST, M_client_limit (own_clients (w_db w') (u_id u)) 0)) w') w"
proof -
  have z: "unwrap_or 0 (Option.bind (map_of (w_config w) ''default_max_client_count'') as_i64) = 0"
    using assms(3) by (simp add: zero_setting_def)
  have first: "row_get u_id (u_id u) (db_users (w_db w) @ [u]) = Some u" if "u_id u = sq_users (w_db w)" for u
    using assms(2) that by (auto simp: row_get_append row_get_def[of _ _ "[_]"] dest: row_get_SomeD split: option.split)
  have refused: "wp (create_client_handler (Some \<lparr>a_id = u_id u, a_username = n, a_is_admin = False\<rparr>) creq)
      (\<lambda>r _. r = Inl (BAD_REQUEST, M_client_limit (own_clients (w_db w') (u_id u)) 0)) w'"
    if "healthy w'" "row_get u_id (u_id u) (db_users (w_db w')) = Some u" "u_max_client u = Some 0" for u n w'
    by (rule wp_mono[OF wp_at_client_limit[of _ _ u 0]]) (use that in \<open>simp_all add: i32_as_u64_nonneg\<close>)
  have inserted: "wp (create_user_row pw req hash) (\<lambda>r w'. \<forall>u g. r = Inr (u, g) \<longrightarrow>
      u_max_client u = Some 0 \<and>
      wp (create_client_handler (Some \<lparr>a_id = u_id u, a_username = u_username u, a_is_admin = False\<rparr>) creq)
        (\<lambda>r _. r = Inl (BAD_REQUEST, M_client_limit (own_clients (w_db w') (u_id u)) 0)) w') w"
    for hash
    unfolding create_user_row_def wp_bind wp_utc_now
  proof (rule wp_default_limits, unfold z)
    fix q p n
    let ?now = "w_now w"
    let ?u = "new_user req hash (q, p, n, 0) ?now (sq_users (w_db w))"
    let ?w = "w\<lparr>w_db := (w_db w)\<lparr>db_users := db_users (w_db w) @ [?u], sq_users := sq_users (w_db w) + 1\<rparr>\<rparr>"
    have u: "u_id ?u = sq_users (w_db w)" "u_max_client ?u = Some 0"
      using assms(4) by (simp_all add: new_user_def unwrap_or_def)
    have "wp (create_client_handler
        (Some \<lparr>a_id = sq_users (w_db w), a_username = u_username ?u, a_is_admin = False\<rparr>) creq)
        (\<lambda>r _. r = Inl (BAD_REQUEST, M_client_limit (own_clients (w_db ?w) (sq_users (w_db w))) 0)) ?w"
      using refused[of ?w ?u "u_username ?u"] first[of ?u] u assms(1) by (simp add: healthy_def)
    then show "wp (and_then (insert_user (new_user req hash (q, p, n, ucast (0 :: i64)) ?now))
        (\<lambda>user. finish (user\<lparr>u_password_hash := []\<rparr>,
           if nu_password req = None then Some (pw_random pw) else None))) (\<lambda>r w'. \<forall>u g. r = Inr (u, g) \<longrightarrow>
      u_max_client u = Some 0 \<and>
      wp (create_client_handler (Some \<lparr>a_id = u_id u, a_username = u_username u, a_is_admin = False\<rparr>) creq)
        (\<lambda>r _. r = Inl (BAD_REQUEST, M_client_limit (own_clients (w_db w') (u_id u)) 0)) w') w" using u assms(1)
      by (simp add: insert_user_def wp_insert_row healthy_def pop_fault_idle)
  qed
  show ?thesis
    unfolding create_user_def username_free_def
    using assms(1)
    by (auto simp: admin_only_def authenticated_def wp_find_one healthy_def pop_fault_idle z
        intro!: inserted[simplified] split: option.split)
qed

lemma new_user_is_locked_out_witness:
  "wp (create_user \<lparr>pw_hash = Some, pw_verify = (\<lambda>p h. Some (p = h)), pw_random = ''r''\<rparr> (Some bob)
      \<lparr>nu_username = ''eve'', nu_password = None, nu_is_admin = None, nu_quota_gb = None,
       nu_reset_cycle = None, nu_max_port = None, nu_max_node = None, nu_max_client = None\<rparr>)
    (\<lambda>r w'. \<forall>u g. r = Inr (u, g) \<longrightarrow> u_max_client u = Some 0) (idle_world empty_db)"
  by (rule wp_mono, rule new_user_is_locked_out[where creq = "\<lparr>cn_name = ''c'', cn_token = None,
        cn_region = None, cn_reset_cycle = None, cn_quota_gb = None\<rparr>"])
     (auto simp: zero_setting_def unwrap_or_def healthy_def)

section \<open>Nodes\<close>

text \<open>the nodes a caller sees: all for an administrator, else the shared ones and those assigned to
  the caller, each with the state of its newest session.\<close>

theorem list_nodes_exact:
  assumes "healthy w"
  shows "wp (list_nodes (Some auth)) (\<lambda>r w'. w_db w' = w_db w \<and>
    r = Inr (map (\<lambda>n. n\<lparr>n_is_online := node_live w (n_id n)\<rparr>)
      (filter (\<lambda>n. a_is_admin auth \<or> n_node_type n = ''shared'' \<or>
          (\<exists>x\<in>set (db_user_nodes (w_db w)). un_user_id x = a_id auth \<and> un_node_id x = n_id n))
        (db_nodes (w_db w))))) w"
proof -
  have own: "n_id n \<in> un_node_id ` {x \<in> set (db_user_nodes (w_db w)). un_user_id x = a_id auth} \<longleftrightarrow>
      (\<exists>x\<in>set (db_user_nodes (w_db w)). un_user_id x = a_id auth \<and> un_node_id x = n_id n)" for n
    by (auto simp: image_iff)
  show ?thesis
    using assms
    by (simp add: list_nodes_def authenticated_def wp_find_all healthy_def nm_apply_online_status_def
        pop_fault_idle own)
qed

lemma list_nodes_exact_witness:
  "wp (list_nodes (Some bob)) (\<lambda>r w'. r = Inr [sample_node])
     (idle_world (empty_db\<lparr>db_nodes := [sample_node, sample_node\<lparr>n_id := 2, n_node_type := ''dedicated''\<rparr>]\<rparr>))"
  by (rule wp_mono, rule list_nodes_exact)
     (auto simp: healthy_def sample_node_def node_live_def node_session_def)

text \<open>a node with proxies is not deleted, one without them is, with its certificate and its
  assignments.\<close>

theorem delete_node_guards:
  assumes "healthy w" "a_is_admin auth"
  shows "wp (delete_node (Some auth) i) (\<lambda>r w'.
    (if \<exists>p\<in>set (db_proxies (w_db w)). p_node_id p = Some i then (\<exists>e. r = Inl e) \<and> w_db w' = w_db w
     else r = Inr () \<and> w_db w' = drop_nodes (\<lambda>n. n_id n = i) (w_db w))) w"
  using assms
  by (auto simp: delete_node_def admin_only_def authenticated_def wp_count_rows wp_delete_by_id healthy_def
      filter_empty_conv)

lemma delete_node_guards_witness:
  "wp (delete_node (Some (bob\<lparr>a_is_admin := True\<rparr>)) 1) (\<lambda>r w'. r = Inr () \<and> db_nodes (w_db w') = [])
     (idle_world (empty_db\<lparr>db_nodes := [sample_node]\<rparr>))"
  by (rule wp_mono, rule delete_node_guards)
     (simp_all add: healthy_def drop_nodes_def Let_def sample_node_def)

text \<open>when the statement that counts the proxies fails, it counts as zero and the node is deleted
  although proxies still name it.\<close>

theorem failed_count_deletes_node:
  assumes "w_faults w = True # fs" "\<not> hd (fs @ [False])" "a_is_admin auth"
  shows "wp (delete_node (Some auth) i) (\<lambda>r w'. r = Inr () \<and>
    w_db w' = drop_nodes (\<lambda>n. n_id n = i) (w_db w) \<and> db_proxies (w_db w') = db_proxies (w_db w)) w"
  using assms
  by (cases fs) (auto simp: delete_node_def admin_only_def authenticated_def wp_count_rows wp_delete_by_id
      next_fault_def drop_nodes_def Let_def)

text \<open>the status of one node is the status of all: the node asked for only has to be connected.\<close>

theorem node_status_is_of_all_nodes:
  assumes "a_is_admin auth" "i \<in> set (fst (run_state get_loaded_node_ids w))"
    "j \<in> set (fst (run_state get_loaded_node_ids w))"
  shows "run_state (get_node_status (Some auth) i) w = run_state (get_node_status (Some auth) j) w"
  using assms
  by (simp add: get_node_status_def admin_only_def authenticated_def node_connected_def get_loaded_node_ids_def
      and_then_def some_or_def check_def finish_def asks_def run_state_bind)

end
