(* ===== verification/SettingsProps.thy ===== *)
theory SettingsProps
  imports AccountProps
begin

text \<open>
  What becomes of a setting that is changed: the cache holds the value that was asked for, when its
  type is one the loader knows.
\<close>

lemma load_rows_lookup:
  "distinct (map g_key cs) \<Longrightarrow> map_of (load_rows jc cs cache) k =
    (case find (\<lambda>c. g_key c = k) cs of
       Some c \<Rightarrow> Some (parse_value jc (g_value c) (g_value_type c))
     | None \<Rightarrow> map_of cache k)"
proof (induction cs arbitrary: cache)
  case (Cons c cs)
  have none: "find (\<lambda>x. g_key x = g_key c) cs = None"
    using Cons.prems by (simp add: find_None_iff) (metis image_eqI)
  show ?case using Cons none by (auto simp: update_conv' split: option.splits)
qed simp

lemma set_config_sel [simp]:
  "g_key (set_config v now c) = g_key c" "g_id (set_config v now c) = g_id c"
  "g_value (set_config v now c) = v" "g_value_type (set_config v now c) = g_value_type c"
  by (simp_all add: set_config_def)

lemma find_row_upd:
  assumes "distinct (map k t)" "\<And>r. P (f r) = P r" "find P t = Some r"
  shows "find P (row_upd k (k r) f t) = Some (f r)"
  using assms
proof (induction t)
  case (Cons x t)
  show ?case
  proof (cases "P x")
    case False
    then have "r \<in> set t" using Cons.prems(3) by (auto simp: find_Some_iff)
    then have "k x \<noteq> k r" using Cons.prems(1) by auto
    then show ?thesis using Cons False by (auto simp: row_upd_def)
  qed (use Cons.prems in \<open>auto simp: row_upd_def\<close>)
qed simp

lemma column_row_upd: "(\<And>r. h (f r) = h r) \<Longrightarrow> map h (row_upd k i f t) = map h t"
  by (induction t) (auto simp: row_upd_def)

lemma wp_update_config:
  assumes "healthy w" "distinct (map g_id (db_configs (w_db w)))" "distinct (map g_key (db_configs (w_db w)))"
    "find (\<lambda>c. g_key c = key) (db_configs (w_db w)) = Some c" "a_is_admin auth"
    "config_text jc (g_value_type c) v = Some s"
  shows "wp (update_config jc (Some auth) key v) (\<lambda>r w'. (\<exists>i. r = Inr i) \<and>
    map_of (w_config w') key = Some (parse_value jc s (g_value_type c))) w"
proof -
  let ?t = "db_configs (w_db w)" and ?f = "set_config s (w_now w)"
  have c: "c \<in> set ?t" using assms(4) by (auto simp: find_Some_iff)
  have get: "row_get g_id (g_id c) ?t = Some c" by (rule row_get_distinct[OF assms(2) c])
  have found: "find (\<lambda>c. g_key c = key) (row_upd g_id (g_id c) ?f ?t) = Some (?f c)"
    by (rule find_row_upd[OF assms(2) _ assms(4)]) simp
  have keys: "distinct (map g_key (row_upd g_id (g_id c) ?f ?t))"
    using assms(3) by (simp add: column_row_upd)
  let ?w = "w\<lparr>w_db := (w_db w)\<lparr>db_configs := row_upd g_id (g_id c) ?f ?t\<rparr>\<rparr>"
  have load: "wp (ignoring (config_reload jc)) (\<lambda>r w'. r = Inr () \<and>
      map_of (w_config w') key = Some (parse_value jc s (g_value_type c))) ?w"
    using assms(1) found
    by (simp add: config_reload_def load_from_db_def wp_find_all healthy_def pop_fault_idle
        load_rows_lookup[OF keys])
  have "wp (and_then (ignoring (config_reload jc)) (\<lambda>_. finish (item_of jc (?f c))))
      (\<lambda>r w'. (\<exists>i. r = Inr i) \<and> map_of (w_config w') key = Some (parse_value jc s (g_value_type c))) ?w"
    unfolding wp_and_then by (rule wp_mono[OF load]) simp
  then show ?thesis
    using assms(1,4-6) get
    by (simp add: update_config_def config_admin_def wp_find_one wp_update_row healthy_def pop_fault_idle
        del: wp_ignoring)
qed

text \<open>The value an administrator asks for, by the type of the setting.\<close>

definition asked_value :: "'j json_crate \<Rightarrow> string \<Rightarrow> 'j \<Rightarrow> config_value option" where
  "asked_value jc value_type v =
    (if value_type = ''number'' then map_option VNumber (jc_as_i64 jc v)
     else if value_type = ''boolean'' then map_option VBoolean (jc_as_bool jc v)
     else if value_type = ''string'' then map_option VString (jc_as_str jc v)
     else None)"

lemma asked_value_text:
  assumes "asked_value jc ty v = Some x" "\<And>s. jc_unquote jc (jc_quote jc s) = Some s"
  shows "\<exists>s. config_text jc ty v = Some s \<and> parse_value jc s ty = x"
proof -
  have n: "parse_i64 (int_str (sint n)) = Some (sint n)" for n :: i64
    by (rule parse_i64_int_str) (use sint_greater_eq[of n] sint_less[of n] in simp_all)
  consider (num) "ty = ''number''" | (bool) "ty = ''boolean''" | (str) "ty = ''string''"
    using assms(1) by (simp add: asked_value_def split: if_split_asm)
  then show ?thesis
  proof cases
    case num
    with assms(1) obtain k where "jc_as_i64 jc v = Some k" "x = VNumber k" by (auto simp: asked_value_def)
    then show ?thesis by (simp add: num config_text_def parse_value_def n)
  next
    case bool
    with assms(1) obtain b where "jc_as_bool jc v = Some b" "x = VBoolean b" by (auto simp: asked_value_def)
    then show ?thesis by (simp add: bool config_text_def parse_value_def parse_bool_def unwrap_or_def)
  next
    case str
    with assms(1) obtain t where "jc_as_str jc v = Some t" "x = VString t" by (auto simp: asked_value_def)
    then show ?thesis by (simp add: str config_text_def parse_value_def unwrap_or_def assms(2))
  qed
qed

text \<open>a whole number, a truth value or a text that an administrator writes is what the program reads
  from then on, provided quoting a text as JSON can be undone.\<close>

theorem changed_setting_is_read:
  assumes "healthy w" "distinct (map g_id (db_configs (w_db w)))" "distinct (map g_key (db_configs (w_db w)))"
    "find (\<lambda>c. g_key c = key) (db_configs (w_db w)) = Some c" "a_is_admin auth"
    "\<And>s. jc_unquote jc (jc_quote jc s) = Some s" "asked_value jc (g_value_type c) v = Some x"
  shows "wp (update_config jc (Some auth) key v) (\<lambda>r w'. (\<exists>i. r = Inr i) \<and>
    wp (config_get key) (\<lambda>y _. y = Some x) w') w"
proof -
  obtain s where s: "config_text jc (g_value_type c) v = Some s" "parse_value jc s (g_value_type c) = x"
    using asked_value_text[OF assms(7,6)] by blast
  show ?thesis
    by (rule wp_mono[OF wp_update_config[OF assms(1-5) s(1)]]) (simp add: config_get_def s(2))
qed

text \<open>the migrations give the default traffic quota the type \<open>float\<close>, which the loader does not know:
  it keeps the text, \<open>get_float\<close> finds no number, and whatever an administrator writes, new users
  get the built-in default.\<close>

theorem float_setting_never_applies:
  assumes "healthy w" "distinct (map g_id (db_configs (w_db w)))" "distinct (map g_key (db_configs (w_db w)))"
    "find (\<lambda>c. g_key c = key) (db_configs (w_db w)) = Some c" "a_is_admin auth"
    "g_value_type c = ''float''"
  shows "wp (update_config jc (Some auth) key v) (\<lambda>r w'. (\<exists>i. r = Inr i) \<and>
    wp (get_float key d) (\<lambda>y _. y = d) w') w"
proof -
  have "config_text jc (g_value_type c) v = Some (jc_text jc v)"
    by (simp add: config_text_def assms(6))
  from wp_update_config[OF assms(1-5) this] show ?thesis
    by (rule wp_mono) (auto simp: get_float_def config_get_def parse_value_def assms(6) unwrap_or_def)
qed

definition quota_setting :: config_row where
  "quota_setting = \<lparr>g_id = 1, g_key = ''default_traffic_quota_gb'', g_value = ''0'', g_description = [],
    g_value_type = ''float'', g_created_at = DT 0 0 2024 1, g_updated_at = DT 0 0 2024 1\<rparr>"

text \<open>JSON values of one kind, enough to run the handlers.\<close>

definition number_json :: "int json_crate" where
  "number_json = \<lparr>jc_as_i64 = (\<lambda>n. Some (of_int n)), jc_as_f64 = (\<lambda>n. Some (Fin (of_int n))),
    jc_as_bool = (\<lambda>_. None), jc_as_str = (\<lambda>_. None), jc_text = int_str,
    jc_parse = (\<lambda>s. unwrap_or 0 (parse_i64 s)), jc_quote = id, jc_unquote = Some,
    jc_show_f64 = (\<lambda>_. ''0'')\<rparr>"

definition settings_world :: "string \<Rightarrow> world" where
  "settings_world ty = idle_world (empty_db\<lparr>db_configs := [quota_setting\<lparr>g_value_type := ty\<rparr>]\<rparr>)"

lemma settings_sel [simp]:
  "healthy (settings_world ty)" "db_configs (w_db (settings_world ty)) = [quota_setting\<lparr>g_value_type := ty\<rparr>]"
  "g_key quota_setting = ''default_traffic_quota_gb''" "g_value_type quota_setting = ''float''"
  by (simp_all add: settings_world_def healthy_def quota_setting_def)

lemma changed_setting_is_read_witness:
  "wp (update_config number_json (Some (bob\<lparr>a_is_admin := True\<rparr>)) ''default_traffic_quota_gb'' 50)
    (\<lambda>r w'. wp (config_get ''default_traffic_quota_gb'') (\<lambda>y _. y = Some (VNumber 50)) w')
    (settings_world ''number'')"
  by (rule wp_mono, rule changed_setting_is_read[where c = "quota_setting\<lparr>g_value_type := ''number''\<rparr>"])
     (auto simp: asked_value_def number_json_def)

lemma float_setting_never_applies_witness:
  "wp (update_config number_json (Some (bob\<lparr>a_is_admin := True\<rparr>)) ''default_traffic_quota_gb'' 50)
    (\<lambda>r w'. wp (get_float ''default_traffic_quota_gb'' f_zero) (\<lambda>y _. y = f_zero) w')
    (settings_world ''float'')"
  by (rule wp_mono, rule float_setting_never_applies[where d = f_zero and c = "quota_setting\<lparr>g_value_type := ''float''\<rparr>"])
     auto

end
