(* ===== verification/AuthApi.thy ===== *)
theory AuthApi
  imports AccountProps
begin

text \<open>
  Logging in, registering and reading a token back (\<open>controller/src/api/handlers/auth.rs\<close>,
  \<open>jwt.rs\<close>, \<open>middleware/auth.rs\<close>). Signing and verifying tokens is \<open>jsonwebtoken\<close>'s: \<open>jw_encode\<close>
  and \<open>jw_decode\<close> are arguments, as are the secret of the configuration and the reading of the clock
  in seconds.
\<close>

section \<open>Tokens\<close>

record claims =
  cl_sub :: int
  cl_username :: string
  cl_is_admin :: bool
  cl_exp :: int
  cl_iat :: int

record jwt_crate =
  jw_encode :: "string \<Rightarrow> claims \<Rightarrow> string option"
  jw_decode :: "string \<Rightarrow> int \<Rightarrow> string \<Rightarrow> claims option"
  jw_seconds :: "naive_dt \<Rightarrow> int"

definition claims_for :: "user_row \<Rightarrow> int \<Rightarrow> int \<Rightarrow> claims" where
  "claims_for user now hours =
    \<lparr>cl_sub = u_id user, cl_username = u_username user, cl_is_admin = u_is_admin user,
     cl_exp = now + hours * 3600, cl_iat = now\<rparr>"

definition generate_token :: "jwt_crate \<Rightarrow> user_row \<Rightarrow> string \<Rightarrow> int \<Rightarrow> string option io" where
  "generate_token jw user secret hours = do {
     now \<leftarrow> utc_now;
     State_Monad.return (jw_encode jw secret (claims_for user (jw_seconds jw now) hours))
   }"

definition extract_bearer_token :: "string option \<Rightarrow> string option" where
  "extract_bearer_token header = Option.bind header (strip_prefix ''Bearer '')"

definition from_headers :: "jwt_crate \<Rightarrow> string option \<Rightarrow> string \<Rightarrow> auth_user option io" where
  "from_headers jw header secret = do {
     now \<leftarrow> utc_now;
     State_Monad.return (Option.bind (extract_bearer_token header) (\<lambda>token.
       map_option (\<lambda>c. \<lparr>a_id = cl_sub c, a_username = cl_username c, a_is_admin = cl_is_admin c\<rparr>)
         (jw_decode jw secret (jw_seconds jw now) token)))
   }"

text \<open>What the middleware hands to every handler; without a secret it uses the empty one.\<close>

definition auth_middleware :: "jwt_crate \<Rightarrow> string option \<Rightarrow> string option \<Rightarrow> auth_user option io" where
  "auth_middleware jw secret header = from_headers jw header (unwrap_or [] secret)"

section \<open>Handlers\<close>

definition issue_token :: "jwt_crate \<Rightarrow> string option \<Rightarrow> int \<Rightarrow> user_row \<Rightarrow> (string \<times> auth_user) handler" where
  "issue_token jw secret hours user =
    and_then (some_or (INTERNAL_SERVER_ERROR, M_text ''secret'') secret) (\<lambda>key. do {
      t \<leftarrow> generate_token jw user key hours;
      and_then (some_or (INTERNAL_SERVER_ERROR, M_text ''token'') t) (\<lambda>token.
      finish (token, \<lparr>a_id = u_id user, a_username = u_username user, a_is_admin = u_is_admin user\<rparr>))
    })"

definition bad_login :: failure where
  "bad_login = (UNAUTHORIZED, M_text ''Invalid username or password'')"

definition login ::
  "password_crate \<Rightarrow> jwt_crate \<Rightarrow> string option \<Rightarrow> int \<Rightarrow> string \<Rightarrow> string \<Rightarrow> (string \<times> auth_user) handler" where
  "login pw jw secret hours username password =
    and_then (or_fail (failed_to ''login'') (find_one users_t (\<lambda>u. u_username u = username))) (\<lambda>r.
    and_then (some_or bad_login r) (\<lambda>user.
    and_then (some_or hash_failed (pw_verify pw password (u_password_hash user))) (\<lambda>ok.
    and_then (check ok bad_login) (\<lambda>_.
    issue_token jw secret hours user))))"

definition me :: "auth_user option \<Rightarrow> auth_user handler" where
  "me auth_opt = authenticated auth_opt"

definition get_register_status :: "bool io" where
  "get_register_status = get_bool ''enable_registration'' False"

definition registered_user ::
  "string \<Rightarrow> string \<Rightarrow> f64 \<times> i32 \<times> i32 \<times> i32 \<Rightarrow> naive_dt \<Rightarrow> int \<Rightarrow> user_row" where
  "registered_user username hash l now i =
    (case l of (quota, max_port, max_node, max_client) \<Rightarrow>
      \<lparr>u_id = i, u_username = username, u_password_hash = hash, u_is_admin = False, u_sent = 0,
       u_received = 0, u_reset_cycle = ''none'', u_last_reset = None, u_exceeded = False,
       u_quota_gb = Some quota, u_max_port = Some max_port, u_port_range = None,
       u_max_node = Some max_node, u_max_client = Some max_client, u_created_at = now,
       u_updated_at = now\<rparr>)"

definition register_row ::
  "jwt_crate \<Rightarrow> string option \<Rightarrow> int \<Rightarrow> string \<Rightarrow> string \<Rightarrow> (string \<times> auth_user) handler" where
  "register_row jw secret hours username hash = do {
     now \<leftarrow> utc_now;
     limits \<leftarrow> default_limits;
     and_then (insert_user (registered_user username hash limits now)) (issue_token jw secret hours)
   }"

text \<open>Lengths are those of Rust's \<open>str::len\<close>: bytes.\<close>

definition register ::
  "password_crate \<Rightarrow> jwt_crate \<Rightarrow> string option \<Rightarrow> int \<Rightarrow> string \<Rightarrow> string \<Rightarrow> (string \<times> auth_user) handler" where
  "register pw jw secret hours name password = do {
     enabled \<leftarrow> get_bool ''enable_registration'' False;
     and_then (check enabled (FORBIDDEN, M_text ''registration closed'')) (\<lambda>_.
     let username = str_trim name in
     and_then (check (3 \<le> length username \<and> length username \<le> 20) (BAD_REQUEST, M_text ''username length'')) (\<lambda>_.
     and_then (check (6 \<le> length password) (BAD_REQUEST, M_text ''password length'')) (\<lambda>_.
     and_then (username_free username (\<lambda>_. True)) (\<lambda>_.
     and_then (some_or hash_failed (pw_hash pw password)) (\<lambda>hash.
     register_row jw secret hours username hash)))))
   }"

section \<open>What a token says\<close>

text \<open>The documented behaviour of the crate: a token is read back until it expires, and no more once it has been
  expired for longer than the leeway of a minute.\<close>

definition jwt_reads_back :: "jwt_crate \<Rightarrow> bool" where
  "jwt_reads_back jw \<longleftrightarrow>
    (\<forall>key c t now. jw_encode jw key c = Some t \<longrightarrow>
       (now \<le> cl_exp c \<longrightarrow> jw_decode jw key now t = Some c) \<and> (cl_exp c + 60 < now \<longrightarrow> jw_decode jw key now t = None))"

definition bearer :: "string \<Rightarrow> string option" where
  "bearer t = Some (''Bearer '' @ t)"

lemma extract_bearer: "extract_bearer_token (bearer t) = Some t"
  using strip_prefix_Some_iff[of "''Bearer ''" "''Bearer '' @ t" t]
  by (simp add: extract_bearer_token_def bearer_def)

definition seen_as :: "user_row \<Rightarrow> auth_user" where
  "seen_as u = \<lparr>a_id = u_id u, a_username = u_username u, a_is_admin = u_is_admin u\<rparr>"

text \<open>A token of the user \<open>u\<close> from the time \<open>issued\<close>: whom the middleware sees at the time of \<open>v\<close>.\<close>

definition token_for :: "jwt_crate \<Rightarrow> string \<Rightarrow> int \<Rightarrow> int \<Rightarrow> user_row \<Rightarrow> string \<Rightarrow> bool" where
  "token_for jw key hours issued u t =
    (\<forall>v. wp (auth_middleware jw (Some key) (bearer t)) (\<lambda>x v'. v' = v \<and>
       (jw_seconds jw (w_now v) \<le> issued + hours * 3600 \<longrightarrow> x = Some (seen_as u)) \<and>
       (issued + hours * 3600 + 60 < jw_seconds jw (w_now v) \<longrightarrow> x = None)) v)"

lemma issued_token_reads_back:
  assumes "jwt_reads_back jw" "jw_encode jw key (claims_for u issued hours) = Some t"
  shows "token_for jw key hours issued u t"
  using assms
  by (auto simp: token_for_def auth_middleware_def from_headers_def extract_bearer unwrap_or_def jwt_reads_back_def
      claims_for_def seen_as_def)

lemma wp_issue_token:
  assumes "jwt_reads_back jw"
  shows "wp (issue_token jw (Some key) hours user) (\<lambda>r w'. w' = w \<and>
    (case r of
       Inr (t, a) \<Rightarrow> a = seen_as user \<and> token_for jw key hours (jw_seconds jw (w_now w)) user t
     | Inl _ \<Rightarrow> jw_encode jw key (claims_for user (jw_seconds jw (w_now w)) hours) = None)) w"
  using issued_token_reads_back[OF assms]
  by (auto simp: issue_token_def generate_token_def seen_as_def split: option.splits)

text \<open>C29: a login succeeds exactly for the name of a user and that user's password (unless the token cannot be signed),
  changes nothing, and gives a token for that user. Sent as a bearer token, to whatever state the
  controller is in by then, it makes the middleware see exactly this user until it expires, the configured
  number of hours after the login, and nobody once it has been expired for a minute.\<close>

theorem login_token_identifies:
  assumes "healthy w" "jwt_reads_back jw"
  shows "wp (login pw jw (Some key) hours name password) (\<lambda>r w'. w_db w' = w_db w \<and>
    (case (find (\<lambda>u. u_username u = name) (db_users (w_db w)), r) of
       (Some u, Inr (t, a)) \<Rightarrow> pw_verify pw password (u_password_hash u) = Some True \<and> a = seen_as u \<and>
         token_for jw key hours (jw_seconds jw (w_now w)) u t
     | (Some u, Inl _) \<Rightarrow> pw_verify pw password (u_password_hash u) \<noteq> Some True \<or>
         jw_encode jw key (claims_for u (jw_seconds jw (w_now w)) hours) = None
     | (None, Inr _) \<Rightarrow> False
     | (None, Inl _) \<Rightarrow> True)) w"
proof (cases "find (\<lambda>u. u_username u = name) (db_users (w_db w))")
  case None
  then show ?thesis using assms(1) by (simp add: login_def wp_find_one healthy_def)
next
  case (Some u)
  show ?thesis
  proof (cases "pw_verify pw password (u_password_hash u) = Some True")
    case True
    have "wp (issue_token jw (Some key) hours u) (\<lambda>r w'. w_db w' = w_db w \<and>
       (case r of
          Inr (t, a) \<Rightarrow> a = seen_as u \<and> token_for jw key hours (jw_seconds jw (w_now w)) u t
        | Inl _ \<Rightarrow> jw_encode jw key (claims_for u (jw_seconds jw (w_now w)) hours) = None)) w"
      by (rule wp_mono[OF wp_issue_token[OF assms(2)]]) auto
    then show ?thesis
      using assms(1) Some True
      by (auto simp: login_def wp_find_one healthy_def pop_fault_idle elim!: wp_mono split: sum.splits)
  next
    case False
    then show ?thesis
      using assms(1) Some
      by (cases "pw_verify pw password (u_password_hash u)") (auto simp: login_def wp_find_one healthy_def)
  qed
qed

text \<open>A codec for the sample user that puts the key and the time of issue into the token, and passwords kept as they are.\<close>

definition plain_jwt :: jwt_crate where
  "plain_jwt = \<lparr>jw_encode = (\<lambda>key c. if c = claims_for sample_user 100 1 then Some (key @ ''.'') else None),
     jw_decode = (\<lambda>key now t. if t = key @ ''.'' \<and> now \<le> 3700 then Some (claims_for sample_user 100 1) else None),
     jw_seconds = dt_ticks\<rparr>"

definition plain_passwords :: password_crate where
  "plain_passwords = \<lparr>pw_hash = Some, pw_verify = (\<lambda>p h. Some (p = h)), pw_random = []\<rparr>"

lemma login_token_identifies_witness:
  "wp (login plain_passwords plain_jwt (Some ''k'') 1 ''bob'' [])
    (\<lambda>r w'. \<exists>t. r = Inr (t, seen_as sample_user) \<and> token_for plain_jwt ''k'' 1 100 sample_user t)
    (idle_world (empty_db\<lparr>db_users := [sample_user]\<rparr>))"
proof (rule wp_mono, rule login_token_identifies)
  let ?w = "idle_world (empty_db\<lparr>db_users := [sample_user]\<rparr>)"
  show "jwt_reads_back plain_jwt"
    by (auto simp: jwt_reads_back_def plain_jwt_def claims_for_def split: if_splits)
  have u: "find (\<lambda>u. u_username u = ''bob'') (db_users (w_db ?w)) = Some sample_user"
    "pw_verify plain_passwords [] (u_password_hash sample_user) = Some True"
    "jw_encode plain_jwt ''k'' (claims_for sample_user (jw_seconds plain_jwt (w_now ?w)) 1) \<noteq> None"
    "jw_seconds plain_jwt (w_now ?w) = 100"
    by (simp_all add: sample_user_def plain_passwords_def plain_jwt_def idle_world_def)
  fix r w'
  assume "w_db w' = w_db ?w \<and>
    (case (find (\<lambda>u. u_username u = ''bob'') (db_users (w_db ?w)), r) of
       (Some u, Inr (t, a)) \<Rightarrow> pw_verify plain_passwords [] (u_password_hash u) = Some True \<and> a = seen_as u \<and>
         token_for plain_jwt ''k'' 1 (jw_seconds plain_jwt (w_now ?w)) u t
     | (Some u, Inl _) \<Rightarrow> pw_verify plain_passwords [] (u_password_hash u) \<noteq> Some True \<or>
         jw_encode plain_jwt ''k'' (claims_for u (jw_seconds plain_jwt (w_now ?w)) 1) = None
     | (None, Inr _) \<Rightarrow> False
     | (None, Inl _) \<Rightarrow> True)"
  then show "\<exists>t. r = Inr (t, seen_as sample_user) \<and> token_for plain_jwt ''k'' 1 100 sample_user t"
    unfolding u(1,4) using u(2,3) unfolding u(4) by (auto split: sum.splits)
qed (simp add: healthy_def)

end
