(* ===== verification/GrpcServices.thy ===== *)
theory GrpcServices
  imports AccountProps TrafficProps
begin

text \<open>
  The controller's ends of the gRPC streams: \<open>controller/src/grpc_agent_server_service.rs\<close> for nodes,
  \<open>grpc_agent_client_service.rs\<close> for clients. A stream is the channel \<open>tx\<close> towards the peer and the
  list of what arrives from it; \<open>PeerClosed\<close> is the turn of \<open>select!\<close> in which the channel was found
  closed. The answer to a traffic report starts a traffic manager of its own; the run of a stream
  returns the events those managers were given. \<open>geo\<close> stands for the lookup of an address.
\<close>

section \<open>Messages\<close>

datatype 'p incoming = Message "'p option" | StreamFault | PeerClosed

record traffic_record =
  tr_proxy_id :: int
  tr_client_id :: string
  tr_user_id :: "int option"
  tr_sent :: i64
  tr_received :: i64

datatype agent_payload =
    Register string string
  | AgentHeartbeat int
  | ValidateToken string string
  | ClientOnline string int bool
  | CheckTrafficLimit string int "int option"
  | GetClientProxies string int int
  | TrafficReport "traffic_record list"
  | AgentResponse string "agent_result option"
  | OtherAgent

datatype client_message =
    ClientAuth string string
  | ClientBeat int
  | ClientResponse string "client_result option"

section \<open>Questions of a node\<close>

definition set_client_online_ack :: "int \<Rightarrow> bool \<Rightarrow> (any_err + unit) io" where
  "set_client_online_ack client_id online = finish ()"

definition get_client_proxies_filtered :: "int \<Rightarrow> int \<Rightarrow> grpc_proxy_config list io" where
  "get_client_proxies_filtered client_id filter_node_id = do {
     r \<leftarrow> find_all proxies_t (\<lambda>p. p_client_id p = Some (int_str client_id) \<and> p_enabled p);
     State_Monad.return (map (\<lambda>p. config_to_grpc (proxy_config_of p))
       (filter (\<lambda>p. p_node_id p = Some filter_node_id) (ok_or [] r)))
   }"

definition node_over_quota :: "naive_dt \<Rightarrow> node_row \<Rightarrow> bool" where
  "node_over_quota now node =
    (\<not> should_reset_node_traffic now node \<and>
     (n_exceeded node \<or> quota_reached (n_quota_gb node) (n_sent node + n_received node)))"

definition direct_verdict :: "int \<Rightarrow> int \<Rightarrow> (any_err + bool \<times> string option) io" where
  "direct_verdict node_id owner_id =
    and_then (check_user_traffic_limit owner_id) (\<lambda>(exceeded, _).
    and_then (or_fail E_db (find_by_id nodes_t node_id)) (\<lambda>n.
    and_then (some_or (E_msg M_node_not_found) n) (\<lambda>node. do {
      now \<leftarrow> utc_now;
      let over = node_over_quota now node in
      finish (exceeded \<or> over,
        if over then Some ''node quota'' else if exceeded then Some ''user quota'' else None)
    })))"

definition check_direct_proxy_limit :: "int \<Rightarrow> int \<Rightarrow> (any_err + bool \<times> string option) io" where
  "check_direct_proxy_limit node_id proxy_id =
    and_then (or_fail E_db (find_by_id proxies_t proxy_id)) (\<lambda>r.
    and_then (some_or (E_msg M_proxy_not_found) r) (\<lambda>proxy.
    and_then (check (p_node_id proxy = Some node_id \<and> p_client_id proxy = None \<and> p_enabled proxy)
      (E_msg M_no_access_proxy)) (\<lambda>_.
    and_then (some_or (E_msg M_user_not_found) (p_user_id proxy)) (\<lambda>owner_id.
    and_then (or_fail E_db (find_by_id users_t owner_id)) (\<lambda>u.
    and_then (check (u \<noteq> None) (E_msg M_user_not_found)) (\<lambda>_.
    direct_verdict node_id owner_id))))))"

definition validate_reply :: "string \<Rightarrow> any_err + validate_response \<Rightarrow> node_reply" where
  "validate_reply request_id r =
    (case r of
       Inr v \<Rightarrow> ValidateTokenResponse request_id (vr_client_id v) (vr_client_name v) (vr_allowed v) (vr_reason v)
     | Inl _ \<Rightarrow> ValidateTokenResponse request_id 0 [] False (Some ''error''))"

text \<open>An error counts as exceeded for a direct proxy, and as not exceeded for a client.\<close>

definition limit_reply :: "string \<Rightarrow> bool \<Rightarrow> any_err + bool \<times> string option \<Rightarrow> node_reply" where
  "limit_reply request_id direct r =
    (case r of
       Inr (exceeded, reason) \<Rightarrow> TrafficLimitResponse request_id exceeded reason
     | Inl _ \<Rightarrow> TrafficLimitResponse request_id direct (if direct then Some ''check failed'' else None))"

definition traffic_limit :: "int \<Rightarrow> int \<Rightarrow> int option \<Rightarrow> (any_err + bool \<times> string option) io" where
  "traffic_limit node_id client_id proxy_opt =
    (case proxy_opt of
       Some proxy_id \<Rightarrow> check_direct_proxy_limit node_id proxy_id
     | None \<Rightarrow> and_then (check_traffic_limit client_id) (\<lambda>e.
         finish (e, if e then Some ''user quota'' else None)))"

definition report_events :: "traffic_record list \<Rightarrow> traffic_event list" where
  "report_events records = List.map_filter (\<lambda>r. record_traffic (tr_proxy_id r)
     (unwrap_or 0 (parse_i64 (tr_client_id r))) (tr_user_id r) (tr_sent r) (tr_received r)) records"

section \<open>One message\<close>

text \<open>Answering on the stream: whether it went out.\<close>

definition node_answer :: "nat \<Rightarrow> node_reply \<Rightarrow> bool io" where
  "node_answer tx r = do {
     closed \<leftarrow> asks w_closed;
     if tx \<in> set closed then State_Monad.return False
     else do {
       modify (\<lambda>w. w\<lparr>w_node_log := w_node_log w @ [(tx, NodeReply r)]\<rparr>);
       State_Monad.return True
     }
   }"

definition node_message :: "int \<Rightarrow> nat \<Rightarrow> agent_payload \<Rightarrow> (bool \<times> traffic_event list list) io" where
  "node_message node_id tx payload =
    (case payload of
       AgentHeartbeat ts \<Rightarrow> do { ok \<leftarrow> node_answer tx (NodeHeartbeat ts); State_Monad.return (ok, []) }
     | ValidateToken rid token \<Rightarrow> do {
         r \<leftarrow> validate_token token;
         ok \<leftarrow> node_answer tx (validate_reply rid r);
         State_Monad.return (ok, [])
       }
     | ClientOnline rid client_id online \<Rightarrow> do {
         r \<leftarrow> set_client_online_ack client_id online;
         ok \<leftarrow> node_answer tx (ClientOnlineResponse rid (case r of Inr _ \<Rightarrow> True | Inl _ \<Rightarrow> False));
         State_Monad.return (ok, [])
       }
     | CheckTrafficLimit rid client_id proxy_opt \<Rightarrow> do {
         r \<leftarrow> traffic_limit node_id client_id proxy_opt;
         ok \<leftarrow> node_answer tx (limit_reply rid (proxy_opt \<noteq> None) r);
         State_Monad.return (ok, [])
       }
     | GetClientProxies rid client_id nid \<Rightarrow> do {
         proxies \<leftarrow> get_client_proxies_filtered client_id nid;
         ok \<leftarrow> node_answer tx (GetClientProxiesResponse rid proxies);
         State_Monad.return (ok, [])
       }
     | TrafficReport records \<Rightarrow> do {
         ok \<leftarrow> node_answer tx (TrafficReportResponse True);
         State_Monad.return (ok, [report_events records])
       }
     | AgentResponse rid result \<Rightarrow> do {
         _ \<leftarrow> nm_complete_pending_request node_id rid result;
         State_Monad.return (True, [])
       }
     | _ \<Rightarrow> State_Monad.return (True, []))"

section \<open>A node's stream\<close>

text \<open>What the controller notes about a node that registers.\<close>

definition node_meta ::
  "(string \<Rightarrow> (string \<times> string) option) \<Rightarrow> string option \<Rightarrow> string \<Rightarrow> naive_dt \<Rightarrow> node_row \<Rightarrow> node_row" where
  "node_meta geo client_ip version now n =
    (let m = n\<lparr>n_updated_at := now, n_version := (if version = [] then None else Some version)\<rparr>;
         addr = (\<lambda>ip. if n_tunnel_addr n = [] then ip else n_tunnel_addr n)
     in case Option.bind client_ip geo of
          Some (ip, region) \<Rightarrow> m\<lparr>n_tunnel_addr := addr ip, n_public_ip := Some ip, n_region := Some region\<rparr>
        | None \<Rightarrow> (case client_ip of
            Some ip \<Rightarrow> m\<lparr>n_tunnel_addr := addr ip, n_public_ip := Some ip\<rparr>
          | None \<Rightarrow> m))"

definition node_certificate :: "cert_crates \<Rightarrow> node_row \<Rightarrow> cert_msg option io" where
  "node_certificate cr node = do {
     r \<leftarrow> get_or_generate_node_certificate cr (n_id node) (n_name node);
     State_Monad.return (case r of
       Inr d \<Rightarrow> Some \<lparr>cm_cert = cd_cert d, cm_key = cd_key d, cm_fingerprint = cd_fingerprint d,
                     cm_expires = cd_expires d\<rparr>
     | Inl _ \<Rightarrow> None)
   }"

text \<open>The part up to the registration: the node, or \<open>None\<close> when the stream ended.\<close>

definition admit_node ::
  "cert_crates \<Rightarrow> (string \<Rightarrow> (string \<times> string) option) \<Rightarrow> string option \<Rightarrow> nat \<Rightarrow> string \<Rightarrow> node_row \<Rightarrow> int option io" where
  "admit_node cr geo client_ip tx version node = do {
     now \<leftarrow> utc_now;
     _ \<leftarrow> update_row nodes_t (n_id node) (node_meta geo client_ip version now);
     certificate \<leftarrow> node_certificate cr node;
     ok \<leftarrow> node_answer tx (RegisterResponse (n_id node) (n_name node) (n_tunnel_protocol node)
       (n_speed_limit node) (scast (n_tunnel_port node)) certificate);
     if \<not> ok then State_Monad.return None
     else do {
       _ \<leftarrow> register_node_stream (n_id node) tx;
       _ \<leftarrow> send_direct_snapshot (n_id node);
       State_Monad.return (Some (n_id node))
     }
   }"

definition refuse_node :: "nat \<Rightarrow> string \<Rightarrow> int option io" where
  "refuse_node tx code = do { _ \<leftarrow> node_answer tx (NodeStreamError code); State_Monad.return None }"

definition open_node_stream ::
  "cert_crates \<Rightarrow> (string \<Rightarrow> (string \<times> string) option) \<Rightarrow> string option \<Rightarrow> nat \<Rightarrow> agent_payload incoming option \<Rightarrow>
   int option io" where
  "open_node_stream cr geo client_ip tx first =
    (case first of
       Some (Message (Some (Register token version))) \<Rightarrow> do {
         r \<leftarrow> find_one nodes_t (\<lambda>n. n_secret n = token);
         case r of
           Inl _ \<Rightarrow> refuse_node tx ''internal''
         | Inr None \<Rightarrow> refuse_node tx ''unauthenticated''
         | Inr (Some node) \<Rightarrow> admit_node cr geo client_ip tx version node
       }
     | Some (Message _) \<Rightarrow> refuse_node tx ''invalid argument''
     | _ \<Rightarrow> State_Monad.return None)"

fun node_loop ::
  "int \<Rightarrow> nat \<Rightarrow> agent_payload incoming list \<Rightarrow> traffic_event list list \<Rightarrow> traffic_event list list io" where
  "node_loop node_id tx (Message None # xs) ms = node_loop node_id tx xs ms"
| "node_loop node_id tx (Message (Some p) # xs) ms = do {
     r \<leftarrow> node_message node_id tx p;
     if fst r then node_loop node_id tx xs (ms @ snd r) else State_Monad.return (ms @ snd r)
   }"
| "node_loop node_id tx _ ms = State_Monad.return ms"

definition agent_server_channel ::
  "cert_crates \<Rightarrow> (string \<Rightarrow> (string \<times> string) option) \<Rightarrow> string option \<Rightarrow> nat \<Rightarrow> agent_payload incoming list \<Rightarrow>
   traffic_event list list io" where
  "agent_server_channel cr geo client_ip tx input = do {
     r \<leftarrow> open_node_stream cr geo client_ip tx (case input of [] \<Rightarrow> None | x # _ \<Rightarrow> Some x);
     case r of
       None \<Rightarrow> State_Monad.return []
     | Some node_id \<Rightarrow> do {
         ms \<leftarrow> node_loop node_id tx (tl input) [];
         _ \<leftarrow> unregister_node_stream node_id tx;
         State_Monad.return ms
       }
   }"

section \<open>A client's stream\<close>

definition client_answer :: "nat \<Rightarrow> client_payload \<Rightarrow> bool io" where
  "client_answer tx p = do {
     closed \<leftarrow> asks w_closed;
     if tx \<in> set closed then State_Monad.return False
     else do {
       modify (\<lambda>w. w\<lparr>w_client_log := w_client_log w @ [(tx, p)]\<rparr>);
       State_Monad.return True
     }
   }"

definition client_meta :: "string option \<Rightarrow> string \<Rightarrow> naive_dt \<Rightarrow> client_row \<Rightarrow> client_row" where
  "client_meta client_ip version now c =
    c\<lparr>c_version := (if version = [] then None else Some version),
      c_public_ip := some_else (c_public_ip c) client_ip, c_updated_at := now\<rparr>"

definition refuse_client :: "nat \<Rightarrow> client_reply \<Rightarrow> int option io" where
  "refuse_client tx r = do { _ \<leftarrow> client_answer tx (ClientReply r); State_Monad.return None }"

definition admit_client :: "string option \<Rightarrow> nat \<Rightarrow> string \<Rightarrow> client_row \<Rightarrow> int option io" where
  "admit_client client_ip tx version client = do {
     ok \<leftarrow> client_answer tx (ClientReply (ClientAuthResponse True None (c_id client) (c_name client)));
     if \<not> ok then State_Monad.return None
     else do {
       now \<leftarrow> utc_now;
       _ \<leftarrow> update_row clients_t (c_id client) (client_meta client_ip version now);
       _ \<leftarrow> csm_register (c_id client) tx;
       State_Monad.return (Some (c_id client))
     }
   }"

definition open_client_stream ::
  "string option \<Rightarrow> nat \<Rightarrow> client_message incoming option \<Rightarrow> int option io" where
  "open_client_stream client_ip tx first =
    (case first of
       Some (Message (Some (ClientAuth token version))) \<Rightarrow> do {
         r \<leftarrow> find_one clients_t (\<lambda>c. c_token c = token);
         case r of
           Inl _ \<Rightarrow> refuse_client tx (ClientAuthResponse False (Some ''db_error'') 0 [])
         | Inr None \<Rightarrow> refuse_client tx (ClientAuthResponse False (Some ''invalid_token'') 0 [])
         | Inr (Some client) \<Rightarrow>
             if c_exceeded client then refuse_client tx (ErrorNotification ''traffic_exceeded'')
             else admit_client client_ip tx version client
       }
     | Some (Message _) \<Rightarrow> refuse_client tx (ClientStreamError ''invalid argument'')
     | _ \<Rightarrow> State_Monad.return None)"

definition client_message :: "int \<Rightarrow> nat \<Rightarrow> client_message \<Rightarrow> bool io" where
  "client_message client_id tx payload =
    (case payload of
       ClientBeat ts \<Rightarrow> client_answer tx (ClientReply (ClientHeartbeat ts))
     | ClientResponse rid result \<Rightarrow> do {
         _ \<leftarrow> csm_complete_pending_request client_id rid result;
         State_Monad.return True
       }
     | ClientAuth _ _ \<Rightarrow> State_Monad.return True)"

fun client_loop :: "int \<Rightarrow> nat \<Rightarrow> client_message incoming list \<Rightarrow> unit io" where
  "client_loop client_id tx (Message None # xs) = client_loop client_id tx xs"
| "client_loop client_id tx (Message (Some p) # xs) = do {
     ok \<leftarrow> client_message client_id tx p;
     if ok then client_loop client_id tx xs else State_Monad.return ()
   }"
| "client_loop client_id tx _ = State_Monad.return ()"

text \<open>After the registration the current proxy list goes out; when it cannot be sent, the loop is
  skipped, when it cannot be built, it is not.\<close>

definition client_session_body ::
  "(string \<Rightarrow> kcp_config option) \<Rightarrow> int \<Rightarrow> nat \<Rightarrow> client_message incoming list \<Rightarrow> unit io" where
  "client_session_body kcp_of client_id tx input = do {
     r \<leftarrow> build_proxy_list_update kcp_of client_id;
     case r of
       Inl _ \<Rightarrow> client_loop client_id tx input
     | Inr update \<Rightarrow> do {
         ok \<leftarrow> client_answer tx (ProxyUpdate update);
         if ok then client_loop client_id tx input else State_Monad.return ()
       }
   }"

definition agent_client_channel ::
  "(string \<Rightarrow> kcp_config option) \<Rightarrow> string option \<Rightarrow> nat \<Rightarrow> client_message incoming list \<Rightarrow> unit io" where
  "agent_client_channel kcp_of client_ip tx input = do {
     r \<leftarrow> open_client_stream client_ip tx (case input of [] \<Rightarrow> None | x # _ \<Rightarrow> Some x);
     case r of
       None \<Rightarrow> State_Monad.return ()
     | Some client_id \<Rightarrow> do {
         _ \<leftarrow> client_session_body kcp_of client_id tx (tl input);
         _ \<leftarrow> csm_unregister client_id tx;
         State_Monad.return ()
       }
   }"

end
