(* ===== verification/GrpcProps.thy ===== *)
theory GrpcProps
  imports GrpcServices
begin

text \<open>
  Properties of the streams: what statements cannot touch (locale \<open>db_blind\<close>), one answer for every
  question, the end of a stream, the limit on direct proxies, and where reported traffic goes.
\<close>

section \<open>Parts of the world that statements leave alone\<close>

locale db_blind =
  fixes view :: "world \<Rightarrow> 'v"
  assumes view_pop: "view (pop_fault w) = view w"
    and view_db: "view (w\<lparr>w_db := d\<rparr>) = view w"
    and view_uuids: "view (w\<lparr>w_uuids := us\<rparr>) = view w"
begin

definition sees :: "('v \<Rightarrow> bool) \<Rightarrow> world \<Rightarrow> bool" where
  "sees P w = P (view w)"

lemma sees_stmt [intro!]: "keeps (sees P) (stmt f)"
  by (auto simp: keeps_def wp_stmt sees_def view_pop view_db split: prod.splits)

lemma sees_statements [intro!]:
  "keeps (sees P) (query g)" "keeps (sees P) (find_by_id T i)" "keeps (sees P) (find_all T p)"
  "keeps (sees P) (find_one T p)" "keeps (sees P) (count_rows T p)" "keeps (sees P) (update_row T i h)"
  "keeps (sees P) (update_checked T i h)" "keeps (sees P) (delete_by_id T i)" "keeps (sees P) (delete_many T p)"
  "keeps (sees P) (insert_row T sq ss mk)"
  unfolding query_def find_by_id_def find_all_def find_one_def count_rows_def update_row_def
    update_checked_def delete_by_id_def delete_many_def insert_row_def
  by (auto simp: query_def)

lemma sees_uuid [intro!]: "keeps (sees P) new_uuid"
  by (auto simp: keeps_def wp_new_uuid sees_def view_uuids split: list.splits)

lemma sees_modify: "(\<And>w. view (f w) = view w) \<Longrightarrow> keeps (sees P) (modify f)"
  by (simp add: keeps_def sees_def)

lemma wp_sees:
  assumes "\<And>P. keeps (sees P) m" "\<And>r w'. view w' = view w \<Longrightarrow> Q r w'"
  shows "wp m Q w"
proof -
  have "wp m (\<lambda>_. sees (\<lambda>v. v = view w)) w"
    by (rule keepsD[OF assms(1)]) (simp add: sees_def)
  then show ?thesis by (rule wp_mono) (use assms(2) in \<open>simp add: sees_def\<close>)
qed

text \<open>What a node may ask.\<close>

lemma sees_owner: "keeps (sees P) (owner_exceeded c)"
  unfolding owner_exceeded_def by (auto split: option.splits)

lemma sees_validate: "keeps (sees P) (validate_token t)"
  unfolding validate_token_def by (auto intro: sees_owner split: option.splits)

lemma sees_user_limit: "keeps (sees P) (check_user_traffic_limit i)"
  unfolding check_user_traffic_limit_def reset_user_traffic_def get_user_final_quota_def
  by (auto split: option.splits)

lemma sees_direct: "keeps (sees P) (check_direct_proxy_limit n i)"
  unfolding check_direct_proxy_limit_def direct_verdict_def Let_def by (auto intro: sees_user_limit split: option.splits)

lemma sees_limit: "keeps (sees P) (traffic_limit n c p)"
  unfolding traffic_limit_def check_traffic_limit_def
  by (auto intro: sees_direct sees_owner split: option.splits)

lemma sees_filtered: "keeps (sees P) (get_client_proxies_filtered c n)"
  unfolding get_client_proxies_filtered_def by auto

lemmas sees_questions = sees_validate sees_limit sees_filtered

end

definition node_chans :: "world \<Rightarrow> (int \<times> nat) list" where
  "node_chans w = map (\<lambda>(i, s). (i, ss_chan s)) (w_nodes w)"

interpretation node_log: db_blind "\<lambda>w. (w_node_log w, w_closed w)"
  by unfold_locales simp_all

interpretation node_sessions: db_blind node_chans
  by unfold_locales (simp_all add: node_chans_def)

section \<open>One answer for every question\<close>

fun question :: "agent_payload \<Rightarrow> string option" where
  "question (ValidateToken rid _) = Some rid"
| "question (ClientOnline rid _ _) = Some rid"
| "question (CheckTrafficLimit rid _ _) = Some rid"
| "question (GetClientProxies rid _ _) = Some rid"
| "question _ = None"

fun reply_to :: "node_reply \<Rightarrow> string option" where
  "reply_to (ValidateTokenResponse rid _ _ _ _) = Some rid"
| "reply_to (ClientOnlineResponse rid _) = Some rid"
| "reply_to (TrafficLimitResponse rid _ _) = Some rid"
| "reply_to (GetClientProxiesResponse rid _) = Some rid"
| "reply_to _ = None"

lemma wp_node_answer:
  "wp (node_answer tx r) Q w =
    (if tx \<in> set (w_closed w) then Q False w
     else Q True (w\<lparr>w_node_log := w_node_log w @ [(tx, NodeReply r)]\<rparr>))"
  by (simp add: node_answer_def)

lemma reply_to_made [simp]:
  "reply_to (validate_reply rid r) = Some rid" "reply_to (limit_reply rid d x) = Some rid"
  by (auto simp: validate_reply_def limit_reply_def split: sum.splits)

lemma wp_question:
  assumes "tx \<notin> set (w_closed w)" "question p = Some rid"
  shows "wp (node_message node_id tx p) (\<lambda>r w'. r = (True, []) \<and> w_closed w' = w_closed w \<and>
    (\<exists>a. w_node_log w' = w_node_log w @ [(tx, NodeReply a)] \<and> reply_to a = Some rid)) w"
proof (cases p)
  case (ValidateToken i t)
  then show ?thesis using assms
    by (auto simp: node_message_def wp_node_answer
        intro!: node_log.wp_sees[OF node_log.sees_validate])
next
  case (ClientOnline i c b)
  then show ?thesis using assms
    by (auto simp: node_message_def wp_node_answer set_client_online_ack_def)
next
  case (CheckTrafficLimit i c q)
  then show ?thesis using assms
    by (auto simp: node_message_def wp_node_answer intro!: node_log.wp_sees[OF node_log.sees_limit])
next
  case (GetClientProxies i c n)
  then show ?thesis using assms
    by (auto simp: node_message_def wp_node_answer intro!: node_log.wp_sees[OF node_log.sees_filtered])
qed (use assms in simp_all)

text \<open>C25: whatever statements fail, a question that arrives on an open stream is answered at once, by one
  message with the question's identifier, and the stream goes on.\<close>

theorem every_question_is_answered:
  assumes "tx \<notin> set (w_closed w)" "question p = Some rid"
  shows "wp (node_message node_id tx p) (\<lambda>r w'. fst r \<and>
    (\<exists>a. w_node_log w' = w_node_log w @ [(tx, NodeReply a)] \<and> reply_to a = Some rid)) w"
  by (rule wp_mono[OF wp_question[OF assms]]) simp

lemma every_question_is_answered_witness:
  "wp (node_message 1 5 (ValidateToken ''q'' ''t''))
     (\<lambda>r w'. \<exists>a. w_node_log w' = [(5, NodeReply a)] \<and> reply_to a = Some ''q'') home_world"
  by (rule wp_mono, rule every_question_is_answered[of _ _ _ "''q''"]) (auto simp: home_world_def)

section \<open>The end of a stream\<close>

text \<open>Only the node that registered with the stream can have it as its session.\<close>

definition only_at :: "int \<Rightarrow> nat \<Rightarrow> (int \<times> nat) list \<Rightarrow> bool" where
  "only_at i tx v = (distinct (map fst v) \<and> (\<forall>j. (j, tx) \<in> set v \<longrightarrow> j = i))"

abbreviation sees_nodes :: "((int \<times> nat) list \<Rightarrow> bool) \<Rightarrow> world \<Rightarrow> bool" where
  "sees_nodes \<equiv> node_sessions.sees"

lemma chans_update:
  "map (\<lambda>(i, s). (i, ss_chan s)) (AList.update i s v) = AList.update i (ss_chan s) (map (\<lambda>(i, s). (i, ss_chan s)) v)"
  by (induction v) auto

lemma chans_delete:
  "map (\<lambda>(i, s). (i, ss_chan s)) (AList.delete i v) = AList.delete i (map (\<lambda>(i, s). (i, ss_chan s)) v)"
  by (induction v) (auto simp: AList.delete_eq)

lemma chans_pending: "node_chans (set_node_pending i p w) = node_chans w"
  by (auto simp: node_chans_def set_node_pending_def)

lemma map_of_chans: "map_of (map (\<lambda>(i, s). (i, ss_chan s)) v) i = map_option ss_chan (map_of v i)"
  by (induction v) auto

lemma keeps_chans_answer: "keeps (sees_nodes P) (node_answer tx r)"
  unfolding node_answer_def by (auto intro!: node_sessions.sees_modify simp: node_chans_def)

lemma keeps_chans_complete: "keeps (sees_nodes P) (nm_complete_pending_request i rid r)"
  unfolding nm_complete_pending_request_def
  by (auto intro!: node_sessions.sees_modify simp: chans_pending)

lemma keeps_chans_message: "keeps (sees_nodes P) (node_message i tx p)"
  unfolding node_message_def set_client_online_ack_def
  by (cases p) (auto intro!: keeps_chans_answer keeps_chans_complete node_sessions.sees_questions)

lemma keeps_chans_loop: "keeps (sees_nodes P) (node_loop i tx xs ms)"
  by (induction i tx xs ms rule: node_loop.induct) (auto intro!: keeps_chans_message)

lemma keeps_chans_persist: "keeps (sees_nodes P) (nm_persist_online_status i b)"
  unfolding nm_persist_online_status_def by auto

lemma keeps_chans_snapshot: "keeps (sees_nodes P) (send_direct_snapshot i)"
  unfolding send_direct_snapshot_def nm_send_def
  by (auto intro!: node_sessions.sees_modify simp: node_chans_def)

lemma keeps_chans_certificate: "keeps (sees_nodes P) (node_certificate cr node)"
  unfolding node_certificate_def get_or_generate_node_certificate_def find_cert_def new_cert_def
    decode_cert_def save_cert_def Let_def
  by (auto split: option.splits)

lemma wp_chans: "(\<And>P. keeps (sees_nodes P) m) \<Longrightarrow> (\<And>r w'. node_chans w' = node_chans w \<Longrightarrow> Q r w') \<Longrightarrow> wp m Q w"
  by (rule node_sessions.wp_sees) auto

lemma wp_register_only:
  assumes "distinct (map fst (node_chans w))" "tx \<notin> snd ` set (node_chans w)"
  shows "wp (register_node_stream i tx) (\<lambda>_ w'. only_at i tx (node_chans w')) w"
proof -
  let ?w = "w\<lparr>w_nodes := AList.update i \<lparr>ss_chan = tx, ss_pending = pending_new\<rparr> (w_nodes w)\<rparr>"
  have c: "node_chans ?w = AList.update i tx (node_chans w)" by (simp add: node_chans_def chans_update)
  have "only_at i tx (node_chans ?w)"
    unfolding only_at_def c
  proof (intro conjI allI impI)
    show "distinct (map fst (AList.update i tx (node_chans w)))" using assms(1) by (rule distinct_update)
    fix j assume j: "(j, tx) \<in> set (AList.update i tx (node_chans w))"
    have "map_of (AList.update i tx (node_chans w)) j = Some tx"
      using j distinct_update[OF assms(1)] by (simp add: map_of_eq_Some_iff)
    then have "j \<noteq> i \<longrightarrow> (j, tx) \<in> set (node_chans w)" by (auto simp: update_conv' dest: map_of_SomeD)
    then show "j = i" using assms(2) by force
  qed
  then show ?thesis
    unfolding register_node_stream_def wp_bind wp_modify
    by (intro wp_chans[OF keeps_chans_persist]) simp
qed

lemma wp_unregister_only:
  assumes "only_at i tx (node_chans w)"
  shows "wp (unregister_node_stream i tx) (\<lambda>_ w'. tx \<notin> snd ` set (node_chans w')) w"
proof (cases "map_of (node_chans w) i = Some tx")
  case True
  let ?w = "w\<lparr>w_nodes := AList.delete i (w_nodes w)\<rparr>"
  have c: "node_chans ?w = AList.delete i (node_chans w)" by (simp add: node_chans_def chans_delete)
  have "tx \<notin> snd ` set (node_chans ?w)"
    unfolding c using assms by (auto simp: only_at_def AList.delete_eq)
  moreover have "\<exists>s. node_session w i = Some s \<and> ss_chan s = tx"
    using True by (auto simp: node_chans_def node_session_def map_of_chans)
  ultimately show ?thesis
    unfolding unregister_node_stream_def
    by (auto intro!: wp_chans[OF keeps_chans_persist])
next
  case False
  then have "\<not> (case node_session w i of Some s \<Rightarrow> ss_chan s = tx | None \<Rightarrow> False)"
    by (auto simp: node_chans_def node_session_def map_of_chans split: option.splits)
  moreover have "tx \<notin> snd ` set (node_chans w)"
    using assms False by (auto simp: only_at_def)
  ultimately show ?thesis
    unfolding unregister_node_stream_def by auto
qed

definition opened :: "nat \<Rightarrow> int option \<Rightarrow> world \<Rightarrow> bool" where
  "opened tx r w' = (case r of None \<Rightarrow> tx \<notin> snd ` set (node_chans w') | Some i \<Rightarrow> only_at i tx (node_chans w'))"

lemma opened_simps [simp]:
  "opened tx None w' \<longleftrightarrow> tx \<notin> snd ` set (node_chans w')" "opened tx (Some i) w' = only_at i tx (node_chans w')"
  by (simp_all add: opened_def)

lemma wp_open_only:
  assumes "distinct (map fst (node_chans w))" "tx \<notin> snd ` set (node_chans w)"
  shows "wp (open_node_stream cr geo ip tx first) (opened tx) w"
proof -
  have refuse: "wp (refuse_node tx code) (opened tx) w0"
    if "node_chans w0 = node_chans w" for code w0
    unfolding refuse_node_def wp_bind
    by (rule wp_chans[OF keeps_chans_answer]) (use that assms in simp)
  have admit: "wp (admit_node cr geo ip tx version node) (opened tx) w0"
    if c: "node_chans w0 = node_chans w" for version node w0
    unfolding admit_node_def wp_bind wp_utc_now
  proof (rule wp_chans[OF node_sessions.sees_statements(6)], rule wp_chans[OF keeps_chans_certificate],
      rule wp_chans[OF keeps_chans_answer])
    fix ok w1 w2 w3
    assume "node_chans w1 = node_chans w0" "node_chans w2 = node_chans w1" "node_chans w3 = node_chans w2"
    then have "node_chans w3 = node_chans w" using c by simp
    with assms show "wp (if \<not> ok then State_Monad.return None
        else do { _ \<leftarrow> register_node_stream (n_id node) tx; _ \<leftarrow> send_direct_snapshot (n_id node);
          State_Monad.return (Some (n_id node)) }) (opened tx) w3"
      by (auto intro!: wp_mono[OF wp_register_only] wp_chans[OF keeps_chans_snapshot])
  qed
  have find: "wp (find_one nodes_t p) (\<lambda>r w'. node_chans w' = node_chans w) w" for p
    by (rule wp_chans[OF node_sessions.sees_statements(4)])
  show ?thesis
    unfolding open_node_stream_def
    by (auto simp: assms intro!: refuse admit wp_mono[OF find] split: incoming.splits option.splits
        agent_payload.splits sum.splits)
qed

text \<open>whatever arrives and whatever fails, once the controller is done with a node's stream no node has
  that stream as its session: nothing is sent to it any more, and its node counts as offline unless a
  newer stream took its place.\<close>

theorem finished_stream_is_forgotten:
  assumes "distinct (map fst (node_chans w))" "tx \<notin> snd ` set (node_chans w)"
  shows "wp (agent_server_channel cr geo ip tx input) (\<lambda>_ w'. tx \<notin> snd ` set (node_chans w')) w"
proof -
  have body: "wp (do { ms \<leftarrow> node_loop i tx xs []; _ \<leftarrow> unregister_node_stream i tx; State_Monad.return ms })
      (\<lambda>_ w'. tx \<notin> snd ` set (node_chans w')) w0" if "only_at i tx (node_chans w0)" for i xs w0
    unfolding wp_bind
    by (rule wp_chans[OF keeps_chans_loop])
       (use that in \<open>auto intro!: wp_mono[OF wp_unregister_only]\<close>)
  show ?thesis
    unfolding agent_server_channel_def wp_bind[of "open_node_stream _ _ _ _ _"]
  proof (rule wp_mono[OF wp_open_only[OF assms]])
    fix r w' assume "opened tx r w'"
    then show "wp (case r of None \<Rightarrow> State_Monad.return []
        | Some i \<Rightarrow> do { ms \<leftarrow> node_loop i tx (tl input) []; _ \<leftarrow> unregister_node_stream i tx; State_Monad.return ms })
        (\<lambda>_ w'. tx \<notin> snd ` set (node_chans w')) w'"
      by (cases r) (simp_all only: option.case opened_simps body wp_return not_False_eq_True)
  qed
qed

lemma finished_stream_is_forgotten_witness:
  "wp (agent_server_channel \<lparr>cr_generate = (\<lambda>_ _. Inl (E_msg M_success)), cr_encode = id, cr_decode = Some,
        cr_add_days = (\<lambda>t _. t), cr_timestamp = dt_ticks\<rparr> (\<lambda>_. None) None 5
        [Message (Some (Register ''s'' [])), Message (Some (AgentHeartbeat 3)), PeerClosed])
     (\<lambda>_ w'. (1, 5) \<notin> set (node_chans w')) (idle_world (empty_db\<lparr>db_nodes := [sample_node]\<rparr>))"
  by (rule wp_mono, rule finished_stream_is_forgotten) (auto simp: node_chans_def image_iff)

section \<open>Direct proxies\<close>

lemma user_limit_answer:
  "wp (check_user_traffic_limit i) (\<lambda>r w'. \<forall>why u. r = Inr (False, why) \<longrightarrow>
      row_get u_id i (db_users (w_db w)) = Some u \<longrightarrow>
      should_reset_traffic (w_now w) u \<or> \<not> quota_reached (u_quota_gb u) (u_sent u + u_received u)) w"
  by (auto simp: check_user_traffic_limit_def reset_user_traffic_def wp_find_by_id wp_update_row
      quota_verdict_def quota_reached_def split: option.splits if_splits)

lemma wp_direct_verdict:
  assumes "row_get u_id i (db_users (w_db w)) = Some u"
  shows "wp (direct_verdict node_id i) (\<lambda>r _. \<forall>why. r = Inr (False, why) \<longrightarrow>
      should_reset_traffic (w_now w) u \<or> \<not> quota_reached (u_quota_gb u) (u_sent u + u_received u)) w"
  unfolding direct_verdict_def wp_and_then
  by (rule wp_mono[OF user_limit_answer[of i w]])
     (use assms in \<open>auto simp: wp_find_by_id Let_def split: sum.split option.split\<close>)

text \<open>a node hears that a direct proxy is within its limits only when the proxy is direct, enabled and
  placed on that very node, its user exists, and neither the user nor the node has used up a quota
  whose cycle still runs. Every failure on the way counts as exceeded.\<close>

theorem direct_limit_fails_closed:
  assumes "tx \<notin> set (w_closed w)"
  shows "wp (node_message node_id tx (CheckTrafficLimit rid c (Some proxy_id))) (\<lambda>_ w'.
    \<forall>why. w_node_log w' = w_node_log w @ [(tx, NodeReply (TrafficLimitResponse rid False why))] \<longrightarrow>
      (\<exists>p i u. row_get p_id proxy_id (db_proxies (w_db w)) = Some p \<and> p_node_id p = Some node_id \<and>
         p_client_id p = None \<and> p_enabled p \<and> p_user_id p = Some i \<and>
         row_get u_id i (db_users (w_db w)) = Some u \<and>
         (should_reset_traffic (w_now w) u \<or> \<not> quota_reached (u_quota_gb u) (u_sent u + u_received u)))) w"
proof -
  have logged: "wp (check_direct_proxy_limit node_id proxy_id) (\<lambda>r w'. (w_node_log w', w_closed w') = (w_node_log w, w_closed w)) w"
    by (rule node_log.wp_sees[OF node_log.sees_direct]) simp
  have sound: "wp (check_direct_proxy_limit node_id proxy_id) (\<lambda>r _. \<forall>why. r = Inr (False, why) \<longrightarrow>
      (\<exists>p i u. row_get p_id proxy_id (db_proxies (w_db w)) = Some p \<and> p_node_id p = Some node_id \<and>
         p_client_id p = None \<and> p_enabled p \<and> p_user_id p = Some i \<and>
         row_get u_id i (db_users (w_db w)) = Some u \<and>
         (should_reset_traffic (w_now w) u \<or> \<not> quota_reached (u_quota_gb u) (u_sent u + u_received u)))) w"
  proof (cases "row_get p_id proxy_id (db_proxies (w_db w))")
    case None
    then show ?thesis by (simp add: check_direct_proxy_limit_def wp_find_by_id)
  next
    case (Some p)
    show ?thesis
    proof (cases "p_user_id p")
      case None
      then show ?thesis using Some by (simp add: check_direct_proxy_limit_def wp_find_by_id)
    next
      case (Some i)
      note user = this
      show ?thesis
      proof (cases "row_get u_id i (db_users (w_db w))")
        case None
        then show ?thesis using Some \<open>row_get p_id _ _ = Some p\<close>
          by (simp add: check_direct_proxy_limit_def wp_find_by_id)
      next
        case (Some u)
        have "wp (direct_verdict node_id i) (\<lambda>r _. \<forall>why. r = Inr (False, why) \<longrightarrow>
            should_reset_traffic (w_now w) u \<or> \<not> quota_reached (u_quota_gb u) (u_sent u + u_received u))
            (pop_fault (pop_fault w))"
          using wp_direct_verdict[of i "pop_fault (pop_fault w)" u] Some by simp
        then show ?thesis using Some user \<open>row_get p_id _ _ = Some p\<close>
          by (auto simp: check_direct_proxy_limit_def wp_find_by_id elim!: wp_mono)
      qed
    qed
  qed
  show ?thesis
    unfolding node_message_def traffic_limit_def agent_payload.case option.case wp_bind
    by (rule wp_both[OF logged sound]) (auto simp: wp_node_answer limit_reply_def assms split: sum.splits)
qed

lemma direct_limit_fails_closed_witness:
  "wp (node_message 1 5 (CheckTrafficLimit ''q'' 0 (Some 9))) (\<lambda>_ w'. \<forall>why.
     w_node_log w' \<noteq> [(5, NodeReply (TrafficLimitResponse ''q'' False why))]) home_world"
  by (rule wp_mono, rule direct_limit_fails_closed) (auto simp: home_world_def row_get_def)

section \<open>Reports\<close>

fun report_of :: "agent_payload \<Rightarrow> traffic_record list option" where
  "report_of (TrafficReport records) = Some records"
| "report_of _ = None"

text \<open>while a stream is open, each report starts a manager of its own, and the managers together hold
  exactly the traffic reported, record by record. None of them ever ends: there are as many as there
  were reports.\<close>

theorem reports_reach_managers:
  assumes "tx \<notin> set (w_closed w)"
  shows "wp (node_loop i tx (map (Message \<circ> Some) ps) ms) (\<lambda>r _.
    r = ms @ map report_events (List.map_filter report_of ps)) w"
  using assms
proof (induction ps arbitrary: w ms)
  case (Cons p ps)
  have step: "wp (node_message i tx p) (\<lambda>r w'. tx \<notin> set (w_closed w') \<and> fst r \<and>
      snd r = map report_events (List.map_filter report_of [p])) w"
  proof (cases "question p")
    case (Some rid)
    then have "report_of p = None" by (cases p) simp_all
    then show ?thesis
      by (intro wp_mono[OF wp_question[OF Cons.prems Some]]) (use Cons.prems in \<open>simp add: map_filter_simps\<close>)
  next
    case None
    then show ?thesis using Cons.prems
      by (cases p) (auto simp: node_message_def wp_node_answer nm_complete_pending_request_def
          map_filter_simps split: option.split)
  qed
  show ?case
    unfolding list.map comp_apply node_loop.simps wp_bind
    by (rule wp_mono[OF step])
       (auto simp: map_filter_simps intro!: wp_mono[OF Cons.IH[unfolded comp_def]] split: option.splits)
qed simp

lemma reports_reach_managers_witness:
  "wp (node_loop 1 5 (map (Message \<circ> Some) [AgentHeartbeat 0, TrafficReport [], TrafficReport []]) [])
     (\<lambda>r _. length r = 2) home_world"
  by (rule wp_mono, rule reports_reach_managers) (auto simp: home_world_def map_filter_simps)

end
