(* ===== verification/NodeListeners.thy ===== *)
theory NodeListeners
  imports Entities Domain Ports "HOL-Library.AList"
begin

text \<open>
  The listeners of a node: \<open>ProxyListenerManager\<close> of \<open>node/src/server/proxy\_server.rs\<close> for ports
  of one TCP or UDP proxy, \<open>DomainListeners\<close> of \<open>node/src/server/domain\_proxy.rs\<close> for the shared
  HTTP and TLS ports. Both maps are changed under their locks, so one operation is one step. A
  hash map is an association list; nothing below depends on its order.
\<close>

section \<open>State\<close>

datatype listen_error =
    L_domain domain_error
  | L_no_client
  | L_client_bound
  | L_upstream upstream_error
  | L_kind_differs
  | L_domain_taken
  | L_bind
  | L_type
  | L_client_id string
  | L_unknown string int
  | L_direct
  | L_answer

record route =
  rt_config :: proxy_config
  rt_upstream :: "url option"

record domain_listener =
  dl_kind :: string
  dl_routes :: "(string \<times> route) list"

text \<open>
  The task of a TCP or UDP proxy binds its port itself. While it has not, it is \<open>Trying\<close>: it
  waits five seconds after a failure, and it ends when by then its client is not connected.
\<close>

datatype phase = Trying | Listening | Ended

record task =
  tk_udp :: bool
  tk_port :: u16
  tk_target :: string
  tk_phase :: phase

text \<open>
  \<open>nd_quic\<close> and \<open>nd_tunnel\<close> are the connections the clients authenticated on, by client, and
  \<open>nd_busy\<close> the ports (UDP or not) that other processes hold.
\<close>

record node =
  nd_busy :: "(bool \<times> u16) list"
  nd_domains :: "(u16 \<times> domain_listener) list"
  nd_listeners :: "(string \<times> (int \<times> task) list) list"
  nd_quic :: "(string \<times> nat) list"
  nd_tunnel :: "(string \<times> nat) list"

definition is_online :: "string \<Rightarrow> node \<Rightarrow> bool" where
  "is_online client n = (map_of (nd_quic n) client \<noteq> None \<or> map_of (nd_tunnel n) client \<noteq> None)"

definition tasks_of :: "node \<Rightarrow> task list" where
  "tasks_of n = map snd (concat (map snd (nd_listeners n)))"

text \<open>Binding \<open>0.0.0.0:port\<close>: port 0 asks for any free port.\<close>

definition holds_port :: "bool \<Rightarrow> u16 \<Rightarrow> task \<Rightarrow> bool" where
  "holds_port udp port t = (tk_phase t = Listening \<and> tk_udp t = udp \<and> tk_port t = port)"

definition bind_ok :: "bool \<Rightarrow> u16 \<Rightarrow> node \<Rightarrow> bool" where
  "bind_ok udp port n =
    (port = 0 \<or>
     ((udp, port) \<notin> set (nd_busy n) \<and> \<not> list_ex (holds_port udp port) (tasks_of n) \<and>
      (udp \<or> map_of (nd_domains n) port = None)))"

section \<open>Shared ports\<close>

definition route_allowed :: "proxy_config \<Rightarrow> route \<Rightarrow> bool" where
  "route_allowed config r =
    (pc_proxy_id (rt_config r) = pc_proxy_id config \<and> pc_client_id (rt_config r) = pc_client_id config)"

definition upstream_of ::
  "(string \<Rightarrow> url option) \<Rightarrow> proxy_config \<Rightarrow> listen_error + url option" where
  "upstream_of url_parse config =
    (if pc_upstream config = []
     then (if pc_client_id config \<noteq> [] then Inr None else Inl L_no_client)
     else if pc_client_id config \<noteq> [] then Inl L_client_bound
     else (case parse_upstream url_parse (pc_type config) (pc_upstream config) of
             Inl e \<Rightarrow> Inl (L_upstream e)
           | Inr u \<Rightarrow> Inr (Some u)))"

definition add_route :: "proxy_config \<Rightarrow> route \<Rightarrow> node \<Rightarrow> (listen_error + unit) \<times> node" where
  "add_route config r n =
    (case map_of (nd_domains n) (pc_remote_port config) of
       Some l \<Rightarrow>
         if dl_kind l \<noteq> pc_type config then (Inl L_kind_differs, n)
         else if \<exists>old. map_of (dl_routes l) (pc_domain config) = Some old \<and> \<not> route_allowed config old
         then (Inl L_domain_taken, n)
         else (Inr (), n\<lparr>nd_domains := AList.update (pc_remote_port config)
                (l\<lparr>dl_routes := AList.update (pc_domain config) r (dl_routes l)\<rparr>) (nd_domains n)\<rparr>)
     | None \<Rightarrow>
         if bind_ok False (pc_remote_port config) n
         then (Inr (), n\<lparr>nd_domains := AList.update (pc_remote_port config)
                \<lparr>dl_kind = pc_type config, dl_routes = [(pc_domain config, r)]\<rparr> (nd_domains n)\<rparr>)
         else (Inl L_bind, n))"

definition domain_start ::
  "(string \<Rightarrow> url option) \<Rightarrow> proxy_config \<Rightarrow> node \<Rightarrow> (listen_error + unit) \<times> node" where
  "domain_start url_parse config n =
    (case normalize_pattern (pc_domain config) of
       Inl e \<Rightarrow> (Inl (L_domain e), n)
     | Inr d \<Rightarrow>
         let config = config\<lparr>pc_domain := d\<rparr> in
         (case upstream_of url_parse config of
            Inl e \<Rightarrow> (Inl e, n)
          | Inr upstream \<Rightarrow>
              add_route config \<lparr>rt_config = config, rt_upstream = upstream\<rparr> n))"

definition stops :: "string \<Rightarrow> int option \<Rightarrow> route \<Rightarrow> bool" where
  "stops client proxy r =
    (pc_client_id (rt_config r) = client \<and> (proxy = None \<or> proxy = Some (pc_proxy_id (rt_config r))))"

definition domain_stop :: "string \<Rightarrow> int option \<Rightarrow> node \<Rightarrow> node" where
  "domain_stop client proxy n =
    n\<lparr>nd_domains := filter (\<lambda>(port, l). dl_routes l \<noteq> [])
        (map (\<lambda>(port, l). (port, l\<lparr>dl_routes := filter (\<lambda>(d, r). \<not> stops client proxy r) (dl_routes l)\<rparr>))
          (nd_domains n))\<rparr>"

definition domain_active_count :: "node \<Rightarrow> nat" where
  "domain_active_count n = sum_list (map (\<lambda>(port, l). length (dl_routes l)) (nd_domains n))"

section \<open>Ports of one proxy\<close>

definition is_udp :: "string \<Rightarrow> bool" where
  "is_udp s = (to_lower s = ''udp'')"

definition target_addr :: "proxy_config \<Rightarrow> string" where
  "target_addr c = pc_local_ip c @ '':'' @ u16_str (pc_local_port c)"

definition client_tasks :: "string \<Rightarrow> node \<Rightarrow> (int \<times> task) list" where
  "client_tasks client n = (case map_of (nd_listeners n) client of Some ts \<Rightarrow> ts | None \<Rightarrow> [])"

definition start_one ::
  "(string \<Rightarrow> url option) \<Rightarrow> string \<Rightarrow> proxy_config \<Rightarrow> node \<Rightarrow> (listen_error + unit) \<times> node" where
  "start_one url_parse client c n =
    (if map_of (client_tasks client n) (pc_proxy_id c) \<noteq> None then (Inr (), n)
     else if pc_type c = ''http'' \<or> pc_type c = ''https'' then domain_start url_parse c n
     else if \<not> (pc_type c = ''tcp'' \<or> pc_type c = ''udp'') then (Inl L_type, n)
     else
       let udp = is_udp (pc_type c) in
       if \<not> bind_ok udp (pc_remote_port c) n then (Inl L_bind, n)
       else (Inr (), n\<lparr>nd_listeners := AList.update client
              (AList.update (pc_proxy_id c)
                \<lparr>tk_udp = udp, tk_port = pc_remote_port c, tk_target = target_addr c, tk_phase = Trying\<rparr>
                (client_tasks client n))
              (nd_listeners n)\<rparr>))"

fun start_all ::
  "(string \<Rightarrow> url option) \<Rightarrow> string \<Rightarrow> proxy_config list \<Rightarrow> node \<Rightarrow> (listen_error + unit) \<times> node" where
  "start_all url_parse client [] n = (Inr (), n)"
| "start_all url_parse client (c # cs) n =
    (case start_one url_parse client c n of
       (Inl e, n') \<Rightarrow> (Inl e, n')
     | (Inr _, n') \<Rightarrow> start_all url_parse client cs n')"

definition start_client_proxies ::
  "(string \<Rightarrow> url option) \<Rightarrow> string \<Rightarrow> proxy_config list \<Rightarrow> node \<Rightarrow> (listen_error + unit) \<times> node" where
  "start_client_proxies url_parse client proxies n =
    (if proxies = [] then (Inr (), n)
     else start_all url_parse client proxies
       (n\<lparr>nd_listeners := AList.update client (client_tasks client n) (nd_listeners n)\<rparr>))"

definition stop_client_proxies :: "string \<Rightarrow> node \<Rightarrow> node" where
  "stop_client_proxies client n =
    (domain_stop client None n)\<lparr>nd_listeners := AList.delete client (nd_listeners n)\<rparr>"

definition stop_single_proxy :: "string \<Rightarrow> int \<Rightarrow> node \<Rightarrow> node" where
  "stop_single_proxy client proxy n =
    (let n' = domain_stop client (Some proxy) n in
     case map_of (nd_listeners n) client of
       Some ts \<Rightarrow> n'\<lparr>nd_listeners := AList.update client (AList.delete proxy ts) (nd_listeners n)\<rparr>
     | None \<Rightarrow> n')"

definition active_count :: "node \<Rightarrow> nat" where
  "active_count n = length (filter (\<lambda>t. tk_phase t \<noteq> Ended) (tasks_of n)) + domain_active_count n"

text \<open>A turn of a task that is not listening yet: bind, and after a failure look for the client.\<close>

definition task_turn :: "string \<Rightarrow> int \<Rightarrow> node \<Rightarrow> node" where
  "task_turn client proxy n =
    (case map_of (client_tasks client n) proxy of
       Some t \<Rightarrow>
         if tk_phase t = Trying
         then let p = (if bind_ok (tk_udp t) (tk_port t) n then Listening
                       else if is_online client n then Trying else Ended)
              in n\<lparr>nd_listeners := AList.update client
                    (AList.update proxy (t\<lparr>tk_phase := p\<rparr>) (client_tasks client n)) (nd_listeners n)\<rparr>
         else n
     | None \<Rightarrow> n)"

end
