(* ===== verification/NodeRoutes.thy ===== *)
theory NodeRoutes
  imports NodeListeners
begin

text \<open>
  The routing table of a node as a partial map from port and pattern to route: what the operations
  of \<open>NodeListeners\<close> do to it, and what every reachable node guarantees.
\<close>

section \<open>The abstract table\<close>

definition route_at :: "node \<Rightarrow> u16 \<Rightarrow> string \<Rightarrow> route option" where
  "route_at n port d = Option.bind (map_of (nd_domains n) port) (\<lambda>l. map_of (dl_routes l) d)"

definition kind_at :: "node \<Rightarrow> u16 \<Rightarrow> string option" where
  "kind_at n port = map_option dl_kind (map_of (nd_domains n) port)"

text \<open>A route that may stand under a pattern on a port of a kind.\<close>

definition route_fits :: "u16 \<Rightarrow> string \<Rightarrow> string \<Rightarrow> route \<Rightarrow> bool" where
  "route_fits port kind d r =
    (valid_pattern d \<and> pc_domain (rt_config r) = d \<and> pc_remote_port (rt_config r) = port \<and>
     pc_type (rt_config r) = kind \<and>
     (case rt_upstream r of None \<Rightarrow> pc_client_id (rt_config r) \<noteq> []
                          | Some u \<Rightarrow> pc_client_id (rt_config r) = [] \<and> clean_origin kind u))"

definition listener_ok :: "u16 \<Rightarrow> domain_listener \<Rightarrow> bool" where
  "listener_ok port l =
    (dl_kind l \<in> {''http'', ''https''} \<and> dl_routes l \<noteq> [] \<and> distinct (map fst (dl_routes l)) \<and>
     (\<forall>(d, r) \<in> set (dl_routes l). route_fits port (dl_kind l) d r))"

definition shared_ok :: "node \<Rightarrow> bool" where
  "shared_ok n =
    (distinct (map fst (nd_domains n)) \<and> (\<forall>(port, l) \<in> set (nd_domains n). listener_ok port l))"

lemma shared_ok_listener: "shared_ok n \<Longrightarrow> map_of (nd_domains n) port = Some l \<Longrightarrow> listener_ok port l"
  by (auto simp: shared_ok_def dest!: map_of_SomeD)

lemma shared_ok_iff:
  "shared_ok n \<longleftrightarrow> distinct (map fst (nd_domains n)) \<and>
     (\<forall>port l. map_of (nd_domains n) port = Some l \<longrightarrow> listener_ok port l)"
  by (auto simp: shared_ok_def map_of_eq_Some_iff)

lemma listener_ok_route:
  "listener_ok port l \<Longrightarrow> map_of (dl_routes l) d = Some r \<Longrightarrow> route_fits port (dl_kind l) d r"
  by (auto simp: listener_ok_def dest!: map_of_SomeD)

lemma set_update_subset: "set (AList.update k v xs) \<subseteq> insert (k, v) (set xs)"
  by (induction xs) auto

lemma listener_ok_update:
  assumes "listener_ok port l" "route_fits port (dl_kind l) d r"
  shows "listener_ok port (l\<lparr>dl_routes := AList.update d r (dl_routes l)\<rparr>)"
proof -
  have "AList.update d r (dl_routes l) \<noteq> []"
    by (cases "dl_routes l") auto
  then show ?thesis
    using assms set_update_subset[of d r "dl_routes l"]
    by (auto simp: listener_ok_def distinct_update dest!: subsetD)
qed

section \<open>Starting\<close>

lemma upstream_of_fits:
  assumes "upstream_of url_parse config = Inr u" "pc_domain config = d" "valid_pattern d"
  shows "route_fits (pc_remote_port config) (pc_type config) d \<lparr>rt_config = config, rt_upstream = u\<rparr>"
  using assms
  by (auto simp: upstream_of_def route_fits_def split: if_splits sum.splits dest: parse_upstream_iff[THEN iffD1])

lemma add_route_result:
  "fst (add_route config r n) =
    (case map_of (nd_domains n) (pc_remote_port config) of
       None \<Rightarrow> if bind_ok False (pc_remote_port config) n then Inr () else Inl L_bind
     | Some l \<Rightarrow>
         if dl_kind l \<noteq> pc_type config then Inl L_kind_differs
         else if \<exists>old. route_at n (pc_remote_port config) (pc_domain config) = Some old \<and>
                       \<not> route_allowed config old then Inl L_domain_taken
         else Inr ())"
  by (simp add: add_route_def route_at_def split: option.splits)

lemma add_route_failed: "add_route config r n = (Inl e, n') \<Longrightarrow> n' = n"
  by (auto simp: add_route_def split: option.splits if_splits)

lemma add_route_table:
  assumes "add_route config r n = (Inr x, n')"
  shows "route_at n' port d =
    (if port = pc_remote_port config \<and> d = pc_domain config then Some r else route_at n port d)"
  using assms by (auto simp: add_route_def route_at_def update_conv' split: option.splits if_splits)

lemma add_route_frame:
  assumes "add_route config r n = (x, n')"
  shows "nd_listeners n' = nd_listeners n" "nd_busy n' = nd_busy n" "nd_quic n' = nd_quic n"
    "nd_tunnel n' = nd_tunnel n"
  using assms by (auto simp: add_route_def split: option.splits if_splits)

lemma add_route_ok:
  assumes "shared_ok n" "add_route config r n = (x, n')"
    "pc_type config \<in> {''http'', ''https''}"
    "route_fits (pc_remote_port config) (pc_type config) (pc_domain config) r"
  shows "shared_ok n'"
proof (cases "map_of (nd_domains n) (pc_remote_port config)")
  case None
  have "listener_ok (pc_remote_port config) \<lparr>dl_kind = pc_type config, dl_routes = [(pc_domain config, r)]\<rparr>"
    using assms(3,4) by (simp add: listener_ok_def)
  then show ?thesis
    using None assms(1,2) by (auto simp: add_route_def shared_ok_iff update_conv' distinct_update split: if_splits)
next
  case (Some l)
  with assms have "dl_kind l = pc_type config \<Longrightarrow>
      listener_ok (pc_remote_port config)
        (l\<lparr>dl_routes := AList.update (pc_domain config) r (dl_routes l)\<rparr>)"
    by (intro listener_ok_update shared_ok_listener[OF assms(1)]) auto
  then show ?thesis
    using Some assms(1,2) by (auto simp: add_route_def shared_ok_iff update_conv' distinct_update split: if_splits)
qed

lemma domain_start_cases:
  assumes "domain_start url_parse config n = (x, n')"
  obtains (failed) e where "x = Inl e" "n' = n"
  | (started) d u where "x = Inr ()" "normalize_pattern (pc_domain config) = Inr d"
      "upstream_of url_parse (config\<lparr>pc_domain := d\<rparr>) = Inr u"
      "add_route (config\<lparr>pc_domain := d\<rparr>) \<lparr>rt_config = config\<lparr>pc_domain := d\<rparr>, rt_upstream = u\<rparr> n = (Inr (), n')"
proof (cases x)
  case (Inl e)
  then have "n' = n"
    using assms by (auto simp: domain_start_def Let_def split: sum.splits dest: add_route_failed)
  then show ?thesis using failed Inl by blast
next
  case (Inr y)
  then show ?thesis
    using assms started by (auto simp: domain_start_def Let_def split: sum.splits)
qed

lemma domain_start_frame:
  assumes "domain_start url_parse config n = (x, n')"
  shows "nd_listeners n' = nd_listeners n \<and> nd_busy n' = nd_busy n \<and> nd_quic n' = nd_quic n \<and>
    nd_tunnel n' = nd_tunnel n"
  using assms by (cases rule: domain_start_cases) (use add_route_frame in \<open>auto\<close>)

lemma domain_start_ok:
  assumes "shared_ok n" "domain_start url_parse config n = (x, n')" "pc_type config \<in> {''http'', ''https''}"
  shows "shared_ok n'"
  using assms(2)
proof (cases rule: domain_start_cases)
  case (started d u)
  show ?thesis
  proof (rule add_route_ok[OF assms(1) started(4)])
    show "route_fits (pc_remote_port (config\<lparr>pc_domain := d\<rparr>)) (pc_type (config\<lparr>pc_domain := d\<rparr>))
       (pc_domain (config\<lparr>pc_domain := d\<rparr>)) \<lparr>rt_config = config\<lparr>pc_domain := d\<rparr>, rt_upstream = u\<rparr>"
      using started(2,3) normalize_pattern_valid by (intro upstream_of_fits) auto
  qed (use assms(3) in simp)
qed (use assms(1) in simp)

section \<open>Stopping\<close>

definition unstopped :: "string \<Rightarrow> int option \<Rightarrow> domain_listener \<Rightarrow> domain_listener" where
  "unstopped client proxy l = l\<lparr>dl_routes := filter (\<lambda>(d, r). \<not> stops client proxy r) (dl_routes l)\<rparr>"

lemma nd_domains_stop:
  "nd_domains (domain_stop client proxy n) =
    filter (\<lambda>(port, l). dl_routes l \<noteq> []) (map (\<lambda>(port, l). (port, unstopped client proxy l)) (nd_domains n))"
  by (simp add: domain_stop_def unstopped_def)

lemma map_of_filter_map:
  "distinct (map fst xs) \<Longrightarrow>
   map_of (filter (\<lambda>(k, v). P v) (map (\<lambda>(k, v). (k, f v)) xs)) k =
   (case map_of xs k of Some v \<Rightarrow> if P (f v) then Some (f v) else None | None \<Rightarrow> None)"
proof (induction xs)
  case (Cons x xs)
  have "map_of (filter (\<lambda>(k, v). P v) (map (\<lambda>(k, v). (k, f v)) xs)) k = None" if "fst x = k"
    using Cons.prems that by (auto simp: map_of_eq_None_iff image_iff)
  then show ?case using Cons by (cases x) auto
qed simp

lemma map_of_filter_value:
  "distinct (map fst xs) \<Longrightarrow>
   map_of (filter (\<lambda>(k, v). P v) xs) k =
   (case map_of xs k of Some v \<Rightarrow> if P v then Some v else None | None \<Rightarrow> None)"
  using map_of_filter_map[of xs P "\<lambda>v. v" k] by simp

lemma listener_at_stop:
  assumes "shared_ok n"
  shows "map_of (nd_domains (domain_stop client proxy n)) port =
    (case map_of (nd_domains n) port of
       Some l \<Rightarrow> if dl_routes (unstopped client proxy l) \<noteq> [] then Some (unstopped client proxy l) else None
     | None \<Rightarrow> None)"
  using assms by (simp add: nd_domains_stop map_of_filter_map shared_ok_def)

lemma route_at_stop:
  assumes "shared_ok n"
  shows "route_at (domain_stop client proxy n) port d =
    (case route_at n port d of Some r \<Rightarrow> if stops client proxy r then None else Some r | None \<Rightarrow> None)"
proof (cases "map_of (nd_domains n) port")
  case (Some l)
  then have "distinct (map fst (dl_routes l))"
    using shared_ok_listener[OF assms Some] by (simp add: listener_ok_def)
  from map_of_filter_value[OF this, of "\<lambda>r. \<not> stops client proxy r" d]
  have "map_of (dl_routes (unstopped client proxy l)) d =
    (case map_of (dl_routes l) d of Some r \<Rightarrow> if stops client proxy r then None else Some r | None \<Rightarrow> None)"
    by (simp add: unstopped_def if_distrib split: option.splits)
  then show ?thesis
    by (auto simp: route_at_def listener_at_stop[OF assms] Some split: option.splits)
qed (simp add: route_at_def listener_at_stop[OF assms])

lemma domain_stop_ok:
  assumes "shared_ok n"
  shows "shared_ok (domain_stop client proxy n)"
proof -
  have "distinct (map fst (nd_domains (domain_stop client proxy n)))"
  proof -
    have "map fst (map (\<lambda>(port, l). (port, unstopped client proxy l)) (nd_domains n)) = map fst (nd_domains n)"
      by (simp add: comp_def case_prod_unfold)
    then show ?thesis
      using assms unfolding nd_domains_stop shared_ok_def by (metis (no_types, lifting) distinct_map_filter)
  qed
  moreover have "listener_ok port (unstopped client proxy l)"
    if "listener_ok port l" "dl_routes (unstopped client proxy l) \<noteq> []" for port l
    using that by (auto simp: listener_ok_def unstopped_def distinct_map_filter)
  ultimately show ?thesis
    using assms by (auto simp: shared_ok_def nd_domains_stop)
qed

lemma domain_stop_frame:
  "nd_listeners (domain_stop client proxy n) = nd_listeners n" "nd_busy (domain_stop client proxy n) = nd_busy n"
  "nd_quic (domain_stop client proxy n) = nd_quic n" "nd_tunnel (domain_stop client proxy n) = nd_tunnel n"
  by (simp_all add: domain_stop_def)

section \<open>Tasks\<close>

definition task_at :: "node \<Rightarrow> string \<Rightarrow> int \<Rightarrow> task option" where
  "task_at n client proxy = map_of (client_tasks client n) proxy"

lemma task_at_in: "task_at n client proxy = Some t \<Longrightarrow> t \<in> set (tasks_of n)"
  by (force simp: task_at_def client_tasks_def tasks_of_def split: option.splits dest!: map_of_SomeD)

text \<open>No port has two listening sockets, of whatever kind.\<close>

definition sole :: "(string \<Rightarrow> int \<Rightarrow> task option) \<Rightarrow> (u16 \<Rightarrow> bool) \<Rightarrow> bool" where
  "sole f shared =
    ((\<forall>udp port c i t c' i' t'. port \<noteq> 0 \<and> f c i = Some t \<and> holds_port udp port t \<and>
        f c' i' = Some t' \<and> holds_port udp port t' \<longrightarrow> c = c' \<and> i = i') \<and>
     (\<forall>port c i t. port \<noteq> 0 \<and> f c i = Some t \<and> holds_port False port t \<longrightarrow> \<not> shared port))"

definition ports_ok :: "node \<Rightarrow> bool" where
  "ports_ok n = sole (task_at n) (\<lambda>p. map_of (nd_domains n) p \<noteq> None)"

lemma soleI:
  assumes "\<And>udp port c i t c' i' t'. port \<noteq> 0 \<Longrightarrow> f c i = Some t \<Longrightarrow> holds_port udp port t \<Longrightarrow>
      f c' i' = Some t' \<Longrightarrow> holds_port udp port t' \<Longrightarrow> c = c' \<and> i = i'"
    and "\<And>port c i t. port \<noteq> 0 \<Longrightarrow> f c i = Some t \<Longrightarrow> holds_port False port t \<Longrightarrow> \<not> shared port"
  shows "sole f shared"
  unfolding sole_def using assms by blast

lemma sole_task:
  "sole f shared \<Longrightarrow> port \<noteq> 0 \<Longrightarrow> f c i = Some t \<Longrightarrow> holds_port udp port t \<Longrightarrow>
   f c' i' = Some t' \<Longrightarrow> holds_port udp port t' \<Longrightarrow> c = c' \<and> i = i'"
  unfolding sole_def by blast

lemma sole_shared:
  "sole f shared \<Longrightarrow> port \<noteq> 0 \<Longrightarrow> f c i = Some t \<Longrightarrow> holds_port False port t \<Longrightarrow> \<not> shared port"
  unfolding sole_def by blast

lemma sole_less:
  assumes S: "sole f shared"
    and old: "\<And>c i t udp port. f' c i = Some t \<Longrightarrow> holds_port udp port t \<Longrightarrow> f c i = Some t"
    and free: "\<And>c i t port. port \<noteq> 0 \<Longrightarrow> f c i = Some t \<Longrightarrow> holds_port False port t \<Longrightarrow>
      \<not> shared port \<Longrightarrow> \<not> shared' port"
  shows "sole f' shared'"
proof (rule soleI)
  fix udp port c i t c' i' t'
  assume "port \<noteq> 0" and t: "f' c i = Some t" "holds_port udp port t" and t': "f' c' i' = Some t'" "holds_port udp port t'"
  then show "c = c' \<and> i = i'"
    using sole_task[OF S _ old[OF t] t(2) old[OF t'] t'(2)] by blast
next
  fix port c i t
  assume p: "port \<noteq> 0" and t: "f' c i = Some t" "holds_port False port t"
  show "\<not> shared' port"
    by (rule free[OF p old[OF t] t(2) sole_shared[OF S p old[OF t] t(2)]])
qed

lemma sole_open:
  assumes "sole f shared" "\<And>c i t. port \<noteq> 0 \<Longrightarrow> f c i = Some t \<Longrightarrow> \<not> holds_port udp port t"
    "port \<noteq> 0 \<Longrightarrow> \<not> udp \<Longrightarrow> \<not> shared port" "tk_udp u = udp" "tk_port u = port"
  shows "sole (\<lambda>c i. if c = a \<and> i = b then Some u else f c i) shared"
proof (rule soleI)
  fix v p c i t c' i' t'
  assume h: "p \<noteq> 0" "holds_port v p t" "holds_port v p t'"
    "(if c = a \<and> i = b then Some u else f c i) = Some t" "(if c' = a \<and> i' = b then Some u else f c' i') = Some t'"
  have same: "v = udp \<and> p = port" if "holds_port v p u" using that assms(4,5) by (simp add: holds_port_def)
  show "c = c' \<and> i = i'"
    using h same assms(2) sole_task[OF assms(1) h(1) _ h(2) _ h(3)] by (auto split: if_splits)
next
  fix p c i t
  assume "p \<noteq> 0" "holds_port False p t" "(if c = a \<and> i = b then Some u else f c i) = Some t"
  then show "\<not> shared p"
    using assms(3-5) sole_shared[OF assms(1), of p] by (auto simp: holds_port_def split: if_splits)
qed

definition node_ok :: "node \<Rightarrow> bool" where
  "node_ok n = (shared_ok n \<and> ports_ok n)"

lemma bind_ok_free:
  assumes "bind_ok udp port n" "port \<noteq> 0" "task_at n c i = Some t"
  shows "\<not> holds_port udp port t"
  using assms task_at_in[OF assms(3)] by (auto simp: bind_ok_def list_ex_iff)

text \<open>Changes that open no socket of a task: tasks go, or start to try, domains shrink.\<close>

lemma ports_ok_less:
  assumes "ports_ok n" "\<And>p. map_of (nd_domains n) p = None \<Longrightarrow> map_of (nd_domains n') p = None"
    "\<And>c i t. task_at n' c i = Some t \<Longrightarrow> task_at n c i = Some t \<or> tk_phase t \<noteq> Listening"
  shows "ports_ok n'"
  unfolding ports_ok_def
proof (rule sole_less[OF assms(1)[unfolded ports_ok_def]])
  show "task_at n' c i = Some t \<Longrightarrow> holds_port udp port t \<Longrightarrow> task_at n c i = Some t" for c i t udp port
    using assms(3)[of c i t] by (simp add: holds_port_def)
qed (use assms(2) in simp)

lemma add_route_ports:
  assumes "ports_ok n" "add_route config r n = (x, n')"
  shows "ports_ok n'"
proof -
  have t: "task_at n' = task_at n"
    using add_route_frame(1)[OF assms(2)] by (simp add: task_at_def client_tasks_def fun_eq_iff)
  have d: "map_of (nd_domains n') p = None"
    if "p \<noteq> 0" "map_of (nd_domains n) p = None" "task_at n c i = Some u" "holds_port False p u" for p c i u
    using assms(2) that bind_ok_free[OF _ that(1,3), of False]
    by (auto simp: add_route_def update_conv' split: option.splits if_splits)
  show ?thesis
    unfolding ports_ok_def t
    by (rule sole_less[OF assms(1)[unfolded ports_ok_def]]) (use d in simp_all)
qed

lemma domain_start_ports:
  assumes "ports_ok n" "domain_start url_parse config n = (x, n')"
  shows "ports_ok n'"
  using assms(2) by (cases rule: domain_start_cases) (use assms(1) add_route_ports in \<open>auto\<close>)

lemma start_one_cases:
  assumes "start_one url_parse client c n = (x, n')"
  obtains (same) "n' = n"
  | (shared) "pc_type c \<in> {''http'', ''https''}" "domain_start url_parse c n = (x, n')"
  | (own) "x = Inr ()" "pc_type c \<in> {''tcp'', ''udp''}"
      "bind_ok (is_udp (pc_type c)) (pc_remote_port c) n"
      "n' = n\<lparr>nd_listeners := AList.update client
              (AList.update (pc_proxy_id c)
                \<lparr>tk_udp = is_udp (pc_type c), tk_port = pc_remote_port c, tk_target = target_addr c,
                 tk_phase = Trying\<rparr> (client_tasks client n)) (nd_listeners n)\<rparr>"
proof -
  consider (a) "map_of (client_tasks client n) (pc_proxy_id c) \<noteq> None"
    | (b) "map_of (client_tasks client n) (pc_proxy_id c) = None" "pc_type c \<in> {''http'', ''https''}"
    | (d) "map_of (client_tasks client n) (pc_proxy_id c) = None" "pc_type c \<in> {''tcp'', ''udp''}"
        "bind_ok (is_udp (pc_type c)) (pc_remote_port c) n"
    | (e) "n' = n"
    using assms unfolding start_one_def Let_def by (simp split: if_split_asm)
  then show ?thesis
  proof cases
    case a
    then show ?thesis using assms same by (simp add: start_one_def)
  next
    case b
    then show ?thesis using assms shared by (auto simp: start_one_def)
  next
    case d
    moreover from d(2) have "\<not> (pc_type c = ''http'' \<or> pc_type c = ''https'')" by auto
    ultimately show ?thesis using assms own by (auto simp: start_one_def Let_def)
  qed (rule same)
qed

lemma task_at_update:
  "task_at (n\<lparr>nd_listeners := AList.update client (AList.update proxy t (client_tasks client n)) (nd_listeners n)\<rparr>) c i =
    (if c = client \<and> i = proxy then Some t else task_at n c i)"
  by (auto simp: task_at_def client_tasks_def update_conv')

lemma start_one_ok:
  assumes "node_ok n" "start_one url_parse client c n = (x, n')"
  shows "node_ok n'"
  using assms(2)
proof (cases rule: start_one_cases)
  case shared
  then show ?thesis using assms(1) domain_start_ok domain_start_ports unfolding node_ok_def by blast
next
  case own
  have "ports_ok n'"
    by (rule ports_ok_less[of n]) (use assms(1) in \<open>auto simp: own(4) node_ok_def task_at_update split: if_splits\<close>)
  then show ?thesis using assms(1) by (simp add: own(4) node_ok_def shared_ok_def)
qed (use assms(1) in simp)

lemma start_all_ok: "node_ok n \<Longrightarrow> start_all url_parse client cs n = (x, n') \<Longrightarrow> node_ok n'"
  by (induction cs arbitrary: n) (auto split: prod.splits sum.splits dest: start_one_ok)

text \<open>An entry of a client without tasks changes nothing that is looked at.\<close>

lemma client_tasks_open:
  "client_tasks c (n\<lparr>nd_listeners := AList.update client (client_tasks client n) (nd_listeners n)\<rparr>) = client_tasks c n"
  by (simp add: client_tasks_def update_conv')

lemma node_ok_same:
  assumes "node_ok n" "nd_domains n' = nd_domains n" "\<And>c i. task_at n' c i = task_at n c i"
  shows "node_ok n'"
proof -
  have t: "task_at n' = task_at n" using assms(3) by (intro ext)
  show ?thesis
    using assms(1) unfolding node_ok_def shared_ok_def ports_ok_def assms(2) t .
qed

lemma start_client_proxies_ok:
  assumes "node_ok n" "start_client_proxies url_parse client cs n = (x, n')"
  shows "node_ok n'"
proof (cases "cs = []")
  case False
  let ?m = "n\<lparr>nd_listeners := AList.update client (client_tasks client n) (nd_listeners n)\<rparr>"
  have "node_ok ?m"
    by (rule node_ok_same[OF assms(1)]) (simp_all add: task_at_def client_tasks_open)
  then show ?thesis using False assms(2) start_all_ok by (auto simp: start_client_proxies_def)
qed (use assms in \<open>simp add: start_client_proxies_def\<close>)

lemma node_ok_stop:
  assumes "node_ok n" "nd_domains n' = nd_domains (domain_stop client proxy n)"
    "\<And>c i t. task_at n' c i = Some t \<Longrightarrow> task_at n c i = Some t"
  shows "node_ok n'"
proof -
  have s: "shared_ok n" using assms(1) by (simp add: node_ok_def)
  have "map_of (nd_domains n') p = None" if "map_of (nd_domains n) p = None" for p
    using that unfolding assms(2) listener_at_stop[OF s] by simp
  then have "ports_ok n'"
    using assms(1,3) unfolding node_ok_def by (blast intro: ports_ok_less)
  moreover have "shared_ok n'"
    using domain_stop_ok[OF s, of client proxy] by (simp add: shared_ok_def assms(2))
  ultimately show ?thesis by (simp add: node_ok_def)
qed

lemma task_at_stop_client:
  "task_at (stop_client_proxies client n) c i = (if c = client then None else task_at n c i)"
  by (auto simp: task_at_def client_tasks_def stop_client_proxies_def delete_conv' split: option.splits)

lemma task_at_stop_single:
  "task_at (stop_single_proxy client proxy n) c i = (if c = client \<and> i = proxy then None else task_at n c i)"
  by (auto simp: task_at_def client_tasks_def stop_single_proxy_def delete_conv' update_conv' domain_stop_frame
      Let_def split: option.splits)

lemma stop_client_proxies_ok: "node_ok n \<Longrightarrow> node_ok (stop_client_proxies client n)"
  by (erule node_ok_stop[where client = client and proxy = None])
     (simp add: stop_client_proxies_def, simp add: task_at_stop_client split: if_splits)

lemma stop_single_proxy_ok: "node_ok n \<Longrightarrow> node_ok (stop_single_proxy client proxy n)"
  by (erule node_ok_stop[where client = client and proxy = "Some proxy"])
     (simp add: stop_single_proxy_def Let_def split: option.splits, simp add: task_at_stop_single split: if_splits)

lemma task_turn_ok:
  assumes "node_ok n"
  shows "node_ok (task_turn client proxy n)"
proof (cases "task_at n client proxy")
  case (Some t)
  show ?thesis
  proof (cases "tk_phase t = Trying \<and> bind_ok (tk_udp t) (tk_port t) n")
    case True
    let ?m = "task_turn client proxy n"
    let ?t = "t\<lparr>tk_phase := Listening\<rparr>"
    have m: "?m = n\<lparr>nd_listeners := AList.update client (AList.update proxy ?t (client_tasks client n)) (nd_listeners n)\<rparr>"
      using Some True by (simp add: task_turn_def task_at_def)
    have "task_at ?m = (\<lambda>c i. if c = client \<and> i = proxy then Some ?t else task_at n c i)"
      unfolding m by (intro ext) (rule task_at_update)
    moreover have "sole (\<lambda>c i. if c = client \<and> i = proxy then Some ?t else task_at n c i)
        (\<lambda>p. map_of (nd_domains n) p \<noteq> None)"
    proof (rule sole_open[where udp = "tk_udp t" and port = "tk_port t"])
      show "\<And>c i u. tk_port t \<noteq> 0 \<Longrightarrow> task_at n c i = Some u \<Longrightarrow> \<not> holds_port (tk_udp t) (tk_port t) u"
        using bind_ok_free True by blast
      show "tk_port t \<noteq> 0 \<Longrightarrow> \<not> tk_udp t \<Longrightarrow> \<not> map_of (nd_domains n) (tk_port t) \<noteq> None"
        using True by (simp add: bind_ok_def)
    qed (use assms in \<open>simp_all add: node_ok_def ports_ok_def\<close>)
    ultimately have "ports_ok ?m" by (simp add: ports_ok_def m)
    then show ?thesis using assms by (simp add: node_ok_def m shared_ok_def)
  next
    case False
    let ?m = "task_turn client proxy n"
    have d: "nd_domains ?m = nd_domains n" by (auto simp: task_turn_def Let_def split: option.splits)
    have "task_at ?m c i = Some u \<Longrightarrow> task_at n c i = Some u \<or> tk_phase u \<noteq> Listening" for c i u
      using False Some by (auto simp: task_turn_def task_at_update Let_def task_at_def[of n client proxy] split: if_splits)
    then show ?thesis
      using assms ports_ok_less[of n ?m] d by (auto simp: node_ok_def shared_ok_def)
  qed
qed (use assms in \<open>simp add: task_turn_def task_at_def\<close>)

end
