(* ===== verification/NodeControl.thy ===== *)
theory NodeControl
  imports NodeRoutes World
begin

text \<open>
  How a node obeys its controller: \<open>LocalProxyControl\<close> (\<open>node/src/server/local\_proxy\_control.rs\<close>),
  \<open>TunnelManager\<close> (\<open>tunnel\_manager.rs\<close>) and the commands of \<open>grpc\_client.rs\<close>. What a node reads
  from outside (the URL and PEM crates, its log buffer, the update, the address of a connection, the
  texts of errors) is a record of functions.
\<close>

section \<open>Proxies\<close>

record node_env =
  ne_url :: "string \<Rightarrow> url option"
  ne_proxies :: "int \<Rightarrow> unit + proxy_config list"   \<comment> \<open>\<open>get_client_proxies\<close> at this moment\<close>
  ne_pem :: "string \<Rightarrow> string \<Rightarrow> (string \<times> string) option"  \<comment> \<open>certificate and key in DER\<close>
  ne_address :: "nat \<Rightarrow> string"
  ne_client_logs :: "nat \<Rightarrow> nat \<Rightarrow> string + log_entry list"
  ne_node_logs :: "nat \<Rightarrow> log_entry list"
  ne_update :: "string + string"
  ne_text :: "listen_error \<Rightarrow> string"

definition local_start_proxy :: "node_env \<Rightarrow> string \<Rightarrow> int \<Rightarrow> node \<Rightarrow> (listen_error + unit) \<times> node" where
  "local_start_proxy env client proxy n =
    (let n = stop_single_proxy client proxy n in
     case parse_i64 client of
       None \<Rightarrow> (Inl (L_client_id client), n)
     | Some num \<Rightarrow>
         (case ne_proxies env num of
            Inl _ \<Rightarrow> (Inl L_answer, n)
          | Inr proxies \<Rightarrow>
              let targets = filter (\<lambda>p. pc_proxy_id p = proxy \<and> pc_enabled p) proxies in
              if targets = [] then (Inl (L_unknown client proxy), n)
              else start_client_proxies (ne_url env) client targets n))"

definition direct_config :: "proxy_config \<Rightarrow> bool" where
  "direct_config c = (pc_client_id c = [] \<and> pc_upstream c \<noteq> [] \<and> pc_enabled c)"

definition start_direct_proxy :: "node_env \<Rightarrow> proxy_config \<Rightarrow> node \<Rightarrow> (listen_error + unit) \<times> node" where
  "start_direct_proxy env c n =
    (if \<not> direct_config c then (Inl L_direct, n)
     else start_client_proxies (ne_url env) [] [c] (stop_single_proxy [] (pc_proxy_id c) n))"

fun restore_direct :: "node_env \<Rightarrow> proxy_config list \<Rightarrow> node \<Rightarrow> (listen_error + unit) \<times> node" where
  "restore_direct env [] n = (Inr (), n)"
| "restore_direct env (c # cs) n =
    (if \<not> direct_config c then (Inl L_direct, n)
     else restore_direct env cs (snd (start_client_proxies (ne_url env) [] [c] n)))"

definition sync_direct_proxies :: "node_env \<Rightarrow> proxy_config list \<Rightarrow> node \<Rightarrow> (listen_error + unit) \<times> node" where
  "sync_direct_proxies env configs n = restore_direct env configs (stop_client_proxies [] n)"

definition local_stop_proxy :: "string \<Rightarrow> int \<Rightarrow> node \<Rightarrow> (listen_error + unit) \<times> node" where
  "local_stop_proxy client proxy n = (Inr (), stop_single_proxy client proxy n)"

definition get_connected_clients :: "node_env \<Rightarrow> node \<Rightarrow> connected_client list" where
  "get_connected_clients env n =
    map (\<lambda>(c, k). \<lparr>cc_client_id = c, cc_remote = ne_address env k, cc_protocol = ''quic''\<rparr>) (nd_quic n) @
    map (\<lambda>(c, k). \<lparr>cc_client_id = c, cc_remote = ne_address env k, cc_protocol = ''kcp''\<rparr>) (nd_tunnel n)"

definition fetch_client_logs :: "node_env \<Rightarrow> string \<Rightarrow> nat \<Rightarrow> node \<Rightarrow> string + log_entry list" where
  "fetch_client_logs env client count n =
    (case map_of (nd_quic n) client of
       None \<Rightarrow> Inl ''client offline''
     | Some conn \<Rightarrow> ne_client_logs env conn count)"

section \<open>The tunnel listener\<close>

text \<open>
  A running listener is what it was started with: protocol, port and, for QUIC, the certificate
  and key of the server at that moment (\<open>ProxyServer::run\<close> builds its TLS configuration once).
\<close>

record tunnel_listener =
  tl_protocol :: string
  tl_port :: u16
  tl_cert :: "string \<times> string"

record tunnel =
  tn_port :: u16
  tn_protocol :: string
  tn_running :: "tunnel_listener option"
  tn_cert :: "string \<times> string"

definition tunnel_stop :: "tunnel \<Rightarrow> tunnel" where
  "tunnel_stop t = t\<lparr>tn_running := None\<rparr>"

definition tunnel_start :: "string \<Rightarrow> tunnel \<Rightarrow> tunnel" where
  "tunnel_start protocol t =
    (tunnel_stop t)\<lparr>tn_protocol := protocol,
       tn_running := Some \<lparr>tl_protocol = (if protocol = ''kcp'' \<or> protocol = ''tcp'' then protocol else ''quic''),
                           tl_port = tn_port t, tl_cert = tn_cert t\<rparr>\<rparr>"

definition update_port :: "u16 \<Rightarrow> tunnel \<Rightarrow> tunnel" where
  "update_port port t = (if tn_port t \<noteq> port then t\<lparr>tn_port := port\<rparr> else t)"

definition switch_protocol :: "string \<Rightarrow> tunnel \<Rightarrow> tunnel" where
  "switch_protocol protocol t =
    (if tn_protocol t = protocol then t else tunnel_start protocol (tunnel_stop t))"

definition update_server_certificate ::
  "node_env \<Rightarrow> string \<Rightarrow> string \<Rightarrow> tunnel \<Rightarrow> (string + unit) \<times> tunnel" where
  "update_server_certificate env cert_pem key_pem t =
    (case ne_pem env cert_pem key_pem of
       None \<Rightarrow> (Inl ''bad PEM'', t)
     | Some ck \<Rightarrow> (Inr (), t\<lparr>tn_cert := ck\<rparr>))"

section \<open>Commands\<close>

record agent =
  ag_node :: node
  ag_tunnel :: tunnel
  ag_rate :: u64
  ag_sent :: "(string \<times> agent_result) list"
  ag_restarts :: nat

definition send_response :: "string \<Rightarrow> agent_result \<Rightarrow> agent \<Rightarrow> agent" where
  "send_response rid result a = a\<lparr>ag_sent := ag_sent a @ [(rid, result)]\<rparr>"

definition ack_of :: "('e \<Rightarrow> string) \<Rightarrow> 'e + unit \<Rightarrow> agent_result" where
  "ack_of text_of r = (case r of Inr _ \<Rightarrow> CommandAck True None | Inl e \<Rightarrow> CommandAck False (Some (text_of e)))"

definition on_node ::
  "node_env \<Rightarrow> string \<Rightarrow> (node \<Rightarrow> (listen_error + unit) \<times> node) \<Rightarrow> agent \<Rightarrow> agent" where
  "on_node env rid f a =
    (case f (ag_node a) of (r, n) \<Rightarrow> send_response rid (ack_of (ne_text env) r) (a\<lparr>ag_node := n\<rparr>))"

text \<open>\<open>handle_controller_commands\<close>, with the conversion of \<open>message_loop\<close>; a \<open>usize\<close> count is read
  modulo the width the code casts it to.\<close>

fun handle_command :: "node_env \<Rightarrow> node_payload \<Rightarrow> agent \<Rightarrow> agent" where
  "handle_command env (SyncDirectProxies configs) a =
    a\<lparr>ag_node := snd (sync_direct_proxies env (map config_from_grpc configs) (ag_node a))\<rparr>"
| "handle_command env (StartProxy rid client proxy (Some config)) a =
    on_node env rid (start_direct_proxy env (config_from_grpc config)) a"
| "handle_command env (StartProxy rid client proxy None) a =
    on_node env rid (local_start_proxy env client proxy) a"
| "handle_command env (StopProxy rid client proxy) a =
    on_node env rid (local_stop_proxy client proxy) a"
| "handle_command env (GetStatus rid) a =
    send_response rid (ServerStatusResult (get_connected_clients env (ag_node a))
      (active_count (ag_node a) mod 2 ^ 32)) a"
| "handle_command env (GetClientLogs rid client count) a =
    send_response rid (case fetch_client_logs env client (count mod 2 ^ 16) (ag_node a) of
        Inr logs \<Rightarrow> ClientLogsResult logs
      | Inl e \<Rightarrow> CommandAck False (Some e)) a"
| "handle_command env (GetNodeLogs rid lines) a =
    send_response rid (NodeLogsResult (ne_node_logs env lines)) a"
| "handle_command env (UpdateProtocol rid protocol) a =
    send_response rid (CommandAck True None) (a\<lparr>ag_tunnel := switch_protocol protocol (ag_tunnel a)\<rparr>)"
| "handle_command env (UpdateSpeedLimit rid limit) a =
    send_response rid (CommandAck True None) (a\<lparr>ag_rate := limit\<rparr>)"
| "handle_command env (SoftwareUpdate rid) a =
    (case ne_update env of
       Inr version \<Rightarrow> (send_response rid (SoftwareUpdateResult True None (Some version)) a)
           \<lparr>ag_restarts := Suc (ag_restarts a)\<rparr>
     | Inl e \<Rightarrow> send_response rid (SoftwareUpdateResult False (Some e) None) a)"
| "handle_command env (UpdateCertificate rid cert) a =
    (case cert of
       Some c \<Rightarrow>
         (case update_server_certificate env (cm_cert c) (cm_key c) (ag_tunnel a) of
            (Inr _, t) \<Rightarrow> send_response rid (UpdateCertificateResult True None) (a\<lparr>ag_tunnel := t\<rparr>)
          | (Inl e, t) \<Rightarrow> send_response rid (UpdateCertificateResult False (Some e)) (a\<lparr>ag_tunnel := t\<rparr>))
     | None \<Rightarrow> send_response rid (UpdateCertificateResult False (Some ''no certificate'')) a)"
| "handle_command env (Restart rid) a =
    (send_response rid (CommandAck True None) a)\<lparr>ag_restarts := Suc (ag_restarts a)\<rparr>"
| "handle_command env (NodeReply r) a = a"

text \<open>What the reconnect loop of \<open>node/src/server/mod.rs\<close> does with the answer to its registration.\<close>

definition after_reconnect :: "string \<Rightarrow> i64 option \<Rightarrow> u16 \<Rightarrow> agent \<Rightarrow> agent" where
  "after_reconnect protocol limit port a =
    (let a = (case limit of Some l \<Rightarrow> a\<lparr>ag_rate := l\<rparr> | None \<Rightarrow> a)
     in if protocol \<noteq> []
        then a\<lparr>ag_tunnel := switch_protocol protocol (update_port port (ag_tunnel a))\<rparr>
        else a)"

end
