(* ===== verification/NodeProps.thy ===== *)
theory NodeProps
  imports NodeControl
begin

text \<open>
  What a node guarantees its controller: the snapshot sent after a reconnect becomes the node's table
  of direct proxies, an acknowledged start has its listener, and every command is answered once.
\<close>

section \<open>The snapshot of direct proxies\<close>

definition direct_route :: "(string \<Rightarrow> url option) \<Rightarrow> proxy_config \<Rightarrow> route" where
  "direct_route url_parse c =
    \<lparr>rt_config = c, rt_upstream = (case parse_upstream url_parse (pc_type c) (pc_upstream c) of
        Inr u \<Rightarrow> Some u | Inl _ \<Rightarrow> None)\<rparr>"

definition at_config :: "u16 \<Rightarrow> string \<Rightarrow> proxy_config \<Rightarrow> bool" where
  "at_config port d c = (pc_remote_port c = port \<and> pc_domain c = d)"

text \<open>A configuration the controller has checked: in normal form, with a usable upstream.\<close>

definition direct_sound :: "(string \<Rightarrow> url option) \<Rightarrow> proxy_config \<Rightarrow> bool" where
  "direct_sound url_parse c =
    (direct_config c \<and> pc_type c \<in> {''http'', ''https''} \<and> valid_pattern (pc_domain c) \<and>
     normalize_pattern (pc_domain c) = Inr (pc_domain c) \<and>
     (\<exists>u. parse_upstream url_parse (pc_type c) (pc_upstream c) = Inr u))"

text \<open>
  Where a snapshot can be restored in full: its routes do not clash with one another nor with the
  routes of the tunnel proxies, and the ports it needs can be bound.
\<close>

definition fits_node :: "node \<Rightarrow> proxy_config list \<Rightarrow> bool" where
  "fits_node n cs =
    (distinct (map (\<lambda>c. (pc_remote_port c, pc_domain c)) cs) \<and>
     (\<forall>c \<in> set cs. \<forall>c' \<in> set cs. pc_remote_port c = pc_remote_port c' \<longrightarrow> pc_type c = pc_type c') \<and>
     (\<forall>c \<in> set cs. route_at n (pc_remote_port c) (pc_domain c) = None \<and>
        (case kind_at n (pc_remote_port c) of
           Some k \<Rightarrow> k = pc_type c
         | None \<Rightarrow> bind_ok False (pc_remote_port c) n)))"

lemma fits_node_at:
  assumes "fits_node n cs" "x \<in> set cs"
  shows "route_at n (pc_remote_port x) (pc_domain x) = None"
    "case kind_at n (pc_remote_port x) of Some k \<Rightarrow> k = pc_type x | None \<Rightarrow> bind_ok False (pc_remote_port x) n"
  using assms(1)[unfolded fits_node_def] assms(2) by blast+

lemma fits_node_type:
  assumes "fits_node n cs" "x \<in> set cs" "y \<in> set cs" "pc_remote_port x = pc_remote_port y"
  shows "pc_type x = pc_type y"
  using assms(1)[unfolded fits_node_def] assms(2-) by blast

lemma direct_upstream:
  assumes "direct_sound url_parse c"
  shows "upstream_of url_parse c = Inr (rt_upstream (direct_route url_parse c))"
  using assms by (auto simp: direct_sound_def direct_config_def upstream_of_def direct_route_def)

lemma tasks_of_open:
  "tasks_of (n\<lparr>nd_listeners := AList.update c (client_tasks c n) (nd_listeners n)\<rparr>) = tasks_of n"
proof -
  have "concat (map snd (AList.update c (case map_of xs c of Some ts \<Rightarrow> ts | None \<Rightarrow> []) xs)) = concat (map snd xs)"
    for xs :: "(string \<times> (int \<times> task) list) list"
    by (induction xs) auto
  then show ?thesis by (simp add: tasks_of_def client_tasks_def)
qed

definition opened_direct :: "node \<Rightarrow> node" where
  "opened_direct n = n\<lparr>nd_listeners := AList.update [] (client_tasks [] n) (nd_listeners n)\<rparr>"

lemma opened_direct_view:
  assumes "client_tasks [] n = []"
  shows "nd_domains (opened_direct n) = nd_domains n" "client_tasks c (opened_direct n) = client_tasks c n"
    "bind_ok udp p (opened_direct n) = bind_ok udp p n" "route_at (opened_direct n) = route_at n"
    "kind_at (opened_direct n) = kind_at n"
proof -
  show d: "nd_domains (opened_direct n) = nd_domains n" by (simp add: opened_direct_def)
  show "client_tasks c (opened_direct n) = client_tasks c n"
    unfolding opened_direct_def by (rule client_tasks_open)
  show "bind_ok udp p (opened_direct n) = bind_ok udp p n"
    by (simp add: bind_ok_def opened_direct_def tasks_of_open)
  show "route_at (opened_direct n) = route_at n" "kind_at (opened_direct n) = kind_at n"
    by (simp_all add: route_at_def kind_at_def d fun_eq_iff)
qed

text \<open>One configuration of the snapshot.\<close>

lemma start_direct_step:
  assumes "direct_sound url_parse c" "client_tasks [] n = []" "fits_node n (c # cs)"
  defines "n' \<equiv> snd (start_client_proxies url_parse [] [c] n)"
  shows "route_at n' port d = (if at_config port d c then Some (direct_route url_parse c) else route_at n port d)"
    and "client_tasks [] n' = []" and "fits_node n' cs"
    and "\<And>k. k \<noteq> [] \<Longrightarrow> client_tasks k n' = client_tasks k n"
proof -
  let ?m = "opened_direct n"
  let ?r = "direct_route url_parse c"
  let ?p = "pc_remote_port c"
  note view = opened_direct_view[OF assms(2)]
  have c: "pc_type c \<in> {''http'', ''https''}" "normalize_pattern (pc_domain c) = Inr (pc_domain c)"
    using assms(1) by (auto simp: direct_sound_def)
  have r: "\<lparr>rt_config = c, rt_upstream = rt_upstream ?r\<rparr> = ?r" by (simp add: direct_route_def)
  have "start_client_proxies url_parse [] [c] n = start_all url_parse [] [c] ?m"
    by (simp add: start_client_proxies_def opened_direct_def)
  also have "\<dots> = start_one url_parse [] c ?m" by (simp split: prod.splits sum.splits)
  also have "\<dots> = domain_start url_parse c ?m"
    using c(1) assms(2) by (auto simp: start_one_def view(2))
  also have "\<dots> = add_route c ?r ?m"
    by (simp add: domain_start_def c(2) direct_upstream[OF assms(1)] r)
  finally have st: "start_client_proxies url_parse [] [c] n = add_route c ?r ?m" .
  have fit: "route_at n ?p (pc_domain c) = None"
    "case kind_at n ?p of Some k \<Rightarrow> k = pc_type c | None \<Rightarrow> bind_ok False ?p n"
    using assms(3) by (auto simp: fits_node_def)
  have "fst (add_route c ?r ?m) = Inr ()"
    using fit unfolding add_route_result view by (auto simp: kind_at_def split: option.splits)
  then have ok: "add_route c ?r ?m = (Inr (), n')" unfolding n'_def st by (metis prod.collapse)
  note frame = add_route_frame[OF ok]
  have route: "route_at n' p e = (if at_config p e c then Some ?r else route_at n p e)" for p e
    using add_route_table[OF ok, of p e] by (auto simp: view at_config_def)
  have tasks: "client_tasks k n' = client_tasks k n" for k
    using frame(1) view(2)[of k] by (simp add: client_tasks_def)
  have kind: "kind_at n' p = (if p = ?p then Some (pc_type c) else kind_at n p)" for p
    using ok fit(2) view(1)
    by (auto simp: add_route_def kind_at_def update_conv' split: option.splits if_splits)
  have bind: "bind_ok False p n' = bind_ok False p n" if "p \<noteq> ?p" for p
  proof -
    have "tasks_of n' = tasks_of ?m" "nd_busy n' = nd_busy n"
      using frame(1,2) by (simp_all add: tasks_of_def opened_direct_def)
    moreover have "map_of (nd_domains n') p = map_of (nd_domains n) p"
      using ok that view(1) by (auto simp: add_route_def update_conv' split: option.splits if_splits)
    ultimately show ?thesis using view(3)[of False p] by (simp add: bind_ok_def opened_direct_def view(1))
  qed
  show "route_at n' port d = (if at_config port d c then Some ?r else route_at n port d)" by (rule route)
  show "client_tasks [] n' = []" using tasks assms(2) by simp
  show "\<And>k. k \<noteq> [] \<Longrightarrow> client_tasks k n' = client_tasks k n" using tasks by simp
  show "fits_node n' cs"
  proof -
    have "route_at n' (pc_remote_port x) (pc_domain x) = None \<and>
        (case kind_at n' (pc_remote_port x) of Some k \<Rightarrow> k = pc_type x | None \<Rightarrow> bind_ok False (pc_remote_port x) n')"
      if x: "x \<in> set cs" for x
    proof (cases "pc_remote_port x = ?p")
      case True
      have "(pc_remote_port c, pc_domain c) \<noteq> (pc_remote_port x, pc_domain x)"
        using assms(3) x unfolding fits_node_def by (auto simp: image_iff)
      then have "\<not> at_config ?p (pc_domain x) c" using True by (simp add: at_config_def)
      then have "route_at n' ?p (pc_domain x) = route_at n ?p (pc_domain x)" by (simp add: route)
      moreover have "route_at n ?p (pc_domain x) = None"
        using fits_node_at(1)[OF assms(3), of x] x True by simp
      moreover have "pc_type c = pc_type x"
        by (rule fits_node_type[OF assms(3)]) (use x True in simp_all)
      ultimately show ?thesis unfolding True kind by simp
    next
      case False
      then have "route_at n' (pc_remote_port x) (pc_domain x) = route_at n (pc_remote_port x) (pc_domain x)"
        unfolding route at_config_def by auto
      moreover have "kind_at n' (pc_remote_port x) = kind_at n (pc_remote_port x)"
        using False unfolding kind by simp
      ultimately show ?thesis
        using fits_node_at[OF assms(3)] x unfolding bind[OF False] by simp
    qed
    moreover have "distinct (map (\<lambda>c. (pc_remote_port c, pc_domain c)) cs)"
      using assms(3) unfolding fits_node_def by simp
    moreover have "\<forall>x \<in> set cs. \<forall>y \<in> set cs. pc_remote_port x = pc_remote_port y \<longrightarrow> pc_type x = pc_type y"
      using fits_node_type[OF assms(3)] by (meson list.set_intros(2))
    ultimately show ?thesis unfolding fits_node_def by blast
  qed
qed

lemma restore_direct_exact:
  assumes "\<forall>c \<in> set cs. direct_sound (ne_url env) c" "client_tasks [] n = []" "fits_node n cs"
  shows "fst (restore_direct env cs n) = Inr () \<and>
    (\<forall>port d. route_at (snd (restore_direct env cs n)) port d =
       (case find (at_config port d) cs of
          Some c \<Rightarrow> Some (direct_route (ne_url env) c)
        | None \<Rightarrow> route_at n port d)) \<and>
    (\<forall>k. k \<noteq> [] \<longrightarrow> client_tasks k (snd (restore_direct env cs n)) = client_tasks k n)"
  using assms
proof (induction cs arbitrary: n)
  case (Cons c cs)
  let ?n = "snd (start_client_proxies (ne_url env) [] [c] n)"
  have c: "direct_sound (ne_url env) c" "direct_config c"
    using Cons.prems(1) by (simp_all add: direct_sound_def)
  note step = start_direct_step[OF c(1) Cons.prems(2,3)]
  have later: "find (at_config port d) cs = None" if "at_config port d c" for port d
    using Cons.prems(3) that by (force simp: fits_node_def at_config_def find_None_iff image_iff)
  have "fst (restore_direct env cs ?n) = Inr () \<and>
    (\<forall>port d. route_at (snd (restore_direct env cs ?n)) port d =
       (case find (at_config port d) cs of
          Some c \<Rightarrow> Some (direct_route (ne_url env) c)
        | None \<Rightarrow> route_at ?n port d)) \<and>
    (\<forall>k. k \<noteq> [] \<longrightarrow> client_tasks k (snd (restore_direct env cs ?n)) = client_tasks k ?n)"
    by (rule Cons.IH) (use Cons.prems(1) step(2,3) in simp_all)
  then show ?case using c(2) step(1,4) later by (auto split: option.splits)
qed simp

lemma route_at_stop_direct:
  assumes "shared_ok n"
  shows "route_at (stop_client_proxies [] n) port d =
    (case route_at n port d of Some r \<Rightarrow> if pc_client_id (rt_config r) = [] then None else Some r | None \<Rightarrow> None)"
proof -
  have "route_at (stop_client_proxies [] n) = route_at (domain_stop [] None n)"
    by (simp add: route_at_def stop_client_proxies_def fun_eq_iff)
  then show ?thesis by (simp add: route_at_stop[OF assms] stops_def split: option.splits)
qed

lemma client_tasks_stop: "client_tasks k (stop_client_proxies c n) = (if k = c then [] else client_tasks k n)"
  by (simp add: client_tasks_def stop_client_proxies_def delete_conv')

text \<open>C7: after the snapshot of a reconnect, the direct routes of the node are exactly the snapshot's,
  each to its own upstream, whatever direct routes it had before; the routes and listeners of tunnel
  proxies are as they were.\<close>

theorem sync_direct_exact:
  assumes "node_ok n" "\<forall>c \<in> set configs. direct_sound (ne_url env) c"
    "fits_node (stop_client_proxies [] n) configs"
  shows "fst (sync_direct_proxies env configs n) = Inr () \<and>
    (\<forall>port d. route_at (snd (sync_direct_proxies env configs n)) port d =
       (case find (at_config port d) configs of
          Some c \<Rightarrow> Some (direct_route (ne_url env) c)
        | None \<Rightarrow> (case route_at n port d of
              Some r \<Rightarrow> if pc_client_id (rt_config r) = [] then None else Some r
            | None \<Rightarrow> None))) \<and>
    (\<forall>k i. k \<noteq> [] \<longrightarrow> task_at (snd (sync_direct_proxies env configs n)) k i = task_at n k i)"
proof -
  have s: "shared_ok n" using assms(1) by (simp add: node_ok_def)
  show ?thesis
    using restore_direct_exact[OF assms(2) _ assms(3)]
    by (simp add: sync_direct_proxies_def client_tasks_stop route_at_stop_direct[OF s] task_at_def
        cong: option.case_cong)
qed

definition web_proxy :: proxy_config where
  "web_proxy =
    \<lparr>pc_proxy_id = 5, pc_client_id = [], pc_name = ''web'', pc_type = ''http'', pc_domain = ''a.io'',
     pc_upstream = ''http://b.io'', pc_user_id = Some 7, pc_local_ip = [], pc_local_port = 0,
     pc_remote_port = 80, pc_enabled = True\<rparr>"

definition web_url :: url where
  "web_url =
    \<lparr>url_scheme = ''http'', url_username = [], url_password = None, url_host_str = Some ''b.io'',
     url_port_or_default = Some 80, url_path = ''/'', url_query = None, url_fragment = None,
     url_as_str = ''http://b.io/''\<rparr>"

definition plain_env :: node_env where
  "plain_env =
    \<lparr>ne_url = (\<lambda>_. Some web_url), ne_proxies = (\<lambda>_. Inr []), ne_pem = (\<lambda>c k. Some (c, k)),
     ne_address = (\<lambda>_. ''10.0.0.1''), ne_client_logs = (\<lambda>_ _. Inr []), ne_node_logs = (\<lambda>_. []),
     ne_update = Inl ''up to date'', ne_text = (\<lambda>_. ''error'')\<rparr>"

definition bare_node :: node where
  "bare_node = \<lparr>nd_busy = [], nd_domains = [], nd_listeners = [], nd_quic = [], nd_tunnel = []\<rparr>"

lemma bare_node_ok: "node_ok bare_node"
  by (simp add: node_ok_def shared_ok_def ports_ok_def sole_def bare_node_def task_at_def client_tasks_def)

lemma web_proxy_sound: "direct_sound (ne_url plain_env) web_proxy"
proof -
  have "normalize_pattern ''a.io'' = Inr ''a.io''" by code_simp
  moreover have "valid_pattern ''a.io''" using normalize_pattern_valid calculation by blast
  moreover have "parse_upstream (\<lambda>_. Some web_url) ''http'' ''http://b.io'' = Inr web_url"
    by (simp add: parse_upstream_iff clean_origin_def web_url_def)
  ultimately show ?thesis
    by (simp add: direct_sound_def direct_config_def web_proxy_def plain_env_def)
qed

theorem sync_direct_exact_witness:
  "route_at (snd (sync_direct_proxies plain_env [web_proxy] bare_node)) 80 ''a.io'' =
     Some (direct_route (ne_url plain_env) web_proxy)"
proof -
  have "fits_node (stop_client_proxies [] bare_node) [web_proxy]"
    by (simp add: fits_node_def bare_node_def stop_client_proxies_def domain_stop_def route_at_def kind_at_def
        bind_ok_def tasks_of_def)
  then have "\<forall>port d. route_at (snd (sync_direct_proxies plain_env [web_proxy] bare_node)) port d =
       (case find (at_config port d) [web_proxy] of
          Some c \<Rightarrow> Some (direct_route (ne_url plain_env) c)
        | None \<Rightarrow> (case route_at bare_node port d of
              Some r \<Rightarrow> if pc_client_id (rt_config r) = [] then None else Some r
            | None \<Rightarrow> None))"
    using sync_direct_exact[OF bare_node_ok, of "[web_proxy]" plain_env] web_proxy_sound by simp
  then show ?thesis by (simp add: at_config_def web_proxy_def)
qed

section \<open>An acknowledged start has its listener\<close>

text \<open>Started from \<open>before\<close>: a shared port has the route with its origin, and was free if it had no listener;
  another port has its task, which listens with its next turn unless the port has been taken meanwhile.\<close>

definition serves :: "(string \<Rightarrow> url option) \<Rightarrow> node \<Rightarrow> string \<Rightarrow> proxy_config \<Rightarrow> node \<Rightarrow> bool" where
  "serves url_parse before client c n =
    (if pc_type c = ''http'' \<or> pc_type c = ''https''
     then (\<exists>d u. normalize_pattern (pc_domain c) = Inr d \<and> upstream_of url_parse (c\<lparr>pc_domain := d\<rparr>) = Inr u \<and>
             route_at n (pc_remote_port c) d = Some \<lparr>rt_config = c\<lparr>pc_domain := d\<rparr>, rt_upstream = u\<rparr> \<and>
             kind_at n (pc_remote_port c) = Some (pc_type c) \<and>
             (kind_at before (pc_remote_port c) = None \<longrightarrow> bind_ok False (pc_remote_port c) before))
     else (\<exists>t. task_at n client (pc_proxy_id c) = Some t \<and> tk_phase t = Trying \<and>
             tk_udp t = is_udp (pc_type c) \<and> tk_port t = pc_remote_port c \<and> tk_target t = target_addr c \<and>
             task_at (task_turn client (pc_proxy_id c) n) client (pc_proxy_id c) = Some (t\<lparr>tk_phase := Listening\<rparr>)))"

definition forgotten :: "string \<Rightarrow> int \<Rightarrow> node \<Rightarrow> bool" where
  "forgotten client proxy n =
    (task_at n client proxy = None \<and>
     (\<forall>port d r. route_at n port d = Some r \<longrightarrow> \<not> stops client (Some proxy) r))"

lemma forgotten_stop_single:
  assumes "node_ok n"
  shows "forgotten client proxy (stop_single_proxy client proxy n)"
proof -
  have s: "shared_ok n" using assms by (simp add: node_ok_def)
  have "route_at (stop_single_proxy client proxy n) = route_at (domain_stop client (Some proxy) n)"
    by (simp add: route_at_def stop_single_proxy_def Let_def fun_eq_iff split: option.splits)
  then show ?thesis
    by (simp add: forgotten_def task_at_stop_single route_at_stop[OF s] split: option.splits)
qed

text \<open>A task that is not listening takes no port.\<close>

lemma listed_task: "(k, ts) \<in> set (nd_listeners n) \<Longrightarrow> (j, x) \<in> set ts \<Longrightarrow> x \<in> set (tasks_of n)"
  by (force simp: tasks_of_def)

lemma added_tasks:
  "set (tasks_of (n\<lparr>nd_listeners := AList.update k (AList.update i t (client_tasks k n)) (nd_listeners n)\<rparr>)) \<subseteq>
    insert t (set (tasks_of n))"
proof
  fix x assume "x \<in> set (tasks_of (n\<lparr>nd_listeners := AList.update k (AList.update i t (client_tasks k n)) (nd_listeners n)\<rparr>))"
  then obtain l ts j where x: "(l, ts) \<in> set (AList.update k (AList.update i t (client_tasks k n)) (nd_listeners n))"
    "(j, x) \<in> set ts" by (auto simp: tasks_of_def)
  then consider "(l, ts) \<in> set (nd_listeners n)" | "ts = AList.update i t (client_tasks k n)"
    using set_update_subset[of k _ "nd_listeners n"] by blast
  then show "x \<in> insert t (set (tasks_of n))"
  proof cases
    case 1
    with x(2) show ?thesis by (simp add: listed_task)
  next
    case 2
    then have "(j, x) = (i, t) \<or> (j, x) \<in> set (client_tasks k n)"
      using x(2) set_update_subset[of i t "client_tasks k n"] by blast
    moreover have "x \<in> set (tasks_of n)" if "(j, x) \<in> set (client_tasks k n)"
    proof (cases "map_of (nd_listeners n) k")
      case (Some us)
      then show ?thesis
        using that listed_task[OF map_of_SomeD[OF Some]] by (simp add: client_tasks_def)
    qed (use that in \<open>simp add: client_tasks_def\<close>)
    ultimately show ?thesis by blast
  qed
qed

lemma bind_ok_added:
  assumes "bind_ok udp port n" "tk_phase t = Trying"
  shows "bind_ok udp port (n\<lparr>nd_listeners := AList.update k (AList.update i t (client_tasks k n)) (nd_listeners n)\<rparr>)"
  using assms added_tasks[where n = n and k = k and i = i and t = t]
  by (auto simp: bind_ok_def holds_port_def list_ex_iff)

lemma bind_ok_open:
  "bind_ok udp port (n\<lparr>nd_listeners := AList.update k (client_tasks k n) (nd_listeners n)\<rparr>) = bind_ok udp port n"
  by (simp add: bind_ok_def tasks_of_open)

lemma start_single:
  assumes "task_at n client (pc_proxy_id c) = None"
  shows "case start_client_proxies url_parse client [c] n of
      (Inr _, n') \<Rightarrow> serves url_parse n client c n'
    | (Inl _, n') \<Rightarrow> (\<forall>k i. task_at n' k i = task_at n k i) \<and> nd_domains n' = nd_domains n"
proof -
  let ?m = "n\<lparr>nd_listeners := AList.update client (client_tasks client n) (nd_listeners n)\<rparr>"
  let ?t = "\<lparr>tk_udp = is_udp (pc_type c), tk_port = pc_remote_port c, tk_target = target_addr c, tk_phase = Trying\<rparr>"
  let ?own = "?m\<lparr>nd_listeners := AList.update client
      (AList.update (pc_proxy_id c) ?t (client_tasks client ?m)) (nd_listeners ?m)\<rparr>"
  obtain x n' where one: "start_one url_parse client c ?m = (x, n')" by (metis prod.collapse)
  have ct: "client_tasks k ?m = client_tasks k n" for k by (rule client_tasks_open)
  have eq: "start_client_proxies url_parse client [c] n = (x, n')"
    using one by (cases x) (simp_all add: start_client_proxies_def)
  have no: "map_of (client_tasks client ?m) (pc_proxy_id c) = None"
    using assms by (simp add: ct task_at_def)
  consider (web) "pc_type c = ''http'' \<or> pc_type c = ''https''" "domain_start url_parse c ?m = (x, n')"
    | (bad) "x \<noteq> Inr ()" "n' = ?m"
    | (own) "\<not> (pc_type c = ''http'' \<or> pc_type c = ''https'')" "x = Inr ()" "n' = ?own"
        "bind_ok (is_udp (pc_type c)) (pc_remote_port c) ?m"
    using one no unfolding start_one_def Let_def by (auto simp only: split: if_split_asm)
  then show ?thesis
  proof cases
    case web
    from web(2) show ?thesis
    proof (cases rule: domain_start_cases)
      case (failed e)
      then show ?thesis by (simp add: eq task_at_def ct)
    next
      case (started d u)
      have "kind_at n (pc_remote_port c) = None \<longrightarrow> bind_ok False (pc_remote_port c) n"
        "kind_at n' (pc_remote_port c) = Some (pc_type c)"
        using started(4)
        by (auto simp: add_route_def kind_at_def update_conv' bind_ok_open split: option.splits if_splits)
      moreover have "route_at n' (pc_remote_port c) d = Some \<lparr>rt_config = c\<lparr>pc_domain := d\<rparr>, rt_upstream = u\<rparr>"
        using add_route_table[OF started(4)] by simp
      ultimately show ?thesis using web(1) started(1-3) by (simp add: eq serves_def)
    qed
  next
    case bad
    then show ?thesis by (cases x) (simp_all add: eq task_at_def ct)
  next
    case own
    have "bind_ok (is_udp (pc_type c)) (pc_remote_port c) ?own" by (rule bind_ok_added[OF own(4)]) simp
    moreover have at: "map_of (client_tasks client ?own) (pc_proxy_id c) = Some ?t"
      by (simp add: client_tasks_def update_conv')
    ultimately have "task_at (task_turn client (pc_proxy_id c) ?own) client (pc_proxy_id c) =
        Some (?t\<lparr>tk_phase := Listening\<rparr>)"
      by (simp add: task_turn_def task_at_def client_tasks_def[of client "nd_listeners_update _ _"] update_conv' Let_def)
    with own(1,2) at show ?thesis unfolding own(3) eq by (simp add: serves_def task_at_def)
  qed
qed

lemma distinct_one: "distinct (map f xs) \<Longrightarrow> (\<And>x. x \<in> set xs \<Longrightarrow> f x = a) \<Longrightarrow> length xs \<le> 1"
  by (cases xs; cases "tl xs") auto

text \<open>C6: when a node acknowledges the start of a tunnel proxy, the proxy the controller names is
  served. A web proxy has its route, with its origin, in the table of its port, which serves its type and was free
  if it is new. Another proxy has a task for its port and target, and the port was free: the task's next turn
  listens on it, unless something takes the port before that turn. When the node reports a failure,
  nothing of the proxy is left, whatever ran before.\<close>

theorem acknowledged_start_serves:
  assumes "node_ok n" "\<forall>num ps. ne_proxies env num = Inr ps \<longrightarrow> distinct (map pc_proxy_id ps)"
  shows "case local_start_proxy env client proxy n of
      (Inr _, n') \<Rightarrow> (\<exists>num ps c. parse_i64 client = Some num \<and> ne_proxies env num = Inr ps \<and> c \<in> set ps \<and>
         pc_proxy_id c = proxy \<and> pc_enabled c \<and>
         serves (ne_url env) (stop_single_proxy client proxy n) client c n')
    | (Inl _, n') \<Rightarrow> forgotten client proxy n'"
proof -
  let ?n = "stop_single_proxy client proxy n"
  note gone = forgotten_stop_single[OF assms(1), of client proxy]
  consider (bad) e where "local_start_proxy env client proxy n = (Inl e, ?n)"
    | (ask) num ps where "parse_i64 client = Some num" "ne_proxies env num = Inr ps"
        "filter (\<lambda>p. pc_proxy_id p = proxy \<and> pc_enabled p) ps \<noteq> []"
  proof (cases "\<exists>num ps. parse_i64 client = Some num \<and> ne_proxies env num = Inr ps \<and>
      filter (\<lambda>p. pc_proxy_id p = proxy \<and> pc_enabled p) ps \<noteq> []")
    case False
    then have "\<exists>e. local_start_proxy env client proxy n = (Inl e, ?n)"
      by (auto simp: local_start_proxy_def Let_def split: option.splits sum.splits)
    then show ?thesis using that(1) by blast
  qed (use that(2) in blast)
  then show ?thesis
  proof cases
    case bad
    then show ?thesis using gone by simp
  next
    case ask
    have "length (filter (\<lambda>p. pc_proxy_id p = proxy \<and> pc_enabled p) ps) \<le> 1"
      by (rule distinct_one[where f = pc_proxy_id and a = proxy])
         (use distinct_map_filter[OF assms(2)[rule_format, OF ask(2)]] in simp_all)
    then obtain c where c: "filter (\<lambda>p. pc_proxy_id p = proxy \<and> pc_enabled p) ps = [c]"
      using ask(3) by (cases "filter (\<lambda>p. pc_proxy_id p = proxy \<and> pc_enabled p) ps") (auto simp: Suc_le_eq)
    then have in_ps: "c \<in> set ps" "pc_proxy_id c = proxy" "pc_enabled c"
      by (auto simp: filter_eq_Cons_iff)
    obtain x n' where st: "start_client_proxies (ne_url env) client [c] ?n = (x, n')" by (metis prod.collapse)
    have eq: "local_start_proxy env client proxy n = (x, n')"
      using ask c st by (simp add: local_start_proxy_def Let_def)
    show ?thesis
      using start_single[of ?n client c "ne_url env"] gone in_ps ask(1,2)
      by (cases x) (auto simp: eq st forgotten_def route_at_def)
  qed
qed

definition ssh_proxy :: proxy_config where
  "ssh_proxy =
    \<lparr>pc_proxy_id = 3, pc_client_id = ''7'', pc_name = ''ssh'', pc_type = ''tcp'', pc_domain = [],
     pc_upstream = [], pc_user_id = None, pc_local_ip = ''127.0.0.1'', pc_local_port = 22,
     pc_remote_port = 2200, pc_enabled = True\<rparr>"

definition client_env :: node_env where
  "client_env = plain_env\<lparr>ne_proxies := (\<lambda>c. Inr (if c = 7 then [ssh_proxy] else []))\<rparr>"

lemma start_ssh_proxy:
  "local_start_proxy client_env ''7'' 3 bare_node =
    (Inr (), bare_node\<lparr>nd_listeners := [(''7'', [(3, \<lparr>tk_udp = False, tk_port = 2200, tk_target = ''127.0.0.1:22'',
       tk_phase = Trying\<rparr>)])]\<rparr>)"
proof -
  have "parse_i64 ''7'' = Some 7"
    by (simp add: parse_i64_def parse_unsigned_def parse_digits_def is_digit_def)
  moreover have "stop_single_proxy ''7'' 3 bare_node = bare_node"
    by (simp add: stop_single_proxy_def domain_stop_def bare_node_def)
  moreover have "filter (\<lambda>p. pc_proxy_id p = 3 \<and> pc_enabled p) [ssh_proxy] = [ssh_proxy]"
    by (simp add: ssh_proxy_def)
  moreover have "start_client_proxies (ne_url client_env) ''7'' [ssh_proxy] bare_node =
    (Inr (), bare_node\<lparr>nd_listeners := [(''7'', [(3, \<lparr>tk_udp = False, tk_port = 2200, tk_target = ''127.0.0.1:22'',
       tk_phase = Trying\<rparr>)])]\<rparr>)"
  proof -
    have "\<not> is_udp ''tcp''" by code_simp
    moreover have "target_addr ssh_proxy = ''127.0.0.1:22''"
    proof -
      have "nat_str 22 = ''22''" by code_simp
      then show ?thesis by (simp add: target_addr_def ssh_proxy_def u16_str_def)
    qed
    moreover have "bind_ok False 2200 (bare_node\<lparr>nd_listeners := [(''7'', [])]\<rparr>)"
      by (simp add: bind_ok_def tasks_of_def bare_node_def)
    moreover have "pc_type ssh_proxy = ''tcp''" "pc_proxy_id ssh_proxy = 3" "pc_remote_port ssh_proxy = 2200"
      by (simp_all add: ssh_proxy_def)
    ultimately show ?thesis
      by (simp add: start_client_proxies_def start_one_def client_tasks_def bare_node_def)
  qed
  ultimately show ?thesis
    by (simp add: local_start_proxy_def client_env_def Let_def)
qed

theorem acknowledged_start_serves_witness:
  "\<exists>c n'. local_start_proxy client_env ''7'' 3 bare_node = (Inr (), n') \<and> pc_proxy_id c = 3 \<and>
    serves (ne_url client_env) (stop_single_proxy ''7'' 3 bare_node) ''7'' c n'"
proof -
  have "\<forall>num ps. ne_proxies client_env num = Inr ps \<longrightarrow> distinct (map pc_proxy_id ps)"
    by (auto simp: client_env_def)
  from acknowledged_start_serves[OF bare_node_ok this, where client = "''7''" and proxy = 3] show ?thesis
    unfolding start_ssh_proxy by auto
qed

section \<open>Commands and answers\<close>

definition request_of :: "node_payload \<Rightarrow> string option" where
  "request_of cmd =
    (case cmd of
       StartProxy rid _ _ _ \<Rightarrow> Some rid | StopProxy rid _ _ \<Rightarrow> Some rid | GetStatus rid \<Rightarrow> Some rid
     | GetClientLogs rid _ _ \<Rightarrow> Some rid | GetNodeLogs rid _ \<Rightarrow> Some rid | UpdateProtocol rid _ \<Rightarrow> Some rid
     | UpdateSpeedLimit rid _ \<Rightarrow> Some rid | SoftwareUpdate rid \<Rightarrow> Some rid | UpdateCertificate rid _ \<Rightarrow> Some rid
     | Restart rid \<Rightarrow> Some rid | SyncDirectProxies _ \<Rightarrow> None | NodeReply _ \<Rightarrow> None)"

lemma on_node_sent: "\<exists>r. ag_sent (on_node env rid f a) = ag_sent a @ [(rid, r)]"
  by (simp add: on_node_def send_response_def split: prod.splits)

lemma handle_command_sent:
  "case request_of cmd of
     Some rid \<Rightarrow> \<exists>r. ag_sent (handle_command env cmd a) = ag_sent a @ [(rid, r)]
   | None \<Rightarrow> ag_sent (handle_command env cmd a) = ag_sent a"
  by (cases "(env, cmd, a)" rule: handle_command.cases)
     (auto simp: request_of_def on_node_sent send_response_def split: option.splits sum.splits prod.splits)

text \<open>What keeps the table of listeners consistent, for any command.\<close>

lemma restore_direct_ok: "node_ok n \<Longrightarrow> node_ok (snd (restore_direct env cs n))"
proof (induction cs arbitrary: n)
  case (Cons c cs)
  have "node_ok (snd (start_client_proxies (ne_url env) [] [c] n))"
    by (rule start_client_proxies_ok[OF Cons.prems]) (rule prod.collapse[symmetric])
  then show ?case using Cons by simp
qed simp

lemma local_start_proxy_ok: "node_ok n \<Longrightarrow> node_ok (snd (local_start_proxy env client proxy n))"
  using stop_single_proxy_ok[of n client proxy] start_client_proxies_ok[OF _ prod.collapse[symmetric]]
  by (auto simp: local_start_proxy_def Let_def split: option.splits sum.splits)

lemma start_direct_proxy_ok: "node_ok n \<Longrightarrow> node_ok (snd (start_direct_proxy env c n))"
  using stop_single_proxy_ok[of n "[]" "pc_proxy_id c"] start_client_proxies_ok[OF _ prod.collapse[symmetric]]
  by (auto simp: start_direct_proxy_def)

lemma on_node_ok:
  "node_ok (snd (f (ag_node a))) \<Longrightarrow> node_ok (ag_node (on_node env rid f a))"
  by (auto simp: on_node_def send_response_def split: prod.splits)

lemma handle_command_ok:
  assumes "node_ok (ag_node a)"
  shows "node_ok (ag_node (handle_command env cmd a))"
  by (cases "(env, cmd, a)" rule: handle_command.cases)
     (use assms in \<open>auto simp: sync_direct_proxies_def local_stop_proxy_def send_response_def
        intro!: on_node_ok local_start_proxy_ok start_direct_proxy_ok restore_direct_ok stop_client_proxies_ok
          stop_single_proxy_ok split: option.splits sum.splits prod.splits\<close>)

text \<open>a node answers every command that carries a request identifier exactly once and under that
  identifier, also when the command fails, and a snapshot not at all; so of the commands it handles,
  in any number, every request of the controller is answered.\<close>

theorem commands_are_answered:
  "map fst (ag_sent (fold (handle_command env) cmds a)) = map fst (ag_sent a) @ List.map_filter request_of cmds"
proof (induction cmds arbitrary: a)
  case (Cons cmd cmds)
  then show ?case
    using handle_command_sent[where cmd = cmd and env = env and a = a] by (auto simp: List.map_filter_def split: option.splits)
qed (simp add: List.map_filter_def)

end
