(* ===== verification/NodeSessions.thy ===== *)
theory NodeSessions
  imports NodeProps
begin

text \<open>
  The clients of a node: \<open>handle_client_auth\<close> (QUIC) and \<open>handle_tunnel_client_auth\<close> (KCP and TCP)
  of \<open>node/src/server/proxy\_server.rs\<close>. Each client connection has a task that authenticates it,
  enters it in the map of its transport, starts the client's proxies and, when the connection ends,
  cleans up; a second task looks for the end of the connection at intervals and cleans up likewise.
  A step is what happens between two points where a task waits, so every interleaving is a sequence
  of steps.
\<close>

section \<open>Steps\<close>

datatype transport = Quic | Tunnel

text \<open>
  \<open>sv_known\<close> lists the connections that were authenticated, with their transport and client;
  \<open>sv_closed\<close> the connections that have ended; \<open>sv_stopping\<close> the clients whose entry has been
  removed by a cleanup that has yet to stop their proxies; \<open>sv_reports\<close> what the controller was told.
\<close>

record server =
  sv_node :: node
  sv_known :: "(nat \<times> transport \<times> int) list"
  sv_closed :: "nat list"
  sv_stopping :: "int list"
  sv_reports :: "(int \<times> bool) list"

definition conn_map :: "transport \<Rightarrow> node \<Rightarrow> (string \<times> nat) list" where
  "conn_map tr n = (case tr of Quic \<Rightarrow> nd_quic n | Tunnel \<Rightarrow> nd_tunnel n)"

definition set_conn_map :: "transport \<Rightarrow> (string \<times> nat) list \<Rightarrow> node \<Rightarrow> node" where
  "set_conn_map tr m n = (case tr of Quic \<Rightarrow> n\<lparr>nd_quic := m\<rparr> | Tunnel \<Rightarrow> n\<lparr>nd_tunnel := m\<rparr>)"

text \<open>What \<open>validate_token\<close> answered: an error, a refusal, or the client.\<close>

datatype token_verdict = TokenError | Refused | Allowed int

definition authenticate :: "transport \<Rightarrow> nat \<Rightarrow> token_verdict \<Rightarrow> server \<Rightarrow> server" where
  "authenticate tr conn verdict s =
    (case verdict of
       Allowed client \<Rightarrow>
         s\<lparr>sv_node := set_conn_map tr (AList.update (int_str client) conn (conn_map tr (sv_node s))) (sv_node s),
           sv_known := (conn, tr, client) # sv_known s,
           sv_reports := sv_reports s @ [(client, True)]\<rparr>
     | _ \<Rightarrow> s)"

definition start_known ::
  "(string \<Rightarrow> url option) \<Rightarrow> int \<Rightarrow> unit + proxy_config list \<Rightarrow> server \<Rightarrow> server" where
  "start_known url_parse client answer s =
    (case answer of
       Inr proxies \<Rightarrow>
         s\<lparr>sv_node := snd (start_client_proxies url_parse (int_str client) proxies (sv_node s))\<rparr>
     | Inl _ \<Rightarrow> s)"

text \<open>The first half of a cleanup, under the lock of the map; \<open>Arc::ptr_eq\<close> compares connections.\<close>

definition cleanup_entry :: "transport \<Rightarrow> nat \<Rightarrow> int \<Rightarrow> server \<Rightarrow> server" where
  "cleanup_entry tr conn client s =
    (if map_of (conn_map tr (sv_node s)) (int_str client) = Some conn
     then s\<lparr>sv_node := set_conn_map tr (AList.delete (int_str client) (conn_map tr (sv_node s))) (sv_node s),
            sv_stopping := client # sv_stopping s\<rparr>
     else s)"

definition cleanup_proxies :: "int \<Rightarrow> server \<Rightarrow> server" where
  "cleanup_proxies client s =
    s\<lparr>sv_node := stop_client_proxies (int_str client) (sv_node s),
      sv_stopping := remove1 client (sv_stopping s),
      sv_reports := sv_reports s @ [(client, False)]\<rparr>"

text \<open>A client identifier is an \<open>i64\<close>; a connection is authenticated once.\<close>

definition is_i64 :: "int \<Rightarrow> bool" where
  "is_i64 i = (- (2 ^ 63) \<le> i \<and> i < 2 ^ 63)"

inductive session_step :: "(string \<Rightarrow> url option) \<Rightarrow> server \<Rightarrow> server \<Rightarrow> bool"
  for url_parse :: "string \<Rightarrow> url option"
  where
    Connected: "conn \<notin> fst ` set (sv_known s) \<Longrightarrow> (case v of Allowed c \<Rightarrow> is_i64 c | _ \<Rightarrow> True) \<Longrightarrow>
      session_step url_parse s (authenticate tr conn v s)"
  | Started: "(conn, tr, client) \<in> set (sv_known s) \<Longrightarrow>
      session_step url_parse s (start_known url_parse client answer s)"
  | Closed: "session_step url_parse s (s\<lparr>sv_closed := conn # sv_closed s\<rparr>)"
  | Cleaned: "(conn, tr, client) \<in> set (sv_known s) \<Longrightarrow> conn \<in> set (sv_closed s) \<Longrightarrow>
      session_step url_parse s (cleanup_entry tr conn client s)"
  | Stopped: "client \<in> set (sv_stopping s) \<Longrightarrow> session_step url_parse s (cleanup_proxies client s)"
  | Turned: "session_step url_parse s (s\<lparr>sv_node := task_turn client proxy (sv_node s)\<rparr>)"
  | Commanded: "session_step url_parse s
      (s\<lparr>sv_node := ag_node (handle_command env cmd \<lparr>ag_node = sv_node s, ag_tunnel = t, ag_rate = r,
         ag_sent = out, ag_restarts = k\<rparr>)\<rparr>)"
  | Ports: "session_step url_parse s (s\<lparr>sv_node := (sv_node s)\<lparr>nd_busy := busy\<rparr>\<rparr>)"

definition new_server :: server where
  "new_server = \<lparr>sv_node = bare_node, sv_known = [], sv_closed = [], sv_stopping = [], sv_reports = []\<rparr>"

inductive session_reach :: "(string \<Rightarrow> url option) \<Rightarrow> server \<Rightarrow> bool"
  for url_parse :: "string \<Rightarrow> url option"
  where
    Start: "session_reach url_parse new_server"
  | Step: "session_reach url_parse s \<Longrightarrow> session_step url_parse s s' \<Longrightarrow> session_reach url_parse s'"

inductive_cases session_stepE: "session_step url_parse s s'"

section \<open>Every reachable server\<close>

lemma conn_map_set: "conn_map tr (set_conn_map tr' m n) = (if tr = tr' then m else conn_map tr n)"
  by (cases tr; cases tr') (simp_all add: conn_map_def set_conn_map_def)

lemma set_conn_map_frame:
  "nd_domains (set_conn_map tr m n) = nd_domains n" "nd_listeners (set_conn_map tr m n) = nd_listeners n"
  by (cases tr; simp add: set_conn_map_def)+

lemma node_ok_view:
  "node_ok n \<Longrightarrow> nd_domains n' = nd_domains n \<Longrightarrow> nd_listeners n' = nd_listeners n \<Longrightarrow> node_ok n'"
  by (erule node_ok_same) (simp_all add: task_at_def client_tasks_def)

text \<open>Which operations leave the maps of connections alone.\<close>

definition same_conns :: "node \<Rightarrow> node \<Rightarrow> bool" where
  "same_conns n n' = (\<forall>tr. conn_map tr n' = conn_map tr n)"

lemma same_connsI: "nd_quic n' = nd_quic n \<Longrightarrow> nd_tunnel n' = nd_tunnel n \<Longrightarrow> same_conns n n'"
  by (simp add: same_conns_def conn_map_def split: transport.splits)

lemma same_conns_trans: "same_conns a b \<Longrightarrow> same_conns b c \<Longrightarrow> same_conns a c"
  by (simp add: same_conns_def)

lemma same_conns_stop_single: "same_conns n (stop_single_proxy c i n)"
  by (rule same_connsI) (simp_all add: stop_single_proxy_def Let_def domain_stop_frame split: option.splits)

lemma same_conns_stop_client: "same_conns n (stop_client_proxies c n)"
  by (rule same_connsI) (simp_all add: stop_client_proxies_def domain_stop_frame)

lemma same_conns_start_one: "start_one url_parse client c n = (x, n') \<Longrightarrow> same_conns n n'"
  by (erule start_one_cases; rule same_connsI) (use domain_start_frame in \<open>auto\<close>)

lemma same_conns_start_all: "start_all url_parse client cs n = (x, n') \<Longrightarrow> same_conns n n'"
proof (induction cs arbitrary: n)
  case (Cons c cs)
  obtain y m where one: "start_one url_parse client c n = (y, m)" by (metis prod.collapse)
  from same_conns_start_one[OF one] show ?case
    using Cons one by (cases y) (auto intro: same_conns_trans)
qed (simp add: same_conns_def)

lemma same_conns_start:
  "same_conns n (snd (start_client_proxies url_parse client cs n))"
proof (cases "cs = []")
  case False
  let ?m = "n\<lparr>nd_listeners := AList.update client (client_tasks client n) (nd_listeners n)\<rparr>"
  have "same_conns n ?m" by (rule same_connsI) simp_all
  then show ?thesis
    using False same_conns_start_all[OF prod.collapse[symmetric], where n = ?m]
    by (auto simp: start_client_proxies_def intro: same_conns_trans)
qed (simp add: start_client_proxies_def same_conns_def)

lemma same_conns_restore: "same_conns n (snd (restore_direct env cs n))"
proof (induction cs arbitrary: n)
  case (Cons c cs)
  then show ?case
    using same_conns_start by (auto intro: same_conns_trans simp: same_conns_def)
qed (simp add: same_conns_def)

lemma same_conns_turn: "same_conns n (task_turn c i n)"
  by (rule same_connsI) (auto simp: task_turn_def Let_def split: option.splits)

lemma same_conns_command: "same_conns (ag_node a) (ag_node (handle_command env cmd a))"
proof -
  have on: "same_conns (ag_node a) (ag_node (on_node env rid f a))"
    if "same_conns (ag_node a) (snd (f (ag_node a)))" for rid f
    using that by (auto simp: on_node_def send_response_def split: prod.splits)
  have local: "same_conns n (snd (local_start_proxy env c i n))" for c i n
    by (auto simp: local_start_proxy_def Let_def same_conns_stop_single
        intro: same_conns_trans[OF same_conns_stop_single same_conns_start] split: option.splits sum.splits)
  have direct: "same_conns n (snd (start_direct_proxy env c n))" for c n
    using same_conns_trans[OF same_conns_stop_single same_conns_start]
    by (simp add: start_direct_proxy_def same_conns_def)
  have sync: "same_conns n (snd (sync_direct_proxies env cs n))" for cs n
    unfolding sync_direct_proxies_def
    by (rule same_conns_trans[OF same_conns_stop_client same_conns_restore])
  have stop: "same_conns n (snd (local_stop_proxy c i n))" for c i n
    using same_conns_stop_single by (simp add: local_stop_proxy_def)
  show ?thesis
    by (cases "(env, cmd, a)" rule: handle_command.cases)
       (use on local direct sync stop in \<open>auto simp: send_response_def same_conns_def
          split: option.splits sum.splits prod.splits\<close>)
qed

text \<open>
  What an operation on the listeners owes the rest of the node: it keeps the tables consistent and
  leaves the connections alone. The operations below it are those of the code.
\<close>

definition newest :: "transport \<Rightarrow> int \<Rightarrow> server \<Rightarrow> nat option" where
  "newest tr client s =
    map_option fst (find (\<lambda>(k, t, c). t = tr \<and> c = client) (sv_known s))"

definition server_inv :: "server \<Rightarrow> bool" where
  "server_inv s =
    (node_ok (sv_node s) \<and> distinct (map fst (sv_known s)) \<and> (\<forall>(k, tr, c) \<in> set (sv_known s). is_i64 c) \<and>
     (\<forall>tr n k. map_of (conn_map tr (sv_node s)) n = Some k \<longrightarrow>
        (\<exists>c. n = int_str c \<and> newest tr c s = Some k)) \<and>
     (\<forall>tr c k. newest tr c s = Some k \<and> k \<notin> set (sv_closed s) \<longrightarrow>
        map_of (conn_map tr (sv_node s)) (int_str c) = Some k))"

lemma server_inv_entry:
  "server_inv s \<Longrightarrow> map_of (conn_map tr (sv_node s)) n = Some k \<Longrightarrow> \<exists>c. n = int_str c \<and> newest tr c s = Some k"
  unfolding server_inv_def by blast

lemma server_inv_live:
  "server_inv s \<Longrightarrow> newest tr c s = Some k \<Longrightarrow> k \<notin> set (sv_closed s) \<Longrightarrow>
   map_of (conn_map tr (sv_node s)) (int_str c) = Some k"
  unfolding server_inv_def by blast

locale listener_op =
  fixes op :: "node \<Rightarrow> node"
  assumes op_ok: "node_ok n \<Longrightarrow> node_ok (op n)"
    and op_conns: "same_conns n (op n)"
begin

lemma op_inv:
  assumes "server_inv s" "sv_node s' = op (sv_node s)" "sv_known s' = sv_known s" "sv_closed s' = sv_closed s"
  shows "server_inv s'"
proof -
  have "newest tr c s' = newest tr c s" for tr c by (simp add: newest_def assms(3))
  moreover have "conn_map tr (sv_node s') = conn_map tr (sv_node s)" for tr
    using op_conns[of "sv_node s"] by (simp add: same_conns_def assms(2))
  ultimately show ?thesis
    using assms(1) op_ok[of "sv_node s"] by (simp add: server_inv_def assms(2-4))
qed

lemma op_online: "is_online c (op n) = is_online c n"
  using op_conns[of n] by (auto simp: same_conns_def conn_map_def is_online_def split: transport.splits)

end

interpretation start_op: listener_op "\<lambda>n. snd (start_client_proxies url_parse client cs n)" for url_parse client cs
  by unfold_locales (auto intro: start_client_proxies_ok[OF _ prod.collapse[symmetric]] same_conns_start)

interpretation stop_op: listener_op "stop_client_proxies client" for client
  by unfold_locales (auto intro: stop_client_proxies_ok same_conns_stop_client)

interpretation turn_op: listener_op "task_turn client proxy" for client proxy
  by unfold_locales (auto intro: task_turn_ok same_conns_turn)

interpretation command_op: listener_op
  "\<lambda>n. ag_node (handle_command env cmd \<lparr>ag_node = n, ag_tunnel = t, ag_rate = r, ag_sent = out, ag_restarts = k\<rparr>)"
  for env cmd t r out k
proof
  fix n
  let ?a = "\<lparr>ag_node = n, ag_tunnel = t, ag_rate = r, ag_sent = out, ag_restarts = k\<rparr>"
  show "node_ok n \<Longrightarrow> node_ok (ag_node (handle_command env cmd ?a))"
    using handle_command_ok[where a = ?a and cmd = cmd and env = env] by simp
  show "same_conns n (ag_node (handle_command env cmd ?a))"
    using same_conns_command[where a = ?a and cmd = cmd and env = env] by simp
qed

lemma node_ok_busy: "node_ok n \<Longrightarrow> node_ok (n\<lparr>nd_busy := busy\<rparr>)"
  by (erule node_ok_view) simp_all

interpretation ports_op: listener_op "nd_busy_update (\<lambda>_. busy)" for busy
  by unfold_locales (auto intro: node_ok_busy same_connsI)

lemma server_inv_authenticate:
  assumes "server_inv s" "conn \<notin> fst ` set (sv_known s)" "case v of Allowed c \<Rightarrow> is_i64 c | _ \<Rightarrow> True"
  shows "server_inv (authenticate tr conn v s)"
proof (cases v)
  case (Allowed client)
  let ?s = "authenticate tr conn v s"
  have c: "is_i64 client" using assms(3) Allowed by simp
  have known: "sv_known ?s = (conn, tr, client) # sv_known s" and closed: "sv_closed ?s = sv_closed s"
    by (simp_all add: authenticate_def Allowed)
  have maps: "conn_map t (sv_node ?s) = (if t = tr then AList.update (int_str client) conn (conn_map tr (sv_node s))
      else conn_map t (sv_node s))" for t
    by (simp add: authenticate_def Allowed conn_map_set)
  have new: "newest t c' ?s = (if t = tr \<and> c' = client then Some conn else newest t c' s)" for t c'
    by (simp add: newest_def known)
  have i64: "is_i64 c'" if "newest t c' s = Some k" for t c' k
    using that assms(1) by (auto simp: newest_def server_inv_def find_Some_iff dest!: nth_mem)
  have inj: "int_str c' \<noteq> int_str client" if "c' \<noteq> client" "is_i64 c'" for c'
    using that c int_str_inj[of c' client] by (auto simp: is_i64_def)
  have "node_ok (sv_node ?s)"
    using assms(1) by (auto simp: authenticate_def Allowed server_inv_def set_conn_map_frame intro: node_ok_view)
  moreover have "\<exists>c'. n = int_str c' \<and> newest t c' ?s = Some k"
    if "map_of (conn_map t (sv_node ?s)) n = Some k" for t n k
  proof (cases "t = tr \<and> n = int_str client")
    case True
    then have "k = conn" using that by (simp add: maps update_conv')
    then show ?thesis using True by (intro exI[of _ client]) (simp add: new)
  next
    case False
    then have "map_of (conn_map t (sv_node s)) n = map_of (conn_map t (sv_node ?s)) n"
      unfolding maps by (cases "t = tr") (simp_all add: update_conv')
    then have "map_of (conn_map t (sv_node s)) n = Some k" using that by simp
    from server_inv_entry[OF assms(1) this]
    obtain c' where "n = int_str c'" "newest t c' s = Some k" by blast
    then show ?thesis using False by (intro exI[of _ c']) (auto simp: new)
  qed
  moreover have "map_of (conn_map t (sv_node ?s)) (int_str c') = Some k"
    if "newest t c' ?s = Some k" "k \<notin> set (sv_closed ?s)" for t c' k
  proof (cases "t = tr \<and> c' = client")
    case True
    then have k: "k = conn" using that(1) unfolding new by simp
    show ?thesis unfolding k maps using True by (simp add: update_conv')
  next
    case False
    then have n: "newest t c' s = Some k" using that(1) by (simp add: new split: if_splits)
    have "map_of (conn_map t (sv_node s)) (int_str c') = Some k"
      by (rule server_inv_live[OF assms(1) n]) (use that(2) closed in simp)
    moreover have "\<not> (t = tr \<and> int_str c' = int_str client)"
      using False inj i64[OF n] by auto
    ultimately show ?thesis by (auto simp: maps update_conv')
  qed
  ultimately show ?thesis
    using assms(1,2) c by (simp add: server_inv_def known)
qed (use assms(1) in \<open>simp_all add: authenticate_def\<close>)

lemma newest_known: "newest tr c s = Some k \<Longrightarrow> (k, tr, c) \<in> set (sv_known s)"
  by (auto simp: newest_def find_Some_iff dest!: nth_mem) 

lemma server_inv_cleanup:
  assumes "server_inv s" "(conn, tr, client) \<in> set (sv_known s)" "conn \<in> set (sv_closed s)"
  shows "server_inv (cleanup_entry tr conn client s)"
proof (cases "map_of (conn_map tr (sv_node s)) (int_str client) = Some conn")
  case True
  let ?s = "cleanup_entry tr conn client s"
  have known: "sv_known ?s = sv_known s" and closed: "sv_closed ?s = sv_closed s"
    by (simp_all add: cleanup_entry_def)
  have new: "newest t c ?s = newest t c s" for t c by (simp add: newest_def known)
  have maps: "conn_map t (sv_node ?s) = (if t = tr then AList.delete (int_str client) (conn_map tr (sv_node s))
      else conn_map t (sv_node s))" for t
    using True by (simp add: cleanup_entry_def conn_map_set)
  have i64: "is_i64 c" if "(k, t, c) \<in> set (sv_known s)" for k t c
    using that assms(1) by (auto simp: server_inv_def)
  have "node_ok (sv_node ?s)"
    using assms(1) by (auto simp: cleanup_entry_def server_inv_def set_conn_map_frame intro: node_ok_view)
  moreover have "map_of (conn_map t (sv_node ?s)) (int_str c) = Some k"
    if "newest t c s = Some k" "k \<notin> set (sv_closed s)" for t c k
  proof -
    have old: "map_of (conn_map t (sv_node s)) (int_str c) = Some k"
      using that assms(1) by (auto simp: server_inv_def)
    have "\<not> (t = tr \<and> int_str c = int_str client)"
      using old True that(2) assms(3) by auto
    then show ?thesis using old by (auto simp: maps delete_conv')
  qed
  ultimately show ?thesis
    using assms(1) by (auto simp: server_inv_def known closed new maps delete_conv' split: if_splits)
qed (use assms(1) in \<open>simp add: cleanup_entry_def\<close>)

lemma server_inv_closed: "server_inv s \<Longrightarrow> server_inv (s\<lparr>sv_closed := conn # sv_closed s\<rparr>)"
  by (auto simp: server_inv_def newest_def)

lemma session_step_inv:
  assumes "session_step url_parse s s'" "server_inv s"
  shows "server_inv s'"
  using assms
proof (cases rule: session_step.cases)
  case (Started conn tr client answer)
  show ?thesis
  proof (cases answer)
    case (Inr ps)
    show ?thesis
      by (rule start_op.op_inv[OF assms(2)]) (simp_all add: Started(1) start_known_def Inr)
  qed (use assms(2) in \<open>simp add: Started(1) start_known_def\<close>)
next
  case (Stopped client)
  show ?thesis
    by (rule stop_op.op_inv[OF assms(2)]) (simp_all add: Stopped(1) cleanup_proxies_def)
next
  case (Turned client proxy)
  show ?thesis by (rule turn_op.op_inv[OF assms(2)]) (simp_all add: Turned)
next
  case (Commanded env cmd t r out k)
  show ?thesis by (rule command_op.op_inv[OF assms(2)]) (simp_all add: Commanded)
next
  case (Ports busy)
  show ?thesis by (rule ports_op.op_inv[OF assms(2)]) (simp_all add: Ports)
qed (auto intro: server_inv_authenticate server_inv_cleanup server_inv_closed)

lemma server_inv_new: "server_inv new_server"
  using bare_node_ok
  by (auto simp: server_inv_def new_server_def newest_def conn_map_def bare_node_def split: transport.splits)

lemma session_reach_inv: "session_reach url_parse s \<Longrightarrow> server_inv s"
  by (induction rule: session_reach.induct) (auto intro: server_inv_new session_step_inv)

text \<open>C4: whatever the interleaving of connections, proxies starting and stopping, commands of the
  controller, and ports other processes take, the node's tables are consistent: the routes of a
  shared port all have its protocol, stand under their own valid domain and lead to a client or to a
  clean upstream, and no port is bound twice.\<close>

theorem node_tables_consistent: "session_reach url_parse s \<Longrightarrow> node_ok (sv_node s)"
  using session_reach_inv unfolding server_inv_def by blast

text \<open>C16: for every order of connections, closings and late cleanups, the connection a transport uses
  for a client is the newest one the client authenticated on; the newest one is used as long as it has
  not ended, so the cleanup of a connection that a client has replaced never cuts off the new one.\<close>

theorem newest_connection_is_used:
  assumes "session_reach url_parse s" "is_i64 c"
  shows "(map_of (conn_map tr (sv_node s)) (int_str c) = Some k \<longrightarrow> newest tr c s = Some k) \<and>
    (newest tr c s = Some k \<and> k \<notin> set (sv_closed s) \<longrightarrow>
       map_of (conn_map tr (sv_node s)) (int_str c) = Some k)"
proof -
  have inv: "server_inv s" by (rule session_reach_inv[OF assms(1)])
  have "c' = c" if "int_str c' = int_str c" "newest tr c' s = Some k" for c'
  proof -
    have "is_i64 c'" using newest_known[OF that(2)] inv by (auto simp: server_inv_def)
    then show ?thesis using int_str_inj[OF _ _ _ _ that(1)] assms(2) by (simp add: is_i64_def)
  qed
  moreover obtain c' where "int_str c' = int_str c" "newest tr c' s = Some k"
    if "map_of (conn_map tr (sv_node s)) (int_str c) = Some k"
    using server_inv_entry[OF inv] by metis
  moreover have "map_of (conn_map tr (sv_node s)) (int_str c) = Some k"
    if "newest tr c s = Some k" "k \<notin> set (sv_closed s)"
    using server_inv_live[OF inv] that by blast
  ultimately show ?thesis by metis
qed

text \<open>A client that reconnects: the old connection ends and is cleaned up after the new one is there.\<close>

definition reconnected :: "transport \<Rightarrow> transport \<Rightarrow> server" where
  "reconnected tr tr' =
    cleanup_entry tr 1 7 ((authenticate tr' 2 (Allowed 7) (authenticate tr 1 (Allowed 7) new_server))\<lparr>sv_closed := [1]\<rparr>)"

lemma reconnected_reach: "session_reach url_parse (reconnected tr tr')"
proof -
  let ?a = "authenticate tr 1 (Allowed 7) new_server"
  let ?b = "authenticate tr' 2 (Allowed 7) ?a"
  have i: "is_i64 7" by (simp add: is_i64_def)
  have "session_reach url_parse ?a"
    by (rule session_reach.Step[OF session_reach.Start session_step.Connected])
       (simp_all add: new_server_def i)
  then have "session_reach url_parse ?b"
    by (rule session_reach.Step[OF _ session_step.Connected]) (simp_all add: authenticate_def new_server_def i)
  then have "session_reach url_parse (?b\<lparr>sv_closed := 1 # sv_closed ?b\<rparr>)"
    by (rule session_reach.Step) (rule session_step.Closed)
  then have "session_reach url_parse (?b\<lparr>sv_closed := [1]\<rparr>)"
    by (simp add: authenticate_def new_server_def)
  then show ?thesis
    unfolding reconnected_def
    by (rule session_reach.Step[OF _ session_step.Cleaned]) (simp_all add: authenticate_def)
qed

theorem node_tables_consistent_witness: "node_ok (sv_node (reconnected Quic Tunnel))"
  by (rule node_tables_consistent[OF reconnected_reach[of "\<lambda>_. None"]])

theorem newest_connection_is_used_witness:
  "map_of (nd_quic (sv_node (reconnected Quic Quic))) (int_str 7) = Some 2"
proof -
  have "newest Quic 7 (reconnected Quic Quic) = Some 2"
    by (simp add: newest_def reconnected_def cleanup_entry_def authenticate_def)
  moreover have "2 \<notin> set (sv_closed (reconnected Quic Quic))"
    by (simp add: reconnected_def cleanup_entry_def)
  moreover have "is_i64 7" by (simp add: is_i64_def)
  ultimately show ?thesis
    using newest_connection_is_used[OF reconnected_reach, where c = 7 and tr = Quic and k = 2]
    by (simp add: conn_map_def)
qed

text \<open>the two transports do not know of one another: when a client has moved from QUIC to another
  transport, the end of its old connection removes all its listeners and routes and reports it offline,
  although its new connection lives and is used.\<close>

theorem late_close_takes_proxies:
  assumes "session_reach url_parse s" "map_of (nd_quic (sv_node s)) (int_str c) = Some old"
    "newest Tunnel c s = Some new" "new \<notin> set (sv_closed s)"
  defines "s' \<equiv> cleanup_proxies c (cleanup_entry Quic old c s)"
  shows "map_of (nd_tunnel (sv_node s')) (int_str c) = Some new \<and> client_tasks (int_str c) (sv_node s') = [] \<and>
    (\<forall>port d r. route_at (sv_node s') port d = Some r \<longrightarrow> pc_client_id (rt_config r) \<noteq> int_str c) \<and>
    last (sv_reports s') = (c, False)"
proof -
  have inv: "server_inv s" by (rule session_reach_inv[OF assms(1)])
  let ?n = "sv_node (cleanup_entry Quic old c s)"
  have n: "sv_node s' = stop_client_proxies (int_str c) ?n" by (simp add: s'_def cleanup_proxies_def)
  have "map_of (nd_tunnel (sv_node s)) (int_str c) = Some new"
    using server_inv_live[OF inv assms(3,4)] by (simp add: conn_map_def)
  then have "map_of (nd_tunnel (sv_node s')) (int_str c) = Some new"
    by (simp add: n stop_client_proxies_def domain_stop_frame cleanup_entry_def set_conn_map_def)
  moreover have "shared_ok ?n"
    using inv by (auto simp: cleanup_entry_def set_conn_map_def server_inv_def node_ok_def shared_ok_def)
  then have "route_at (sv_node s') port d = (case route_at ?n port d of
      Some r \<Rightarrow> if pc_client_id (rt_config r) = int_str c then None else Some r | None \<Rightarrow> None)" for port d
  proof -
    assume ok: "shared_ok ?n"
    have "route_at (sv_node s') = route_at (domain_stop (int_str c) None ?n)"
      by (simp add: route_at_def n stop_client_proxies_def fun_eq_iff)
    then show ?thesis by (simp add: route_at_stop[OF ok] stops_def split: option.splits)
  qed
  ultimately show ?thesis
    by (auto simp: n client_tasks_stop s'_def cleanup_proxies_def split: option.splits if_splits)
qed

theorem late_close_takes_proxies_witness:
  "client_tasks (int_str 7) (sv_node (cleanup_proxies 7 (cleanup_entry Quic 1 7
     (authenticate Tunnel 2 (Allowed 7) (authenticate Quic 1 (Allowed 7) new_server))))) = []"
proof -
  let ?a = "authenticate Quic 1 (Allowed 7) new_server"
  let ?b = "authenticate Tunnel 2 (Allowed 7) ?a"
  have i: "is_i64 7" by (simp add: is_i64_def)
  have "session_reach (\<lambda>_. None) ?a"
    by (rule session_reach.Step[OF session_reach.Start session_step.Connected])
       (simp_all add: new_server_def i)
  then have r: "session_reach (\<lambda>_. None) ?b"
    by (rule session_reach.Step[OF _ session_step.Connected]) (simp_all add: authenticate_def new_server_def i)
  show ?thesis
    using late_close_takes_proxies[OF r, of 7 1 2]
    by (simp add: authenticate_def set_conn_map_def conn_map_def newest_def new_server_def bare_node_def update_conv')
qed

end
