(* ===== verification/NodeQuestions.thy ===== *)
theory NodeQuestions
  imports GrpcProps NodeSessions
begin

text \<open>
  The questions a node asks the controller (\<open>node/src/server/grpc\_auth\_provider.rs\<close>) over its stream
  (\<open>grpc\_client.rs\<close>): a request is registered, sent, answered by the controller's handler of the
  model, completed by the node's message loop and read by the caller. A link is what a reconnection
  replaces: the sender and the table of requests.
\<close>

section \<open>The node's end of the stream\<close>

record link =
  ln_chan :: nat
  ln_node :: int
  ln_pending :: "node_reply pending"

datatype ask_error = SendFailed | NoAnswer wait_error | UnexpectedAnswer

text \<open>\<open>message_loop\<close> for the answers of the controller; the answer to a traffic report is not awaited.\<close>

definition take_reply :: "node_reply \<Rightarrow> node_reply pending \<Rightarrow> node_reply pending" where
  "take_reply r p =
    (case r of
       ValidateTokenResponse rid _ _ _ _ \<Rightarrow> snd (pending_complete rid r p)
     | ClientOnlineResponse rid _ \<Rightarrow> snd (pending_complete rid r p)
     | TrafficLimitResponse rid _ _ \<Rightarrow> snd (pending_complete rid r p)
     | GetClientProxiesResponse rid _ \<Rightarrow> snd (pending_complete rid r p)
     | _ \<Rightarrow> p)"

text \<open>The answers a run of the controller has put on a stream.\<close>

definition replies_on :: "nat \<Rightarrow> world \<Rightarrow> world \<Rightarrow> node_reply list" where
  "replies_on tx w w' =
    List.map_filter (\<lambda>(c, p). if c = tx then (case p of NodeReply r \<Rightarrow> Some r | _ \<Rightarrow> None) else None)
      (drop (length (w_node_log w)) (w_node_log w'))"

text \<open>A request and its answer: \<open>register\<close>, \<open>send\<close>, the controller, the message loop, \<open>wait\<close>.\<close>

definition ask ::
  "int \<Rightarrow> string \<Rightarrow> agent_payload \<Rightarrow> link \<Rightarrow> world \<Rightarrow> (ask_error + node_reply) \<times> link \<times> world" where
  "ask limit rid payload l w =
    (case pending_register rid (w_mono w) (ln_pending l) of (rx, p) \<Rightarrow>
       if ln_chan l \<in> set (w_closed w) then (Inl SendFailed, l\<lparr>ln_pending := p\<rparr>, w)
       else
         (let w' = snd (run_state (node_message (ln_node l) (ln_chan l) payload) w);
              p' = fold take_reply (replies_on (ln_chan l) w w') p;
              deadline = w_mono w + limit
          in case pending_wait rx deadline deadline p' of
               (Some (Inr r), p'') \<Rightarrow> (Inr r, l\<lparr>ln_pending := p''\<rparr>, w')
             | (Some (Inl e), p'') \<Rightarrow> (Inl (NoAnswer e), l\<lparr>ln_pending := p''\<rparr>, w')
             | (None, p'') \<Rightarrow> (Inl (NoAnswer Timeout), l\<lparr>ln_pending := p''\<rparr>, w')))"

definition answered :: "(node_reply \<Rightarrow> 'a option) \<Rightarrow> (ask_error + node_reply) \<times> link \<times> world \<Rightarrow>
    (ask_error + 'a) \<times> link \<times> world" where
  "answered f x =
    (case x of (r, l, w) \<Rightarrow>
       (case r of Inl e \<Rightarrow> Inl e
        | Inr a \<Rightarrow> (case f a of Some y \<Rightarrow> Inr y | None \<Rightarrow> Inl UnexpectedAnswer), l, w))"

section \<open>The provider\<close>

definition provider_validate_token ::
  "string \<Rightarrow> string \<Rightarrow> link \<Rightarrow> world \<Rightarrow> (ask_error + validate_response) \<times> link \<times> world" where
  "provider_validate_token rid token l w =
    answered (\<lambda>r. case r of
        ValidateTokenResponse _ client name allowed reason \<Rightarrow>
          Some \<lparr>vr_client_id = client, vr_client_name = name, vr_allowed = allowed, vr_reason = reason\<rparr>
      | _ \<Rightarrow> None)
    (ask 10000 rid (ValidateToken rid token) l w)"

text \<open>An answer is waited for, but its absence is no error; a failed send is.\<close>

definition provider_set_online ::
  "string \<Rightarrow> int \<Rightarrow> bool \<Rightarrow> link \<Rightarrow> world \<Rightarrow> (ask_error + unit) \<times> link \<times> world" where
  "provider_set_online rid client online l w =
    (case ask 5000 rid (ClientOnline rid client online) l w of
       (Inl SendFailed, l', w') \<Rightarrow> (Inl SendFailed, l', w')
     | (_, l', w') \<Rightarrow> (Inr (), l', w'))"

definition limit_answer :: "node_reply \<Rightarrow> (bool \<times> string option) option" where
  "limit_answer r = (case r of TrafficLimitResponse _ exceeded reason \<Rightarrow> Some (exceeded, reason) | _ \<Rightarrow> None)"

definition provider_check_limit ::
  "string \<Rightarrow> int \<Rightarrow> link \<Rightarrow> world \<Rightarrow> (ask_error + bool \<times> string option) \<times> link \<times> world" where
  "provider_check_limit rid client l w =
    answered limit_answer (ask 10000 rid (CheckTrafficLimit rid client None) l w)"

definition provider_check_direct ::
  "string \<Rightarrow> int \<Rightarrow> link \<Rightarrow> world \<Rightarrow> (ask_error + bool \<times> string option) \<times> link \<times> world" where
  "provider_check_direct rid proxy l w =
    answered limit_answer (ask 10000 rid (CheckTrafficLimit rid 0 (Some proxy)) l w)"

definition provider_client_proxies ::
  "string \<Rightarrow> int \<Rightarrow> link \<Rightarrow> world \<Rightarrow> (ask_error + proxy_config list) \<times> link \<times> world" where
  "provider_client_proxies rid client l w =
    answered (\<lambda>r. case r of GetClientProxiesResponse _ ps \<Rightarrow> Some (map config_from_grpc ps) | _ \<Rightarrow> None)
    (ask 10000 rid (GetClientProxies rid client (ln_node l)) l w)"

text \<open>What \<open>handle_client_auth\<close> makes of the answer.\<close>

definition verdict_of :: "ask_error + validate_response \<Rightarrow> token_verdict" where
  "verdict_of r =
    (case r of Inl _ \<Rightarrow> TokenError
     | Inr v \<Rightarrow> if vr_allowed v then Allowed (vr_client_id v) else Refused)"

section \<open>A question is answered by the controller's handler\<close>

lemma take_reply_to: "reply_to a = Some rid \<Longrightarrow> take_reply a p = snd (pending_complete rid a p)"
  by (cases a) (simp_all add: take_reply_def)

lemma register_complete_wait:
  assumes "pending_register rid now p = (rx, q)"
  shows "pending_wait rx d d (snd (pending_complete rid x q)) = (Some (Inr x), snd (pending_complete rid x q))"
    "pd_get (snd (pending_complete rid x q)) r = (if r = rid then None else pd_get p r)"
proof -
  have q: "pd_get q rid = Some \<lparr>sender = rx, created_at = now\<rparr>" "pd_chan q rx = Waiting"
    using register_chan[OF assms] by auto
  then show "pending_wait rx d d (snd (pending_complete rid x q)) = (Some (Inr x), snd (pending_complete rid x q))"
    by (simp add: pending_complete_def pending_wait_def Let_def)
  show "pd_get (snd (pending_complete rid x q)) r = (if r = rid then None else pd_get p r)"
    using assms by (metis pd_get_complete pd_get_register snd_conv)
qed

lemma ask_answered:
  assumes "ln_chan l \<notin> set (w_closed w)" "question payload = Some rid"
    and "wp (node_message (ln_node l) (ln_chan l) payload)
      (\<lambda>_ w'. w' = v\<lparr>w_node_log := w_node_log w @ [(ln_chan l, NodeReply a)]\<rparr>) w" "reply_to a = Some rid"
  shows "\<exists>p. ask limit rid payload l w =
      (Inr a, l\<lparr>ln_pending := p\<rparr>, v\<lparr>w_node_log := w_node_log w @ [(ln_chan l, NodeReply a)]\<rparr>) \<and>
    (\<forall>r. pd_get p r = (if r = rid then None else pd_get (ln_pending l) r))"
proof -
  let ?w = "v\<lparr>w_node_log := w_node_log w @ [(ln_chan l, NodeReply a)]\<rparr>"
  obtain rx q where reg: "pending_register rid (w_mono w) (ln_pending l) = (rx, q)" by fastforce
  have run: "snd (run_state (node_message (ln_node l) (ln_chan l) payload) w) = ?w"
    using assms(3) by (simp add: wp_def split: prod.splits)
  have rep: "replies_on (ln_chan l) w ?w = [a]" by (simp add: replies_on_def List.map_filter_def)
  let ?p = "snd (pending_complete rid a q)"
  have "ask limit rid payload l w = (Inr a, l\<lparr>ln_pending := ?p\<rparr>, ?w)"
    using assms(1) register_complete_wait(1)[OF reg]
    by (simp add: ask_def reg run rep take_reply_to[OF assms(4)] Let_def)
  then show ?thesis using register_complete_wait(2)[OF reg] by blast
qed

section \<open>What the controller answers\<close>

text \<open>Whether the user of a client is marked for used-up traffic.\<close>

definition owner_marked :: "db \<Rightarrow> client_row \<Rightarrow> bool" where
  "owner_marked d c =
    (case Option.bind (c_user_id c) (\<lambda>u. row_get u_id u (db_users d)) of
       Some user \<Rightarrow> u_exceeded user | None \<Rightarrow> False)"

definition token_answer :: "db \<Rightarrow> string \<Rightarrow> validate_response" where
  "token_answer d token =
    (case find (\<lambda>c. c_token c = token) (db_clients d) of
       None \<Rightarrow> \<lparr>vr_client_id = 0, vr_client_name = [], vr_allowed = False, vr_reason = Some ''invalid_token''\<rparr>
     | Some c \<Rightarrow> \<lparr>vr_client_id = c_id c, vr_client_name = c_name c, vr_allowed = \<not> owner_marked d c,
         vr_reason = (if owner_marked d c then Some ''traffic_exceeded'' else None)\<rparr>)"

lemma wp_validate_token:
  "healthy w \<Longrightarrow> wp (validate_token token) (\<lambda>r w'. r = Inr (token_answer (w_db w) token) \<and> w' = w) w"
  by (simp add: validate_token_def owner_exceeded_def token_answer_def owner_marked_def healthy_def
      wp_find_one wp_find_by_id split: option.splits)

lemma wp_filtered:
  "healthy w \<Longrightarrow> wp (get_client_proxies_filtered c n) (\<lambda>r w'.
    r = map (\<lambda>p. config_to_grpc (proxy_config_of p))
      (filter (\<lambda>p. p_node_id p = Some n) (client_proxies (w_db w) c)) \<and> w' = w) w"
  by (simp add: get_client_proxies_filtered_def client_proxies_def healthy_def wp_find_all)

section \<open>Properties\<close>

text \<open>C15: a node that asks about a token gets the answer of the controller's tables over the stream: an
  error of the questions of other tasks, a lost answer or a mixed-up one do not occur while the stream
  and the database work; the request is no longer waited for, the others still are.\<close>

theorem token_check_crosses_the_stream:
  assumes "healthy w" "ln_chan l \<notin> set (w_closed w)"
  shows "\<exists>l' w'. provider_validate_token rid token l w = (Inr (token_answer (w_db w) token), l', w') \<and>
    w_db w' = w_db w \<and>
    (\<forall>r. pd_get (ln_pending l') r = (if r = rid then None else pd_get (ln_pending l) r)) \<and>
    verdict_of (Inr (token_answer (w_db w) token)) =
      (case find (\<lambda>c. c_token c = token) (db_clients (w_db w)) of
         None \<Rightarrow> Refused
       | Some c \<Rightarrow> if owner_marked (w_db w) c then Refused else Allowed (c_id c))"
proof -
  let ?v = "token_answer (w_db w) token"
  let ?a = "ValidateTokenResponse rid (vr_client_id ?v) (vr_client_name ?v) (vr_allowed ?v) (vr_reason ?v)"
  have "wp (node_message (ln_node l) (ln_chan l) (ValidateToken rid token))
    (\<lambda>_ w'. w' = w\<lparr>w_node_log := w_node_log w @ [(ln_chan l, NodeReply ?a)]\<rparr>) w"
    using assms(2) by (auto simp: node_message_def wp_node_answer validate_reply_def
        intro!: wp_mono[OF wp_validate_token[OF assms(1)]])
  from ask_answered[OF assms(2) _ this, of rid 10000]
  obtain p where ask: "ask 10000 rid (ValidateToken rid token) l w =
      (Inr ?a, l\<lparr>ln_pending := p\<rparr>, w\<lparr>w_node_log := w_node_log w @ [(ln_chan l, NodeReply ?a)]\<rparr>)"
    and p: "\<forall>r. pd_get p r = (if r = rid then None else pd_get (ln_pending l) r)"
    by auto
  have "verdict_of (Inr ?v) = (case find (\<lambda>c. c_token c = token) (db_clients (w_db w)) of
         None \<Rightarrow> Refused
       | Some c \<Rightarrow> if owner_marked (w_db w) c then Refused else Allowed (c_id c))"
    by (simp add: verdict_of_def token_answer_def split: option.splits)
  then show ?thesis
    using p by (simp add: provider_validate_token_def answered_def ask)
qed

text \<open>A link of a node that just connected.\<close>

definition fresh_link :: link where
  "fresh_link = \<lparr>ln_chan = 5, ln_node = 1, ln_pending = pending_new\<rparr>"

lemma token_check_crosses_the_stream_witness:
  "\<exists>l' w'. provider_validate_token ''r1'' ''t'' fresh_link home_world =
    (Inr \<lparr>vr_client_id = 1, vr_client_name = c_name sample_client, vr_allowed = True, vr_reason = None\<rparr>, l', w')"
proof -
  have "token_answer (w_db home_world) ''t'' =
      \<lparr>vr_client_id = 1, vr_client_name = c_name sample_client, vr_allowed = True, vr_reason = None\<rparr>"
    by (simp add: token_answer_def owner_marked_def row_get_def sample_user_def)
  moreover have "ln_chan fresh_link \<notin> set (w_closed home_world)" by (simp add: fresh_link_def home_world_def)
  ultimately show ?thesis
    using token_check_crosses_the_stream[of home_world fresh_link "''r1''" "''t''"] by auto
qed

text \<open>a node that asks for the proxies of a client gets exactly the enabled ones the client has on
  this node, as the controller's table has them; the conversions on the way lose nothing.\<close>

theorem client_proxies_cross_the_stream:
  assumes "healthy w" "ln_chan l \<notin> set (w_closed w)"
  shows "\<exists>l' w'. provider_client_proxies rid client l w =
      (Inr (map proxy_config_of
        (filter (\<lambda>p. p_node_id p = Some (ln_node l)) (client_proxies (w_db w) client))), l', w') \<and>
    w_db w' = w_db w \<and>
    (\<forall>r. pd_get (ln_pending l') r = (if r = rid then None else pd_get (ln_pending l) r))"
proof -
  let ?ps = "filter (\<lambda>p. p_node_id p = Some (ln_node l)) (client_proxies (w_db w) client)"
  let ?a = "GetClientProxiesResponse rid (map (\<lambda>p. config_to_grpc (proxy_config_of p)) ?ps)"
  have "wp (node_message (ln_node l) (ln_chan l) (GetClientProxies rid client (ln_node l)))
    (\<lambda>_ w'. w' = w\<lparr>w_node_log := w_node_log w @ [(ln_chan l, NodeReply ?a)]\<rparr>) w"
    using assms(2) by (auto simp: node_message_def wp_node_answer intro!: wp_mono[OF wp_filtered[OF assms(1)]])
  from ask_answered[OF assms(2) _ this, of rid 10000]
  obtain p where "ask 10000 rid (GetClientProxies rid client (ln_node l)) l w =
      (Inr ?a, l\<lparr>ln_pending := p\<rparr>, w\<lparr>w_node_log := w_node_log w @ [(ln_chan l, NodeReply ?a)]\<rparr>)"
    and "\<forall>r. pd_get p r = (if r = rid then None else pd_get (ln_pending l) r)"
    by auto
  then show ?thesis
    by (simp add: provider_client_proxies_def answered_def config_grpc_roundtrip comp_def)
qed

lemma client_proxies_cross_the_stream_witness:
  "\<exists>l' w'. provider_client_proxies ''r1'' 3 fresh_link running_world = (Inr [proxy_config_of shop_proxy], l', w')"
proof -
  have "filter (\<lambda>p. p_node_id p = Some (ln_node fresh_link)) (client_proxies (w_db running_world) 3) = [shop_proxy]"
    by (simp add: running_world_def with_proxy_def shop_world_def shop_db_def client_proxies_def shop_proxy_def
        new_proxy_row_def shop_request_def fresh_link_def)
  moreover have "ln_chan fresh_link \<notin> set (w_closed running_world)" "healthy running_world"
    by (simp_all add: fresh_link_def running_world_def shop_world_def healthy_def)
  ultimately show ?thesis
    using client_proxies_cross_the_stream[of running_world fresh_link "''r1''" 3] by auto
qed

end
