(* ===== verification/HttpProxy.thy ===== *)
theory HttpProxy
  imports NodeSessions
begin

text \<open>
  What a node does with a connection to a shared port (\<open>node/src/server/domain\_proxy.rs\<close>): the route
  of an HTTP request by its \<open>Host\<close>, the headers it forwards, and the route of a TLS connection by the
  name in its \<open>ClientHello\<close>, whose bytes are read ahead and replayed. The HTTP and TLS crates are
  arguments: how an authority is parsed, and what the TLS acceptor finds in the bytes read so far.
\<close>

section \<open>Header maps\<close>

text \<open>
  \<open>hyper::HeaderMap\<close>: names in lower case with their values; \<open>insert\<close> replaces all values of a name.
  The order between different names has no meaning.
\<close>

type_synonym headers = "(string \<times> string) list"

definition header_all :: "string \<Rightarrow> headers \<Rightarrow> string list" where
  "header_all name hs = map snd (filter (\<lambda>(n, v). n = name) hs)"

definition header_remove :: "string \<Rightarrow> headers \<Rightarrow> headers" where
  "header_remove name hs = filter (\<lambda>(n, v). n \<noteq> name) hs"

definition header_insert :: "string \<Rightarrow> string \<Rightarrow> headers \<Rightarrow> headers" where
  "header_insert name value hs = header_remove name hs @ [(name, value)]"

text \<open>\<open>HeaderValue::to_str\<close>: visible ASCII and tabs only.\<close>

definition header_text :: "string \<Rightarrow> string option" where
  "header_text v =
    (if list_all (\<lambda>c. (of_char c :: nat) = 9 \<or> (32 \<le> (of_char c :: nat) \<and> (of_char c :: nat) < 127)) v
     then Some v else None)"

lemma header_all_remove [simp]:
  "header_all n (header_remove m hs) = (if n = m then [] else header_all n hs)"
  by (induction hs) (auto simp: header_all_def header_remove_def)

lemma header_all_insert [simp]:
  "header_all n (header_insert m v hs) = (if n = m then [v] else header_all n hs)"
  using header_all_remove[of n m hs] by (auto simp: header_insert_def header_all_def)

section \<open>Hop-by-hop headers\<close>

definition connection_tokens :: "headers \<Rightarrow> string list" where
  "connection_tokens hs =
    concat (map (\<lambda>v. case header_text v of Some t \<Rightarrow> split_char CHR '','' t | None \<Rightarrow> [])
      (header_all ''connection'' hs))"

definition hop_names :: "string list" where
  "hop_names =
    [''connection'', ''keep-alive'', ''proxy-authenticate'', ''proxy-authorization'', ''te'', ''trailer'',
     ''transfer-encoding'', ''upgrade'']"

definition strip_hop_headers :: "bool \<Rightarrow> headers \<Rightarrow> headers" where
  "strip_hop_headers upgrade hs =
    (let names = map (\<lambda>t. to_lower (str_trim t)) (connection_tokens hs);
         hs = fold (\<lambda>n hs. if \<not> upgrade \<or> n \<noteq> ''upgrade'' then header_remove n hs else hs) names hs;
         hs = fold (\<lambda>n hs. if \<not> upgrade \<or> \<not> (n = ''connection'' \<or> n = ''upgrade'') then header_remove n hs else hs)
                hop_names hs
     in if upgrade then header_insert ''connection'' ''upgrade'' hs else hs)"

section \<open>Requests\<close>

record request =
  rq_method :: string
  rq_authority :: "string option"   \<comment> \<open>of an absolute request URI\<close>
  rq_path :: "string option"
  rq_headers :: headers

record http_env =
  he_authority_host :: "string \<Rightarrow> string option"   \<comment> \<open>\<open>Authority::parse\<close>, then its host\<close>
  he_allowed :: "int \<Rightarrow> unit + bool"                \<comment> \<open>\<open>direct_is_allowed\<close>, asked of the controller\<close>
  he_address :: string

datatype http_result =
    Respond nat
  | Forward route bool request

definition request_domain :: "http_env \<Rightarrow> request \<Rightarrow> string option" where
  "request_domain env rq =
    (case header_all ''host'' (rq_headers rq) of
       [h] \<Rightarrow>
         (case header_text h of
            None \<Rightarrow> None
          | Some host \<Rightarrow>
              (case he_authority_host env host of
                 None \<Rightarrow> None
               | Some name \<Rightarrow>
                   if CHR ''@'' \<in> set host then None
                   else (case normalize_domain name of
                           Inl _ \<Rightarrow> None
                         | Inr d \<Rightarrow>
                             (case rq_authority rq of
                                Some a \<Rightarrow> if to_lower a = to_lower host then Some d else None
                              | None \<Rightarrow> Some d))))
     | _ \<Rightarrow> None)"

definition wants_upgrade :: "headers \<Rightarrow> bool" where
  "wants_upgrade hs =
    (list_ex (\<lambda>t. to_lower (str_trim t) = ''upgrade'') (connection_tokens hs) \<and> header_all ''upgrade'' hs \<noteq> [])"

definition is_websocket :: "headers \<Rightarrow> bool" where
  "is_websocket hs =
    (to_lower (case header_text (hd (header_all ''upgrade'' hs)) of Some t \<Rightarrow> t | None \<Rightarrow> []) = ''websocket'')"

text \<open>\<open>Url::port\<close>: the port unless it is the default of the scheme.\<close>

definition url_port :: "url \<Rightarrow> u16 option" where
  "url_port u =
    (case url_port_or_default u of
       Some p \<Rightarrow> if (url_scheme u = ''http'' \<and> p = 80) \<or> (url_scheme u = ''https'' \<and> p = 443) then None else Some p
     | None \<Rightarrow> None)"

definition upstream_authority :: "url \<Rightarrow> string option" where
  "upstream_authority u =
    (case url_host_str u of
       None \<Rightarrow> None
     | Some h \<Rightarrow> header_text (h @ (case url_port u of Some p \<Rightarrow> '':'' @ u16_str p | None \<Rightarrow> [])))"

definition direct_headers :: "string \<Rightarrow> string \<Rightarrow> string \<Rightarrow> headers \<Rightarrow> headers" where
  "direct_headers authority original ip hs =
    header_remove ''forwarded''
      (header_insert ''x-forwarded-proto'' ''http''
        (header_insert ''x-forwarded-for'' ip
          (header_insert ''x-forwarded-host'' original (header_insert ''host'' authority hs))))"

definition forward_request :: "http_env \<Rightarrow> route \<Rightarrow> bool \<Rightarrow> request \<Rightarrow> http_result" where
  "forward_request env r upgrade rq =
    (let host = hd (header_all ''host'' (rq_headers rq));
         hs = header_insert ''host'' host (strip_hop_headers upgrade (rq_headers rq));
         path = (case rq_path rq of Some p \<Rightarrow> p | None \<Rightarrow> ''/'');
         close = (\<lambda>hs. if upgrade then hs else header_insert ''connection'' ''close'' hs);
         out = (\<lambda>hs. Forward r upgrade (rq\<lparr>rq_authority := None, rq_path := Some path, rq_headers := close hs\<rparr>))
     in case rt_upstream r of
          None \<Rightarrow> out hs
        | Some u \<Rightarrow>
            (case upstream_authority u of
               None \<Rightarrow> Respond 502
             | Some a \<Rightarrow> out (direct_headers a host (he_address env) hs)))"

definition http_request :: "http_env \<Rightarrow> node \<Rightarrow> (string \<times> route) list \<Rightarrow> request \<Rightarrow> http_result" where
  "http_request env n routes rq =
    (case request_domain env rq of
       None \<Rightarrow> Respond 400
     | Some d \<Rightarrow>
         if rq_method rq = ''CONNECT'' then Respond 405
         else (case find_route (map_of routes) d of
            None \<Rightarrow> Respond 404
          | Some r \<Rightarrow>
              if rt_upstream r = None \<and> \<not> is_online (pc_client_id (rt_config r)) n then Respond 503
              else (case (if rt_upstream r \<noteq> None then he_allowed env (pc_proxy_id (rt_config r)) else Inr True) of
                 Inl _ \<Rightarrow> Respond 503
               | Inr False \<Rightarrow> Respond 403
               | Inr True \<Rightarrow>
                   let upgrade = wants_upgrade (rq_headers rq) in
                   if upgrade \<and> \<not> is_websocket (rq_headers rq) then Respond 400
                   else forward_request env r upgrade rq)))"

text \<open>What the client receives of the upstream's answer.\<close>

definition http_answer :: "bool \<Rightarrow> nat \<Rightarrow> headers \<Rightarrow> nat \<times> headers" where
  "http_answer upgrade status hs =
    (if status = 101 then (if upgrade then (101, strip_hop_headers True hs) else (502, []))
     else (status, strip_hop_headers False hs))"

section \<open>TLS\<close>

definition hello_limit :: nat where
  "hello_limit = 65536"

text \<open>
  \<open>read_sni\<close> on the chunks the socket delivers; running out of them is the end of the stream. The
  acceptor says of the bytes so far whether they are no TLS, not yet enough, or a greeting with or
  without a name.
\<close>

fun read_sni ::
  "(string \<Rightarrow> (unit + string option option)) \<Rightarrow> string \<Rightarrow> string list \<Rightarrow> (string \<times> string \<times> string list) option" where
  "read_sni hello prefix [] = None"
| "read_sni hello prefix (c # cs) =
    (if c = [] then None
     else if hello_limit < length prefix + length c then None
     else (case hello (prefix @ c) of
             Inl _ \<Rightarrow> None
           | Inr None \<Rightarrow> read_sni hello (prefix @ c) cs
           | Inr (Some None) \<Rightarrow> None
           | Inr (Some (Some name)) \<Rightarrow>
               (case normalize_domain name of Inl _ \<Rightarrow> None | Inr d \<Rightarrow> Some (d, prefix @ c, cs))))"

definition serve_tls ::
  "http_env \<Rightarrow> (string \<Rightarrow> (unit + string option option)) \<Rightarrow> (string \<times> route) list \<Rightarrow> string list \<Rightarrow>
   (route \<times> string list) option" where
  "serve_tls env hello routes chunks =
    (case read_sni hello [] chunks of
       None \<Rightarrow> None
     | Some (d, prefix, rest) \<Rightarrow>
         (case find_route (map_of routes) d of
            None \<Rightarrow> None
          | Some r \<Rightarrow>
              if rt_upstream r \<noteq> None \<and> he_allowed env (pc_proxy_id (rt_config r)) \<noteq> Inr True then None
              else Some (r, prefix # rest)))"

section \<open>Properties\<close>

lemma header_all_fold_remove:
  "header_all n (fold (\<lambda>m hs. if P m then header_remove m hs else hs) ms hs) =
    (if n \<in> set ms \<and> P n then [] else header_all n hs)"
  by (induction ms arbitrary: hs) auto

lemma header_all_fold_remove_all:
  "header_all n (fold header_remove ms hs) = (if n \<in> set ms then [] else header_all n hs)"
  by (induction ms arbitrary: hs) auto

definition nominated :: "headers \<Rightarrow> string set" where
  "nominated hs = (\<lambda>t. to_lower (str_trim t)) ` set (connection_tokens hs)"

text \<open>no hop-by-hop header leaves the proxy and none that the sender's \<open>Connection\<close> names; on an
  upgrade the \<open>Upgrade\<close> header stays and \<open>Connection\<close> says just that. Every other header passes with
  all its values, in order.\<close>

theorem strip_hop_headers_exact:
  "header_all n (strip_hop_headers upgrade hs) =
    (if upgrade \<and> n = ''connection'' then [''upgrade'']
     else if upgrade \<and> n = ''upgrade'' then header_all ''upgrade'' hs
     else if n \<in> set hop_names \<or> n \<in> nominated hs then []
     else header_all n hs)"
  by (auto simp: strip_hop_headers_def Let_def header_all_fold_remove header_all_fold_remove_all nominated_def)

lemma find_route_key:
  assumes "find_route routes d = Some r"
  shows "\<exists>k. routes k = Some r \<and> (k = d \<or> wild_match k d)"
proof (cases "routes d")
  case None
  then show ?thesis
    using assms first_route_Some[OF dot_suffixes_sorted[of d], of routes r]
    by (auto simp: find_route_def wild_match_iff)
qed (use assms in \<open>auto simp: find_route_def\<close>)

text \<open>The values of a header in the request that is passed on, by its name. Of the caller's headers nothing
  concerns the connection to the node, and on an upgrade only what asks for it; a direct proxy gets the
  node's word for where the request came from, whatever the caller said.\<close>

definition end_to_end :: "bool \<Rightarrow> headers \<Rightarrow> string \<Rightarrow> string list" where
  "end_to_end upgrade hs name =
    (if name = ''connection'' then (if upgrade then [''upgrade''] else [''close''])
     else if name = ''upgrade'' then (if upgrade then header_all ''upgrade'' hs else [])
     else if name \<in> set hop_names \<or> name \<in> nominated hs then []
     else header_all name hs)"

definition passed_on :: "http_env \<Rightarrow> route \<Rightarrow> bool \<Rightarrow> headers \<Rightarrow> string \<Rightarrow> string list" where
  "passed_on env r upgrade hs name =
    (case rt_upstream r of
       None \<Rightarrow> if name = ''host'' then header_all ''host'' hs else end_to_end upgrade hs name
     | Some u \<Rightarrow>
         if name = ''host'' then (case upstream_authority u of Some a \<Rightarrow> [a] | None \<Rightarrow> [])
         else if name = ''x-forwarded-for'' then [he_address env]
         else if name = ''x-forwarded-host'' then header_all ''host'' hs
         else if name = ''x-forwarded-proto'' then [''http'']
         else if name = ''forwarded'' then []
         else end_to_end upgrade hs name)"

lemma forward_request_Forward:
  assumes "forward_request env r upgrade rq = Forward r' up rq'"
  shows "r' = r \<and> up = upgrade \<and> rq_method rq' = rq_method rq \<and> rq_authority rq' = None \<and>
    rq_path rq' = Some (case rq_path rq of Some p \<Rightarrow> p | None \<Rightarrow> ''/'') \<and>
    (\<forall>u. rt_upstream r = Some u \<longrightarrow> upstream_authority u \<noteq> None)"
  using assms by (auto simp: forward_request_def Let_def split: option.splits)

text \<open>The names the node writes are none of the hop-by-hop names.\<close>

lemma header_names_differ: "''host'' \<noteq> ''connection''" "''host'' \<notin> set hop_names" "''x-forwarded-for'' \<noteq> ''connection''"
    "''x-forwarded-host'' \<noteq> ''connection''" "''x-forwarded-proto'' \<noteq> ''connection''" "''forwarded'' \<noteq> ''connection''"
    "''upgrade'' \<in> set hop_names" "''connection'' \<in> set hop_names"
  by code_simp+

lemma stripped_headers:
  "header_all name (if upgrade then strip_hop_headers True hs
     else header_insert ''connection'' ''close'' (strip_hop_headers False hs)) = end_to_end upgrade hs name"
  using header_names_differ(7) by (simp add: strip_hop_headers_exact end_to_end_def)

lemma direct_headers_all:
  "header_all name (direct_headers a h ip hs) =
    (if name = ''host'' then [a] else if name = ''x-forwarded-for'' then [ip] else if name = ''x-forwarded-host'' then [h]
     else if name = ''x-forwarded-proto'' then [''http''] else if name = ''forwarded'' then [] else header_all name hs)"
  by (simp add: direct_headers_def)

lemma forwarded_headers:
  assumes "forward_request env r upgrade rq = Forward r' up rq'" "header_all ''host'' (rq_headers rq) = [h]"
  shows "header_all name (rq_headers rq') = passed_on env r upgrade (rq_headers rq) name"
proof -
  let ?close = "\<lambda>hs. if upgrade then hs else header_insert ''connection'' ''close'' hs"
  let ?hs = "header_insert ''host'' h (strip_hop_headers upgrade (rq_headers rq))"
  have close: "header_all name (?close hs) =
      (if name = ''connection'' \<and> \<not> upgrade then [''close''] else header_all name hs)" for hs by simp
  have base: "header_all name (?close ?hs) = (if name = ''host'' then [h] else end_to_end upgrade (rq_headers rq) name)"
    using stripped_headers[of name upgrade "rq_headers rq"] header_names_differ(1) by (cases upgrade) auto
  consider (tunnel) "rt_upstream r = None" "rq_headers rq' = ?close ?hs"
    | (direct) u a where "rt_upstream r = Some u" "upstream_authority u = Some a"
        "rq_headers rq' = ?close (direct_headers a h (he_address env) ?hs)"
    using assms by (cases "rt_upstream r") (auto simp: forward_request_def Let_def split: option.splits)
  then show ?thesis
  proof cases
    case tunnel
    then show ?thesis unfolding tunnel(2) base by (simp add: passed_on_def assms(2))
  next
    case direct
    have "header_all name (rq_headers rq') = (if name = ''connection'' \<and> \<not> upgrade then [''close''] else
        if name = ''host'' then [a] else if name = ''x-forwarded-for'' then [he_address env]
        else if name = ''x-forwarded-host'' then [h] else if name = ''x-forwarded-proto'' then [''http'']
        else if name = ''forwarded'' then [] else header_all name ?hs)"
      unfolding direct(3) close direct_headers_all ..
    moreover have "header_all name (?close ?hs) =
        (if name = ''connection'' \<and> \<not> upgrade then [''close''] else header_all name ?hs)" by (rule close)
    ultimately show ?thesis
      using base header_names_differ(1,3-6) unfolding passed_on_def direct(1,2) assms(2) option.case by presburger
  qed
qed

lemma request_domain_host: "request_domain env rq = Some d \<Longrightarrow> \<exists>h. header_all ''host'' (rq_headers rq) = [h]"
  by (simp add: request_domain_def split: list.splits)

lemma http_request_upgrade:
  assumes "http_request env n routes rq = Forward r up rq'"
  shows "up \<longleftrightarrow> wants_upgrade (rq_headers rq)" "up \<Longrightarrow> is_websocket (rq_headers rq)"
  using assms forward_request_Forward[of env _ "wants_upgrade (rq_headers rq)" rq r up rq']
  by (auto simp: http_request_def Let_def split: option.split_asm if_split_asm sum.split_asm bool.split_asm)

lemma http_request_Forward:
  assumes "http_request env n routes rq = Forward r up rq'"
  shows "\<exists>d. request_domain env rq = Some d \<and> rq_method rq \<noteq> ''CONNECT'' \<and> find_route (map_of routes) d = Some r \<and>
    (rt_upstream r = None \<longrightarrow> is_online (pc_client_id (rt_config r)) n) \<and>
    (rt_upstream r \<noteq> None \<longrightarrow> he_allowed env (pc_proxy_id (rt_config r)) = Inr True) \<and>
    forward_request env r up rq = Forward r up rq'"
proof -
  obtain d r0 u where "request_domain env rq = Some d" "rq_method rq \<noteq> ''CONNECT''"
    "find_route (map_of routes) d = Some r0"
    "rt_upstream r0 = None \<longrightarrow> is_online (pc_client_id (rt_config r0)) n"
    "rt_upstream r0 \<noteq> None \<longrightarrow> he_allowed env (pc_proxy_id (rt_config r0)) = Inr True"
    and fwd: "forward_request env r0 u rq = Forward r up rq'"
    using assms
    by (cases "request_domain env rq"; cases "find_route (map_of routes) (the (request_domain env rq))")
       (auto simp: http_request_def Let_def split: if_split_asm sum.split_asm bool.split_asm)
  then show ?thesis using forward_request_Forward[OF fwd] by auto
qed

text \<open>C10: in every reachable server, a request that a shared port forwards goes to the proxy whose
  pattern its one \<open>Host\<close> header matches, on that port and of type HTTP. A tunnel proxy gets it only while
  its client is connected. A direct proxy gets it only when the controller has just said that it is
  within its quota (a failed question counts as no), and the upstream is a clean origin. Every header passed on
  is accounted for, by \<open>passed_on\<close>: towards an upstream, \<open>Host\<close> is the origin's own authority,
  \<open>X-Forwarded-For\<close>, \<open>-Host\<close> and \<open>-Proto\<close> say what the node knows, whatever the caller sent, and \<open>Forwarded\<close> is gone;
  a tunnel client gets the caller's headers of these names as they came.\<close>

theorem forwarded_request_is_admitted:
  assumes "session_reach url_parse s" "(port, l) \<in> set (nd_domains (sv_node s))" "dl_kind l = ''http''"
    "http_request env (sv_node s) (dl_routes l) rq = Forward r up rq'"
  shows "\<exists>d. request_domain env rq = Some d \<and>
    pc_remote_port (rt_config r) = port \<and> pc_type (rt_config r) = ''http'' \<and>
    (pc_domain (rt_config r) = d \<or> wild_match (pc_domain (rt_config r)) d) \<and>
    (case rt_upstream r of
       None \<Rightarrow> is_online (pc_client_id (rt_config r)) (sv_node s)
     | Some u \<Rightarrow> he_allowed env (pc_proxy_id (rt_config r)) = Inr True \<and> clean_origin ''http'' u \<and>
         upstream_authority u \<noteq> None) \<and>
    (\<forall>name. header_all name (rq_headers rq') = passed_on env r up (rq_headers rq) name) \<and>
    up = wants_upgrade (rq_headers rq) \<and> (up \<longrightarrow> is_websocket (rq_headers rq)) \<and>
    rq_method rq' = rq_method rq \<and> rq_path rq' = Some (case rq_path rq of Some p \<Rightarrow> p | None \<Rightarrow> ''/'')"
proof -
  from http_request_Forward[OF assms(4)] obtain d where
    d: "request_domain env rq = Some d" "find_route (map_of (dl_routes l)) d = Some r"
    and online: "rt_upstream r = None \<longrightarrow> is_online (pc_client_id (rt_config r)) (sv_node s)"
    and allowed: "rt_upstream r \<noteq> None \<longrightarrow> he_allowed env (pc_proxy_id (rt_config r)) = Inr True"
    and fwd: "forward_request env r up rq = Forward r up rq'"
    by (elim exE conjE) (rule that)
  from find_route_key[OF d(2)] obtain k where k: "map_of (dl_routes l) k = Some r" "k = d \<or> wild_match k d" by blast
  have "listener_ok port l"
    using session_reach_inv[OF assms(1)] assms(2) by (auto simp: server_inv_def node_ok_def shared_ok_def)
  from listener_ok_route[OF this k(1)] have fits: "route_fits port ''http'' k r" by (simp add: assms(3))
  have at: "pc_remote_port (rt_config r) = port" "pc_type (rt_config r) = ''http''" "pc_domain (rt_config r) = k"
    using fits by (simp_all add: route_fits_def)
  note out = forward_request_Forward[OF fwd]
  obtain h where "header_all ''host'' (rq_headers rq) = [h]" using request_domain_host[OF d(1)] by blast
  note headers = forwarded_headers[OF fwd this]
  have "case rt_upstream r of
       None \<Rightarrow> is_online (pc_client_id (rt_config r)) (sv_node s)
     | Some u \<Rightarrow> he_allowed env (pc_proxy_id (rt_config r)) = Inr True \<and> clean_origin ''http'' u \<and>
         upstream_authority u \<noteq> None"
    using online allowed out fits by (simp add: route_fits_def split: option.splits)
  then show ?thesis
    using d(1) k(2) at headers out http_request_upgrade[OF assms(4)] by auto
qed

lemma read_sni_replay:
  "read_sni hello prefix cs = Some (d, p, rest) \<Longrightarrow> p @ concat rest = prefix @ concat cs \<and>
     length p \<le> hello_limit \<and> valid_domain d"
  by (induction hello prefix cs rule: read_sni.induct)
     (auto split: if_splits sum.splits option.splits dest: normalize_domain_valid)

text \<open>C23: a TLS connection is passed on byte for byte, including what was read ahead to find its
  route; at most 65536 bytes are read ahead, and the route is one that matches the name the client
  asked for, within its quota when it is direct.\<close>

theorem tls_is_passed_through:
  assumes "serve_tls env hello routes chunks = Some (r, out)"
  shows "concat out = concat chunks \<and> length (hd out) \<le> hello_limit \<and>
    (\<exists>k d p rest. read_sni hello [] chunks = Some (d, p, rest) \<and> valid_domain d \<and>
       map_of routes k = Some r \<and> (k = d \<or> wild_match k d)) \<and>
    (rt_upstream r \<noteq> None \<longrightarrow> he_allowed env (pc_proxy_id (rt_config r)) = Inr True)"
proof -
  obtain d p rest where sni: "read_sni hello [] chunks = Some (d, p, rest)"
    and route: "find_route (map_of routes) d = Some r"
    and ok: "rt_upstream r \<noteq> None \<longrightarrow> he_allowed env (pc_proxy_id (rt_config r)) = Inr True" "out = p # rest"
    using assms by (auto simp: serve_tls_def split: option.splits prod.splits if_splits)
  show ?thesis
    using read_sni_replay[OF sni] find_route_key[OF route] ok sni by auto
qed

definition plain_http :: http_env where
  "plain_http = \<lparr>he_authority_host = Some, he_allowed = (\<lambda>_. Inr True), he_address = ''192.0.2.9''\<rparr>"

definition web_request :: request where
  "web_request =
    \<lparr>rq_method = ''GET'', rq_authority = None, rq_path = Some ''/x'',
     rq_headers = [(''host'', ''a.io''), (''forwarded'', ''for=10.0.0.1''), (''x-forwarded-for'', ''10.0.0.1''),
       (''connection'', ''te''), (''te'', ''trailers'')]\<rparr>"

definition web_server :: server where
  "web_server = new_server\<lparr>sv_node := ag_node (handle_command plain_env
      (SyncDirectProxies [config_to_grpc web_proxy]) \<lparr>ag_node = bare_node,
        ag_tunnel = \<lparr>tn_port = 7000, tn_protocol = ''quic'', tn_running = None, tn_cert = ([], [])\<rparr>,
        ag_rate = 0, ag_sent = [], ag_restarts = 0\<rparr>)\<rparr>"

lemma web_server_reach: "session_reach (\<lambda>_. None) web_server"
proof -
  have n: "sv_node new_server = bare_node" by (simp add: new_server_def)
  show ?thesis
    unfolding web_server_def n[symmetric]
    by (rule session_reach.Step[OF session_reach.Start session_step.Commanded])
qed

lemma web_server_domains:
  "nd_domains (sv_node web_server) =
    [(80, \<lparr>dl_kind = ''http'', dl_routes = [(''a.io'', direct_route (ne_url plain_env) web_proxy)]\<rparr>)]"
proof -
  have n: "normalize_pattern ''a.io'' = Inr ''a.io''" by code_simp
  have p: "parse_upstream (\<lambda>_. Some web_url) ''http'' ''http://b.io'' = Inr web_url"
    by (simp add: parse_upstream_iff clean_origin_def web_url_def)
  have "sv_node web_server = snd (sync_direct_proxies plain_env [web_proxy] bare_node)"
    by (simp add: web_server_def config_grpc_roundtrip)
  then show ?thesis
    by (simp add: sync_direct_proxies_def stop_client_proxies_def domain_stop_def bare_node_def
        direct_config_def start_client_proxies_def start_one_def client_tasks_def domain_start_def n p
        upstream_of_def add_route_def bind_ok_def tasks_of_def direct_route_def web_proxy_def plain_env_def Let_def)
qed

lemma web_request_forward:
  "\<exists>rq'. http_request plain_http (sv_node web_server) [(''a.io'', direct_route (ne_url plain_env) web_proxy)]
     web_request = Forward (direct_route (ne_url plain_env) web_proxy) False rq'"
proof -
  let ?r = "direct_route (ne_url plain_env) web_proxy"
  have u: "rt_upstream ?r = Some web_url"
    by (simp add: direct_route_def plain_env_def web_proxy_def parse_upstream_def web_url_def)
  have "header_text ''a.io'' = Some ''a.io''" by code_simp
  moreover have "normalize_domain ''a.io'' = Inr ''a.io''" by code_simp
  ultimately have d: "request_domain plain_http web_request = Some ''a.io''"
    by (simp add: request_domain_def web_request_def header_all_def plain_http_def)
  have up: "\<not> wants_upgrade (rq_headers web_request)"
    by (simp add: wants_upgrade_def web_request_def header_all_def)
  have "header_text ''b.io'' = Some ''b.io''" by code_simp
  then have "upstream_authority web_url = Some ''b.io''"
    by (simp add: upstream_authority_def web_url_def url_port_def)
  then have "\<exists>rq'. forward_request plain_http ?r False web_request = Forward ?r False rq'"
    by (simp add: forward_request_def u Let_def)
  moreover have "rq_method web_request \<noteq> ''CONNECT''" by (simp add: web_request_def)
  moreover have "find_route (map_of [(''a.io'', ?r)]) ''a.io'' = Some ?r" by (simp add: find_route_def)
  moreover have "he_allowed plain_http i = Inr True" for i by (simp add: plain_http_def)
  ultimately show ?thesis
    using up by (simp add: http_request_def d u del: map_of.simps)
qed

theorem forwarded_request_is_admitted_witness:
  "\<exists>r rq'. http_request plain_http (sv_node web_server) [(''a.io'', direct_route (ne_url plain_env) web_proxy)] web_request =
      Forward r False rq' \<and> pc_domain (rt_config r) = ''a.io'' \<and>
    header_all ''host'' (rq_headers rq') = [''b.io''] \<and> header_all ''x-forwarded-for'' (rq_headers rq') = [''192.0.2.9''] \<and>
    header_all ''x-forwarded-host'' (rq_headers rq') = [''a.io''] \<and> header_all ''forwarded'' (rq_headers rq') = [] \<and>
    header_all ''te'' (rq_headers rq') = []"
proof -
  let ?r = "direct_route (ne_url plain_env) web_proxy"
  from web_request_forward obtain rq' where
    fwd: "http_request plain_http (sv_node web_server) [(''a.io'', ?r)] web_request = Forward ?r False rq'" by blast
  have u: "rt_upstream ?r = Some web_url"
    by (simp add: direct_route_def plain_env_def web_proxy_def parse_upstream_def web_url_def)
  have "header_text ''b.io'' = Some ''b.io''" by code_simp
  then have a: "upstream_authority web_url = Some ''b.io''"
    by (simp add: upstream_authority_def web_url_def url_port_def)
  have "header_all name (rq_headers rq') = passed_on plain_http ?r False (rq_headers web_request) name" for name
    using forwarded_request_is_admitted[OF web_server_reach, where port = 80 and
        l = "\<lparr>dl_kind = ''http'', dl_routes = [(''a.io'', ?r)]\<rparr>" and up = False, of plain_http web_request ?r rq']
    by (simp add: web_server_domains fwd) blast
  moreover have "pc_domain (rt_config ?r) = ''a.io''" by (simp add: direct_route_def web_proxy_def)
  ultimately show ?thesis
    using fwd by (intro exI[of _ ?r] exI[of _ rq'])
      (simp add: passed_on_def u a end_to_end_def hop_names_def web_request_def header_all_def plain_http_def)
qed

theorem tls_is_passed_through_witness:
  "\<exists>out. serve_tls plain_http (\<lambda>b. Inr (if length b < 4 then None else Some (Some ''a.io'')))
     [(''a.io'', direct_route (ne_url plain_env) web_proxy)] [''ab'', ''cdef'', ''g''] =
     Some (direct_route (ne_url plain_env) web_proxy, out) \<and> concat out = ''abcdefg''"
proof -
  let ?h = "\<lambda>b. Inr (if length b < 4 then None else Some (Some ''a.io'')) :: unit + string option option"
  let ?r = "direct_route (ne_url plain_env) web_proxy"
  have "normalize_domain ''a.io'' = Inr ''a.io''" by code_simp
  then have st: "serve_tls plain_http ?h [(''a.io'', ?r)] [''ab'', ''cdef'', ''g''] = Some (?r, [''abcdef'', ''g''])"
    by (simp add: serve_tls_def hello_limit_def find_route_def plain_http_def)
  show ?thesis
    using tls_is_passed_through[OF st] st by simp
qed

end
