(* ===== verification/NodeTraffic.thy ===== *)
theory NodeTraffic
  imports GrpcServices
begin

text \<open>
  Counting traffic on a node (\<open>node/src/server/traffic.rs\<close>): connections report their bytes, a task
  adds them up by proxy, client and user, and every five seconds, or when it holds more than a hundred
  keys, sends the sums to the controller. \<open>nt_sent\<close> and \<open>nt_lost\<close> collect the reports by whether the
  stream took them.
\<close>

section \<open>Operations\<close>

type_synonym node_key = "int \<times> int \<times> int option"

record node_traffic =
  nt_buffer :: "(node_key \<times> i64 \<times> i64) list"
  nt_sent :: "traffic_record list list"
  nt_lost :: "traffic_record list list"

definition new_node_traffic :: node_traffic where
  "new_node_traffic = \<lparr>nt_buffer = [], nt_sent = [], nt_lost = []\<rparr>"

fun record_of :: "node_key \<times> i64 \<times> i64 \<Rightarrow> traffic_record" where
  "record_of ((proxy, client, user), a, b) =
    \<lparr>tr_proxy_id = proxy, tr_client_id = int_str client, tr_user_id = user, tr_sent = a, tr_received = b\<rparr>"

definition counts :: "node_key \<times> i64 \<times> i64 \<Rightarrow> bool" where
  "counts e = (case e of (k, a, b) \<Rightarrow> 0 < sint a \<or> 0 < sint b)"

definition flush_buffer_grpc :: "bool \<Rightarrow> node_traffic \<Rightarrow> node_traffic" where
  "flush_buffer_grpc delivered t =
    (let records = map record_of (filter counts (nt_buffer t)); t = t\<lparr>nt_buffer := []\<rparr> in
     if records = [] then t
     else if delivered then t\<lparr>nt_sent := nt_sent t @ [records]\<rparr>
     else t\<lparr>nt_lost := nt_lost t @ [records]\<rparr>)"

definition node_record :: "int \<Rightarrow> int \<Rightarrow> int option \<Rightarrow> i64 \<Rightarrow> i64 \<Rightarrow> traffic_event option" where
  "node_record proxy client user a b =
    (if a = 0 \<and> b = 0 then None
     else Some \<lparr>ev_proxy_id = proxy, ev_client_id = client, ev_user_id = user, ev_sent = a, ev_received = b\<rparr>)"

definition event_key :: "traffic_event \<Rightarrow> node_key" where
  "event_key e = (ev_proxy_id e, ev_client_id e, ev_user_id e)"

datatype node_traffic_step = Event traffic_event bool | Interval bool

fun node_traffic_turn :: "node_traffic_step \<Rightarrow> node_traffic \<Rightarrow> node_traffic" where
  "node_traffic_turn (Event e delivered) t =
    (let t = t\<lparr>nt_buffer := entry_add (event_key e) (ev_sent e) (ev_received e) (nt_buffer t)\<rparr> in
     if 100 < length (nt_buffer t) then flush_buffer_grpc delivered t else t)"
| "node_traffic_turn (Interval delivered) t =
    (if nt_buffer t \<noteq> [] then flush_buffer_grpc delivered t else t)"

definition node_traffic_run :: "node_traffic_step list \<Rightarrow> node_traffic \<Rightarrow> node_traffic" where
  "node_traffic_run steps t = fold node_traffic_turn steps t"

section \<open>The books\<close>

text \<open>What the steps record, and what the controller makes of a report.\<close>

definition step_event :: "node_traffic_step \<Rightarrow> traffic_event option" where
  "step_event st = (case st of Event e _ \<Rightarrow> Some e | Interval _ \<Rightarrow> None)"

definition event_entry :: "traffic_event \<Rightarrow> node_key \<times> i64 \<times> i64" where
  "event_entry e = (event_key e, ev_sent e, ev_received e)"

definition recorded :: "node_traffic_step list \<Rightarrow> (node_key \<times> i64 \<times> i64) list" where
  "recorded steps = map event_entry (List.map_filter step_event steps)"

definition arrived :: "traffic_record list list \<Rightarrow> (node_key \<times> i64 \<times> i64) list" where
  "arrived reports = concat (map (\<lambda>r. map event_entry (report_events r)) reports)"

definition total_bytes :: "(node_key \<times> i64 \<times> i64) list \<Rightarrow> int" where
  "total_bytes es = sum_list (map (\<lambda>(k, a, b). uint a + uint b) es)"

definition sound_keys :: "(node_key \<times> i64 \<times> i64) list \<Rightarrow> bool" where
  "sound_keys es = (\<forall>((p, c, u), a, b) \<in> set es. - (2 ^ 63) \<le> c \<and> c < 2 ^ 63)"

lemma total_bytes_simps [simp]:
  "total_bytes [] = 0" "total_bytes ((k, a, b) # es) = uint a + uint b + total_bytes es"
  by (simp_all add: total_bytes_def)

lemma total_bytes_nonneg: "0 \<le> total_bytes es"
  by (induction es) auto

lemma total_bytes_append: "total_bytes (es @ fs) = total_bytes es + total_bytes fs"
  by (induction es) auto

lemma total_bytes_member: "(k, a, b) \<in> set es \<Longrightarrow> uint a + uint b \<le> total_bytes es"
proof (induction es)
  case (Cons e es)
  then show ?case using total_bytes_nonneg[of es] by (cases e) (auto intro: order.trans)
qed simp

lemma sums_append [simp]:
  "sent_of P (es @ fs) = sent_of P es + sent_of P fs"
  "received_of P (es @ fs) = received_of P es + received_of P fs"
  by (simp_all add: sent_of_def received_of_def)

lemma uint_add_le: "uint ((a :: i64) + b) \<le> uint a + uint b"
  by (simp add: uint_word_ariths zmod_le_nonneg_dividend)

lemma total_entry_add: "total_bytes (entry_add k a b es) \<le> total_bytes es + uint a + uint b"
proof (induction k a b es rule: entry_add.induct)
  case (2 k a b j x y t)
  then show ?case using uint_add_le[of x a] uint_add_le[of y b] by auto
qed simp

lemma length_entry_add: "length (entry_add k a b es) \<le> Suc (length es)"
  by (induction k a b es rule: entry_add.induct) auto

lemma sound_keys_entry_add:
  "sound_keys es \<Longrightarrow> sound_keys [(k, a, b)] \<Longrightarrow> sound_keys (entry_add k a b es)"
  by (induction k a b es rule: entry_add.induct) (auto simp: sound_keys_def)

lemma not_counts_zero:
  assumes "\<not> counts (k, a, b)" "uint a + uint b < 2 ^ 63"
  shows "a = 0 \<and> b = 0"
proof -
  have "sint x = uint x" if "uint x < 2 ^ 63" for x :: i64
    unfolding sint_uint using that by (intro signed_take_bit_int_eq_self) (simp_all add: order.trans[OF _ uint_ge_0])
  moreover have "uint a < 2 ^ 63" "uint b < 2 ^ 63"
    using assms(2) uint_ge_0[of a] uint_ge_0[of b] by linarith+
  ultimately have "sint a = uint a" "sint b = uint b" by blast+
  then have "\<not> 0 < uint a" "\<not> 0 < uint b" using assms(1) by (simp_all add: counts_def)
  then have "uint a = 0" "uint b = 0" using uint_ge_0[of a] uint_ge_0[of b] by linarith+
  then show ?thesis by (simp add: uint_0_iff)
qed

text \<open>A record read by the controller is the entry it was made of.\<close>

lemma report_events_records:
  assumes "sound_keys es" "list_all counts es"
  shows "map event_entry (report_events (map record_of es)) = es"
  using assms
proof (induction es)
  case (Cons e es)
  obtain p c u a b where e: "e = ((p, c, u), a, b)" by (metis prod.exhaust)
  have "parse_i64 (int_str c) = Some c"
    using Cons.prems(1) by (intro parse_i64_int_str) (simp_all add: sound_keys_def e)
  moreover have "\<not> (a = 0 \<and> b = 0)" using Cons.prems(2) by (auto simp: e counts_def)
  moreover have "sound_keys es" using Cons.prems(1) by (simp add: sound_keys_def)
  ultimately show ?case
    using Cons.IH Cons.prems(2)
    by (simp add: e report_events_def map_filter_simps record_traffic_def event_entry_def event_key_def unwrap_or_def)
qed (simp add: report_events_def map_filter_simps)

lemma sums_filter_zero:
  "\<forall>e \<in> set es. counts e \<or> snd e = (0, 0) \<Longrightarrow>
   sent_of P (filter counts es) = sent_of P es \<and> received_of P (filter counts es) = received_of P es"
  by (induction es) auto

lemma sums_filter_counts:
  assumes "total_bytes es < 2 ^ 63"
  shows "sent_of P (filter counts es) = sent_of P es \<and> received_of P (filter counts es) = received_of P es"
proof (rule sums_filter_zero, rule ballI)
  fix e assume e: "e \<in> set es"
  obtain k a b where k: "e = (k, a, b)" by (metis prod.exhaust)
  show "counts e \<or> snd e = (0, 0)"
    using not_counts_zero[of k a b] total_bytes_member[of k a b es] e assms by (auto simp: k)
qed

section \<open>Every run\<close>

text \<open>What is in the buffer, sent or lost so far is what was recorded.\<close>

definition balanced :: "(node_key \<times> i64 \<times> i64) list \<Rightarrow> node_traffic \<Rightarrow> bool" where
  "balanced es t =
    (length (nt_buffer t) \<le> 100 \<and> total_bytes (nt_buffer t) \<le> total_bytes es \<and> sound_keys (nt_buffer t) \<and>
     (\<forall>P. sent_of P es = sent_of P (nt_buffer t) + sent_of P (arrived (nt_sent t)) + sent_of P (arrived (nt_lost t)) \<and>
          received_of P es = received_of P (nt_buffer t) + received_of P (arrived (nt_sent t)) +
            received_of P (arrived (nt_lost t))) \<and>
     (\<forall>r \<in> set (nt_sent t) \<union> set (nt_lost t). r \<noteq> [] \<and> length r \<le> 101))"

text \<open>Flushing keeps the books, from a buffer that may be one key too long.\<close>

lemma flush_balanced:
  assumes "length (nt_buffer t) \<le> 101" "total_bytes (nt_buffer t) \<le> total_bytes es" "total_bytes es < 2 ^ 63"
    "sound_keys (nt_buffer t)"
    "\<forall>P. sent_of P es = sent_of P (nt_buffer t) + sent_of P (arrived (nt_sent t)) + sent_of P (arrived (nt_lost t)) \<and>
          received_of P es = received_of P (nt_buffer t) + received_of P (arrived (nt_sent t)) +
            received_of P (arrived (nt_lost t))"
    "\<forall>r \<in> set (nt_sent t) \<union> set (nt_lost t). r \<noteq> [] \<and> length r \<le> 101"
  shows "balanced es (flush_buffer_grpc delivered t)"
proof -
  let ?b = "filter counts (nt_buffer t)"
  have sums: "sent_of P ?b = sent_of P (nt_buffer t)" "received_of P ?b = received_of P (nt_buffer t)" for P
    using sums_filter_counts[of "nt_buffer t" P] assms(2,3) by auto
  have sound: "sound_keys ?b" using assms(4) by (auto simp: sound_keys_def)
  have ev: "map event_entry (report_events (map record_of ?b)) = ?b"
    by (rule report_events_records[OF sound]) (simp add: list_all_iff)
  have len: "length (map record_of ?b) \<le> 101"
    using order.trans[OF length_filter_le assms(1)] by simp
  have arr: "arrived (rs @ [map record_of ?b]) = arrived rs @ ?b" for rs
    by (simp add: arrived_def ev)
  have nil: "sent_of P (nt_buffer t) = 0 \<and> received_of P (nt_buffer t) = 0" if "?b = []" for P
    using sums[of P] that by simp
  show ?thesis
    using assms(5,6) len total_bytes_nonneg[of es] sums nil
    by (auto simp: balanced_def flush_buffer_grpc_def Let_def arr sound_keys_def)
qed

lemma turn_balanced:
  assumes "balanced es t" "total_bytes (es @ recorded [st]) < 2 ^ 63" "sound_keys (recorded [st])"
  shows "balanced (es @ recorded [st]) (node_traffic_turn st t)"
proof (cases st)
  case (Event e delivered)
  let ?b = "entry_add (event_key e) (ev_sent e) (ev_received e) (nt_buffer t)"
  have rec: "recorded [st] = [(event_key e, ev_sent e, ev_received e)]"
    by (simp add: recorded_def step_event_def Event map_filter_simps event_entry_def)
  have len: "length ?b \<le> Suc (length (nt_buffer t))" by (rule length_entry_add)
  have books: "length ?b \<le> 101" "total_bytes ?b \<le> total_bytes (es @ recorded [st])" "sound_keys ?b"
    "\<forall>P. sent_of P (es @ recorded [st]) = sent_of P ?b + sent_of P (arrived (nt_sent t)) + sent_of P (arrived (nt_lost t)) \<and>
          received_of P (es @ recorded [st]) = received_of P ?b + received_of P (arrived (nt_sent t)) +
            received_of P (arrived (nt_lost t))"
    "\<forall>r \<in> set (nt_sent t) \<union> set (nt_lost t). r \<noteq> [] \<and> length r \<le> 101"
    using assms len total_entry_add[of "event_key e" "ev_sent e" "ev_received e" "nt_buffer t"]
      sound_keys_entry_add[of "nt_buffer t" "event_key e" "ev_sent e" "ev_received e"]
    by (auto simp: balanced_def rec total_bytes_append algebra_simps)
  show ?thesis
  proof (cases "100 < length ?b")
    case True
    then show ?thesis
      using flush_balanced[of "t\<lparr>nt_buffer := ?b\<rparr>" "es @ recorded [st]" delivered] books assms(2)
      by (simp add: Event Let_def)
  next
    case False
    then show ?thesis using books by (simp add: Event Let_def balanced_def)
  qed
next
  case (Interval delivered)
  have "recorded [st] = []" by (simp add: recorded_def step_event_def Interval map_filter_simps)
  then show ?thesis
    using assms flush_balanced[of t es delivered] by (auto simp: Interval balanced_def)
qed

lemma recorded_Cons: "recorded (st # sts) = recorded [st] @ recorded sts"
  by (simp add: recorded_def map_filter_simps split: option.splits)

lemma run_balanced:
  "balanced es t \<Longrightarrow> total_bytes (es @ recorded steps) < 2 ^ 63 \<Longrightarrow> sound_keys (recorded steps) \<Longrightarrow>
   balanced (es @ recorded steps) (node_traffic_run steps t)"
proof (induction steps arbitrary: es t)
  case Nil
  then show ?case by (simp add: node_traffic_run_def recorded_def map_filter_simps)
next
  case (Cons st steps)
  have "total_bytes (es @ recorded [st]) < 2 ^ 63"
    using Cons.prems(2) total_bytes_nonneg[of "recorded steps"]
    by (simp add: recorded_Cons[of st steps] total_bytes_append)
  moreover have "sound_keys (recorded [st])" "sound_keys (recorded steps)"
    using Cons.prems(3) unfolding recorded_Cons[of st steps] by (auto simp: sound_keys_def)
  ultimately have "balanced ((es @ recorded [st]) @ recorded steps) (node_traffic_run steps (node_traffic_turn st t))"
    using Cons.prems(1,2) by (intro Cons.IH turn_balanced) (simp_all add: recorded_Cons[of st steps])
  then show ?case by (simp add: node_traffic_run_def recorded_Cons[of st steps])
qed

text \<open>C14: from a node's connections to the controller, for every order of events and intervals and
  whichever reports the stream refuses: the bytes of each proxy, client and user that were recorded are
  the bytes the controller reads from the reports it gets, plus those still in the buffer, plus those
  of the refused reports, which are gone. The buffer never rests with more than 100 keys and no report
  has more than 101 records.\<close>

theorem node_traffic_arrives:
  assumes "total_bytes (recorded steps) < 2 ^ 63" "sound_keys (recorded steps)"
  defines "t \<equiv> node_traffic_run steps new_node_traffic"
  shows "sent_of P (recorded steps) =
      sent_of P (arrived (nt_sent t)) + sent_of P (nt_buffer t) + sent_of P (arrived (nt_lost t)) \<and>
    received_of P (recorded steps) =
      received_of P (arrived (nt_sent t)) + received_of P (nt_buffer t) + received_of P (arrived (nt_lost t)) \<and>
    length (nt_buffer t) \<le> 100 \<and> (\<forall>r \<in> set (nt_sent t). r \<noteq> [] \<and> length r \<le> 101)"
proof -
  have "balanced [] new_node_traffic"
    by (simp add: balanced_def new_node_traffic_def sound_keys_def arrived_def)
  from run_balanced[OF this, of steps] assms(1,2) have "balanced (recorded steps) t" by (simp add: t_def)
  then show ?thesis by (simp add: balanced_def algebra_simps)
qed

theorem node_traffic_arrives_witness:
  "sent_of (\<lambda>_. True) (arrived (nt_sent (node_traffic_run
     [Event \<lparr>ev_proxy_id = 1, ev_client_id = 7, ev_user_id = None, ev_sent = 5, ev_received = 2\<rparr> True, Interval True]
     new_node_traffic))) = 5"
proof -
  let ?e = "\<lparr>ev_proxy_id = 1, ev_client_id = 7, ev_user_id = None, ev_sent = 5, ev_received = 2\<rparr> :: traffic_event"
  let ?st = "[Event ?e True, Interval True]"
  have r: "recorded ?st = [((1, 7, None), 5, 2)]"
    by (simp add: recorded_def step_event_def map_filter_simps event_entry_def event_key_def)
  have b: "nt_buffer (node_traffic_run ?st new_node_traffic) = []" "nt_lost (node_traffic_run ?st new_node_traffic) = []"
    by (simp_all add: node_traffic_run_def new_node_traffic_def flush_buffer_grpc_def Let_def event_key_def)
  show ?thesis
    using node_traffic_arrives[of ?st "\<lambda>_. True"] b by (simp add: r sound_keys_def arrived_def)
qed

end
