(* ===== verification/TunnelStreams.thy ===== *)
theory TunnelStreams
  imports NodeTraffic "HOL-Library.Sublist"
begin

text \<open>
  What travels on a tunnel between node and client: the first bytes of each stream
  (\<open>node/src/server/proxy\_server.rs\<close>, \<open>client\_logs.rs\<close>, \<open>client/src/client/connector.rs\<close>), the
  copying of TCP connections and its counting, the exchange for a UDP datagram, and the heartbeat of
  the client. A stream of bytes is a \<open>string\<close>; the transports below the streams deliver bytes in order.
\<close>

section \<open>UTF-8\<close>

text \<open>\<open>String::from\_utf8\<close> accepts well-formed UTF-8: a lead byte fixes the ranges of the bytes after it.\<close>

definition utf8_ranges :: "nat \<Rightarrow> (nat \<times> nat) list option" where
  "utf8_ranges b =
    (if b < 128 then Some []
     else if 194 \<le> b \<and> b \<le> 223 then Some [(128, 191)]
     else if b = 224 then Some [(160, 191), (128, 191)]
     else if b = 237 then Some [(128, 159), (128, 191)]
     else if 225 \<le> b \<and> b \<le> 239 then Some [(128, 191), (128, 191)]
     else if b = 240 then Some [(144, 191), (128, 191), (128, 191)]
     else if 241 \<le> b \<and> b \<le> 243 then Some [(128, 191), (128, 191), (128, 191)]
     else if b = 244 then Some [(128, 143), (128, 191), (128, 191)]
     else None)"

definition in_ranges :: "(nat \<times> nat) list \<Rightarrow> string \<Rightarrow> bool" where
  "in_ranges rs s =
    (length rs \<le> length s \<and> list_all2 (\<lambda>(lo, hi) c. lo \<le> of_char c \<and> of_char c \<le> hi) rs (take (length rs) s))"

function utf8_ok :: "string \<Rightarrow> bool" where
  "utf8_ok [] = True"
| "utf8_ok (c # s) =
    (case utf8_ranges (of_char c) of
       None \<Rightarrow> False
     | Some rs \<Rightarrow> in_ranges rs s \<and> utf8_ok (drop (length rs) s))"
  by pat_completeness auto
termination by (relation "measure length") auto

section \<open>Frames\<close>

datatype stream_error = UnexpectedEnd | NotUtf8 | UnknownProtocol char

text \<open>\<open>(len as u16).to\_be\_bytes()\<close>; a longer text has its length reduced modulo \<open>2 ^ 16\<close>.\<close>

definition be16 :: "nat \<Rightarrow> string" where
  "be16 n = (let m = n mod 65536 in [char_of (m div 256), char_of (m mod 256)])"

definition from_be16 :: "char \<Rightarrow> char \<Rightarrow> nat" where
  "from_be16 a b = of_char a * 256 + of_char b"

definition frame :: "string \<Rightarrow> string" where
  "frame s = be16 (length s) @ s"

fun read_frame :: "string \<Rightarrow> stream_error + string \<times> string" where
  "read_frame (a # b # r) =
    (let n = from_be16 a b
     in if length r < n then Inl UnexpectedEnd
        else if utf8_ok (take n r) then Inr (take n r, drop n r) else Inl NotUtf8)"
| "read_frame _ = Inl UnexpectedEnd"

section \<open>The first bytes of a stream\<close>

text \<open>What the node writes at the start of a stream it opens, and the client's token.\<close>

definition proxy_header :: "char \<Rightarrow> string \<Rightarrow> string" where
  "proxy_header kind target = CHR ''p'' # kind # frame target"

definition log_request :: "nat \<Rightarrow> string" where
  "log_request count = CHR ''l'' # be16 count"

definition auth_message :: "string \<Rightarrow> string" where
  "auth_message token = frame token"

text \<open>What a stream makes the client do: nothing (a short or unknown message), connect to a target and
  hand over the rest of the stream, answer with logs, or report an error.\<close>

datatype client_action =
    Ignored
  | ProxyTcp string string
  | ProxyUdp string string
  | SendLogs nat
  | StreamFailed stream_error

fun client_stream :: "string \<Rightarrow> client_action" where
  "client_stream [] = Ignored"
| "client_stream (t # s) =
    (if t = CHR ''p'' then
       (case s of
          [] \<Rightarrow> StreamFailed UnexpectedEnd
        | kind # r \<Rightarrow>
            (case read_frame r of
               Inl e \<Rightarrow> StreamFailed e
             | Inr (target, rest) \<Rightarrow>
                 if kind = CHR ''t'' then ProxyTcp target rest
                 else if kind = CHR ''u'' then ProxyUdp target rest
                 else StreamFailed (UnknownProtocol kind)))
     else if t = CHR ''l'' then
       (case s of a # b # _ \<Rightarrow> SendLogs (from_be16 a b) | _ \<Rightarrow> StreamFailed UnexpectedEnd)
     else Ignored)"

text \<open>What a stream that a client opens makes the node do, once the client is authenticated.\<close>

datatype node_action = NoAction | Reply string | ConnectTo string string | NodeFailed stream_error

fun node_stream :: "string \<Rightarrow> node_action" where
  "node_stream [] = NoAction"
| "node_stream (t # s) =
    (if t = CHR ''h'' then Reply ''h''
     else (case read_frame s of
             Inl e \<Rightarrow> NodeFailed e
           | Inr (target, rest) \<Rightarrow> ConnectTo target rest))"

section \<open>The heartbeat of a client\<close>

datatype beat = Beaten | Failed | ConnectionClosed

definition MAX_FAILURES :: nat where "MAX_FAILURES = 3"

text \<open>\<open>send\_heartbeat\<close>: what came back for \<open>'h'\<close>, nothing within the time limit included.\<close>

definition send_heartbeat :: "string option \<Rightarrow> beat" where
  "send_heartbeat reply = (case reply of Some (c # _) \<Rightarrow> if c = CHR ''h'' then Beaten else Failed | _ \<Rightarrow> Failed)"

text \<open>The loop: whether the beats so far have ended it, and with it the connection.\<close>

fun heartbeat_over :: "nat \<Rightarrow> beat list \<Rightarrow> bool" where
  "heartbeat_over failures [] = False"
| "heartbeat_over failures (b # bs) =
    (case b of
       ConnectionClosed \<Rightarrow> True
     | Beaten \<Rightarrow> heartbeat_over 0 bs
     | Failed \<Rightarrow> if MAX_FAILURES \<le> Suc failures then True else heartbeat_over (Suc failures) bs)"

section \<open>Copying\<close>

text \<open>One direction of a connection: what each read returned, and whether the write of it succeeded.
  An empty read is the end of the input. The bytes written, the counter, and how it stands.\<close>

datatype read_result = Data string | ReadFailed

datatype copy_state = Copying | Finished | Broken

record copied =
  cp_bytes :: string
  cp_count :: i64
  cp_state :: copy_state

definition copy_turn :: "read_result \<times> bool \<Rightarrow> copied \<Rightarrow> copied" where
  "copy_turn r c =
    (if cp_state c \<noteq> Copying then c
     else (case r of
             (ReadFailed, _) \<Rightarrow> c\<lparr>cp_state := Broken\<rparr>
           | (Data d, written) \<Rightarrow>
               if d = [] then c\<lparr>cp_state := Finished\<rparr>
               else if written then c\<lparr>cp_bytes := cp_bytes c @ d, cp_count := cp_count c + of_nat (length d)\<rparr>
               else c\<lparr>cp_state := Broken\<rparr>))"

definition copy :: "(read_result \<times> bool) list \<Rightarrow> copied" where
  "copy rs = fold copy_turn rs \<lparr>cp_bytes = [], cp_count = 0, cp_state = Copying\<rparr>"

text \<open>\<open>handle\_tcp\_to\_tunnel\_unified\<close> waits for both directions (\<open>join!\<close>), then reports.\<close>

definition tunnel_report :: "int \<Rightarrow> string \<Rightarrow> copied \<Rightarrow> copied \<Rightarrow> traffic_event option" where
  "tunnel_report proxy client up down =
    (if cp_state up = Copying \<or> cp_state down = Copying then None
     else if 0 < sint (cp_count up) \<or> 0 < sint (cp_count down)
     then node_record proxy (case parse_i64 client of Some i \<Rightarrow> i | None \<Rightarrow> 0) None (cp_count up) (cp_count down)
     else None)"

text \<open>\<open>copy\_direct\<close> of a route without client: the first failure ends both directions (\<open>try\_join!\<close>).\<close>

definition direct_report :: "int \<Rightarrow> int option \<Rightarrow> copied \<Rightarrow> copied \<Rightarrow> traffic_event option" where
  "direct_report proxy user up down =
    (if cp_state up = Broken \<or> cp_state down = Broken \<or> cp_state up = Finished \<and> cp_state down = Finished
     then node_record proxy 0 user (cp_count up) (cp_count down)
     else None)"

section \<open>A UDP datagram\<close>

text \<open>
  The node opens a stream per datagram, writes header and datagram, copies what comes back to the
  sender of the datagram, and reports when the stream ends. The client sends on what it reads and
  copies replies back until the stream ends. \<open>ux\_up\<close> and \<open>ux\_down\<close> are the bytes under way;
  \<open>ux\_socket\_failed\<close>, \<open>ux\_tunnel\_lost\<close> that a socket of either side or the tunnel has failed.
\<close>

datatype udp_node = NodeReading | NodeReported i64 i64 | NodeGone

datatype udp_client = AwaitingFirst | Relaying | ClientGone

record udp_exchange =
  ux_node :: udp_node
  ux_client :: udp_client
  ux_up :: string
  ux_up_closed :: bool
  ux_down :: string
  ux_down_closed :: bool
  ux_received :: i64
  ux_socket_failed :: bool
  ux_tunnel_lost :: bool

definition udp_start :: "string \<Rightarrow> udp_exchange" where
  "udp_start data =
    \<lparr>ux_node = NodeReading, ux_client = AwaitingFirst, ux_up = data, ux_up_closed = False, ux_down = [],
     ux_down_closed = False, ux_received = 0, ux_socket_failed = False, ux_tunnel_lost = False\<rparr>"

inductive udp_step :: "string \<Rightarrow> udp_exchange \<Rightarrow> udp_exchange \<Rightarrow> bool" for data where
  ClientFirst: "ux_client x = AwaitingFirst \<Longrightarrow> 0 < k \<Longrightarrow> k \<le> length (ux_up x) \<Longrightarrow>
    udp_step data x (x\<lparr>ux_client := Relaying, ux_up := drop k (ux_up x)\<rparr>)"
| ClientReads: "ux_client x = Relaying \<Longrightarrow> 0 < k \<Longrightarrow> k \<le> length (ux_up x) \<Longrightarrow>
    udp_step data x (x\<lparr>ux_up := drop k (ux_up x)\<rparr>)"
| ClientEnd: "ux_client x \<noteq> ClientGone \<Longrightarrow> ux_up x = [] \<Longrightarrow> ux_up_closed x \<Longrightarrow>
    udp_step data x (x\<lparr>ux_client := ClientGone, ux_down_closed := True\<rparr>)"
| TargetReplies: "ux_client x = Relaying \<Longrightarrow>
    udp_step data x (x\<lparr>ux_down := ux_down x @ d\<rparr>)"
| ClientSocketFails: "ux_client x \<noteq> ClientGone \<Longrightarrow>
    udp_step data x (x\<lparr>ux_client := ClientGone, ux_down_closed := True, ux_socket_failed := True\<rparr>)"
| NodeReads: "ux_node x = NodeReading \<Longrightarrow> 0 < k \<Longrightarrow> k \<le> length (ux_down x) \<Longrightarrow>
    udp_step data x (x\<lparr>ux_down := drop k (ux_down x), ux_received := ux_received x + of_nat k\<rparr>)"
| NodeSocketFails: "ux_node x = NodeReading \<Longrightarrow>
    udp_step data x (x\<lparr>ux_node := NodeGone, ux_up_closed := True, ux_socket_failed := True\<rparr>)"
| NodeEnd: "ux_node x = NodeReading \<Longrightarrow> ux_down x = [] \<Longrightarrow> ux_down_closed x \<Longrightarrow>
    udp_step data x (x\<lparr>ux_node := NodeReported (of_nat (length data)) (ux_received x), ux_up_closed := True\<rparr>)"
| TunnelLost: "udp_step data x (x\<lparr>ux_tunnel_lost := True, ux_up_closed := True, ux_down_closed := True\<rparr>)"

inductive udp_reach :: "string \<Rightarrow> udp_exchange \<Rightarrow> bool" for data where
  Opened: "udp_reach data (udp_start data)"
| Stepped: "udp_reach data x \<Longrightarrow> udp_step data x y \<Longrightarrow> udp_reach data y"

section \<open>Lemmas\<close>

lemma from_be16_be16: "n < 65536 \<Longrightarrow> be16 n = [a, b] \<Longrightarrow> from_be16 a b = n"
  by (auto simp: be16_def from_be16_def Let_def)

lemma be16_cases: obtains a b where "be16 n = [a, b]"
  by (simp add: be16_def Let_def)

lemma read_frame_frame:
  assumes "utf8_ok s" "length s < 65536"
  shows "read_frame (frame s @ r) = Inr (s, r)"
proof -
  obtain a b where ab: "be16 (length s) = [a, b]" by (rule be16_cases)
  show ?thesis
    using from_be16_be16[OF assms(2) ab] assms(1) by (simp add: frame_def ab Let_def)
qed

lemma heartbeat_over_runs:
  "n < MAX_FAILURES \<Longrightarrow> heartbeat_over n bs =
    (ConnectionClosed \<in> set bs \<or> sublist [Failed, Failed, Failed] (replicate n Failed @ bs))"
proof (induction bs arbitrary: n)
  case Nil
  then have "n = 0 \<or> n = 1 \<or> n = 2" by (auto simp: MAX_FAILURES_def)
  then show ?case by (auto simp: numeral_2_eq_2 sublist_Cons_right)
next
  case (Cons b bs)
  from Cons.prems have n: "n = 0 \<or> n = 1 \<or> n = 2" by (auto simp: MAX_FAILURES_def)
  show ?case
  proof (cases b)
    case Beaten
    have "sublist [Failed, Failed, Failed] (replicate n Failed @ Beaten # bs) = sublist [Failed, Failed, Failed] bs"
      using n by (auto simp: numeral_2_eq_2 sublist_Cons_right)
    then show ?thesis using Cons.IH[of 0] Beaten by (simp add: MAX_FAILURES_def)
  next
    case Failed
    show ?thesis
    proof (cases "n = 2")
      case True
      then have "prefix [Failed, Failed, Failed] (replicate n Failed @ b # bs)"
        using Failed by (simp add: numeral_2_eq_2)
      then show ?thesis using True Failed by (simp add: MAX_FAILURES_def prefix_imp_sublist)
    next
      case False
      have "replicate (Suc n) Failed @ bs = replicate n Failed @ Failed # bs"
        by (simp add: replicate_app_Cons_same)
      then show ?thesis
        using Cons.IH[of "Suc n"] False n Failed by (auto simp: MAX_FAILURES_def)
    qed
  qed simp
qed

lemma copy_turn_count:
  "cp_count c = of_nat (length (cp_bytes c)) \<Longrightarrow> cp_count (copy_turn r c) = of_nat (length (cp_bytes (copy_turn r c)))"
  by (auto simp: copy_turn_def split: prod.splits read_result.splits)

lemma copy_count: "cp_count (copy rs) = of_nat (length (cp_bytes (copy rs)))"
proof -
  have "cp_count (fold copy_turn rs c) = of_nat (length (cp_bytes (fold copy_turn rs c)))"
    if "cp_count c = of_nat (length (cp_bytes c))" for c
    using that by (induction rs arbitrary: c) (auto intro: copy_turn_count)
  then show ?thesis by (simp add: copy_def)
qed

lemma udp_running:
  "udp_reach data x \<Longrightarrow> \<not> ux_socket_failed x \<Longrightarrow> \<not> ux_tunnel_lost x \<Longrightarrow>
    ux_node x = NodeReading \<and> \<not> ux_up_closed x \<and> \<not> ux_down_closed x \<and> ux_client x \<noteq> ClientGone"
  by (induction rule: udp_reach.induct) (auto simp: udp_start_def elim!: udp_step.cases)

section \<open>Properties\<close>

text \<open>C24: what one side writes at the start of a stream is what the other reads: the kind of a proxy
  stream, its target and everything after it, the number of a log request, the token of a client; for
  every target that is UTF-8 of at most 65535 bytes.\<close>

theorem stream_headers_roundtrip:
  assumes "utf8_ok target" "length target < 65536" "count < 65536"
  shows "client_stream (proxy_header CHR ''t'' target @ data) = ProxyTcp target data \<and>
    client_stream (proxy_header CHR ''u'' target @ data) = ProxyUdp target data \<and>
    client_stream (log_request count @ data) = SendLogs count \<and>
    read_frame (auth_message target @ data) = Inr (target, data)"
proof -
  obtain a b where ab: "be16 count = [a, b]" by (rule be16_cases)
  show ?thesis
    using from_be16_be16[OF assms(3) ab] read_frame_frame[OF assms(1,2), of data]
    by (simp add: proxy_header_def log_request_def auth_message_def ab)
qed

lemma stream_headers_roundtrip_witness:
  "client_stream (proxy_header CHR ''t'' ''127.0.0.1:80'' @ ''GET'') = ProxyTcp ''127.0.0.1:80'' ''GET''"
proof -
  have "utf8_ok ''127.0.0.1:80''" by (simp add: utf8_ranges_def in_ranges_def)
  from stream_headers_roundtrip[OF this, of 0 "''GET''"] show ?thesis by simp
qed

text \<open>a stream of an authenticated client that is no heartbeat makes the node connect to whatever
  address the client names, its own network included, and hand over the rest of the stream.\<close>

theorem node_connects_where_clients_say:
  assumes "utf8_ok target" "length target < 65536" "t \<noteq> CHR ''h''"
  shows "node_stream (t # frame target @ data) = ConnectTo target data"
  using read_frame_frame[OF assms(1,2), of data] assms(3) by simp

lemma node_connects_where_clients_say_witness:
  "node_stream (CHR ''p'' # frame ''169.254.169.254:80'' @ ''GET'') = ConnectTo ''169.254.169.254:80'' ''GET''"
proof -
  have "utf8_ok ''169.254.169.254:80''" by (simp add: utf8_ranges_def in_ranges_def)
  from node_connects_where_clients_say[OF this, of "CHR ''p''" "''GET''"] show ?thesis by simp
qed

text \<open>the heartbeat of a client ends a connection exactly when the connection was closed or three
  beats in a row have failed.\<close>

theorem heartbeat_over_spec:
  "heartbeat_over 0 beats = (ConnectionClosed \<in> set beats \<or> sublist (replicate MAX_FAILURES Failed) beats)"
  using heartbeat_over_runs[of 0 beats] by (simp add: MAX_FAILURES_def numeral_3_eq_3)

text \<open>a TCP connection through a tunnel is reported once, when both directions are over, with
  exactly the bytes passed on in each direction, for the proxy and the client it belongs to; a
  connection that passed on nothing is not reported.\<close>

theorem tunnel_bytes_are_reported:
  assumes "- (2 ^ 63) \<le> client" "client < 2 ^ 63"
    and "cp_state (copy ups) \<noteq> Copying" "cp_state (copy downs) \<noteq> Copying"
    and "length (cp_bytes (copy ups)) < 2 ^ 63" "length (cp_bytes (copy downs)) < 2 ^ 63"
  shows "tunnel_report proxy (int_str client) (copy ups) (copy downs) =
    (if cp_bytes (copy ups) = [] \<and> cp_bytes (copy downs) = [] then None
     else Some \<lparr>ev_proxy_id = proxy, ev_client_id = client, ev_user_id = None,
                ev_sent = of_nat (length (cp_bytes (copy ups))),
                ev_received = of_nat (length (cp_bytes (copy downs)))\<rparr>)"
proof -
  have pos: "0 < sint (of_nat n :: i64) \<longleftrightarrow> n \<noteq> 0" "(of_nat n :: i64) = 0 \<longleftrightarrow> n = 0" if "n < 2 ^ 63" for n
  proof -
    have s: "sint (of_nat n :: i64) = int n"
      using that by (simp add: signed_of_nat signed_take_bit_int_eq_self)
    then show "0 < sint (of_nat n :: i64) \<longleftrightarrow> n \<noteq> 0" by simp
    show "(of_nat n :: i64) = 0 \<longleftrightarrow> n = 0"
    proof
      assume "(of_nat n :: i64) = 0"
      then have "int n = sint (0 :: i64)" using s by (simp only:)
      then show "n = 0" by simp
    qed simp
  qed
  show ?thesis
    unfolding tunnel_report_def copy_count node_record_def parse_i64_int_str[OF assms(1,2)] option.case
      pos[OF assms(5)] pos[OF assms(6)] length_0_conv
    using assms(3,4) by auto
qed

lemma tunnel_bytes_are_reported_witness:
  "tunnel_report 9 (int_str 7) (copy [(Data ''abc'', True), (Data [], True)]) (copy [(Data ''de'', False)]) =
    Some \<lparr>ev_proxy_id = 9, ev_client_id = 7, ev_user_id = None, ev_sent = 3, ev_received = 0\<rparr>"
  using tunnel_bytes_are_reported[of 7 "[(Data ''abc'', True), (Data [], True)]" "[(Data ''de'', False)]" 9]
  by (simp add: copy_def copy_turn_def)

text \<open>the exchange for a datagram never ends by itself and so is never reported: as long as no
  socket and no tunnel fails, the node waits for the client to end the stream and the client for the
  node, however much they have passed on.\<close>

theorem udp_exchange_is_never_reported:
  assumes "udp_reach data x" "\<not> ux_socket_failed x" "\<not> ux_tunnel_lost x"
  shows "ux_node x = NodeReading \<and> ux_client x \<noteq> ClientGone"
  using udp_running[OF assms] by blast

lemma udp_exchange_is_never_reported_witness:
  "\<exists>x. udp_reach ''ping'' x \<and> ux_received x = 4 \<and> ux_node x = NodeReading"
proof -
  let ?a = "(udp_start ''ping'')\<lparr>ux_client := Relaying, ux_up := []\<rparr>"
  let ?b = "?a\<lparr>ux_down := ''pong''\<rparr>"
  let ?c = "?b\<lparr>ux_down := [], ux_received := 4\<rparr>"
  have "udp_step ''ping'' (udp_start ''ping'') ?a"
    using udp_step.ClientFirst[of "udp_start ''ping''" 4] by (simp add: udp_start_def)
  moreover have "udp_step ''ping'' ?a ?b"
    using udp_step.TargetReplies[of ?a "''ping''" "''pong''"] by (simp add: udp_start_def)
  moreover have "udp_step ''ping'' ?b ?c"
    using udp_step.NodeReads[of ?b 4 "''ping''"] by (simp add: udp_start_def)
  ultimately have r: "udp_reach ''ping'' ?c" by (meson Opened Stepped)
  from udp_exchange_is_never_reported[OF r] have "ux_node ?c = NodeReading" by (simp add: udp_start_def)
  then show ?thesis using r by (intro exI[of _ ?c]) simp
qed

end
