(* ===== verification/Reconnect.thy ===== *)
theory Reconnect
  imports Handlers
begin

text \<open>
  Staying connected: \<open>ReconnectBackoff\<close> (\<open>common/src/utils.rs\<close>), the loops that use it, and the
  heartbeat of a stream (\<open>common/src/grpc/connection.rs\<close>). Durations are whole milliseconds, as all
  callers give them; the random number of a delay and the outcome of an attempt are arguments.
\<close>

section \<open>The backoff\<close>

fun f_to_u64 :: "f64 \<Rightarrow> nat" where
  "f_to_u64 (Fin x) = nat (min (2 ^ 64 - 1) (rat_trunc x))"
| "f_to_u64 PInf = 2 ^ 64 - 1"
| "f_to_u64 _ = 0"

record backoff =
  bo_current :: nat
  bo_initial :: nat
  bo_max :: nat

definition new_backoff :: "nat \<Rightarrow> nat \<Rightarrow> backoff" where
  "new_backoff initial limit = \<lparr>bo_current = initial, bo_initial = initial, bo_max = limit\<rparr>"

definition default_params :: backoff where
  "default_params = new_backoff 1000 60000"

definition next_delay :: "f64 \<Rightarrow> backoff \<Rightarrow> nat \<times> backoff" where
  "next_delay jitter b =
    (let base_ms = f_round (of_nat (bo_current b));
         delay_ms = f_to_u64 (f_max (f_mul base_ms (f_add (Fin 1) jitter)) f_zero)
     in (delay_ms, b\<lparr>bo_current := min (bo_current b * 2) (bo_max b)\<rparr>))"

definition reset_backoff :: "backoff \<Rightarrow> backoff" where
  "reset_backoff b = b\<lparr>bo_current := bo_initial b\<rparr>"

text \<open>What the random number generator promises of \<open>random_range(-0.2..=0.2)\<close>: a number between
  the two \<open>f64\<close> values the literals denote.\<close>

definition jitter_ok :: "f64 \<Rightarrow> bool" where
  "jitter_ok j = (case j of Fin q \<Rightarrow> \<bar>q\<bar> \<le> 3602879701896397 / 2 ^ 54 | _ \<Rightarrow> False)"

text \<open>The waits of a run of failures, one per jitter.\<close>

fun delays :: "f64 list \<Rightarrow> backoff \<Rightarrow> nat list \<times> backoff" where
  "delays [] b = ([], b)"
| "delays (j # js) b =
    (let (d, b') = next_delay j b; (ds, b'') = delays js b' in (d # ds, b''))"

lemma ratio_bounds:
  assumes "jitter_ok j"
  shows "\<exists>y. f_add (Fin 1) j = Fin y \<and> 7205759403792793 / 2 ^ 53 \<le> y \<and> y \<le> 5404319552844596 / 2 ^ 52"
proof -
  obtain q where j: "j = Fin q" and q: "\<bar>q\<bar> \<le> 3602879701896397 / 2 ^ 54"
    using assms by (cases j) (auto simp: jitter_ok_def)
  let ?hi = "5404319552844596 / 2 ^ 52 :: rat"
  let ?lo = "7205759403792793 / 2 ^ 53 :: rat"
  have x: "?lo \<le> 1 + q" "1 + q \<le> ?hi" "0 < ?lo"
    using q by (auto simp: abs_le_iff field_simps)
  have d: "dyadic ?hi" "dyadic ?lo"
    unfolding dyadic_def
    by (rule exI[of _ 5404319552844596], rule exI[of _ "-52"], simp add: power_int_minus field_simps)
       (rule exI[of _ 7205759403792793], rule exI[of _ "-53"], simp add: power_int_minus field_simps)
  obtain y where y: "f_round (1 + q) = Fin y" "y \<le> ?hi"
    using f_round_le[OF _ x(2) d(1)] x by auto
  from f_round_ge[OF x(1,3) d(2) y(1)] have "?lo \<le> y" .
  then show ?thesis using y by (auto simp: j)
qed

lemma whole_ratio_bounds:
  assumes "1 \<le> n" "n \<le> 2 ^ 32" "7205759403792793 / 2 ^ 53 \<le> y" "y \<le> 5404319552844596 / 2 ^ 52"
  shows "rat_of_nat n * y \<le> of_nat (6 * n div 5) + 7 / 8"
    "rat_of_nat ((4 * n - 1) div 5) \<le> of_nat n * y"
proof -
  have "rat_of_nat n \<le> of_nat (2 ^ 32)" using assms(2) by (simp only: of_nat_le_iff)
  then have n: "1 \<le> rat_of_nat n" "rat_of_nat n \<le> 2 ^ 32" using assms(1) by simp_all
  have "6 * n \<le> 5 * (6 * n div 5) + 4" "5 * ((4 * n - 1) div 5) + 1 \<le> 4 * n" using assms(1) by linarith+
  then have "rat_of_nat (6 * n) \<le> of_nat (5 * (6 * n div 5) + 4)"
    "rat_of_nat (5 * ((4 * n - 1) div 5) + 1) \<le> of_nat (4 * n)"
    by (simp_all only: of_nat_le_iff)
  then have I: "6 * rat_of_nat n \<le> 5 * of_nat (6 * n div 5) + 4"
    "5 * rat_of_nat ((4 * n - 1) div 5) + 1 \<le> 4 * of_nat n"
    by (simp_all only: of_nat_add of_nat_mult of_nat_numeral of_nat_1)
  have "of_nat n * y \<le> of_nat n * (5404319552844596 / 2 ^ 52)" using n assms(4) by (intro mult_left_mono) auto
  also have "\<dots> \<le> of_nat (6 * n div 5) + 7 / 8" using I(1) n by simp
  finally show "rat_of_nat n * y \<le> of_nat (6 * n div 5) + 7 / 8" .
  have "rat_of_nat ((4 * n - 1) div 5) \<le> of_nat n * (7205759403792793 / 2 ^ 53)" using I(2) n by simp
  also have "\<dots> \<le> of_nat n * y" using n assms(3) by (intro mult_left_mono) auto
  finally show "rat_of_nat ((4 * n - 1) div 5) \<le> of_nat n * y" .
qed

lemma squeeze:
  fixes c d e n :: nat
  assumes "c \<le> d" "d \<le> e" "4 * n \<le> 5 * (c + 1)" "5 * e \<le> 6 * n"
  shows "5 * d \<le> 6 * n \<and> 4 * n \<le> 5 * (d + 1)"
  using assms by simp

lemma next_delay_bounds:
  assumes j: "jitter_ok j" and n: "bo_current b \<le> 2 ^ 32"
  shows "5 * fst (next_delay j b) \<le> 6 * bo_current b"
    "4 * bo_current b \<le> 5 * (fst (next_delay j b) + 1)"
proof -
  let ?n = "bo_current b"
  obtain y where y: "f_add (Fin 1) j = Fin y" "7205759403792793 / 2 ^ 53 \<le> y" "y \<le> 5404319552844596 / 2 ^ 52"
    using ratio_bounds[OF j] by blast
  have base: "f_round (of_nat ?n) = Fin (of_nat ?n)"
    using f_round_of_int[of "int ?n"] n by simp
  have "5 * fst (next_delay j b) \<le> 6 * ?n \<and> 4 * ?n \<le> 5 * (fst (next_delay j b) + 1)"
  proof (cases "?n = 0")
    case True
    then show ?thesis
      by (simp add: next_delay_def Let_def y(1) f_round_def f_max_def f_zero_def rat_trunc_def)
  next
    case False
    let ?x = "rat_of_nat ?n * y"
    let ?q = "of_nat (6 * ?n div 5) + 7 / 8 :: rat"
    let ?c = "(4 * ?n - 1) div 5"
    have w: "?x \<le> ?q" "of_nat ?c \<le> ?x" using whole_ratio_bounds[OF _ n y(2,3)] False by auto
    have x0: "0 < ?x" using False y(2) by (intro mult_pos_pos) (auto intro: less_le_trans[rotated])
    have big: "6 * ?n div 5 \<le> 2 ^ 33" using n by simp
    have "dyadic ?q"
      unfolding dyadic_def using big
      by (intro exI[of _ "8 * int (6 * ?n div 5) + 7"] exI[of _ "- 3"]) (simp add: power_int_minus field_simps)
    moreover have "?q < 2 ^ 1024"
    proof -
      have "rat_of_nat (6 * ?n div 5) \<le> of_nat (2 ^ 33)" using big by (simp only: of_nat_le_iff)
      also have "\<dots> < 2 ^ 1024 - 1" by simp
      finally show ?thesis by simp
    qed
    ultimately obtain z where z: "f_round ?x = Fin z" "0 \<le> z" "z \<le> ?q"
      using f_round_le[OF x0 w(1)] by blast
    have c: "int ?c \<le> \<lfloor>z\<rfloor>"
    proof (cases "?c = 0")
      case False
      have "dyadic (of_nat ?c)"
        unfolding dyadic_def using n by (intro exI[of _ "int ?c"] exI[of _ 0]) simp
      from f_round_ge[OF w(2) _ this z(1)] False show ?thesis by (simp add: le_floor_iff)
    qed (use z(2) in simp)
    have u: "\<lfloor>z\<rfloor> \<le> int (6 * ?n div 5)" using z(3) by (simp add: floor_le_iff)
    have "fst (next_delay j b) = nat \<lfloor>z\<rfloor>"
      using z(2) u big
      by (auto simp: next_delay_def Let_def y(1) base z(1) f_max_def f_zero_def rat_trunc_def)
    then have "?c \<le> fst (next_delay j b)" "fst (next_delay j b) \<le> 6 * ?n div 5" using c u by simp_all
    moreover have "4 * ?n \<le> 5 * (?c + 1)" "5 * (6 * ?n div 5) \<le> 6 * ?n" by presburger+
    ultimately show ?thesis by (rule squeeze)
  qed
  then show "5 * fst (next_delay j b) \<le> 6 * ?n" "4 * ?n \<le> 5 * (fst (next_delay j b) + 1)" by auto
qed

lemma fst_delays [simp]:
  "fst (delays [] b) = []"
  "fst (delays (j # js) b) = fst (next_delay j b) # fst (delays js (snd (next_delay j b)))"
  by (simp_all add: case_prod_beta Let_def)

declare delays.simps [simp del]

lemma next_delay_backoff [simp]:
  "snd (next_delay j b) = b\<lparr>bo_current := min (bo_current b * 2) (bo_max b)\<rparr>"
  by (simp add: next_delay_def Let_def)

lemma delays_length [simp]: "length (fst (delays js b)) = length js"
  by (induction js arbitrary: b) auto

lemma delays_nth:
  assumes "\<forall>j\<in>set js. jitter_ok j" "bo_current b \<le> bo_max b" "bo_max b \<le> 2 ^ 32" "k < length js"
  shows "5 * fst (delays js b) ! k \<le> 6 * min (bo_current b * 2 ^ k) (bo_max b) \<and>
    4 * min (bo_current b * 2 ^ k) (bo_max b) \<le> 5 * (fst (delays js b) ! k + 1)"
  using assms
proof (induction js arbitrary: b k)
  case (Cons j js)
  let ?b = "snd (next_delay j b)"
  note d = fst_delays(2)[of j js b]
  show ?case
  proof (cases k)
    case 0
    have m: "min (bo_current b * 2 ^ k) (bo_max b) = bo_current b" using Cons.prems(2) 0 by simp
    have n: "bo_current b \<le> 2 ^ 32" using Cons.prems by linarith
    have "jitter_ok j" using Cons.prems by simp
    from next_delay_bounds[OF this n] show ?thesis unfolding d m by (simp add: 0)
  next
    case (Suc i)
    have m: "min (bo_current ?b * 2 ^ i) (bo_max ?b) = min (bo_current b * 2 ^ k) (bo_max b)"
    proof (cases "bo_current b * 2 \<le> bo_max b")
      case False
      then have "min (bo_current b * 2) (bo_max b) = bo_max b" by simp
      moreover have "bo_max b \<le> bo_max b * 2 ^ i" "bo_current b * 2 \<le> bo_current b * 2 ^ k"
        by (simp_all add: Suc)
      with False have "bo_max b \<le> bo_max b * 2 ^ i" "bo_max b \<le> bo_current b * 2 ^ k" by linarith+
      ultimately show ?thesis by (simp add: min.absorb2)
    qed (simp add: Suc mult.assoc)
    show ?thesis
      using Cons.IH[of ?b i] Cons.prems Suc unfolding m by (simp add: d)
  qed
qed simp

lemma delays_sum:
  assumes "\<forall>j\<in>set js. jitter_ok j" "bo_current b \<le> bo_max b" "bo_max b \<le> 2 ^ 32"
  shows "5 * sum_list (fst (delays js b)) \<le> 6 * bo_max b * length js"
  using assms
proof (induction js arbitrary: b)
  case (Cons j js)
  let ?b = "snd (next_delay j b)"
  have "bo_current b \<le> 2 ^ 32" using Cons.prems by linarith
  from next_delay_bounds(1)[OF _ this, of j] Cons.prems
  have "5 * fst (next_delay j b) \<le> 6 * bo_max b" by simp
  moreover have "5 * sum_list (fst (delays js ?b)) \<le> 6 * bo_max b * length js"
    using Cons.IH[of ?b] Cons.prems by simp
  ultimately show ?case by (simp add: algebra_simps)
qed simp

section \<open>The connection loop\<close>

text \<open>
  \<open>tries k\<close> is the outcome of the \<open>k\<close>-th attempt, \<open>jitter k\<close> the number drawn after it. The loop
  of the source has no bound: a run in which no attempt succeeds does not return. The result is the
  connection, the number of failed attempts and the time spent waiting.
\<close>

partial_function (option) connect_loop ::
    "(nat \<Rightarrow> 'a option) \<Rightarrow> (nat \<Rightarrow> f64) \<Rightarrow> backoff \<Rightarrow> nat \<Rightarrow> nat \<Rightarrow> ('a \<times> nat \<times> nat) option" where
  "connect_loop tries jitter b k waited =
    (case tries k of
       Some c \<Rightarrow> Some (c, k, waited)
     | None \<Rightarrow>
         let (d, b') = next_delay (jitter k) b
         in connect_loop tries jitter b' (Suc k) (waited + d))"

lemma connect_loop_finds:
  assumes "tries (k + n) = Some c" "\<forall>i<n. tries (k + i) = None"
  shows "connect_loop tries jitter b k w =
    Some (c, k + n, w + sum_list (fst (delays (map jitter [k..<k + n]) b)))"
  using assms
proof (induction n arbitrary: k b w)
  case 0
  then show ?case by (simp add: connect_loop.simps)
next
  case (Suc n)
  have "tries k = None" using Suc.prems(2) by force
  moreover have "\<forall>i<n. tries (Suc k + i) = None" using Suc.prems(2) by force
  moreover have "[k..<k + Suc n] = k # [Suc k..<Suc k + n]" by (simp add: upt_conv_Cons)
  ultimately show ?case
    using Suc.IH[of "Suc k"] Suc.prems(1)
    by (simp add: connect_loop.simps[of tries jitter b k] Let_def case_prod_beta)
qed

lemma connect_loop_returns:
  assumes "connect_loop tries jitter b k w = Some r"
  shows "\<exists>n. tries (k + n) \<noteq> None"
proof (rule connect_loop.raw_induct[where P = "\<lambda>t j b k w r. \<exists>n. t (k + n) \<noteq> None", OF _ assms])
  fix loop t j b k w r
  assume IH: "\<And>t j b k w r. loop t j b k w = Some r \<Longrightarrow> \<exists>n. (t (k + n) :: 'a option) \<noteq> None"
    and step: "(case t k of Some c \<Rightarrow> Some (c, k, w)
      | None \<Rightarrow> let (d, b') = next_delay (j k) b in loop t j b' (Suc k) (w + d)) = Some r"
  show "\<exists>n. (t (k + n) :: 'a option) \<noteq> None"
  proof (cases "t k")
    case None
    with step have "loop t j (snd (next_delay (j k) b)) (Suc k) (w + fst (next_delay (j k) b)) = Some r"
      by (simp add: case_prod_beta Let_def)
    from IH[OF this] obtain n where "t (Suc k + n) \<noteq> None" by blast
    then show ?thesis by (metis add_Suc_shift)
  qed (metis add_0_right option.distinct(1))
qed

section \<open>The heartbeat of a stream\<close>

text \<open>
  Times are milliseconds. An event is what the environment does next: a response of the controller
  is recorded at a time (the value of the watch channel), the channel of responses closes, the
  outgoing queue takes the heartbeat or is closed. \<open>None\<close> means nothing more happens. A send starts
  at the next tick of the interval, so an event of the queue is never earlier than that tick; a tick
  that has fired is used up even when another branch of the select wins. The branches are in the
  source's order (the select is \<open>biased\<close>): at the same instant a response wins over the deadline and
  the deadline over the send.
\<close>

datatype hb_event = Response nat | ResponsesClosed nat | Queued nat | QueueClosed nat

datatype hb_end = NoResponse | ResponseChannelClosed | SendClosed

record heartbeat =
  hb_now :: nat
  hb_last :: nat
  hb_tick :: nat

definition HEARTBEAT_INTERVAL :: nat where "HEARTBEAT_INTERVAL = 15000"

definition HEARTBEAT_TIMEOUT :: nat where "HEARTBEAT_TIMEOUT = 45000"

definition start_heartbeat :: "nat \<Rightarrow> heartbeat" where
  "start_heartbeat t = \<lparr>hb_now = t, hb_last = t, hb_tick = t + HEARTBEAT_INTERVAL\<rparr>"

definition hb_deadline :: "heartbeat \<Rightarrow> nat" where
  "hb_deadline h = hb_last h + HEARTBEAT_TIMEOUT"

text \<open>The interval after a wait until \<open>t\<close>: a due tick has fired, with \<open>MissedTickBehavior::Delay\<close> the
  next comes one interval after it.\<close>

definition tick_until :: "nat \<Rightarrow> heartbeat \<Rightarrow> nat" where
  "tick_until t h =
    (let due = max (hb_now h) (hb_tick h) in if due < t then due + HEARTBEAT_INTERVAL else hb_tick h)"

text \<open>One turn of the select: the next state, or the end with its time.\<close>

definition hb_turn :: "hb_event option \<Rightarrow> heartbeat \<Rightarrow> (hb_end \<times> nat) + heartbeat" where
  "hb_turn ev h =
    (let deadline = hb_deadline h; timeout = Inl (NoResponse, deadline)
     in case ev of
          Some (Response t) \<Rightarrow>
            let seen = max (hb_now h) t
            in if seen \<le> deadline then Inr \<lparr>hb_now = seen, hb_last = t, hb_tick = tick_until seen h\<rparr> else timeout
        | Some (ResponsesClosed t) \<Rightarrow>
            let seen = max (hb_now h) t
            in if seen \<le> deadline then Inl (ResponseChannelClosed, seen) else timeout
        | Some (Queued t) \<Rightarrow>
            let due = max (hb_now h) (hb_tick h); seen = max due t
            in if seen < deadline then Inr (h\<lparr>hb_now := seen, hb_tick := due + HEARTBEAT_INTERVAL\<rparr>) else timeout
        | Some (QueueClosed t) \<Rightarrow>
            let seen = max (max (hb_now h) (hb_tick h)) t
            in if seen < deadline then Inl (SendClosed, seen) else timeout
        | None \<Rightarrow> timeout)"

partial_function (option) heartbeat_loop ::
    "(nat \<Rightarrow> hb_event option) \<Rightarrow> nat \<Rightarrow> heartbeat \<Rightarrow> (hb_end \<times> nat) option" where
  "heartbeat_loop events i h =
    (case hb_turn (events i) h of
       Inl stop \<Rightarrow> Some stop
     | Inr h' \<Rightarrow> heartbeat_loop events (Suc i) h')"

definition is_response :: "hb_event option \<Rightarrow> bool" where
  "is_response ev = (case ev of Some (Response _) \<Rightarrow> True | _ \<Rightarrow> False)"

lemma hb_turn_quiet:
  assumes "hb_turn ev h = Inr h'" "\<not> is_response ev"
  shows "hb_last h' = hb_last h \<and> hb_tick h + HEARTBEAT_INTERVAL \<le> hb_tick h' \<and>
    hb_tick h < hb_deadline h"
  using assms
  by (auto simp: hb_turn_def Let_def is_response_def hb_deadline_def split: option.splits hb_event.splits if_splits)

lemma hb_turn_ends:
  assumes "hb_turn ev h = Inl (e, t)" 
  shows "t \<le> hb_deadline h \<and> (e = NoResponse \<longrightarrow> t = hb_deadline h)"
  using assms
  by (auto simp: hb_turn_def Let_def split: option.splits hb_event.splits if_splits)

lemma hb_turn_last:
  assumes "hb_turn ev h = Inr h'"
  shows "(ev = Some (Response (hb_last h')) \<or> hb_last h' = hb_last h)"
  using assms
  by (auto simp: hb_turn_def Let_def split: option.splits hb_event.splits if_splits)

text \<open>The time left until the deadline, counted in ticks, decreases while no response comes.\<close>

lemma heartbeat_quiet_ends:
  assumes "\<forall>k\<ge>i. \<not> is_response (events k)"
  shows "\<exists>r. heartbeat_loop events i h = Some r"
  using assms
proof (induction "hb_deadline h - hb_tick h" arbitrary: i h rule: less_induct)
  case less
  show ?case
  proof (cases "hb_turn (events i) h")
    case (Inl stop)
    then show ?thesis by (simp add: heartbeat_loop.simps[of events i])
  next
    case (Inr h')
    have "\<not> is_response (events i)" using less.prems by simp
    from hb_turn_quiet[OF Inr this]
    have "hb_deadline h' - hb_tick h' < hb_deadline h - hb_tick h"
      by (auto simp: hb_deadline_def HEARTBEAT_INTERVAL_def)
    from less.hyps[OF this, of "Suc i"] less.prems Inr show ?thesis
      by (simp add: heartbeat_loop.simps[of events i])
  qed
qed

lemma heartbeat_eventually_ends:
  assumes "\<forall>k\<ge>i + n. \<not> is_response (events k)"
  shows "\<exists>r. heartbeat_loop events i h = Some r"
  using assms
proof (induction n arbitrary: i h)
  case 0
  then show ?case using heartbeat_quiet_ends[of i events h] by simp
next
  case (Suc n)
  then show ?case
    by (cases "hb_turn (events i) h") (auto simp: heartbeat_loop.simps[of events i])
qed

text \<open>How a stream ends: at its deadline at the latest, which no response moves beyond 45 seconds.\<close>

lemma heartbeat_end_time:
  assumes "heartbeat_loop events i h = Some r" "hb_last h \<in> T"
    and "\<forall>k t. events k = Some (Response t) \<longrightarrow> t \<in> T"
  shows "\<exists>l\<in>T. snd r \<le> l + HEARTBEAT_TIMEOUT \<and> (fst r = NoResponse \<longrightarrow> snd r = l + HEARTBEAT_TIMEOUT)"
proof -
  let ?Q = "\<lambda>r. \<exists>l\<in>T. snd r \<le> l + HEARTBEAT_TIMEOUT \<and> (fst r = NoResponse \<longrightarrow> snd r = l + HEARTBEAT_TIMEOUT)"
  let ?P = "\<lambda>ev (i::nat) h r. hb_last h \<in> T \<longrightarrow> (\<forall>k t. ev k = Some (Response t) \<longrightarrow> t \<in> T) \<longrightarrow> ?Q r"
  have "?P events i h r"
  proof (rule heartbeat_loop.raw_induct[where P = ?P, OF _ assms(1)])
    fix loop ev i h r
    assume IH: "\<And>ev i h r. loop ev i h = Some r \<Longrightarrow> ?P ev i h r"
      and step: "(case hb_turn (ev i) h of Inl stop \<Rightarrow> Some stop | Inr h' \<Rightarrow> loop ev (Suc i) h') = Some r"
    show "?P ev i h r"
    proof (intro impI)
      assume h: "hb_last h \<in> T" and T: "\<forall>k t. ev k = Some (Response t) \<longrightarrow> t \<in> T"
      show "?Q r"
      proof (cases "hb_turn (ev i) h")
        case (Inl stop)
        then show ?thesis
          using step h hb_turn_ends[of "ev i" h "fst stop" "snd stop"]
          by (auto simp: hb_deadline_def)
      next
        case (Inr h')
        have "hb_last h' \<in> T" using hb_turn_last[OF Inr] h T by auto
        then show ?thesis using IH[of ev "Suc i" h' r] step Inr T by simp
      qed
    qed
  qed
  then show ?thesis using assms(2,3) by blast
qed

section \<open>Properties\<close>

text \<open>the k-th wait after failures is between 0.8 and 1.2 times the first wait doubled k times and
  cut at the limit, rounding of the floating-point arithmetic included.\<close>

theorem backoff_schedule:
  assumes "\<forall>j\<in>set jitters. jitter_ok j" "initial \<le> limit" "limit \<le> 2 ^ 32" "k < length jitters"
  shows "let base = min (initial * 2 ^ k) limit;
             wait = fst (delays jitters (new_backoff initial limit)) ! k
         in 5 * wait \<le> 6 * base \<and> 4 * base \<le> 5 * (wait + 1)"
  using delays_nth[OF assms(1) _ _ assms(4), of "new_backoff initial limit"] assms(2,3)
  by (simp add: new_backoff_def Let_def)

lemma backoff_schedule_witness:
  "let wait = fst (delays [Fin 0, Fin (1 / 8)] default_params) ! 1
   in 5 * wait \<le> 6 * 2000 \<and> 4 * 2000 \<le> 5 * (wait + 1)"
  using backoff_schedule[of "[Fin 0, Fin (1 / 8)]" 1000 60000 1]
  by (simp add: jitter_ok_def default_params_def Let_def)

text \<open>C17: the loop that connects a node for the first time returns exactly when some attempt succeeds,
  and then with the first one that does, after at most 72 seconds of waiting per failed attempt; it is
  a partial function, and not returning is its value \<open>None\<close>.\<close>

theorem connect_loop_returns_iff:
  assumes "\<forall>k. jitter_ok (jitter k)"
  shows "if \<exists>k. tries k \<noteq> None
    then \<exists>c k waited. connect_loop tries jitter default_params 0 0 = Some (c, k, waited) \<and>
      tries k = Some c \<and> (\<forall>i<k. tries i = None) \<and> waited \<le> 72000 * k
    else connect_loop tries jitter default_params 0 0 = None"
proof (cases "\<exists>k. tries k \<noteq> None")
  case True
  let ?k = "LEAST k. tries k \<noteq> None"
  have "tries ?k \<noteq> None" by (rule LeastI_ex[OF True])
  moreover have k: "\<forall>i<?k. tries i = None" by (blast dest: not_less_Least)
  ultimately obtain c where c: "tries ?k = Some c" by blast
  have "5 * sum_list (fst (delays (map jitter [0..<?k]) default_params)) \<le> 6 * 60000 * ?k"
    using delays_sum[of "map jitter [0..<?k]" default_params] assms
    by (simp add: default_params_def new_backoff_def)
  then have "sum_list (fst (delays (map jitter [0..<?k]) default_params)) \<le> 72000 * ?k" by linarith
  moreover define w where "w = sum_list (fst (delays (map jitter [0..<?k]) default_params))"
  moreover have "connect_loop tries jitter default_params 0 0 = Some (c, ?k, w)"
    unfolding w_def
    by (rule connect_loop_finds[of tries 0 ?k c jitter default_params 0, unfolded add_0, OF c k])
  ultimately show ?thesis unfolding if_P[OF True] using c k by blast
next
  case False
  then show ?thesis
    using connect_loop_returns[of tries jitter default_params 0 0]
    by (cases "connect_loop tries jitter default_params 0 0") auto
qed

lemma connect_loop_returns_iff_witness:
  "\<exists>k waited. connect_loop (\<lambda>k. if k = 3 then Some ''conn'' else None) (\<lambda>_. Fin 0) default_params 0 0 =
    Some (''conn'', k, waited) \<and> waited \<le> 72000 * k"
proof -
  have "\<forall>k. jitter_ok ((\<lambda>_. Fin 0) (k :: nat))" by (simp add: jitter_ok_def)
  from connect_loop_returns_iff[OF this, of "\<lambda>k. if k = 3 then Some ''conn'' else None"]
  show ?thesis by (auto split: if_splits)
qed

text \<open>C18: a controller that falls silent is noticed: once no response arrives any more, the heartbeat
  ends the stream at most 45 seconds after the last response, whatever else happens, and it never
  blames a silence of less than 45 seconds.\<close>

theorem silent_controller_is_noticed:
  assumes "\<forall>k\<ge>n. \<not> is_response (events k)"
    and "\<forall>k t. events k = Some (Response t) \<longrightarrow> t \<le> final" "start \<le> final"
  shows "\<exists>e t. heartbeat_loop events 0 (start_heartbeat start) = Some (e, t) \<and> t \<le> final + HEARTBEAT_TIMEOUT \<and>
    (e = NoResponse \<longrightarrow>
      t = start + HEARTBEAT_TIMEOUT \<or> (\<exists>k l. events k = Some (Response l) \<and> t = l + HEARTBEAT_TIMEOUT))"
proof -
  obtain e t where r: "heartbeat_loop events 0 (start_heartbeat start) = Some (e, t)"
    using heartbeat_eventually_ends[of 0 n events] assms(1) by fastforce
  let ?T = "insert start {l. \<exists>k. events k = Some (Response l)}"
  obtain l where l: "l \<in> ?T" "t \<le> l + HEARTBEAT_TIMEOUT" "e = NoResponse \<longrightarrow> t = l + HEARTBEAT_TIMEOUT"
    using heartbeat_end_time[OF r, of ?T] by (auto simp: start_heartbeat_def)
  have "l \<le> final" using l(1) assms(2,3) by auto
  then show ?thesis using r l by auto
qed

lemma silent_controller_is_noticed_witness:
  "\<exists>e t. heartbeat_loop (\<lambda>k. if k = 0 then Some (Queued 15000) else if k = 1 then Some (Response 15200) else None)
    0 (start_heartbeat 0) = Some (e, t) \<and> t \<le> 15200 + HEARTBEAT_TIMEOUT"
proof -
  let ?ev = "\<lambda>k. if k = 0 then Some (Queued 15000) else if k = 1 then Some (Response 15200) else None"
  have "\<forall>k\<ge>2::nat. \<not> is_response (?ev k)" "\<forall>k t. ?ev k = Some (Response t) \<longrightarrow> t \<le> 15200"
    by (auto simp: is_response_def split: if_splits)
  from silent_controller_is_noticed[OF this, of 0] show ?thesis by auto
qed

end
