(* ===== verification/ClientProgram.thy ===== *)
theory ClientProgram
  imports ClientStreams ClientApi Reconnect
begin

text \<open>
  The client program: the message loop of its stream to the controller
  (\<open>client/src/client/grpc\_client.rs\<close>), and the manager that turns a pushed list of nodes into one
  connection task per node (\<open>connection\_manager.rs\<close>). A task runs until it is cancelled; what it
  tries to connect to is fixed when it is spawned.
\<close>

section \<open>The pushed list\<close>

record client_group =
  cg_node_id :: int
  cg_addr :: string
  cg_port :: u16
  cg_protocol :: tunnel_protocol
  cg_kcp :: "kcp_config option"
  cg_proxies :: "proxy_info list"
  cg_fingerprints :: "string list"

definition convert_server_group :: "server_group \<Rightarrow> client_group" where
  "convert_server_group g =
    \<lparr>cg_node_id = sg_node_id g, cg_addr = sg_addr g, cg_port = ucast (sg_port g),
     cg_protocol = protocol_of (sg_protocol g),
     cg_kcp = sg_kcp g, cg_proxies = sg_proxies g, cg_fingerprints = sg_fingerprints g\<rparr>"

definition convert_server_groups :: "server_group list \<Rightarrow> client_group list" where
  "convert_server_groups = map convert_server_group"

section \<open>Socket addresses\<close>

text \<open>\<open>SocketAddr::from\_str\<close>: \<open>a.b.c.d:port\<close>, or an IPv6 address in brackets with an optional
  numeric scope. Names are not resolved. The port may have leading zeros.\<close>

definition port_ok :: "string \<Rightarrow> bool" where
  "port_ok s = (case parse_digits s of Some n \<Rightarrow> n \<le> 65535 | None \<Rightarrow> False)"

definition scope_ok :: "string \<Rightarrow> bool" where
  "scope_ok s =
    (case s of [] \<Rightarrow> True
     | c # ds \<Rightarrow> c = CHR ''%'' \<and> (case parse_digits ds of Some n \<Rightarrow> n < 2 ^ 32 | None \<Rightarrow> False))"

definition is_socket_v4 :: "string \<Rightarrow> bool" where
  "is_socket_v4 s =
    (case Option.bind (read_ipv4 s) (read_char CHR '':'') of Some p \<Rightarrow> port_ok p | None \<Rightarrow> False)"

definition is_socket_v6 :: "string \<Rightarrow> bool" where
  "is_socket_v6 s =
    (case s of
       c # r \<Rightarrow> c = CHR ''['' \<and>
         (let inner = takeWhile (\<lambda>x. x \<noteq> CHR '']'') r; tail = dropWhile (\<lambda>x. x \<noteq> CHR '']'') r;
              addr = takeWhile (\<lambda>x. x \<noteq> CHR ''%'') inner; scope = dropWhile (\<lambda>x. x \<noteq> CHR ''%'') inner
          in is_ipv6 addr \<and> scope_ok scope \<and>
             (case tail of _ # d # p \<Rightarrow> d = CHR '':'' \<and> port_ok p | _ \<Rightarrow> False))
     | [] \<Rightarrow> False)"

definition is_socket_addr :: "string \<Rightarrow> bool" where
  "is_socket_addr s = (is_socket_v4 s \<or> is_socket_v6 s)"

definition group_addr :: "client_group \<Rightarrow> string" where
  "group_addr g = cg_addr g @ '':'' @ nat_str (unat (cg_port g))"

section \<open>Connection tasks\<close>

datatype verification = SkipVerification | Fingerprint "string set" | SystemCA

datatype connector = QuicConnector verification | KcpConnector "kcp_config option" | TcpTunnelConnector

record serve_task =
  st_addr :: string
  st_protocol :: tunnel_protocol
  st_kcp :: "kcp_config option"
  st_fingerprints :: "string list"
  st_cancelled :: bool
  st_finished :: bool

definition connector_of :: "serve_task \<Rightarrow> connector" where
  "connector_of t =
    (case st_protocol t of
       Quic \<Rightarrow>
         QuicConnector (if st_fingerprints t = [] then SkipVerification else Fingerprint (set (st_fingerprints t)))
     | Kcp \<Rightarrow> KcpConnector (st_kcp t)
     | Tcp \<Rightarrow> TcpTunnelConnector)"

text \<open>
  One turn of a task's loop: the connector could not be made, or the connection lasted so many
  milliseconds. The wait after the turn, and the backoff after it; a connection of 30 seconds or
  more resets the backoff.
\<close>

datatype turn = NoConnector | Lasted nat

definition after_turn :: "f64 \<Rightarrow> turn \<Rightarrow> backoff \<Rightarrow> nat \<times> backoff" where
  "after_turn jitter t b =
    (case t of
       NoConnector \<Rightarrow> next_delay jitter b
     | Lasted ms \<Rightarrow> next_delay jitter (if 30000 \<le> ms then reset_backoff b else b))"

fun turns :: "(f64 \<times> turn) list \<Rightarrow> backoff \<Rightarrow> nat list \<times> backoff" where
  "turns [] b = ([], b)"
| "turns ((j, t) # ts) b =
    (let (d, b') = after_turn j t b; (ds, b'') = turns ts b' in (d # ds, b''))"

section \<open>The connection manager\<close>

record connection =
  cn_proxies :: "int set"
  cn_fingerprints :: "string list"
  cn_task :: nat

record manager =
  mg_conns :: "(int \<times> connection) list"
  mg_tasks :: "serve_task list"

definition new_manager :: manager where
  "new_manager = \<lparr>mg_conns = [], mg_tasks = []\<rparr>"

definition cancel_task :: "nat \<Rightarrow> serve_task list \<Rightarrow> serve_task list" where
  "cancel_task i ts = ts[i := (ts ! i)\<lparr>st_cancelled := True\<rparr>]"

text \<open>\<open>disconnect\<close>; the removal of an old connection in \<open>reconcile\<close> does the same.\<close>

definition disconnect :: "int \<Rightarrow> manager \<Rightarrow> manager" where
  "disconnect n m =
    (case map_of (mg_conns m) n of
       None \<Rightarrow> m
     | Some c \<Rightarrow> m\<lparr>mg_conns := AList.delete n (mg_conns m), mg_tasks := cancel_task (cn_task c) (mg_tasks m)\<rparr>)"

definition spawned :: "client_group \<Rightarrow> serve_task" where
  "spawned g =
    \<lparr>st_addr = group_addr g, st_protocol = cg_protocol g, st_kcp = cg_kcp g,
     st_fingerprints = cg_fingerprints g, st_cancelled = False, st_finished = False\<rparr>"

definition connect :: "client_group \<Rightarrow> int set \<Rightarrow> manager \<Rightarrow> manager" where
  "connect g ids m =
    (if \<not> is_socket_addr (group_addr g) then m
     else m\<lparr>mg_conns := AList.update (cg_node_id g)
              \<lparr>cn_proxies = ids, cn_fingerprints = cg_fingerprints g, cn_task = length (mg_tasks m)\<rparr> (mg_conns m),
            mg_tasks := mg_tasks m @ [spawned g]\<rparr>)"

definition needs_reconnect :: "client_group \<Rightarrow> manager \<Rightarrow> bool" where
  "needs_reconnect g m =
    (case map_of (mg_conns m) (cg_node_id g) of
       Some c \<Rightarrow> st_finished (mg_tasks m ! cn_task c) \<or> cn_fingerprints c \<noteq> cg_fingerprints g
     | None \<Rightarrow> True)"

definition reconcile_group :: "client_group \<Rightarrow> manager \<Rightarrow> manager" where
  "reconcile_group g m =
    (let ids = set (map pi_proxy_id (cg_proxies g))
     in if needs_reconnect g m then connect g ids (disconnect (cg_node_id g) m)
        else m\<lparr>mg_conns := AList.map_entry (cg_node_id g)
                 (\<lambda>c. c\<lparr>cn_proxies := ids, cn_fingerprints := cg_fingerprints g\<rparr>) (mg_conns m)\<rparr>)"

definition reconcile :: "client_group list \<Rightarrow> manager \<Rightarrow> manager" where
  "reconcile gs m =
    (let wanted = set (map cg_node_id gs);
         stale = filter (\<lambda>n. n \<notin> wanted) (map fst (mg_conns m))
     in fold reconcile_group gs (fold disconnect stale m))"

text \<open>A task ends after it was cancelled; otherwise only by a panic.\<close>

definition task_ends :: "nat \<Rightarrow> manager \<Rightarrow> manager" where
  "task_ends i m = m\<lparr>mg_tasks := (mg_tasks m)[i := (mg_tasks m ! i)\<lparr>st_finished := True\<rparr>]\<rparr>"

inductive manager_step :: "manager \<Rightarrow> manager \<Rightarrow> bool" where
  Pushed: "manager_step m (reconcile gs m)"
| Ended: "manager_step m (task_ends i m)"

inductive manager_reach :: "manager \<Rightarrow> bool" where
  NoConnections: "manager_reach new_manager"
| Then: "manager_reach m \<Longrightarrow> manager_step m m' \<Longrightarrow> manager_reach m'"

section \<open>One task per node\<close>

definition conn_of :: "manager \<Rightarrow> int \<Rightarrow> connection option" where
  "conn_of m n = map_of (mg_conns m) n"

definition task_of :: "manager \<Rightarrow> connection \<Rightarrow> serve_task" where
  "task_of m c = mg_tasks m ! cn_task c"

definition entry_ok :: "manager \<Rightarrow> connection \<Rightarrow> bool" where
  "entry_ok m c =
    (cn_task c < length (mg_tasks m) \<and> \<not> st_cancelled (task_of m c) \<and>
     st_fingerprints (task_of m c) = cn_fingerprints c)"

definition manager_ok :: "manager \<Rightarrow> bool" where
  "manager_ok m =
    ((\<forall>n c. conn_of m n = Some c \<longrightarrow> entry_ok m c) \<and>
     (\<forall>n n' c c'. conn_of m n = Some c \<and> conn_of m n' = Some c' \<and> cn_task c = cn_task c' \<longrightarrow> n = n') \<and>
     (\<forall>i<length (mg_tasks m). \<not> st_cancelled (mg_tasks m ! i) \<longrightarrow> (\<exists>n c. conn_of m n = Some c \<and> cn_task c = i)))"

lemma manager_okI:
  assumes "\<And>n c. conn_of m n = Some c \<Longrightarrow> entry_ok m c"
    and "\<And>n n' c c'. conn_of m n = Some c \<Longrightarrow> conn_of m n' = Some c' \<Longrightarrow> cn_task c = cn_task c' \<Longrightarrow> n = n'"
    and "\<And>i. i < length (mg_tasks m) \<Longrightarrow> \<not> st_cancelled (mg_tasks m ! i) \<Longrightarrow>
      \<exists>n c. conn_of m n = Some c \<and> cn_task c = i"
  shows "manager_ok m"
  using assms unfolding manager_ok_def by blast

lemma manager_ok_entry: "manager_ok m \<Longrightarrow> conn_of m n = Some c \<Longrightarrow> entry_ok m c"
  unfolding manager_ok_def by blast

lemma manager_ok_inj:
  "manager_ok m \<Longrightarrow> conn_of m n = Some c \<Longrightarrow> conn_of m n' = Some c' \<Longrightarrow> cn_task c = cn_task c' \<Longrightarrow> n = n'"
  unfolding manager_ok_def by blast

lemma manager_ok_task:
  "manager_ok m \<Longrightarrow> i < length (mg_tasks m) \<Longrightarrow> \<not> st_cancelled (mg_tasks m ! i) \<Longrightarrow>
   \<exists>n c. conn_of m n = Some c \<and> cn_task c = i"
  unfolding manager_ok_def by blast

lemma conn_of_disconnect: "conn_of (disconnect n m) k = (if k = n then None else conn_of m k)"
  by (cases "map_of (mg_conns m) n") (auto simp: disconnect_def conn_of_def delete_conv')

lemma conn_of_connect:
  "conn_of (connect g ids m) k =
    (if is_socket_addr (group_addr g) \<and> k = cg_node_id g
     then Some \<lparr>cn_proxies = ids, cn_fingerprints = cg_fingerprints g, cn_task = length (mg_tasks m)\<rparr>
     else conn_of m k)"
  by (simp add: connect_def conn_of_def update_conv')

lemma mg_tasks_connect:
  "mg_tasks (connect g ids m) = mg_tasks m @ (if is_socket_addr (group_addr g) then [spawned g] else [])"
  by (simp add: connect_def)

lemma mg_tasks_disconnect:
  "mg_tasks (disconnect n m) =
    (case conn_of m n of None \<Rightarrow> mg_tasks m | Some c \<Rightarrow> cancel_task (cn_task c) (mg_tasks m))"
  by (simp add: disconnect_def conn_of_def split: option.splits)

lemma disconnect_ok:
  assumes "manager_ok m"
  shows "manager_ok (disconnect n m)"
proof (cases "conn_of m n")
  case None
  then have "disconnect n m = m" by (simp add: disconnect_def conn_of_def)
  then show ?thesis using assms by simp
next
  case (Some c)
  let ?m = "disconnect n m"
  have ts: "mg_tasks ?m = cancel_task (cn_task c) (mg_tasks m)" by (simp add: mg_tasks_disconnect Some)
  show ?thesis
  proof (rule manager_okI)
    fix k d assume d: "conn_of ?m k = Some d"
    then have k: "k \<noteq> n" "conn_of m k = Some d" by (auto simp: conn_of_disconnect split: if_splits)
    have "cn_task d \<noteq> cn_task c" using manager_ok_inj[OF assms k(2) Some] k(1) by blast
    then show "entry_ok ?m d"
      using manager_ok_entry[OF assms k(2)] by (simp add: entry_ok_def task_of_def ts cancel_task_def)
  next
    fix k k' d d' assume "conn_of ?m k = Some d" "conn_of ?m k' = Some d'" "cn_task d = cn_task d'"
    then show "k = k'" using manager_ok_inj[OF assms] by (auto simp: conn_of_disconnect split: if_splits)
  next
    fix i assume i: "i < length (mg_tasks ?m)" "\<not> st_cancelled (mg_tasks ?m ! i)"
    have "i \<noteq> cn_task c" using i by (auto simp: ts cancel_task_def)
    moreover from this i obtain k d where "conn_of m k = Some d" "cn_task d = i"
      using manager_ok_task[OF assms, of i] by (auto simp: ts cancel_task_def)
    ultimately show "\<exists>k d. conn_of ?m k = Some d \<and> cn_task d = i"
      using Some by (intro exI[of _ k] exI[of _ d]) (auto simp: conn_of_disconnect)
  qed
qed

lemma connect_ok:
  assumes ok: "manager_ok m" and free: "conn_of m (cg_node_id g) = None"
  shows "manager_ok (connect g ids m)"
proof (cases "is_socket_addr (group_addr g)")
  case True
  let ?m = "connect g ids m"
  have old: "conn_of m k = Some d" "cn_task d < length (mg_tasks m)"
    if "conn_of ?m k = Some d" "k \<noteq> cg_node_id g" for k d
    using that manager_ok_entry[OF ok, of k d] by (auto simp: conn_of_connect entry_ok_def)
  have new: "cn_task d = length (mg_tasks m)" if "conn_of ?m (cg_node_id g) = Some d" for d
    using that True by (auto simp: conn_of_connect)
  have ts: "mg_tasks ?m ! i = mg_tasks m ! i" if "i < length (mg_tasks m)" for i
    using that by (simp add: mg_tasks_connect nth_append)
  show ?thesis
  proof (rule manager_okI)
    fix k d assume d: "conn_of ?m k = Some d"
    show "entry_ok ?m d"
    proof (cases "k = cg_node_id g")
      case True
      then have "cn_task d = length (mg_tasks m)" "cn_fingerprints d = cg_fingerprints g"
        using d \<open>is_socket_addr _\<close> by (auto simp: conn_of_connect)
      then show ?thesis
        using \<open>is_socket_addr _\<close> by (simp add: entry_ok_def task_of_def mg_tasks_connect spawned_def)
    next
      case False
      then show ?thesis
        using old[OF d] manager_ok_entry[OF ok, of k d] ts
        by (auto simp: entry_ok_def task_of_def mg_tasks_connect)
    qed
  next
    fix k k' d d' assume "conn_of ?m k = Some d" "conn_of ?m k' = Some d'" "cn_task d = cn_task d'"
    then show "k = k'"
      using old new manager_ok_inj[OF ok, of k d k' d'] by (metis less_irrefl)
  next
    fix i assume i: "i < length (mg_tasks ?m)" "\<not> st_cancelled (mg_tasks ?m ! i)"
    show "\<exists>k d. conn_of ?m k = Some d \<and> cn_task d = i"
    proof (cases "i < length (mg_tasks m)")
      case True
      with i ts obtain k d where k: "conn_of m k = Some d" "cn_task d = i"
        using manager_ok_task[OF ok, of i] by auto
      then have "conn_of ?m k = Some d" using free by (auto simp: conn_of_connect)
      then show ?thesis using k(2) by blast
    next
      case False
      then have "i = length (mg_tasks m)" using i(1) \<open>is_socket_addr _\<close> by (simp add: mg_tasks_connect)
      then show ?thesis using \<open>is_socket_addr _\<close> by (auto simp: conn_of_connect)
    qed
  qed
qed (simp add: connect_def ok)

lemma reconcile_group_cases:
  "reconcile_group g m =
    (if needs_reconnect g m then connect g (set (map pi_proxy_id (cg_proxies g))) (disconnect (cg_node_id g) m)
     else m\<lparr>mg_conns := AList.map_entry (cg_node_id g)
            (\<lambda>c. c\<lparr>cn_proxies := set (map pi_proxy_id (cg_proxies g)), cn_fingerprints := cg_fingerprints g\<rparr>) (mg_conns m)\<rparr>)"
  by (simp add: reconcile_group_def Let_def)

lemma conn_of_kept:
  "\<not> needs_reconnect g m \<Longrightarrow> conn_of (reconcile_group g m) n =
    (if n = cg_node_id g
     then map_option (\<lambda>c. c\<lparr>cn_proxies := set (map pi_proxy_id (cg_proxies g)), cn_fingerprints := cg_fingerprints g\<rparr>)
            (conn_of m n)
     else conn_of m n)"
  by (simp add: reconcile_group_cases conn_of_def AList.map_of_map_entry split: option.splits)

lemma kept_entry:
  "\<not> needs_reconnect g m \<Longrightarrow>
    \<exists>c. conn_of m (cg_node_id g) = Some c \<and> \<not> st_finished (task_of m c) \<and> cn_fingerprints c = cg_fingerprints g"
  by (auto simp: needs_reconnect_def conn_of_def task_of_def split: option.splits)

lemma kept_task:
  assumes "\<not> needs_reconnect g m" "conn_of m (cg_node_id g) = Some c"
  shows "\<exists>c'. conn_of (reconcile_group g m) (cg_node_id g) = Some c' \<and>
    task_of (reconcile_group g m) c' = task_of m c"
  using assms(2) conn_of_kept[OF assms(1), of "cg_node_id g"] assms(1)
  by (simp add: reconcile_group_cases task_of_def)

lemma reconcile_group_ok:
  assumes "manager_ok m"
  shows "manager_ok (reconcile_group g m)"
proof (cases "needs_reconnect g m")
  case True
  then show ?thesis
    using connect_ok[OF disconnect_ok[OF assms, of "cg_node_id g"]]
    by (simp add: reconcile_group_cases conn_of_disconnect)
next
  case False
  let ?m = "reconcile_group g m"
  obtain c where c: "conn_of m (cg_node_id g) = Some c" "cn_fingerprints c = cg_fingerprints g"
    using kept_entry[OF False] by blast
  have ts: "mg_tasks ?m = mg_tasks m" using False by (simp add: reconcile_group_cases)
  have prev: "\<exists>e. conn_of m k = Some e \<and> cn_task e = cn_task d \<and> cn_fingerprints e = cn_fingerprints d"
    if "conn_of ?m k = Some d" for k d
    using that c by (auto simp: conn_of_kept[OF False] split: if_splits)
  have fwd: "\<exists>d. conn_of ?m k = Some d \<and> cn_task d = cn_task e" if "conn_of m k = Some e" for k e
    using that by (auto simp: conn_of_kept[OF False])
  show ?thesis
  proof (rule manager_okI)
    fix k d assume "conn_of ?m k = Some d"
    from prev[OF this] show "entry_ok ?m d"
      using manager_ok_entry[OF assms, of k] by (auto simp: entry_ok_def task_of_def ts)
  next
    fix k k' d d' assume "conn_of ?m k = Some d" "conn_of ?m k' = Some d'" "cn_task d = cn_task d'"
    then show "k = k'" using prev[of k d] prev[of k' d'] manager_ok_inj[OF assms] by metis
  next
    fix i assume "i < length (mg_tasks ?m)" "\<not> st_cancelled (mg_tasks ?m ! i)"
    then obtain k e where e: "conn_of m k = Some e" "cn_task e = i"
      using manager_ok_task[OF assms, of i] by (auto simp: ts)
    show "\<exists>k d. conn_of ?m k = Some d \<and> cn_task d = i"
      using fwd[OF e(1)] e(2) by blast
  qed
qed

lemma fold_ok:
  "(\<And>x m. manager_ok m \<Longrightarrow> manager_ok (f x m)) \<Longrightarrow> manager_ok m \<Longrightarrow> manager_ok (fold f xs m)"
  by (induction xs arbitrary: m) auto

lemma reconcile_ok: "manager_ok m \<Longrightarrow> manager_ok (reconcile gs m)"
  unfolding reconcile_def Let_def by (intro fold_ok reconcile_group_ok disconnect_ok)

lemma nth_update_view: "(\<And>x. P (f x) = P x) \<Longrightarrow> P (xs[i := f (xs ! i)] ! k) = P (xs ! k)"
  by (cases "i < length xs") (auto simp: nth_list_update list_update_beyond)

lemma task_ends_ok:
  assumes "manager_ok m"
  shows "manager_ok (task_ends i m)"
proof -
  have c: "conn_of (task_ends i m) = conn_of m" by (simp add: conn_of_def task_ends_def fun_eq_iff)
  have l: "length (mg_tasks (task_ends i m)) = length (mg_tasks m)" by (simp add: task_ends_def)
  have t: "st_cancelled (mg_tasks (task_ends i m) ! k) = st_cancelled (mg_tasks m ! k)"
    "st_fingerprints (mg_tasks (task_ends i m) ! k) = st_fingerprints (mg_tasks m ! k)" for k
    using nth_update_view[of st_cancelled "\<lambda>t. t\<lparr>st_finished := True\<rparr>"]
      nth_update_view[of st_fingerprints "\<lambda>t. t\<lparr>st_finished := True\<rparr>"]
    by (simp_all add: task_ends_def)
  show ?thesis using assms unfolding manager_ok_def entry_ok_def task_of_def c l t .
qed

lemma manager_ok_new: "manager_ok new_manager"
  by (simp add: manager_ok_def conn_of_def new_manager_def)

lemma manager_reach_ok: "manager_reach m \<Longrightarrow> manager_ok m"
  by (induction rule: manager_reach.induct)
     (auto elim!: manager_step.cases intro: reconcile_ok task_ends_ok manager_ok_new)

section \<open>What a list leads to\<close>

text \<open>The node of \<open>g\<close> has a running connection with the group's fingerprints and proxies, or its
  address is not one a client can use.\<close>

definition served :: "manager \<Rightarrow> client_group \<Rightarrow> bool" where
  "served m g =
    (case conn_of m (cg_node_id g) of
       None \<Rightarrow> \<not> is_socket_addr (group_addr g)
     | Some c \<Rightarrow>
         cn_proxies c = set (map pi_proxy_id (cg_proxies g)) \<and>
         \<not> st_cancelled (task_of m c) \<and> \<not> st_finished (task_of m c) \<and>
         st_fingerprints (task_of m c) = cg_fingerprints g)"

lemma reconcile_group_serves:
  assumes "manager_ok m"
  shows "served (reconcile_group g m) g"
proof (cases "needs_reconnect g m")
  case True
  then have r: "reconcile_group g m =
      connect g (set (map pi_proxy_id (cg_proxies g))) (disconnect (cg_node_id g) m)"
    by (simp add: reconcile_group_cases)
  show ?thesis
    by (auto simp: served_def r conn_of_connect conn_of_disconnect task_of_def mg_tasks_connect spawned_def nth_append)
next
  case False
  obtain c where c: "conn_of m (cg_node_id g) = Some c" "\<not> st_finished (task_of m c)"
    "cn_fingerprints c = cg_fingerprints g"
    using kept_entry[OF False] by blast
  moreover have "mg_tasks (reconcile_group g m) = mg_tasks m" using False by (simp add: reconcile_group_cases)
  ultimately show ?thesis
    using manager_ok_entry[OF assms c(1)]
    by (simp add: served_def conn_of_kept[OF False] entry_ok_def task_of_def)
qed

lemma reconcile_group_other:
  assumes ok: "manager_ok m" and n: "n \<noteq> cg_node_id g"
  shows "conn_of (reconcile_group g m) n = conn_of m n"
    "conn_of m n = Some c \<Longrightarrow> task_of (reconcile_group g m) c = task_of m c"
proof -
  show "conn_of (reconcile_group g m) n = conn_of m n"
    using n by (cases "needs_reconnect g m")
      (simp_all add: conn_of_kept, simp add: reconcile_group_cases conn_of_connect conn_of_disconnect)
  assume c: "conn_of m n = Some c"
  show "task_of (reconcile_group g m) c = task_of m c"
  proof (cases "needs_reconnect g m")
    case True
    have lt: "cn_task c < length (mg_tasks m)" using manager_ok_entry[OF ok c] by (simp add: entry_ok_def)
    have "mg_tasks (disconnect (cg_node_id g) m) ! cn_task c = mg_tasks m ! cn_task c"
    proof (cases "conn_of m (cg_node_id g)")
      case (Some d)
      then have "cn_task d \<noteq> cn_task c" using manager_ok_inj[OF ok c Some] n by auto
      then show ?thesis by (simp add: mg_tasks_disconnect Some cancel_task_def)
    qed (simp add: mg_tasks_disconnect)
    moreover have "length (mg_tasks (disconnect (cg_node_id g) m)) = length (mg_tasks m)"
      by (simp add: mg_tasks_disconnect cancel_task_def split: option.splits)
    ultimately show ?thesis
      using True lt by (simp add: reconcile_group_cases task_of_def mg_tasks_connect nth_append)
  qed (simp add: reconcile_group_cases task_of_def)
qed

lemma served_other:
  assumes "manager_ok m" "served m h" "cg_node_id h \<noteq> cg_node_id g"
  shows "served (reconcile_group g m) h"
  using assms(2) reconcile_group_other[OF assms(1,3)]
  by (auto simp: served_def split: option.splits)

lemma served_fold:
  assumes "manager_ok m" "served m h" "cg_node_id h \<notin> cg_node_id ` set gs"
  shows "served (fold reconcile_group gs m) h"
  using assms by (induction gs arbitrary: m) (auto intro: reconcile_group_ok served_other)

lemma fold_serves:
  assumes "manager_ok m" "distinct (map cg_node_id gs)" "g \<in> set gs"
  shows "served (fold reconcile_group gs m) g"
  using assms
proof (induction gs arbitrary: m)
  case (Cons h gs)
  show ?case
  proof (cases "g = h")
    case True
    then show ?thesis
      using Cons.prems served_fold[OF reconcile_group_ok[OF Cons.prems(1)] reconcile_group_serves[OF Cons.prems(1)]]
      by simp
  qed (use Cons reconcile_group_ok in \<open>auto\<close>)
qed simp

lemma fold_disconnect: "conn_of (fold disconnect ns m) n = (if n \<in> set ns then None else conn_of m n)"
  by (induction ns arbitrary: m) (auto simp: conn_of_disconnect)

lemma fold_other:
  "manager_ok m \<Longrightarrow> n \<notin> cg_node_id ` set gs \<Longrightarrow> conn_of (fold reconcile_group gs m) n = conn_of m n"
  by (induction gs arbitrary: m) (auto simp: reconcile_group_other reconcile_group_ok)

lemma reconcile_stale:
  assumes "manager_ok m" "n \<notin> cg_node_id ` set gs"
  shows "conn_of (reconcile gs m) n = None"
proof -
  let ?m = "fold disconnect (filter (\<lambda>n. n \<notin> set (map cg_node_id gs)) (map fst (mg_conns m))) m"
  have "conn_of ?m n = None"
    using assms(2) unfolding fold_disconnect by (auto simp: conn_of_def map_of_eq_None_iff)
  moreover have "manager_ok ?m" using assms(1) by (intro fold_ok disconnect_ok)
  ultimately show ?thesis using assms(2) by (simp add: reconcile_def Let_def fold_other)
qed

lemma reconcile_serves:
  assumes "manager_ok m" "distinct (map cg_node_id gs)" "g \<in> set gs"
  shows "served (reconcile gs m) g"
  unfolding reconcile_def Let_def by (rule fold_serves[OF fold_ok[OF disconnect_ok assms(1)] assms(2,3)])

text \<open>The task that serves a node after a list: a new one for the group, or the one that runs already.\<close>

definition serving :: "manager \<Rightarrow> client_group \<Rightarrow> serve_task" where
  "serving m g = (if needs_reconnect g m then spawned g else task_of m (the (conn_of m (cg_node_id g))))"

lemma serving_cong:
  assumes "conn_of m' (cg_node_id g) = conn_of m (cg_node_id g)"
    and "\<And>c. conn_of m (cg_node_id g) = Some c \<Longrightarrow> task_of m' c = task_of m c"
  shows "serving m' g = serving m g"
  using assms
  by (cases "conn_of m (cg_node_id g)") (simp_all add: serving_def needs_reconnect_def conn_of_def task_of_def)

lemma serving_disconnect:
  assumes ok: "manager_ok m" and n: "n \<noteq> cg_node_id g"
  shows "serving (disconnect n m) g = serving m g"
proof (rule serving_cong)
  fix c assume c: "conn_of m (cg_node_id g) = Some c"
  show "task_of (disconnect n m) c = task_of m c"
  proof (cases "conn_of m n")
    case (Some d)
    then have "cn_task d \<noteq> cn_task c" using manager_ok_inj[OF ok Some c] n by blast
    then show ?thesis by (simp add: task_of_def mg_tasks_disconnect Some cancel_task_def)
  qed (simp add: task_of_def mg_tasks_disconnect)
qed (use n in \<open>simp add: conn_of_disconnect\<close>)

lemma serving_fold_disconnect:
  "manager_ok m \<Longrightarrow> cg_node_id g \<notin> set ns \<Longrightarrow> serving (fold disconnect ns m) g = serving m g"
  by (induction ns arbitrary: m) (auto simp: serving_disconnect disconnect_ok)

lemma reconcile_group_serving:
  assumes "conn_of (reconcile_group g m) (cg_node_id g) = Some c"
  shows "task_of (reconcile_group g m) c = serving m g"
proof (cases "needs_reconnect g m")
  case True
  then show ?thesis
    using assms by (auto simp: reconcile_group_cases serving_def conn_of_connect conn_of_disconnect task_of_def
        mg_tasks_connect nth_append split: if_splits)
next
  case False
  then show ?thesis
    using assms by (auto simp: conn_of_kept serving_def task_of_def) (simp add: reconcile_group_cases)
qed

lemma fold_other_task:
  assumes "manager_ok m" "n \<notin> cg_node_id ` set gs" "conn_of m n = Some c"
  shows "task_of (fold reconcile_group gs m) c = task_of m c"
  using assms
  by (induction gs arbitrary: m) (auto simp: reconcile_group_other reconcile_group_ok)

lemma fold_serving:
  assumes "manager_ok m" "distinct (map cg_node_id gs)" "g \<in> set gs"
    and "conn_of (fold reconcile_group gs m) (cg_node_id g) = Some c"
  shows "task_of (fold reconcile_group gs m) c = serving m g"
  using assms
proof (induction gs arbitrary: m)
  case (Cons h gs)
  note ok = reconcile_group_ok[OF Cons.prems(1), of h]
  show ?case
  proof (cases "g = h")
    case True
    then have "cg_node_id g \<notin> cg_node_id ` set gs" using Cons.prems(2) by simp
    then show ?thesis
      using Cons.prems(4) True fold_other[OF ok] fold_other_task[OF ok] reconcile_group_serving by simp
  next
    case False
    then have n: "cg_node_id g \<noteq> cg_node_id h" using Cons.prems(2,3) by (auto simp: rev_image_eqI)
    have "serving (reconcile_group h m) g = serving m g"
      by (rule serving_cong) (use reconcile_group_other[OF Cons.prems(1) n] in auto)
    then show ?thesis using Cons.IH[OF ok] Cons.prems False by simp
  qed
qed simp

lemma reconcile_serving:
  assumes "manager_ok m" "distinct (map cg_node_id gs)" "g \<in> set gs"
    and "conn_of (reconcile gs m) (cg_node_id g) = Some c"
  shows "task_of (reconcile gs m) c = serving m g"
proof -
  let ?ns = "filter (\<lambda>n. n \<notin> set (map cg_node_id gs)) (map fst (mg_conns m))"
  have "task_of (fold reconcile_group gs (fold disconnect ?ns m)) c = serving (fold disconnect ?ns m) g"
    using assms(4) by (intro fold_serving fold_ok disconnect_ok assms(1-3)) (simp_all add: reconcile_def)
  then show ?thesis
    using serving_fold_disconnect[OF assms(1), of g ?ns] assms(3) by (auto simp: reconcile_def)
qed

section \<open>Which addresses a client can use\<close>

lemma read_run_stop:
  "\<not> P c \<Longrightarrow> read_run P (s @ c # r) = (case read_run P s of (a, b) \<Rightarrow> (a, b @ c # r))"
  by (induction s) (auto split: prod.splits)

lemma read_octet_colon:
  "read_octet (s @ CHR '':'' # r) = map_option (\<lambda>b. b @ CHR '':'' # r) (read_octet s)"
proof -
  have c: "\<not> is_digit CHR '':''" by (simp add: is_digit_def)
  obtain ds b where "read_run is_digit s = (ds, b)" by (cases "read_run is_digit s")
  then show ?thesis
    unfolding read_octet_def read_run_stop[of is_digit, OF c] by (simp split: option.splits)
qed

lemma read_dot_colon:
  "read_char CHR ''.'' (s @ CHR '':'' # r) = map_option (\<lambda>b. b @ CHR '':'' # r) (read_char CHR ''.'' s)"
  by (cases s) (simp_all add: read_char_def)

lemma bind_map_option: "Option.bind (map_option f x) g = Option.bind x (g \<circ> f)"
  by (cases x) simp_all

lemma map_bind_option: "map_option f (Option.bind x g) = Option.bind x (map_option f \<circ> g)"
  by (cases x) simp_all

lemma read_ipv4_colon:
  "read_ipv4 (s @ CHR '':'' # r) = map_option (\<lambda>b. b @ CHR '':'' # r) (read_ipv4 s)"
  by (simp add: read_ipv4_def read_octet_colon read_dot_colon bind_map_option map_bind_option comp_def)

lemma port_ok_nat_str: "n \<le> 65535 \<Longrightarrow> port_ok (nat_str n)"
  by (simp add: port_ok_def parse_digits_nat_str)

lemma parse_acc_digits: "parse_acc n s = Some k \<Longrightarrow> list_all is_digit s"
  by (induction s arbitrary: n) (auto split: if_splits)

lemma port_ok_digits: "port_ok s \<Longrightarrow> list_all is_digit s"
  by (auto simp: port_ok_def parse_digits_def dest: parse_acc_digits split: option.splits if_splits)

lemma unat_u16_le: "unat (p :: u16) \<le> 65535"
proof -
  have "unat p < 2 ^ 16" using unsigned_less[of p] by simp
  then show ?thesis by simp
qed

lemma is_socket_v4_group: "is_socket_v4 (group_addr g) = (read_ipv4 (cg_addr g) = Some [])"
proof -
  let ?p = "nat_str (unat (cg_port g))"
  have port: "port_ok ?p" by (rule port_ok_nat_str[OF unat_u16_le])
  have inner: "\<not> port_ok (b @ CHR '':'' # ?p)" for b
    using port_ok_digits[of "b @ CHR '':'' # ?p"] by (auto simp: is_digit_def)
  have r: "read_ipv4 (group_addr g) = map_option (\<lambda>b. b @ CHR '':'' # ?p) (read_ipv4 (cg_addr g))"
    unfolding group_addr_def using read_ipv4_colon by simp
  show ?thesis
  proof (cases "read_ipv4 (cg_addr g)")
    case (Some b)
    show ?thesis
    proof (cases b)
      case Nil
      then show ?thesis using port by (simp add: is_socket_v4_def r Some read_char_def)
    next
      case (Cons x xs)
      then show ?thesis using inner[of xs] by (simp add: is_socket_v4_def r Some read_char_def)
    qed
  qed (simp add: is_socket_v4_def r)
qed

lemma is_socket_v6_group:
  assumes "cg_addr g \<noteq> [] \<longrightarrow> hd (cg_addr g) \<noteq> CHR ''[''"
  shows "\<not> is_socket_v6 (group_addr g)"
  using assms by (cases "cg_addr g") (simp_all add: is_socket_v6_def group_addr_def)

section \<open>Properties\<close>

text \<open>C9: after every list the controller pushes, the client has a running connection to each of its
  nodes (or the address of the node does not parse), and every task that is not cancelled belongs to
  exactly one connection, to a node of the list; no task of a node that is gone goes on.\<close>

theorem reconcile_follows_groups:
  assumes "manager_reach m" "distinct (map cg_node_id gs)"
  shows "(\<forall>g\<in>set gs. served (reconcile gs m) g) \<and>
    (\<forall>i<length (mg_tasks (reconcile gs m)). \<not> st_cancelled (mg_tasks (reconcile gs m) ! i) \<longrightarrow>
      (\<exists>!n. \<exists>c. conn_of (reconcile gs m) n = Some c \<and> cn_task c = i) \<and>
      (\<exists>g\<in>set gs. \<exists>c. conn_of (reconcile gs m) (cg_node_id g) = Some c \<and> cn_task c = i))"
proof -
  have ok: "manager_ok m" "manager_ok (reconcile gs m)"
    using manager_reach_ok[OF assms(1)] reconcile_ok by auto
  have "(\<exists>!n. \<exists>c. conn_of (reconcile gs m) n = Some c \<and> cn_task c = i) \<and>
      (\<exists>g\<in>set gs. \<exists>c. conn_of (reconcile gs m) (cg_node_id g) = Some c \<and> cn_task c = i)"
    if i: "i < length (mg_tasks (reconcile gs m))" "\<not> st_cancelled (mg_tasks (reconcile gs m) ! i)" for i
  proof -
    obtain n c where c: "conn_of (reconcile gs m) n = Some c" "cn_task c = i"
      using manager_ok_task[OF ok(2) i] by blast
    moreover have "n \<in> cg_node_id ` set gs" using reconcile_stale[OF ok(1), of n gs] c(1) by auto
    ultimately show ?thesis using manager_ok_inj[OF ok(2)] by blast
  qed
  then show ?thesis using reconcile_serves[OF ok(1) assms(2)] by blast
qed

definition sample_group :: "tunnel_protocol \<Rightarrow> client_group" where
  "sample_group pr =
    \<lparr>cg_node_id = 4, cg_addr = ''10.0.0.4'', cg_port = 7000, cg_protocol = pr, cg_kcp = None,
     cg_proxies = [], cg_fingerprints = [''sha256:aa'']\<rparr>"

lemma sample_group_addr: "is_socket_addr (group_addr (sample_group pr))"
proof -
  have "read_ipv4 (cg_addr (sample_group pr)) = Some []"
    by (simp add: sample_group_def read_ipv4_def read_octet_def read_char_def is_digit_def parse_digits_def)
  then show ?thesis using is_socket_v4_group by (simp add: is_socket_addr_def)
qed

lemma reconcile_follows_groups_witness:
  "\<exists>c. conn_of (reconcile [sample_group Tcp] new_manager) 4 = Some c \<and>
    st_fingerprints (task_of (reconcile [sample_group Tcp] new_manager) c) = [''sha256:aa'']"
  using reconcile_follows_groups[OF NoConnections, of "[sample_group Tcp]"] sample_group_addr[of Tcp]
  by (auto simp: served_def sample_group_def split: option.splits)

text \<open>a client reaches a node only by an IPv4 address (or an IPv6 address the administrator has
  put in brackets): a host name or a bare IPv6 address is refused as an invalid address.\<close>

theorem client_needs_address_literal:
  assumes "cg_addr g \<noteq> [] \<longrightarrow> hd (cg_addr g) \<noteq> CHR ''[''"
  shows "is_socket_addr (group_addr g) = (read_ipv4 (cg_addr g) = Some [])"
  using is_socket_v4_group[of g] is_socket_v6_group[OF assms] by (simp add: is_socket_addr_def)

lemma client_needs_address_literal_witness:
  "\<not> is_socket_addr (group_addr ((sample_group Tcp)\<lparr>cg_addr := ''node.example.com''\<rparr>)) \<and>
   \<not> is_socket_addr (group_addr ((sample_group Tcp)\<lparr>cg_addr := ''2001:db8::1''\<rparr>))"
  using client_needs_address_literal[of "(sample_group Tcp)\<lparr>cg_addr := ''node.example.com''\<rparr>"]
    client_needs_address_literal[of "(sample_group Tcp)\<lparr>cg_addr := ''2001:db8::1''\<rparr>"]
  by (simp add: read_ipv4_def read_octet_def read_char_def is_digit_def parse_digits_def)

text \<open>a new address, port or protocol of a node does not reach a client that is connected: while
  the task runs and the fingerprints are the same, the old task goes on as it was.\<close>

theorem changed_endpoint_is_missed:
  assumes "manager_reach m" "conn_of m (cg_node_id g) = Some c" "\<not> st_finished (task_of m c)"
    and "cn_fingerprints c = cg_fingerprints g"
  shows "\<exists>c'. conn_of (reconcile [g] m) (cg_node_id g) = Some c' \<and>
    task_of (reconcile [g] m) c' = task_of m c"
proof -
  let ?m = "fold disconnect (filter (\<lambda>n. n \<notin> {cg_node_id g}) (map fst (mg_conns m))) m"
  have ok: "manager_ok m" by (rule manager_reach_ok[OF assms(1)])
  have keep: "manager_ok m' \<Longrightarrow> conn_of m' (cg_node_id g) = Some c \<Longrightarrow> cg_node_id g \<notin> set ns \<Longrightarrow>
      task_of (fold disconnect ns m') c = task_of m' c" for ns m'
  proof (induction ns arbitrary: m')
    case (Cons n ns)
    have "task_of (disconnect n m') c = task_of m' c"
    proof (cases "conn_of m' n")
      case (Some d)
      then have "cn_task d \<noteq> cn_task c" using manager_ok_inj[OF Cons.prems(1) Some Cons.prems(2)] Cons.prems(3) by auto
      then show ?thesis by (simp add: task_of_def mg_tasks_disconnect Some cancel_task_def)
    qed (simp add: task_of_def mg_tasks_disconnect)
    then show ?case
      using Cons.IH[of "disconnect n m'"] Cons.prems disconnect_ok by (simp add: conn_of_disconnect)
  qed simp
  have c: "conn_of ?m (cg_node_id g) = Some c" "task_of ?m c = task_of m c"
    using assms(2) keep[OF ok assms(2)] by (simp_all add: fold_disconnect)
  then have n: "\<not> needs_reconnect g ?m"
    using assms(3,4) unfolding needs_reconnect_def conn_of_def task_of_def by simp
  have r: "reconcile [g] m = reconcile_group g ?m" by (simp add: reconcile_def)
  show ?thesis unfolding r using kept_task[OF n c(1)] unfolding c(2) .
qed

lemma changed_endpoint_is_missed_witness:
  "\<exists>c. conn_of (reconcile [sample_group Tcp] (reconcile [sample_group Quic] new_manager)) 4 = Some c \<and>
    st_protocol (task_of (reconcile [sample_group Tcp] (reconcile [sample_group Quic] new_manager)) c)
      = Quic"
proof -
  let ?q = "sample_group Quic"
  let ?m = "reconcile [?q] new_manager"
  have m: "?m = connect ?q {} new_manager"
    by (simp add: reconcile_def new_manager_def reconcile_group_def needs_reconnect_def disconnect_def sample_group_def)
  have c: "conn_of ?m (cg_node_id (sample_group Tcp)) = Some \<lparr>cn_proxies = {}, cn_fingerprints = [''sha256:aa''], cn_task = 0\<rparr>"
    using sample_group_addr[of Quic] unfolding m
    by (simp add: conn_of_connect sample_group_def new_manager_def)
  have t: "task_of ?m \<lparr>cn_proxies = {}, cn_fingerprints = [''sha256:aa''], cn_task = 0\<rparr> = spawned ?q"
    using sample_group_addr[of Quic] unfolding m
    by (simp add: task_of_def mg_tasks_connect new_manager_def)
  have "manager_reach ?m" by (rule Then[OF NoConnections Pushed])
  from changed_endpoint_is_missed[OF this c] show ?thesis
    unfolding t by (auto simp: spawned_def sample_group_def)
qed

text \<open>What the controller's tables say of a node: where its tunnel is, and whom its clients trust.\<close>

definition dials :: "(string \<Rightarrow> kcp_config option) \<Rightarrow> node_row \<Rightarrow> serve_task \<Rightarrow> bool" where
  "dials kcp_of node t =
    (st_addr t = n_tunnel_addr node @ '':'' @ nat_str (unat (ucast (n_tunnel_port node) :: u16)) \<and>
     st_protocol t = protocol_of (n_tunnel_protocol node) \<and>
     st_kcp t = Option.bind (n_kcp_config node) kcp_of)"

definition trusted :: "db \<Rightarrow> int \<Rightarrow> string list" where
  "trusted d n = (case cert_of d n of Some k \<Rightarrow> [k_fingerprint k] | None \<Rightarrow> [])"

definition pushed_group :: "(string \<Rightarrow> kcp_config option) \<Rightarrow> db \<Rightarrow> int \<Rightarrow> node_row \<Rightarrow> client_group" where
  "pushed_group kcp_of d i node =
    convert_server_group (server_group_of kcp_of node
      (map proxy_info_of (filter (\<lambda>p. p_node_id p = Some (n_id node)) (client_proxies d i))) (trusted d (n_id node)))"

lemma pushed_group_sel [simp]:
  "cg_node_id (pushed_group kcp_of d i node) = n_id node"
  "cg_addr (pushed_group kcp_of d i node) = n_tunnel_addr node"
  "cg_fingerprints (pushed_group kcp_of d i node) = trusted d (n_id node)"
  "pi_proxy_id ` set (cg_proxies (pushed_group kcp_of d i node)) =
    p_id ` {q \<in> set (client_proxies d i). p_node_id q = Some (n_id node)}"
  by (force simp: pushed_group_def convert_server_group_def server_group_of_def proxy_info_of_def)+

lemma pushed_groups:
  "convert_server_groups (client_groups kcp_of d i) =
    map (pushed_group kcp_of d i)
      (filter (\<lambda>n. \<exists>p \<in> set (client_proxies d i). p_node_id p = Some (n_id n)) (db_nodes d))"
  by (simp add: convert_server_groups_def client_groups_def pushed_group_def trusted_def)

lemma spawned_dials: "dials kcp_of node (spawned (pushed_group kcp_of d i node))"
  by (simp add: dials_def spawned_def group_addr_def pushed_group_def convert_server_group_def server_group_of_def
      split: option.split)

text \<open>A list from the controller's tables gives every node with a proxy of the client a task; whether it is a
  new one says \<open>needs_reconnect\<close>.\<close>

lemma pushed_serving:
  assumes "manager_reach m" "distinct (map n_id (db_nodes d))"
    and "node \<in> set (db_nodes d)" "p \<in> set (client_proxies d i)" "p_node_id p = Some (n_id node)"
    and "read_ipv4 (n_tunnel_addr node) = Some []"
  obtains c where
    "conn_of (reconcile (convert_server_groups (client_groups kcp_of d i)) m) (n_id node) = Some c"
    "served (reconcile (convert_server_groups (client_groups kcp_of d i)) m) (pushed_group kcp_of d i node)"
    "task_of (reconcile (convert_server_groups (client_groups kcp_of d i)) m) c = serving m (pushed_group kcp_of d i node)"
proof -
  let ?gs = "convert_server_groups (client_groups kcp_of d i)"
  let ?g = "pushed_group kcp_of d i node"
  have ids: "distinct (map cg_node_id ?gs)"
    using distinct_map_filter[OF assms(2)] by (simp add: pushed_groups comp_def)
  have g: "?g \<in> set ?gs" using assms(3-5) by (auto simp: pushed_groups)
  note ok = manager_reach_ok[OF assms(1)]
  have s: "served (reconcile ?gs m) ?g" by (rule reconcile_serves[OF ok ids g])
  have "is_socket_addr (group_addr ?g)" using is_socket_v4_group[of ?g] assms(6) by (simp add: is_socket_addr_def)
  then obtain c where c: "conn_of (reconcile ?gs m) (n_id node) = Some c"
    using s by (auto simp: served_def split: option.splits)
  then show ?thesis using that s reconcile_serving[OF ok ids g] by simp
qed



text \<open>A connection that lasted half a minute is followed by a wait of about a second, however many
  attempts failed before it.\<close>

lemma stable_connection_resets:
  assumes "jitter_ok j" "30000 \<le> ms" "bo_initial b = 1000"
  shows "fst (after_turn j (Lasted ms) b) \<le> 1200 \<and> 799 \<le> fst (after_turn j (Lasted ms) b)"
  using next_delay_bounds[OF assms(1), of "reset_backoff b"] assms(2,3)
  by (simp add: after_turn_def reset_backoff_def)

end
