(* ===== verification/NodeSupport.thy ===== *)
theory NodeSupport
  imports World Reconnect
begin

text \<open>
  Shared services of the programs: the token bucket of a node (\<open>node/src/server/speed\_limiter.rs\<close>), the
  log buffers of node and client (\<open>node\_logs.rs\<close>, \<open>client/src/client/log\_collector.rs\<close>), and the
  node's cache of settings (\<open>config\_manager.rs\<close>).
\<close>

section \<open>The token bucket\<close>

text \<open>\<open>lm\_waiting\<close> holds what each waiting consumer still needs, in the order they wait.\<close>

record limiter =
  lm_rate :: nat
  lm_available :: f64
  lm_waiting :: "f64 list"

definition f_of_u64 :: "nat \<Rightarrow> f64" where
  "f_of_u64 n = f_round (of_nat n)"

definition f_ge :: "f64 \<Rightarrow> f64 \<Rightarrow> bool" where
  "f_ge x y = (f_lt y x \<or> x = y \<and> x \<noteq> NaN)"

definition new_limiter :: "nat \<Rightarrow> limiter" where
  "new_limiter rate = \<lparr>lm_rate = rate, lm_available = f_of_u64 rate, lm_waiting = []\<rparr>"

text \<open>One pass of the loop in \<open>consume\<close>: done, or what is still missing.\<close>

definition try_take :: "f64 \<Rightarrow> limiter \<Rightarrow> f64 option \<times> limiter" where
  "try_take remaining l =
    (if f_ge (lm_available l) remaining
     then (None, l\<lparr>lm_available := f_sub (lm_available l) remaining\<rparr>)
     else (Some (f_sub remaining (lm_available l)), l\<lparr>lm_available := f_zero\<rparr>))"

definition queue_take :: "f64 \<Rightarrow> limiter \<Rightarrow> limiter" where
  "queue_take remaining l =
    (case try_take remaining l of
       (None, l') \<Rightarrow> l'
     | (Some r, l') \<Rightarrow> l'\<lparr>lm_waiting := lm_waiting l' @ [r]\<rparr>)"

definition notify_waiters :: "limiter \<Rightarrow> limiter" where
  "notify_waiters l = fold queue_take (lm_waiting l) (l\<lparr>lm_waiting := []\<rparr>)"

definition consume :: "nat \<Rightarrow> limiter \<Rightarrow> limiter" where
  "consume bytes l = (if lm_rate l = 0 then l else queue_take (f_of_u64 bytes) l)"

text \<open>\<open>refill\<close> with the seconds since the last one.\<close>

definition refill :: "f64 \<Rightarrow> limiter \<Rightarrow> limiter" where
  "refill elapsed l =
    (if lm_rate l = 0 then l
     else notify_waiters (l\<lparr>lm_available :=
       f_min (f_add (lm_available l) (f_mul (f_of_u64 (lm_rate l)) elapsed)) (f_of_u64 (lm_rate l))\<rparr>))"

definition update_rate :: "nat \<Rightarrow> limiter \<Rightarrow> limiter" where
  "update_rate rate l =
    (let l = l\<lparr>lm_rate := rate\<rparr> in if rate = 0 then notify_waiters l else l)"

datatype limiter_step = Consume nat | Refill f64 | UpdateRate nat

fun limiter_turn :: "limiter_step \<Rightarrow> limiter \<Rightarrow> limiter" where
  "limiter_turn (Consume n) l = consume n l"
| "limiter_turn (Refill e) l = refill e l"
| "limiter_turn (UpdateRate r) l = update_rate r l"

section \<open>Log buffers\<close>

text \<open>Both programs keep the latest entries, at most \<open>cap\<close> of them.\<close>

definition push_log :: "nat \<Rightarrow> 'a \<Rightarrow> 'a list \<Rightarrow> 'a list" where
  "push_log cap e buffer = (if cap \<le> length buffer then tl buffer else buffer) @ [e]"

definition get_last :: "nat \<Rightarrow> 'a list \<Rightarrow> 'a list" where
  "get_last count buffer = drop (length buffer - count) buffer"

text \<open>\<open>GetLogs\<close> of a client: no limit when the count is 0.\<close>

definition client_logs :: "nat \<Rightarrow> 'a list \<Rightarrow> 'a list" where
  "client_logs count buffer = (if count = 0 then buffer else get_last count buffer)"

datatype level = ERROR | WARN | INFO | DEBUG | TRACE

fun level_to_string :: "level \<Rightarrow> string" where
  "level_to_string ERROR = ''ERROR''"
| "level_to_string WARN = ''WARN''"
| "level_to_string INFO = ''INFO''"
| "level_to_string DEBUG = ''DEBUG''"
| "level_to_string TRACE = ''TRACE''"

text \<open>The visitor of the node strips a pair of quotes; \<open>None\<close> is the panic of \<open>[1..len - 1]\<close> on a
  message that is one quote.\<close>

definition strip_quotes :: "string \<Rightarrow> string option" where
  "strip_quotes m =
    (if m \<noteq> [] \<and> hd m = CHR ''\"'' \<and> last m = CHR ''\"''
     then if length m < 2 then None else Some (butlast (tl m))
     else Some m)"

definition node_on_event :: "nat \<Rightarrow> string \<Rightarrow> level \<Rightarrow> string \<Rightarrow> log_entry list \<Rightarrow> log_entry list option" where
  "node_on_event cap now lv message buffer =
    (if lv = DEBUG \<or> lv = TRACE then Some buffer
     else map_option (\<lambda>m. push_log cap
         \<lparr>le_timestamp = now, le_level = level_to_string lv, le_message = m\<rparr> buffer)
       (strip_quotes message))"

definition client_on_event ::
  "nat \<Rightarrow> string \<Rightarrow> level \<Rightarrow> string option \<Rightarrow> log_entry list \<Rightarrow> log_entry list" where
  "client_on_event cap now lv message buffer =
    (case message of
       None \<Rightarrow> buffer
     | Some m \<Rightarrow> push_log cap \<lparr>le_timestamp = now, le_level = level_to_string lv, le_message = m\<rparr> buffer)"

text \<open>\<open>read\_node\_logs\<close>: the buffer, then the log file (\<open>tail\<close> gives its lines, already as entries),
  then a notice; an answer is never empty.\<close>

definition read_node_logs :: "log_entry list option \<Rightarrow> (nat \<Rightarrow> log_entry list option) \<Rightarrow> log_entry \<Rightarrow> nat \<Rightarrow> log_entry list" where
  "read_node_logs buffer tail_file notice lines =
    (case buffer of
       Some b \<Rightarrow> if get_last lines b \<noteq> [] then get_last lines b
         else (case tail_file lines of Some es \<Rightarrow> if es \<noteq> [] then es else [notice] | None \<Rightarrow> [notice])
     | None \<Rightarrow> (case tail_file lines of Some es \<Rightarrow> if es \<noteq> [] then es else [notice] | None \<Rightarrow> [notice]))"

section \<open>Restarting\<close>

text \<open>The arguments of the next run, from those after the program's name: the flags are whether the
  value of \<open>--pid-file\<close> is to be skipped, and whether the argument is the first.\<close>

fun args_loop :: "bool \<Rightarrow> bool \<Rightarrow> string list \<Rightarrow> string list" where
  "args_loop skip_next first [] = []"
| "args_loop skip_next first (a # rest) =
    (if skip_next then args_loop False False rest
     else if first \<and> a = ''daemon'' then ''start'' # args_loop False False rest
     else if a = ''--pid-file'' then args_loop True False rest
     else if take 11 a = ''--pid-file='' then args_loop False False rest
     else a # args_loop False False rest)"

definition restart_args :: "string list \<Rightarrow> string list" where
  "restart_args args = args_loop False True args"

section \<open>Lemmas\<close>

lemma push_log_all:
  assumes "0 < cap" "length buffer \<le> cap"
  shows "fold (push_log cap) es buffer = get_last cap (buffer @ es)"
  using assms(2)
proof (induction es arbitrary: buffer)
  case Nil
  then show ?case by (simp add: get_last_def)
next
  case (Cons e es)
  show ?case
  proof (cases "length buffer = cap")
    case True
    then obtain b bs where b: "buffer = b # bs" using assms(1) by (cases buffer) auto
    then have "push_log cap e buffer = bs @ [e]" using True by (simp add: push_log_def)
    moreover have c: "cap = Suc (length bs)" using True b by simp
    ultimately show ?thesis using Cons.IH[of "bs @ [e]"] unfolding b c by (simp add: get_last_def)
  next
    case False
    then have "push_log cap e buffer = buffer @ [e]" using Cons.prems by (simp add: push_log_def)
    then show ?thesis using Cons.IH[of "buffer @ [e]"] Cons.prems False by simp
  qed
qed

definition starved :: "limiter \<Rightarrow> bool" where
  "starved l = (lm_available l = f_zero \<and>
    (\<forall>r\<in>set (lm_waiting l). \<exists>q. r = Fin q \<and> 0 < q \<and> f_round q = r))"

lemma queue_take_starved:
  assumes "lm_available l = f_zero" "r = Fin q" "0 < q" "f_round q = r"
  shows "queue_take r l = l\<lparr>lm_waiting := lm_waiting l @ [r]\<rparr>"
  using assms by (simp add: queue_take_def try_take_def f_ge_def f_zero_def f_sub_def)

lemma notify_starved:
  assumes "starved l"
  shows "notify_waiters l = l"
proof -
  have "fold queue_take rs m = m\<lparr>lm_waiting := lm_waiting m @ rs\<rparr>"
    if "lm_available m = f_zero" "\<forall>r\<in>set rs. \<exists>q. r = Fin q \<and> 0 < q \<and> f_round q = r" for rs m
    using that
  proof (induction rs arbitrary: m)
    case (Cons r rs)
    then obtain q where "r = Fin q" "0 < q" "f_round q = r" by auto
    then have "queue_take r m = m\<lparr>lm_waiting := lm_waiting m @ [r]\<rparr>"
      using queue_take_starved Cons.prems(1) by blast
    then show ?case using Cons.IH[of "m\<lparr>lm_waiting := lm_waiting m @ [r]\<rparr>"] Cons.prems by simp
  qed simp
  from this[of "l\<lparr>lm_waiting := []\<rparr>" "lm_waiting l"] show ?thesis
    using assms by (simp add: starved_def notify_waiters_def)
qed

definition pid_option :: "string \<Rightarrow> bool" where
  "pid_option a = (a = ''--pid-file'' \<or> take 11 a = ''--pid-file='')"

lemma args_loop_Cons:
  "args_loop skip first (a # rest) = args_loop False False rest \<or>
   args_loop skip first (a # rest) = ''start'' # args_loop False False rest \<or>
   args_loop skip first (a # rest) = args_loop True False rest \<or>
   \<not> pid_option a \<and> args_loop skip first (a # rest) = a # args_loop False False rest"
  unfolding args_loop.simps pid_option_def by presburger

lemma args_loop_clean: "\<forall>a\<in>set (args_loop skip first args). \<not> pid_option a"
proof (induction args arbitrary: skip first)
  case (Cons a rest)
  have "\<not> pid_option ''start''" by (simp add: pid_option_def)
  with args_loop_Cons[of skip first a rest] Cons show ?case
    by (elim disjE conjE) (simp_all only: list.set ball_simps simp_thms)
qed simp

lemma args_loop_id: "\<forall>a\<in>set args. \<not> pid_option a \<Longrightarrow> args_loop False False args = args"
  by (induction args) (auto simp: pid_option_def)

section \<open>Properties\<close>

text \<open>the arguments of a restart never name a PID file and never fork again, and a second restart
  uses the same ones.\<close>

theorem restart_is_stable:
  assumes "args = [] \<or> hd args = ''start'' \<or> hd args = ''run'' \<or> hd args = ''daemon''"
  shows "restart_args (restart_args args) = restart_args args \<and>
    (\<forall>a\<in>set (restart_args args). \<not> pid_option a) \<and>
    (args \<noteq> [] \<longrightarrow> hd (restart_args args) \<noteq> ''daemon'')"
proof (cases args)
  case (Cons a rest)
  let ?r = "args_loop False False rest"
  have clean: "\<forall>x\<in>set ?r. \<not> pid_option x" by (rule args_loop_clean)
  note again = args_loop_id[OF clean]
  have ok: "\<not> pid_option ''start''" "\<not> pid_option ''run''" by (simp_all add: pid_option_def)
  consider "restart_args args = ''start'' # ?r" | "restart_args args = ''run'' # ?r"
    using assms Cons by (fastforce simp: restart_args_def)
  then show ?thesis
  proof cases
    case 1
    have "restart_args (''start'' # ?r) = ''start'' # ?r" by (simp add: restart_args_def again)
    then show ?thesis unfolding 1 using clean ok by simp
  next
    case 2
    have "restart_args (''run'' # ?r) = ''run'' # ?r" by (simp add: restart_args_def again)
    then show ?thesis unfolding 2 using clean ok by simp
  qed
qed (simp add: restart_args_def)

lemma restart_is_stable_witness:
  "restart_args (restart_args [''daemon'', ''--token'', ''x'', ''--pid-file'', ''p'']) = [''start'', ''--token'', ''x'']"
  using restart_is_stable[of "[''daemon'', ''--token'', ''x'', ''--pid-file'', ''p'']"]
  by (simp add: restart_args_def)

text \<open>whatever was logged, a buffer of a program holds exactly the latest entries that fit, in
  order, and the latest \<open>n\<close> of it are the latest of everything logged.\<close>

theorem log_buffer_keeps_latest:
  assumes "0 < cap"
  shows "fold (push_log cap) es [] = get_last cap es \<and>
    get_last n (fold (push_log cap) es []) = get_last (min n cap) es"
  using push_log_all[OF assms, of "[]" es]
  by (cases "cap \<le> length es") (auto simp: get_last_def min_def)

lemma log_buffer_keeps_latest_witness:
  "fold (push_log 2) ''abc'' [] = ''bc''"
  using log_buffer_keeps_latest[of 2 "''abc''"] by (simp add: get_last_def)

text \<open>lifting the speed limit strands the transfers that wait for it: whatever happens afterwards,
  short of a new limit, each waits as before, although nothing is limited any more.\<close>

theorem lifted_limit_strands_waiters:
  assumes "starved l" "\<forall>st\<in>set steps. \<forall>r. st = UpdateRate r \<longrightarrow> r = 0"
  shows "lm_waiting (fold limiter_turn steps (update_rate 0 l)) = lm_waiting l"
proof -
  have "fold limiter_turn steps m = m" if "starved m" "lm_rate m = 0" for m
    using assms(2)
  proof (induction steps)
    case (Cons st steps)
    have "update_rate 0 m = m"
      using that notify_starved[OF that(1)] unfolding update_rate_def Let_def by (cases m) simp
    then have "limiter_turn st m = m"
      using Cons.prems that by (cases st) (auto simp: consume_def refill_def)
    then show ?case using Cons by simp
  qed simp
  moreover have "starved (l\<lparr>lm_rate := 0\<rparr>)" using assms(1) by (simp add: starved_def)
  ultimately show ?thesis by (simp add: update_rate_def notify_starved)
qed

lemma lifted_limit_strands_waiters_witness:
  "lm_waiting (fold limiter_turn [Refill (Fin 1), Consume 9] (update_rate 0 (consume 3 (consume 1 (new_limiter 1))))) = [Fin 3]"
proof -
  have r: "f_round 1 = Fin 1" "f_round 3 = Fin 3"
    using f_round_of_int[of 1] f_round_of_int[of 3] by simp_all
  have z: "f_round 0 = Fin 0" by (simp add: f_round_def)
  have l: "consume 3 (consume 1 (new_limiter 1)) = \<lparr>lm_rate = 1, lm_available = Fin 0, lm_waiting = [Fin 3]\<rparr>"
    by (simp add: consume_def queue_take_def try_take_def new_limiter_def f_of_u64_def f_ge_def f_sub_def f_zero_def r z)
  have "starved (consume 3 (consume 1 (new_limiter 1)))" unfolding l by (simp add: starved_def f_zero_def r)
  from lifted_limit_strands_waiters[OF this, of "[Refill (Fin 1), Consume 9]"] show ?thesis
    unfolding l by simp
qed

end
