(* ===== verification/ClientLoop.thy ===== *)
theory ClientLoop
  imports ClientProgram NodeSupport "HOL-Library.Multiset"
begin

text \<open>
  The client's end of its stream (\<open>message\_loop\<close> of \<open>client/src/client/grpc\_client.rs\<close>) and the loop
  of \<open>run\_client\<close> (\<open>mod.rs\<close>) that takes the lists off the channel and reconciles. A software update
  runs in a task of its own and answers when it is over.
\<close>

section \<open>State and steps\<close>

text \<open>\<open>cl\_updates\<close> is the channel between the two loops; \<open>cl\_updating\<close> the updates under way;
  \<open>cl\_restarts\<close> counts how often the process was told to replace itself.\<close>

record client_prog =
  cl_manager :: manager
  cl_updates :: "client_group list list"
  cl_logs :: "log_entry list"
  cl_sent :: "(string \<times> client_result) list"
  cl_updating :: "string list"
  cl_restarts :: nat

definition respond :: "string \<Rightarrow> client_result \<Rightarrow> client_prog \<Rightarrow> client_prog" where
  "respond rid r c = c\<lparr>cl_sent := cl_sent c @ [(rid, r)]\<rparr>"

fun client_command :: "client_payload \<Rightarrow> client_prog \<Rightarrow> client_prog" where
  "client_command (ProxyUpdate u) c =
    c\<lparr>cl_updates := cl_updates c @ [convert_server_groups (pl_groups u)]\<rparr>"
| "client_command (GetLogs rid n) c = respond rid (ClientLogs (client_logs n (cl_logs c))) c"
| "client_command (ClientSoftwareUpdate rid) c = c\<lparr>cl_updating := cl_updating c @ [rid]\<rparr>"
| "client_command (ClientRestart rid) c =
    (respond rid (ClientUpdateResult True None None) c)\<lparr>cl_restarts := Suc (cl_restarts c)\<rparr>"
| "client_command (ClientReply r) c = c"

text \<open>The end of a software update: an error text or the new version.\<close>

definition update_done :: "string \<Rightarrow> string + string \<Rightarrow> client_prog \<Rightarrow> client_prog" where
  "update_done rid outcome c =
    (let c = c\<lparr>cl_updating := remove1 rid (cl_updating c)\<rparr> in
     case outcome of
       Inl e \<Rightarrow> respond rid (ClientUpdateResult False (Some e) None) c
     | Inr v \<Rightarrow> (respond rid (ClientUpdateResult True None (Some v)) c)\<lparr>cl_restarts := Suc (cl_restarts c)\<rparr>)"

definition take_update :: "client_prog \<Rightarrow> client_prog" where
  "take_update c =
    (case cl_updates c of
       [] \<Rightarrow> c
     | gs # us \<Rightarrow> c\<lparr>cl_updates := us, cl_manager := reconcile gs (cl_manager c)\<rparr>)"

fun take_updates :: "nat \<Rightarrow> client_prog \<Rightarrow> client_prog" where
  "take_updates 0 c = c"
| "take_updates (Suc n) c = take_updates n (take_update c)"

section \<open>Properties\<close>

definition command_id :: "client_payload \<Rightarrow> string option" where
  "command_id p =
    (case p of GetLogs rid _ \<Rightarrow> Some rid | ClientSoftwareUpdate rid \<Rightarrow> Some rid | ClientRestart rid \<Rightarrow> Some rid
     | _ \<Rightarrow> None)"

text \<open>Commands that are not answered at once are being carried out.\<close>

definition owed :: "client_prog \<Rightarrow> string multiset" where
  "owed c = mset (map fst (cl_sent c)) + mset (cl_updating c)"

definition started_client :: client_prog where
  "started_client = \<lparr>cl_manager = new_manager, cl_updates = [[]], cl_logs = [], cl_sent = [], cl_updating = [],
     cl_restarts = 0\<rparr>"

text \<open>every command with a request identifier is answered once under it: at once, or when the
  software update it started is over; nothing else is answered.\<close>

theorem client_commands_are_answered:
  "owed (client_command p c) = owed c + (case command_id p of Some rid \<Rightarrow> {#rid#} | None \<Rightarrow> {#}) \<and>
   (rid \<in> set (cl_updating c) \<longrightarrow> owed (update_done rid outcome c) = owed c \<and>
     size (cl_updating (update_done rid outcome c)) < size (cl_updating c))"
  by (cases p; cases outcome)
     (auto simp: owed_def command_id_def respond_def update_done_def Let_def length_remove1
        dest: length_pos_if_in_set)

lemma client_commands_are_answered_witness:
  "owed (update_done ''r'' (Inr ''2.0'') (client_command (ClientSoftwareUpdate ''r'') started_client)) = {#''r''#}"
proof -
  let ?c = "client_command (ClientSoftwareUpdate ''r'') started_client"
  have "''r'' \<in> set (cl_updating ?c)" by simp
  moreover have "owed ?c = {#''r''#}"
    using client_commands_are_answered[of "ClientSoftwareUpdate ''r''" started_client "''r''" "Inr ''2.0''"]
    by (simp add: command_id_def owed_def started_client_def)
  ultimately show ?thesis
    using client_commands_are_answered[of "ClientReply (ClientHeartbeat 0)" ?c "''r''" "Inr ''2.0''"] by simp
qed

lemma take_updates_manager:
  "cl_manager (take_updates (length (cl_updates c)) c) = fold reconcile (cl_updates c) (cl_manager c)"
proof (induction "cl_updates c" arbitrary: c)
  case (Cons gs us)
  then have "cl_updates (take_update c) = us" "cl_manager (take_update c) = reconcile gs (cl_manager c)"
    by (auto simp: take_update_def split: list.splits)
  then show ?case using Cons(1)[of "take_update c"] by (simp add: Cons(2)[symmetric])
qed simp

lemma fold_reconcile_reach: "manager_reach m \<Longrightarrow> manager_reach (fold reconcile gss m)"
  by (induction gss arbitrary: m) (auto intro: Then Pushed)

text \<open>once the client has worked through the lists it was sent, the nodes of the latest are served,
  whatever came before.\<close>

theorem latest_list_wins:
  assumes "manager_reach (cl_manager c)" "distinct (map sg_node_id (pl_groups u))"
    and "g \<in> set (convert_server_groups (pl_groups u))"
  defines "c' \<equiv> client_command (ProxyUpdate u) c"
  shows "served (cl_manager (take_updates (length (cl_updates c')) c')) g"
proof -
  have "manager_ok (fold reconcile (cl_updates c) (cl_manager c))"
    by (rule manager_reach_ok[OF fold_reconcile_reach[OF assms(1)]])
  moreover have "distinct (map cg_node_id (convert_server_groups (pl_groups u)))"
    using assms(2) by (simp add: convert_server_groups_def convert_server_group_def comp_def)
  ultimately show ?thesis
    using assms(3) unfolding take_updates_manager by (simp add: c'_def reconcile_serves)
qed

lemma latest_list_wins_witness:
  "\<exists>c. conn_of (cl_manager (take_updates 2 (client_command (ProxyUpdate \<lparr>pl_client_id = 3, pl_client_name = ''c'',
      pl_groups = [server_group_of (\<lambda>_. None) sample_node [] []]\<rparr>) started_client))) 1 = Some c"
proof -
  let ?sg = "server_group_of (\<lambda>_. None) sample_node [] []"
  let ?u = "\<lparr>pl_client_id = 3, pl_client_name = ''c'', pl_groups = [?sg]\<rparr>"
  let ?g = "convert_server_group ?sg"
  have "served (cl_manager (take_updates (length (cl_updates (client_command (ProxyUpdate ?u) started_client)))
      (client_command (ProxyUpdate ?u) started_client))) ?g"
    by (rule latest_list_wins) (simp_all add: started_client_def NoConnections convert_server_groups_def)
  then have s: "served (cl_manager (take_updates 2 (client_command (ProxyUpdate ?u) started_client))) ?g"
    by (simp add: started_client_def numeral_2_eq_2)
  have "read_ipv4 (cg_addr ?g) = Some []"
    by (simp add: convert_server_group_def server_group_of_def sample_node_def read_ipv4_def read_octet_def
        read_char_def is_digit_def parse_digits_def)
  then have "is_socket_addr (group_addr ?g)" using is_socket_v4_group by (simp add: is_socket_addr_def)
  moreover have "cg_node_id ?g = 1" by (simp add: convert_server_group_def server_group_of_def sample_node_def)
  ultimately show ?thesis using s unfolding served_def by (auto split: option.splits)
qed

end
