(* ===== verification/YamuxDriver.thy ===== *)
theory YamuxDriver
  imports Main "HOL-Library.Multiset"
begin

text \<open>
  The task that drives a multiplexed connection (\<open>run\_tcp\_yamux\_driver\<close> of
  \<open>common/src/tunnel/tcp.rs\<close>; \<open>kcp.rs\<close> has the same code): streams the peer opens go to a channel of
  32, requests for streams of our own are answered one by one. What the multiplexer returns when it is
  polled is the argument of a turn.
\<close>

section \<open>State\<close>

datatype 's inbound_poll = InStream 's | InError | InClosed

datatype 's outbound_poll = OutStream 's | OutError

text \<open>\<open>dv\_inbound\<close> and \<open>dv\_requests\<close> are the channels, \<open>dv\_pending\<close> the requests taken from the second;
  \<open>dv\_lost\<close> the streams no channel took; \<open>dv\_reason\<close> why the driver has ended. Its two flags say
  that the receiver of streams, and every sender of requests, is gone.\<close>

record ('r, 's) driver =
  dv_inbound :: "'s list"
  dv_requests :: "'r list"
  dv_pending :: "'r list"
  dv_answers :: "('r \<times> 's option) list"
  dv_lost :: "'s list"
  dv_receiver_gone :: bool
  dv_senders_gone :: bool
  dv_reason :: "string option"

definition channel_capacity :: nat where "channel_capacity = 32"

definition new_driver :: "('r, 's) driver" where
  "new_driver = \<lparr>dv_inbound = [], dv_requests = [], dv_pending = [], dv_answers = [], dv_lost = [],
     dv_receiver_gone = False, dv_senders_gone = False, dv_reason = None\<rparr>"

section \<open>One poll\<close>

definition take_stream :: "'s \<Rightarrow> ('r, 's) driver \<Rightarrow> ('r, 's) driver" where
  "take_stream s d =
    (if dv_receiver_gone d \<or> channel_capacity \<le> length (dv_inbound d)
     then d\<lparr>dv_lost := dv_lost d @ [s]\<rparr> else d\<lparr>dv_inbound := dv_inbound d @ [s]\<rparr>)"

text \<open>Until the multiplexer has no more to give (the end of the list).\<close>

fun poll_inbound :: "'s inbound_poll list \<Rightarrow> ('r, 's) driver \<Rightarrow> ('r, 's) driver" where
  "poll_inbound [] d = d"
| "poll_inbound (InStream s # ps) d = poll_inbound ps (take_stream s d)"
| "poll_inbound (InError # ps) d = d\<lparr>dv_reason := Some ''yamux error''\<rparr>"
| "poll_inbound (InClosed # ps) d = d\<lparr>dv_reason := Some ''connection closed by peer''\<rparr>"

definition swap_remove_first :: "'a list \<Rightarrow> 'a list" where
  "swap_remove_first xs = (if length xs \<le> 1 then [] else last xs # butlast (tl xs))"

definition answer_first :: "'s option \<Rightarrow> ('r, 's) driver \<Rightarrow> ('r, 's) driver" where
  "answer_first a d =
    d\<lparr>dv_pending := swap_remove_first (dv_pending d), dv_answers := dv_answers d @ [(hd (dv_pending d), a)]\<rparr>"

fun poll_outbound :: "'s outbound_poll list \<Rightarrow> ('r, 's) driver \<Rightarrow> ('r, 's) driver" where
  "poll_outbound [] d = d"
| "poll_outbound (p # ps) d =
    (if dv_pending d = [] then d
     else poll_outbound ps (answer_first (case p of OutStream s \<Rightarrow> Some s | OutError \<Rightarrow> None) d))"

text \<open>One round of the outer loop; an ended connection ends the driver at once.\<close>

definition driver_round :: "'s inbound_poll list \<Rightarrow> 's outbound_poll list \<Rightarrow> ('r, 's) driver \<Rightarrow> ('r, 's) driver" where
  "driver_round ins outs d =
    (let d = poll_inbound ins d in
     if dv_reason d \<noteq> None then d
     else poll_outbound outs (d\<lparr>dv_pending := dv_pending d @ dv_requests d, dv_requests := []\<rparr>))"

definition driver_poll :: "('s inbound_poll list \<times> 's outbound_poll list) list \<Rightarrow> ('r, 's) driver \<Rightarrow> ('r, 's) driver" where
  "driver_poll rounds d =
    (let d = fold (\<lambda>(ins, outs) d. if dv_reason d \<noteq> None then d else driver_round ins outs d) rounds d in
     if dv_reason d = None \<and> dv_senders_gone d \<and> dv_requests d = [] \<and> dv_pending d = [] \<and> dv_receiver_gone d
     then d\<lparr>dv_reason := Some ''all handles dropped''\<rparr> else d)"

section \<open>The two ends\<close>

text \<open>\<open>open\_bi\<close> and its kin put a request on the channel, \<open>accept\_bi\<close> takes a stream.\<close>

definition request_stream :: "'r \<Rightarrow> ('r, 's) driver \<Rightarrow> ('r, 's) driver option" where
  "request_stream r d =
    (if dv_reason d \<noteq> None \<or> channel_capacity \<le> length (dv_requests d) then None
     else Some (d\<lparr>dv_requests := dv_requests d @ [r]\<rparr>))"

definition accept_stream :: "('r, 's) driver \<Rightarrow> 's option \<times> ('r, 's) driver" where
  "accept_stream d =
    (case dv_inbound d of [] \<Rightarrow> (None, d) | s # ss \<Rightarrow> (Some s, d\<lparr>dv_inbound := ss\<rparr>))"

inductive driver_step :: "('r, 's) driver \<Rightarrow> ('r, 's) driver \<Rightarrow> bool" where
  Polled: "dv_reason d = None \<Longrightarrow> driver_step d (driver_poll rounds d)"
| Requested: "request_stream r d = Some d' \<Longrightarrow> driver_step d d'"
| Accepted: "driver_step d (snd (accept_stream d))"
| ReceiverDropped: "driver_step d (d\<lparr>dv_receiver_gone := True\<rparr>)"
| SendersDropped: "driver_step d (d\<lparr>dv_senders_gone := True\<rparr>)"

section \<open>Lemmas\<close>

definition asked :: "('r, 's) driver \<Rightarrow> 'r multiset" where
  "asked d = mset (dv_requests d) + mset (dv_pending d) + mset (map fst (dv_answers d))"

lemma mset_swap_remove: "xs \<noteq> [] \<Longrightarrow> add_mset (hd xs) (mset (swap_remove_first xs)) = mset xs"
proof (cases xs)
  case (Cons x ys)
  show ?thesis
  proof (cases "ys = []")
    case False
    then have "add_mset (last ys) (mset (butlast ys)) = mset ys" by (induction ys rule: rev_induct) auto
    then show ?thesis using False Cons by (simp add: swap_remove_first_def)
  qed (simp add: Cons swap_remove_first_def)
qed simp

lemma take_stream_asked [simp]: "asked (take_stream s d) = asked d"
  by (simp add: take_stream_def asked_def)

lemma poll_inbound_asked [simp]: "asked (poll_inbound ps d) = asked d"
  by (induction ps d rule: poll_inbound.induct) (simp_all, simp_all add: asked_def)

lemma answer_first_asked: "dv_pending d \<noteq> [] \<Longrightarrow> asked (answer_first a d) = asked d"
  using mset_swap_remove[of "dv_pending d"] by (simp add: asked_def answer_first_def)

lemma poll_outbound_asked: "asked (poll_outbound ps d) = asked d"
  by (induction ps d rule: poll_outbound.induct) (auto simp: answer_first_asked)

lemma driver_round_asked: "asked (driver_round ins outs d) = asked d"
proof -
  have "asked (e\<lparr>dv_pending := dv_pending e @ dv_requests e, dv_requests := []\<rparr>) = asked e" for e :: "('a, 'b) driver"
    by (simp add: asked_def union_ac)
  then show ?thesis by (simp add: driver_round_def Let_def poll_outbound_asked)
qed

lemma driver_poll_asked: "asked (driver_poll rounds d) = asked d"
proof -
  let ?f = "\<lambda>(ins, outs) d. if dv_reason d \<noteq> None then d else driver_round ins outs d"
  have "asked (fold ?f rounds e) = asked e" for e :: "('a, 'b) driver"
    by (induction rounds arbitrary: e) (auto simp: driver_round_asked)
  moreover have "asked (e\<lparr>dv_reason := r\<rparr>) = asked e" for r and e :: "('a, 'b) driver" by (simp add: asked_def)
  ultimately show ?thesis by (simp add: driver_poll_def Let_def)
qed

section \<open>Properties\<close>

text \<open>every request for a stream is queued, taken or answered exactly once: no step of the driver
  loses or repeats one.\<close>

theorem streams_requested_once:
  assumes "driver_step d d'"
  shows "asked d' = asked d \<or> (\<exists>r. request_stream r d = Some d' \<and> asked d' = add_mset r (asked d))"
  using assms
proof cases
  case (Polled rounds)
  then show ?thesis using driver_poll_asked[of rounds d] by simp
next
  case (Requested r)
  then have "asked d' = add_mset r (asked d)" by (auto simp: request_stream_def asked_def split: if_splits)
  then show ?thesis using Requested by blast
qed (simp_all add: accept_stream_def asked_def split: list.splits)

lemma streams_requested_once_witness:
  "asked (driver_poll [([], [OutStream ''s''])] (new_driver\<lparr>dv_requests := [7 :: nat]\<rparr>)) = {#7#}"
proof -
  let ?d = "new_driver\<lparr>dv_requests := [7 :: nat]\<rparr> :: (nat, string) driver"
  let ?e = "driver_poll [([], [OutStream ''s''])] ?d"
  have "driver_step ?d ?e" by (rule Polled) (simp add: new_driver_def)
  moreover have "request_stream r ?d \<noteq> Some ?e" for r
    by (simp add: request_stream_def driver_poll_def driver_round_def answer_first_def swap_remove_first_def new_driver_def)
  ultimately have "asked ?e = asked ?d" using streams_requested_once by blast
  then show ?thesis by (simp add: asked_def new_driver_def)
qed

text \<open>A request arrives and the multiplexer has room for one more stream.\<close>

definition busy_turn :: "'r \<Rightarrow> 's \<Rightarrow> ('r, 's) driver \<Rightarrow> ('r, 's) driver" where
  "busy_turn r s d =
    (case request_stream r d of
       None \<Rightarrow> d
     | Some d' \<Rightarrow> driver_poll [([], [OutStream s]), ([], [])] d')"

text \<open>a request for a stream can wait for ever: while each turn brings a new request and room for
  one stream, the newest request but one is answered and the second oldest never.\<close>

theorem requests_are_overtaken:
  assumes "dv_pending d = [a, b]" "dv_requests d = []" "dv_reason d = None"
  shows "let d' = fold (\<lambda>(r, s). busy_turn r s) traffic d
    in b \<in> set (dv_pending d') \<and>
       map fst (dv_answers d') = map fst (dv_answers d) @ butlast (a # map fst traffic)"
  using assms
proof (induction traffic arbitrary: d a rule: list.induct)
  case (Cons t traffic)
  obtain r s where t: "t = (r, s)" by (cases t)
  let ?e = "busy_turn r s d"
  have e: "?e = d\<lparr>dv_pending := [r, b], dv_answers := dv_answers d @ [(a, Some s)]\<rparr>"
    using Cons.prems
    by (simp add: busy_turn_def request_stream_def channel_capacity_def driver_poll_def driver_round_def
        answer_first_def swap_remove_first_def Let_def)
  have "let d' = fold (\<lambda>(r, s). busy_turn r s) traffic ?e
    in b \<in> set (dv_pending d') \<and>
       map fst (dv_answers d') = map fst (dv_answers ?e) @ butlast (r # map fst traffic)"
    by (rule Cons.IH) (simp_all add: e Cons.prems)
  then show ?case by (simp add: t Let_def e)
qed (simp add: Let_def)

lemma requests_are_overtaken_witness:
  "map fst (dv_answers (fold (\<lambda>(r, s). busy_turn r s) [(3, ''x''), (4, ''y'')]
     (new_driver\<lparr>dv_pending := [1, 2 :: nat]\<rparr>))) = [1, 3]"
  using requests_are_overtaken[of "new_driver\<lparr>dv_pending := [1, 2 :: nat]\<rparr>" 1 2 "[(3, ''x''), (4, ''y'')]"]
  by (simp add: new_driver_def Let_def)

end
