(* ===== verification/Schema.thy ===== *)
theory Schema
  imports Rust_Str
begin

text \<open>
  The database as its migrations see it (\<open>controller/src/migration\<close>): tables with columns, references
  and rows, indexes and triggers, and what SQLite does with the statements the migrations consist of,
  refusals included. References delete with their target (\<open>ON DELETE CASCADE\<close>) in every table.
\<close>

section \<open>Tables\<close>

datatype ctype = BIGINT | INTEGER | DOUBLE | VARCHAR | TEXT | BOOLEAN | TIMESTAMP | DATETIME

text \<open>A truth value is stored as 0 or 1; \<open>Flt\<close> holds the one constant that occurs, \<open>Now\<close> stands for
  the current time.\<close>

datatype cell = Null | Num int | Flt int | Txt string | Now

record column =
  cl_name :: string
  cl_type :: ctype
  cl_null :: bool
  cl_default :: "cell option"
  cl_unique :: bool
  cl_primary :: bool

text \<open>\<open>rl_refs\<close> pairs a column with the table it refers to; \<open>rl_check\<close> says that the constraint on
  direct proxies is in force, \<open>rl_seq\<close> is the last key given (\<open>AUTOINCREMENT\<close>). The cells of a row are
  in the order of the columns.\<close>

record relation =
  rl_columns :: "column list"
  rl_refs :: "(string \<times> string) list"
  rl_check :: bool
  rl_seq :: int
  rl_rows :: "cell list list"

record index =
  ix_name :: string
  ix_table :: string
  ix_columns :: "string list"
  ix_unique :: bool

record trigger =
  tg_name :: string
  tg_table :: string
  tg_columns :: "string list"

record schema =
  sc_tables :: "(string \<times> relation) list"
  sc_indexes :: "index list"
  sc_triggers :: "trigger list"

definition empty_schema :: schema where
  "empty_schema = \<lparr>sc_tables = [], sc_indexes = [], sc_triggers = []\<rparr>"

section \<open>Columns\<close>

text \<open>The column builders of sea-orm: not null and without default unless they say so.\<close>

definition column_of :: "ctype \<Rightarrow> string \<Rightarrow> column" where
  "column_of ty n =
    \<lparr>cl_name = n, cl_type = ty, cl_null = False, cl_default = None, cl_unique = False, cl_primary = False\<rparr>"

definition nullable :: "column \<Rightarrow> column" where
  "nullable c = c\<lparr>cl_null := True\<rparr>"

definition with_default :: "cell \<Rightarrow> column \<Rightarrow> column" where
  "with_default v c = c\<lparr>cl_default := Some v\<rparr>"

definition unique_key :: "column \<Rightarrow> column" where
  "unique_key c = c\<lparr>cl_unique := True\<rparr>"

definition id_column :: column where
  "id_column = (column_of BIGINT ''id'')\<lparr>cl_primary := True\<rparr>"

definition column_names :: "relation \<Rightarrow> string list" where
  "column_names r = map cl_name (rl_columns r)"

section \<open>Rows\<close>

definition cell_of :: "string list \<Rightarrow> string \<Rightarrow> cell list \<Rightarrow> cell" where
  "cell_of names c row = (case map_of (zip names row) c of Some v \<Rightarrow> v | None \<Rightarrow> Null)"

definition set_cell :: "string list \<Rightarrow> string \<Rightarrow> cell \<Rightarrow> cell list \<Rightarrow> cell list" where
  "set_cell names c v row = map (\<lambda>(n, x). if n = c then v else x) (zip names row)"

definition drop_cell :: "string list \<Rightarrow> string \<Rightarrow> cell list \<Rightarrow> cell list" where
  "drop_cell names c row = map snd (filter (\<lambda>(n, x). n \<noteq> c) (zip names row))"

text \<open>Sets of columns whose cells must differ between rows; \<open>NULL\<close> differs from everything.\<close>

definition unique_sets :: "string \<Rightarrow> relation \<Rightarrow> schema \<Rightarrow> string list list" where
  "unique_sets t r s =
    map (\<lambda>c. [cl_name c]) (filter (\<lambda>c. cl_unique c \<or> cl_primary c) (rl_columns r)) @
    map ix_columns (filter (\<lambda>i. ix_unique i \<and> ix_table i = t) (sc_indexes s))"

definition clashes :: "string list \<Rightarrow> string list list \<Rightarrow> cell list \<Rightarrow> cell list \<Rightarrow> bool" where
  "clashes names keys a b =
    list_ex (\<lambda>cs. list_all (\<lambda>c. cell_of names c a = cell_of names c b \<and> cell_of names c a \<noteq> Null) cs) keys"

definition int_cell :: "cell \<Rightarrow> int" where
  "int_cell v = (case v of Num i \<Rightarrow> i | _ \<Rightarrow> 0)"

text \<open>A new row from the cells a statement gives: the others are defaults, the key is one more than
  the last. Nothing if a column that may not be null has neither.\<close>

fun fill_row :: "column list \<Rightarrow> (string \<times> cell) list \<Rightarrow> int \<Rightarrow> cell list option" where
  "fill_row [] given i = Some []"
| "fill_row (c # cs) given i =
    (case (case map_of given (cl_name c) of Some v \<Rightarrow> Some v
           | None \<Rightarrow> if cl_primary c then Some (Num i)
                     else (case cl_default c of Some v \<Rightarrow> Some v | None \<Rightarrow> if cl_null c then Some Null else None)) of
       None \<Rightarrow> None
     | Some v \<Rightarrow> if v = Null \<and> \<not> cl_null c then None else map_option ((#) v) (fill_row cs given i))"

section \<open>Statements\<close>

datatype ddl =
    Create string "column list" "(string \<times> string) list"
  | Drop string
  | Add string column
  | Remove string string
  | Create_index string string "string list" bool
  | Drop_index string
  | Insert string "string list" "cell list list"
  | Insert_or_ignore string "string list" "cell list list"
  | Delete string string "cell list"
  | Delete_like string string string
  | Create_trigger string string "string list"
  | Drop_trigger string
  | Fill_snapshots
  | Rebuild bool
  | Refuse_direct

definition put :: "string \<Rightarrow> relation \<Rightarrow> schema \<Rightarrow> schema" where
  "put t r s = s\<lparr>sc_tables := map (\<lambda>(n, x). if n = t then (n, r) else (n, x)) (sc_tables s)\<rparr>"

definition on_table :: "string \<Rightarrow> (relation \<Rightarrow> relation option) \<Rightarrow> schema \<Rightarrow> schema option" where
  "on_table t f s =
    (case map_of (sc_tables s) t of None \<Rightarrow> None | Some r \<Rightarrow> map_option (\<lambda>r'. put t r' s) (f r))"

definition referenced :: "string \<Rightarrow> schema \<Rightarrow> bool" where
  "referenced t s = list_ex (\<lambda>(n, r). n \<noteq> t \<and> t \<in> set (map snd (rl_refs r))) (sc_tables s)"

text \<open>Dropping a table that others refer to would delete their rows; no migration does it, and the
  model refuses it.\<close>

definition drop_table :: "string \<Rightarrow> schema \<Rightarrow> schema option" where
  "drop_table t s =
    (if map_of (sc_tables s) t = None \<or> referenced t s then None
     else Some (s\<lparr>sc_tables := filter (\<lambda>(n, r). n \<noteq> t) (sc_tables s),
                  sc_indexes := filter (\<lambda>i. ix_table i \<noteq> t) (sc_indexes s),
                  sc_triggers := filter (\<lambda>g. tg_table g \<noteq> t) (sc_triggers s)\<rparr>))"

definition add_column :: "column \<Rightarrow> relation \<Rightarrow> relation option" where
  "add_column c r =
    (if cl_name c \<in> set (column_names r) \<or> cl_unique c \<or> cl_primary c \<or>
        \<not> cl_null c \<and> (cl_default c = None \<or> cl_default c = Some Null) then None
     else Some (r\<lparr>rl_columns := rl_columns r @ [c],
                  rl_rows := map (\<lambda>row. row @ [case cl_default c of Some v \<Rightarrow> v | None \<Rightarrow> Null]) (rl_rows r)\<rparr>))"

definition checked_columns :: "string list" where
  "checked_columns = [''upstream_url'', ''client_id'', ''user_id'', ''node_id'', ''proxy_type'', ''group_id'']"

definition drop_column :: "string \<Rightarrow> string \<Rightarrow> schema \<Rightarrow> relation \<Rightarrow> relation option" where
  "drop_column t c s r =
    (if c \<notin> set (column_names r) \<or>
        list_ex (\<lambda>x. cl_name x = c \<and> (cl_unique x \<or> cl_primary x)) (rl_columns r) \<or>
        c \<in> set (map fst (rl_refs r)) \<or> rl_check r \<and> c \<in> set checked_columns \<or>
        list_ex (\<lambda>i. ix_table i = t \<and> c \<in> set (ix_columns i)) (sc_indexes s) \<or>
        list_ex (\<lambda>g. tg_table g = t \<and> c \<in> set (tg_columns g)) (sc_triggers s)
     then None
     else Some (r\<lparr>rl_columns := filter (\<lambda>x. cl_name x \<noteq> c) (rl_columns r),
                  rl_rows := map (drop_cell (column_names r) c) (rl_rows r)\<rparr>))"

definition has_columns :: "string list \<Rightarrow> relation \<Rightarrow> bool" where
  "has_columns cs r = list_all (\<lambda>c. c \<in> set (column_names r)) cs"

fun insert_rows :: "bool \<Rightarrow> string list \<Rightarrow> cell list list \<Rightarrow> string list list \<Rightarrow> relation \<Rightarrow> relation option" where
  "insert_rows ignore cs [] keys r = Some r"
| "insert_rows ignore cs (v # vs) keys r =
    (case fill_row (rl_columns r) (zip cs v) (rl_seq r + 1) of
       None \<Rightarrow> None
     | Some row \<Rightarrow>
         if list_ex (clashes (column_names r) keys row) (rl_rows r)
         then (if ignore then insert_rows ignore cs vs keys r else None)
         else insert_rows ignore cs vs keys (r\<lparr>rl_seq := rl_seq r + 1, rl_rows := rl_rows r @ [row]\<rparr>))"

definition insert_into :: "bool \<Rightarrow> string \<Rightarrow> string list \<Rightarrow> cell list list \<Rightarrow> schema \<Rightarrow> schema option" where
  "insert_into ignore t cs vs s =
    on_table t (\<lambda>r. if has_columns cs r then insert_rows ignore cs vs (unique_sets t r s) r else None) s"

definition delete_rows :: "string \<Rightarrow> (cell \<Rightarrow> bool) \<Rightarrow> relation \<Rightarrow> relation option" where
  "delete_rows c P r =
    (if c \<in> set (column_names r)
     then Some (r\<lparr>rl_rows := filter (\<lambda>row. \<not> P (cell_of (column_names r) c row)) (rl_rows r)\<rparr>)
     else None)"

text \<open>\<open>LIKE 'p\_%'\<close>: one more character after the prefix, in upper or lower case.\<close>

definition like_prefix :: "string \<Rightarrow> cell \<Rightarrow> bool" where
  "like_prefix p v =
    (case v of Txt s \<Rightarrow> length p < length s \<and> to_lower (take (length p) s) = to_lower p | _ \<Rightarrow> False)"

definition update_rows :: "(string list \<Rightarrow> cell list \<Rightarrow> cell list) \<Rightarrow> relation \<Rightarrow> relation" where
  "update_rows f r = r\<lparr>rl_rows := map (f (column_names r)) (rl_rows r)\<rparr>"

section \<open>The snapshots of the quotas\<close>

text \<open>An active row takes the limits of its plan; then every user gets the sum of the snapshots.\<close>

definition plan_cell :: "relation \<Rightarrow> string \<Rightarrow> cell \<Rightarrow> cell" where
  "plan_cell plans c i =
    (case find (\<lambda>row. cell_of (column_names plans) ''id'' row = i) (rl_rows plans) of
       Some row \<Rightarrow> cell_of (column_names plans) c row
     | None \<Rightarrow> Null)"

definition fill_snapshot :: "relation \<Rightarrow> string list \<Rightarrow> cell list \<Rightarrow> cell list" where
  "fill_snapshot plans names row =
    (if cell_of names ''is_active'' row = Num 1
     then let plan = cell_of names ''subscription_id'' row
          in set_cell names ''quota_merged'' (Num 1)
               (set_cell names ''max_client_count_snapshot'' (plan_cell plans ''max_client_count'' plan)
                 (set_cell names ''max_node_count_snapshot'' (plan_cell plans ''max_node_count'' plan)
                   (set_cell names ''max_port_count_snapshot'' (plan_cell plans ''max_port_count'' plan) row)))
     else row)"

definition granted_sum :: "relation \<Rightarrow> string \<Rightarrow> cell \<Rightarrow> int list" where
  "granted_sum subs c user =
    map (\<lambda>row. int_cell (cell_of (column_names subs) c row))
      (filter (\<lambda>row. cell_of (column_names subs) ''user_id'' row = user \<and>
                     cell_of (column_names subs) ''is_active'' row = Num 1 \<and>
                     cell_of (column_names subs) c row \<noteq> Null) (rl_rows subs))"

definition add_snapshots :: "relation \<Rightarrow> string \<Rightarrow> string \<Rightarrow> string list \<Rightarrow> cell list \<Rightarrow> cell list" where
  "add_snapshots subs snapshot c names row =
    (let granted = granted_sum subs snapshot (cell_of names ''id'' row)
     in if granted = [] then row
        else set_cell names c (Num (int_cell (cell_of names c row) + sum_list granted)) row)"

definition snapshot_columns :: "(string \<times> string) list" where
  "snapshot_columns =
    [(''max_port_count_snapshot'', ''max_port_count''), (''max_node_count_snapshot'', ''max_node_count''),
     (''max_client_count_snapshot'', ''max_client_count'')]"

definition fill_snapshots :: "schema \<Rightarrow> schema option" where
  "fill_snapshots s =
    (case (map_of (sc_tables s) ''user_subscription'', map_of (sc_tables s) ''subscription'',
           map_of (sc_tables s) ''user'') of
       (Some subs, Some plans, Some users) \<Rightarrow>
         if has_columns ([''is_active'', ''subscription_id'', ''user_id'', ''quota_merged''] @ map fst snapshot_columns) subs \<and>
            has_columns (''id'' # map snd snapshot_columns) plans \<and>
            has_columns (''id'' # map snd snapshot_columns) users
         then let subs = update_rows (fill_snapshot plans) subs
              in Some (put ''user'' (fold (\<lambda>(a, b). update_rows (add_snapshots subs a b)) snapshot_columns users)
                   (put ''user_subscription'' subs s))
         else None
     | _ \<Rightarrow> None)"

section \<open>The tables of proxies, rebuilt\<close>

definition kept_columns :: "string list" where
  "kept_columns =
    [''id'', ''name'', ''proxy_type'', ''local_ip'', ''local_port'', ''remote_port'', ''enabled'',
     ''total_bytes_sent'', ''total_bytes_received'', ''created_at'', ''updated_at'', ''client_id'',
     ''node_id'', ''group_id'', ''domain'']"

definition client_column :: "bool \<Rightarrow> ctype \<Rightarrow> column" where
  "client_column direct ty = (if direct then nullable (column_of ty ''client_id'') else column_of ty ''client_id'')"

definition new_proxy_columns :: "bool \<Rightarrow> column list" where
  "new_proxy_columns direct =
    [(column_of INTEGER ''id'')\<lparr>cl_primary := True\<rparr>, column_of TEXT ''name'', column_of TEXT ''proxy_type'',
     column_of TEXT ''local_ip'', column_of INTEGER ''local_port'', column_of INTEGER ''remote_port'',
     column_of BOOLEAN ''enabled'', with_default (Num 0) (column_of BIGINT ''total_bytes_sent''),
     with_default (Num 0) (column_of BIGINT ''total_bytes_received''), column_of DATETIME ''created_at'',
     column_of DATETIME ''updated_at'', client_column direct TEXT, nullable (column_of BIGINT ''node_id''),
     nullable (column_of TEXT ''group_id''), with_default (Txt []) (column_of TEXT ''domain'')] @
    (if direct
     then [nullable (column_of BIGINT ''user_id''), with_default (Txt []) (column_of TEXT ''upstream_url'')]
     else [])"

definition new_daily_columns :: "bool \<Rightarrow> column list" where
  "new_daily_columns direct =
    [(column_of INTEGER ''id'')\<lparr>cl_primary := True\<rparr>, column_of BIGINT ''proxy_id'', client_column direct BIGINT,
     with_default (Num 0) (column_of BIGINT ''bytes_sent''),
     with_default (Num 0) (column_of BIGINT ''bytes_received''), column_of TEXT ''date'',
     column_of DATETIME ''created_at'', column_of DATETIME ''updated_at'']"

definition admits_row :: "column list \<Rightarrow> cell list \<Rightarrow> bool" where
  "admits_row cs row = list_all2 (\<lambda>c v. cl_null c \<or> v \<noteq> Null) cs row"

text \<open>The keys go on after the last one given, also when the table is empty: copying into the new
  table leaves an entry for it, which is then raised to the old one.\<close>

definition kept_seq :: "relation \<Rightarrow> int" where
  "kept_seq r = foldr max (map (\<lambda>row. int_cell (cell_of (column_names r) ''id'' row)) (rl_rows r)) (rl_seq r)"

definition rebuilt_proxy :: "bool \<Rightarrow> relation \<Rightarrow> relation" where
  "rebuilt_proxy direct r =
    \<lparr>rl_columns = new_proxy_columns direct,
     rl_refs = (''client_id'', ''client'') # (if direct then [(''user_id'', ''user'')] else []),
     rl_check = direct, rl_seq = kept_seq r,
     rl_rows = map (\<lambda>row. map (\<lambda>c. cell_of (column_names r) c row) kept_columns @
                          (if direct then [Null, Txt []] else [])) (rl_rows r)\<rparr>"

definition rebuilt_daily :: "bool \<Rightarrow> relation \<Rightarrow> relation" where
  "rebuilt_daily direct r =
    r\<lparr>rl_columns := new_daily_columns direct, rl_refs := [(''proxy_id'', ''proxy''), (''client_id'', ''client'')],
      rl_check := False, rl_seq := kept_seq r\<rparr>"

text \<open>With the constraint, a row without upstream must have a client, which not being null means; the
  copied rows have none. The indexes and triggers of both tables are made again from their texts.\<close>

definition rebuild :: "bool \<Rightarrow> schema \<Rightarrow> schema option" where
  "rebuild direct s =
    (case (map_of (sc_tables s) ''proxy'', map_of (sc_tables s) ''traffic_daily'') of
       (Some p, Some d) \<Rightarrow>
         let p' = rebuilt_proxy direct p; d' = rebuilt_daily direct d
         in if has_columns kept_columns p \<and> list_all (admits_row (rl_columns p')) (rl_rows p') \<and>
               (direct \<longrightarrow> list_all (\<lambda>row. cell_of (column_names p') ''client_id'' row \<noteq> Null) (rl_rows p')) \<and>
               length (rl_columns d) = length (rl_columns d') \<and> list_all (admits_row (rl_columns d')) (rl_rows d') \<and>
               list_all (\<lambda>i. (ix_table i = ''proxy'' \<longrightarrow> has_columns (ix_columns i) p') \<and>
                             (ix_table i = ''traffic_daily'' \<longrightarrow> has_columns (ix_columns i) d')) (sc_indexes s) \<and>
               list_all (\<lambda>g. tg_table g = ''proxy'' \<longrightarrow> has_columns (tg_columns g) p') (sc_triggers s)
            then Some (put ''traffic_daily'' d' (put ''proxy'' p' s))
            else None
     | _ \<Rightarrow> None)"

definition refuse_direct :: "schema \<Rightarrow> schema option" where
  "refuse_direct s =
    (case map_of (sc_tables s) ''proxy'' of
       None \<Rightarrow> None
     | Some r \<Rightarrow>
         if list_ex (\<lambda>row. cell_of (column_names r) ''client_id'' row = Null) (rl_rows r) then None else Some s)"

section \<open>Running statements\<close>

fun execute :: "ddl \<Rightarrow> schema \<Rightarrow> schema option" where
  "execute (Create t cs refs) s =
    (if map_of (sc_tables s) t \<noteq> None then Some s
     else Some (s\<lparr>sc_tables := sc_tables s @
                   [(t, \<lparr>rl_columns = cs, rl_refs = refs, rl_check = False, rl_seq = 0, rl_rows = []\<rparr>)]\<rparr>))"
| "execute (Drop t) s = drop_table t s"
| "execute (Add t c) s = on_table t (add_column c) s"
| "execute (Remove t c) s = on_table t (drop_column t c s) s"
| "execute (Create_index i t cs u) s =
    (case map_of (sc_tables s) t of
       None \<Rightarrow> None
     | Some r \<Rightarrow>
         if i \<in> set (map ix_name (sc_indexes s)) \<or> \<not> has_columns cs r \<or>
            u \<and> \<not> sorted_wrt (\<lambda>a b. \<not> clashes (column_names r) [cs] a b) (rl_rows r)
         then None
         else Some (s\<lparr>sc_indexes := sc_indexes s @ [\<lparr>ix_name = i, ix_table = t, ix_columns = cs, ix_unique = u\<rparr>]\<rparr>))"
| "execute (Drop_index i) s =
    (if i \<in> set (map ix_name (sc_indexes s))
     then Some (s\<lparr>sc_indexes := filter (\<lambda>x. ix_name x \<noteq> i) (sc_indexes s)\<rparr>) else None)"
| "execute (Insert t cs vs) s = insert_into False t cs vs s"
| "execute (Insert_or_ignore t cs vs) s = insert_into True t cs vs s"
| "execute (Delete t c vs) s = on_table t (delete_rows c (\<lambda>v. v \<in> set vs)) s"
| "execute (Delete_like t c p) s = on_table t (delete_rows c (like_prefix p)) s"
| "execute (Create_trigger g t cs) s =
    (case map_of (sc_tables s) t of
       None \<Rightarrow> None
     | Some r \<Rightarrow>
         if g \<in> set (map tg_name (sc_triggers s)) \<or> \<not> has_columns cs r then None
         else Some (s\<lparr>sc_triggers := sc_triggers s @ [\<lparr>tg_name = g, tg_table = t, tg_columns = cs\<rparr>]\<rparr>))"
| "execute (Drop_trigger g) s = Some (s\<lparr>sc_triggers := filter (\<lambda>x. tg_name x \<noteq> g) (sc_triggers s)\<rparr>)"
| "execute Fill_snapshots s = fill_snapshots s"
| "execute (Rebuild direct) s = rebuild direct s"
| "execute Refuse_direct s = refuse_direct s"

text \<open>A migration is a list of statements; the first failure ends it.\<close>

fun run :: "ddl list \<Rightarrow> schema \<Rightarrow> schema option" where
  "run [] s = Some s"
| "run (d # ds) s = (case execute d s of None \<Rightarrow> None | Some s' \<Rightarrow> run ds s')"

end
