(* ===== verification/Migrations.thy ===== *)
theory Migrations
  imports Schema
begin

text \<open>
  The migrations of the controller's database, in the order of \<open>Migrator::migrations\<close>, each with its
  way back (\<open>controller/src/migration\<close>, one definition per function). The descriptions of the settings
  are left out. What the whole sequence guarantees follows in \<open>MigrationProps\<close>.
\<close>

definition setting_columns :: "string list" where
  "setting_columns = [''key'', ''value'', ''description'', ''value_type'']"

text \<open>The columns the triggers on routes read.\<close>

definition route_columns :: "string list" where
  "route_columns = [''id'', ''enabled'', ''node_id'', ''remote_port'', ''proxy_type'', ''domain'']"

section \<open>The migrations\<close>

definition init_up :: "ddl list" where
  "init_up =
    [Create ''client''
       [id_column,
        column_of VARCHAR ''name'',
        column_of VARCHAR ''token'',
        with_default (Num 0) (column_of BOOLEAN ''is_online''),
        with_default (Num 0) (column_of BIGINT ''total_bytes_sent''),
        with_default (Num 0) (column_of BIGINT ''total_bytes_received''),
        column_of TIMESTAMP ''created_at'',
        column_of TIMESTAMP ''updated_at'']
       [],
     Create_index ''idx_client_token'' ''client'' [''token''] True,
     Create ''user''
       [id_column,
        unique_key (column_of VARCHAR ''username''),
        column_of VARCHAR ''password_hash'',
        with_default (Num 0) (column_of BOOLEAN ''is_admin''),
        with_default (Num 0) (column_of BIGINT ''total_bytes_sent''),
        with_default (Num 0) (column_of BIGINT ''total_bytes_received''),
        column_of TIMESTAMP ''created_at'',
        column_of TIMESTAMP ''updated_at'']
       [],
     Create_index ''idx_user_username'' ''user'' [''username''] True,
     Create ''proxy''
       [id_column,
        column_of VARCHAR ''name'',
        column_of VARCHAR ''proxy_type'',
        column_of VARCHAR ''local_ip'',
        column_of INTEGER ''local_port'',
        column_of INTEGER ''remote_port'',
        column_of BOOLEAN ''enabled'',
        with_default (Num 0) (column_of BIGINT ''total_bytes_sent''),
        with_default (Num 0) (column_of BIGINT ''total_bytes_received''),
        column_of TIMESTAMP ''created_at'',
        column_of TIMESTAMP ''updated_at'',
        column_of VARCHAR ''client_id'']
       [(''client_id'', ''client'')],
     Create_index ''idx_proxy_client_id'' ''proxy'' [''client_id''] False,
     Create_index ''idx_proxy_remote_port'' ''proxy'' [''remote_port''] False,
     Create ''user_client''
       [id_column,
        column_of BIGINT ''user_id'',
        column_of BIGINT ''client_id'',
        column_of TIMESTAMP ''created_at'']
       [(''user_id'', ''user''), (''client_id'', ''client'')],
     Create_index ''idx_user_client_unique'' ''user_client'' [''user_id'', ''client_id''] True,
     Create ''traffic_daily''
       [id_column,
        column_of BIGINT ''proxy_id'',
        column_of BIGINT ''client_id'',
        with_default (Num 0) (column_of BIGINT ''bytes_sent''),
        with_default (Num 0) (column_of BIGINT ''bytes_received''),
        column_of VARCHAR ''date'',
        column_of TIMESTAMP ''created_at'',
        column_of TIMESTAMP ''updated_at'']
       [(''proxy_id'', ''proxy''), (''client_id'', ''client'')],
     Create_index ''idx_traffic_daily_proxy_date'' ''traffic_daily'' [''proxy_id'', ''date''] True,
     Create_index ''idx_traffic_daily_client_date'' ''traffic_daily'' [''client_id'', ''date''] False]"

definition init_down :: "ddl list" where
  "init_down =
    [Drop ''traffic_daily'',
     Drop ''user_client'',
     Drop ''proxy'',
     Drop ''user'',
     Drop ''client'']"

definition user_limits_up :: "ddl list" where
  "user_limits_up =
    [Add ''user'' (nullable (column_of DOUBLE ''upload_limit_gb'')),
     Add ''user'' (nullable (column_of DOUBLE ''download_limit_gb'')),
     Add ''user'' (with_default (Txt ''none'') (column_of VARCHAR ''traffic_reset_cycle'')),
     Add ''user'' (nullable (column_of TIMESTAMP ''last_reset_at'')),
     Add ''user'' (with_default (Num 0) (column_of BOOLEAN ''is_traffic_exceeded''))]"

definition user_limits_down :: "ddl list" where
  "user_limits_down =
    [Remove ''user'' ''upload_limit_gb'',
     Remove ''user'' ''download_limit_gb'',
     Remove ''user'' ''traffic_reset_cycle'',
     Remove ''user'' ''last_reset_at'',
     Remove ''user'' ''is_traffic_exceeded'']"

definition settings_up :: "ddl list" where
  "settings_up =
    [Create ''system_config''
       [id_column,
        unique_key (column_of VARCHAR ''key''),
        column_of TEXT ''value'',
        column_of VARCHAR ''description'',
        column_of VARCHAR ''value_type'',
        with_default Now (column_of TIMESTAMP ''created_at''),
        with_default Now (column_of TIMESTAMP ''updated_at'')]
       [],
     Insert ''system_config'' setting_columns
       [[Txt ''health_check_interval'', Txt ''15'', Txt [], Txt ''number''],
        [Txt ''idle_timeout'', Txt ''60'', Txt [], Txt ''number''],
        [Txt ''keep_alive_interval'', Txt ''5'', Txt [], Txt ''number''],
        [Txt ''max_concurrent_streams'', Txt ''100'', Txt [], Txt ''number''],
        [Txt ''system_name'', Txt ''\"OxiProxy\"'', Txt [], Txt ''string''],
        [Txt ''enable_registration'', Txt ''false'', Txt [], Txt ''boolean'']]]"

definition settings_down :: "ddl list" where
  "settings_down =
    [Drop ''system_config'']"

definition client_limits_up :: "ddl list" where
  "client_limits_up =
    [Add ''client'' (nullable (column_of DOUBLE ''upload_limit_gb'')),
     Add ''client'' (nullable (column_of DOUBLE ''download_limit_gb'')),
     Add ''client'' (with_default (Txt ''none'') (column_of VARCHAR ''traffic_reset_cycle'')),
     Add ''client'' (nullable (column_of TIMESTAMP ''last_reset_at'')),
     Add ''client'' (with_default (Num 0) (column_of BOOLEAN ''is_traffic_exceeded''))]"

definition client_limits_down :: "ddl list" where
  "client_limits_down =
    [Remove ''client'' ''upload_limit_gb'',
     Remove ''client'' ''download_limit_gb'',
     Remove ''client'' ''traffic_reset_cycle'',
     Remove ''client'' ''last_reset_at'',
     Remove ''client'' ''is_traffic_exceeded'']"

definition kcp_up :: "ddl list" where
  "kcp_up =
    [Insert ''system_config'' setting_columns
       [[Txt ''kcp_nodelay'', Txt ''true'', Txt [], Txt ''boolean''],
        [Txt ''kcp_interval'', Txt ''10'', Txt [], Txt ''number''],
        [Txt ''kcp_resend'', Txt ''2'', Txt [], Txt ''number''],
        [Txt ''kcp_nc'', Txt ''true'', Txt [], Txt ''boolean'']]]"

definition kcp_down :: "ddl list" where
  "kcp_down =
    [Delete ''system_config'' ''key''
       [Txt ''kcp_nodelay'', Txt ''kcp_interval'', Txt ''kcp_resend'', Txt ''kcp_nc'']]"

definition use_kcp_up :: "ddl list" where
  "use_kcp_up =
    [Insert ''system_config'' setting_columns
       [[Txt ''use_kcp'', Txt ''false'', Txt [], Txt ''boolean'']]]"

definition use_kcp_down :: "ddl list" where
  "use_kcp_down =
    [Delete ''system_config'' ''key'' [Txt ''use_kcp'']]"

definition no_kcp_port_up :: "ddl list" where
  "no_kcp_port_up =
    [Delete ''system_config'' ''key'' [Txt ''kcp_port'']]"

definition no_kcp_port_down :: "ddl list" where
  "no_kcp_port_down =
    []"

definition nodes_up :: "ddl list" where
  "nodes_up =
    [Create ''node''
       [id_column,
        column_of VARCHAR ''name'',
        column_of VARCHAR ''url'',
        column_of VARCHAR ''secret'',
        with_default (Num 0) (column_of BOOLEAN ''is_online''),
        nullable (column_of VARCHAR ''region''),
        nullable (column_of VARCHAR ''description''),
        column_of TIMESTAMP ''created_at'',
        column_of TIMESTAMP ''updated_at'']
       [],
     Add ''client'' (nullable (column_of BIGINT ''node_id'')),
     Create_index ''idx_client_node_id'' ''client'' [''node_id''] False]"

definition nodes_down :: "ddl list" where
  "nodes_down =
    [Drop_index ''idx_client_node_id'',
     Remove ''client'' ''node_id'',
     Drop ''node'']"

definition tunnel_fields_up :: "ddl list" where
  "tunnel_fields_up =
    [Add ''node'' (with_default (Txt []) (column_of VARCHAR ''tunnel_addr'')),
     Add ''node'' (with_default (Num 7000) (column_of INTEGER ''tunnel_port'')),
     Add ''node'' (with_default (Txt ''quic'') (column_of VARCHAR ''tunnel_protocol'')),
     Add ''node'' (nullable (column_of TEXT ''kcp_config''))]"

definition tunnel_fields_down :: "ddl list" where
  "tunnel_fields_down =
    [Remove ''node'' ''kcp_config'',
     Remove ''node'' ''tunnel_protocol'',
     Remove ''node'' ''tunnel_port'',
     Remove ''node'' ''tunnel_addr'']"

definition proxy_node_up :: "ddl list" where
  "proxy_node_up =
    [Add ''proxy'' (nullable (column_of BIGINT ''node_id''))]"

definition proxy_node_down :: "ddl list" where
  "proxy_node_down =
    [Remove ''proxy'' ''node_id'']"

definition user_nodes_up :: "ddl list" where
  "user_nodes_up =
    [Create ''user_node''
       [id_column,
        column_of BIGINT ''user_id'',
        column_of BIGINT ''node_id'',
        column_of TIMESTAMP ''created_at'']
       [(''user_id'', ''user''), (''node_id'', ''node'')],
     Create_index ''idx_user_node_unique'' ''user_node'' [''user_id'', ''node_id''] True]"

definition user_nodes_down :: "ddl list" where
  "user_nodes_down =
    [Drop ''user_node'']"

definition unused_settings_up :: "ddl list" where
  "unused_settings_up =
    [Delete ''system_config'' ''key'' [Txt ''system_name''],
     Delete ''system_config'' ''key'' [Txt ''enable_registration''],
     Delete ''system_config'' ''key'' [Txt ''kcp_nodelay''],
     Delete ''system_config'' ''key'' [Txt ''kcp_interval''],
     Delete ''system_config'' ''key'' [Txt ''kcp_resend''],
     Delete ''system_config'' ''key'' [Txt ''kcp_nc''],
     Delete ''system_config'' ''key'' [Txt ''use_kcp'']]"

definition unused_settings_down :: "ddl list" where
  "unused_settings_down =
    []"

definition quotas_up :: "ddl list" where
  "quotas_up =
    [Add ''user'' (nullable (column_of DOUBLE ''traffic_quota_gb'')),
     Add ''client'' (nullable (column_of DOUBLE ''traffic_quota_gb''))]"

definition quotas_down :: "ddl list" where
  "quotas_down =
    [Remove ''user'' ''traffic_quota_gb'',
     Remove ''client'' ''traffic_quota_gb'']"

definition client_owner_up :: "ddl list" where
  "client_owner_up =
    [Add ''client'' (nullable (column_of BIGINT ''user_id'')),
     Create_index ''idx_client_user_id'' ''client'' [''user_id''] False]"

definition client_owner_down :: "ddl list" where
  "client_owner_down =
    [Drop_index ''idx_client_user_id'',
     Remove ''client'' ''user_id'']"

definition no_client_node_up :: "ddl list" where
  "no_client_node_up =
    [Drop_index ''idx_client_node_id'',
     Remove ''client'' ''node_id'']"

definition no_client_node_down :: "ddl list" where
  "no_client_node_down =
    [Add ''client'' (nullable (column_of BIGINT ''node_id'')),
     Create_index ''idx_client_node_id'' ''client'' [''node_id''] False]"

definition no_limits_up :: "ddl list" where
  "no_limits_up =
    [Remove ''user'' ''upload_limit_gb'',
     Remove ''user'' ''download_limit_gb'',
     Remove ''client'' ''upload_limit_gb'',
     Remove ''client'' ''download_limit_gb'']"

definition no_limits_down :: "ddl list" where
  "no_limits_down =
    [Add ''user'' (nullable (column_of DOUBLE ''upload_limit_gb'')),
     Add ''user'' (nullable (column_of DOUBLE ''download_limit_gb'')),
     Add ''client'' (nullable (column_of DOUBLE ''upload_limit_gb'')),
     Add ''client'' (nullable (column_of DOUBLE ''download_limit_gb''))]"

definition node_kind_up :: "ddl list" where
  "node_kind_up =
    [Add ''node'' (with_default (Txt ''shared'') (column_of VARCHAR ''node_type''))]"

definition node_kind_down :: "ddl list" where
  "node_kind_down =
    [Remove ''node'' ''node_type'']"

definition port_limits_up :: "ddl list" where
  "port_limits_up =
    [Add ''user'' (nullable (column_of INTEGER ''max_port_count'')),
     Add ''user'' (nullable (column_of VARCHAR ''allowed_port_range''))]"

definition port_limits_down :: "ddl list" where
  "port_limits_down =
    [Remove ''user'' ''max_port_count'',
     Remove ''user'' ''allowed_port_range'']"

definition node_ip_up :: "ddl list" where
  "node_ip_up =
    [Add ''node'' (nullable (column_of VARCHAR ''public_ip''))]"

definition node_ip_down :: "ddl list" where
  "node_ip_down =
    [Remove ''node'' ''public_ip'']"

definition plans_up :: "ddl list" where
  "plans_up =
    [Create ''subscription''
       [id_column,
        column_of VARCHAR ''name'',
        column_of VARCHAR ''duration_type'',
        with_default (Num 1) (column_of INTEGER ''duration_value''),
        column_of DOUBLE ''traffic_quota_gb'',
        nullable (column_of DOUBLE ''price''),
        nullable (column_of VARCHAR ''description''),
        with_default (Num 1) (column_of BOOLEAN ''is_active''),
        column_of TIMESTAMP ''created_at'',
        column_of TIMESTAMP ''updated_at'']
       [],
     Create ''user_subscription''
       [id_column,
        column_of BIGINT ''user_id'',
        column_of BIGINT ''subscription_id'',
        column_of TIMESTAMP ''start_date'',
        column_of TIMESTAMP ''end_date'',
        column_of DOUBLE ''traffic_quota_gb'',
        with_default (Flt 0) (column_of DOUBLE ''traffic_used_gb''),
        with_default (Num 1) (column_of BOOLEAN ''is_active''),
        column_of TIMESTAMP ''created_at'',
        column_of TIMESTAMP ''updated_at'']
       [(''user_id'', ''user''), (''subscription_id'', ''subscription'')],
     Create_index ''idx_user_subscription_user_id'' ''user_subscription'' [''user_id''] False,
     Create_index ''idx_user_subscription_subscription_id'' ''user_subscription''
       [''subscription_id''] False]"

definition plans_down :: "ddl list" where
  "plans_down =
    [Drop ''user_subscription'',
     Drop ''subscription'']"

definition controller_settings_up :: "ddl list" where
  "controller_settings_up =
    [Insert ''system_config'' setting_columns
       [[Txt ''web_port'', Txt ''3000'', Txt [], Txt ''number''],
        [Txt ''internal_port'', Txt ''3100'', Txt [], Txt ''number''],
        [Txt ''jwt_expiration_hours'', Txt ''24'', Txt [], Txt ''number''],
        [Txt ''db_path'', Txt ''\"./data/oxiproxy.db\"'', Txt [], Txt ''string'']]]"

definition controller_settings_down :: "ddl list" where
  "controller_settings_down =
    [Delete ''system_config'' ''key''
       [Txt ''web_port'', Txt ''internal_port'', Txt ''jwt_expiration_hours'', Txt ''db_path'']]"

definition no_quic_settings_up :: "ddl list" where
  "no_quic_settings_up =
    [Delete ''system_config'' ''key''
       [Txt ''health_check_interval'', Txt ''idle_timeout'', Txt ''keep_alive_interval'',
        Txt ''max_concurrent_streams'']]"

definition no_quic_settings_down :: "ddl list" where
  "no_quic_settings_down =
    [Insert ''system_config'' setting_columns
       [[Txt ''health_check_interval'', Txt ''15'', Txt [], Txt ''number''],
        [Txt ''idle_timeout'', Txt ''60'', Txt [], Txt ''number''],
        [Txt ''keep_alive_interval'', Txt ''5'', Txt [], Txt ''number''],
        [Txt ''max_concurrent_streams'', Txt ''100'', Txt [], Txt ''number'']]]"

definition grpc_tls_up :: "ddl list" where
  "grpc_tls_up =
    [Insert_or_ignore ''system_config'' setting_columns
       [[Txt ''grpc_tls_enabled'', Txt ''false'', Txt [], Txt ''boolean''],
        [Txt ''grpc_tls_cert_path'', Txt ''\"\"'', Txt [], Txt ''string''],
        [Txt ''grpc_tls_key_path'', Txt ''\"\"'', Txt [], Txt ''string''],
        [Txt ''grpc_domain'', Txt ''\"\"'', Txt [], Txt ''string'']]]"

definition grpc_tls_down :: "ddl list" where
  "grpc_tls_down =
    [Delete ''system_config'' ''key''
       [Txt ''grpc_tls_enabled'', Txt ''grpc_tls_cert_path'', Txt ''grpc_tls_key_path'',
        Txt ''grpc_domain'']]"

definition plan_ports_up :: "ddl list" where
  "plan_ports_up =
    [Add ''subscription'' (nullable (column_of INTEGER ''max_port_count''))]"

definition plan_ports_down :: "ddl list" where
  "plan_ports_down =
    [Remove ''subscription'' ''max_port_count'']"

definition grpc_certs_up :: "ddl list" where
  "grpc_certs_up =
    [Insert ''system_config'' setting_columns
       [[Txt ''grpc_tls_cert_content'', Txt ''\"\"'', Txt [], Txt ''string''],
        [Txt ''grpc_tls_key_content'', Txt ''\"\"'', Txt [], Txt ''string'']]]"

definition grpc_certs_down :: "ddl list" where
  "grpc_certs_down =
    [Delete ''system_config'' ''key'' [Txt ''grpc_tls_cert_content'', Txt ''grpc_tls_key_content'']]"

definition web_tls_up :: "ddl list" where
  "web_tls_up =
    [Insert ''system_config'' setting_columns
       [[Txt ''web_tls_enabled'', Txt ''\"false\"'', Txt [], Txt ''boolean'']],
     Insert ''system_config'' setting_columns
       [[Txt ''web_tls_cert_path'', Txt ''\"\"'', Txt [], Txt ''string'']],
     Insert ''system_config'' setting_columns
       [[Txt ''web_tls_key_path'', Txt ''\"\"'', Txt [], Txt ''string'']],
     Insert ''system_config'' setting_columns
       [[Txt ''web_tls_cert_content'', Txt ''\"\"'', Txt [], Txt ''string'']],
     Insert ''system_config'' setting_columns
       [[Txt ''web_tls_key_content'', Txt ''\"\"'', Txt [], Txt ''string'']]]"

definition web_tls_down :: "ddl list" where
  "web_tls_down =
    [Delete ''system_config'' ''key''
       [Txt ''web_tls_enabled'', Txt ''web_tls_cert_path'', Txt ''web_tls_key_path'',
        Txt ''web_tls_cert_content'', Txt ''web_tls_key_content'']]"

definition client_ip_up :: "ddl list" where
  "client_ip_up =
    [Add ''client'' (nullable (column_of VARCHAR ''public_ip''))]"

definition client_ip_down :: "ddl list" where
  "client_ip_down =
    [Remove ''client'' ''public_ip'']"

definition registration_up :: "ddl list" where
  "registration_up =
    [Insert ''system_config'' setting_columns
       [[Txt ''enable_registration'', Txt ''false'', Txt [], Txt ''boolean'']]]"

definition registration_down :: "ddl list" where
  "registration_down =
    [Delete ''system_config'' ''key'' [Txt ''enable_registration'']]"

definition node_limits_up :: "ddl list" where
  "node_limits_up =
    [Add ''node'' (nullable (column_of INTEGER ''max_proxy_count'')),
     Add ''node'' (nullable (column_of VARCHAR ''allowed_port_range'')),
     Add ''node'' (nullable (column_of DOUBLE ''traffic_quota_gb'')),
     Add ''node'' (with_default (Txt ''none'') (column_of VARCHAR ''traffic_reset_cycle'')),
     Add ''node'' (with_default (Num 0) (column_of BIGINT ''total_bytes_sent'')),
     Add ''node'' (with_default (Num 0) (column_of BIGINT ''total_bytes_received'')),
     Add ''node'' (nullable (column_of TIMESTAMP ''last_reset_at'')),
     Add ''node'' (with_default (Num 0) (column_of BOOLEAN ''is_traffic_exceeded'')),
     Add ''node'' (nullable (column_of BIGINT ''speed_limit''))]"

definition node_limits_down :: "ddl list" where
  "node_limits_down =
    [Remove ''node'' ''max_proxy_count'',
     Remove ''node'' ''allowed_port_range'',
     Remove ''node'' ''traffic_quota_gb'',
     Remove ''node'' ''traffic_reset_cycle'',
     Remove ''node'' ''total_bytes_sent'',
     Remove ''node'' ''total_bytes_received'',
     Remove ''node'' ''last_reset_at'',
     Remove ''node'' ''is_traffic_exceeded'',
     Remove ''node'' ''speed_limit'']"

definition proxy_group_up :: "ddl list" where
  "proxy_group_up =
    [Add ''proxy'' (nullable (column_of VARCHAR ''group_id''))]"

definition proxy_group_down :: "ddl list" where
  "proxy_group_down =
    [Remove ''proxy'' ''group_id'']"

definition client_region_up :: "ddl list" where
  "client_region_up =
    [Add ''client'' (nullable (column_of VARCHAR ''region''))]"

definition client_region_down :: "ddl list" where
  "client_region_down =
    [Remove ''client'' ''region'']"

definition user_counts_up :: "ddl list" where
  "user_counts_up =
    [Add ''user'' (nullable (column_of INTEGER ''max_node_count'')),
     Add ''user'' (nullable (column_of INTEGER ''max_client_count''))]"

definition user_counts_down :: "ddl list" where
  "user_counts_down =
    [Remove ''user'' ''max_node_count'',
     Remove ''user'' ''max_client_count'']"

definition plan_counts_up :: "ddl list" where
  "plan_counts_up =
    [Add ''subscription'' (nullable (column_of INTEGER ''max_node_count'')),
     Add ''subscription'' (nullable (column_of INTEGER ''max_client_count''))]"

definition plan_counts_down :: "ddl list" where
  "plan_counts_down =
    [Remove ''subscription'' ''max_node_count'',
     Remove ''subscription'' ''max_client_count'']"

definition snapshots_up :: "ddl list" where
  "snapshots_up =
    [Add ''user_subscription'' (nullable (column_of INTEGER ''max_port_count_snapshot'')),
     Add ''user_subscription'' (nullable (column_of INTEGER ''max_node_count_snapshot'')),
     Add ''user_subscription'' (nullable (column_of INTEGER ''max_client_count_snapshot'')),
     Add ''user_subscription'' (with_default (Num 0) (column_of BOOLEAN ''quota_merged'')),
     Fill_snapshots]"

definition snapshots_down :: "ddl list" where
  "snapshots_down =
    [Remove ''user_subscription'' ''max_port_count_snapshot'',
     Remove ''user_subscription'' ''max_node_count_snapshot'',
     Remove ''user_subscription'' ''max_client_count_snapshot'',
     Remove ''user_subscription'' ''quota_merged'']"

definition versions_up :: "ddl list" where
  "versions_up =
    [Add ''node'' (nullable (column_of VARCHAR ''version'')),
     Add ''client'' (nullable (column_of VARCHAR ''version''))]"

definition versions_down :: "ddl list" where
  "versions_down =
    [Remove ''node'' ''version'',
     Remove ''client'' ''version'']"

definition default_quotas_up :: "ddl list" where
  "default_quotas_up =
    [Insert ''system_config'' setting_columns
       [[Txt ''default_traffic_quota_gb'', Txt ''0'', Txt [], Txt ''float'']],
     Insert ''system_config'' setting_columns
       [[Txt ''default_max_port_count'', Txt ''0'', Txt [], Txt ''number'']],
     Insert ''system_config'' setting_columns
       [[Txt ''default_max_node_count'', Txt ''0'', Txt [], Txt ''number'']],
     Insert ''system_config'' setting_columns
       [[Txt ''default_max_client_count'', Txt ''0'', Txt [], Txt ''number'']]]"

definition default_quotas_down :: "ddl list" where
  "default_quotas_down =
    [Delete ''system_config'' ''key'' [Txt ''default_traffic_quota_gb''],
     Delete ''system_config'' ''key'' [Txt ''default_max_port_count''],
     Delete ''system_config'' ''key'' [Txt ''default_max_node_count''],
     Delete ''system_config'' ''key'' [Txt ''default_max_client_count'']]"

definition certificates_up :: "ddl list" where
  "certificates_up =
    [Create ''node_certificates''
       [(column_of INTEGER ''id'')\<lparr>cl_primary := True\<rparr>,
        column_of INTEGER ''node_id'',
        column_of TEXT ''cert_content'',
        column_of TEXT ''key_content'',
        column_of VARCHAR ''fingerprint'',
        column_of TIMESTAMP ''created_at'',
        column_of TIMESTAMP ''expires_at'']
       [(''node_id'', ''node'')],
     Create_index ''idx_node_certificate_node_id'' ''node_certificates'' [''node_id''] True]"

definition certificates_down :: "ddl list" where
  "certificates_down =
    [Drop ''node_certificates'']"

definition client_last_online_up :: "ddl list" where
  "client_last_online_up =
    [Add ''client'' (nullable (column_of DATETIME ''last_online_at''))]"

definition client_last_online_down :: "ddl list" where
  "client_last_online_down =
    [Remove ''client'' ''last_online_at'']"

definition node_last_online_up :: "ddl list" where
  "node_last_online_up =
    [Add ''node'' (nullable (column_of DATETIME ''last_online_at''))]"

definition node_last_online_down :: "ddl list" where
  "node_last_online_down =
    [Remove ''node'' ''last_online_at'']"

definition domain_routing_up :: "ddl list" where
  "domain_routing_up =
    [Add ''proxy'' (with_default (Txt []) (column_of TEXT ''domain'')),
     Create_trigger ''proxy_route_insert'' ''proxy'' route_columns,
     Create_trigger ''proxy_route_update'' ''proxy'' route_columns]"

definition domain_routing_down :: "ddl list" where
  "domain_routing_down =
    [Drop_trigger ''proxy_route_insert'',
     Drop_trigger ''proxy_route_update'',
     Remove ''proxy'' ''domain'']"

definition acme_up :: "ddl list" where
  "acme_up =
    [Insert_or_ignore ''system_config'' setting_columns
       [[Txt ''acme_enabled'', Txt ''false'', Txt [], Txt ''string'']],
     Insert_or_ignore ''system_config'' setting_columns
       [[Txt ''acme_domains'', Txt [], Txt [], Txt ''string'']],
     Insert_or_ignore ''system_config'' setting_columns
       [[Txt ''acme_email'', Txt [], Txt [], Txt ''string'']],
     Insert_or_ignore ''system_config'' setting_columns
       [[Txt ''acme_staging'', Txt ''false'', Txt [], Txt ''string'']]]"

definition acme_down :: "ddl list" where
  "acme_down =
    [Delete_like ''system_config'' ''key'' ''acme'']"

definition direct_proxies_up :: "ddl list" where
  "direct_proxies_up =
    [Rebuild True]"

definition direct_proxies_down :: "ddl list" where
  "direct_proxies_down =
    [Refuse_direct,
     Rebuild False]"

section \<open>The sequence\<close>

definition migrations :: "(ddl list \<times> ddl list) list" where
  "migrations =
    [(init_up, init_down),
     (user_limits_up, user_limits_down),
     (settings_up, settings_down),
     (client_limits_up, client_limits_down),
     (kcp_up, kcp_down),
     (use_kcp_up, use_kcp_down),
     (no_kcp_port_up, no_kcp_port_down),
     (nodes_up, nodes_down),
     (tunnel_fields_up, tunnel_fields_down),
     (proxy_node_up, proxy_node_down),
     (user_nodes_up, user_nodes_down),
     (unused_settings_up, unused_settings_down),
     (quotas_up, quotas_down),
     (client_owner_up, client_owner_down),
     (no_client_node_up, no_client_node_down),
     (no_limits_up, no_limits_down),
     (node_kind_up, node_kind_down),
     (port_limits_up, port_limits_down),
     (node_ip_up, node_ip_down),
     (plans_up, plans_down),
     (controller_settings_up, controller_settings_down),
     (no_quic_settings_up, no_quic_settings_down),
     (grpc_tls_up, grpc_tls_down),
     (plan_ports_up, plan_ports_down),
     (grpc_certs_up, grpc_certs_down),
     (web_tls_up, web_tls_down),
     (client_ip_up, client_ip_down),
     (registration_up, registration_down),
     (node_limits_up, node_limits_down),
     (proxy_group_up, proxy_group_down),
     (client_region_up, client_region_down),
     (user_counts_up, user_counts_down),
     (plan_counts_up, plan_counts_down),
     (snapshots_up, snapshots_down),
     (versions_up, versions_down),
     (default_quotas_up, default_quotas_down),
     (certificates_up, certificates_down),
     (client_last_online_up, client_last_online_down),
     (node_last_online_up, node_last_online_down),
     (domain_routing_up, domain_routing_down),
     (acme_up, acme_down),
     (direct_proxies_up, direct_proxies_down)]"

text \<open>\<open>Migrator::up\<close> from any version, and \<open>down\<close> by some steps.\<close>

definition upgrade :: "(ddl list \<times> ddl list) list \<Rightarrow> schema \<Rightarrow> schema option" where
  "upgrade ms = run (concat (map fst ms))"

definition downgrade :: "(ddl list \<times> ddl list) list \<Rightarrow> schema \<Rightarrow> schema option" where
  "downgrade ms = run (concat (map snd (rev ms)))"

lemmas up_defs =
  init_up_def
  user_limits_up_def
  settings_up_def
  client_limits_up_def
  kcp_up_def
  use_kcp_up_def
  no_kcp_port_up_def
  nodes_up_def
  tunnel_fields_up_def
  proxy_node_up_def
  user_nodes_up_def
  unused_settings_up_def
  quotas_up_def
  client_owner_up_def
  no_client_node_up_def
  no_limits_up_def
  node_kind_up_def
  port_limits_up_def
  node_ip_up_def
  plans_up_def
  controller_settings_up_def
  no_quic_settings_up_def
  grpc_tls_up_def
  plan_ports_up_def
  grpc_certs_up_def
  web_tls_up_def
  client_ip_up_def
  registration_up_def
  node_limits_up_def
  proxy_group_up_def
  client_region_up_def
  user_counts_up_def
  plan_counts_up_def
  snapshots_up_def
  versions_up_def
  default_quotas_up_def
  certificates_up_def
  client_last_online_up_def
  node_last_online_up_def
  domain_routing_up_def
  acme_up_def
  direct_proxies_up_def

lemmas down_defs =
  init_down_def
  user_limits_down_def
  settings_down_def
  client_limits_down_def
  kcp_down_def
  use_kcp_down_def
  no_kcp_port_down_def
  nodes_down_def
  tunnel_fields_down_def
  proxy_node_down_def
  user_nodes_down_def
  unused_settings_down_def
  quotas_down_def
  client_owner_down_def
  no_client_node_down_def
  no_limits_down_def
  node_kind_down_def
  port_limits_down_def
  node_ip_down_def
  plans_down_def
  controller_settings_down_def
  no_quic_settings_down_def
  grpc_tls_down_def
  plan_ports_down_def
  grpc_certs_down_def
  web_tls_down_def
  client_ip_down_def
  registration_down_def
  node_limits_down_def
  proxy_group_down_def
  client_region_down_def
  user_counts_down_def
  plan_counts_down_def
  snapshots_down_def
  versions_down_def
  default_quotas_down_def
  certificates_down_def
  client_last_online_down_def
  node_last_online_down_def
  domain_routing_down_def
  acme_down_def
  direct_proxies_down_def

end
