(* ===== verification/EntityFields.thy ===== *)
theory EntityFields
  imports Migrations
begin

text \<open>
  The tables as the program declares them (\<open>controller/src/entity\<close>): for each entity the fields of its
  \<open>Model\<close>, and when a schema of the migrations has exactly these; and the settings of a fresh database.
\<close>

section \<open>The tables the program reads\<close>

text \<open>A field of an entity: its name, the kind of value it holds, and whether it is an \<open>Option\<close>.\<close>

datatype affinity = A_int | A_real | A_text | A_bool | A_time

type_synonym field = "string \<times> affinity \<times> bool"

definition user_fields :: "field list" where
  "user_fields =
    [(''id'', A_int, False), (''username'', A_text, False), (''password_hash'', A_text, False),
     (''is_admin'', A_bool, False), (''total_bytes_sent'', A_int, False),
     (''total_bytes_received'', A_int, False), (''traffic_reset_cycle'', A_text, False),
     (''last_reset_at'', A_time, True), (''is_traffic_exceeded'', A_bool, False),
     (''traffic_quota_gb'', A_real, True), (''max_port_count'', A_int, True),
     (''allowed_port_range'', A_text, True), (''max_node_count'', A_int, True),
     (''max_client_count'', A_int, True), (''created_at'', A_time, False),
     (''updated_at'', A_time, False)]"

definition client_fields :: "field list" where
  "client_fields =
    [(''id'', A_int, False), (''name'', A_text, False), (''token'', A_text, False),
     (''is_online'', A_bool, False), (''public_ip'', A_text, True), (''region'', A_text, True),
     (''total_bytes_sent'', A_int, False), (''total_bytes_received'', A_int, False),
     (''traffic_reset_cycle'', A_text, False), (''last_reset_at'', A_time, True),
     (''is_traffic_exceeded'', A_bool, False), (''traffic_quota_gb'', A_real, True),
     (''user_id'', A_int, True), (''version'', A_text, True), (''last_online_at'', A_time, True),
     (''created_at'', A_time, False), (''updated_at'', A_time, False)]"

definition node_fields :: "field list" where
  "node_fields =
    [(''id'', A_int, False), (''name'', A_text, False), (''url'', A_text, False),
     (''secret'', A_text, False), (''is_online'', A_bool, False), (''region'', A_text, True),
     (''public_ip'', A_text, True), (''description'', A_text, True),
     (''tunnel_addr'', A_text, False), (''tunnel_port'', A_int, False),
     (''tunnel_protocol'', A_text, False), (''kcp_config'', A_text, True),
     (''node_type'', A_text, False), (''max_proxy_count'', A_int, True),
     (''allowed_port_range'', A_text, True), (''traffic_quota_gb'', A_real, True),
     (''traffic_reset_cycle'', A_text, False), (''total_bytes_sent'', A_int, False),
     (''total_bytes_received'', A_int, False), (''last_reset_at'', A_time, True),
     (''is_traffic_exceeded'', A_bool, False), (''speed_limit'', A_int, True),
     (''version'', A_text, True), (''last_online_at'', A_time, True),
     (''created_at'', A_time, False), (''updated_at'', A_time, False)]"

definition proxy_fields :: "field list" where
  "proxy_fields =
    [(''id'', A_int, False), (''client_id'', A_text, True), (''user_id'', A_int, True),
     (''upstream_url'', A_text, False), (''name'', A_text, False),
     (''proxy_type'', A_text, False), (''domain'', A_text, False), (''local_ip'', A_text, False),
     (''local_port'', A_int, False), (''remote_port'', A_int, False),
     (''enabled'', A_bool, False), (''node_id'', A_int, True), (''group_id'', A_text, True),
     (''total_bytes_sent'', A_int, False), (''total_bytes_received'', A_int, False),
     (''created_at'', A_time, False), (''updated_at'', A_time, False)]"

definition user_client_fields :: "field list" where
  "user_client_fields =
    [(''id'', A_int, False), (''user_id'', A_int, False), (''client_id'', A_int, False),
     (''created_at'', A_time, False)]"

definition user_node_fields :: "field list" where
  "user_node_fields =
    [(''id'', A_int, False), (''user_id'', A_int, False), (''node_id'', A_int, False),
     (''created_at'', A_time, False)]"

definition traffic_daily_fields :: "field list" where
  "traffic_daily_fields =
    [(''id'', A_int, False), (''proxy_id'', A_int, False), (''client_id'', A_int, True),
     (''bytes_sent'', A_int, False), (''bytes_received'', A_int, False),
     (''date'', A_text, False), (''created_at'', A_time, False), (''updated_at'', A_time, False)]"

definition subscription_fields :: "field list" where
  "subscription_fields =
    [(''id'', A_int, False), (''name'', A_text, False), (''duration_type'', A_text, False),
     (''duration_value'', A_int, False), (''traffic_quota_gb'', A_real, False),
     (''max_port_count'', A_int, True), (''max_node_count'', A_int, True),
     (''max_client_count'', A_int, True), (''price'', A_real, True),
     (''description'', A_text, True), (''is_active'', A_bool, False),
     (''created_at'', A_time, False), (''updated_at'', A_time, False)]"

definition user_subscription_fields :: "field list" where
  "user_subscription_fields =
    [(''id'', A_int, False), (''user_id'', A_int, False), (''subscription_id'', A_int, False),
     (''start_date'', A_time, False), (''end_date'', A_time, False),
     (''traffic_quota_gb'', A_real, False), (''traffic_used_gb'', A_real, False),
     (''is_active'', A_bool, False), (''max_port_count_snapshot'', A_int, True),
     (''max_node_count_snapshot'', A_int, True), (''max_client_count_snapshot'', A_int, True),
     (''quota_merged'', A_bool, False), (''created_at'', A_time, False),
     (''updated_at'', A_time, False)]"

definition node_certificate_fields :: "field list" where
  "node_certificate_fields =
    [(''id'', A_int, False), (''node_id'', A_int, False), (''cert_content'', A_text, False),
     (''key_content'', A_text, False), (''fingerprint'', A_text, False),
     (''created_at'', A_time, False), (''expires_at'', A_time, False)]"

definition system_config_fields :: "field list" where
  "system_config_fields =
    [(''id'', A_int, False), (''key'', A_text, False), (''value'', A_text, False),
     (''description'', A_text, False), (''value_type'', A_text, False),
     (''created_at'', A_time, False), (''updated_at'', A_time, False)]"

definition entities :: "(string \<times> field list) list" where
  "entities =
    [(''user'', user_fields),
     (''client'', client_fields),
     (''node'', node_fields),
     (''proxy'', proxy_fields),
     (''user_client'', user_client_fields),
     (''user_node'', user_node_fields),
     (''traffic_daily'', traffic_daily_fields),
     (''subscription'', subscription_fields),
     (''user_subscription'', user_subscription_fields),
     (''node_certificates'', node_certificate_fields),
     (''system_config'', system_config_fields)]"

fun affinity_of :: "ctype \<Rightarrow> affinity" where
  "affinity_of BIGINT = A_int"
| "affinity_of INTEGER = A_int"
| "affinity_of DOUBLE = A_real"
| "affinity_of VARCHAR = A_text"
| "affinity_of TEXT = A_text"
| "affinity_of BOOLEAN = A_bool"
| "affinity_of TIMESTAMP = A_time"
| "affinity_of DATETIME = A_time"

definition field_of :: "column \<Rightarrow> field" where
  "field_of c = (cl_name c, affinity_of (cl_type c), cl_null c)"

definition fits_entities :: "schema \<Rightarrow> bool" where
  "fits_entities s =
    (set (map fst (sc_tables s)) = set (map fst entities) \<and>
     list_all (\<lambda>(t, fs). case map_of (sc_tables s) t of
         None \<Rightarrow> False
       | Some r \<Rightarrow> distinct (column_names r) \<and> set (map field_of (rl_columns r)) = set fs) entities)"

text \<open>The settings of a fresh database: key, value and type.\<close>

definition settings_of :: "schema \<Rightarrow> (string \<times> string \<times> string) list" where
  "settings_of s =
    (case map_of (sc_tables s) ''system_config'' of
       None \<Rightarrow> []
     | Some r \<Rightarrow>
         map (\<lambda>row. let get = (\<lambda>c. case cell_of (column_names r) c row of Txt v \<Rightarrow> v | _ \<Rightarrow> [])
                    in (get ''key'', get ''value'', get ''value_type'')) (rl_rows r))"

definition initial_settings :: "(string \<times> string \<times> string) list" where
  "initial_settings =
    [(''web_port'', ''3000'', ''number''), (''internal_port'', ''3100'', ''number''),
     (''jwt_expiration_hours'', ''24'', ''number''), (''db_path'', ''\"./data/oxiproxy.db\"'', ''string''),
     (''grpc_tls_enabled'', ''false'', ''boolean''), (''grpc_tls_cert_path'', ''\"\"'', ''string''),
     (''grpc_tls_key_path'', ''\"\"'', ''string''), (''grpc_domain'', ''\"\"'', ''string''),
     (''grpc_tls_cert_content'', ''\"\"'', ''string''), (''grpc_tls_key_content'', ''\"\"'', ''string''),
     (''web_tls_enabled'', ''\"false\"'', ''boolean''), (''web_tls_cert_path'', ''\"\"'', ''string''),
     (''web_tls_key_path'', ''\"\"'', ''string''), (''web_tls_cert_content'', ''\"\"'', ''string''),
     (''web_tls_key_content'', ''\"\"'', ''string''), (''enable_registration'', ''false'', ''boolean''),
     (''default_traffic_quota_gb'', ''0'', ''float''), (''default_max_port_count'', ''0'', ''number''),
     (''default_max_node_count'', ''0'', ''number''), (''default_max_client_count'', ''0'', ''number''),
     (''acme_enabled'', ''false'', ''string''), (''acme_domains'', [], ''string''),
     (''acme_email'', [], ''string''), (''acme_staging'', ''false'', ''string'')]"

end
