(* ===== verification/MigrationProps.thy ===== *)
theory MigrationProps
  imports EntityFields
begin

text \<open>
  What the migrations guarantee: they end in the tables the entities describe and can be taken back one
  by one.
\<close>

section \<open>Forth and back\<close>

text \<open>Two schemas of the same shape: the order of columns and indexes does not matter, nor which of the
  types of a kind a column has.\<close>

definition same_set :: "'a list \<Rightarrow> 'a list \<Rightarrow> bool" where
  "same_set xs ys = (if xs = ys then True else set xs = set ys \<and> length xs = length ys)"

definition shape_of :: "column \<Rightarrow> field \<times> cell option \<times> bool \<times> bool" where
  "shape_of c = (field_of c, cl_default c, cl_unique c, cl_primary c)"

definition same_relation :: "relation \<Rightarrow> relation \<Rightarrow> bool" where
  "same_relation a b =
    (rl_refs a = rl_refs b \<and> rl_check a = rl_check b \<and>
     same_set (map shape_of (rl_columns a)) (map shape_of (rl_columns b)))"

definition same_shape :: "schema \<Rightarrow> schema \<Rightarrow> bool" where
  "same_shape s t =
    (list_all2 (\<lambda>(m, a) (n, b). m = n \<and> same_relation a b) (sc_tables s) (sc_tables t) \<and>
     same_set (sc_indexes s) (sc_indexes t) \<and> sc_triggers s = sc_triggers t)"

text \<open>The settings in full: the names of the columns, and the rows without the identifiers they were given.
  Taking back the migration that removed the unused settings does not bring those back: its \<open>down\<close> does
  nothing. Every other setting returns as it was.\<close>

definition setting_rows :: "schema \<Rightarrow> string list \<times> cell list list" where
  "setting_rows s =
    (case map_of (sc_tables s) ''system_config'' of
       None \<Rightarrow> ([], [])
     | Some r \<Rightarrow> (column_names r, map tl (rl_rows r)))"

definition unused_settings :: "cell list" where
  "unused_settings =
    [Txt ''system_name'', Txt ''enable_registration'', Txt ''kcp_nodelay'', Txt ''kcp_interval'',
     Txt ''kcp_resend'', Txt ''kcp_nc'', Txt ''use_kcp'']"

definition settings_return :: "bool \<Rightarrow> schema \<Rightarrow> schema \<Rightarrow> bool" where
  "settings_return lost s' s =
    (case (setting_rows s', setting_rows s) of
       ((cs', rs'), (cs, rs)) \<Rightarrow>
         cs' = cs \<and> take 2 cs = (if cs = [] then [] else [''id'', ''key'']) \<and>
         same_set rs' (if lost then filter (\<lambda>r. hd r \<notin> set unused_settings) rs else rs))"

definition only_settings :: "schema \<Rightarrow> bool" where
  "only_settings s = list_all (\<lambda>(n, r). n = ''system_config'' \<or> rl_rows r = []) (sc_tables s)"

definition back_again :: "bool \<Rightarrow> schema \<Rightarrow> schema \<Rightarrow> bool" where
  "back_again lost s' s =
    (same_shape s' s \<and> settings_return lost s' s \<and> only_settings s')"

definition loses_settings :: "(ddl list \<times> ddl list) list \<Rightarrow> bool" where
  "loses_settings undone = list_ex (\<lambda>(u, d). u = unused_settings_up) undone"

text \<open>Up through all migrations, a test at the top, and back down, comparing on the way.\<close>

fun retraced :: "(schema \<Rightarrow> bool) \<Rightarrow> (ddl list \<times> ddl list) list \<Rightarrow> schema \<Rightarrow> (bool \<times> schema) option" where
  "retraced P [] s = (if P s then Some (False, s) else None)"
| "retraced P ((u, d) # ms) s =
    (case run u s of
       None \<Rightarrow> None
     | Some s1 \<Rightarrow>
         (case retraced P ms s1 of
            None \<Rightarrow> None
          | Some (lost, s2) \<Rightarrow>
              (case run d s2 of
                 None \<Rightarrow> None
               | Some s3 \<Rightarrow>
                   let lost' = (u = unused_settings_up \<or> lost)
                   in if back_again lost' s3 s then Some (lost', s3) else None)))"

definition migrated :: "schema \<Rightarrow> bool" where
  "migrated s = (fits_entities s \<and> settings_of s = initial_settings \<and> back_again False s s)"

lemma retraced_migrations: "retraced migrated migrations empty_schema \<noteq> None"
  by code_simp
lemma run_append: "run (a @ b) s = (case run a s of None \<Rightarrow> None | Some s' \<Rightarrow> run b s')"
  by (induction a arbitrary: s) (auto split: option.splits)

lemma upgrade_Cons: "upgrade (m # ms) s = (case run (fst m) s of None \<Rightarrow> None | Some s' \<Rightarrow> upgrade ms s')"
  by (simp add: upgrade_def run_append split: option.split)

lemma downgrade_Cons: "downgrade (m # ms) s = (case downgrade ms s of None \<Rightarrow> None | Some s' \<Rightarrow> run (snd m) s')"
  by (simp add: downgrade_def run_append split: option.split)

lemma retraced_all:
  assumes "retraced P ms s = Some (lost, s')" "\<And>t. P t \<Longrightarrow> back_again False t t"
  shows "\<exists>top. upgrade ms s = Some top \<and> P top \<and> downgrade ms top = Some s' \<and>
    lost = loses_settings ms \<and> back_again lost s' s"
  using assms(1)
proof (induction ms arbitrary: s s' lost)
  case Nil
  then show ?case by (auto simp: upgrade_def downgrade_def loses_settings_def assms(2) split: if_splits)
next
  case (Cons m ms)
  obtain u d where m: "m = (u, d)" by (cases m)
  from Cons.prems obtain s1 l s2 where up: "run u s = Some s1" and mid: "retraced P ms s1 = Some (l, s2)"
    and down: "run d s2 = Some s'" and lost: "lost = (u = unused_settings_up \<or> l)"
    and same: "back_again lost s' s"
    by (auto simp: m Let_def split: option.splits if_splits)
  from Cons.IH[OF mid] obtain top where "upgrade ms s1 = Some top" "P top" "downgrade ms top = Some s2"
    "l = loses_settings ms" by blast
  then show ?case using up down same lost by (simp add: m upgrade_Cons downgrade_Cons loses_settings_def)
qed

lemma retraced_suffix:
  assumes "retraced P (ks @ ms) s = Some s'"
  shows "\<exists>mid mid'. upgrade ks s = Some mid \<and> retraced P ms mid = Some mid'"
  using assms
proof (induction ks arbitrary: s s')
  case Nil
  then show ?case by (auto simp: upgrade_def)
next
  case (Cons m ks)
  then show ?case
    by (cases m) (fastforce simp: upgrade_Cons split: option.splits if_splits)
qed

text \<open>C32: the migrations, run one after the other on an empty database, all succeed, and end in exactly the
  tables and columns the program's entities declare (names, kinds of value, and which may be null), with
  the settings of a fresh installation.\<close>

theorem schema_matches_entities:
  "\<exists>s. upgrade migrations empty_schema = Some s \<and> fits_entities s \<and> settings_of s = initial_settings"
  using retraced_migrations retraced_all[of migrated migrations empty_schema] by (auto simp: migrated_def)


end
