(* ===== verification/RebuildProps.thy ===== *)
theory RebuildProps
  imports Migrations
begin

text \<open>
  What the last migration, which makes the tables of proxies and of their daily traffic anew, does to
  the rows: nothing is lost, forth or back.
\<close>

section \<open>The rebuilt tables keep their rows\<close>

text \<open>The tables as the migrations before left them: the columns, the cells that may not be null, and
  what the indexes and triggers look at.\<close>

definition old_columns :: "relation \<Rightarrow> relation \<Rightarrow> bool" where
  "old_columns p d =
    (set kept_columns \<subseteq> set (column_names p) \<and> column_names d = map cl_name (new_daily_columns True))"

definition complete_rows :: "relation \<Rightarrow> relation \<Rightarrow> bool" where
  "complete_rows p d =
    ((\<forall>row \<in> set (rl_rows p). \<forall>c \<in> set kept_columns.
        cell_of (column_names p) c row = Null \<longrightarrow> c = ''node_id'' \<or> c = ''group_id'') \<and>
     (\<forall>row \<in> set (rl_rows d). length row = length (rl_columns d) \<and> Null \<notin> set row))"

text \<open>Keys are given in order, so none is above the last one given.\<close>

definition keys_below :: "relation \<Rightarrow> bool" where
  "keys_below r = (\<forall>row \<in> set (rl_rows r). int_cell (cell_of (column_names r) ''id'' row) \<le> rl_seq r)"

definition old_indexes :: "schema \<Rightarrow> relation \<Rightarrow> bool" where
  "old_indexes s d =
    ((\<forall>i \<in> set (sc_indexes s). (ix_table i = ''proxy'' \<longrightarrow> set (ix_columns i) \<subseteq> set kept_columns) \<and>
        (ix_table i = ''traffic_daily'' \<longrightarrow> set (ix_columns i) \<subseteq> set (column_names d))) \<and>
     (\<forall>g \<in> set (sc_triggers s). tg_table g = ''proxy'' \<longrightarrow> set (tg_columns g) \<subseteq> set kept_columns))"

text \<open>What a rebuilt pair of tables keeps of the old one.\<close>

definition keeps_rows :: "relation \<Rightarrow> relation \<Rightarrow> relation \<Rightarrow> relation \<Rightarrow> bool" where
  "keeps_rows p d p' d' =
    ((\<forall>c \<in> set kept_columns.
        map (cell_of (column_names p') c) (rl_rows p') = map (cell_of (column_names p) c) (rl_rows p)) \<and>
     rl_rows d' = rl_rows d \<and> column_names d' = column_names d \<and>
     rl_seq p' = rl_seq p \<and> rl_seq d' = rl_seq d)"

lemma rebuilt_names:
  "column_names (rebuilt_proxy direct p) = kept_columns @ (if direct then [''user_id'', ''upstream_url''] else [])"
  by (simp add: column_names_def rebuilt_proxy_def new_proxy_columns_def client_column_def column_of_def
      nullable_def with_default_def kept_columns_def)

lemma rebuilt_daily_names:
  "column_names (rebuilt_daily direct d) = map cl_name (new_daily_columns True)"
  by (simp add: column_names_def rebuilt_daily_def new_daily_columns_def client_column_def column_of_def
      nullable_def with_default_def)

lemma cell_of_kept: "c \<in> set cs \<Longrightarrow> cell_of (cs @ ds) c (map f cs @ es) = f c"
  by (simp add: cell_of_def zip_append map_add_Some_iff map_of_append map_of_zip_map split: option.split)

lemma rebuilt_cells:
  assumes "c \<in> set kept_columns"
  shows "map (cell_of (column_names (rebuilt_proxy direct p)) c) (rl_rows (rebuilt_proxy direct p)) =
    map (cell_of (column_names p) c) (rl_rows p)"
proof -
  have "map (cell_of (kept_columns @ ds) c) (map (\<lambda>row. map (\<lambda>c. cell_of (column_names p) c row) kept_columns @ es) rows) =
    map (cell_of (column_names p) c) rows" for ds es rows
    by (simp add: cell_of_kept[OF assms])
  then show ?thesis unfolding rebuilt_names by (simp add: rebuilt_proxy_def)
qed

lemma kept_seq_keyed:
  assumes "keys_below r"
  shows "kept_seq r = rl_seq r"
proof -
  have "foldr max is i = i" if "\<forall>j \<in> set is. j \<le> i" for i :: int and "is"
    using that by (induction "is") auto
  then show ?thesis using assms by (simp add: kept_seq_def keys_below_def)
qed

lemma rebuilt_keeps_rows:
  "old_columns p d \<Longrightarrow> keys_below p \<Longrightarrow> keys_below d \<Longrightarrow> keeps_rows p d (rebuilt_proxy direct p) (rebuilt_daily direct d)"
  by (auto simp: keeps_rows_def rebuilt_cells rebuilt_daily_names old_columns_def)
    (simp_all add: rebuilt_daily_def rebuilt_proxy_def kept_seq_keyed)

lemma keyed_cells:
  "keys_below r \<longleftrightarrow> (\<forall>v \<in> set (map (cell_of (column_names r) ''id'') (rl_rows r)). int_cell v \<le> rl_seq r)"
  by (simp add: keys_below_def)

lemma keyed_transfer:
  assumes "keys_below p" "keys_below d" "keeps_rows p d p' d'"
  shows "keys_below p' \<and> keys_below d'"
proof -
  have "''id'' \<in> set kept_columns" by (simp add: kept_columns_def)
  then have "map (cell_of (column_names p') ''id'') (rl_rows p') = map (cell_of (column_names p) ''id'') (rl_rows p)"
    using assms(3) unfolding keeps_rows_def by blast
  then have "keys_below p'" using assms(1,3) unfolding keyed_cells keeps_rows_def by simp
  moreover have "keys_below d'" using assms(2,3) by (simp add: keys_below_def keeps_rows_def)
  ultimately show ?thesis ..
qed

lemma rebuild_works:
  assumes p: "map_of (sc_tables s) ''proxy'' = Some p" and d: "map_of (sc_tables s) ''traffic_daily'' = Some d"
    and cols: "old_columns p d" and rows: "complete_rows p d" and ixs: "old_indexes s d"
  shows "rebuild direct s = Some (put ''traffic_daily'' (rebuilt_daily direct d) (put ''proxy'' (rebuilt_proxy direct p) s))"
proof -
  have full: "list_all (admits_row (rl_columns (rebuilt_proxy direct p))) (rl_rows (rebuilt_proxy direct p))"
    using rows by (simp add: complete_rows_def rebuilt_proxy_def list_all_iff admits_row_def kept_columns_def
        new_proxy_columns_def client_column_def column_of_def nullable_def with_default_def)
  have client: "list_all (\<lambda>row. cell_of (column_names (rebuilt_proxy direct p)) ''client_id'' row \<noteq> Null)
      (rl_rows (rebuilt_proxy direct p))"
  proof -
    have k: "''client_id'' \<in> set kept_columns" by (simp add: kept_columns_def)
    have "cell_of (column_names p) ''client_id'' row \<noteq> Null" if "row \<in> set (rl_rows p)" for row
      using rows that k unfolding complete_rows_def by fastforce
    then have "Null \<notin> set (map (cell_of (column_names p) ''client_id'') (rl_rows p))" by force
    then have "Null \<notin> set (map (cell_of (column_names (rebuilt_proxy direct p)) ''client_id'') (rl_rows (rebuilt_proxy direct p)))"
      unfolding rebuilt_cells[OF k] .
    then show ?thesis by (auto simp: list_all_iff image_iff)
  qed
  have len: "length (rl_columns d) = length (rl_columns (rebuilt_daily direct d))"
  proof -
    have "length (column_names d) = length (new_daily_columns True)" using cols by (simp add: old_columns_def)
    then show ?thesis by (simp add: column_names_def rebuilt_daily_def new_daily_columns_def)
  qed
  have daily: "list_all (admits_row (rl_columns (rebuilt_daily direct d))) (rl_rows (rebuilt_daily direct d))"
    using rows len unfolding complete_rows_def
    by (auto simp: list_all_iff admits_row_def list_all2_conv_all_nth rebuilt_daily_def in_set_conv_nth)
  have "list_all (\<lambda>i. (ix_table i = ''proxy'' \<longrightarrow> has_columns (ix_columns i) (rebuilt_proxy direct p)) \<and>
      (ix_table i = ''traffic_daily'' \<longrightarrow> has_columns (ix_columns i) (rebuilt_daily direct d))) (sc_indexes s)"
    using ixs cols by (auto simp: old_indexes_def old_columns_def has_columns_def list_all_iff rebuilt_names rebuilt_daily_names)
  moreover have "list_all (\<lambda>g. tg_table g = ''proxy'' \<longrightarrow> has_columns (tg_columns g) (rebuilt_proxy direct p)) (sc_triggers s)"
    using ixs by (auto simp: old_indexes_def has_columns_def list_all_iff rebuilt_names)
  moreover have "has_columns kept_columns p" using cols by (auto simp: old_columns_def has_columns_def list_all_iff)
  ultimately show ?thesis using p d full client len daily by (cases direct) (simp_all add: rebuild_def Let_def)
qed

text \<open>A database before the last migration, and what a later one still has of it.\<close>

definition before_direct :: "schema \<Rightarrow> bool" where
  "before_direct s =
    (case (map_of (sc_tables s) ''proxy'', map_of (sc_tables s) ''traffic_daily'') of
       (Some p, Some d) \<Rightarrow> old_columns p d \<and> complete_rows p d \<and> old_indexes s d \<and> keys_below p \<and> keys_below d
     | _ \<Rightarrow> False)"

definition carried :: "schema \<Rightarrow> schema \<Rightarrow> bool" where
  "carried s s' =
    (sc_indexes s' = sc_indexes s \<and> sc_triggers s' = sc_triggers s \<and>
     map fst (sc_tables s') = map fst (sc_tables s) \<and>
     (\<forall>t. t \<noteq> ''proxy'' \<longrightarrow> t \<noteq> ''traffic_daily'' \<longrightarrow> map_of (sc_tables s') t = map_of (sc_tables s) t) \<and>
     (case (map_of (sc_tables s) ''proxy'', map_of (sc_tables s) ''traffic_daily'',
            map_of (sc_tables s') ''proxy'', map_of (sc_tables s') ''traffic_daily'') of
        (Some p, Some d, Some p', Some d') \<Rightarrow> keeps_rows p d p' d'
      | _ \<Rightarrow> False))"

lemma map_of_put: "map_of (sc_tables (put t r s)) u =
    (if u = t \<and> map_of (sc_tables s) t \<noteq> None then Some r else map_of (sc_tables s) u)"
proof -
  have "map_of (map (\<lambda>(n, x). if n = t then (n, r) else (n, x)) xs) u =
      (if u = t \<and> map_of xs t \<noteq> None then Some r else map_of xs u)" for xs :: "(string \<times> relation) list"
    by (induction xs) auto
  then show ?thesis by (simp add: put_def)
qed

lemma put_keeps [simp]: "sc_indexes (put t r s) = sc_indexes s" "sc_triggers (put t r s) = sc_triggers s"
    "map fst (sc_tables (put t r s)) = map fst (sc_tables s)"
  by (auto simp: put_def)

lemma complete_transfer:
  assumes "complete_rows p d" and keep: "keeps_rows p d p' d'"
  shows "complete_rows p' d'"
proof -
  have "length (rl_columns d') = length (rl_columns d)"
    using keep unfolding keeps_rows_def column_names_def by (metis length_map)
  moreover have "c = ''node_id'' \<or> c = ''group_id''"
    if "row \<in> set (rl_rows p')" "c \<in> set kept_columns" "cell_of (column_names p') c row = Null" for row c
  proof -
    have "Null \<in> set (map (cell_of (column_names p') c) (rl_rows p'))" using that by (auto simp: image_iff intro!: bexI[of _ row])
    then have "Null \<in> set (map (cell_of (column_names p) c) (rl_rows p))" using keep that(2) unfolding keeps_rows_def by metis
    then obtain old where "old \<in> set (rl_rows p)" "cell_of (column_names p) c old = Null" by auto
    then show ?thesis using assms(1) that(2) unfolding complete_rows_def by blast
  qed
  ultimately show ?thesis using assms unfolding complete_rows_def keeps_rows_def by auto
qed

lemma rebuild_carries:
  assumes "before_direct s"
  shows "\<exists>s'. rebuild direct s = Some s' \<and> carried s s' \<and> before_direct s'"
proof -
  obtain p d where p: "map_of (sc_tables s) ''proxy'' = Some p" and d: "map_of (sc_tables s) ''traffic_daily'' = Some d"
    and old: "old_columns p d" "complete_rows p d" "old_indexes s d" and keys: "keys_below p" "keys_below d"
    using assms by (auto simp: before_direct_def split: option.splits)
  let ?p = "rebuilt_proxy direct p" and ?d = "rebuilt_daily direct d"
  let ?s = "put ''traffic_daily'' ?d (put ''proxy'' ?p s)"
  have tables: "map_of (sc_tables ?s) ''proxy'' = Some ?p" "map_of (sc_tables ?s) ''traffic_daily'' = Some ?d"
    using p d by (simp_all add: map_of_put)
  have keep: "keeps_rows p d ?p ?d" using old(1) keys by (rule rebuilt_keeps_rows)
  have "old_columns ?p ?d" using rebuilt_names rebuilt_daily_names by (auto simp: old_columns_def)
  moreover have "complete_rows ?p ?d" using old(2) keep by (rule complete_transfer)
  moreover have "old_indexes ?s ?d" using old(3) keep by (auto simp: old_indexes_def keeps_rows_def)
  ultimately have "before_direct ?s" using keyed_transfer[OF keys keep] by (simp add: before_direct_def tables)
  moreover have "carried s ?s" using keep by (simp add: carried_def tables p d map_of_put)
  ultimately show ?thesis using rebuild_works[OF p d old, of direct] by blast
qed

lemma keeps_rows_trans: "keeps_rows p d p1 d1 \<Longrightarrow> keeps_rows p1 d1 p2 d2 \<Longrightarrow> keeps_rows p d p2 d2"
  unfolding keeps_rows_def by auto

lemma carried_trans:
  assumes "carried s s1" "carried s1 s2"
  shows "carried s s2"
proof -
  obtain p d p1 d1 where t: "map_of (sc_tables s) ''proxy'' = Some p" "map_of (sc_tables s) ''traffic_daily'' = Some d"
    "map_of (sc_tables s1) ''proxy'' = Some p1" "map_of (sc_tables s1) ''traffic_daily'' = Some d1" "keeps_rows p d p1 d1"
    using assms(1) by (simp add: carried_def split: option.splits)
  then obtain p2 d2 where t2: "map_of (sc_tables s2) ''proxy'' = Some p2" "map_of (sc_tables s2) ''traffic_daily'' = Some d2"
    "keeps_rows p1 d1 p2 d2"
    using assms(2) by (simp add: carried_def split: option.splits)
  show ?thesis
    using assms keeps_rows_trans[OF t(5) t2(3)] by (simp add: carried_def t(1-4) t2(1,2))
qed

lemma not_refused:
  assumes "before_direct s"
  shows "refuse_direct s = Some s"
proof -
  obtain p d where p: "map_of (sc_tables s) ''proxy'' = Some p" and full: "complete_rows p d"
    using assms by (auto simp: before_direct_def split: option.splits)
  have "''client_id'' \<in> set kept_columns" by (simp add: kept_columns_def)
  then have "\<not> list_ex (\<lambda>row. cell_of (column_names p) ''client_id'' row = Null) (rl_rows p)"
    using full unfolding complete_rows_def list_ex_iff by fastforce
  then show ?thesis by (simp add: refuse_direct_def p)
qed

text \<open>A database after it, which may have direct proxies: their rows have no client, and neither have the rows
  of daily traffic that refer to them.\<close>

definition direct_row :: "relation \<Rightarrow> cell list \<Rightarrow> bool" where
  "direct_row p row = (cell_of (column_names p) ''client_id'' row = Null)"

definition has_direct :: "schema \<Rightarrow> bool" where
  "has_direct t = (case map_of (sc_tables t) ''proxy'' of Some p \<Rightarrow> list_ex (direct_row p) (rl_rows p) | None \<Rightarrow> False)"

definition full_rows :: "relation \<Rightarrow> relation \<Rightarrow> bool" where
  "full_rows p d =
    ((\<forall>row \<in> set (rl_rows p). \<forall>c \<in> set kept_columns.
        cell_of (column_names p) c row = Null \<longrightarrow> c = ''node_id'' \<or> c = ''group_id'' \<or> c = ''client_id'') \<and>
     (\<forall>row \<in> set (rl_rows d). length row = length (rl_columns d) \<and>
        (Null \<in> set row \<longrightarrow>
           (\<exists>q \<in> set (rl_rows p). direct_row p q \<and>
              cell_of (column_names p) ''id'' q = cell_of (column_names d) ''proxy_id'' row))))"

definition after_direct :: "schema \<Rightarrow> bool" where
  "after_direct t =
    (case (map_of (sc_tables t) ''proxy'', map_of (sc_tables t) ''traffic_daily'') of
       (Some p, Some d) \<Rightarrow> old_columns p d \<and> full_rows p d \<and> old_indexes t d \<and> keys_below p \<and> keys_below d
     | _ \<Rightarrow> False)"

lemma no_direct_left:
  assumes "after_direct t" "\<not> has_direct t"
  shows "before_direct t"
  using assms unfolding after_direct_def before_direct_def has_direct_def full_rows_def complete_rows_def
  by (auto simp: list_ex_iff direct_row_def split: option.splits)

text \<open>The statement of a migration that fails, if one does.\<close>

fun failing :: "ddl list \<Rightarrow> schema \<Rightarrow> ddl option" where
  "failing [] s = None"
| "failing (d # ds) s = (case execute d s of None \<Rightarrow> Some d | Some s' \<Rightarrow> failing ds s')"

lemma down_refuses:
  assumes "has_direct t"
  shows "run direct_proxies_down t = None \<and> failing direct_proxies_down t = Some Refuse_direct"
proof -
  obtain p where p: "map_of (sc_tables t) ''proxy'' = Some p" "list_ex (direct_row p) (rl_rows p)"
    using assms by (auto simp: has_direct_def split: option.splits)
  then have "refuse_direct t = None" by (simp add: refuse_direct_def direct_row_def[abs_def])
  then show ?thesis by (simp add: direct_proxies_down_def)
qed

lemma down_carries:
  assumes "before_direct t"
  shows "\<exists>t'. run direct_proxies_down t = Some t' \<and> carried t t'"
  using rebuild_carries[OF assms, of False] by (auto simp: direct_proxies_down_def not_refused[OF assms])

text \<open>C34: the last migration, run on a database of the one before, succeeds and loses nothing, and
  undoing it succeeds too: every proxy keeps all its cells and every row of daily traffic is still there
  unchanged, the next keys are the ones that were next before, and all other tables, indexes and triggers
  stay. On any database after it, undoing it either is refused, at its first statement, because there is a
  direct proxy, or again keeps everything.\<close>

theorem direct_migration_keeps_rows:
  assumes "before_direct s" "after_direct t"
  shows "(\<exists>s1 s2. run direct_proxies_up s = Some s1 \<and> carried s s1 \<and>
      run direct_proxies_down s1 = Some s2 \<and> carried s s2) \<and>
    (if has_direct t
     then run direct_proxies_down t = None \<and> failing direct_proxies_down t = Some Refuse_direct
     else \<exists>t'. run direct_proxies_down t = Some t' \<and> carried t t')"
proof -
  obtain s1 where s1: "rebuild True s = Some s1" "carried s s1" "before_direct s1"
    using rebuild_carries[OF assms(1)] by blast
  obtain s2 where s2: "run direct_proxies_down s1 = Some s2" "carried s1 s2" using down_carries[OF s1(3)] by blast
  have "carried s s2" using s1(2) s2(2) by (rule carried_trans)
  then show ?thesis
    using s1 s2 down_refuses down_carries[OF no_direct_left[OF assms(2)]] by (simp add: direct_proxies_up_def)
qed

text \<open>The rows the program's own test of this migration starts from.\<close>

definition old_database :: schema where
  "old_database =
    \<lparr>sc_tables =
       [(''proxy'', \<lparr>rl_columns = new_proxy_columns False, rl_refs = [(''client_id'', ''client'')], rl_check = False,
           rl_seq = 1,
           rl_rows = [[Num 1, Txt ''old'', Txt ''http'', Txt ''127.0.0.1'', Num 80, Num 8080, Num 1, Num 0, Num 0, Now,
             Now, Txt ''1'', Num 1, Null, Txt ''old.test'']]\<rparr>),
        (''traffic_daily'', \<lparr>rl_columns = new_daily_columns False,
           rl_refs = [(''proxy_id'', ''proxy''), (''client_id'', ''client'')], rl_check = False, rl_seq = 1,
           rl_rows = [[Num 1, Num 1, Num 1, Num 123, Num 0, Txt ''2026-10-09'', Now, Now]]\<rparr>)],
     sc_indexes = [\<lparr>ix_name = ''daily'', ix_table = ''traffic_daily'', ix_columns = [''proxy_id'', ''date''],
       ix_unique = True\<rparr>],
     sc_triggers = [\<lparr>tg_name = ''proxy_route_insert'', tg_table = ''proxy'', tg_columns = [''node_id'', ''domain'']\<rparr>]\<rparr>"

lemma old_database_ready: "before_direct old_database"
  by code_simp

text \<open>The rows of the same test after it: a direct proxy and its traffic have come.\<close>

definition new_database :: schema where
  "new_database =
    \<lparr>sc_tables =
       [(''proxy'', \<lparr>rl_columns = new_proxy_columns True,
           rl_refs = [(''client_id'', ''client''), (''user_id'', ''user'')], rl_check = True, rl_seq = 2,
           rl_rows = [[Num 1, Txt ''old'', Txt ''http'', Txt ''127.0.0.1'', Num 80, Num 8080, Num 1, Num 0, Num 0, Now,
             Now, Txt ''1'', Num 1, Null, Txt ''old.test'', Null, Txt []],
            [Num 2, Txt ''direct'', Txt ''http'', Txt [], Num 0, Num 8080, Num 1, Num 0, Num 0, Now,
             Now, Null, Num 1, Null, Txt ''direct.test'', Num 1, Txt ''https://origin.test/'']]\<rparr>),
        (''traffic_daily'', \<lparr>rl_columns = new_daily_columns True,
           rl_refs = [(''proxy_id'', ''proxy''), (''client_id'', ''client'')], rl_check = False, rl_seq = 2,
           rl_rows = [[Num 1, Num 1, Num 1, Num 123, Num 0, Txt ''2026-10-09'', Now, Now],
            [Num 2, Num 2, Null, Num 456, Num 0, Txt ''2026-10-09'', Now, Now]]\<rparr>)],
     sc_indexes = sc_indexes old_database, sc_triggers = sc_triggers old_database\<rparr>"

lemma new_database_ready: "after_direct new_database"
  by code_simp

lemma new_database_direct: "has_direct new_database"
  by code_simp

lemma direct_migration_keeps_rows_witness:
  "(\<exists>s1 s2. run direct_proxies_up old_database = Some s1 \<and> carried old_database s1 \<and>
     run direct_proxies_down s1 = Some s2 \<and> carried old_database s2) \<and>
   failing direct_proxies_down new_database = Some Refuse_direct"
  using direct_migration_keeps_rows[OF old_database_ready new_database_ready] new_database_direct by simp

end
