(* ===== verification/Startup.thy ===== *)
theory Startup
  imports AuthApi SettingsProps EntityFields
begin

text \<open>
  How the controller comes up (\<open>controller/src/main.rs\<close>, \<open>config/mod.rs\<close>, and the choice between TLS
  and plain text in \<open>api/mod.rs\<close> and \<open>grpc_server.rs\<close>): the configuration, the migrations, the
  administrator, the secret of the tokens. The disk, the toml and base64 parsers, the loaders of
  certificates and the random numbers are arguments.
\<close>

section \<open>The disk\<close>

text \<open>Files by name, under the working directory; \<open>dk_data\<close> says that \<open>create_dir_all("./data")\<close>
  succeeds. Reading or writing a file may be refused.\<close>

record disk =
  dk_files :: "(string \<times> string) list"
  dk_data :: bool
  dk_unreadable :: "string list"
  dk_unwritable :: "string list"

text \<open>One that keeps nothing.\<close>

definition no_disk :: disk where
  "no_disk = \<lparr>dk_files = [], dk_data = False, dk_unreadable = [], dk_unwritable = []\<rparr>"

definition file_exists :: "string \<Rightarrow> disk \<Rightarrow> bool" where
  "file_exists path d = (map_of (dk_files d) path \<noteq> None)"

definition read_file :: "string \<Rightarrow> disk \<Rightarrow> string option" where
  "read_file path d = (if path \<in> set (dk_unreadable d) then None else map_of (dk_files d) path)"

definition write_file :: "string \<Rightarrow> string \<Rightarrow> disk \<Rightarrow> disk option" where
  "write_file path s d =
    (if path \<in> set (dk_unwritable d) then None
     else Some (d\<lparr>dk_files := AList.update path s (dk_files d)\<rparr>))"

text \<open>Under \<open>data\<close>, which is made first; a failure is logged and nothing else.\<close>

definition save_in_data :: "string \<Rightarrow> string \<Rightarrow> disk \<Rightarrow> disk" where
  "save_in_data path s d = (if dk_data d then unwrap_or d (write_file path s d) else d)"

section \<open>Configuration\<close>

record config =
  cf_web_port :: u16
  cf_internal_port :: u16
  cf_jwt_secret :: "string option"
  cf_jwt_expiration_hours :: i64
  cf_db_path :: string
  cf_internal_secret :: "string option"
  cf_frps_url :: "string option"
  cf_frps_secret :: "string option"

definition default_web_port :: u16 where
  "default_web_port = 3000"

definition default_internal_port :: u16 where
  "default_internal_port = 3100"

definition default_jwt_expiration :: i64 where
  "default_jwt_expiration = 24"

definition default_db_path :: string where
  "default_db_path = ''./data/oxiproxy.db''"

definition default_config :: config where
  "default_config =
    \<lparr>cf_web_port = default_web_port, cf_internal_port = default_internal_port, cf_jwt_secret = None,
     cf_jwt_expiration_hours = default_jwt_expiration, cf_db_path = default_db_path,
     cf_internal_secret = None, cf_frps_url = None, cf_frps_secret = None\<rparr>"

text \<open>A row of the settings; a value that does not parse leaves the field as it is.\<close>

definition config_entry :: "'j json_crate \<Rightarrow> config_row \<Rightarrow> config \<Rightarrow> config" where
  "config_entry jc c cfg =
    (if g_key c = ''web_port'' then
       (case parse_u16 (g_value c) of Some p \<Rightarrow> cfg\<lparr>cf_web_port := p\<rparr> | None \<Rightarrow> cfg)
     else if g_key c = ''internal_port'' then
       (case parse_u16 (g_value c) of Some p \<Rightarrow> cfg\<lparr>cf_internal_port := p\<rparr> | None \<Rightarrow> cfg)
     else if g_key c = ''jwt_expiration_hours'' then
       (case parse_i64 (g_value c) of Some h \<Rightarrow> cfg\<lparr>cf_jwt_expiration_hours := of_int h\<rparr> | None \<Rightarrow> cfg)
     else if g_key c = ''db_path'' then
       (case jc_unquote jc (g_value c) of Some p \<Rightarrow> cfg\<lparr>cf_db_path := p\<rparr> | None \<Rightarrow> cfg)
     else cfg)"

definition config_from_rows :: "'j json_crate \<Rightarrow> config_row list \<Rightarrow> config" where
  "config_from_rows jc items = fold (config_entry jc) items default_config"

definition config_paths :: "string list" where
  "config_paths = [''controller.toml'', ''../controller.toml'']"

text \<open>The first file there is must parse; \<open>None\<close> is a panic.\<close>

fun config_from_files :: "(string \<Rightarrow> config option) \<Rightarrow> disk \<Rightarrow> string list \<Rightarrow> config option" where
  "config_from_files toml d [] = Some default_config"
| "config_from_files toml d (path # paths) =
    (if file_exists path d then Option.bind (read_file path d) toml else config_from_files toml d paths)"

definition init_config ::
  "'j json_crate \<Rightarrow> (string \<Rightarrow> config option) \<Rightarrow> disk \<Rightarrow> config_row list option \<Rightarrow> config option" where
  "init_config jc toml d settings =
    (case settings of
       Some items \<Rightarrow> Some (config_from_rows jc items)
     | None \<Rightarrow> config_from_files toml d config_paths)"

definition get_internal_secret :: "config \<Rightarrow> string" where
  "get_internal_secret cfg =
    (case cf_internal_secret cfg of
       Some s \<Rightarrow> if s \<noteq> [] then s else unwrap_or [] (cf_frps_secret cfg)
     | None \<Rightarrow> unwrap_or [] (cf_frps_secret cfg))"

section \<open>Random texts\<close>

text \<open>\<open>draw k\<close> is the number drawn for the \<open>k\<close>-th character, brought into the range.\<close>

definition random_text :: "string \<Rightarrow> (nat \<Rightarrow> nat) \<Rightarrow> nat \<Rightarrow> string" where
  "random_text charset draw n = map (\<lambda>k. charset ! (draw k mod length charset)) [0..<n]"

definition secret_charset :: string where
  "secret_charset = ''ABCDEFGHIJKLMNOPQRSTUVWXYZabcdefghijklmnopqrstuvwxyz0123456789+/=''"

definition generate_random_secret :: "(nat \<Rightarrow> nat) \<Rightarrow> nat \<Rightarrow> string" where
  "generate_random_secret draw n = random_text secret_charset draw n"

definition password_charset :: string where
  "password_charset = ''ABCDEFGHIJKLMNOPQRSTUVWXYZabcdefghijklmnopqrstuvwxyz0123456789!@#$%^&*''"

definition generate_random_password :: "(nat \<Rightarrow> nat) \<Rightarrow> nat \<Rightarrow> string" where
  "generate_random_password draw n = random_text password_charset draw n"

section \<open>The secret of the tokens\<close>

text \<open>Each call returns the secret and leaves the disk; it never fails.\<close>

definition secret_path :: string where
  "secret_path = ''./data/jwt_secret.key''"

definition stored_secret :: "disk \<Rightarrow> string option" where
  "stored_secret d =
    Option.bind (read_file secret_path d) (\<lambda>s. if str_trim s \<noteq> [] then Some (str_trim s) else None)"

definition get_or_generate_jwt_secret :: "(nat \<Rightarrow> nat) \<Rightarrow> disk \<Rightarrow> string \<times> disk" where
  "get_or_generate_jwt_secret draw d =
    (case stored_secret d of
       Some s \<Rightarrow> (s, d)
     | None \<Rightarrow> let s = generate_random_secret draw 64 in (s, save_in_data secret_path s d))"

definition get_jwt_secret :: "string option \<Rightarrow> config \<Rightarrow> (nat \<Rightarrow> nat) \<Rightarrow> disk \<Rightarrow> string \<times> disk" where
  "get_jwt_secret env cfg draw d =
    (if env \<noteq> None \<and> env \<noteq> Some [] then (unwrap_or [] env, d)
     else if cf_jwt_secret cfg \<noteq> None \<and> cf_jwt_secret cfg \<noteq> Some [] then (unwrap_or [] (cf_jwt_secret cfg), d)
     else get_or_generate_jwt_secret draw d)"

section \<open>The administrator\<close>

definition password_path :: string where
  "password_path = ''./data/admin_password.txt''"

text \<open>The texts around the password, in UTF-8.\<close>

definition initial_title :: string where
  "initial_title =
    map char_of [65 :: nat, 100, 109, 105, 110, 32, 229, 136, 157, 229, 167, 139, 229, 175, 134,
      231, 160, 129, 10]"

definition reset_title :: string where
  "reset_title =
    map char_of [65 :: nat, 100, 109, 105, 110, 32, 229, 175, 134, 231, 160, 129, 239, 188, 136,
      229, 183, 178, 233, 135, 141, 231, 189, 174, 239, 188, 137, 10]"

definition rule_char :: string where
  "rule_char =
    map char_of [226 :: nat, 149, 144]"

definition password_label :: string where
  "password_label =
    map char_of [231 :: nat, 148, 168, 230, 136, 183, 229, 144, 141, 58, 32, 97, 100, 109, 105,
      110, 10, 229, 175, 134, 231, 160, 129, 58, 32]"

definition password_hint :: string where
  "password_hint =
    map char_of [226 :: nat, 154, 160, 239, 184, 143, 32, 232, 175, 183, 229, 166, 165, 229,
      150, 132, 228, 191, 157, 231, 174, 161, 230, 173, 164, 230, 150, 135, 228, 187, 182, 239,
      188, 140, 231, 153, 187, 229, 189, 149, 229, 144, 142, 229, 187, 186, 232, 174, 174, 228,
      191, 174, 230, 148, 185, 229, 175, 134, 231, 160, 129, 229, 185, 182, 229, 136, 160, 233,
      153, 164, 230, 173, 164, 230, 150, 135, 228, 187, 182, 239, 188, 129, 10]"

definition rule_line :: string where
  "rule_line = concat (replicate 39 rule_char) @ [CHR 0x0A]"

definition password_note :: "string \<Rightarrow> string \<Rightarrow> string" where
  "password_note title password =
    title @ rule_line @ password_label @ password @ [CHR 0x0A] @ rule_line @ password_hint"

definition admin_row :: "string \<Rightarrow> naive_dt \<Rightarrow> int \<Rightarrow> user_row" where
  "admin_row hash now i =
    \<lparr>u_id = i, u_username = ''admin'', u_password_hash = hash, u_is_admin = True, u_sent = 0,
     u_received = 0, u_reset_cycle = ''none'', u_last_reset = None, u_exceeded = False, u_quota_gb = None,
     u_max_port = None, u_port_range = None, u_max_node = None, u_max_client = None,
     u_created_at = now, u_updated_at = now\<rparr>"

text \<open>Failures are logged; the disk is what is returned.\<close>

definition initialize_admin_user :: "password_crate \<Rightarrow> (nat \<Rightarrow> nat) \<Rightarrow> disk \<Rightarrow> disk io" where
  "initialize_admin_user pw draw d = do {
     r \<leftarrow> find_one users_t (\<lambda>u. u_username u = ''admin'');
     case r of
       Inl e \<Rightarrow> State_Monad.return d
     | Inr (Some u) \<Rightarrow> State_Monad.return d
     | Inr None \<Rightarrow>
         (let password = generate_random_password draw 16
          in case pw_hash pw password of
               None \<Rightarrow> State_Monad.return d
             | Some hash \<Rightarrow> do {
                 now \<leftarrow> utc_now;
                 v \<leftarrow> insert_row users_t sq_users (\<lambda>n d. d\<lparr>sq_users := n\<rparr>) (admin_row hash now);
                 case v of
                   Inl e \<Rightarrow> State_Monad.return d
                 | Inr u \<Rightarrow> State_Monad.return (save_in_data password_path (password_note initial_title password) d)
               })
   }"

definition set_password :: "string \<Rightarrow> naive_dt \<Rightarrow> user_row \<Rightarrow> user_row" where
  "set_password hash now u = u\<lparr>u_password_hash := hash, u_updated_at := now\<rparr>"

text \<open>The command \<open>passwd\<close>; \<open>Inr None\<close> tells that there is no administrator yet.\<close>

datatype passwd_err = P_db db_err | P_hash

definition reset_admin_password ::
  "password_crate \<Rightarrow> (nat \<Rightarrow> nat) \<Rightarrow> disk \<Rightarrow> (passwd_err + (string \<times> disk) option) io" where
  "reset_admin_password pw draw d =
    and_then (or_fail P_db (find_one users_t (\<lambda>u. u_username u = ''admin''))) (\<lambda>admin.
    case admin of
      None \<Rightarrow> finish None
    | Some u \<Rightarrow>
        (let password = generate_random_password draw 16
         in and_then (some_or P_hash (pw_hash pw password)) (\<lambda>hash. do {
              now \<leftarrow> utc_now;
              and_then (or_fail P_db (update_row users_t (u_id u) (set_password hash now))) (\<lambda>_.
              finish (Some (password, save_in_data password_path (password_note reset_title password) d)))
            })))"

section \<open>Plain text or TLS\<close>

text \<open>Decoding base64, and whether the library accepts a certificate with its key (both PEM).\<close>

record tls_crate =
  tl_decode :: "string \<Rightarrow> string option"
  tl_accepts :: "string \<Rightarrow> string \<Rightarrow> bool"

text \<open>Which service, by the prefix of its settings; first the contents in the database, then the files.\<close>

definition tls_contents :: "string \<Rightarrow> (string \<times> string) io" where
  "tls_contents service = do {
     cert \<leftarrow> get_string (service @ ''_tls_cert_content'') [];
     key \<leftarrow> get_string (service @ ''_tls_key_content'') [];
     State_Monad.return (cert, key)
   }"

definition tls_paths :: "string \<Rightarrow> (string \<times> string) io" where
  "tls_paths service = do {
     cert \<leftarrow> get_string (service @ ''_tls_cert_path'') [];
     key \<leftarrow> get_string (service @ ''_tls_key_path'') [];
     State_Monad.return (cert, key)
   }"

definition decode_pair :: "tls_crate \<Rightarrow> string \<Rightarrow> string \<Rightarrow> (string \<times> string) option" where
  "decode_pair tc cert key =
    (case (tl_decode tc cert, tl_decode tc key) of (Some c, Some k) \<Rightarrow> Some (c, k) | _ \<Rightarrow> None)"

definition read_pair :: "string \<Rightarrow> string \<Rightarrow> disk \<Rightarrow> (string \<times> string) option" where
  "read_pair cert key d =
    (case (read_file cert d, read_file key d) of (Some c, Some k) \<Rightarrow> Some (c, k) | _ \<Rightarrow> None)"

definition accepted_pair :: "tls_crate \<Rightarrow> (string \<times> string) option \<Rightarrow> (string \<times> string) option" where
  "accepted_pair tc p = Option.bind p (\<lambda>(c, k). if tl_accepts tc c k then Some (c, k) else None)"

definition load_web_tls_config :: "tls_crate \<Rightarrow> disk \<Rightarrow> (string \<times> string) option io" where
  "load_web_tls_config tc d = do {
     enabled \<leftarrow> get_bool ''web_tls_enabled'' False;
     if \<not> enabled then State_Monad.return None
     else do {
       (cert, key) \<leftarrow> tls_contents ''web'';
       let stored = (if cert \<noteq> [] \<and> key \<noteq> [] then accepted_pair tc (decode_pair tc cert key) else None);
       if stored \<noteq> None then State_Monad.return stored
       else do {
         (cert, key) \<leftarrow> tls_paths ''web'';
         State_Monad.return (if cert \<noteq> [] \<and> key \<noteq> [] then accepted_pair tc (read_pair cert key d) else None)
       }
     }
   }"

text \<open>The web port: with TLS, plain requests are sent over to it if \<open>wm_force\<close>.\<close>

datatype web_mode = Web_plain | Web_tls (wm_cert: string) (wm_key: string) (wm_force: bool)

definition start_web_server :: "tls_crate \<Rightarrow> disk \<Rightarrow> web_mode io" where
  "start_web_server tc d = do {
     tls \<leftarrow> load_web_tls_config tc d;
     case tls of
       None \<Rightarrow> State_Monad.return Web_plain
     | Some (cert, key) \<Rightarrow> do {
         force_https \<leftarrow> get_bool ''web_tls_force_https'' True;
         State_Monad.return (Web_tls cert key force_https)
       }
   }"

datatype tls_err = T_decode | T_unset | T_unreadable

definition load_tls_identity :: "tls_crate \<Rightarrow> disk \<Rightarrow> (tls_err + string \<times> string) io" where
  "load_tls_identity tc d = do {
     (cert, key) \<leftarrow> tls_contents ''grpc'';
     if cert \<noteq> [] \<and> key \<noteq> []
     then State_Monad.return (case decode_pair tc cert key of Some p \<Rightarrow> Inr p | None \<Rightarrow> Inl T_decode)
     else do {
       (cert, key) \<leftarrow> tls_paths ''grpc'';
       State_Monad.return
         (if cert = [] \<or> key = [] then Inl T_unset
          else case read_pair cert key d of Some p \<Rightarrow> Inr p | None \<Rightarrow> Inl T_unreadable)
     }
   }"

text \<open>What the gRPC port speaks: plain text, or TLS with that identity.\<close>

definition start_grpc_server :: "tls_crate \<Rightarrow> disk \<Rightarrow> (string \<times> string) option io" where
  "start_grpc_server tc d = do {
     enabled \<leftarrow> get_bool ''grpc_tls_enabled'' False;
     if enabled
     then do {
       r \<leftarrow> load_tls_identity tc d;
       State_Monad.return
         (case r of Inr (cert, key) \<Rightarrow> if tl_accepts tc cert key then Some (cert, key) else None | Inl e \<Rightarrow> None)
     }
     else State_Monad.return None
   }"

section \<open>One start\<close>

text \<open>The rows of the settings, if the table is there; \<open>Now\<close> reads as the time given.\<close>

definition config_row_of :: "naive_dt \<Rightarrow> string list \<Rightarrow> cell list \<Rightarrow> config_row" where
  "config_row_of now names row =
    (let get = (\<lambda>c. case cell_of names c row of Txt v \<Rightarrow> v | _ \<Rightarrow> [])
     in \<lparr>g_id = int_cell (cell_of names ''id'' row), g_key = get ''key'', g_value = get ''value'',
         g_description = get ''description'', g_value_type = get ''value_type'',
         g_created_at = now, g_updated_at = now\<rparr>)"

definition read_settings :: "naive_dt \<Rightarrow> schema \<Rightarrow> config_row list option" where
  "read_settings now s =
    map_option (\<lambda>r. map (config_row_of now (column_names r)) (rl_rows r)) (map_of (sc_tables s) ''system_config'')"

text \<open>A machine the controller runs on: its disk, the number of migrations that have been applied to
  the database, and the database.\<close>

record machine =
  mc_disk :: disk
  mc_applied :: nat
  mc_schema :: schema

text \<open>\<open>Migrator::up\<close>: those that have not been applied.\<close>

definition migrate_up :: "machine \<Rightarrow> machine option" where
  "migrate_up m =
    map_option (\<lambda>s. m\<lparr>mc_applied := length migrations, mc_schema := s\<rparr>)
      (upgrade (drop (mc_applied m) migrations) (mc_schema m))"

text \<open>The beginning of \<open>run_controller\<close>: the configuration is read before the migrations run, and keeps
  for the life of the process.\<close>

definition start_controller ::
  "'j json_crate \<Rightarrow> (string \<Rightarrow> config option) \<Rightarrow> naive_dt \<Rightarrow> machine \<Rightarrow> (config \<times> machine) option" where
  "start_controller jc toml now m =
    Option.bind (init_config jc toml (mc_disk m) (read_settings now (mc_schema m))) (\<lambda>cfg.
    map_option (\<lambda>m'. (cfg, m')) (migrate_up m))"

end
