(* ===== verification/StartupProps.thy ===== *)
theory StartupProps
  imports Startup MigrationProps
begin

text \<open>
  What holds when the controller has come up: a fresh database gives the default configuration, the
  secret of the tokens stays the same, and the administrator can log in.
\<close>

section \<open>The configuration\<close>

lemma settings_of_read:
  "read_settings now s = Some items \<Longrightarrow> map (\<lambda>c. (g_key c, g_value c, g_value_type c)) items = settings_of s"
  by (auto simp: read_settings_def settings_of_def config_row_of_def Let_def)

lemma read_settings_Some: "settings_of s \<noteq> [] \<Longrightarrow> \<exists>items. read_settings now s = Some items"
  by (auto simp: read_settings_def settings_of_def split: option.splits)

text \<open>The configuration depends on keys and values only.\<close>

lemma config_entry_cong:
  "g_key c = g_key c' \<Longrightarrow> g_value c = g_value c' \<Longrightarrow> config_entry jc c = config_entry jc c'"
  by (rule ext) (simp add: config_entry_def)

definition bare_row :: "string \<times> string \<times> string \<Rightarrow> config_row" where
  "bare_row x =
    \<lparr>g_id = 0, g_key = fst x, g_value = fst (snd x), g_description = [], g_value_type = snd (snd x),
     g_created_at = DT 0 0 0 0, g_updated_at = DT 0 0 0 0\<rparr>"

lemma config_from_bare:
  "config_from_rows jc items = config_from_rows jc (map (\<lambda>c. bare_row (g_key c, g_value c, g_value_type c)) items)"
proof -
  have "fold (config_entry jc) items cfg =
      fold (config_entry jc) (map (\<lambda>c. bare_row (g_key c, g_value c, g_value_type c)) items) cfg" for cfg
    by (induction items arbitrary: cfg) (simp_all add: bare_row_def config_entry_def)
  then show ?thesis by (simp add: config_from_rows_def)
qed

lemma initial_config:
  assumes "jc_unquote jc ''\"./data/oxiproxy.db\"'' = Some ''./data/oxiproxy.db''"
  shows "config_from_rows jc (map bare_row initial_settings) = default_config"
  using assms
  by (simp add: config_from_rows_def initial_settings_def bare_row_def config_entry_def default_config_def
      parse_u16_def parse_unsigned_def parse_digits_def parse_i64_def is_digit_def default_web_port_def
      default_internal_port_def default_jwt_expiration_def default_db_path_def)

lemma settled_config:
  assumes "settings_of s = initial_settings" "jc_unquote jc ''\"./data/oxiproxy.db\"'' = Some ''./data/oxiproxy.db''"
  shows "init_config jc toml d (read_settings now s) = Some default_config"
proof -
  have "settings_of s \<noteq> []" using assms(1) by (simp add: initial_settings_def)
  then obtain items where items: "read_settings now s = Some items" using read_settings_Some by blast
  have "map (\<lambda>c. bare_row (g_key c, g_value c, g_value_type c)) items = map bare_row (settings_of s)"
    using settings_of_read[OF items] by (metis (no_types, lifting) map_map comp_apply map_eq_conv)
  then have "config_from_rows jc items = default_config"
    using config_from_bare[of jc items] initial_config[OF assms(2)] assms(1) by simp
  then show ?thesis by (simp add: init_config_def items)
qed

text \<open>A machine on which the controller has never run.\<close>

definition new_machine :: "disk \<Rightarrow> machine" where
  "new_machine d = \<lparr>mc_disk = d, mc_applied = 0, mc_schema = empty_schema\<rparr>"

lemma upgraded: "\<exists>s. upgrade migrations empty_schema = Some s \<and> settings_of s = initial_settings"
  using retraced_migrations retraced_all[of migrated migrations empty_schema] by (auto simp: migrated_def)

text \<open>The first start takes the configuration file (or the defaults when there is none) and fills the
  database; a start after it, while nobody has changed the settings, takes the configuration from the
  database, where the defaults are, and looks at no file. The README gives the file a place in the order
  between the database and the defaults.\<close>

theorem later_starts_ignore_the_file:
  assumes "jc_unquote jc ''\"./data/oxiproxy.db\"'' = Some ''./data/oxiproxy.db''"
    and "config_from_files toml d config_paths = Some cfg"
  shows "\<exists>m. start_controller jc toml now (new_machine d) = Some (cfg, m) \<and>
    (\<forall>toml' d' now'. start_controller jc toml' now' (m\<lparr>mc_disk := d'\<rparr>) =
       Some (default_config, m\<lparr>mc_disk := d'\<rparr>))"
proof -
  obtain s where s: "upgrade migrations empty_schema = Some s" "settings_of s = initial_settings"
    using upgraded by blast
  have no_rows: "read_settings now empty_schema = None" by (simp add: read_settings_def empty_schema_def)
  have idle: "upgrade [] s = Some s" by (simp add: upgrade_def)
  show ?thesis
    by (simp add: start_controller_def new_machine_def no_rows init_config_def[of jc toml d] assms(2)
        migrate_up_def s(1) idle settled_config[OF s(2) assms(1)])
qed

definition plain_crate :: "unit json_crate" where
  "plain_crate =
    \<lparr>jc_as_i64 = (\<lambda>_. None), jc_as_f64 = (\<lambda>_. None), jc_as_bool = (\<lambda>_. None), jc_as_str = (\<lambda>_. None),
     jc_text = (\<lambda>_. []), jc_parse = (\<lambda>_. ()), jc_quote = (\<lambda>s. ''\"'' @ s @ ''\"''),
     jc_unquote = (\<lambda>s. case s of c # cs \<Rightarrow> if c = CHR ''\"'' then Some (butlast cs) else None | [] \<Rightarrow> None),
     jc_show_f64 = (\<lambda>_. [])\<rparr>"

definition file_config :: config where
  "file_config = default_config\<lparr>cf_web_port := 8080, cf_jwt_secret := Some ''own''\<rparr>"

definition file_disk :: disk where
  "file_disk = \<lparr>dk_files = [(''controller.toml'', ''web_port = 8080'')], dk_data = True, dk_unreadable = [],
    dk_unwritable = []\<rparr>"

lemma later_starts_ignore_the_file_witness:
  "\<exists>m. start_controller plain_crate (\<lambda>_. Some file_config) (DT 0 0 0 0) (new_machine file_disk) = Some (file_config, m) \<and>
    (\<forall>toml' d' now'. start_controller plain_crate toml' now' (m\<lparr>mc_disk := d'\<rparr>) =
       Some (default_config, m\<lparr>mc_disk := d'\<rparr>))"
  by (rule later_starts_ignore_the_file)
     (simp_all add: plain_crate_def config_paths_def file_exists_def read_file_def file_disk_def)

section \<open>The secret\<close>

lemma random_text_length [simp]: "length (random_text cs draw n) = n"
  by (simp add: random_text_def)

lemma random_text_chars: "cs \<noteq> [] \<Longrightarrow> set (random_text cs draw n) \<subseteq> set cs"
  by (auto simp: random_text_def intro!: nth_mem)

lemma charset_solid: "list_all solid secret_charset"
  by code_simp

lemma trim_secret: "str_trim (generate_random_secret draw n) = generate_random_secret draw n"
proof (rule str_trim_solid, rule ballI)
  fix c assume "c \<in> set (generate_random_secret draw n)"
  moreover have "secret_charset \<noteq> []" by (simp add: secret_charset_def)
  ultimately have "c \<in> set secret_charset" using random_text_chars unfolding generate_random_secret_def by blast
  then show "solid c" using charset_solid by (simp add: list_all_iff)
qed

lemma secret_nonempty: "generate_random_secret draw 64 \<noteq> []"
  by (metis generate_random_secret_def random_text_length length_0_conv zero_neq_numeral)

definition configured :: "string option \<Rightarrow> config \<Rightarrow> bool" where
  "configured env cfg =
    (env \<noteq> None \<and> env \<noteq> Some [] \<or> cf_jwt_secret cfg \<noteq> None \<and> cf_jwt_secret cfg \<noteq> Some [])"

definition keeps_secret :: "disk \<Rightarrow> bool" where
  "keeps_secret d =
    (dk_data d \<and> secret_path \<notin> set (dk_unwritable d) \<and> secret_path \<notin> set (dk_unreadable d))"

lemma stored_after_save:
  assumes "stored_secret d = None"
  shows "stored_secret (save_in_data secret_path (generate_random_secret draw 64) d) =
    (if keeps_secret d then Some (generate_random_secret draw 64) else None)"
proof (cases "keeps_secret d")
  case True
  then show ?thesis
    by (simp add: keeps_secret_def save_in_data_def write_file_def unwrap_or_def stored_secret_def read_file_def
        update_conv' trim_secret secret_nonempty)
next
  case False
  then show ?thesis using assms
    by (auto simp: keeps_secret_def save_in_data_def write_file_def unwrap_or_def stored_secret_def read_file_def)
qed

text \<open>C36: each request asks for the secret anew. It is the one the earlier request got exactly if a secret
  is configured, or a file holds one, or the first one drawn could be saved where it can be read again
  (or both drew the same); otherwise tokens are signed with one secret and checked with another.\<close>

theorem token_secret_stays_iff:
  assumes "get_jwt_secret env cfg draw d = (k1, d1)" "get_jwt_secret env cfg draw' d1 = (k2, d2)"
  shows "k2 = k1 \<longleftrightarrow> configured env cfg \<or> stored_secret d \<noteq> None \<or> keeps_secret d \<or>
    generate_random_secret draw' 64 = generate_random_secret draw 64"
proof (cases "configured env cfg")
  case True
  then show ?thesis using assms by (auto simp: get_jwt_secret_def configured_def split: if_splits)
next
  case False
  then have get: "get_jwt_secret env cfg r x = get_or_generate_jwt_secret r x" for r x
    by (auto simp: get_jwt_secret_def configured_def)
  show ?thesis
  proof (cases "stored_secret d")
    case (Some s)
    then show ?thesis using assms by (auto simp: get get_or_generate_jwt_secret_def)
  next
    case None
    then have d1: "k1 = generate_random_secret draw 64" "d1 = save_in_data secret_path k1 d"
      using assms(1) by (auto simp: get get_or_generate_jwt_secret_def Let_def)
    then have stored: "stored_secret d1 = (if keeps_secret d then Some k1 else None)"
      using stored_after_save[OF None] by simp
    show ?thesis
      using assms(2) False None stored d1(1) by (auto simp: get get_or_generate_jwt_secret_def Let_def split: if_splits)
  qed
qed

lemma token_secret_stays_iff_witness:
  "\<exists>k1 d1 k2 d2. get_jwt_secret None default_config (\<lambda>_. 0) no_disk = (k1, d1) \<and>
    get_jwt_secret None default_config (\<lambda>_. 1) d1 = (k2, d2) \<and>
    (k2 = k1 \<longleftrightarrow> configured None default_config \<or> stored_secret no_disk \<noteq> None \<or> keeps_secret no_disk \<or>
       generate_random_secret (\<lambda>_. 1) 64 = generate_random_secret (\<lambda>_. 0) 64)"
proof -
  obtain k1 d1 where 1: "get_jwt_secret None default_config (\<lambda>_. 0) no_disk = (k1, d1)" by fastforce
  obtain k2 d2 where 2: "get_jwt_secret None default_config (\<lambda>_. 1) d1 = (k2, d2)" by fastforce
  show ?thesis using 1 2 token_secret_stays_iff[OF 1 2] by blast
qed

section \<open>The administrator\<close>

definition admin_auth :: "user_row \<Rightarrow> auth_user" where
  "admin_auth u = \<lparr>a_id = u_id u, a_username = u_username u, a_is_admin = u_is_admin u\<rparr>"

lemma wp_login:
  assumes "healthy w" "find (\<lambda>u. u_username u = name) (db_users (w_db w)) = Some u"
    "pw_verify pw password (u_password_hash u) = Some True" "\<And>c. jw_encode jw key c \<noteq> None"
  shows "wp (login pw jw (Some key) hours name password) (\<lambda>r _. \<exists>t. r = Inr (t, admin_auth u)) w"
proof -
  have "wp (issue_token jw (Some key) hours u) (\<lambda>r _. \<exists>t. r = Inr (t, admin_auth u)) w"
    using assms(4) by (auto simp: issue_token_def generate_token_def admin_auth_def split: option.split)
  then show ?thesis
    using assms(1-3) by (simp add: login_def wp_find_one healthy_def pop_fault_idle)
qed

definition takes_notes :: "disk \<Rightarrow> bool" where
  "takes_notes d = (dk_data d \<and> password_path \<notin> set (dk_unwritable d))"

lemma note_saved:
  "takes_notes d \<Longrightarrow> map_of (dk_files (save_in_data password_path s d)) password_path = Some s"
  by (simp add: takes_notes_def save_in_data_def write_file_def unwrap_or_def update_conv')

lemma find_fresh:
  "find P xs = None \<Longrightarrow> P y \<Longrightarrow> find P (xs @ [y]) = Some y"
  by (induction xs) (auto split: if_splits)

text \<open>C37: on the first start the administrator is created and can log in with the password written to
  \<open>data/admin_password.txt\<close>; a later start changes neither the users nor that file.\<close>

theorem first_start_makes_the_administrator:
  assumes "healthy w" "find (\<lambda>u. u_username u = ''admin'') (db_users (w_db w)) = None" "takes_notes d"
    "pw_hash pw (generate_random_password draw 16) = Some hash"
    "pw_verify pw (generate_random_password draw 16) hash = Some True" "\<And>c. jw_encode jw key c \<noteq> None"
  shows "wp (initialize_admin_user pw draw d) (\<lambda>d' w'.
    map_of (dk_files d') password_path = Some (password_note initial_title (generate_random_password draw 16)) \<and>
    wp (login pw jw (Some key) hours ''admin'' (generate_random_password draw 16)) (\<lambda>r _.
      \<exists>t a. r = Inr (t, a) \<and> a_username a = ''admin'' \<and> a_is_admin a) w' \<and>
    wp (initialize_admin_user pw draw' d') (\<lambda>d'' w''. d'' = d' \<and> w_db w'' = w_db w') w') w"
proof -
  let ?p = "generate_random_password draw 16"
  let ?row = "admin_row hash (w_now w) (sq_users (w_db w))"
  let ?w = "w\<lparr>w_db := (w_db w)\<lparr>db_users := db_users (w_db w) @ [?row], sq_users := sq_users (w_db w) + 1\<rparr>\<rparr>"
  let ?d = "save_in_data password_path (password_note initial_title ?p) d"
  have ok: "unique_in u_id u_username (db_users (w_db w)) ?row"
    using assms(2) by (auto simp: unique_in_def list_ex_iff find_None_iff admin_row_def)
  have h: "healthy ?w" using assms(1) by (simp add: healthy_def)
  have found: "find (\<lambda>u. u_username u = ''admin'') (db_users (w_db ?w)) = Some ?row"
    using find_fresh[OF assms(2), of ?row] by (simp add: admin_row_def)
  have "wp (login pw jw (Some key) hours ''admin'' ?p) (\<lambda>r _. \<exists>t. r = Inr (t, admin_auth ?row)) ?w"
    by (rule wp_login[OF h found]) (use assms(5,6) in \<open>simp_all add: admin_row_def\<close>)
  then have log: "wp (login pw jw (Some key) hours ''admin'' ?p) (\<lambda>r _.
      \<exists>t a. r = Inr (t, a) \<and> a_username a = ''admin'' \<and> a_is_admin a) ?w"
    by (rule wp_mono) (auto simp: admin_auth_def admin_row_def)
  have again: "wp (initialize_admin_user pw draw' ?d) (\<lambda>d'' w''. d'' = ?d \<and> w_db w'' = w_db ?w) ?w"
    using h found by (simp add: initialize_admin_user_def wp_find_one users_t_def healthy_def next_fault_def pop_fault_def)
  show ?thesis
    using assms(1,2,4) ok log again note_saved[OF assms(3)]
    by (simp add: initialize_admin_user_def wp_find_one wp_insert_row users_t_def healthy_def pop_fault_idle Let_def)
qed

definition echo_crate :: password_crate where
  "echo_crate = \<lparr>pw_hash = Some, pw_verify = (\<lambda>p h. Some (p = h)), pw_random = []\<rparr>"

definition echo_jwt :: jwt_crate where
  "echo_jwt = \<lparr>jw_encode = (\<lambda>key c. Some key), jw_decode = (\<lambda>_ _ _. None), jw_seconds = (\<lambda>_. 0)\<rparr>"

lemma first_start_makes_the_administrator_witness:
  "wp (initialize_admin_user echo_crate (\<lambda>_. 0) file_disk) (\<lambda>d' w'.
    map_of (dk_files d') password_path = Some (password_note initial_title (generate_random_password (\<lambda>_. 0) 16)) \<and>
    wp (login echo_crate echo_jwt (Some ''k'') 24 ''admin'' (generate_random_password (\<lambda>_. 0) 16)) (\<lambda>r _.
      \<exists>t a. r = Inr (t, a) \<and> a_username a = ''admin'' \<and> a_is_admin a) w' \<and>
    wp (initialize_admin_user echo_crate (\<lambda>_. 1) d') (\<lambda>d'' w''. d'' = d' \<and> w_db w'' = w_db w') w')
    (idle_world empty_db)"
  by (rule first_start_makes_the_administrator)
     (simp_all add: echo_crate_def echo_jwt_def healthy_def idle_world_def empty_db_def takes_notes_def file_disk_def)

lemma find_of_row_upd:
  assumes "distinct (map k t)" "find P t = Some r" "\<And>r. P (f r) = P r"
  shows "find P (row_upd k (k r) f t) = Some (f r)"
  using assms by (rule_tac find_row_upd) auto

text \<open>The command \<open>passwd\<close> replaces the password and nothing else of the administrator.\<close>

lemma reset_password_works:
  assumes "healthy w" "distinct (map u_id (db_users (w_db w)))"
    "find (\<lambda>u. u_username u = ''admin'') (db_users (w_db w)) = Some u"
    "pw_hash pw (generate_random_password draw 16) = Some hash"
    "pw_verify pw (generate_random_password draw 16) hash = Some True" "\<And>c. jw_encode jw key c \<noteq> None"
  shows "wp (reset_admin_password pw draw d) (\<lambda>r w'. \<exists>d'. r = Inr (Some (generate_random_password draw 16, d')) \<and>
    wp (login pw jw (Some key) hours ''admin'' (generate_random_password draw 16)) (\<lambda>r _.
      \<exists>t. r = Inr (t, admin_auth u)) w') w"
proof -
  let ?p = "generate_random_password draw 16" and ?f = "set_password hash (w_now w)"
  let ?w = "w\<lparr>w_db := (w_db w)\<lparr>db_users := row_upd u_id (u_id u) ?f (db_users (w_db w))\<rparr>\<rparr>"
  have "u \<in> set (db_users (w_db w))" using assms(3) by (auto simp: find_Some_iff)
  then have get: "row_get u_id (u_id u) (db_users (w_db w)) = Some u" by (rule row_get_distinct[OF assms(2)])
  have "find (\<lambda>u. u_username u = ''admin'') (db_users (w_db ?w)) = Some (?f u)"
    using find_of_row_upd[OF assms(2,3), of ?f] by (simp add: set_password_def)
  then have "wp (login pw jw (Some key) hours ''admin'' ?p) (\<lambda>r _. \<exists>t. r = Inr (t, admin_auth (?f u))) ?w"
    by (rule wp_login[rotated]) (use assms(1,5,6) in \<open>simp_all add: healthy_def set_password_def\<close>)
  moreover have "admin_auth (?f u) = admin_auth u" by (simp add: admin_auth_def set_password_def)
  ultimately show ?thesis
    using assms(1,3,4) get
    by (simp add: reset_admin_password_def wp_find_one wp_update_row users_t_def healthy_def pop_fault_idle Let_def)
qed

section \<open>Plain text or TLS\<close>

text \<open>Whatever the settings and files, a server comes up; it encrypts only with a pair the library accepts.\<close>

lemma grpc_tls_accepted:
  "wp (start_grpc_server tc d) (\<lambda>m w'. w' = w \<and> (case m of None \<Rightarrow> True | Some (c, k) \<Rightarrow> tl_accepts tc c k)) w"
  by (auto simp: start_grpc_server_def load_tls_identity_def tls_contents_def tls_paths_def get_bool_def get_string_def
      config_get_def asks_def wp_State split: option.splits sum.splits prod.splits)

lemma web_tls_accepted:
  "wp (start_web_server tc d) (\<lambda>m w'. w' = w \<and> (case m of Web_plain \<Rightarrow> True | Web_tls c k _ \<Rightarrow> tl_accepts tc c k)) w"
  by (auto simp: start_web_server_def load_web_tls_config_def tls_contents_def tls_paths_def get_bool_def get_string_def
      config_get_def asks_def wp_State accepted_pair_def Let_def split: option.splits prod.splits if_splits bind_splits)

end
