(* ===== verification/Systemd.thy ===== *)
theory Systemd
  imports Rust_Str
begin

text \<open>
  The unit file a program writes for itself (\<open>common/src/systemd.rs\<close>) and reads back, with the quoting of
  its command line. Running \<open>systemctl\<close> is not modelled.
\<close>

section \<open>Lines and paths\<close>

definition newline :: char where
  "newline = CHR 0x0A"

definition strip_cr :: "string \<Rightarrow> string" where
  "strip_cr l = (if l \<noteq> [] \<and> last l = CHR 0x0D then butlast l else l)"

text \<open>\<open>str::lines\<close>: a line ends with a line feed, or a carriage return and one; the last need not.\<close>

definition str_lines :: "string \<Rightarrow> string list" where
  "str_lines s =
    (let ls = split_char newline s
     in map strip_cr (butlast ls) @ (if last ls = [] then [] else [last ls]))"

definition path_join :: "string \<Rightarrow> string \<Rightarrow> string" where
  "path_join a b =
    (if b \<noteq> [] \<and> hd b = CHR ''/'' then b
     else if a = [] \<or> last a = CHR ''/'' then a @ b else a @ CHR ''/'' # b)"

section \<open>The unit file\<close>

record service_config =
  sv_name :: string
  sv_description :: string
  sv_binary :: string
  sv_args :: "string list"
  sv_dir :: string
  sv_user :: "string option"

definition unit_path :: "string \<Rightarrow> string" where
  "unit_path name = path_join ''/etc/systemd/system'' (name @ ''.service'')"

definition log_file_path :: "service_config \<Rightarrow> string" where
  "log_file_path c = path_join (path_join (sv_dir c) ''log'') (sv_name c @ ''.log'')"

definition replace_char :: "char \<Rightarrow> string \<Rightarrow> string \<Rightarrow> string" where
  "replace_char c t s = concat (map (\<lambda>x. if x = c then t else [x]) s)"

definition is_alphanumeric :: "char \<Rightarrow> bool" where
  "is_alphanumeric c =
    (let n = (of_char c :: nat) in 48 \<le> n \<and> n \<le> 57 \<or> 65 \<le> n \<and> n \<le> 90 \<or> 97 \<le> n \<and> n \<le> 122)"

definition needs_quote :: "string \<Rightarrow> bool" where
  "needs_quote arg = (arg = [] \<or> list_ex (\<lambda>c. \<not> (is_alphanumeric c \<or> c \<in> set ''-_./:=@+,'')) arg)"

definition quote_arg :: "string \<Rightarrow> string" where
  "quote_arg arg =
    (if \<not> needs_quote arg then arg
     else CHR ''\"'' # replace_char (CHR ''$'') [CHR 0x5C, CHR ''$'']
            (replace_char (CHR ''\"'') [CHR 0x5C, CHR ''\"''] (replace_char (CHR 0x5C) [CHR 0x5C, CHR 0x5C] arg)) @ [CHR ''\"''])"

definition build_exec_start :: "string \<Rightarrow> string list \<Rightarrow> string" where
  "build_exec_start binary args = join_char (CHR '' '') (map quote_arg (binary # args))"

definition unit_lines :: "service_config \<Rightarrow> string list" where
  "unit_lines c =
    [''[Unit]'', ''Description='' @ sv_description c, ''After=network-online.target'',
     ''Wants=network-online.target'', [], ''[Service]'', ''Type=simple'',
     ''ExecStart='' @ build_exec_start (sv_binary c) (sv_args c), ''WorkingDirectory='' @ sv_dir c] @
    (case sv_user c of Some u \<Rightarrow> [''User='' @ u] | None \<Rightarrow> []) @
    [''Restart=on-failure'', ''RestartSec=5s'', ''LimitNOFILE=65536'',
     ''StandardOutput=append:'' @ log_file_path c, ''StandardError=append:'' @ log_file_path c, [],
     ''[Install]'', ''WantedBy=multi-user.target'']"

definition render_unit :: "service_config \<Rightarrow> string" where
  "render_unit c = concat (map (\<lambda>l. l @ [newline]) (unit_lines c))"

fun first_some :: "('a \<Rightarrow> 'b option) \<Rightarrow> 'a list \<Rightarrow> 'b option" where
  "first_some f [] = None"
| "first_some f (x # xs) = (case f x of Some y \<Rightarrow> Some y | None \<Rightarrow> first_some f xs)"

definition parse_unit_log_path :: "string \<Rightarrow> string option" where
  "parse_unit_log_path s = first_some (\<lambda>l. strip_prefix ''StandardOutput=append:'' (str_trim l)) (str_lines s)"

section \<open>Reading it back\<close>

lemma lines_of_lines:
  "(\<And>l. l \<in> set ls \<Longrightarrow> newline \<notin> set l) \<Longrightarrow>
    split_char newline (concat (map (\<lambda>l. l @ [newline]) ls)) = ls @ [[]]"
  by (induction ls) (auto simp: split_char_append)

text \<open>A text that fits on one line.\<close>

definition one_line :: "string \<Rightarrow> bool" where
  "one_line s = (newline \<notin> set s \<and> CHR 0x0D \<notin> set s)"

lemma one_line_append [simp]: "one_line (a @ b) = (one_line a \<and> one_line b)"
  by (auto simp: one_line_def)

lemma strip_cr_one_line: "one_line l \<Longrightarrow> strip_cr l = l"
  by (auto simp: strip_cr_def one_line_def dest: last_in_set)

lemma str_lines_rendered:
  assumes "\<And>l. l \<in> set ls \<Longrightarrow> one_line l"
  shows "str_lines (concat (map (\<lambda>l. l @ [newline]) ls)) = ls"
proof -
  have "split_char newline (concat (map (\<lambda>l. l @ [newline]) ls)) = ls @ [[]]"
    by (rule lines_of_lines) (use assms in \<open>auto simp: one_line_def\<close>)
  moreover have "map strip_cr ls = ls" using assms by (intro map_idI strip_cr_one_line)
  ultimately show ?thesis by (simp add: str_lines_def)
qed

lemma strip_any_suffix: "strip_any ws s = Some r \<Longrightarrow> \<exists>u. s = u @ r"
  using strip_any_SomeD by blast

lemma trim_seqs_suffix: "\<exists>u. s = u @ trim_seqs ws s"
proof (induction ws s rule: trim_seqs.induct)
  case (1 ws s)
  show ?case
  proof (cases "strip_any (filter (\<lambda>w. w \<noteq> []) ws) s")
    case None
    then show ?thesis by (simp add: trim_seqs.simps)
  next
    case (Some r)
    then obtain u v where "s = u @ r" "r = v @ trim_seqs ws r" using strip_any_suffix 1 by blast
    then show ?thesis using Some by (metis append_assoc option.simps(5) trim_seqs.simps)
  qed
qed

text \<open>Trimming a line that begins with a byte of no white space only cuts at its end.\<close>

lemma trim_start_solid: "solid (hd l) \<or> l = [] \<Longrightarrow> trim_start l = l"
  unfolding trim_start_def by (rule trim_seqs_solid) (auto simp: solid_def dest: ws_seqs_nonempty)

lemma trim_end_prefix: "\<exists>u. l = trim_end l @ u"
proof -
  obtain v where "rev l = v @ trim_seqs (map rev ws_seqs) (rev l)" using trim_seqs_suffix by blast
  then have "l = rev (v @ trim_seqs (map rev ws_seqs) (rev l))" by (metis rev_rev_ident)
  then show ?thesis by (auto simp: trim_end_def)
qed

lemma trim_end_solid:
  assumes "l = [] \<or> solid (last l)"
  shows "trim_end l = l"
proof -
  have "hd ` set (map rev ws_seqs) = last ` set ws_seqs"
  proof -
    have "hd ` set (map rev ws_seqs) = (\<lambda>w. hd (rev w)) ` set ws_seqs" by (simp add: image_image)
    then show ?thesis by (simp add: hd_rev)
  qed
  then have "trim_seqs (map rev ws_seqs) (rev l) = rev l"
    using assms by (intro trim_seqs_solid) (auto simp: solid_def hd_rev dest: ws_seqs_nonempty)
  then show ?thesis by (simp add: trim_end_def)
qed

lemma no_prefix_after_trim:
  assumes "l = [] \<or> solid (hd l)" "l = [] \<or> hd l \<noteq> p"
  shows "strip_prefix (p # ps) (str_trim l) = None"
proof (rule ccontr)
  assume "strip_prefix (p # ps) (str_trim l) \<noteq> None"
  then obtain r where "trim_end l = p # ps @ r"
    using assms(1) trim_start_solid by (auto simp: str_trim_def strip_prefix_Some_iff)
  moreover obtain u where "l = trim_end l @ u" using trim_end_prefix by blast
  ultimately show False using assms(2) by (metis append_Cons list.distinct(1) list.sel(1))
qed

lemma first_some_skip: "(\<And>x. x \<in> set xs \<Longrightarrow> f x = None) \<Longrightarrow> first_some f (xs @ y # ys) =
    (case f y of Some z \<Rightarrow> Some z | None \<Rightarrow> first_some f ys)"
  by (induction xs) auto

section \<open>The command line\<close>

text \<open>
  How systemd reads a command line, by its manual (\<open>systemd.syntax\<close>, Quoting; \<open>systemd.service\<close>, Command lines):
  words are separated by white space; a word that begins with a single or double quote goes on to the next such
  quote, which a blank or the end must follow; a backslash begins one of the listed escapes; a word that is one
  bare semicolon ends the command. \<open>None\<close> stands for a text that is not allowed, and for escapes by number, which
  the code never writes.
\<close>

definition unit_blank :: "char \<Rightarrow> bool" where
  "unit_blank c = (c = CHR '' '' \<or> c = CHR 0x09 \<or> c = CHR 0x0A \<or> c = CHR 0x0D)"

definition c_escape :: "char \<Rightarrow> char option" where
  "c_escape c =
    map_of [(CHR ''a'', CHR 0x07), (CHR ''b'', CHR 0x08), (CHR ''f'', CHR 0x0C), (CHR ''n'', CHR 0x0A),
            (CHR ''r'', CHR 0x0D), (CHR ''t'', CHR 0x09), (CHR ''v'', CHR 0x0B), (CHR 0x5C, CHR 0x5C),
            (CHR ''\"'', CHR ''\"''), (CHR 0x27, CHR 0x27), (CHR ''s'', CHR '' '')] c"

fun quoted_word :: "char \<Rightarrow> string \<Rightarrow> (string \<times> string) option" where
  "quoted_word q [] = None"
| "quoted_word q (c # cs) =
    (if c = q then (if cs = [] \<or> unit_blank (hd cs) then Some ([], cs) else None)
     else if c = CHR 0x5C then
       (case cs of
          [] \<Rightarrow> None
        | d # ds \<Rightarrow>
            (case c_escape d of None \<Rightarrow> None | Some e \<Rightarrow> map_option (\<lambda>(w, r). (e # w, r)) (quoted_word q ds)))
     else map_option (\<lambda>(w, r). (c # w, r)) (quoted_word q cs))"

fun bare_word :: "string \<Rightarrow> (string \<times> string) option" where
  "bare_word [] = Some ([], [])"
| "bare_word (c # cs) =
    (if unit_blank c then Some ([], c # cs)
     else if c = CHR ''\"'' \<or> c = CHR 0x27 then None
     else if c = CHR 0x5C then
       (case cs of
          [] \<Rightarrow> None
        | d # ds \<Rightarrow>
            (case c_escape d of None \<Rightarrow> None | Some e \<Rightarrow> map_option (\<lambda>(w, r). (e # w, r)) (bare_word ds)))
     else map_option (\<lambda>(w, r). (c # w, r)) (bare_word cs))"

definition next_word :: "char \<Rightarrow> string \<Rightarrow> (string \<times> string) option" where
  "next_word c cs =
    (let ends = (\<lambda>r. r = [] \<or> unit_blank (hd r))
     in if c = CHR ''\"'' \<or> c = CHR 0x27 then quoted_word c cs
        else if c = CHR '';'' \<and> ends cs then None
        else if c = CHR 0x5C \<and> take 1 cs = '';'' \<and> ends (tl cs) then Some ('';'', tl cs)
        else bare_word (c # cs))"

lemma quoted_word_shorter: "quoted_word q s = Some (w, r) \<Longrightarrow> length r \<le> length s"
  by (induction q s arbitrary: w rule: quoted_word.induct)
     (fastforce split: if_splits list.splits option.splits)+

lemma bare_word_shorter: "bare_word s = Some (w, r) \<Longrightarrow> length r \<le> length s"
  by (induction s arbitrary: w rule: bare_word.induct)
     (fastforce split: if_splits list.splits option.splits)+

lemma next_word_shorter:
  assumes "next_word c cs = Some (w, r)" "\<not> unit_blank c"
  shows "length r \<le> length cs"
proof -
  have "bare_word (c # cs) = Some (w, r) \<Longrightarrow> length r \<le> length cs"
    using assms(2) by (auto split: if_splits list.splits option.splits dest: bare_word_shorter)
  then show ?thesis
    using assms(1) quoted_word_shorter[of c cs w r]
    by (auto simp: next_word_def Let_def split: if_splits)
qed

function command_words :: "string \<Rightarrow> string list option" where
  "command_words s =
    (case dropWhile unit_blank s of
       [] \<Rightarrow> Some []
     | c # cs \<Rightarrow>
         (case next_word c cs of
            None \<Rightarrow> None
          | Some (w, r) \<Rightarrow> map_option ((#) w) (command_words r)))"
  by pat_completeness auto
termination
proof (relation "measure length")
  fix s c cs w r and x :: "string \<times> string"
  assume s: "dropWhile unit_blank s = c # cs" and "next_word c cs = Some x" "(w, r) = x"
  moreover have "\<not> unit_blank c" using hd_dropWhile[of unit_blank s] s by simp
  ultimately have "length r \<le> length cs" using next_word_shorter by blast
  moreover have "length (c # cs) \<le> length s" using length_dropWhile_le[of unit_blank s] unfolding s .
  ultimately show "(r, s) \<in> measure length" by simp
qed simp

declare command_words.simps [simp del]

text \<open>
  Then a percent sign begins a specifier, and in an argument a dollar sign the name of a variable; doubled, each
  stands for itself. What the others stand for is not in the file, so \<open>None\<close> here. The first word is the program;
  before its path there may be characters that change how it is run, \<open>None\<close> again.
\<close>

fun undoubled :: "char \<Rightarrow> string \<Rightarrow> string option" where
  "undoubled m [] = Some []"
| "undoubled m (c # cs) =
    (if c = m then
       (case cs of
          [] \<Rightarrow> None
        | d # ds \<Rightarrow> if d = m then map_option ((#) m) (undoubled m ds) else None)
     else map_option ((#) c) (undoubled m cs))"

definition program_word :: "string \<Rightarrow> string option" where
  "program_word w = (if w = [] \<or> hd w \<in> set ''@-:+!|'' then None else undoubled (CHR ''%'') w)"

definition argument_word :: "string \<Rightarrow> string option" where
  "argument_word w = Option.bind (undoubled (CHR ''%'') w) (undoubled (CHR ''$''))"

definition exec_words :: "string \<Rightarrow> string list option" where
  "exec_words s =
    (case command_words s of
       Some (p # ws) \<Rightarrow>
         (case program_word p of
            None \<Rightarrow> None
          | Some q \<Rightarrow> map_option ((#) q) (those (map argument_word ws)))
     | _ \<Rightarrow> None)"

definition escape_char :: "char \<Rightarrow> string" where
  "escape_char c = (if c = CHR ''\"'' \<or> c = CHR ''$'' \<or> c = CHR 0x5C then [CHR 0x5C, c] else [c])"

lemma replace_chars:
  "replace_char (CHR ''$'') [CHR 0x5C, CHR ''$''] (replace_char (CHR ''\"'') [CHR 0x5C, CHR ''\"''] (replace_char (CHR 0x5C) [CHR 0x5C, CHR 0x5C] s)) =
    concat (map escape_char s)"
  by (induction s) (auto simp: replace_char_def escape_char_def)

lemma not_blank: "is_alphanumeric c \<or> c \<in> set ''-_./:=@+,'' \<Longrightarrow>
    \<not> unit_blank c \<and> c \<noteq> CHR ''\"'' \<and> c \<noteq> CHR 0x27 \<and> c \<noteq> CHR 0x5C \<and> c \<noteq> CHR '';'' \<and> c \<noteq> CHR ''$'' \<and> c \<noteq> CHR ''%''"
  by (auto simp: is_alphanumeric_def unit_blank_def)

lemma quoted_word_escaped:
  assumes "r = [] \<or> unit_blank (hd r)"
  shows "quoted_word (CHR ''\"'') (concat (map escape_char s) @ CHR ''\"'' # r) =
    (if CHR ''$'' \<in> set s then None else Some (s, r))"
  using assms by (induction s) (auto simp: escape_char_def c_escape_def)

lemma bare_word_safe:
  assumes "\<And>c. c \<in> set s \<Longrightarrow> is_alphanumeric c \<or> c \<in> set ''-_./:=@+,''" "r = [] \<or> unit_blank (hd r)"
  shows "bare_word (s @ r) = Some (s, r)"
  using assms(1)
proof (induction s)
  case Nil
  then show ?case using assms(2) by (cases r) auto
next
  case (Cons c s)
  then show ?case using not_blank[of c] by auto
qed

lemma next_word_quoted:
  assumes "quote_arg arg @ r = c # cs" "r = [] \<or> unit_blank (hd r)"
  shows "next_word c cs = (if CHR ''$'' \<in> set arg then None else Some (arg, r)) \<and> \<not> unit_blank c"
proof (cases "needs_quote arg")
  case True
  then show ?thesis
    using assms quoted_word_escaped[OF assms(2), of arg]
    by (auto simp: quote_arg_def next_word_def replace_chars unit_blank_def)
next
  case False
  then have ok: "arg \<noteq> []" "\<And>x. x \<in> set arg \<Longrightarrow> is_alphanumeric x \<or> x \<in> set ''-_./:=@+,''"
    by (auto simp: needs_quote_def list_ex_iff)
  have c: "c \<in> set arg" "arg @ r = c # cs" using assms(1) False ok(1) by (auto simp: quote_arg_def append_eq_Cons_conv)
  note safe = not_blank[OF ok(2)]
  have "CHR ''$'' \<notin> set arg" using safe by blast
  moreover have "bare_word (c # cs) = Some (arg, r)" by (metis bare_word_safe ok(2) assms(2) c(2))
  ultimately show ?thesis using safe[OF c(1)] by (simp add: next_word_def del: bare_word.simps)
qed

lemma quote_arg_nonempty: "quote_arg arg \<noteq> []"
  by (auto simp: quote_arg_def needs_quote_def)

lemma command_words_quoted:
  assumes "r = [] \<or> unit_blank (hd r)"
  shows "command_words (quote_arg arg @ r) =
    (if CHR ''$'' \<in> set arg then None else map_option ((#) arg) (command_words r))"
proof -
  obtain c cs where s: "quote_arg arg @ r = c # cs" using quote_arg_nonempty[of arg] by (cases "quote_arg arg") auto
  then show ?thesis
    using next_word_quoted[OF s assms] unfolding s by (subst command_words.simps) auto
qed

lemma command_words_blank: "command_words (CHR '' '' # s) = command_words s"
  by (subst (1 2) command_words.simps) (simp add: unit_blank_def)

lemma command_words_joined:
  "command_words (join_char (CHR '' '') (map quote_arg args)) =
    (if list_ex (\<lambda>a. CHR ''$'' \<in> set a) args then None else Some args)"
proof (induction args)
  case Nil
  show ?case by (simp add: command_words.simps)
next
  case (Cons a args)
  have blank: "unit_blank (CHR '' '')" by (simp add: unit_blank_def)
  have none: "command_words [] = Some []" by (simp add: command_words.simps)
  show ?case
  proof (cases args)
    case Nil
    then show ?thesis using command_words_quoted[of "[]" a] none by simp
  next
    case (Cons b bs)
    then show ?thesis
      using Cons.IH command_words_quoted[of "CHR '' '' # join_char (CHR '' '') (map quote_arg args)" a] blank
      by (simp add: command_words_blank)
  qed
qed

lemma undoubled_same: "m \<notin> set s \<Longrightarrow> undoubled m s = Some s"
  by (induction m s rule: undoubled.induct) auto

lemma undoubled_length: "undoubled m s = Some t \<Longrightarrow> length t \<le> length s \<and> (m \<in> set s \<longrightarrow> length t < length s)"
  by (induction m s arbitrary: t rule: undoubled.induct) (fastforce split: if_splits list.splits)+

lemma undoubled_iff: "undoubled m s = Some s \<longleftrightarrow> m \<notin> set s"
  using undoubled_same undoubled_length by blast

text \<open>A word that systemd takes as it is.\<close>

definition literal_word :: "string \<Rightarrow> bool" where
  "literal_word w = (CHR ''$'' \<notin> set w \<and> CHR ''%'' \<notin> set w)"

lemma argument_word_iff: "CHR ''$'' \<notin> set w \<Longrightarrow> argument_word w = Some w \<longleftrightarrow> CHR ''%'' \<notin> set w"
proof -
  assume "CHR ''$'' \<notin> set w"
  moreover have "length t \<le> length u" if "undoubled (CHR ''$'') u = Some t" for t u
    using that undoubled_length by blast
  ultimately show ?thesis
    unfolding argument_word_def by (metis bind.bind_lunit bind_eq_Some_conv leD undoubled_iff undoubled_length)
qed

lemma those_same: "those (map f xs) = Some xs \<longleftrightarrow> list_all (\<lambda>x. f x = Some x) xs"
  by (induction xs) (auto split: option.split)

lemma exec_words_joined:
  assumes "take 1 binary = ''/''"
  shows "exec_words (build_exec_start binary args) = Some (binary # args) \<longleftrightarrow> list_all literal_word (binary # args)"
proof (cases "list_ex (\<lambda>a. CHR ''$'' \<in> set a) (binary # args)")
  case True
  then show ?thesis
    using command_words_joined[of "binary # args"]
    by (auto simp: exec_words_def build_exec_start_def literal_word_def list_ex_iff list_all_iff)
next
  case False
  have p: "binary \<noteq> []" "hd binary = CHR ''/''" using assms by (cases binary; auto)+
  have words: "command_words (build_exec_start binary args) = Some (binary # args)"
    using False command_words_joined[of "binary # args"] by (simp add: build_exec_start_def)
  have "exec_words (build_exec_start binary args) = Some (binary # args) \<longleftrightarrow>
      undoubled (CHR ''%'') binary = Some binary \<and> those (map argument_word args) = Some args"
    using p by (auto simp: exec_words_def words program_word_def split: option.split)
  also have "\<dots> \<longleftrightarrow> CHR ''%'' \<notin> set binary \<and> list_all (\<lambda>w. CHR ''%'' \<notin> set w) args"
    using False argument_word_iff by (simp add: undoubled_iff those_same list_all_iff list_ex_iff)
  finally show ?thesis using False by (auto simp: literal_word_def list_all_iff list_ex_iff)
qed

lemma quote_one_line: "one_line arg \<Longrightarrow> one_line (quote_arg arg)"
  by (auto simp: quote_arg_def replace_chars one_line_def newline_def escape_char_def)

lemma join_one_line: "(\<And>w. w \<in> set ws \<Longrightarrow> one_line w) \<Longrightarrow> one_line (join_char (CHR '' '') ws)"
  by (induction "CHR '' ''" ws rule: join_char.induct) (auto simp: one_line_def newline_def)

lemma exec_start_one_line:
  "one_line binary \<Longrightarrow> (\<And>a. a \<in> set args \<Longrightarrow> one_line a) \<Longrightarrow> one_line (build_exec_start binary args)"
  unfolding build_exec_start_def by (rule join_one_line) (auto intro: quote_one_line)

definition plain_service :: "service_config \<Rightarrow> bool" where
  "plain_service c =
    (one_line (sv_name c) \<and> one_line (sv_description c) \<and> one_line (sv_binary c) \<and>
     list_all one_line (sv_args c) \<and> one_line (sv_dir c) \<and>
     (case sv_user c of Some u \<Rightarrow> one_line u | None \<Rightarrow> True) \<and> take 1 (sv_binary c) = ''/'')"

lemma path_join_one_line: "one_line a \<Longrightarrow> one_line b \<Longrightarrow> one_line (path_join a b)"
  by (auto simp: path_join_def one_line_def newline_def)

lemma unit_lines_one_line:
  assumes "plain_service c" "l \<in> set (unit_lines c)"
  shows "one_line l"
proof -
  have c: "one_line (sv_name c)" "one_line (sv_description c)" "one_line (sv_binary c)" "one_line (sv_dir c)"
    "\<And>a. a \<in> set (sv_args c) \<Longrightarrow> one_line a" "\<And>u. sv_user c = Some u \<Longrightarrow> one_line u"
    using assms(1) by (auto simp: plain_service_def list_all_iff)
  have "one_line (build_exec_start (sv_binary c) (sv_args c))" using c by (intro exec_start_one_line)
  moreover have "one_line (log_file_path c)"
    unfolding log_file_path_def by (intro path_join_one_line) (use c in \<open>auto simp: one_line_def newline_def\<close>)
  moreover note c(2,4,6)
  ultimately show ?thesis
    using assms(2) by (auto simp: unit_lines_def one_line_def newline_def split: option.splits)
qed

lemma log_path_ends: "\<exists>u. log_file_path c = u @ ''.log''"
  by (auto simp: log_file_path_def path_join_def intro: exI[of _ "sv_name c"])



text \<open>The escape the code writes before a dollar sign is none of systemd's.\<close>

lemma escaped_dollar_is_refused: "exec_words (build_exec_start ''/node'' [''a$b'']) = None"
  using command_words_joined[of "[''/node'', ''a$b'']"] by (simp add: exec_words_def build_exec_start_def)

end
