(* ===== verification/CommandLine.thy ===== *)
theory CommandLine
  imports Startup Systemd NodeSupport
begin

text \<open>
  The command lines of the three programs on Linux (\<open>main.rs\<close> of controller, node and client), the
  restart of a running process, PID files (\<open>common/src/process_status.rs\<close>) and the reading of log files
  (\<open>common/src/log_viewer.rs\<close>). Splitting words into options is \<open>clap\<close>'s: a command line is given as its
  options, each written in one word or in two. What the declarations of the commands make \<open>clap\<close> refuse is
  modelled. The flag \<open>--follow\<close> of \<open>log\<close> is not among the options.
\<close>

section \<open>Options\<close>

record cli_opt =
  co_name :: string
  co_value :: string
  co_joined :: bool

definition dashed :: "string \<Rightarrow> string" where
  "dashed n = ''--'' @ n"

definition words_of :: "cli_opt \<Rightarrow> string list" where
  "words_of x =
    (if co_joined x then [dashed (co_name x) @ CHR ''='' # co_value x] else [dashed (co_name x), co_value x])"

definition option_words :: "cli_opt list \<Rightarrow> string list" where
  "option_words opts = concat (map words_of opts)"

definition option_of :: "string \<Rightarrow> cli_opt list \<Rightarrow> string option" where
  "option_of n opts = map_option co_value (find (\<lambda>x. co_name x = n) opts)"

text \<open>The options that the commands declare, and what \<open>clap\<close> accepts by them: no others, none of a single value
  twice, a value in a word of its own only if it does not look like an option, a number of lines.\<close>

definition service_command_args :: "(string \<times> string list) list" where
  "service_command_args =
    [(''stop'', [''pid-file'', ''service-name'']), (''restart'', [''service-name'']), (''update'', [''source'', ''mirror'']),
     (''status'', [''pid-file'', ''service-name'']), (''log'', [''log-dir'', ''lines'', ''service-name'']),
     (''uninstall'', [''service-name''])]"

definition node_args :: "string \<Rightarrow> string list option" where
  "node_args =
    map_of (service_command_args @
      [(''start'', [''controller-url'', ''token'', ''protocol'', ''tls-ca-cert'', ''log-dir'', ''service-name'']),
       (''run'', [''controller-url'', ''token'', ''protocol'', ''tls-ca-cert'', ''log-dir'']),
       (''daemon'', [''controller-url'', ''token'', ''protocol'', ''tls-ca-cert'', ''pid-file'', ''log-dir'']),
       (''install'', [''controller-url'', ''token'', ''protocol'', ''tls-ca-cert'', ''log-dir'', ''service-name'', ''user'',
          ''working-dir'', ''pid-file''])])"

definition client_args :: "string \<Rightarrow> string list option" where
  "client_args =
    map_of (service_command_args @
      [(''start'', [''controller-url'', ''token'', ''tls-ca-cert'', ''log-dir'', ''service-name'']),
       (''run'', [''controller-url'', ''token'', ''tls-ca-cert'', ''log-dir'']),
       (''daemon'', [''controller-url'', ''token'', ''tls-ca-cert'', ''pid-file'', ''log-dir'']),
       (''install'', [''controller-url'', ''token'', ''tls-ca-cert'', ''log-dir'', ''service-name'', ''user'',
          ''working-dir'', ''pid-file''])])"

definition controller_args :: "string \<Rightarrow> string list option" where
  "controller_args =
    map_of
      [(''start'', []), (''stop'', [''pid-file'']), (''restart'', [''service-name'']), (''daemon'', [''pid-file'', ''log-dir'']),
       (''update'', [''source'', ''mirror'']), (''passwd'', []), (''status'', [''pid-file'', ''service-name'']),
       (''log'', [''log-dir'', ''lines'']), (''install'', [''service-name'', ''user'', ''working-dir'']),
       (''uninstall'', [''service-name''])]"

definition value_accepted :: "cli_opt \<Rightarrow> bool" where
  "value_accepted x =
    ((co_joined x \<or> take 1 (co_value x) \<noteq> ''-'' \<or> co_value x = ''-'') \<and>
     (co_name x = ''lines'' \<longrightarrow> parse_unsigned (2 ^ 64 - 1) (co_value x) \<noteq> None))"

definition accepts :: "(string \<Rightarrow> string list option) \<Rightarrow> string \<Rightarrow> cli_opt list \<Rightarrow> bool" where
  "accepts args command opts =
    (case args command of
       None \<Rightarrow> False
     | Some names \<Rightarrow>
         list_all (\<lambda>x. co_name x \<in> set names \<and> value_accepted x) opts \<and>
         distinct (filter (\<lambda>n. n \<noteq> ''mirror'') (map co_name opts)))"

section \<open>Node and client\<close>

record run_options =
  ro_url :: string
  ro_token :: string
  ro_protocol :: string
  ro_ca :: "string option"
  ro_log_dir :: "string option"

text \<open>What a command comes to: serving in this process (with the certificate read), serving after a
  fork, a call of \<open>systemctl\<close>, or an error.\<close>

datatype outcome =
    Serves run_options "string option"
  | Forks string run_options "string option"
  | Systemctl string string
  | Refuses

definition load_tls_ca_cert :: "disk \<Rightarrow> string option \<Rightarrow> string option option" where
  "load_tls_ca_cert d path =
    (case path of Some p \<Rightarrow> map_option Some (read_file p d) | None \<Rightarrow> Some None)"

definition run_foreground :: "disk \<Rightarrow> run_options \<Rightarrow> outcome" where
  "run_foreground d ro =
    (case load_tls_ca_cert d (ro_ca ro) of Some ca \<Rightarrow> Serves ro ca | None \<Rightarrow> Refuses)"

definition node_options :: "string \<Rightarrow> string \<Rightarrow> cli_opt list \<Rightarrow> run_options" where
  "node_options url token opts =
    \<lparr>ro_url = url, ro_token = token, ro_protocol = unwrap_or ''quic'' (option_of ''protocol'' opts),
     ro_ca = option_of ''tls-ca-cert'' opts, ro_log_dir = option_of ''log-dir'' opts\<rparr>"

definition node_start :: "(string \<Rightarrow> bool) \<Rightarrow> disk \<Rightarrow> cli_opt list \<Rightarrow> outcome" where
  "node_start installed d opts =
    (let service = unwrap_or ''oxiproxy-node'' (option_of ''service-name'' opts)
     in if \<not> accepts node_args ''start'' opts then Refuses
        else if installed service then Systemctl ''start'' service
        else case (option_of ''controller-url'' opts, option_of ''token'' opts) of
               (Some url, Some token) \<Rightarrow> run_foreground d (node_options url token opts)
             | _ \<Rightarrow> Refuses)"

definition node_run :: "disk \<Rightarrow> cli_opt list \<Rightarrow> outcome" where
  "node_run d opts =
    (case (option_of ''controller-url'' opts, option_of ''token'' opts) of
       (Some url, Some token) \<Rightarrow>
         if \<not> accepts node_args ''run'' opts then Refuses else run_foreground d (node_options url token opts)
     | _ \<Rightarrow> Refuses)"

definition node_daemon :: "disk \<Rightarrow> cli_opt list \<Rightarrow> outcome" where
  "node_daemon d opts =
    (case (option_of ''controller-url'' opts, option_of ''token'' opts) of
       (Some url, Some token) \<Rightarrow>
         if \<not> accepts node_args ''daemon'' opts then Refuses
         else let pid_file = unwrap_or ''/var/run/oxiproxy-node.pid'' (option_of ''pid-file'' opts);
             log_dir = unwrap_or ''./logs'' (option_of ''log-dir'' opts);
             ro = (node_options url token opts)\<lparr>ro_log_dir := Some log_dir\<rparr>
         in (case load_tls_ca_cert d (ro_ca ro) of Some ca \<Rightarrow> Forks pid_file ro ca | None \<Rightarrow> Refuses)
     | _ \<Rightarrow> Refuses)"

text \<open>A client has no protocol to choose.\<close>

definition client_options :: "string \<Rightarrow> string \<Rightarrow> cli_opt list \<Rightarrow> run_options" where
  "client_options url token opts =
    \<lparr>ro_url = url, ro_token = token, ro_protocol = [], ro_ca = option_of ''tls-ca-cert'' opts,
     ro_log_dir = option_of ''log-dir'' opts\<rparr>"

definition client_start :: "(string \<Rightarrow> bool) \<Rightarrow> disk \<Rightarrow> cli_opt list \<Rightarrow> outcome" where
  "client_start installed d opts =
    (let service = unwrap_or ''oxiproxy-client'' (option_of ''service-name'' opts)
     in if \<not> accepts client_args ''start'' opts then Refuses
        else if installed service then Systemctl ''start'' service
        else case (option_of ''controller-url'' opts, option_of ''token'' opts) of
               (Some url, Some token) \<Rightarrow> run_foreground d (client_options url token opts)
             | _ \<Rightarrow> Refuses)"

definition client_run :: "disk \<Rightarrow> cli_opt list \<Rightarrow> outcome" where
  "client_run d opts =
    (case (option_of ''controller-url'' opts, option_of ''token'' opts) of
       (Some url, Some token) \<Rightarrow>
         if \<not> accepts client_args ''run'' opts then Refuses else run_foreground d (client_options url token opts)
     | _ \<Rightarrow> Refuses)"

definition client_daemon :: "disk \<Rightarrow> cli_opt list \<Rightarrow> outcome" where
  "client_daemon d opts =
    (case (option_of ''controller-url'' opts, option_of ''token'' opts) of
       (Some url, Some token) \<Rightarrow>
         if \<not> accepts client_args ''daemon'' opts then Refuses
         else let pid_file = unwrap_or ''/var/run/oxiproxy-client.pid'' (option_of ''pid-file'' opts);
             log_dir = unwrap_or ''./logs'' (option_of ''log-dir'' opts);
             ro = (client_options url token opts)\<lparr>ro_log_dir := Some log_dir\<rparr>
         in (case load_tls_ca_cert d (ro_ca ro) of Some ca \<Rightarrow> Forks pid_file ro ca | None \<Rightarrow> Refuses)
     | _ \<Rightarrow> Refuses)"

section \<open>Restarting\<close>

text \<open>The controller's way (\<open>restart_system\<close>): a shell waits and runs the program without arguments,
  while this process ends. The command line of the controller begins with a subcommand.\<close>

definition restart_command :: "string \<Rightarrow> string list" where
  "restart_command exe = [''sh'', ''-c'', ''sleep 2 && '' @ exe]"

definition restart_system :: "auth_user option \<Rightarrow> string option \<Rightarrow> (msg + string list) io" where
  "restart_system auth_opt exe =
    and_then (config_admin auth_opt) (\<lambda>_.
    and_then (some_or (M_text ''executable'') exe) (\<lambda>path.
    finish (restart_command path)))"

definition controller_commands :: "string list" where
  "controller_commands =
    [''start'', ''stop'', ''restart'', ''daemon'', ''update'', ''passwd'', ''status'', ''log'', ''install'', ''uninstall'']"

definition controller_command :: "string list \<Rightarrow> (string \<times> string list) option" where
  "controller_command argv =
    (case argv of
       _ # w # ws \<Rightarrow> if w \<in> set controller_commands then Some (w, ws) else None
     | _ \<Rightarrow> None)"

section \<open>Installing as a service\<close>

definition separate :: "string \<Rightarrow> string \<Rightarrow> cli_opt" where
  "separate n v = \<lparr>co_name = n, co_value = v, co_joined = False\<rparr>"

definition node_service_args :: "run_options \<Rightarrow> string list" where
  "node_service_args ro =
    [''run'', ''--controller-url'', ro_url ro, ''--token'', ro_token ro, ''--protocol'', ro_protocol ro] @
    (case ro_ca ro of Some ca \<Rightarrow> [''--tls-ca-cert'', ca] | None \<Rightarrow> []) @
    (case ro_log_dir ro of Some dir \<Rightarrow> [''--log-dir'', dir] | None \<Rightarrow> [])"

definition client_service_args :: "run_options \<Rightarrow> string list" where
  "client_service_args ro =
    [''run'', ''--controller-url'', ro_url ro, ''--token'', ro_token ro] @
    (case ro_ca ro of Some ca \<Rightarrow> [''--tls-ca-cert'', ca] | None \<Rightarrow> []) @
    (case ro_log_dir ro of Some dir \<Rightarrow> [''--log-dir'', dir] | None \<Rightarrow> [])"

definition node_service :: "string \<Rightarrow> string \<Rightarrow> string \<Rightarrow> string option \<Rightarrow> run_options \<Rightarrow> service_config" where
  "node_service binary name dir user ro =
    \<lparr>sv_name = name, sv_description = ''OxiProxy Node Server'', sv_binary = binary,
     sv_args = node_service_args ro, sv_dir = dir, sv_user = user\<rparr>"

definition client_service :: "string \<Rightarrow> string \<Rightarrow> string \<Rightarrow> string option \<Rightarrow> run_options \<Rightarrow> service_config" where
  "client_service binary name dir user ro =
    \<lparr>sv_name = name, sv_description = ''OxiProxy Client'', sv_binary = binary,
     sv_args = client_service_args ro, sv_dir = dir, sv_user = user\<rparr>"

definition controller_service :: "string \<Rightarrow> string \<Rightarrow> string \<Rightarrow> string option \<Rightarrow> service_config" where
  "controller_service binary name dir user =
    \<lparr>sv_name = name, sv_description = ''OxiProxy Controller'', sv_binary = binary, sv_args = [''start''],
     sv_dir = dir, sv_user = user\<rparr>"

section \<open>PID files\<close>

text \<open>\<open>kill\<close> of a process, by its number and signal (0 asks whether it is there).\<close>

datatype kill_result = K_sent | K_gone | K_denied

definition parse_i32 :: "string \<Rightarrow> int option" where
  "parse_i32 s = Option.bind (parse_i64 s) (\<lambda>i. if - (2 ^ 31) \<le> i \<and> i < 2 ^ 31 then Some i else None)"

datatype pid_status = No_file | Invalid_pid | Stale int | Running int

definition probe_pid_file :: "(int \<Rightarrow> kill_result) \<Rightarrow> disk \<Rightarrow> string \<Rightarrow> pid_status" where
  "probe_pid_file kill d pid_file =
    (case read_file pid_file d of
       None \<Rightarrow> No_file
     | Some s \<Rightarrow>
         (case parse_i32 (str_trim s) of
            None \<Rightarrow> Invalid_pid
          | Some pid \<Rightarrow> if kill pid = K_gone then Stale pid else Running pid))"

definition remove_file :: "string \<Rightarrow> disk \<Rightarrow> disk" where
  "remove_file path d =
    (if path \<in> set (dk_unwritable d) then d
     else d\<lparr>dk_files := filter (\<lambda>(n, s). n \<noteq> path) (dk_files d)\<rparr>)"

text \<open>\<open>stop\<close>: the process that is told to end, if any, and the disk after it; or an error.\<close>

definition stop_daemon_unix :: "(int \<Rightarrow> kill_result) \<Rightarrow> disk \<Rightarrow> string \<Rightarrow> (int option \<times> disk) option" where
  "stop_daemon_unix kill d pid_file =
    (case Option.bind (read_file pid_file d) (\<lambda>s. parse_i32 (str_trim s)) of
       None \<Rightarrow> None
     | Some pid \<Rightarrow>
         (case kill pid of
            K_sent \<Rightarrow> Some (Some pid, remove_file pid_file d)
          | K_gone \<Rightarrow> Some (None, remove_file pid_file d)
          | K_denied \<Rightarrow> None))"

definition stop_daemon_if_running :: "(int \<Rightarrow> kill_result) \<Rightarrow> disk \<Rightarrow> string \<Rightarrow> int option \<times> disk" where
  "stop_daemon_if_running kill d pid_file =
    (if \<not> file_exists pid_file d then (None, d)
     else case stop_daemon_unix kill d pid_file of
            Some r \<Rightarrow> r
          | None \<Rightarrow> (None, remove_file pid_file d))"

definition node_stop ::
  "(string \<Rightarrow> bool) \<Rightarrow> (int \<Rightarrow> kill_result) \<Rightarrow> disk \<Rightarrow> cli_opt list \<Rightarrow> (outcome + int option \<times> disk) option" where
  "node_stop installed kill d opts =
    (let service = unwrap_or ''oxiproxy-node'' (option_of ''service-name'' opts);
         pid_file = unwrap_or ''/var/run/oxiproxy-node.pid'' (option_of ''pid-file'' opts)
     in if \<not> accepts node_args ''stop'' opts then None
        else if installed service then Some (Inl (Systemctl ''stop'' service))
        else map_option Inr (stop_daemon_unix kill d pid_file))"

text \<open>The exit code of \<open>status\<close>: whether the process of the PID file or the service runs. What systemd
  says of the service is \<open>None\<close> when it cannot be asked.\<close>

definition print_status :: "(int \<Rightarrow> kill_result) \<Rightarrow> disk \<Rightarrow> string \<Rightarrow> string option \<Rightarrow> int" where
  "print_status kill d pid_file active =
    (let running = (case probe_pid_file kill d pid_file of Running _ \<Rightarrow> True | _ \<Rightarrow> False)
     in if running \<or> active = Some ''active'' then 0 else 1)"

section \<open>Logs\<close>

text \<open>The names in a directory; the last in the order of bytes is taken.\<close>

definition name_le :: "string \<Rightarrow> string \<Rightarrow> bool" where
  "name_le a b = lexordp_eq (map of_char a :: nat list) (map of_char b)"

fun latest_name :: "string \<Rightarrow> string list \<Rightarrow> string" where
  "latest_name m [] = m"
| "latest_name m (n # ns) = latest_name (if name_le m n then n else m) ns"

definition locate_latest :: "string list \<Rightarrow> string \<Rightarrow> string option" where
  "locate_latest names prefix =
    (let dated = filter (\<lambda>n. strip_prefix (prefix @ ''.'') n \<noteq> None) names
     in case dated of
          n # ns \<Rightarrow> Some (latest_name n ns)
        | [] \<Rightarrow> if prefix \<in> set names then Some prefix else None)"

definition read_tail_lines :: "string \<Rightarrow> nat \<Rightarrow> string list" where
  "read_tail_lines content n = (let lines = str_lines content in drop (length lines - n) lines)"

text \<open>One round of following a file: the file a round finds (\<open>None\<close> if it cannot be opened), whether it
  is another one than before, and the offset; what is printed, and the new offset.\<close>

definition follow_step :: "bool \<Rightarrow> string option \<Rightarrow> nat \<Rightarrow> string \<times> nat" where
  "follow_step moved content offset =
    (let offset = (if moved then 0 else offset)
     in case content of
          None \<Rightarrow> ([], offset)
        | Some s \<Rightarrow>
            let offset = (if length s < offset then 0 else offset)
            in if offset < length s then (drop offset s, length s) else ([], offset))"

fun follow_appends :: "(bool \<times> string option) list \<Rightarrow> nat \<Rightarrow> string" where
  "follow_appends [] offset = []"
| "follow_appends ((moved, content) # rounds) offset =
    (case follow_step moved content offset of (out, offset') \<Rightarrow> out @ follow_appends rounds offset')"

end
