(* ===== verification/CommandProps.thy ===== *)
theory CommandProps
  imports CommandLine
begin

text \<open>
  What becomes of the options of a program that restarts or is installed as a service, and what following
  a log prints.
\<close>

section \<open>Restarting\<close>

definition node_names :: "string list" where
  "node_names = [''controller-url'', ''token'', ''protocol'', ''tls-ca-cert'', ''pid-file'', ''log-dir'', ''service-name'']"

text \<open>An option of the programs whose value does not itself look like the one that is taken out.\<close>

definition plain_opt :: "cli_opt \<Rightarrow> bool" where
  "plain_opt x =
    (co_name x \<in> set node_names \<and>
     (co_joined x \<or> \<not> pid_option (co_value x)))"

lemma kept_words:
  assumes "plain_opt x"
  shows "args_loop False False (words_of x @ ws) = (if co_name x = ''pid-file'' then args_loop False False ws else words_of x @ args_loop False False ws)"
  using assms
  by (cases "co_joined x")
     (auto simp: plain_opt_def node_names_def words_of_def dashed_def pid_option_def)

lemma kept_options:
  "list_all plain_opt opts \<Longrightarrow>
    args_loop False False (option_words opts) = option_words (filter (\<lambda>x. co_name x \<noteq> ''pid-file'') opts)"
  by (induction opts) (simp_all add: option_words_def kept_words)

lemma option_of_filter:
  "n \<noteq> ''pid-file'' \<Longrightarrow> option_of n (filter (\<lambda>x. co_name x \<noteq> ''pid-file'') opts) = option_of n opts"
  by (induction opts) (auto simp: option_of_def)

lemma undeclared_option: "accepts args command opts \<Longrightarrow> args command = Some names \<Longrightarrow> n \<notin> set names \<Longrightarrow>
    option_of n opts = None"
  by (auto simp: accepts_def list_all_iff option_of_def find_None_iff)

lemma accepted_plain:
  assumes "co_name x \<in> set node_names" "value_accepted x"
  shows "plain_opt x"
proof (cases "co_joined x")
  case False
  then have "take 1 (co_value x) \<noteq> ''-'' \<or> co_value x = ''-''" using assms(2) by (simp add: value_accepted_def)
  then have "\<not> pid_option (co_value x)" by (cases "co_value x") (auto simp: pid_option_def)
  then show ?thesis using assms(1) by (simp add: plain_opt_def)
qed (simp add: plain_opt_def assms(1))

lemma accepted_daemon_plain: "accepts node_args ''daemon'' opts \<Longrightarrow> list_all plain_opt opts"
  unfolding list_all_iff
  by (rule ballI, rule accepted_plain)
     (auto simp: accepts_def node_args_def service_command_args_def list_all_iff node_names_def)

lemma accepted_daemon_starts:
  assumes "accepts node_args ''daemon'' opts"
  shows "accepts node_args ''start'' (filter (\<lambda>x. co_name x \<noteq> ''pid-file'') opts)"
proof -
  have same: "filter (\<lambda>n. n \<noteq> ''mirror'') (map co_name (filter (\<lambda>x. co_name x \<noteq> ''pid-file'') opts)) =
      filter (\<lambda>n. n \<noteq> ''pid-file'') (filter (\<lambda>n. n \<noteq> ''mirror'') (map co_name opts))"
    by (induction opts) simp_all
  have "distinct (filter (\<lambda>n. n \<noteq> ''mirror'') (map co_name opts))"
    using assms by (auto simp: accepts_def split: option.splits)
  then have "distinct (filter (\<lambda>n. n \<noteq> ''mirror'') (map co_name (filter (\<lambda>x. co_name x \<noteq> ''pid-file'') opts)))"
    unfolding same by (rule distinct_filter)
  then show ?thesis
    using assms by (auto simp: accepts_def node_args_def service_command_args_def list_all_iff)
qed

lemma daemon_has_no_service: "accepts node_args ''daemon'' opts \<Longrightarrow> option_of ''service-name'' opts = None"
  by (erule undeclared_option, simp add: node_args_def service_command_args_def, simp)

text \<open>C39: a node that was started as a daemon restarts itself as \<open>start\<close> with exactly its options in their order
  but the PID file, which \<open>start\<close> does not have; the new command line is accepted. If a service of the node's usual
  name is installed, that is started instead; otherwise the node serves with the same controller, token,
  protocol and certificate. Its log directory is the one that was given; where none was given it is \<open>./logs\<close>
  before the restart and none after it.\<close>

theorem restarted_daemon_keeps_its_options:
  assumes "node_daemon d opts = Forks pid_file ro ca"
  defines "opts' \<equiv> filter (\<lambda>x. co_name x \<noteq> ''pid-file'') opts"
  shows "restart_args (''daemon'' # option_words opts) = ''start'' # option_words opts' \<and>
    node_start installed d opts' =
      (if installed ''oxiproxy-node'' then Systemctl ''start'' ''oxiproxy-node''
       else Serves (ro\<lparr>ro_log_dir := option_of ''log-dir'' opts\<rparr>) ca) \<and>
    pid_file = unwrap_or ''/var/run/oxiproxy-node.pid'' (option_of ''pid-file'' opts) \<and>
    ro_log_dir ro = Some (unwrap_or ''./logs'' (option_of ''log-dir'' opts))"
proof -
  obtain url token where given: "option_of ''controller-url'' opts = Some url" "option_of ''token'' opts = Some token"
    and ok: "accepts node_args ''daemon'' opts"
    using assms(1) by (auto simp: node_daemon_def split: option.splits if_splits)
  then have ca: "load_tls_ca_cert d (option_of ''tls-ca-cert'' opts) = Some ca"
    and pid: "pid_file = unwrap_or ''/var/run/oxiproxy-node.pid'' (option_of ''pid-file'' opts)"
    and ro: "ro = (node_options url token opts)\<lparr>ro_log_dir := Some (unwrap_or ''./logs'' (option_of ''log-dir'' opts))\<rparr>"
    using assms(1) by (auto simp: node_daemon_def node_options_def Let_def split: option.splits)
  have "node_start installed d opts' =
      (if installed ''oxiproxy-node'' then Systemctl ''start'' ''oxiproxy-node''
       else Serves (ro\<lparr>ro_log_dir := option_of ''log-dir'' opts\<rparr>) ca)"
    using daemon_has_no_service[OF ok] given ca accepted_daemon_starts[OF ok]
    by (simp add: opts'_def node_start_def option_of_filter unwrap_or_def run_foreground_def node_options_def ro)
  moreover have "restart_args (''daemon'' # option_words opts) = ''start'' # option_words opts'"
    by (simp add: opts'_def restart_args_def kept_options[OF accepted_daemon_plain[OF ok]])
  ultimately show ?thesis using pid by (simp add: ro)
qed

definition sample_opts :: "cli_opt list" where
  "sample_opts =
    [separate ''controller-url'' ''http://c:3100'', separate ''pid-file'' ''/tmp/n.pid'',
     \<lparr>co_name = ''token'', co_value = ''-t'', co_joined = True\<rparr>]"

lemma restarted_daemon_keeps_its_options_witness:
  "restart_args (''daemon'' # option_words sample_opts) = [''start'', ''--controller-url'', ''http://c:3100'', ''--token=-t''] \<and>
   (\<exists>ro. node_start (\<lambda>_. False) no_disk [separate ''controller-url'' ''http://c:3100'',
       \<lparr>co_name = ''token'', co_value = ''-t'', co_joined = True\<rparr>] = Serves ro None)"
proof -
  let ?ro = "\<lparr>ro_url = ''http://c:3100'', ro_token = ''-t'', ro_protocol = ''quic'', ro_ca = None, ro_log_dir = Some ''./logs''\<rparr>"
  have "node_daemon no_disk sample_opts = Forks ''/tmp/n.pid'' ?ro None"
    by (simp add: node_daemon_def sample_opts_def separate_def option_of_def node_options_def unwrap_or_def
        load_tls_ca_cert_def accepts_def node_args_def service_command_args_def value_accepted_def)
  from restarted_daemon_keeps_its_options[OF this, of "\<lambda>_. False"] show ?thesis
    by (simp add: sample_opts_def separate_def option_words_def words_of_def dashed_def)
qed

text \<open>Without the part that takes it out, the new command line would be refused.\<close>

lemma start_has_no_pid_file:
  assumes "option_of ''pid-file'' opts \<noteq> None"
  shows "node_start installed d opts = Refuses"
proof -
  have "\<not> accepts node_args ''start'' opts"
    using assms undeclared_option[of node_args "''start''" opts] by (auto simp: node_args_def service_command_args_def)
  then show ?thesis by (simp add: node_start_def)
qed

text \<open>A process started as a service keeps its command line.\<close>

lemma restarted_service_keeps_its_words:
  assumes "list_all plain_opt opts" "\<And>x. x \<in> set opts \<Longrightarrow> co_name x \<noteq> ''pid-file''"
  shows "restart_args (''run'' # option_words opts) = ''run'' # option_words opts"
proof -
  have "filter (\<lambda>x. co_name x \<noteq> ''pid-file'') opts = opts" using assms(2) by (simp add: filter_id_conv)
  then show ?thesis by (simp add: restart_args_def kept_options[OF assms(1)])
qed

text \<open>The controller does not come back this way: what the shell runs has no subcommand.\<close>

lemma restarted_controller_has_no_command:
  "a_is_admin a \<Longrightarrow> wp (restart_system (Some a) (Some exe)) (\<lambda>r w'. r = Inr [''sh'', ''-c'', ''sleep 2 && '' @ exe] \<and>
     w' = w \<and> controller_command [exe] = None) w"
  by (simp add: restart_system_def config_admin_def restart_command_def controller_command_def)

section \<open>Installing\<close>

definition service_opts :: "run_options \<Rightarrow> cli_opt list" where
  "service_opts ro =
    [separate ''controller-url'' (ro_url ro), separate ''token'' (ro_token ro), separate ''protocol'' (ro_protocol ro)] @
    (case ro_ca ro of Some ca \<Rightarrow> [separate ''tls-ca-cert'' ca] | None \<Rightarrow> []) @
    (case ro_log_dir ro of Some dir \<Rightarrow> [separate ''log-dir'' dir] | None \<Rightarrow> [])"

lemma node_service_words: "node_service_args ro = ''run'' # option_words (service_opts ro)"
  by (simp add: node_service_args_def service_opts_def option_words_def words_of_def separate_def dashed_def
      split: option.split)

text \<open>the service that \<open>install\<close> sets up runs the node with exactly the options of the install command:
  the words in its unit file are the program and \<open>run\<close> with these options, and \<open>run\<close> with them serves as
  asked, without asking systemd again. This is so for values that systemd takes as they are and that do not begin
  with a dash: \<open>install\<close> writes every value as a word of its own.\<close>

theorem installed_node_runs_as_asked:
  assumes "load_tls_ca_cert d (ro_ca ro) = Some ca" "take 1 binary = ''/''"
    and "list_all literal_word (binary # node_service_args ro)" "list_all value_accepted (service_opts ro)"
  shows "exec_words (build_exec_start binary (node_service_args ro)) =
      Some (binary # ''run'' # option_words (service_opts ro)) \<and>
    node_run d (service_opts ro) = Serves ro ca"
proof
  show "exec_words (build_exec_start binary (node_service_args ro)) =
      Some (binary # ''run'' # option_words (service_opts ro))"
    using exec_words_joined[OF assms(2), of "node_service_args ro"] assms(3) by (simp add: node_service_words)
  have "accepts node_args ''run'' (service_opts ro)"
    using assms(4)
    by (auto simp: accepts_def node_args_def service_command_args_def service_opts_def separate_def split: option.split)
  then show "node_run d (service_opts ro) = Serves ro ca"
    using assms(1) by (auto simp: node_run_def service_opts_def option_of_def separate_def node_options_def
        run_foreground_def unwrap_or_def split: option.splits)
qed

lemma installed_node_runs_as_asked_witness:
  "\<exists>ws. exec_words (build_exec_start ''/usr/bin/node'' (node_service_args
       \<lparr>ro_url = ''http://c:3100'', ro_token = ''my token'', ro_protocol = ''kcp'', ro_ca = None, ro_log_dir = None\<rparr>)) =
     Some (''/usr/bin/node'' # ''run'' # ws)"
  using installed_node_runs_as_asked[of no_disk "\<lparr>ro_url = ''http://c:3100'', ro_token = ''my token'',
      ro_protocol = ''kcp'', ro_ca = None, ro_log_dir = None\<rparr>" None "''/usr/bin/node''"]
  by (simp add: load_tls_ca_cert_def node_service_args_def literal_word_def service_opts_def separate_def
      value_accepted_def)

text \<open>A value that begins with a dash can be installed, but the service then does not start.\<close>

lemma dashed_token_is_refused:
  assumes "ro_token ro = CHR ''-'' # c # cs"
  shows "node_run d (service_opts ro) = Refuses"
  using assms
  by (auto simp: node_run_def accepts_def node_args_def service_command_args_def service_opts_def separate_def
      value_accepted_def split: option.split)

section \<open>Following a log\<close>

text \<open>A file that only grows is printed from the offset on, every byte once.\<close>

lemma growing_log_is_followed:
  assumes "sorted_wrt (\<lambda>a b. \<exists>u. b = a @ u) (s # ss)" "offset \<le> length s"
  shows "follow_appends (map (\<lambda>s. (False, Some s)) (s # ss)) offset = drop offset (last (s # ss))"
  using assms
proof (induction ss arbitrary: s offset)
  case Nil
  then show ?case by (simp add: follow_step_def Let_def)
next
  case (Cons t ss)
  have above: "\<forall>x \<in> set (t # ss). \<exists>u. x = s @ u"
    using Cons.prems(1) unfolding sorted_wrt.simps(2)[of _ s "t # ss"] by blast
  then obtain u where u: "t = s @ u" by force
  have "last (t # ss) \<in> set (t # ss)" by (rule last_in_set) simp
  then obtain v where v: "last (t # ss) = s @ v" using above by blast
  have "follow_appends (map (\<lambda>s. (False, Some s)) (t # ss)) (length s) = drop (length s) (last (t # ss))"
  proof (rule Cons.IH)
    show "sorted_wrt (\<lambda>a b. \<exists>u. b = a @ u) (t # ss)"
      using Cons.prems(1) unfolding sorted_wrt.simps(2)[of _ s "t # ss"] by blast
    show "length s \<le> length t" unfolding u by simp
  qed
  moreover have "follow_step False (Some s) offset = (drop offset s, length s)"
    using Cons.prems(2) by (simp add: follow_step_def Let_def)
  ultimately have "follow_appends (map (\<lambda>s. (False, Some s)) (s # t # ss)) offset =
      drop offset s @ drop (length s) (last (t # ss))" by simp
  also have "\<dots> = drop offset (last (t # ss))" using Cons.prems(2) unfolding v by simp
  finally show ?case by simp
qed

end
