(* ===== verification/Updates.thy ===== *)
theory Updates
  imports NodeApi ClientStreams CommandLine
begin

text \<open>
  Updating the programs: the choice of a download route and the download (\<open>common/src/update.rs\<close>), and the
  handlers that look for the newest version and send nodes and clients the order to update or restart
  (\<open>api/handlers/version.rs\<close>). The parser of URLs, the answers of servers, the measured speeds and what the
  user types are arguments.
\<close>

section \<open>Routes\<close>

datatype download_source = Manual | Auto | Direct | Mirror

record update_options =
  up_source :: download_source
  up_mirrors :: "string list"

record parsed_url =
  pu_scheme :: string
  pu_host :: "string option"
  pu_username :: string
  pu_password :: "string option"
  pu_query :: "string option"
  pu_fragment :: "string option"

definition plain_mirror :: "(string \<Rightarrow> parsed_url option) \<Rightarrow> string \<Rightarrow> bool" where
  "plain_mirror parse m =
    (case parse m of
       None \<Rightarrow> False
     | Some u \<Rightarrow>
         \<not> (pu_scheme u \<noteq> ''https'' \<or> pu_host u = None \<or> pu_username u \<noteq> [] \<or> pu_password u \<noteq> None \<or>
            pu_query u \<noteq> None \<or> pu_fragment u \<noteq> None))"

definition validate_options :: "(string \<Rightarrow> parsed_url option) \<Rightarrow> update_options \<Rightarrow> bool" where
  "validate_options parse opts =
    (\<not> 8 < length (up_mirrors opts) \<and> list_all (plain_mirror parse) (up_mirrors opts))"

definition default_mirror :: string where
  "default_mirror = ''https://gh-proxy.com''"

text \<open>A route is shown by the mirror it goes through, or as the direct one.\<close>

type_synonym download_route = "string option \<times> string"

definition trim_slashes :: "string \<Rightarrow> string" where
  "trim_slashes m = rev (dropWhile (\<lambda>c. c = CHR ''/'') (rev m))"

definition add_mirror :: "string \<Rightarrow> string \<Rightarrow> download_route list \<Rightarrow> download_route list" where
  "add_mirror original m rs =
    (let url = trim_slashes m @ CHR ''/'' # original
     in if list_ex (\<lambda>(_, existing). existing = url) rs then rs else rs @ [(Some m, url)])"

definition routes :: "update_options \<Rightarrow> string \<Rightarrow> download_route list" where
  "routes opts original =
    (let direct = (if up_source opts \<noteq> Mirror then [(None, original)] else []);
         mirrors = (if up_mirrors opts = [] then [default_mirror] else up_mirrors opts)
     in if up_source opts \<noteq> Direct then fold (add_mirror original) mirrors direct else direct)"

section \<open>Choosing by hand\<close>

datatype choice_error = No_route | Not_chosen | Cancelled

text \<open>The lines the user types, up to the end of the input.\<close>

fun pick_line :: "nat \<Rightarrow> string list \<Rightarrow> choice_error + nat" where
  "pick_line n [] = Inl Not_chosen"
| "pick_line n (line # lines) =
    (case parse_unsigned (2 ^ 64 - 1) (str_trim line) of
       Some k \<Rightarrow> if k = 0 then Inl Cancelled else if k \<le> n then Inr (k - 1) else pick_line n lines
     | None \<Rightarrow> pick_line n lines)"

definition select_route :: "download_route list \<Rightarrow> string list \<Rightarrow> choice_error + nat" where
  "select_route rs lines =
    (if rs = [] then Inl No_route else if length rs = 1 then Inr 0 else pick_line (length rs) lines)"

section \<open>Downloading\<close>

text \<open>The answer to a request: its body arrives in pieces and may break off.\<close>

record answer =
  an_status :: nat
  an_html :: bool
  an_length :: "nat option"
  an_pieces :: "string list"
  an_broken :: bool

definition is_error :: "answer \<Rightarrow> bool" where
  "is_error r = (400 \<le> an_status r)"

text \<open>Whether it worked, and what the destination holds then (\<open>None\<close>: no file). Creating and writing the
  file are taken to succeed.\<close>

definition download_one :: "answer option \<Rightarrow> string option \<Rightarrow> bool \<times> string option" where
  "download_one answer file =
    (case answer of
       None \<Rightarrow> (False, file)
     | Some r \<Rightarrow>
         if is_error r \<or> an_html r \<or> an_status r \<noteq> 200 then (False, file)
         else let content = concat (an_pieces r)
              in if an_broken r then (False, Some content)
                 else if length content = 0 \<or> (an_length r \<noteq> None \<and> an_length r \<noteq> Some (length content))
                 then (False, Some content)
                 else (True, Some content))"

fun download_routes :: "(string \<Rightarrow> answer option) \<Rightarrow> download_route list \<Rightarrow> string option \<Rightarrow> bool \<times> string option" where
  "download_routes fetch [] file = (False, None)"
| "download_routes fetch ((_, url) # rs) file =
    (case download_one (fetch url) file of
       (ok, file') \<Rightarrow> if ok then (True, file') else download_routes fetch rs file')"

definition download_manually ::
  "(string \<Rightarrow> answer option) \<Rightarrow> download_route list \<Rightarrow> string list \<Rightarrow> string option \<Rightarrow> bool \<times> string option" where
  "download_manually fetch rs lines file =
    (case select_route rs lines of
       Inl e \<Rightarrow> (False, file)
     | Inr i \<Rightarrow>
         (case download_one (fetch (snd (rs ! i))) file of
            (ok, file') \<Rightarrow> if ok then (True, file') else (False, None)))"

text \<open>\<open>probe\<close>: the bytes that came (at most 256 KiB) by the time they took; no speed counts as 0. The routes
  are sorted by falling speed, equal ones in their order.\<close>

definition probe :: "answer option \<Rightarrow> rat \<Rightarrow> rat option" where
  "probe answer seconds =
    (case answer of
       None \<Rightarrow> None
     | Some r \<Rightarrow>
         if is_error r \<or> an_html r \<or> an_broken r then None
         else Some (of_nat (min (256 * 1024) (length (concat (an_pieces r)))) / max seconds (1 / 1000)))"

definition rank_routes :: "(string \<Rightarrow> rat option) \<Rightarrow> download_route list \<Rightarrow> download_route list" where
  "rank_routes speed rs = sort_key (\<lambda>(_, url). - unwrap_or 0 (speed url)) rs"

definition download ::
  "(string \<Rightarrow> parsed_url option) \<Rightarrow> (string \<Rightarrow> answer option) \<Rightarrow> (string \<Rightarrow> rat option) \<Rightarrow> bool \<Rightarrow> string list \<Rightarrow>
   update_options \<Rightarrow> string \<Rightarrow> string option \<Rightarrow> bool \<times> string option" where
  "download parse fetch speed terminal lines opts original file =
    (if \<not> validate_options parse opts then (False, file)
     else let rs = routes opts original
          in if up_source opts \<noteq> Auto
             then (if 1 < length rs \<and> \<not> terminal then (False, file) else download_manually fetch rs lines file)
             else download_routes fetch (if 1 < length rs then rank_routes speed rs else rs) file)"

section \<open>The newest version\<close>

record release =
  re_version :: string
  re_published :: string
  re_url :: string
  re_fetched :: naive_dt

definition trim_v :: "string \<Rightarrow> string" where
  "trim_v s = dropWhile (\<lambda>c. c = CHR ''v'') s"

definition fetch_latest_release :: "(string \<times> string option \<times> string) option \<Rightarrow> naive_dt \<Rightarrow> release option" where
  "fetch_latest_release github now =
    map_option (\<lambda>(tag, published, url).
      \<lparr>re_version = trim_v tag, re_published = unwrap_or [] published, re_url = url, re_fetched = now\<rparr>) github"

text \<open>The cache is kept for 300 seconds; \<open>seconds\<close> is the difference of two times. The answer and the cache
  after it.\<close>

definition get_latest_version ::
  "(naive_dt \<Rightarrow> naive_dt \<Rightarrow> int) \<Rightarrow> (string \<times> string option \<times> string) option \<Rightarrow> auth_user option \<Rightarrow>
   release option \<Rightarrow> ((failure + release) \<times> release option) io" where
  "get_latest_version seconds github auth_opt cache = do {
     r \<leftarrow> admin_only auth_opt;
     now \<leftarrow> utc_now;
     State_Monad.return
       (case r of
          Inl e \<Rightarrow> (Inl e, cache)
        | Inr _ \<Rightarrow>
            (case cache of
               Some c \<Rightarrow>
                 if seconds now (re_fetched c) < 300 then (Inr c, cache)
                 else (case fetch_latest_release github now of
                         Some c' \<Rightarrow> (Inr c', Some c')
                       | None \<Rightarrow> (Inl (INTERNAL_SERVER_ERROR, M_text ''release''), cache))
             | None \<Rightarrow>
                 (case fetch_latest_release github now of
                    Some c' \<Rightarrow> (Inr c', Some c')
                  | None \<Rightarrow> (Inl (INTERNAL_SERVER_ERROR, M_text ''release''), cache))))
   }"

section \<open>Updating and restarting nodes and clients\<close>

definition trigger_node_update :: "auth_user option \<Rightarrow> int \<Rightarrow> (bool \<times> string option \<times> string option) handler" where
  "trigger_node_update auth_opt i =
    and_then (admin_only auth_opt) (\<lambda>_. do {
      online \<leftarrow> node_connected i;
      and_then (check online (BAD_REQUEST, M_not_connected i)) (\<lambda>_.
      or_fail internal (nm_send_software_update i))
    })"

definition trigger_client_update :: "auth_user option \<Rightarrow> int \<Rightarrow> (bool \<times> string option \<times> string option) handler" where
  "trigger_client_update auth_opt i =
    and_then (admin_only auth_opt) (\<lambda>_. or_fail internal (csm_send_software_update i))"

definition trigger_node_restart :: "auth_user option \<Rightarrow> int \<Rightarrow> unit handler" where
  "trigger_node_restart auth_opt i =
    and_then (admin_only auth_opt) (\<lambda>_. do {
      online \<leftarrow> node_connected i;
      and_then (check online (BAD_REQUEST, M_not_connected i)) (\<lambda>_.
      or_fail internal (nm_send_restart i))
    })"

definition trigger_client_restart :: "auth_user option \<Rightarrow> int \<Rightarrow> unit handler" where
  "trigger_client_restart auth_opt i =
    and_then (admin_only auth_opt) (\<lambda>_. or_fail internal (csm_send_restart i))"

text \<open>All that are online, in the order of the database (the program runs them side by side).\<close>

type_synonym batch_result = "int \<times> string \<times> (any_err + bool \<times> string option \<times> string option)"

fun update_each ::
  "(int \<Rightarrow> (any_err + bool \<times> string option \<times> string option) io) \<Rightarrow> (int \<times> string) list \<Rightarrow> batch_result list io" where
  "update_each send [] = State_Monad.return []"
| "update_each send ((i, name) # rest) = do {
     r \<leftarrow> send i;
     rs \<leftarrow> update_each send rest;
     State_Monad.return ((i, name, r) # rs)
   }"

definition batch_update_nodes :: "auth_user option \<Rightarrow> batch_result list handler" where
  "batch_update_nodes auth_opt =
    and_then (admin_only auth_opt) (\<lambda>_. do {
      connected_ids \<leftarrow> get_loaded_node_ids;
      if connected_ids = [] then finish []
      else and_then (or_fail (failed_to ''find'') (find_all nodes_t (\<lambda>_. True))) (\<lambda>nodes. do {
        rs \<leftarrow> update_each nm_send_software_update
          (map (\<lambda>n. (n_id n, n_name n)) (filter (\<lambda>n. n_id n \<in> set connected_ids) nodes));
        finish rs
      })
    })"

definition batch_update_clients :: "auth_user option \<Rightarrow> batch_result list handler" where
  "batch_update_clients auth_opt =
    and_then (admin_only auth_opt) (\<lambda>_.
    and_then (or_fail (failed_to ''find'') (find_all clients_t (\<lambda>_. True))) (\<lambda>all_clients. do {
      states \<leftarrow> check_all_clients;
      rs \<leftarrow> update_each csm_send_software_update
        (map (\<lambda>c. (c_id c, c_name c))
          (filter (\<lambda>c. c_id c \<in> set (map fst (filter snd states))) all_clients));
      finish rs
    }))"

end
