(* ===== verification/UpdateProps.thy ===== *)
theory UpdateProps
  imports Updates
begin

text \<open>
  What an update guarantees: a file that is whole or none, a choice among the routes there are, and one
  order for every node that is online.
\<close>

section \<open>Routes\<close>

lemma add_mirror_distinct: "distinct (map snd rs) \<Longrightarrow> distinct (map snd (add_mirror original m rs))"
  by (auto simp: add_mirror_def Let_def list_ex_iff)

lemma add_mirrors_distinct: "distinct (map snd rs) \<Longrightarrow> distinct (map snd (fold (add_mirror original) ms rs))"
  by (induction ms arbitrary: rs) (simp_all add: add_mirror_distinct)

lemma routes_distinct: "distinct (map snd (routes opts original))"
  by (auto simp: routes_def Let_def intro!: add_mirrors_distinct add_mirror_distinct)

lemma add_mirror_nonempty: "add_mirror original m rs \<noteq> []"
  by (auto simp: add_mirror_def Let_def)

lemma add_mirrors_nonempty: "ms \<noteq> [] \<Longrightarrow> fold (add_mirror original) ms rs \<noteq> []"
  by (induction ms arbitrary: rs) (simp, metis add_mirror_nonempty fold_simps)

lemma routes_nonempty: "routes opts original \<noteq> []"
  by (auto simp: routes_def Let_def add_mirror_nonempty dest: add_mirrors_nonempty)

lemma pick_line_valid: "pick_line n lines = Inr i \<Longrightarrow> i < n"
  by (induction n lines rule: pick_line.induct) (auto split: option.splits if_splits)

lemma selected_route_exists: "select_route rs lines = Inr i \<Longrightarrow> i < length rs"
  by (auto simp: select_route_def split: if_splits dest: pick_line_valid)

section \<open>Downloads\<close>

definition whole_answer :: "answer \<Rightarrow> string \<Rightarrow> bool" where
  "whole_answer r content =
    (an_status r = 200 \<and> \<not> an_html r \<and> \<not> an_broken r \<and> content = concat (an_pieces r) \<and> content \<noteq> [] \<and>
     (an_length r = None \<or> an_length r = Some (length content)))"

definition whole_from :: "(string \<Rightarrow> answer option) \<Rightarrow> string set \<Rightarrow> string option \<Rightarrow> bool" where
  "whole_from fetch urls old =
    (\<exists>url r content. url \<in> urls \<and> fetch url = Some r \<and> whole_answer r content \<and> old = Some content)"

lemma download_one_whole:
  "download_one (fetch url) old = (True, after) \<Longrightarrow> url \<in> urls \<Longrightarrow> whole_from fetch urls after"
  unfolding whole_from_def
  by (rule exI[of _ url]) (auto simp: download_one_def whole_answer_def Let_def split: option.splits if_splits)

lemma download_routes_whole:
  "download_routes fetch rs old = (ok, after) \<Longrightarrow> if ok then whole_from fetch (snd ` set rs) after else after = None"
proof (induction rs arbitrary: old)
  case (Cons route rs)
  obtain m url where route: "route = (m, url)" by fastforce
  obtain done1 file1 where one: "download_one (fetch url) old = (done1, file1)" by fastforce
  show ?case
  proof (cases done1)
    case True
    then have "ok" "after = file1" using Cons.prems one by (simp_all add: route)
    then show ?thesis
      using one True download_one_whole[of fetch url old file1 "snd ` set (route # rs)"] by (simp add: route)
  next
    case False
    then have "download_routes fetch rs file1 = (ok, after)" using Cons.prems one by (simp add: route)
    from Cons.IH[OF this] show ?thesis by (auto simp: whole_from_def split: if_splits)
  qed
qed simp

lemma ranked_urls: "snd ` set (rank_routes speed rs) = snd ` set rs"
  by (simp add: rank_routes_def)

text \<open>C40: an update that reports success has, as the file it downloaded, the whole body of an answer of one of
  the routes: status 200, no HTML page, not empty, not cut off, as long as announced. One that fails leaves
  no new file: the destination is as it was, or removed.\<close>

theorem update_leaves_no_partial_file:
  assumes "download parse fetch speed terminal lines opts original old = (ok, after)"
  shows "if ok then whole_from fetch (snd ` set (routes opts original)) after else after = old \<or> after = None"
proof (cases "\<not> validate_options parse opts \<or> up_source opts \<noteq> Auto \<and> 1 < length (routes opts original) \<and> \<not> terminal")
  case True
  then have "(ok, after) = (False, old)"
    using assms by (cases "validate_options parse opts") (simp_all add: download_def Let_def)
  then show ?thesis by simp
next
  case go: False
  show ?thesis
  proof (cases "up_source opts = Auto")
    case True
    define rs where "rs = (if 1 < length (routes opts original) then rank_routes speed (routes opts original)
        else routes opts original)"
    have "snd ` set rs = snd ` set (routes opts original)" by (simp add: rs_def ranked_urls)
    moreover have "download_routes fetch rs old = (ok, after)"
      using assms go True by (simp add: download_def Let_def rs_def split: if_splits)
    ultimately show ?thesis using download_routes_whole[of fetch rs old ok after] by (auto split: if_splits)
  next
    case False
    then have run: "download_manually fetch (routes opts original) lines old = (ok, after)"
      using assms go by (auto simp: download_def Let_def)
    show ?thesis
    proof (cases "select_route (routes opts original) lines")
      case (Inl e)
      then show ?thesis using run by (simp add: download_manually_def)
    next
      case (Inr i)
      let ?url = "snd (routes opts original ! i)"
      obtain done1 file1 where one: "download_one (fetch ?url) old = (done1, file1)" by fastforce
      have "?url \<in> snd ` set (routes opts original)" using selected_route_exists[OF Inr] by simp
      then show ?thesis using run Inr one download_one_whole[of fetch ?url old file1]
        by (cases done1) (auto simp: download_manually_def)
    qed
  qed
qed

lemma update_leaves_no_partial_file_witness:
  "\<exists>ok after. download (\<lambda>_. None) (\<lambda>_. Some \<lparr>an_status = 200, an_html = False, an_length = Some 4,
       an_pieces = [''ab''], an_broken = False\<rparr>) (\<lambda>_. None) False [] \<lparr>up_source = Direct, up_mirrors = []\<rparr> ''u''
     (Some ''old'') = (ok, after) \<and>
    (if ok then whole_from (\<lambda>_. Some \<lparr>an_status = 200, an_html = False, an_length = Some 4,
       an_pieces = [''ab''], an_broken = False\<rparr>) (snd ` set (routes \<lparr>up_source = Direct, up_mirrors = []\<rparr> ''u'')) after
     else after = Some ''old'' \<or> after = None)"
proof -
  let ?answer = "\<lambda>_. Some \<lparr>an_status = 200, an_html = False, an_length = Some 4, an_pieces = [''ab''], an_broken = False\<rparr>"
  obtain ok after where run: "download (\<lambda>_. None) ?answer (\<lambda>_. None) False [] \<lparr>up_source = Direct, up_mirrors = []\<rparr> ''u''
      (Some ''old'') = (ok, after)" by fastforce
  from update_leaves_no_partial_file[OF run] run show ?thesis by blast
qed

section \<open>The newest version\<close>

text \<open>Within five minutes of one that was fetched, GitHub is not asked again.\<close>

lemma fresh_release_is_kept:
  assumes "a_is_admin a" "seconds (w_now w) (re_fetched c) < 300"
  shows "wp (get_latest_version seconds github (Some a) (Some c)) (\<lambda>r w'. r = (Inr c, Some c) \<and> w' = w) w"
  using assms by (simp add: get_latest_version_def admin_only_def authenticated_def)

section \<open>Every node that is online\<close>

lemma update_each_ids: "wp (update_each send xs) (\<lambda>rs _. map (\<lambda>(i, n, r). (i, n)) rs = xs) w"
proof (induction xs arbitrary: w)
  case (Cons x xs)
  obtain i n where x: "x = (i, n)" by fastforce
  show ?case by (simp add: x) (rule wp_runI, simp, rule Cons.IH[THEN wp_mono], simp)
qed simp

lemma batch_update_asks_online_nodes:
  assumes "healthy w" "a_is_admin a"
  shows "wp (batch_update_nodes (Some a)) (\<lambda>r _. \<exists>rs. r = Inr rs \<and> map fst rs =
    filter (\<lambda>i. i \<in> set (fst (run_state get_loaded_node_ids w))) (map n_id (db_nodes (w_db w)))) w"
proof -
  define ids where "ids = fst (run_state get_loaded_node_ids w)"
  have get: "wp get_loaded_node_ids Q w = Q ids w" for Q
    by (simp add: ids_def get_loaded_node_ids_def asks_def wp_State)
  let ?xs = "map (\<lambda>n. (n_id n, n_name n)) (filter (\<lambda>n. n_id n \<in> set ids) (db_nodes (w_db w)))"
  have ids: "map fst rs = filter (\<lambda>i. i \<in> set ids) (map n_id (db_nodes (w_db w)))"
    if "map (\<lambda>(i, n, r). (i, n)) rs = ?xs" for rs :: "batch_result list"
  proof -
    have "map fst rs = map fst (map (\<lambda>(i, n, r). (i, n)) rs)" by (induction rs) auto
    also have "\<dots> = filter (\<lambda>i. i \<in> set ids) (map n_id (db_nodes (w_db w)))"
      unfolding that by (simp add: filter_map o_def)
    finally show ?thesis .
  qed
  have "wp (update_each nm_send_software_update ?xs) (\<lambda>x. wp (finish x) (\<lambda>r _. \<exists>rs. r = (Inr rs :: failure + batch_result list) \<and> map fst rs =
      filter (\<lambda>i. i \<in> set ids) (map n_id (db_nodes (w_db w))))) w'" for w'
    by (rule wp_mono[OF update_each_ids]) (use ids in simp)
  then show ?thesis
    using assms
    by (simp add: batch_update_nodes_def admin_only_def authenticated_def get wp_find_all nodes_t_def healthy_def
        pop_fault_idle ids_def[symmetric])
qed

end
