(* ===== verification/NodeStart.thy ===== *)
theory NodeStart
  imports NodeQuestions ClientLoop Reconnect
begin

text \<open>
  How node and client come to be connected to their controller: the endpoint, the registration and its
  answer (\<open>connect_and_authenticate\<close>, \<open>reconnect\<close> of \<open>node/src/server/grpc_client.rs\<close>, \<open>connect_and_run\<close> of
  the client's), what a node starts with it (\<open>node/src/server/mod.rs\<close>, \<open>ProxyServer::new\<close>), the loop that
  sorts its messages, and the loop of the client (\<open>client/src/client/mod.rs\<close>). Connecting, the parsers of
  URIs and of TLS settings, and the certificate a node makes for itself are arguments.
\<close>

section \<open>The endpoint\<close>

definition https :: string where
  "https = ''https://''"

function strip_scheme :: "string \<Rightarrow> string" where
  "strip_scheme s = (case strip_prefix https s of Some r \<Rightarrow> strip_scheme r | None \<Rightarrow> s)"
  by pat_completeness auto

termination strip_scheme
  by (relation "measure length") (auto simp: https_def strip_prefix_Some_iff)

declare strip_scheme.simps [simp del]

text \<open>The URL and, for \<open>https\<close>, the name the certificate must have and the certificate to trust besides.\<close>

record endpoint =
  ep_url :: string
  ep_tls :: "(string \<times> string option) option"

definition controller_endpoint ::
  "(string \<Rightarrow> bool) \<Rightarrow> (string \<Rightarrow> string option \<Rightarrow> bool) \<Rightarrow> string \<Rightarrow> string option \<Rightarrow> endpoint option" where
  "controller_endpoint uri_ok tls_ok url ca =
    (if \<not> uri_ok url then None
     else if strip_prefix https url = None then Some \<lparr>ep_url = url, ep_tls = None\<rparr>
     else let domain = hd (split_char CHR '':'' (strip_scheme url))
          in if tls_ok domain ca then Some \<lparr>ep_url = url, ep_tls = Some (domain, ca)\<rparr> else None)"

section \<open>Registration of a node\<close>

datatype start_error = Bad_endpoint | No_connection | No_answer | Not_an_answer | Rejected

record registration =
  rg_node :: int
  rg_protocol :: string
  rg_limit :: "i64 option"
  rg_port :: u16
  rg_cert :: "cert_msg option"

definition registration_of :: "string \<Rightarrow> node_payload option \<Rightarrow> start_error + registration" where
  "registration_of tunnel_protocol payload =
    (case payload of
       Some (NodeReply (RegisterResponse node_id name protocol limit port certificate)) \<Rightarrow>
         Inr \<lparr>rg_node = node_id, rg_protocol = (if protocol = [] then tunnel_protocol else protocol),
              rg_limit = limit, rg_port = ucast port, rg_cert = certificate\<rparr>
     | Some (NodeReply (NodeStreamError e)) \<Rightarrow> Inl No_answer
     | _ \<Rightarrow> Inl Not_an_answer)"

text \<open>The stream is opened, the registration sent, and the first message awaited; \<open>None\<close> says that none
  came in time or at all.\<close>

definition authenticate_node ::
  "endpoint option \<Rightarrow> bool \<Rightarrow> string \<Rightarrow> node_payload incoming option \<Rightarrow> start_error + registration" where
  "authenticate_node endpoint up tunnel_protocol first =
    (case endpoint of
       None \<Rightarrow> Inl Bad_endpoint
     | Some e \<Rightarrow>
         if \<not> up then Inl No_connection
         else (case first of Some (Message payload) \<Rightarrow> registration_of tunnel_protocol payload | _ \<Rightarrow> Inl No_answer))"

text \<open>The link of the first connection, and what a later one replaces in it.\<close>

definition connect_and_authenticate :: "nat \<Rightarrow> start_error + registration \<Rightarrow> start_error + link \<times> registration" where
  "connect_and_authenticate tx r =
    (case r of
       Inl e \<Rightarrow> Inl e
     | Inr reg \<Rightarrow> Inr (\<lparr>ln_chan = tx, ln_node = rg_node reg, ln_pending = pending_new\<rparr>, reg))"

definition reconnect :: "nat \<Rightarrow> start_error + registration \<Rightarrow> link \<Rightarrow> (start_error + registration) \<times> link" where
  "reconnect tx r l =
    (case r of
       Inl e \<Rightarrow> (Inl e, l)
     | Inr reg \<Rightarrow> (Inr reg, l\<lparr>ln_chan := tx, ln_pending := pending_new, ln_node := rg_node reg\<rparr>))"

text \<open>\<open>message_loop\<close>: answers complete the questions they belong to, commands go into the queue of their
  handler, up to the end of the stream.\<close>

fun message_loop ::
  "node_payload incoming list \<Rightarrow> node_reply pending \<Rightarrow> node_payload list \<Rightarrow> node_reply pending \<times> node_payload list" where
  "message_loop (Message None # xs) p cmds = message_loop xs p cmds"
| "message_loop (Message (Some (NodeReply r)) # xs) p cmds = message_loop xs (take_reply r p) cmds"
| "message_loop (Message (Some c) # xs) p cmds = message_loop xs p (cmds @ [c])"
| "message_loop _ p cmds = (p, cmds)"

definition handle_controller_commands :: "node_env \<Rightarrow> node_payload list \<Rightarrow> agent \<Rightarrow> agent" where
  "handle_controller_commands env cmds a = fold (handle_command env) cmds a"

section \<open>What a node starts\<close>

text \<open>\<open>ProxyServer::new\<close>: the certificate of the controller, which must parse, or one of its own making.\<close>

definition server_certificate :: "node_env \<Rightarrow> string \<times> string \<Rightarrow> cert_msg option \<Rightarrow> (string \<times> string) option" where
  "server_certificate env own cert =
    (case cert of Some c \<Rightarrow> ne_pem env (cm_cert c) (cm_key c) | None \<Rightarrow> Some own)"

text \<open>\<open>busy\<close> are the ports other programs hold (UDP or TCP). The node ends if the certificate does not parse.\<close>

definition start_node :: "node_env \<Rightarrow> string \<times> string \<Rightarrow> (bool \<times> u16) list \<Rightarrow> registration \<Rightarrow> agent option" where
  "start_node env own busy reg =
    map_option (\<lambda>cert.
      \<lparr>ag_node = \<lparr>nd_busy = busy, nd_domains = [], nd_listeners = [], nd_quic = [], nd_tunnel = []\<rparr>,
       ag_tunnel = tunnel_start (rg_protocol reg)
         \<lparr>tn_port = rg_port reg, tn_protocol = [], tn_running = None, tn_cert = cert\<rparr>,
       ag_rate = unwrap_or 0 (rg_limit reg), ag_sent = [], ag_restarts = 0\<rparr>)
      (server_certificate env own (rg_cert reg))"

text \<open>\<open>run_server_controller_mode\<close>, from an attempt whose stream is opened: what has come on the stream so
  far, the registration's answer first.\<close>

definition run_server ::
  "node_env \<Rightarrow> string \<times> string \<Rightarrow> (bool \<times> u16) list \<Rightarrow> endpoint option \<Rightarrow> string \<Rightarrow> node_payload incoming list \<Rightarrow>
   agent option" where
  "run_server env own busy endpoint protocol input =
    (case authenticate_node endpoint True protocol (case input of [] \<Rightarrow> None | x # _ \<Rightarrow> Some x) of
       Inl e \<Rightarrow> None
     | Inr reg \<Rightarrow>
         map_option (handle_controller_commands env (snd (message_loop (tl input) pending_new [])))
           (start_node env own busy reg))"

text \<open>A turn of the loop that reconnects: an attempt that succeeds applies the answer; the certificate in
  it is only noted.\<close>

definition reconnect_turn :: "nat \<Rightarrow> start_error + registration \<Rightarrow> link \<times> agent \<Rightarrow> link \<times> agent" where
  "reconnect_turn tx r x =
    (case reconnect tx r (fst x) of
       (Inl e, l) \<Rightarrow> (l, snd x)
     | (Inr reg, l) \<Rightarrow> (l, after_reconnect (rg_protocol reg) (rg_limit reg) (rg_port reg) (snd x)))"

text \<open>The waits of a loop that accepts connections: after the \<open>n\<close>-th failure in a row \<open>n\<close> tenths of a
  second, at most five seconds.\<close>

fun accept_waits :: "bool list \<Rightarrow> nat \<Rightarrow> nat list" where
  "accept_waits [] errors = []"
| "accept_waits (accepted # rest) errors =
    (if accepted then 0 # accept_waits rest 0
     else let errors = min (errors + 1) (2 ^ 32 - 1) in 100 * min errors 50 # accept_waits rest errors)"

section \<open>The client\<close>

definition auth_response_of :: "client_payload option \<Rightarrow> start_error + int \<times> string" where
  "auth_response_of payload =
    (case payload of
       Some (ClientReply (ClientAuthResponse success e client_id name)) \<Rightarrow>
         if success then Inr (client_id, name) else Inl Rejected
     | Some (ClientReply (ErrorNotification e)) \<Rightarrow> Inl Rejected
     | Some (ClientReply (ClientStreamError e)) \<Rightarrow> Inl No_answer
     | _ \<Rightarrow> Inl Not_an_answer)"

definition connect_and_run ::
  "endpoint option \<Rightarrow> bool \<Rightarrow> client_payload incoming option \<Rightarrow> start_error + int \<times> string" where
  "connect_and_run endpoint up first =
    (case endpoint of
       None \<Rightarrow> Inl Bad_endpoint
     | Some e \<Rightarrow>
         if \<not> up then Inl No_connection
         else (case first of Some (Message payload) \<Rightarrow> auth_response_of payload | _ \<Rightarrow> Inl No_answer))"

text \<open>\<open>run_client\<close>, over the attempts to connect: one fails, or delivers lists until its stream ends. The
  waits, and the connections to the nodes.\<close>

fun run_client ::
  "(nat \<Rightarrow> f64) \<Rightarrow> backoff \<Rightarrow> (start_error + client_group list list) list \<Rightarrow> manager \<Rightarrow> nat list \<times> manager" where
  "run_client jitter b [] m = ([], m)"
| "run_client jitter b (x # rest) m =
    (let (b, m) = (case x of Inr ls \<Rightarrow> (reset_backoff b, fold reconcile ls m) | Inl e \<Rightarrow> (b, m));
         (d, b) = next_delay (jitter 0) b;
         (ds, m) = run_client (\<lambda>k. jitter (Suc k)) b rest m
     in (d # ds, m))"

section \<open>Lemmas\<close>

lemma strip_scheme_plain: "strip_prefix https s = None \<Longrightarrow> strip_scheme s = s"
  by (subst strip_scheme.simps) simp

lemma strip_prefix_append: "strip_prefix p (p @ s) = Some s"
  by (simp add: strip_prefix_Some_iff)

text \<open>A host with a port gives its name; a URL with a path, or with an IPv6 address, gives what is no name.\<close>

lemma domain_of_host:
  assumes "uri_ok (https @ host @ CHR '':'' # port)" "tls_ok host ca" "CHR '':'' \<notin> set host"
    "strip_prefix https (host @ CHR '':'' # port) = None"
  shows "controller_endpoint uri_ok tls_ok (https @ host @ CHR '':'' # port) ca =
    Some \<lparr>ep_url = https @ host @ CHR '':'' # port, ep_tls = Some (host, ca)\<rparr>"
proof -
  have "strip_scheme (https @ host @ CHR '':'' # port) = host @ CHR '':'' # port"
    by (subst strip_scheme.simps) (simp add: strip_prefix_append strip_scheme_plain assms(4))
  then show ?thesis
    using assms(1-3) by (simp add: controller_endpoint_def strip_prefix_append split_char_append)
qed

lemma domain_of_path:
  assumes "controller_endpoint uri_ok tls_ok ''https://oxi.example/'' ca = Some e"
  shows "ep_tls e = Some (''oxi.example/'', ca)"
proof -
  have "strip_scheme ''https://oxi.example/'' = ''oxi.example/''"
    by (simp add: strip_scheme.simps[of "''https://oxi.example/''"] strip_scheme.simps[of "''oxi.example/''"]
        https_def)
  then show ?thesis
    using assms by (auto simp: controller_endpoint_def https_def Let_def split: if_splits)
qed

lemma domain_of_ipv6:
  assumes "controller_endpoint uri_ok tls_ok ''https://[::1]:3100'' ca = Some e"
  shows "ep_tls e = Some (''['', ca)"
proof -
  have "strip_scheme ''https://[::1]:3100'' = ''[::1]:3100''"
    by (simp add: strip_scheme.simps[of "''https://[::1]:3100''"] strip_scheme.simps[of "''[::1]:3100''"]
        https_def)
  then show ?thesis
    using assms by (auto simp: controller_endpoint_def https_def Let_def split: if_splits)
qed

lemma accept_waits_bound: "x \<in> set (accept_waits outcomes errors) \<Longrightarrow> x \<le> 5000"
  by (induction outcomes errors rule: accept_waits.induct) (auto simp: Let_def split: if_splits)

text \<open>An outage of the controller leaves the connections to the nodes alone.\<close>

lemma run_client_manager:
  "snd (run_client jitter b attempts m) = fold reconcile (concat (map (case_sum (\<lambda>_. []) (\<lambda>ls. ls)) attempts)) m"
  by (induction jitter b attempts m rule: run_client.induct)
     (auto simp: Let_def split: sum.splits prod.splits)

lemma run_client_waits: "length (fst (run_client jitter b attempts m)) = length attempts"
  by (induction jitter b attempts m rule: run_client.induct)
     (auto simp: Let_def split: sum.splits prod.splits)

end
