(* ===== verification/NodeStartProps.thy ===== *)
theory NodeStartProps
  imports NodeStart
begin

text \<open>
  A node that comes up, and one that comes back: what the controller's end of its stream sends first
  (\<open>GrpcServices\<close>) is what it starts with, and the snapshot that follows makes its direct routes.
\<close>

section \<open>The controller's part\<close>

text \<open>A run that leaves the proxies, the streams and what was sent as they were.\<close>

definition settled :: "world \<Rightarrow> world \<Rightarrow> bool" where
  "settled w w' =
    (healthy w' \<and> db_proxies (w_db w') = db_proxies (w_db w) \<and> w_node_log w' = w_node_log w \<and>
     w_closed w' = w_closed w)"

lemma settled_refl: "healthy w \<Longrightarrow> settled w w"
  by (simp add: settled_def)

lemma settled_statements:
  "keeps (settled w) (find_one certs_t P)" "keeps (settled w) (update_row certs_t i f)"
  "keeps (settled w) (insert_row certs_t sq_certs (\<lambda>n d. d\<lparr>sq_certs := n\<rparr>) mk)"
  "keeps (settled w) (update_row nodes_t i g)"
  by (auto simp: keeps_def wp_find_one wp_update_row wp_insert_row settled_def healthy_def pop_fault_idle
      next_fault_def certs_t_def nodes_t_def split: option.splits)

lemma settled_certificate: "keeps (settled w) (node_certificate cr node)"
  unfolding node_certificate_def get_or_generate_node_certificate_def find_cert_def new_cert_def
    decode_cert_def save_cert_def Let_def
  by (auto intro!: settled_statements split: option.splits)

definition direct_rows :: "world \<Rightarrow> int \<Rightarrow> proxy_row list" where
  "direct_rows w node_id =
    filter (\<lambda>p. p_node_id p = Some node_id \<and> p_client_id p = None \<and> p_enabled p) (db_proxies (w_db w))"

definition greeting :: "cert_msg option \<Rightarrow> node_row \<Rightarrow> node_payload" where
  "greeting certificate node =
    NodeReply (RegisterResponse (n_id node) (n_name node) (n_tunnel_protocol node) (n_speed_limit node)
      (scast (n_tunnel_port node)) certificate)"

definition snapshot :: "world \<Rightarrow> int \<Rightarrow> node_payload" where
  "snapshot w node_id = SyncDirectProxies (map (\<lambda>p. config_to_grpc (proxy_config_of p)) (direct_rows w node_id))"

lemma wp_send_snapshot:
  assumes "settled w w'" "node_session w' node_id = Some s" "ss_chan s = tx" "tx \<notin> set (w_closed w')"
  shows "wp (send_direct_snapshot node_id) (\<lambda>_ w''. w_node_log w'' = w_node_log w' @ [(tx, snapshot w node_id)]) w'"
  using assms
  by (simp add: send_direct_snapshot_def nm_send_def wp_find_all settled_def healthy_def next_fault_def pop_fault_idle
      proxies_t_def node_session_def snapshot_def direct_rows_def)

text \<open>What the controller sends a node it admits.\<close>

lemma wp_admit:
  assumes "settled w0 w" "tx \<notin> set (w_closed w)"
  shows "wp (admit_node cr geo ip tx version node) (\<lambda>r w'. r = Some (n_id node) \<and>
    (\<exists>certificate. w_node_log w' = w_node_log w @ [(tx, greeting certificate node), (tx, snapshot w0 (n_id node))])) w"
proof -
  have rest: "wp (register_node_stream (n_id node) tx) (\<lambda>_. wp (send_direct_snapshot (n_id node))
      (\<lambda>_ w''. w_node_log w'' = w_node_log v @ [(tx, snapshot w0 (n_id node))])) v"
    if v: "healthy v" "db_proxies (w_db v) = db_proxies (w_db w0)" "tx \<notin> set (w_closed v)" for v
  proof -
    let ?v = "v\<lparr>w_nodes := AList.update (n_id node) \<lparr>ss_chan = tx, ss_pending = pending_new\<rparr> (w_nodes v)\<rparr>"
    have same: "snapshot v (n_id node) = snapshot w0 (n_id node)" by (simp add: snapshot_def direct_rows_def v(2))
    have "wp (nm_persist_online_status (n_id node) True) (\<lambda>_ v'. settled v v' \<and>
        node_session v' (n_id node) = Some \<lparr>ss_chan = tx, ss_pending = pending_new\<rparr>) ?v"
      using v(1) by (auto simp: nm_persist_online_status_def wp_update_row settled_def healthy_def next_fault_def
          pop_fault_idle node_session_def nodes_t_def update_conv' split: option.splits)
    then show ?thesis
      unfolding register_node_stream_def wp_bind wp_modify
      by (rule wp_mono)
         (auto intro!: wp_mono[OF wp_send_snapshot[where w = v]] simp: same v(3) settled_def)
  qed
  have registered: "wp (do { _ \<leftarrow> register_node_stream (n_id node) tx; _ \<leftarrow> send_direct_snapshot (n_id node);
        State_Monad.return (Some (n_id node)) })
      (\<lambda>r w'. r = Some (n_id node) \<and> (\<exists>certificate. w_node_log w' =
        w_node_log w @ [(tx, greeting certificate node), (tx, snapshot w0 (n_id node))]))
      (v\<lparr>w_node_log := w_node_log w @ [(tx, greeting certificate node)]\<rparr>)"
    if "settled w v" for v certificate
  proof -
    have "wp (register_node_stream (n_id node) tx) (\<lambda>_. wp (send_direct_snapshot (n_id node))
        (\<lambda>_ w''. w_node_log w'' = (w_node_log w @ [(tx, greeting certificate node)]) @ [(tx, snapshot w0 (n_id node))]))
      (v\<lparr>w_node_log := w_node_log w @ [(tx, greeting certificate node)]\<rparr>)"
      using rest[of "v\<lparr>w_node_log := w_node_log w @ [(tx, greeting certificate node)]\<rparr>"] that assms
      by (simp add: settled_def healthy_def)
    then show ?thesis
      unfolding wp_bind by (rule wp_mono, elim wp_mono) auto
  qed
  have cert: "settled w v \<Longrightarrow> wp (node_certificate cr node) (\<lambda>_. settled w) v" for v
    by (rule keepsD[OF settled_certificate])
  have meta: "wp (update_row nodes_t (n_id node) f) (\<lambda>_. settled w) w" for f
    by (rule keepsD[OF settled_statements(4)]) (use assms(1) in \<open>simp add: settled_def\<close>)
  show ?thesis
    unfolding admit_node_def wp_bind wp_utc_now
    by (rule wp_mono[OF meta], rule wp_mono[OF cert], assumption)
       (use assms(2) registered in \<open>auto simp: wp_node_answer settled_def greeting_def\<close>)
qed

section \<open>The node's part\<close>

definition fresh_node :: "(bool \<times> u16) list \<Rightarrow> node" where
  "fresh_node busy = \<lparr>nd_busy = busy, nd_domains = [], nd_listeners = [], nd_quic = [], nd_tunnel = []\<rparr>"

lemma fresh_node_ok: "node_ok (fresh_node busy)"
  by (simp add: node_ok_def shared_ok_def ports_ok_def sole_def fresh_node_def task_at_def client_tasks_def)

lemma fresh_node_stop: "stop_client_proxies [] (fresh_node busy) = fresh_node busy"
  by (simp add: fresh_node_def stop_client_proxies_def domain_stop_def client_tasks_def)

definition sent_on :: "nat \<Rightarrow> world \<Rightarrow> world \<Rightarrow> node_payload list" where
  "sent_on tx w w' = map snd (filter (\<lambda>(c, p). c = tx) (drop (length (w_node_log w)) (w_node_log w')))"

definition tunnel_kind :: "string \<Rightarrow> string" where
  "tunnel_kind protocol = (if protocol = ''kcp'' \<or> protocol = ''tcp'' then protocol else ''quic'')"

text \<open>What the database says of a node: its tunnel, its limit, its direct routes.\<close>

definition up_as :: "node_env \<Rightarrow> string \<Rightarrow> node_row \<Rightarrow> proxy_config list \<Rightarrow> agent \<Rightarrow> bool" where
  "up_as env protocol node configs a =
    (ag_rate a = unwrap_or 0 (n_speed_limit node) \<and>
     (\<exists>cert. tn_running (ag_tunnel a) = Some \<lparr>tl_protocol = tunnel_kind
          (if n_tunnel_protocol node = [] then protocol else n_tunnel_protocol node),
        tl_port = ucast (n_tunnel_port node), tl_cert = cert\<rparr>) \<and>
     (\<forall>port d. route_at (ag_node a) port d =
        map_option (direct_route (ne_url env)) (find (at_config port d) configs)))"

lemma run_server_greeted:
  assumes "\<And>c k. ne_pem env c k \<noteq> None" "\<forall>c \<in> set configs. direct_sound (ne_url env) c"
    "fits_node (fresh_node busy) configs"
  shows "\<exists>a. run_server env own busy (Some e) protocol
      [Message (Some (greeting certificate node)), Message (Some (SyncDirectProxies (map config_to_grpc configs)))] = Some a \<and>
    up_as env protocol node configs a"
proof -
  have "\<exists>cert. server_certificate env own certificate = Some cert"
    using assms(1) by (simp add: server_certificate_def split: option.split)
  then obtain cert where cert: "server_certificate env own certificate = Some cert" by blast
  have none: "client_tasks [] (fresh_node busy) = []" "\<And>port d. route_at (fresh_node busy) port d = None"
    by (simp_all add: client_tasks_def route_at_def fresh_node_def)
  have "route_at (snd (sync_direct_proxies env configs (fresh_node busy))) port d =
      map_option (direct_route (ne_url env)) (find (at_config port d) configs)" for port d
    using restore_direct_exact[OF assms(2) none(1) assms(3)]
    by (simp add: sync_direct_proxies_def fresh_node_stop none(2) split: option.split)
  then show ?thesis
    by (simp add: up_as_def run_server_def authenticate_node_def registration_of_def greeting_def start_node_def cert
        handle_controller_commands_def comp_def config_grpc_roundtrip tunnel_start_def tunnel_stop_def tunnel_kind_def
        fresh_node_def)
qed

section \<open>A node that comes up\<close>

text \<open>C8: a node that registers with its token comes up as the database has it: the tunnel listens with the
  row's protocol (its own if the row has none) on the row's port, traffic is limited as in the row, and
  once it has read what the controller sends first, its direct routes are exactly the enabled direct
  proxies of its row, each to its own upstream.\<close>

theorem started_node_serves_the_database:
  fixes configs :: "proxy_config list"
  assumes "healthy w" "tx \<notin> set (w_closed w)" "find (\<lambda>n. n_secret n = token) (db_nodes (w_db w)) = Some node"
    and "\<And>c k. ne_pem env c k \<noteq> None" "configs = map proxy_config_of (direct_rows w (n_id node))"
    and "\<forall>c \<in> set configs. direct_sound (ne_url env) c" "fits_node (fresh_node busy) configs"
  shows "wp (open_node_stream cr geo ip tx (Some (Message (Some (Register token version))))) (\<lambda>r w'.
    r = Some (n_id node) \<and>
    (\<exists>a. run_server env own busy (Some e) protocol (map (\<lambda>p. Message (Some p)) (sent_on tx w w')) = Some a \<and>
      up_as env protocol node configs a)) w"
proof -
  have snap: "snapshot w (n_id node) = SyncDirectProxies (map config_to_grpc configs)"
    by (simp add: snapshot_def assms(5) comp_def)
  have "wp (admit_node cr geo ip tx version node) (\<lambda>r w'. r = Some (n_id node) \<and>
      (\<exists>certificate. sent_on tx w w' = [greeting certificate node, snapshot w (n_id node)])) w"
    by (rule wp_mono[OF wp_admit[OF settled_refl[OF assms(1)] assms(2)]]) (auto simp: sent_on_def)
  then have "wp (admit_node cr geo ip tx version node) (\<lambda>r w'. r = Some (n_id node) \<and>
      (\<exists>a. run_server env own busy (Some e) protocol (map (\<lambda>p. Message (Some p)) (sent_on tx w w')) = Some a \<and>
        up_as env protocol node configs a)) w"
    by (rule wp_mono) (use run_server_greeted[OF assms(4,6,7), of own e protocol _ node] in \<open>auto simp: snap\<close>)
  then show ?thesis
    using assms(1,3) by (simp add: open_node_stream_def wp_find_one nodes_t_def healthy_def next_fault_def pop_fault_idle)
qed

definition web_row :: proxy_row where
  "web_row =
    \<lparr>p_id = 5, p_client_id = None, p_user_id = Some 7, p_upstream = ''http://b.io'', p_name = ''web'', p_type = ''http'',
     p_domain = ''a.io'', p_local_ip = [], p_local_port = 0, p_remote_port = 80, p_enabled = True, p_node_id = Some 1,
     p_group_id = None, p_sent = 0, p_received = 0, p_created_at = DT 0 0 2024 1, p_updated_at = DT 0 0 2024 1\<rparr>"

definition web_world :: world where
  "web_world = idle_world (empty_db\<lparr>db_nodes := [sample_node], db_proxies := [web_row]\<rparr>)"

lemma started_node_serves_the_database_witness:
  "wp (open_node_stream demo_crates (\<lambda>_. None) None 5 (Some (Message (Some (Register ''s'' ''1.0''))))) (\<lambda>r w'.
    \<exists>a. run_server plain_env ([], []) [] (Some \<lparr>ep_url = ''http://c:3100'', ep_tls = None\<rparr>) ''kcp''
        (map (\<lambda>p. Message (Some p)) (sent_on 5 web_world w')) = Some a \<and>
      map_option tl_port (tn_running (ag_tunnel a)) = Some 7000 \<and>
      route_at (ag_node a) 80 ''a.io'' = Some (direct_route (ne_url plain_env) web_proxy)) web_world"
proof -
  have rows: "map proxy_config_of (direct_rows web_world (n_id sample_node)) = [web_proxy]"
    by (simp add: direct_rows_def web_world_def web_row_def web_proxy_def sample_node_def proxy_config_of_def
        or_default_def)
  have fits: "fits_node (fresh_node []) [web_proxy]"
    by (simp add: fits_node_def fresh_node_def route_at_def kind_at_def bind_ok_def tasks_of_def)
  show ?thesis
    by (rule wp_mono, rule started_node_serves_the_database[where node = sample_node and configs = "[web_proxy]"])
       (use rows fits web_proxy_sound in \<open>auto simp: web_world_def healthy_def sample_node_def plain_env_def up_as_def
          at_config_def web_proxy_def\<close>)
qed

section \<open>A node that comes back\<close>

text \<open>The new stream replaces the old one with an empty table of requests; listeners and clients stay. A
  changed protocol restarts the tunnel on the port of the row; with the protocol unchanged it goes on as it
  was, whatever port the row has now.\<close>

lemma reconnected_link:
  "reconnect_turn tx (Inr reg) (l, a) = (l', a') \<Longrightarrow>
    l' = \<lparr>ln_chan = tx, ln_node = rg_node reg, ln_pending = pending_new\<rparr> \<and> ag_node a' = ag_node a"
  by (auto simp: reconnect_turn_def reconnect_def after_reconnect_def Let_def split: option.splits)

lemma reconnected_tunnel:
  assumes "reconnect_turn tx (Inr reg) (l, a) = (l', a')" "rg_protocol reg \<noteq> []"
  shows "tn_running (ag_tunnel a') =
    (if rg_protocol reg = tn_protocol (ag_tunnel a) then tn_running (ag_tunnel a)
     else Some \<lparr>tl_protocol = tunnel_kind (rg_protocol reg), tl_port = rg_port reg, tl_cert = tn_cert (ag_tunnel a)\<rparr>)"
  using assms
  by (auto simp: reconnect_turn_def reconnect_def after_reconnect_def switch_protocol_def update_port_def
      tunnel_start_def tunnel_stop_def tunnel_kind_def Let_def split: option.splits)

lemma failed_attempt: "reconnect_turn tx (Inl e) x = x"
  by (simp add: reconnect_turn_def reconnect_def)

section \<open>A client that connects\<close>

definition sent_to_client :: "nat \<Rightarrow> world \<Rightarrow> world \<Rightarrow> client_payload list" where
  "sent_to_client tx w w' = map snd (filter (\<lambda>(c, p). c = tx) (drop (length (w_client_log w)) (w_client_log w')))"

definition first_of :: "'p list \<Rightarrow> 'p incoming option" where
  "first_of ps = (case ps of [] \<Rightarrow> None | p # _ \<Rightarrow> Some (Message (Some p)))"

lemma wp_client_answer:
  "wp (client_answer tx p) Q w =
    (if tx \<in> set (w_closed w) then Q False w else Q True (w\<lparr>w_client_log := w_client_log w @ [(tx, p)]\<rparr>))"
  by (simp add: client_answer_def)

text \<open>A token the controller does not know, or whose client is over its quota, is rejected; otherwise the
  client learns who it is.\<close>

lemma client_learns_who_it_is:
  assumes "healthy w" "tx \<notin> set (w_closed w)"
  shows "wp (open_client_stream ip tx (Some (Message (Some (ClientAuth token version))))) (\<lambda>r w'.
    connect_and_run (Some e) True (first_of (sent_to_client tx w w')) =
      (case find (\<lambda>c. c_token c = token) (db_clients (w_db w)) of
         Some c \<Rightarrow> if c_exceeded c then Inl Rejected else Inr (c_id c, c_name c)
       | None \<Rightarrow> Inl Rejected)) w"
  using assms
  by (auto simp: open_client_stream_def wp_find_one clients_t_def healthy_def next_fault_def pop_fault_idle
      refuse_client_def admit_client_def wp_client_answer csm_register_def csm_persist_online_status_def wp_update_row
      sent_to_client_def first_of_def connect_and_run_def auth_response_of_def split: option.splits)

text \<open>While the controller cannot be reached a client keeps its connections to the nodes; afterwards they
  follow the lists it gets, the latest of which is served.\<close>

lemma outage_keeps_connections:
  assumes "\<forall>x \<in> set attempts. \<exists>e. x = Inl e"
  shows "snd (run_client jitter b attempts m) = m"
proof -
  have none: "concat (map (case_sum (\<lambda>_. []) (\<lambda>ls. ls)) attempts) = []" using assms by (induction attempts) auto
  show ?thesis unfolding run_client_manager none by simp
qed

lemma latest_list_is_served:
  assumes "manager_reach m" "distinct (map cg_node_id gs)" "g \<in> set gs" "\<forall>x \<in> set outage. \<exists>e. x = Inl e"
  shows "served (snd (run_client jitter b (attempts @ Inr (ls @ [gs]) # outage) m)) g"
proof -
  have none: "concat (map (case_sum (\<lambda>_. []) (\<lambda>ls. ls)) outage) = []" using assms(4) by (induction outage) auto
  have "manager_ok (fold reconcile (concat (map (case_sum (\<lambda>_. []) (\<lambda>ls. ls)) attempts) @ ls) m)"
    by (rule manager_reach_ok[OF fold_reconcile_reach[OF assms(1)]])
  then show ?thesis
    using reconcile_serves[OF _ assms(2,3)] unfolding run_client_manager
    by (simp del: concat_eq_Nil_conv add: none)
qed

end
