(* ===== verification/GeoIp.thy ===== *)
theory GeoIp
  imports ProxyApi
begin

text \<open>
  The place of an address (\<open>controller/src/geo_ip.rs\<close>): three services asked one after the other, each with
  its own answer, and the address a stream comes from. An answer is \<open>None\<close> when the request failed, the
  status was an error or the body did not parse.
\<close>

section \<open>Answers\<close>

record geo_info =
  gi_ip :: string
  gi_region :: string

record cz88_response =
  cz_code :: "int option"
  cz_success :: "bool option"
  cz_data :: "(string option \<times> string option) option"  \<comment> \<open>address and place\<close>

record ip_api_response =
  ia_query :: "string option"
  ia_country :: "string option"
  ia_region_name :: "string option"
  ia_city :: "string option"
  ia_status :: "string option"

record ip_sb_response =
  sb_ip :: "string option"
  sb_country :: "string option"
  sb_region :: "string option"
  sb_city :: "string option"

section \<open>Places\<close>

text \<open>The dash U+2013 in UTF-8.\<close>

definition en_dash :: string where
  "en_dash = map char_of [226 :: nat, 128, 147]"

fun replace_dash :: "string \<Rightarrow> string" where
  "replace_dash (a # b # c # s) =
    (if [a, b, c] = en_dash then CHR ''-'' # replace_dash s else a # replace_dash (b # c # s))"
| "replace_dash s = s"

fun has_part :: "string \<Rightarrow> string \<Rightarrow> bool" where
  "has_part t [] = (t = [])"
| "has_part t (c # s) = (strip_prefix t (c # s) \<noteq> None \<or> has_part t s)"

definition nonempty :: "string option \<Rightarrow> string option" where
  "nonempty x = (case x of Some s \<Rightarrow> if s = [] then None else Some s | None \<Rightarrow> None)"

definition region_part :: "string option \<Rightarrow> string \<Rightarrow> string list" where
  "region_part country region =
    (let stripped = unwrap_or region (Option.bind country (\<lambda>c. strip_prefix c region))
     in if stripped = [] then [] else [stripped])"

definition add_city :: "string \<Rightarrow> string list \<Rightarrow> string list" where
  "add_city city parts =
    (if parts \<noteq> [] \<and> (has_part city (last parts) \<or> has_part (last parts) city) then parts
     else parts @ [city])"

definition region_parts :: "string option \<Rightarrow> string option \<Rightarrow> string option \<Rightarrow> string list" where
  "region_parts country region city =
    (let parts = (case nonempty country of Some c \<Rightarrow> [c] | None \<Rightarrow> []);
         parts = (case nonempty region of Some r \<Rightarrow> parts @ region_part (nonempty country) r | None \<Rightarrow> parts)
     in case nonempty city of Some c \<Rightarrow> add_city c parts | None \<Rightarrow> parts)"

definition build_region_string :: "string option \<Rightarrow> string option \<Rightarrow> string option \<Rightarrow> string" where
  "build_region_string country region city =
    (let parts = region_parts country region city
     in if parts = [] then ''Unknown'' else join_char (CHR ''-'') parts)"

section \<open>The services\<close>

definition query_cz88 :: "cz88_response option \<Rightarrow> string \<Rightarrow> geo_info option" where
  "query_cz88 answer ip =
    (case answer of
       None \<Rightarrow> None
     | Some r \<Rightarrow>
         if cz_code r \<noteq> Some 200 \<or> cz_success r \<noteq> Some True then None
         else (case cz_data r of
                 None \<Rightarrow> None
               | Some (data_ip, geo) \<Rightarrow>
                   map_option (\<lambda>g. \<lparr>gi_ip = unwrap_or ip data_ip, gi_region = replace_dash g\<rparr>) (nonempty geo)))"

definition query_ip_api :: "ip_api_response option \<Rightarrow> string \<Rightarrow> geo_info option" where
  "query_ip_api answer ip =
    (case answer of
       None \<Rightarrow> None
     | Some r \<Rightarrow>
         if ia_status r \<noteq> Some ''success'' then None
         else Some \<lparr>gi_ip = unwrap_or ip (ia_query r),
                    gi_region = build_region_string (ia_country r) (ia_region_name r) (ia_city r)\<rparr>)"

definition query_ip_sb :: "ip_sb_response option \<Rightarrow> string \<Rightarrow> geo_info option" where
  "query_ip_sb answer ip =
    map_option (\<lambda>r. \<lparr>gi_ip = unwrap_or ip (sb_ip r),
                     gi_region = build_region_string (sb_country r) (sb_region r) (sb_city r)\<rparr>) answer"

text \<open>What each service answers about an address, if it is asked.\<close>

record geo_services =
  gs_cz88 :: "string \<Rightarrow> cz88_response option"
  gs_ip_api :: "string \<Rightarrow> ip_api_response option"
  gs_ip_sb :: "string \<Rightarrow> ip_sb_response option"

definition query_geo_ip :: "geo_services \<Rightarrow> string \<Rightarrow> geo_info option" where
  "query_geo_ip gs ip =
    (case query_cz88 (gs_cz88 gs ip) ip of
       Some info \<Rightarrow> Some info
     | None \<Rightarrow>
         (case query_ip_api (gs_ip_api gs ip) ip of
            Some info \<Rightarrow> Some info
          | None \<Rightarrow> query_ip_sb (gs_ip_sb gs ip) ip))"

section \<open>Addresses\<close>

text \<open>The header as far as it is text, and the address of the connection.\<close>

definition extract_client_ip :: "string option \<Rightarrow> string option \<Rightarrow> string option" where
  "extract_client_ip forwarded remote =
    (case forwarded of
       Some s \<Rightarrow> Some (str_trim (hd (split_char CHR '','' s)))
     | None \<Rightarrow> remote)"

definition ip_services :: "string list" where
  "ip_services = [''https://api.ipify.org'', ''https://ifconfig.me/ip'', ''https://icanhazip.com'']"

text \<open>The first service whose answer (the text of a successful one) is not blank.\<close>

fun first_ip :: "(string \<Rightarrow> string option) \<Rightarrow> string list \<Rightarrow> string option" where
  "first_ip fetch [] = None"
| "first_ip fetch (service # services) =
    (case fetch service of
       Some s \<Rightarrow> if str_trim s \<noteq> [] then Some (str_trim s) else first_ip fetch services
     | None \<Rightarrow> first_ip fetch services)"

definition get_public_ip :: "(string \<Rightarrow> string option) \<Rightarrow> string option" where
  "get_public_ip fetch = first_ip fetch ip_services"

definition query_node_geo_info ::
  "(string \<Rightarrow> string option) \<Rightarrow> geo_services \<Rightarrow> string option \<Rightarrow> geo_info option" where
  "query_node_geo_info fetch gs ip =
    Option.bind (case ip of Some i \<Rightarrow> Some i | None \<Rightarrow> get_public_ip fetch) (query_geo_ip gs)"

section \<open>Lemmas\<close>

lemma join_char_nonempty: "ws \<noteq> [] \<Longrightarrow> [] \<notin> set ws \<Longrightarrow> join_char c ws \<noteq> []"
  by (induction c ws rule: join_char.induct) auto

lemma nonempty_Some: "nonempty x = Some s \<Longrightarrow> x = Some s \<and> s \<noteq> []"
  by (auto simp: nonempty_def split: option.splits if_splits)

lemma region_parts_solid: "[] \<notin> set (region_parts country region city)"
  by (auto simp: region_parts_def region_part_def add_city_def Let_def dest!: nonempty_Some split: option.splits)

lemma region_string_nonempty: "build_region_string country region city \<noteq> []"
  using region_parts_solid by (auto simp: build_region_string_def Let_def join_char_nonempty)

lemma region_begins_with_country:
  assumes "country = Some c" "c \<noteq> []"
  shows "\<exists>s. build_region_string country region city = c @ s"
proof -
  have "\<exists>ps. region_parts country region city = c # ps"
    using assms by (auto simp: region_parts_def nonempty_def add_city_def Let_def split: option.splits)
  then obtain ps where "region_parts country region city = c # ps" by blast
  then show ?thesis by (cases ps) (simp_all add: build_region_string_def)
qed

lemma replace_dash_nonempty: "g \<noteq> [] \<Longrightarrow> replace_dash g \<noteq> []"
  by (cases g rule: replace_dash.cases) auto

text \<open>A place that is noted is never blank; a service is asked only when those before it gave none.\<close>

lemma noted_place_nonempty: "query_geo_ip gs ip = Some info \<Longrightarrow> gi_region info \<noteq> []"
  by (auto simp: query_geo_ip_def query_cz88_def query_ip_api_def query_ip_sb_def region_string_nonempty
      replace_dash_nonempty dest!: nonempty_Some split: option.splits if_splits prod.splits)

text \<open>Whoever opens a stream can name the address it is noted with.\<close>

lemma named_address_is_believed:
  "CHR '','' \<notin> set s \<Longrightarrow> extract_client_ip (Some s) remote = Some (str_trim s)"
  by (simp add: extract_client_ip_def split_char_absent)

end
