(* ===== verification/Services.thy ===== *)
theory Services
  imports CommandLine
begin

text \<open>
  Services of systemd (\<open>common/src/systemd.rs\<close>) and the commands that install, remove and read them
  (\<open>main.rs\<close> of node, client and controller). A run of \<open>systemctl\<close> is a parameter that says whether it
  succeeds with its arguments; the functions return what they had run, in order.
\<close>

section \<open>Running systemctl\<close>

text \<open>Whether the user is root, whether \<open>systemctl --version\<close> works, and the runs.\<close>

record service_host =
  sh_root :: bool
  sh_systemd :: bool
  sh_run :: "string list \<Rightarrow> bool"

definition unit_name :: "string \<Rightarrow> string" where
  "unit_name name = name @ ''.service''"

text \<open>Runs in order up to the first that fails; those marked \<open>False\<close> may fail.\<close>

fun run_all :: "service_host \<Rightarrow> (bool \<times> string list) list \<Rightarrow> bool \<times> string list list" where
  "run_all h [] = (True, [])"
| "run_all h ((needed, args) # rest) =
    (if needed \<and> \<not> sh_run h args then (False, [args])
     else case run_all h rest of (ok, runs) \<Rightarrow> (ok, args # runs))"

section \<open>Operations\<close>

text \<open>The result, the disk (directories are taken to exist or be made), and the runs.\<close>

definition install_service :: "service_host \<Rightarrow> service_config \<Rightarrow> disk \<Rightarrow> bool \<times> disk \<times> string list list" where
  "install_service h c d =
    (if \<not> sh_root h \<or> \<not> sh_systemd h then (False, d, [])
     else case write_file (unit_path (sv_name c)) (render_unit c) d of
            None \<Rightarrow> (False, d, [])
          | Some d' \<Rightarrow>
              (case run_all h [(True, [''daemon-reload'']), (False, [''stop'', unit_name (sv_name c)]),
                               (True, [''enable'', ''--now'', unit_name (sv_name c)])] of
                 (ok, runs) \<Rightarrow> (ok, d', runs)))"

text \<open>A file that cannot be removed ends the command before systemd is told.\<close>

definition uninstall_service :: "service_host \<Rightarrow> string \<Rightarrow> disk \<Rightarrow> bool \<times> disk \<times> string list list" where
  "uninstall_service h name d =
    (if \<not> sh_root h \<or> \<not> sh_systemd h then (False, d, [])
     else let disabled = [''disable'', ''--now'', unit_name name]
          in if file_exists (unit_path name) d \<and> unit_path name \<in> set (dk_unwritable d) then (False, d, [disabled])
             else case run_all h [(True, [''daemon-reload'']), (False, [''reset-failed'', unit_name name])] of
                    (ok, runs) \<Rightarrow> (ok, remove_file (unit_path name) d, disabled # runs))"

text \<open>What \<open>is-active\<close> or \<open>is-enabled\<close> prints on its two outputs, if it runs.\<close>

definition probe_text :: "(string \<times> string) option \<Rightarrow> string option" where
  "probe_text r =
    map_option (\<lambda>(out, err).
      if str_trim out = [] then (if str_trim err = [] then ''unknown'' else str_trim err) else str_trim out) r"

record systemd_status =
  ss_active :: string
  ss_enabled :: string
  ss_available :: bool

definition query_service :: "(string \<Rightarrow> string \<Rightarrow> (string \<times> string) option) \<Rightarrow> string \<Rightarrow> systemd_status" where
  "query_service ask name =
    (case (probe_text (ask ''is-active'' (unit_name name)), probe_text (ask ''is-enabled'' (unit_name name))) of
       (Some a, Some e) \<Rightarrow> \<lparr>ss_active = a, ss_enabled = e, ss_available = True\<rparr>
     | _ \<Rightarrow> \<lparr>ss_active = ''unknown'', ss_enabled = ''unknown'', ss_available = False\<rparr>)"

definition installed_log_path :: "disk \<Rightarrow> string \<Rightarrow> string option" where
  "installed_log_path d name = Option.bind (read_file (unit_path name) d) parse_unit_log_path"

definition is_installed :: "disk \<Rightarrow> string \<Rightarrow> bool" where
  "is_installed d name = file_exists (unit_path name) d"

definition start_service :: "service_host \<Rightarrow> string \<Rightarrow> bool \<times> string list list" where
  "start_service h name = (if sh_systemd h then run_all h [(True, [''start'', unit_name name])] else (False, []))"

definition stop_service :: "service_host \<Rightarrow> string \<Rightarrow> bool \<times> string list list" where
  "stop_service h name = (if sh_systemd h then run_all h [(True, [''stop'', unit_name name])] else (False, []))"

definition restart_service :: "service_host \<Rightarrow> string \<Rightarrow> bool \<times> string list list" where
  "restart_service h name =
    (if sh_systemd h then run_all h [(True, [''restart'', ''--'', unit_name name])] else (False, []))"

section \<open>The commands\<close>

text \<open>\<open>install\<close> of the node: a running daemon is stopped first, whatever comes of it.\<close>

definition node_install ::
  "service_host \<Rightarrow> (int \<Rightarrow> kill_result) \<Rightarrow> string \<Rightarrow> string \<Rightarrow> service_config \<Rightarrow> disk \<Rightarrow>
   int option \<times> bool \<times> disk \<times> string list list" where
  "node_install h kill pid_file name c d =
    (case stop_daemon_if_running kill d pid_file of
       (stopped, d') \<Rightarrow> (stopped, install_service h (c\<lparr>sv_name := name\<rparr>) d'))"

text \<open>\<open>log\<close>: the file that is read, and whether the latest of a directory is looked for.\<close>

datatype log_source = Service_log string | Log_dir string

definition log_source_of :: "disk \<Rightarrow> string option \<Rightarrow> string \<Rightarrow> log_source" where
  "log_source_of d log_dir name =
    (case log_dir of
       Some dir \<Rightarrow> Log_dir dir
     | None \<Rightarrow> (case installed_log_path d name of Some path \<Rightarrow> Service_log path | None \<Rightarrow> Log_dir ''./logs''))"

text \<open>The exit code and what is printed, up to following the file.\<close>

definition show_tail :: "disk \<Rightarrow> string \<Rightarrow> nat \<Rightarrow> int \<times> string list" where
  "show_tail d path n = (case read_file path d of Some s \<Rightarrow> (0, read_tail_lines s n) | None \<Rightarrow> (1, []))"

definition run_file :: "disk \<Rightarrow> string \<Rightarrow> nat \<Rightarrow> int \<times> string list" where
  "run_file d path n = (if file_exists path d then show_tail d path n else (1, []))"

definition run_logs :: "disk \<Rightarrow> string \<Rightarrow> string list \<Rightarrow> string \<Rightarrow> nat \<Rightarrow> int \<times> string list" where
  "run_logs d dir names prefix n =
    (case locate_latest names prefix of Some f \<Rightarrow> show_tail d (path_join dir f) n | None \<Rightarrow> (1, []))"

section \<open>Lemmas\<close>

lemma written: "write_file path s d = Some d' \<Longrightarrow> map_of (dk_files d') path = Some s"
  by (auto simp: write_file_def update_conv' split: if_splits)

lemma removed: "path \<notin> set (dk_unwritable d) \<Longrightarrow> map_of (dk_files (remove_file path d)) path = None"
  by (auto simp: remove_file_def map_of_eq_None_iff)

text \<open>While the unit file is there, \<open>start\<close> of the node hands over to systemd; \<open>run\<close>, which the unit calls,
  does not.\<close>

lemma installed_node_is_started_by_systemd:
  assumes "install_service h c d = (True, d', runs)" "option_of ''service-name'' opts = Some (sv_name c)"
    "accepts node_args ''start'' opts"
  shows "node_start (is_installed d') d' opts = Systemctl ''start'' (sv_name c) \<and>
    (\<forall>service. node_run d' opts \<noteq> Systemctl ''start'' service)"
proof -
  have "map_of (dk_files d') (unit_path (sv_name c)) \<noteq> None"
    using assms(1) written by (auto simp: install_service_def Let_def split: if_splits option.splits prod.splits)
  then have "is_installed d' (sv_name c)" by (simp add: is_installed_def file_exists_def)
  then show ?thesis
    using assms(2,3) by (auto simp: node_start_def node_run_def run_foreground_def unwrap_or_def split: option.splits)
qed

lemma uninstalled_node_serves_itself:
  assumes "uninstall_service h name d = (True, d', runs)"
  shows "\<not> is_installed d' name \<and> installed_log_path d' name = None"
proof (cases "unit_path name \<in> set (dk_unwritable d)")
  case False
  then have "map_of (dk_files d') (unit_path name) = None"
    using assms removed by (auto simp: uninstall_service_def Let_def split: if_splits prod.splits)
  then show ?thesis by (simp add: is_installed_def installed_log_path_def file_exists_def read_file_def)
next
  case True
  then have "d' = d" "\<not> file_exists (unit_path name) d"
    using assms by (auto simp: uninstall_service_def remove_file_def Let_def split: if_splits prod.splits)
  then show ?thesis by (simp add: is_installed_def installed_log_path_def file_exists_def read_file_def)
qed

end
