(* ===== verification/Programs.thy ===== *)
theory Programs
  imports Services
begin

text \<open>
  The \<open>main\<close> of the three programs on Linux (\<open>main.rs\<close> of controller, node and client): what each command
  comes to. \<open>clap\<close> has split the words into the command and its options, of which it refuses those the command
  does not have. Updating the program itself and
  resetting the password are left to \<open>Updates\<close> and \<open>Startup\<close>.
\<close>

section \<open>What a command comes to\<close>

text \<open>Serving or handing over to systemd (\<open>Does\<close>), a daemon told to end (\<open>Stopped\<close>), runs of \<open>systemctl\<close>
  (\<open>Ran\<close>), with a unit file written or removed (\<open>Changed\<close>), an exit code with what was printed (\<open>Exits\<close>).\<close>

datatype action =
    Does outcome
  | Runs_controller "string option"
  | Forks_controller string string
  | Stopped "(int option \<times> disk) option"
  | Ran "bool \<times> string list list"
  | Changed "bool \<times> disk \<times> string list list"
  | Exits int "string list"
  | Updates_itself
  | Resets_password

text \<open>What a program finds: systemd, the processes, the texts of \<open>systemctl\<close>, the names in a directory, its own
  path and working directory.\<close>

record machine_view =
  mv_host :: service_host
  mv_kill :: "int \<Rightarrow> kill_result"
  mv_ask :: "string \<Rightarrow> string \<Rightarrow> (string \<times> string) option"
  mv_names :: "string \<Rightarrow> string list"
  mv_exe :: string
  mv_dir :: string

definition active_text :: "machine_view \<Rightarrow> string \<Rightarrow> string option" where
  "active_text v name =
    (let s = query_service (mv_ask v) name in if ss_available s then Some (ss_active s) else None)"

definition lines_of :: "cli_opt list \<Rightarrow> nat" where
  "lines_of opts = unwrap_or 200 (Option.bind (option_of ''lines'' opts) (parse_unsigned (2 ^ 64 - 1)))"

definition exits :: "int \<times> string list \<Rightarrow> action" where
  "exits x = Exits (fst x) (snd x)"

section \<open>The controller\<close>

definition controller_main :: "machine_view \<Rightarrow> disk \<Rightarrow> string \<Rightarrow> cli_opt list \<Rightarrow> action option" where
  "controller_main v d command opts =
    (let service = unwrap_or ''oxiproxy-controller'' (option_of ''service-name'' opts);
         pid_file = unwrap_or ''/var/run/oxiproxy-controller.pid'' (option_of ''pid-file'' opts);
         log_dir = unwrap_or ''./logs'' (option_of ''log-dir'' opts)
     in if controller_args command \<noteq> None \<and> \<not> accepts controller_args command opts then Some (Does Refuses)
        else if command = ''start'' then Some (Runs_controller None)
        else if command = ''stop'' then Some (Stopped (stop_daemon_unix (mv_kill v) d pid_file))
        else if command = ''restart'' then Some (Ran (restart_service (mv_host v) service))
        else if command = ''daemon'' then Some (Forks_controller pid_file log_dir)
        else if command = ''update'' then Some Updates_itself
        else if command = ''passwd'' then Some Resets_password
        else if command = ''status'' then
          Some (Exits (print_status (mv_kill v) d pid_file (active_text v service)) [])
        else if command = ''log'' then
          Some (exits (run_logs d log_dir (mv_names v log_dir) ''controller.log'' (lines_of opts)))
        else if command = ''install'' then
          Some (Changed (install_service (mv_host v)
            (controller_service (mv_exe v) service (unwrap_or (mv_dir v) (option_of ''working-dir'' opts))
              (option_of ''user'' opts)) d))
        else if command = ''uninstall'' then Some (Changed (uninstall_service (mv_host v) service d))
        else None)"

section \<open>The node\<close>

definition show_log :: "machine_view \<Rightarrow> disk \<Rightarrow> string \<Rightarrow> string \<Rightarrow> cli_opt list \<Rightarrow> action" where
  "show_log v d prefix service opts =
    (case log_source_of d (option_of ''log-dir'' opts) service of
       Service_log path \<Rightarrow> exits (run_file d path (lines_of opts))
     | Log_dir dir \<Rightarrow> exits (run_logs d dir (mv_names v dir) prefix (lines_of opts)))"

definition node_main :: "machine_view \<Rightarrow> disk \<Rightarrow> string \<Rightarrow> cli_opt list \<Rightarrow> action option" where
  "node_main v d command opts =
    (let service = unwrap_or ''oxiproxy-node'' (option_of ''service-name'' opts);
         pid_file = unwrap_or ''/var/run/oxiproxy-node.pid'' (option_of ''pid-file'' opts)
     in if node_args command \<noteq> None \<and> \<not> accepts node_args command opts then Some (Does Refuses)
        else if command = ''start'' then
          Some (if is_installed d service then Ran (start_service (mv_host v) service)
                else Does (node_start (is_installed d) d opts))
        else if command = ''run'' then Some (Does (node_run d opts))
        else if command = ''stop'' then
          Some (if is_installed d service then Ran (stop_service (mv_host v) service)
                else Stopped (stop_daemon_unix (mv_kill v) d pid_file))
        else if command = ''restart'' then Some (Ran (restart_service (mv_host v) service))
        else if command = ''daemon'' then Some (Does (node_daemon d opts))
        else if command = ''update'' then Some Updates_itself
        else if command = ''install'' then
          (case (option_of ''controller-url'' opts, option_of ''token'' opts) of
             (Some url, Some token) \<Rightarrow>
               Some (Changed (snd (node_install (mv_host v) (mv_kill v) pid_file service
                 (node_service (mv_exe v) service (unwrap_or (mv_dir v) (option_of ''working-dir'' opts))
                   (option_of ''user'' opts) (node_options url token opts)) d)))
           | _ \<Rightarrow> Some (Does Refuses))
        else if command = ''uninstall'' then Some (Changed (uninstall_service (mv_host v) service d))
        else if command = ''status'' then
          Some (Exits (print_status (mv_kill v) d pid_file (active_text v service)) [])
        else if command = ''log'' then Some (show_log v d ''node.log'' service opts)
        else None)"

section \<open>The client\<close>

definition client_main :: "machine_view \<Rightarrow> disk \<Rightarrow> string \<Rightarrow> cli_opt list \<Rightarrow> action option" where
  "client_main v d command opts =
    (let service = unwrap_or ''oxiproxy-client'' (option_of ''service-name'' opts);
         pid_file = unwrap_or ''/var/run/oxiproxy-client.pid'' (option_of ''pid-file'' opts)
     in if client_args command \<noteq> None \<and> \<not> accepts client_args command opts then Some (Does Refuses)
        else if command = ''start'' then
          Some (if is_installed d service then Ran (start_service (mv_host v) service)
                else Does (client_start (is_installed d) d opts))
        else if command = ''run'' then Some (Does (client_run d opts))
        else if command = ''stop'' then
          Some (if is_installed d service then Ran (stop_service (mv_host v) service)
                else Stopped (stop_daemon_unix (mv_kill v) d pid_file))
        else if command = ''restart'' then Some (Ran (restart_service (mv_host v) service))
        else if command = ''daemon'' then Some (Does (client_daemon d opts))
        else if command = ''update'' then Some Updates_itself
        else if command = ''install'' then
          (case (option_of ''controller-url'' opts, option_of ''token'' opts) of
             (Some url, Some token) \<Rightarrow>
               Some (Changed (snd (node_install (mv_host v) (mv_kill v) pid_file service
                 (client_service (mv_exe v) service (unwrap_or (mv_dir v) (option_of ''working-dir'' opts))
                   (option_of ''user'' opts) (client_options url token opts)) d)))
           | _ \<Rightarrow> Some (Does Refuses))
        else if command = ''uninstall'' then Some (Changed (uninstall_service (mv_host v) service d))
        else if command = ''status'' then
          Some (Exits (print_status (mv_kill v) d pid_file (active_text v service)) [])
        else if command = ''log'' then Some (show_log v d ''client.log'' service opts)
        else None)"

section \<open>Lemmas\<close>

text \<open>Every command of the controller's command line is handled, and nothing else.\<close>

lemma controller_commands_exact:
  "controller_main v d command opts \<noteq> None \<longleftrightarrow> command \<in> set controller_commands"
  by (simp add: controller_main_def controller_commands_def controller_args_def Let_def)

text \<open>Once a node is installed, its own commands are carried out by systemd until it is uninstalled: \<open>start\<close>
  and \<open>stop\<close> act on the unit, and \<open>log\<close> reads the file the unit writes to.\<close>

lemma installed_node_commands:
  assumes "node_main v d ''install'' opts = Some (Changed (True, d', runs))"
  defines "service \<equiv> unwrap_or ''oxiproxy-node'' (option_of ''service-name'' opts)"
  defines "named \<equiv> [\<lparr>co_name = ''service-name'', co_value = service, co_joined = True\<rparr>]"
  shows "\<exists>ok ok'. node_main v d' ''start'' named = Some (Ran (ok, [[''start'', unit_name service]])) \<and>
    node_main v d' ''stop'' named = Some (Ran (ok', [[''stop'', unit_name service]]))"
proof -
  obtain c d0 where c: "install_service (mv_host v) (c\<lparr>sv_name := service\<rparr>) d0 = (True, d', runs)"
    using assms(1) by (auto simp: node_main_def node_install_def service_def Let_def split: option.splits prod.splits if_splits)
  then have "map_of (dk_files d') (unit_path service) \<noteq> None" "sh_systemd (mv_host v)"
    using written by (auto simp: install_service_def Let_def split: if_splits option.splits prod.splits)
  moreover have "accepts node_args ''start'' named" "accepts node_args ''stop'' named" "option_of ''service-name'' named = Some service"
    by (simp_all add: accepts_def node_args_def service_command_args_def named_def value_accepted_def option_of_def)
  ultimately show ?thesis
    by (auto simp: node_main_def is_installed_def file_exists_def start_service_def stop_service_def unwrap_or_def Let_def)
qed

end
