(* ===== verification/ServerSettings.thy ===== *)
theory ServerSettings
  imports Settings
begin

text \<open>
  The settings of a node (\<open>node/src/server/config_manager.rs\<close>): a table in memory, its readers with the
  default of the caller, and what they give the server (\<open>ProxyServer::run\<close>, \<open>proxy_server.rs\<close>). The values
  are those of the controller's settings (\<open>config_value\<close>), which the two programs declare alike.
\<close>

section \<open>The table\<close>

type_synonym server_settings = "(string \<times> config_value) list"

definition new_settings :: server_settings where
  "new_settings = []"

definition settings_get :: "server_settings \<Rightarrow> string \<Rightarrow> config_value option" where
  "settings_get s key = map_of s key"

definition settings_number :: "server_settings \<Rightarrow> string \<Rightarrow> i64 \<Rightarrow> i64" where
  "settings_number s key dflt = unwrap_or dflt (Option.bind (settings_get s key) as_i64)"

definition settings_float :: "server_settings \<Rightarrow> string \<Rightarrow> f64 \<Rightarrow> f64" where
  "settings_float s key dflt = unwrap_or dflt (Option.bind (settings_get s key) as_f64)"

definition settings_string :: "server_settings \<Rightarrow> string \<Rightarrow> string \<Rightarrow> string" where
  "settings_string s key dflt = unwrap_or dflt (Option.bind (settings_get s key) as_string)"

definition settings_bool :: "server_settings \<Rightarrow> string \<Rightarrow> bool \<Rightarrow> bool" where
  "settings_bool s key dflt = unwrap_or dflt (Option.bind (settings_get s key) as_bool)"

definition settings_set :: "string \<Rightarrow> config_value \<Rightarrow> server_settings \<Rightarrow> server_settings" where
  "settings_set key v s = AList.update key v s"

section \<open>What the server takes from it\<close>

text \<open>The transport of QUIC; a number is cast to the width of its use.\<close>

record transport_settings =
  ts_idle_timeout :: u64
  ts_max_streams :: u32
  ts_keep_alive :: u64

definition transport_settings_of :: "server_settings \<Rightarrow> transport_settings" where
  "transport_settings_of s =
    \<lparr>ts_idle_timeout = settings_number s ''idle_timeout'' 60,
     ts_max_streams = ucast (settings_number s ''max_concurrent_streams'' 100),
     ts_keep_alive = settings_number s ''keep_alive_interval'' 5\<rparr>"

definition health_check_interval :: "server_settings \<Rightarrow> u64" where
  "health_check_interval s = settings_number s ''health_check_interval'' 15"

section \<open>Lemmas\<close>

text \<open>A value that is set is read by the reader of its kind, and by no reader of another kind.\<close>

lemma settings_get_set: "settings_get (settings_set k v s) key = (if key = k then Some v else settings_get s key)"
  by (simp add: settings_get_def settings_set_def update_conv')

lemma set_number_is_read: "settings_number (settings_set k (VNumber n) s) k dflt = n"
  by (simp add: settings_number_def settings_get_set unwrap_or_def)

lemma set_text_is_no_number: "settings_number (settings_set k (VString t) s) k dflt = dflt"
  by (simp add: settings_number_def settings_get_set unwrap_or_def)

text \<open>Nothing sets a value, so a node always runs with the defaults.\<close>

lemma server_defaults:
  "transport_settings_of new_settings = \<lparr>ts_idle_timeout = 60, ts_max_streams = 100, ts_keep_alive = 5\<rparr>"
  "health_check_interval new_settings = 15"
  by (simp_all add: transport_settings_of_def health_check_interval_def settings_number_def settings_get_def
      new_settings_def unwrap_or_def)

end
