(* ===== verification/CertNames.thy ===== *)
theory CertNames
  imports Certificates
begin

text \<open>
  The names in a node's certificate (\<open>controller/src/cert_generator.rs\<close>): the common name keeps the node's
  name, the DNS name must be ASCII. Making the key and signing are parameters.
\<close>

section \<open>Operations\<close>

text \<open>Names are UTF-8; a character of several bytes begins with one of them and goes on with others.\<close>

definition continues_char :: "char \<Rightarrow> bool" where
  "continues_char c = (let n = (of_char c :: nat) in 128 \<le> n \<and> n < 192)"

definition dns_char :: "char \<Rightarrow> bool" where
  "dns_char c = (is_alnum c \<or> c = CHR ''-'' \<or> c = CHR ''.'')"

definition sanitize_dns_san :: "string \<Rightarrow> string" where
  "sanitize_dns_san input =
    (let s = map (\<lambda>c. if dns_char c then c else CHR ''-'') (filter (\<lambda>c. \<not> continues_char c) input)
     in if s = [] then ''oxiproxy-node'' else s)"

text \<open>\<open>sign san cn days\<close> gives the certificate, its key and its fingerprint, or an error.\<close>

definition generate_self_signed_certificate ::
  "(string \<Rightarrow> string \<Rightarrow> nat \<Rightarrow> any_err + string \<times> string \<times> string) \<Rightarrow> string \<Rightarrow> nat \<Rightarrow> any_err + string \<times> string \<times> string" where
  "generate_self_signed_certificate sign common_name validity_days =
    sign (sanitize_dns_san common_name) common_name validity_days"

definition generate_node_certificate ::
  "(string \<Rightarrow> string \<Rightarrow> nat \<Rightarrow> any_err + string \<times> string \<times> string) \<Rightarrow> int \<Rightarrow> string \<Rightarrow> any_err + string \<times> string \<times> string" where
  "generate_node_certificate sign node_id node_name =
    generate_self_signed_certificate sign (''oxiproxy-node-'' @ int_str node_id @ ''-'' @ node_name) 3650"

text \<open>The crates of \<open>Certificates\<close> with this generator.\<close>

definition with_generator ::
  "(string \<Rightarrow> string \<Rightarrow> nat \<Rightarrow> any_err + string \<times> string \<times> string) \<Rightarrow> cert_crates \<Rightarrow> cert_crates" where
  "with_generator sign cr = cr\<lparr>cr_generate := generate_node_certificate sign\<rparr>"

section \<open>Lemmas\<close>

lemma sanitized_is_dns: "list_all dns_char (sanitize_dns_san input)"
proof -
  have "list_all dns_char ''oxiproxy-node''" "dns_char CHR ''-''" by code_simp+
  then show ?thesis by (auto simp: sanitize_dns_san_def Let_def list_all_iff)
qed

lemma sanitized_nonempty: "sanitize_dns_san input \<noteq> []"
  by (simp add: sanitize_dns_san_def Let_def)

lemma sanitized_same:
  assumes "list_all dns_char input" "input \<noteq> []"
  shows "sanitize_dns_san input = input"
proof -
  have ascii: "\<not> continues_char c" if "dns_char c" for c
    using that by (auto simp: dns_char_def continues_char_def is_alnum_def is_digit_def is_upper_def is_lower_def Let_def)
  have "filter (\<lambda>c. \<not> continues_char c) input = input"
    using assms(1) ascii by (auto simp: filter_id_conv list_all_iff)
  moreover have "map (\<lambda>c. if dns_char c then c else CHR ''-'') input = input"
    using assms(1) by (simp add: map_idI list_all_iff)
  ultimately show ?thesis using assms(2) by (simp add: sanitize_dns_san_def)
qed

text \<open>A certificate that rotates is issued under the node's number and name, whatever characters these
  have; if signing accepts every name of DNS characters, no node's name makes it fail.\<close>

lemma any_name_gets_a_certificate:
  assumes "\<And>san cn days. list_all dns_char san \<Longrightarrow> san \<noteq> [] \<Longrightarrow> \<exists>x. sign san cn days = Inr x"
  shows "\<exists>x. cr_generate (with_generator sign cr) node_id node_name = Inr x"
  using assms[OF sanitized_is_dns sanitized_nonempty]
  by (simp add: with_generator_def generate_node_certificate_def generate_self_signed_certificate_def)

end
