(* ===== verification/CertCheck.thy ===== *)
theory CertCheck
  imports ClientProgram CertNames
begin

text \<open>
  How a QUIC client judges a node's certificate (\<open>common/src/tunnel/quic.rs\<close>): by its fingerprint, the hex
  form of its SHA-256, which the controller computes when it makes the certificate. Parsing PEM, SHA-256,
  the issuing of a certificate and the check against public authorities are parameters.
\<close>

section \<open>Fingerprints\<close>

definition hex_digit :: "nat \<Rightarrow> char" where
  "hex_digit n = ''0123456789abcdef'' ! n"

fun hex_encode :: "string \<Rightarrow> string" where
  "hex_encode [] = []"
| "hex_encode (c # cs) = hex_digit (of_char c div 16) # hex_digit (of_char c mod 16) # hex_encode cs"

definition calculate_fingerprint :: "(string \<Rightarrow> string) \<Rightarrow> string \<Rightarrow> string" where
  "calculate_fingerprint sha256 cert = ''sha256:'' @ hex_encode (sha256 cert)"

text \<open>\<open>pem_certs\<close> lists the certificates of a PEM text, an error where one cannot be decoded.\<close>

definition calculate_cert_fingerprint_from_pem ::
  "(string \<Rightarrow> (any_err + string) list) \<Rightarrow> (string \<Rightarrow> string) \<Rightarrow> string \<Rightarrow> any_err + string" where
  "calculate_cert_fingerprint_from_pem pem_certs sha256 cert_pem =
    (case pem_certs cert_pem of
       [] \<Rightarrow> Inl (E_msg (M_text ''no certificate''))
     | Inl e # _ \<Rightarrow> Inl e
     | Inr cert # _ \<Rightarrow> Inr (calculate_fingerprint sha256 cert))"

text \<open>
  \<open>issue san cn days\<close> gives a certificate and its key in PEM. The generator of \<open>CertNames\<close> takes the
  fingerprint of what was issued.
\<close>

definition sign_issued ::
  "(string \<Rightarrow> (any_err + string) list) \<Rightarrow> (string \<Rightarrow> string) \<Rightarrow>
   (string \<Rightarrow> string \<Rightarrow> nat \<Rightarrow> any_err + string \<times> string) \<Rightarrow>
   string \<Rightarrow> string \<Rightarrow> nat \<Rightarrow> any_err + string \<times> string \<times> string" where
  "sign_issued pem_certs sha256 issue san cn days =
    (case issue san cn days of
       Inl e \<Rightarrow> Inl e
     | Inr (cert_pem, key_pem) \<Rightarrow>
         (case calculate_cert_fingerprint_from_pem pem_certs sha256 cert_pem of
            Inl e \<Rightarrow> Inl e
          | Inr fingerprint \<Rightarrow> Inr (cert_pem, key_pem, fingerprint)))"

section \<open>Verification\<close>

text \<open>
  The verifier the connector installs for each mode, and its verdict on the certificate a server shows;
  \<open>connect\<close> always asks for the name \<open>oxiproxy\<close>, which only public authorities are asked about.
\<close>

definition unknown_issuer :: any_err where
  "unknown_issuer = E_msg (M_text ''unknown issuer'')"

definition verify_fingerprint :: "(string \<Rightarrow> string) \<Rightarrow> string set \<Rightarrow> string \<Rightarrow> any_err + unit" where
  "verify_fingerprint sha256 allowed_fingerprints end_entity =
    (if calculate_fingerprint sha256 end_entity \<in> allowed_fingerprints then Inr () else Inl unknown_issuer)"

definition verify_server_cert ::
  "(string \<Rightarrow> string) \<Rightarrow> (string \<Rightarrow> string \<Rightarrow> any_err + unit) \<Rightarrow> verification \<Rightarrow> string \<Rightarrow> any_err + unit" where
  "verify_server_cert sha256 system_ca mode end_entity =
    (case mode of
       SkipVerification \<Rightarrow> Inr ()
     | Fingerprint fingerprints \<Rightarrow> verify_fingerprint sha256 fingerprints end_entity
     | SystemCA \<Rightarrow> system_ca ''oxiproxy'' end_entity)"

section \<open>Lemmas\<close>

lemma hex_digit_inj: "m < 16 \<Longrightarrow> n < 16 \<Longrightarrow> hex_digit m = hex_digit n \<longleftrightarrow> m = n"
proof -
  assume "m < 16" "n < 16"
  moreover have "distinct ''0123456789abcdef''" "length ''0123456789abcdef'' = 16" by code_simp+
  ultimately show ?thesis unfolding hex_digit_def by (metis nth_eq_iff_index_eq)
qed

lemma byte_halves: "(of_char c :: nat) div 16 < 16" "(of_char c :: nat) mod 16 < 16"
proof -
  have "(of_char c :: nat) < 256" by (metis of_char_mod_256 mod_less_divisor zero_less_numeral)
  then show "(of_char c :: nat) div 16 < 16" by (simp add: less_mult_imp_div_less)
qed simp

lemma hex_encode_length [simp]: "length (hex_encode xs) = 2 * length xs"
  by (induction xs) simp_all

lemma hex_encode_eq [simp]: "hex_encode xs = hex_encode ys \<longleftrightarrow> xs = ys"
proof (induction xs arbitrary: ys)
  case Nil
  then show ?case by (cases ys) simp_all
next
  case (Cons x xs)
  show ?case
  proof (cases ys)
    case (Cons y zs)
    have "(of_char x :: nat) div 16 = of_char y div 16 \<and> (of_char x :: nat) mod 16 = of_char y mod 16 \<longleftrightarrow> x = y"
      by (metis div_mult_mod_eq of_char_eq_iff)
    then show ?thesis using Cons Cons.IH [of zs] by (auto simp: hex_digit_inj byte_halves)
  qed simp
qed

lemma fingerprint_eq: "calculate_fingerprint sha256 c = calculate_fingerprint sha256 c' \<longleftrightarrow> sha256 c = sha256 c'"
  by (simp add: calculate_fingerprint_def)

text \<open>
  The certificate the controller makes for a node has the fingerprint a client looks for: with that
  fingerprint alone, the client accepts exactly the certificates whose SHA-256 is that of the node's.
\<close>

lemma issued_fingerprint:
  assumes "generate_node_certificate (sign_issued pem_certs sha256 issue) node_id node_name = Inr (cert_pem, key_pem, fp)"
  obtains cert rest where "pem_certs cert_pem = Inr cert # rest" "fp = calculate_fingerprint sha256 cert"
  using assms
  by (auto simp: generate_node_certificate_def generate_self_signed_certificate_def sign_issued_def
      calculate_cert_fingerprint_from_pem_def split: sum.splits list.splits prod.splits)

lemma issued_certificate_is_recognised:
  assumes "generate_node_certificate (sign_issued pem_certs sha256 issue) node_id node_name = Inr (cert_pem, key_pem, fp)"
    "pem_certs cert_pem = Inr cert # rest"
  shows "verify_server_cert sha256 ca (Fingerprint {fp}) c = Inr () \<longleftrightarrow> sha256 c = sha256 cert"
  using assms(2)
  by (auto intro: issued_fingerprint [OF assms(1)] simp: verify_server_cert_def verify_fingerprint_def fingerprint_eq)

text \<open>
  What a task of the client accepts: any certificate when the controller sent no fingerprint (the node has no
  row of a certificate), else those on the list.
\<close>

lemma quic_task_accepts:
  assumes "connector_of t = QuicConnector mode"
  shows "verify_server_cert sha256 ca mode c = Inr () \<longleftrightarrow>
    st_fingerprints t = [] \<or> calculate_fingerprint sha256 c \<in> set (st_fingerprints t)"
  using assms
  by (auto simp: connector_of_def verify_server_cert_def verify_fingerprint_def
      split: tunnel_protocol.splits if_splits)

text \<open>The public authorities are never asked.\<close>

lemma never_system_ca: "connector_of t \<noteq> QuicConnector SystemCA"
  by (simp add: connector_of_def split: tunnel_protocol.split)

lemma sample_fingerprint: "calculate_fingerprint id ''Ok'' = ''sha256:4f6b''"
  by code_simp

section \<open>From the controller to the client\<close>

text \<open>C35: rotating a node's certificate, without database faults, gives the node a certificate that exactly fits
  what the controller then tells clients: after the next list a client gets, however it was connected before, the
  task of the node accepts, if it uses QUIC (a client that was not connected dials as the node's row says), the certificate that was issued and none with another SHA-256; public
  authorities are not asked.\<close>

theorem clients_accept_the_issued_certificate:
  assumes "healthy w" "certs_inv (w_db w)"
    and issued: "generate_node_certificate (sign_issued pem_certs sha256 issue) (n_id node) name = Inr (cert, key, fp)"
    and der: "pem_certs cert = Inr der # rest"
    and "manager_reach m" "distinct (map n_id (db_nodes (w_db w)))" "node \<in> set (db_nodes (w_db w))"
    and "p \<in> set (client_proxies (w_db w) i)" "p_node_id p = Some (n_id node)"
    and "read_ipv4 (n_tunnel_addr node) = Some []"
  shows "wp (force_update_node_certificate (with_generator (sign_issued pem_certs sha256 issue) cr) (n_id node) name)
    (\<lambda>r w'. (\<exists>x. r = Inr x \<and> cd_cert x = cert \<and> cd_key x = key) \<and>
      (\<exists>c. conn_of (reconcile (convert_server_groups (client_groups kcp_of (w_db w') i)) m) (n_id node) = Some c \<and>
        (let t = task_of (reconcile (convert_server_groups (client_groups kcp_of (w_db w') i)) m) c
         in \<not> st_cancelled t \<and> \<not> st_finished t \<and> (conn_of m (n_id node) = None \<longrightarrow> dials kcp_of node t) \<and>
            (st_protocol t = Quic \<longrightarrow>
              (\<exists>mode. connector_of t = QuicConnector mode \<and>
                (\<forall>ca shown. verify_server_cert sha256 ca mode shown = Inr () \<longleftrightarrow> sha256 shown = sha256 der)))))) w"
proof -
  let ?cr = "with_generator (sign_issued pem_certs sha256 issue) cr"
  have fp: "fp = calculate_fingerprint sha256 der"
    using der by (auto intro: issued_fingerprint[OF issued])
  have gen: "cr_generate ?cr (n_id node) name = Inr (cert, key, fp)"
    by (simp add: with_generator_def issued)
  have row: "has_row n_id (n_id node) (db_nodes (w_db w))"
    using assms(7) by (auto simp: has_row_def list_ex_iff)
  have client: "\<exists>c. conn_of (reconcile (convert_server_groups (client_groups kcp_of (w_db w') i)) m) (n_id node) = Some c \<and>
        (let t = task_of (reconcile (convert_server_groups (client_groups kcp_of (w_db w') i)) m) c
         in \<not> st_cancelled t \<and> \<not> st_finished t \<and> (conn_of m (n_id node) = None \<longrightarrow> dials kcp_of node t) \<and>
            (st_protocol t = Quic \<longrightarrow>
              (\<exists>mode. connector_of t = QuicConnector mode \<and>
                (\<forall>ca shown. verify_server_cert sha256 ca mode shown = Inr () \<longleftrightarrow> sha256 shown = sha256 der))))"
    if nodes: "db_nodes (w_db w') = db_nodes (w_db w)" "db_proxies (w_db w') = db_proxies (w_db w)"
      and k: "cert_of (w_db w') (n_id node) = Some k" "k_fingerprint k = fp" for w' k
  proof -
    let ?g = "pushed_group kcp_of (w_db w') i node"
    have d: "distinct (map n_id (db_nodes (w_db w')))" "node \<in> set (db_nodes (w_db w'))"
      "p \<in> set (client_proxies (w_db w') i)"
      using assms(6-8) nodes by (simp_all add: client_proxies_def)
    from pushed_serving[OF assms(5) d assms(9,10)] obtain c where
      c: "conn_of (reconcile (convert_server_groups (client_groups kcp_of (w_db w') i)) m) (n_id node) = Some c"
      and s: "served (reconcile (convert_server_groups (client_groups kcp_of (w_db w') i)) m) ?g"
      and t: "task_of (reconcile (convert_server_groups (client_groups kcp_of (w_db w') i)) m) c = serving m ?g" .
    have "serving m ?g = spawned ?g" if "conn_of m (n_id node) = None"
      using that by (simp add: serving_def needs_reconnect_def conn_of_def)
    moreover have "connector_of t = QuicConnector (Fingerprint {fp})"
      if "st_fingerprints t = [fp]" "st_protocol t = Quic" for t
      using that by (simp add: connector_of_def)
    ultimately show ?thesis
      using c s k t spawned_dials[of kcp_of node "w_db w'" i] by (auto simp: served_def trusted_def Let_def verify_server_cert_def verify_fingerprint_def fp
          fingerprint_eq)
  qed
  show ?thesis
    unfolding force_update_node_certificate_def gen wp_and_then wp_lift_sum sum.case
    by (rule wp_mono[OF wp_save_cert[OF assms(1,2) refl row]]) (use client in auto)
qed

definition demo_issue :: "string \<Rightarrow> string \<Rightarrow> nat \<Rightarrow> any_err + string \<times> string" where
  "demo_issue san cn days = Inr (''cert of '' @ cn, ''key'')"

definition demo_pem :: "string \<Rightarrow> (any_err + string) list" where
  "demo_pem text = [Inr (drop 8 text)]"

lemma clients_accept_the_issued_certificate_witness:
  "wp (force_update_node_certificate (with_generator (sign_issued demo_pem id demo_issue) demo_crates) 1 ''n1'')
    (\<lambda>r w'. \<exists>c mode. conn_of (reconcile (convert_server_groups (client_groups (\<lambda>_. None) (w_db w') 3)) new_manager) 1 = Some c \<and>
       connector_of (task_of (reconcile (convert_server_groups (client_groups (\<lambda>_. None) (w_db w') 3)) new_manager) c) =
         QuicConnector mode \<and>
       (\<forall>shown. verify_server_cert id (\<lambda>_ _. Inr ()) mode shown = Inr () \<longleftrightarrow> shown = ''oxiproxy-node-1-n1''))
    (idle_world (with_proxy shop_db shop_proxy))"
proof -
  let ?d = "with_proxy shop_db shop_proxy"
  have p: "distinct (map n_id (db_nodes ?d))" "sample_node \<in> set (db_nodes ?d)"
    "shop_proxy \<in> set (client_proxies ?d 3)" "p_node_id shop_proxy = Some (n_id sample_node)"
    "read_ipv4 (n_tunnel_addr sample_node) = Some []"
    by (simp_all add: with_proxy_def shop_db_def client_proxies_def shop_proxy_def new_proxy_row_def shop_request_def
        sample_node_def read_ipv4_def read_octet_def read_char_def is_digit_def parse_digits_def)
  have w: "healthy (idle_world ?d)" "certs_inv (w_db (idle_world ?d))"
    by (simp_all add: healthy_def certs_inv_def with_proxy_def shop_db_def)
  have one: "int_str 1 = ''1''" by code_simp
  have issued: "generate_node_certificate (sign_issued demo_pem id demo_issue) (n_id sample_node) ''n1'' =
      Inr (''cert of oxiproxy-node-1-n1'', ''key'', calculate_fingerprint id ''oxiproxy-node-1-n1'')"
    by (simp add: generate_node_certificate_def generate_self_signed_certificate_def sign_issued_def demo_issue_def
        demo_pem_def calculate_cert_fingerprint_from_pem_def sample_node_def one)
  have der: "demo_pem ''cert of oxiproxy-node-1-n1'' = Inr ''oxiproxy-node-1-n1'' # []" by (simp add: demo_pem_def)
  have n: "n_id sample_node = 1" "n_tunnel_protocol sample_node = ''quic''" by (simp_all add: sample_node_def)
  have none: "conn_of new_manager 1 = None" by (simp add: conn_of_def new_manager_def)
  show ?thesis
    by (rule wp_mono, rule clients_accept_the_issued_certificate[OF w issued der NoConnections, unfolded idle_world_sel,
        OF p, of demo_crates "\<lambda>_. None", unfolded n(1)])
      (use none in \<open>force simp: Let_def dials_def n protocol_of_def\<close>)
qed

end
