(* ===== verification/Spec2Isabelle.thy ===== *)
theory Spec2Isabelle
  imports Domain Pending Ports GroupProps TrafficOverview Notify SubscriptionProps SettingsProps AuthApi
    NodeQuestions HttpProxy TunnelStreams ClientLoop YamuxDriver MigrationProps RebuildProps StartupProps
    CommandProps UpdateProps NodeStartProps GeoIp Programs ServerSettings CertCheck
begin

text \<open>
  A model of OxiProxy, a reverse-tunnel system: a controller with a database and a REST API, nodes
  that listen on public ports, and clients behind NAT whose services the nodes expose. Nodes and
  clients hold gRPC streams to the controller; the controller tells a node which proxies to listen
  for and a client which proxies it has, and counts the traffic nodes report. A client keeps a tunnel
  to each of its nodes; a node asks the controller about every client, and opens a stream of the
  tunnel for every connection to one of the client's ports.

  The development follows the three programs: the controller (\<open>controller/src\<close>), the node
  (\<open>node/src/server\<close>) and the client (\<open>client/src/client\<close>), with what they share (\<open>common/src\<close>).

  Theories, in the order of their imports:
  \<^item> \<open>Rust_Prelude\<close>, \<open>Rust_Str\<close>, \<open>Rust_Float\<close>: machine integers, tables as lists of rows, weakest
    preconditions over the state monad; byte strings and their parsing; \<open>f64\<close>.
  \<^item> \<open>Domain\<close> (\<open>common/src/domain.rs\<close>): normal forms of domain names and wildcards, route lookup,
    the conflict rule. \<open>Ports\<close> (\<open>controller/src/port_limiter.rs\<close>, \<open>common/src/upstream.rs\<close>): the
    syntax of port ranges and the checks on an upstream origin.
  \<^item> \<open>Pending\<close> (\<open>common/src/grpc/pending_requests.rs\<close>): requests waiting for responses, as a
    step relation with its invariant.
  \<^item> \<open>Entities\<close> (\<open>controller/src/entity\<close>), \<open>World\<close>: rows, the database with the unique keys and the
    foreign keys of its migrations, the clock, the streams and the environment; statements with
    failures. \<open>Http\<close> (\<open>api/handlers/mod.rs\<close>), \<open>Control\<close>, \<open>Handlers\<close>: responses, ownership, early
    returns, and the locale \<open>proxy_controller\<close> for the trait \<open>ProxyControl\<close>.
  \<^item> \<open>Quota\<close> (\<open>subscription_quota.rs\<close>), \<open>ProxyLimits\<close> (\<open>port_limiter.rs\<close>, \<open>node_limiter.rs\<close>).
  \<^item> \<open>Sessions\<close> (locale \<open>session_registry\<close>), \<open>NodeManager\<close> (\<open>node_manager.rs\<close>), \<open>Certificates\<close>
    (\<open>certificate_manager.rs\<close>), \<open>ClientStreams\<close> (\<open>client_stream_manager.rs\<close>).
  \<^item> \<open>ProxyApi\<close>, \<open>ProxyGroups\<close>: every handler of \<open>api/handlers/proxy.rs\<close>, one definition per stage,
    composed as the code composes them; \<open>ProxyRules\<close>, \<open>GroupRules\<close>: their effect lemmas, proved over
    any \<open>proxy_controller\<close>; \<open>ProxyProps\<close>, \<open>GroupProps\<close>: the properties, for the node manager.
  \<^item> \<open>TrafficLimits\<close> (\<open>traffic_limiter.rs\<close>), \<open>Traffic\<close> (\<open>traffic.rs\<close>), \<open>TrafficRules\<close> (locale
    \<open>metered\<close>: clients, users and nodes are charged alike), \<open>TrafficProps\<close>, \<open>TrafficOverview\<close>
    (\<open>api/handlers/traffic.rs\<close>).
  \<^item> \<open>Notify\<close> (\<open>api/handlers/mod.rs\<close>, the client notifications), \<open>SubscriptionApi\<close>,
    \<open>SubscriptionProps\<close> (\<open>api/handlers/subscription.rs\<close> and the books its handlers keep on users).
  \<^item> \<open>ClientApi\<close>, \<open>UserApi\<close>, \<open>NodeApi\<close> (the handlers of \<open>client.rs\<close>, \<open>user.rs\<close>, \<open>node.rs\<close>,
    \<open>dashboard.rs\<close>), with their limits, guards and effects in \<open>AccountProps\<close>; \<open>Settings\<close>,
    \<open>SettingsProps\<close> (\<open>config_manager.rs\<close>, \<open>system_config.rs\<close>): the settings table and its cache;
    \<open>AuthApi\<close> (\<open>auth.rs\<close>): passwords, sessions and registration.
  \<^item> \<open>GrpcServices\<close> (\<open>grpc_agent_server_service.rs\<close>, \<open>grpc_agent_client_service.rs\<close>,
    \<open>local_auth_provider.rs\<close>): the streams the controller serves; \<open>GrpcProps\<close> (locale \<open>db_blind\<close>:
    statements that leave a part of the world alone, for the operation log and the sessions).

  \<^item> \<open>NodeListeners\<close> (\<open>proxy_server.rs\<close>, \<open>domain_proxy.rs\<close> of the node): the tables of listeners and of
    shared ports, whose consistency is stated and kept in \<open>NodeRoutes\<close>; \<open>NodeControl\<close>
    (\<open>local_proxy_control.rs\<close>, \<open>tunnel_manager.rs\<close>, \<open>grpc_client.rs\<close>): the commands of the controller;
    \<open>NodeProps\<close>: what a command leaves behind. \<open>NodeSessions\<close> (locale \<open>listener_op\<close>, interpreted for each
    operation on listeners): the client connections, as a step relation with every interleaving.
  \<^item> \<open>HttpProxy\<close> (\<open>domain_proxy.rs\<close>): admission and headers of HTTP requests, TLS by server name.
    \<open>NodeTraffic\<close> (\<open>traffic.rs\<close> of the node): the reports, read by the controller's model.
    \<open>NodeQuestions\<close> (\<open>grpc_auth_provider.rs\<close>): a node's questions, answered by the controller's model.
  \<^item> \<open>Reconnect\<close> (\<open>common/src/utils.rs\<close>, \<open>grpc/connection.rs\<close>): waits between attempts, the loop that
    connects, the heartbeat. \<open>NodeSupport\<close> (\<open>speed_limiter.rs\<close>, \<open>node_logs.rs\<close>, \<open>log_collector.rs\<close>): the
    speed limiter, log buffers, the arguments of a restart.
  \<^item> \<open>ClientProgram\<close> (\<open>connection_manager.rs\<close>, \<open>grpc_client.rs\<close> of the client), \<open>ClientLoop\<close>: the connections a
    client keeps, after the lists the controller's model pushes; its commands.
  \<^item> \<open>TunnelStreams\<close> (\<open>connector.rs\<close> and \<open>proxy_server.rs\<close>): the bytes on a stream, copying, datagrams;
    \<open>YamuxDriver\<close> (\<open>common/src/tunnel/tcp.rs\<close>): the task that drives a multiplexed connection.

  \<^item> \<open>Schema\<close>, \<open>Migrations\<close> (\<open>controller/src/migration\<close>): tables, columns and settings rows, and what each of
    the migrations does to them in both directions. \<open>EntityFields\<close> (\<open>entity\<close>): the columns the rows of the
    code read; \<open>MigrationProps\<close>: after all migrations they are the columns of the tables, and every migration
    can be taken back, with the settings but those one of them deletes. \<open>RebuildProps\<close>: the migration that copies
    a table with the rows in it, and when its way back is refused.
  \<^item> \<open>Startup\<close> (\<open>config/mod.rs\<close>, \<open>main.rs\<close>, \<open>api/mod.rs\<close>, \<open>grpc_server.rs\<close> of the controller): the files the
    controller reads and writes when it starts, its configuration, the secret, the administrator, the choice
    between TLS and plain text; \<open>StartupProps\<close>: what holds when it is up, and when it starts again.
  \<^item> \<open>Systemd\<close> (\<open>common/src/systemd.rs\<close>): the unit files, read back with the rules of systemd's manual (words,
    quotes, escapes; what specifiers and variables stand for is not in the file and has no value).
    \<open>CommandLine\<close> (\<open>main.rs\<close> of the three programs, \<open>process_status.rs\<close>, \<open>log_viewer.rs\<close>): the options each command
    has (\<open>clap\<close> refuses others), and what the commands do with them, the process of a daemon, the logs; \<open>Services\<close>: installing and removing a service; \<open>Programs\<close>: the
    commands of each program as its \<open>main\<close> carries them out;
    \<open>CommandProps\<close>: restarts and services keep the options.
  \<^item> \<open>NodeStart\<close> (\<open>connect_and_authenticate\<close>, \<open>reconnect\<close> and \<open>message_loop\<close> of the node's \<open>grpc_client.rs\<close>, its
    \<open>mod.rs\<close>; \<open>connect_and_run\<close> and \<open>run_client\<close> of the client): how the programs get their streams and what
    they start; \<open>NodeStartProps\<close>: a node comes up as the controller's database has it.
  \<^item> \<open>GeoIp\<close> (\<open>geo_ip.rs\<close>), \<open>CertNames\<close> (\<open>cert_generator.rs\<close>), \<open>ServerSettings\<close> (\<open>config_manager.rs\<close> of the
    node): the place of an address, the names in a certificate, the settings of a node. \<open>CertCheck\<close>
    (\<open>common/src/tunnel/quic.rs\<close>): fingerprints, and which certificates a client accepts once
    a node's has been replaced.
  \<^item> \<open>Updates\<close> (\<open>common/src/update.rs\<close>, \<open>api/handlers/version.rs\<close>): routes and downloads of a new program,
    the orders to update; \<open>UpdateProps\<close>: no partial file is left, and who is asked.

  Conventions. A handler is a program of the state monad over \<open>World.world\<close> that returns an error or
  a value; \<open>wp m Q w\<close> says that running \<open>m\<close> in \<open>w\<close> ends in a result and a world that satisfy \<open>Q\<close>, so
  it includes that the program returns. \<open>w_faults\<close> lists which of the coming statements fail;
  \<open>healthy\<close> worlds have none, and the theorems without that hypothesis hold for every pattern of
  failures. Node and client are records changed by functions, or step relations where tasks
  interleave; what the world outside answers (ports, sockets, polls, randomness) is an argument of a
  step. Recursions are structural or have a measure; no fuel is used. A loop that may run for ever is
  a partial function, whose value is \<open>None\<close> when it does, and its theorem says when it returns.

  Assumptions. A handler or a command runs as one step with a constant clock; an operation on a table
  of the node is one step because the table is locked. SQLite compares a number with a text column in
  decimal; integers wrap as in a release build; message texts are constructors. What other crates
  compute (URLs, base64, certificates, dates, JSON, password hashes, tokens, the parsers of HTTP and
  TLS) is an argument of the definitions. The transports deliver the bytes of a stream in order.

  Not modelled: the crates for QUIC, KCP, yamux and TLS, and sockets beyond the ports they hold; what SQLite
  does with a table that is altered (its columns are kept as a list); the output of the commands, the
  forking of a daemon and the replacement of the running program (system calls and the crate \<open>self_update\<close>);
  the table of HTTP routes, the files of the dashboard, the timers that call the monitors; the variants for
  Windows.
\<close>

end
